(* ===== verification/Rust_Str.thy ===== *)
theory Rust_Str
  imports Prelude
begin

text \<open>
  The functions of \<open>str\<close>, \<open>u8\<close> and \<open>format!\<close> that the crates call, on the UTF-8 bytes of a
  string (a byte is a \<open>char\<close>, its value \<open>byte c\<close>): ASCII classification and case folding, \<open>trim\<close> (the white space characters of
  Unicode, by their encoded forms), \<open>split\<close> at an ASCII byte, \<open>starts_with\<close>, \<open>contains\<close>,
  \<open>char::is_control\<close>, decimal integers and the \<open>{:02x}\<close> encoding of a digest.
\<close>

section \<open>Bytes\<close>

definition byte :: "char \<Rightarrow> nat" where
  "byte c = of_char c"

lemma byte_less [simp]: "byte c < 256"
  by (simp add: byte_def)

lemma byte_inj: "byte c = byte d \<longleftrightarrow> c = d"
  by (simp add: byte_def)

definition is_ascii_lowercase :: "char \<Rightarrow> bool" where
  "is_ascii_lowercase c \<longleftrightarrow> 97 \<le> byte c \<and> byte c \<le> 122"

definition is_ascii_uppercase :: "char \<Rightarrow> bool" where
  "is_ascii_uppercase c \<longleftrightarrow> 65 \<le> byte c \<and> byte c \<le> 90"

definition is_ascii_digit :: "char \<Rightarrow> bool" where
  "is_ascii_digit c \<longleftrightarrow> 48 \<le> byte c \<and> byte c \<le> 57"

definition ascii_lower :: "char \<Rightarrow> char" where
  "ascii_lower c = (if is_ascii_uppercase c then char_of (byte c + 32) else c)"

definition to_ascii_lowercase :: "string \<Rightarrow> string" where
  "to_ascii_lowercase s = map ascii_lower s"

definition replace_byte :: "char \<Rightarrow> char \<Rightarrow> string \<Rightarrow> string" where
  "replace_byte a b s = map (\<lambda>c. if c = a then b else c) s"

lemma ascii_lower_idem [simp]: "ascii_lower (ascii_lower c) = ascii_lower c"
  by (auto simp: ascii_lower_def is_ascii_uppercase_def byte_def)

lemma to_ascii_lowercase_idem [simp]: "to_ascii_lowercase (to_ascii_lowercase s) = to_ascii_lowercase s"
  by (simp add: to_ascii_lowercase_def)

section \<open>White space and trim\<close>

text \<open>
  The number of bytes of the white space character a string starts with, 0 when it starts with
  none: U+0009 to U+000D, U+0020, U+0085, U+00A0, U+1680, U+2000 to U+200A, U+2028, U+2029,
  U+202F, U+205F and U+3000.
\<close>

definition ws1 :: "nat \<Rightarrow> bool" where
  "ws1 a \<longleftrightarrow> (9 \<le> a \<and> a \<le> 13) \<or> a = 32"

definition ws2 :: "nat \<Rightarrow> nat \<Rightarrow> bool" where
  "ws2 a b \<longleftrightarrow> a = 194 \<and> (b = 133 \<or> b = 160)"

definition ws3 :: "nat \<Rightarrow> nat \<Rightarrow> nat \<Rightarrow> bool" where
  "ws3 a b c \<longleftrightarrow>
     (a = 225 \<and> b = 154 \<and> c = 128) \<or>
     (a = 226 \<and> b = 128 \<and> (128 \<le> c \<and> c \<le> 138 \<or> c = 168 \<or> c = 169 \<or> c = 175)) \<or>
     (a = 226 \<and> b = 129 \<and> c = 159) \<or>
     (a = 227 \<and> b = 128 \<and> c = 128)"

fun ws_head :: "string \<Rightarrow> nat" where
  "ws_head [] = 0"
| "ws_head [a] = (if ws1 (byte a) then 1 else 0)"
| "ws_head [a, b] = (if ws1 (byte a) then 1 else if ws2 (byte a) (byte b) then 2 else 0)"
| "ws_head (a # b # c # s) =
     (if ws1 (byte a) then 1 else if ws2 (byte a) (byte b) then 2
      else if ws3 (byte a) (byte b) (byte c) then 3 else 0)"

text \<open>The same at the end of a string, which is given reversed.\<close>

fun ws_last :: "string \<Rightarrow> nat" where
  "ws_last [] = 0"
| "ws_last [a] = (if ws1 (byte a) then 1 else 0)"
| "ws_last [a, b] = (if ws1 (byte a) then 1 else if ws2 (byte b) (byte a) then 2 else 0)"
| "ws_last (a # b # c # s) =
     (if ws1 (byte a) then 1 else if ws2 (byte b) (byte a) then 2
      else if ws3 (byte c) (byte b) (byte a) then 3 else 0)"

lemma ws_head_le: "ws_head s \<le> length s"
  by (cases s rule: ws_head.cases) auto

lemma ws_last_le: "ws_last s \<le> length s"
  by (cases s rule: ws_last.cases) auto

function trim_start :: "string \<Rightarrow> string" where
  "trim_start s = (if ws_head s = 0 then s else trim_start (drop (ws_head s) s))"
  by pat_completeness auto
termination
proof (relation "measure length")
  fix s :: string
  assume "ws_head s \<noteq> 0"
  then show "(drop (ws_head s) s, s) \<in> measure length"
    using ws_head_le[of s] by auto
qed simp

function trim_rev :: "string \<Rightarrow> string" where
  "trim_rev s = (if ws_last s = 0 then s else trim_rev (drop (ws_last s) s))"
  by pat_completeness auto
termination
proof (relation "measure length")
  fix s :: string
  assume "ws_last s \<noteq> 0"
  then show "(drop (ws_last s) s, s) \<in> measure length"
    using ws_last_le[of s] by auto
qed simp

declare trim_start.simps [simp del] trim_rev.simps [simp del]

definition trim :: "string \<Rightarrow> string" where
  "trim s = rev (trim_rev (rev (trim_start s)))"

lemma trim_start_length: "length (trim_start s) \<le> length s"
proof (induction s rule: trim_start.induct)
  case (1 s)
  then show ?case by (subst trim_start.simps) auto
qed

lemma trim_rev_length: "length (trim_rev s) \<le> length s"
proof (induction s rule: trim_rev.induct)
  case (1 s)
  then show ?case by (subst trim_rev.simps) auto
qed

lemma trim_start_id_iff: "trim_start s = s \<longleftrightarrow> ws_head s = 0"
proof
  assume eq: "trim_start s = s"
  show "ws_head s = 0"
  proof (rule ccontr)
    assume pos: "ws_head s \<noteq> 0"
    have "length (trim_start s) = length (trim_start (drop (ws_head s) s))"
      using pos by (subst trim_start.simps) simp
    also have "\<dots> \<le> length (drop (ws_head s) s)" by (rule trim_start_length)
    also have "\<dots> < length s" using pos ws_head_le[of s] by auto
    finally show False using eq by simp
  qed
qed (simp add: trim_start.simps)

lemma trim_rev_id_iff: "trim_rev s = s \<longleftrightarrow> ws_last s = 0"
proof
  assume eq: "trim_rev s = s"
  show "ws_last s = 0"
  proof (rule ccontr)
    assume pos: "ws_last s \<noteq> 0"
    have "length (trim_rev s) = length (trim_rev (drop (ws_last s) s))"
      using pos by (subst trim_rev.simps) simp
    also have "\<dots> \<le> length (drop (ws_last s) s)" by (rule trim_rev_length)
    also have "\<dots> < length s" using pos ws_last_le[of s] by auto
    finally show False using eq by simp
  qed
qed (simp add: trim_rev.simps)

text \<open>A string equals its trimmed form exactly when neither end is white space.\<close>

lemma trim_id_iff: "trim s = s \<longleftrightarrow> ws_head s = 0 \<and> ws_last (rev s) = 0"
proof
  assume eq: "trim s = s"
  have "length (trim s) \<le> length (trim_start s)"
    using trim_rev_length[of "rev (trim_start s)"] by (simp add: trim_def)
  with eq have "length s \<le> length (trim_start s)" by simp
  have h: "ws_head s = 0"
  proof (rule ccontr)
    assume pos: "ws_head s \<noteq> 0"
    have "length (trim_start s) = length (trim_start (drop (ws_head s) s))"
      using pos by (subst trim_start.simps) simp
    also have "\<dots> \<le> length (drop (ws_head s) s)" by (rule trim_start_length)
    also have "\<dots> < length s" using pos ws_head_le[of s] by auto
    finally show False using \<open>length s \<le> length (trim_start s)\<close> by simp
  qed
  then have "trim_start s = s" by (simp add: trim_start_id_iff)
  with eq have "trim_rev (rev s) = rev s" by (metis rev_rev_ident trim_def)
  with h show "ws_head s = 0 \<and> ws_last (rev s) = 0" by (simp add: trim_rev_id_iff)
next
  assume "ws_head s = 0 \<and> ws_last (rev s) = 0"
  then have "trim_start s = s" and "trim_rev (rev s) = rev s"
    by (simp_all add: trim_start_id_iff trim_rev_id_iff)
  then show "trim s = s" by (simp add: trim_def)
qed

text \<open>An ASCII byte in front of a string does not lengthen the white space it ends with.\<close>

lemma ws_last_append:
  assumes "ws_last (rev s) = 0" and "s \<noteq> []" and "byte c < 128"
  shows "ws_last (rev s @ c # r) = 0"
proof (cases "rev s" rule: ws_last.cases)
  case 1
  with assms(2) show ?thesis by simp
next
  case (2 a)
  with assms show ?thesis
    by (cases r) (auto simp: ws1_def ws2_def ws3_def split: if_splits)
next
  case (3 a b)
  with assms show ?thesis
    by (auto simp: ws1_def ws2_def ws3_def split: if_splits)
next
  case (4 a b c t)
  with assms show ?thesis by simp
qed

section \<open>Splitting and searching\<close>

fun split_byte :: "char \<Rightarrow> string \<Rightarrow> string list" where
  "split_byte d [] = [[]]"
| "split_byte d (c # s) =
     (if c = d then [] # split_byte d s
      else (case split_byte d s of [] \<Rightarrow> [[c]] | w # ws \<Rightarrow> (c # w) # ws))"

fun join_byte :: "char \<Rightarrow> string list \<Rightarrow> string" where
  "join_byte d [] = []"
| "join_byte d [w] = w"
| "join_byte d (w # v # ws) = w @ d # join_byte d (v # ws)"

lemma split_byte_nonempty [simp]: "split_byte d s \<noteq> []"
  by (induction s) (auto split: list.splits)

lemma split_byte_no_sep: "w \<in> set (split_byte d s) \<Longrightarrow> d \<notin> set w"
proof (induction s arbitrary: w)
  case Nil
  then show ?case by simp
next
  case (Cons c s)
  then show ?case by (cases "split_byte d s") (auto split: if_splits)
qed

lemma join_split_byte [simp]: "join_byte d (split_byte d s) = s"
proof (induction s)
  case Nil
  then show ?case by simp
next
  case (Cons c s)
  then show ?case
    by (cases "split_byte d s"; cases "tl (split_byte d s)") auto
qed

definition starts_with :: "string \<Rightarrow> string \<Rightarrow> bool" where
  "starts_with s p \<longleftrightarrow> take (length p) s = p"

fun contains_str :: "string \<Rightarrow> string \<Rightarrow> bool" where
  "contains_str [] p \<longleftrightarrow> p = []"
| "contains_str (c # s) p \<longleftrightarrow> starts_with (c # s) p \<or> contains_str s p"

lemma contains_str_iff: "contains_str s p \<longleftrightarrow> (\<exists>u v. s = u @ p @ v)"
proof (induction s)
  case Nil
  then show ?case by auto
next
  case (Cons c s)
  have "starts_with (c # s) p \<longleftrightarrow> (\<exists>v. c # s = p @ v)"
    unfolding starts_with_def by (metis append_eq_conv_conj append_take_drop_id)
  moreover have "(\<exists>u v. c # s = u @ p @ v) \<longleftrightarrow>
      (\<exists>v. c # s = p @ v) \<or> (\<exists>u v. s = u @ p @ v)"
    by (metis append_Cons append_Nil list.exhaust list.inject)
  ultimately show ?case using Cons.IH by auto
qed

text \<open>Any character of general category Cc: U+0000 to U+001F and U+007F to U+009F.\<close>

fun has_control :: "string \<Rightarrow> bool" where
  "has_control [] \<longleftrightarrow> False"
| "has_control (c # s) \<longleftrightarrow> byte c < 32 \<or> byte c = 127 \<or>
     (byte c = 194 \<and> (case s of [] \<Rightarrow> False | d # _ \<Rightarrow> 128 \<le> byte d \<and> byte d < 160)) \<or>
     has_control s"

section \<open>Numbers in formatted strings\<close>

fun show_nat :: "nat \<Rightarrow> string" where
  "show_nat n = (if n < 10 then [char_of (48 + n)] else show_nat (n div 10) @ [char_of (48 + n mod 10)])"

declare show_nat.simps [simp del]

definition show_int :: "int \<Rightarrow> string" where
  "show_int i = (if i < 0 then CHR ''-'' # show_nat (nat (- i)) else show_nat (nat i))"

fun parse_digits :: "nat \<Rightarrow> string \<Rightarrow> nat" where
  "parse_digits acc [] = acc"
| "parse_digits acc (c # s) = parse_digits (10 * acc + (byte c - 48)) s"

lemma parse_digits_append: "parse_digits acc (s @ t) = parse_digits (parse_digits acc s) t"
  by (induction s arbitrary: acc) auto

lemma parse_show_nat: "parse_digits 0 (show_nat n) = n"
proof (induction n rule: show_nat.induct)
  case (1 n)
  show ?case
  proof (cases "n < 10")
    case True
    then show ?thesis by (subst show_nat.simps) (simp add: byte_def)
  next
    case False
    then have "n mod 10 < 10" by simp
    with False 1 show ?thesis
      by (subst show_nat.simps) (simp add: parse_digits_append byte_def)
  qed
qed

lemma show_nat_inj: "show_nat m = show_nat n \<longleftrightarrow> m = n"
  by (metis parse_show_nat)

lemma show_nat_digits: "c \<in> set (show_nat n) \<Longrightarrow> is_ascii_digit c"
proof (induction n rule: show_nat.induct)
  case (1 n)
  show ?case
  proof (cases "n < 10")
    case True
    with 1(2) show ?thesis
      by (subst (asm) show_nat.simps) (auto simp: is_ascii_digit_def byte_def)
  next
    case False
    have "n mod 10 < 10" by simp
    then have "n mod 10 \<le> 9" by linarith
    with 1 False show ?thesis
      by (subst (asm) (2) show_nat.simps) (auto simp: is_ascii_digit_def byte_def)
  qed
qed

lemma show_nat_nonempty [simp]: "show_nat n \<noteq> []"
  by (subst show_nat.simps) simp

definition hex_digit :: "nat \<Rightarrow> char" where
  "hex_digit n = (if n < 10 then char_of (48 + n) else char_of (87 + n))"

definition hex_byte :: "char \<Rightarrow> string" where
  "hex_byte b = [hex_digit (byte b div 16), hex_digit (byte b mod 16)]"

definition hex_encode :: "string \<Rightarrow> string" where
  "hex_encode bs = concat (map hex_byte bs)"

lemma hex_digit_byte: "n < 16 \<Longrightarrow> byte (hex_digit n) = (if n < 10 then 48 + n else 87 + n)"
  by (auto simp: hex_digit_def byte_def)

lemma hex_digit_inj:
  assumes "m < 16" and "n < 16"
  shows "hex_digit m = hex_digit n \<longleftrightarrow> m = n"
proof
  assume "hex_digit m = hex_digit n"
  then have "byte (hex_digit m) = byte (hex_digit n)" by simp
  with assms show "m = n" by (auto simp: hex_digit_byte split: if_splits)
qed simp

lemma hex_byte_inj: "hex_byte a = hex_byte b \<longleftrightarrow> a = b"
proof
  assume eq: "hex_byte a = hex_byte b"
  have "byte a div 16 < 16" "byte b div 16 < 16"
    using byte_less[of a] byte_less[of b] by (auto simp del: byte_less)
  with eq have "byte a div 16 = byte b div 16" and "byte a mod 16 = byte b mod 16"
    by (simp_all add: hex_byte_def hex_digit_inj)
  then have "byte a = byte b" by (metis div_mult_mod_eq)
  then show "a = b" by (simp add: byte_inj)
qed simp

lemma hex_encode_inj: "hex_encode as = hex_encode bs \<longleftrightarrow> as = bs"
proof
  show "hex_encode as = hex_encode bs \<Longrightarrow> as = bs"
  proof (induction as arbitrary: bs)
    case Nil
    then show ?case by (cases bs) (auto simp: hex_encode_def hex_byte_def)
  next
    case (Cons a as)
    then obtain b bs' where bs: "bs = b # bs'"
      by (cases bs) (auto simp: hex_encode_def hex_byte_def)
    with Cons.prems have "hex_byte a = hex_byte b" "hex_encode as = hex_encode bs'"
      by (auto simp: hex_encode_def hex_byte_def)
    with Cons.IH bs show ?case by (simp add: hex_byte_inj)
  qed
qed simp

lemma hex_encode_bytes: "c \<in> set (hex_encode bs) \<Longrightarrow> is_ascii_digit c \<or> is_ascii_lowercase c"
proof -
  assume "c \<in> set (hex_encode bs)"
  then obtain b where "c \<in> set (hex_byte b)" by (auto simp: hex_encode_def)
  moreover have "byte b div 16 < 16" using byte_less[of b] by (auto simp del: byte_less)
  moreover have "byte b mod 16 < 16" by simp
  ultimately show ?thesis
    by (auto simp: hex_byte_def is_ascii_digit_def is_ascii_lowercase_def hex_digit_byte split: if_splits)
qed

end
