(* ===== verification/Core_Ids.thy ===== *)
theory Core_Ids
  imports Rust_Str
begin

text \<open>
  Crate \<open>next-infra-core\<close>, files \<open>error.rs\<close> and \<open>ids.rs\<close>: the domain error, the string values
  with their validating constructors, and the three bounded numbers. A value of a Rust newtype
  over \<open>String\<close> is its string; what the constructor admits is \<open>string_value_ok\<close>,
  \<open>token_ok\<close> and \<open>namespaced_ok\<close>.
\<close>

section \<open>Errors\<close>

datatype ErrorCode =
    InvalidDomainValue
  | NotFound
  | Conflict
  | AuthenticationFailed
  | CredentialUnavailable
  | PermissionDenied
  | RateLimited
  | NetworkUnreachable
  | HostKeyMismatch
  | ProviderUnavailable
  | InvalidResponse
  | SchemaIncompatible
  | PartialPagination
  | Cancelled
  | Internal

record DomainError =
  err_code :: ErrorCode
  err_message :: string
  err_retryable :: bool

definition invalid_value :: "string \<Rightarrow> DomainError" where
  "invalid_value message =
     \<lparr>err_code = InvalidDomainValue, err_message = message, err_retryable = False\<rparr>"

section \<open>String values\<close>

type_synonym ConnectionId = string
type_synonym ResourceId = string
type_synonym ResourceVersionId = string
type_synonym RelationId = string
type_synonym RelationVersionId = string
type_synonym BindingId = string
type_synonym InferenceRunId = string
type_synonym SyncRunId = string
type_synonym ChangeId = string
type_synonym ExternalId = string
type_synonym Scope = string
type_synonym Fingerprint = string
type_synonym EvidenceKey = string
type_synonym FieldPath = string
type_synonym RuleVersion = string
type_synonym SyncCursor = string
type_synonym ConnectorType = string
type_synonym ResourceKind = string
type_synonym RelationKind = string
type_synonym LabelKey = string

text \<open>The constructor that the macro \<open>string_value!\<close> generates for the type \<open>name\<close>.\<close>

definition string_value_new :: "string \<Rightarrow> string \<Rightarrow> DomainError + string" where
  "string_value_new name value =
     (if trim value = [] \<or> trim value \<noteq> value
      then Inl (invalid_value (name @ '' cannot be empty or padded with whitespace''))
      else Inr value)"

definition token_byte :: "char \<Rightarrow> bool" where
  "token_byte c \<longleftrightarrow> is_ascii_lowercase c \<or> is_ascii_digit c \<or> c = CHR ''-'' \<or> c = CHR ''_''"

definition validate_token :: "string \<Rightarrow> string \<Rightarrow> DomainError + unit" where
  "validate_token value type_name =
     (if value = [] \<or> \<not> list_all token_byte value
      then Inl (invalid_value (type_name @ '' must be a lowercase token''))
      else Inr ())"

definition validate_namespaced :: "string \<Rightarrow> string \<Rightarrow> DomainError + unit" where
  "validate_namespaced value type_name =
     (let segments = split_byte CHR ''.'' value in
      if length segments < 2
      then Inl (invalid_value (type_name @ '' must contain a namespace''))
      else res_all (\<lambda>segment. validate_token segment type_name) segments)"

text \<open>The constructor that the macro \<open>validated_string!\<close> generates for a validator.\<close>

definition validated_string_new ::
    "(string \<Rightarrow> string \<Rightarrow> DomainError + unit) \<Rightarrow> string \<Rightarrow> string \<Rightarrow> DomainError + string" where
  "validated_string_new validator name value = res_bind (validator value name) (\<lambda>_. Inr value)"

definition ConnectorType_new :: "string \<Rightarrow> DomainError + ConnectorType" where
  "ConnectorType_new = validated_string_new validate_token ''ConnectorType''"

definition ResourceKind_new :: "string \<Rightarrow> DomainError + ResourceKind" where
  "ResourceKind_new = validated_string_new validate_namespaced ''ResourceKind''"

definition RelationKind_new :: "string \<Rightarrow> DomainError + RelationKind" where
  "RelationKind_new = validated_string_new validate_namespaced ''RelationKind''"

definition LabelKey_new :: "string \<Rightarrow> DomainError + LabelKey" where
  "LabelKey_new = validated_string_new validate_namespaced ''LabelKey''"

section \<open>Bounded numbers\<close>

type_synonym SchemaVersion = "32 word"

definition DOMAIN_SCHEMA_VERSION :: SchemaVersion where
  "DOMAIN_SCHEMA_VERSION = 1"

definition SchemaVersion_new :: "32 word \<Rightarrow> DomainError + SchemaVersion" where
  "SchemaVersion_new value =
     (if value = 0 then Inl (invalid_value ''SchemaVersion must be positive'') else Inr value)"

text \<open>A \<open>Timestamp\<close> wraps an \<open>i64\<close>; it is kept as an integer, with the range written out.\<close>

type_synonym Timestamp = int

definition i64_max :: int where
  "i64_max = 9223372036854775807"

definition from_unix_millis :: "int \<Rightarrow> DomainError + Timestamp" where
  "from_unix_millis value =
     (if value < 0 then Inl (invalid_value ''Timestamp cannot be negative'') else Inr value)"

type_synonym Confidence = "16 word"

definition from_basis_points :: "16 word \<Rightarrow> DomainError + Confidence" where
  "from_basis_points value =
     (if value > 10000
      then Inl (invalid_value ''Confidence cannot exceed 10000 basis points'')
      else Inr value)"

section \<open>What the constructors admit\<close>

definition string_value_ok :: "string \<Rightarrow> bool" where
  "string_value_ok s \<longleftrightarrow> s \<noteq> [] \<and> ws_head s = 0 \<and> ws_last (rev s) = 0"

definition token_ok :: "string \<Rightarrow> bool" where
  "token_ok s \<longleftrightarrow> s \<noteq> [] \<and> list_all token_byte s"

definition namespaced_ok :: "string \<Rightarrow> bool" where
  "namespaced_ok s \<longleftrightarrow>
     2 \<le> length (split_byte CHR ''.'' s) \<and> (\<forall>w\<in>set (split_byte CHR ''.'' s). token_ok w)"

lemma string_value_new_eq_Inr [res_simps]:
  "string_value_new name value = Inr v \<longleftrightarrow> string_value_ok value \<and> v = value"
proof -
  have "trim value = [] \<or> trim value \<noteq> value \<longleftrightarrow> \<not> string_value_ok value"
    unfolding string_value_ok_def trim_id_iff[symmetric] by metis
  then show ?thesis by (auto simp: string_value_new_def)
qed

lemma string_value_new_ok [simp]: "string_value_ok value \<Longrightarrow> string_value_new name value = Inr value"
  by (simp add: string_value_new_eq_Inr)

lemma validate_token_eq_Inr [res_simps]: "validate_token value name = Inr u \<longleftrightarrow> token_ok value"
  by (auto simp: validate_token_def token_ok_def)

lemma validate_namespaced_eq_Inr [res_simps]:
  "validate_namespaced value name = Inr u \<longleftrightarrow> namespaced_ok value"
  by (auto simp: validate_namespaced_def namespaced_ok_def Let_def res_all_eq_Inr
        validate_token_eq_Inr)

lemma validated_string_new_eq_Inr [res_simps]:
  "validated_string_new f name value = Inr v \<longleftrightarrow> f value name = Inr () \<and> v = value"
  by (auto simp: validated_string_new_def res_simps)

text \<open>
  Identifiers are formatted as a fixed word, colons and earlier identifiers. The constructor
  accepts every such string, because the word starts it and an accepted identifier ends it.
\<close>

lemma ws_head_ascii: "\<not> ws1 (byte c) \<Longrightarrow> byte c < 128 \<Longrightarrow> ws_head (c # s) = 0"
  by (cases "c # s" rule: ws_head.cases) (auto simp: ws2_def ws3_def)

lemma string_value_ok_prefix:
  assumes "string_value_ok s" and "byte d < 128" and "byte c < 128" and "\<not> ws1 (byte c)"
  shows "string_value_ok (c # p @ d # s)"
proof -
  from assms(1) have s: "ws_last (rev s) = 0" "s \<noteq> []" by (auto simp: string_value_ok_def)
  have "ws_last (rev s @ d # rev (c # p)) = 0"
    using s assms(2) by (rule ws_last_append)
  then show ?thesis
    using assms by (simp add: string_value_ok_def ws_head_ascii)
qed

lemma ascii_last_ok:
  assumes "s \<noteq> []" and "\<And>c. c \<in> set s \<Longrightarrow> byte c < 128 \<and> \<not> ws1 (byte c)"
  shows "string_value_ok s"
proof -
  obtain c t where s: "s = c # t" using assms(1) by (cases s) auto
  obtain d u where r: "rev s = d # u" using assms(1) by (cases "rev s") auto
  then have "d \<in> set s" by (metis list.set_intros(1) set_rev)
  then have "ws_last (d # u) = 0"
    using assms(2)[of d] by (cases "d # u" rule: ws_last.cases) (auto simp: ws2_def ws3_def)
  with r s assms show ?thesis by (simp add: string_value_ok_def ws_head_ascii)
qed

lemma token_byte_ascii: "token_byte c \<Longrightarrow> byte c < 128 \<and> \<not> ws1 (byte c)"
  by (auto simp: token_byte_def is_ascii_lowercase_def is_ascii_digit_def ws1_def byte_def)

lemma token_string_ok: "token_ok s \<Longrightarrow> string_value_ok s"
  by (auto simp: token_ok_def list_all_iff intro!: ascii_last_ok dest: token_byte_ascii)

lemma set_split_byte: "set s \<subseteq> {d} \<union> \<Union>(set ` set (split_byte d s))"
proof (induction s)
  case Nil
  then show ?case by simp
next
  case (Cons c s)
  then show ?case by (cases "split_byte d s") auto
qed

text \<open>A kind is an identifier too: no byte of it is white space.\<close>

lemma namespaced_string_ok:
  assumes "namespaced_ok s"
  shows "string_value_ok s"
proof (rule ascii_last_ok)
  show "s \<noteq> []" using assms by (auto simp: namespaced_ok_def)
next
  fix c
  assume "c \<in> set s"
  then have "c = CHR ''.'' \<or> (\<exists>w\<in>set (split_byte CHR ''.'' s). c \<in> set w)"
    using set_split_byte[of s "CHR ''.''"] by auto
  then show "byte c < 128 \<and> \<not> ws1 (byte c)"
  proof
    assume "c = CHR ''.''"
    then show ?thesis by (simp add: byte_def ws1_def)
  next
    assume "\<exists>w\<in>set (split_byte CHR ''.'' s). c \<in> set w"
    with assms show ?thesis
      by (auto simp: namespaced_ok_def token_ok_def list_all_iff dest!: token_byte_ascii)
  qed
qed

lemma show_nat_string_ok: "string_value_ok (show_nat n)"
proof (rule ascii_last_ok)
  fix c
  assume "c \<in> set (show_nat n)"
  then have "is_ascii_digit c" by (rule show_nat_digits)
  then show "byte c < 128 \<and> \<not> ws1 (byte c)" by (auto simp: is_ascii_digit_def ws1_def)
qed simp

lemma show_int_string_ok: "string_value_ok (show_int i)"
proof (cases "i < 0")
  case True
  show ?thesis
  proof (rule ascii_last_ok)
    fix c
    assume "c \<in> set (show_int i)"
    with True have "c = CHR ''-'' \<or> is_ascii_digit c"
      by (auto simp: show_int_def dest: show_nat_digits)
    then show "byte c < 128 \<and> \<not> ws1 (byte c)"
      by (auto simp: is_ascii_digit_def ws1_def byte_def)
  qed (simp add: show_int_def)
next
  case False
  then show ?thesis by (simp add: show_int_def show_nat_string_ok)
qed

lemma hex_string_ok:
  assumes "bs \<noteq> []"
  shows "string_value_ok (hex_encode bs)"
proof (rule ascii_last_ok)
  show "hex_encode bs \<noteq> []" using assms by (cases bs) (auto simp: hex_encode_def hex_byte_def)
next
  fix c
  assume "c \<in> set (hex_encode bs)"
  then have "is_ascii_digit c \<or> is_ascii_lowercase c" by (rule hex_encode_bytes)
  then show "byte c < 128 \<and> \<not> ws1 (byte c)"
    by (auto simp: is_ascii_digit_def is_ascii_lowercase_def ws1_def)
qed

lemma from_unix_millis_eq_Inr [res_simps]: "from_unix_millis i = Inr t \<longleftrightarrow> 0 \<le> i \<and> t = i"
  by (auto simp: from_unix_millis_def)

lemma SchemaVersion_new_eq_Inr [res_simps]: "SchemaVersion_new w = Inr v \<longleftrightarrow> w \<noteq> 0 \<and> v = w"
  by (auto simp: SchemaVersion_new_def)

section \<open>Properties\<close>



end
