(* ===== verification/Ordered_Map.thy ===== *)
theory Ordered_Map
  imports Prelude
begin

text \<open>
  \<open>BTreeMap\<close> and \<open>BTreeSet\<close> of the Rust standard library, as association lists and lists
  kept strictly sorted by key: what the sources use of them is lookup, insertion, removal and
  iteration in key order. The locale \<open>ordered_map\<close> is the interface the components rely on;
  the interpretation at the end provides it for the sorted association lists.
\<close>

section \<open>The interface\<close>

locale ordered_map =
  fixes empty :: "'m"
    and get :: "'m \<Rightarrow> 'k::linorder \<Rightarrow> 'v option"
    and insert_key :: "'k \<Rightarrow> 'v \<Rightarrow> 'm \<Rightarrow> 'm"
    and remove_key :: "'k \<Rightarrow> 'm \<Rightarrow> 'm"
    and entries :: "'m \<Rightarrow> ('k \<times> 'v) list"
    and invar :: "'m \<Rightarrow> bool"
  assumes invar_empty: "invar empty"
    and invar_insert: "invar m \<Longrightarrow> invar (insert_key k v m)"
    and invar_remove: "invar m \<Longrightarrow> invar (remove_key k m)"
    and get_empty: "get empty k = None"
    and get_insert: "invar m \<Longrightarrow> get (insert_key k v m) j = (if j = k then Some v else get m j)"
    and get_remove: "invar m \<Longrightarrow> get (remove_key k m) j = (if j = k then None else get m j)"
    and entries_get: "invar m \<Longrightarrow> (k, v) \<in> set (entries m) \<longleftrightarrow> get m k = Some v"
    and entries_sorted: "invar m \<Longrightarrow> sorted_wrt (<) (map fst (entries m))"
begin

lemma invar_fold_insert:
  "invar m \<Longrightarrow> invar (fold (\<lambda>x. insert_key (f x) (g x)) xs m)"
  by (induction xs arbitrary: m) (auto intro: invar_insert)

lemma invar_fold_remove: "invar m \<Longrightarrow> invar (fold remove_key ks m)"
  by (induction ks arbitrary: m) (auto intro: invar_remove)

lemma get_fold_remove:
  "invar m \<Longrightarrow> get (fold remove_key ks m) j = (if j \<in> set ks then None else get m j)"
  by (induction ks arbitrary: m) (auto simp: get_remove invar_remove)

text \<open>A loop of insertions keeps the last value of each key.\<close>

lemma get_fold_insert_not_in:
  "invar m \<Longrightarrow> j \<notin> f ` set xs \<Longrightarrow> get (fold (\<lambda>x. insert_key (f x) (g x)) xs m) j = get m j"
  by (induction xs arbitrary: m) (auto simp: get_insert invar_insert)

lemma get_fold_insert_in:
  assumes "invar m" and "j \<in> f ` set xs"
  shows "\<exists>x\<in>set xs. f x = j \<and> get (fold (\<lambda>x. insert_key (f x) (g x)) xs m) j = Some (g x)"
  using assms
proof (induction xs arbitrary: m)
  case Nil
  then show ?case by simp
next
  case (Cons x xs)
  show ?case
  proof (cases "j \<in> f ` set xs")
    case True
    with Cons.IH[of "insert_key (f x) (g x) m"] Cons.prems show ?thesis
      by (auto simp: invar_insert)
  next
    case False
    with Cons.prems show ?thesis
      by (auto simp: get_fold_insert_not_in invar_insert get_insert)
  qed
qed

lemma distinct_keys: "invar m \<Longrightarrow> distinct (map fst (entries m))"
  using entries_sorted strict_sorted_iff by blast

text \<open>Two maps that answer alike list the same entries in the same order.\<close>

lemma entries_eqI:
  assumes "invar m" and "invar n" and "\<And>k. get m k = get n k"
  shows "entries m = entries n"
proof -
  have sets: "set (entries m) = set (entries n)"
    using assms by (auto simp: entries_get)
  then have "set (map fst (entries m)) = set (map fst (entries n))" by auto
  moreover have "sorted_wrt (<) (map fst (entries m))" "sorted_wrt (<) (map fst (entries n))"
    using assms by (simp_all add: entries_sorted)
  ultimately have keys: "map fst (entries m) = map fst (entries n)"
    by (meson sorted_distinct_set_unique strict_sorted_iff)
  show ?thesis
  proof (rule nth_equalityI)
    show "length (entries m) = length (entries n)"
      using keys by (metis length_map)
  next
    fix i
    assume i: "i < length (entries m)"
    then have i': "i < length (entries n)" using keys by (metis length_map)
    have k: "fst (entries m ! i) = fst (entries n ! i)"
      using keys i i' by (metis nth_map)
    have "get m (fst (entries m ! i)) = Some (snd (entries m ! i))"
      using assms(1) i by (metis entries_get nth_mem prod.collapse)
    moreover have "get n (fst (entries n ! i)) = Some (snd (entries n ! i))"
      using assms(2) i' by (metis entries_get nth_mem prod.collapse)
    ultimately show "entries m ! i = entries n ! i"
      using k assms(3) by (metis option.inject prod.collapse)
  qed
qed

end

section \<open>Sorted association lists\<close>

type_synonym ('k, 'v) btree_map = "('k \<times> 'v) list"

fun bt_get :: "('k::linorder, 'v) btree_map \<Rightarrow> 'k \<Rightarrow> 'v option" where
  "bt_get [] k = None"
| "bt_get ((j, v) # m) k = (if k = j then Some v else bt_get m k)"

fun bt_insert :: "'k::linorder \<Rightarrow> 'v \<Rightarrow> ('k, 'v) btree_map \<Rightarrow> ('k, 'v) btree_map" where
  "bt_insert k v [] = [(k, v)]"
| "bt_insert k v ((j, w) # m) =
     (if k < j then (k, v) # (j, w) # m else if k = j then (k, v) # m else (j, w) # bt_insert k v m)"

definition bt_remove :: "'k::linorder \<Rightarrow> ('k, 'v) btree_map \<Rightarrow> ('k, 'v) btree_map" where
  "bt_remove k m = filter (\<lambda>(j, w). j \<noteq> k) m"

definition bt_keys :: "('k::linorder, 'v) btree_map \<Rightarrow> 'k list" where
  "bt_keys m = map fst m"

definition bt_values :: "('k::linorder, 'v) btree_map \<Rightarrow> 'v list" where
  "bt_values m = map snd m"

definition bt_wf :: "('k::linorder, 'v) btree_map \<Rightarrow> bool" where
  "bt_wf m \<longleftrightarrow> sorted_wrt (<) (map fst m)"

definition bt_of_list :: "('k::linorder \<times> 'v) list \<Rightarrow> ('k, 'v) btree_map" where
  "bt_of_list xs = fold (\<lambda>(k, v). bt_insert k v) xs []"

lemma bt_wf_Nil [simp]: "bt_wf []"
  by (simp add: bt_wf_def)

lemma bt_wf_Cons: "bt_wf ((k, v) # m) \<longleftrightarrow> bt_wf m \<and> (\<forall>j\<in>fst ` set m. k < j)"
  by (auto simp: bt_wf_def)

lemma bt_keys_insert: "fst ` set (bt_insert k v m) = insert k (fst ` set m)"
  by (induction k v m rule: bt_insert.induct) auto

lemma bt_wf_insert: "bt_wf m \<Longrightarrow> bt_wf (bt_insert k v m)"
  by (induction k v m rule: bt_insert.induct) (auto simp: bt_wf_Cons bt_keys_insert)

lemma bt_get_insert: "bt_get (bt_insert k v m) j = (if j = k then Some v else bt_get m j)"
  by (induction k v m rule: bt_insert.induct) auto

lemma bt_wf_filter: "bt_wf m \<Longrightarrow> bt_wf (filter P m)"
  by (induction m) (auto simp: bt_wf_Cons)

lemma bt_wf_remove: "bt_wf m \<Longrightarrow> bt_wf (bt_remove k m)"
  by (simp add: bt_remove_def bt_wf_filter)

lemma bt_get_None_iff: "bt_get m k = None \<longleftrightarrow> k \<notin> fst ` set m"
  by (induction m) (auto split: if_splits)

lemma bt_get_remove: "bt_get (bt_remove k m) j = (if j = k then None else bt_get m j)"
  by (induction m) (auto simp: bt_remove_def)

lemma bt_mem_iff: "bt_wf m \<Longrightarrow> (k, v) \<in> set m \<longleftrightarrow> bt_get m k = Some v"
proof (induction m)
  case Nil
  then show ?case by simp
next
  case (Cons e m)
  obtain j w where e: "e = (j, w)" by (cases e)
  with Cons have "bt_wf m" and lt: "\<And>i u. (i, u) \<in> set m \<Longrightarrow> j < i"
    by (auto simp: bt_wf_Cons)
  with Cons.IH e show ?case by (auto dest: lt)
qed

lemma bt_get_mem: "bt_get m k = Some v \<Longrightarrow> (k, v) \<in> set m"
  by (induction m) (auto split: if_splits)

interpretation bt: ordered_map "[]" bt_get bt_insert bt_remove "\<lambda>m. m" bt_wf
proof unfold_locales
  show "bt_get (bt_insert k v m) j = (if j = k then Some v else bt_get m j)"
    for k v j and m :: "('k::linorder, 'v) btree_map"
    by (rule bt_get_insert)
next
  show "(k, v) \<in> set m \<longleftrightarrow> bt_get m k = Some v" if "bt_wf m"
    for k v and m :: "('k::linorder, 'v) btree_map"
    using that by (rule bt_mem_iff)
qed (auto simp: bt_wf_insert bt_wf_remove bt_get_remove, simp add: bt_wf_def)

lemma bt_wf_ext:
  "bt_wf m \<Longrightarrow> bt_wf n \<Longrightarrow> (\<And>k. bt_get m k = bt_get n k) \<Longrightarrow> m = n"
  by (rule bt.entries_eqI)

lemma bt_wf_distinct: "bt_wf m \<Longrightarrow> distinct (map fst m)"
  by (rule bt.distinct_keys)

lemma bt_get_filter:
  "bt_wf m \<Longrightarrow> bt_get (filter P m) k =
     (case bt_get m k of None \<Rightarrow> None | Some v \<Rightarrow> if P (k, v) then Some v else None)"
proof (induction m)
  case Nil
  then show ?case by simp
next
  case (Cons e m)
  obtain j w where e: "e = (j, w)" by (cases e)
  with Cons.prems have wf: "bt_wf m" and lt: "\<forall>i\<in>fst ` set m. j < i"
    by (auto simp: bt_wf_Cons)
  have "bt_get m j = None" using lt by (auto simp: bt_get_None_iff)
  then have "bt_get (filter P m) j = None" by (auto simp: bt_get_None_iff)
  with Cons.IH[OF wf] e show ?case by (auto split: option.splits)
qed

lemma bt_get_map:
  "bt_get (map (\<lambda>(k, v). (k, f k v)) m) k = map_option (f k) (bt_get m k)"
  by (induction m) auto

lemma bt_wf_map: "bt_wf (map (\<lambda>(k, v). (k, f k v)) m) \<longleftrightarrow> bt_wf m"
proof -
  have "map fst (map (\<lambda>(k, v). (k, f k v)) m) = map fst m" by auto
  then show ?thesis by (simp add: bt_wf_def del: map_map)
qed

lemma bt_values_iff: "bt_wf m \<Longrightarrow> v \<in> set (bt_values m) \<longleftrightarrow> (\<exists>k. bt_get m k = Some v)"
  unfolding bt_values_def using bt_mem_iff[of m] by force

lemma bt_keys_iff: "k \<in> set (bt_keys m) \<longleftrightarrow> bt_get m k \<noteq> None"
  by (auto simp: bt_keys_def bt_get_None_iff)

lemma length_bt_insert:
  "bt_wf m \<Longrightarrow> length (bt_insert k v m) = (if bt_get m k = None then Suc (length m) else length m)"
proof (induction k v m rule: bt_insert.induct)
  case (2 k v j w m)
  show ?case
  proof (cases "k < j")
    case True
    with "2.prems" have "k \<notin> fst ` set m" by (force simp: bt_wf_Cons)
    then have "bt_get m k = None" by (simp add: bt_get_None_iff)
    with True show ?thesis by auto
  next
    case False
    with 2 show ?thesis by (auto simp: bt_wf_Cons)
  qed
qed simp

section \<open>Sorted sets\<close>

type_synonym 'k btree_set = "'k list"

fun bs_insert :: "'k::linorder \<Rightarrow> 'k btree_set \<Rightarrow> 'k btree_set" where
  "bs_insert k [] = [k]"
| "bs_insert k (j # s) = (if k < j then k # j # s else if k = j then j # s else j # bs_insert k s)"

definition bs_of_list :: "'k::linorder list \<Rightarrow> 'k btree_set" where
  "bs_of_list xs = fold bs_insert xs []"

definition bs_wf :: "'k::linorder btree_set \<Rightarrow> bool" where
  "bs_wf s \<longleftrightarrow> sorted_wrt (<) s"

lemma set_bs_insert [simp]: "set (bs_insert k s) = insert k (set s)"
  by (induction k s rule: bs_insert.induct) auto

lemma bs_wf_insert: "bs_wf s \<Longrightarrow> bs_wf (bs_insert k s)"
  by (induction k s rule: bs_insert.induct) (auto simp: bs_wf_def)

lemma bs_fold_insert:
  "bs_wf s \<Longrightarrow> bs_wf (fold bs_insert xs s) \<and> set (fold bs_insert xs s) = set xs \<union> set s"
  by (induction xs arbitrary: s) (auto simp: bs_wf_insert)

lemma bs_wf_of_list: "bs_wf (bs_of_list xs)"
  using bs_fold_insert[of "[]" xs] by (simp add: bs_of_list_def bs_wf_def)

lemma set_bs_of_list [simp]: "set (bs_of_list xs) = set xs"
  using bs_fold_insert[of "[]" xs] by (simp add: bs_of_list_def bs_wf_def)

lemma bs_wf_distinct: "bs_wf s \<Longrightarrow> distinct s"
  using strict_sorted_iff by (auto simp: bs_wf_def)

lemma bs_length: "length (bs_of_list xs) = length xs \<longleftrightarrow> distinct xs"
proof -
  have "length (bs_of_list xs) = card (set xs)"
    using distinct_card[OF bs_wf_distinct[OF bs_wf_of_list[of xs]]] by simp
  then show ?thesis by (metis card_distinct distinct_card)
qed

lemma bs_ext: "bs_wf s \<Longrightarrow> bs_wf t \<Longrightarrow> set s = set t \<Longrightarrow> s = t"
  by (metis bs_wf_def sorted_distinct_set_unique strict_sorted_iff)

end
