(* ===== verification/Json.thy ===== *)
theory Json
  imports Rust_Str Ordered_Map
begin

text \<open>
  \<open>serde_json::Value\<close>. The build has no \<open>preserve_order\<close> feature, so the map of an object is a
  \<open>BTreeMap<String, Value>\<close>: an association list sorted by key. A number is what the crate
  stores, an unsigned, a negative or a floating point value, each by its 64 bits. The two
  operations that leave the program, \<open>serde_json::to_vec\<close> and \<open>Sha256::digest\<close>, are the fields
  of the record \<open>codec\<close>, which the definitions that fingerprint a value take as an argument. An error of
  \<open>to_vec\<close> is its text.
\<close>

datatype Number = PosInt "64 word" | NegInt "64 word" | Float "64 word"

datatype Value =
    JNull
  | JBool bool
  | JNumber Number
  | JString string
  | JArray "Value list"
  | JObject "(string \<times> Value) list"

type_synonym json_map = "(string, Value) btree_map"

definition json_object :: "(string \<times> Value) list \<Rightarrow> Value" where
  "json_object fields = JObject (bt_of_list fields)"

fun as_object :: "Value \<Rightarrow> json_map option" where
  "as_object (JObject m) = Some m"
| "as_object _ = None"

definition value_get :: "Value \<Rightarrow> string \<Rightarrow> Value option" where
  "value_get v field = (case v of JObject m \<Rightarrow> bt_get m field | _ \<Rightarrow> None)"

definition json_option :: "('a \<Rightarrow> Value) \<Rightarrow> 'a option \<Rightarrow> Value" where
  "json_option f x = (case x of None \<Rightarrow> JNull | Some y \<Rightarrow> f y)"

text \<open>Every object in the value is sorted by key, as a \<open>BTreeMap\<close> is.\<close>

fun value_wf :: "Value \<Rightarrow> bool" where
  "value_wf (JArray vs) \<longleftrightarrow> (\<forall>v\<in>set vs. value_wf v)"
| "value_wf (JObject m) \<longleftrightarrow> bt_wf m \<and> (\<forall>e\<in>set m. value_wf (snd e))"
| "value_wf _ \<longleftrightarrow> True"

record codec =
  to_vec :: "Value \<Rightarrow> string + string"
  sha256 :: "string \<Rightarrow> string"

definition hex_digest :: "codec \<Rightarrow> Value \<Rightarrow> string + string" where
  "hex_digest c v = map_ok (\<lambda>bs. hex_encode (sha256 c bs)) (to_vec c v)"

text \<open>
  The documented behaviour of the two libraries that the fingerprints rely on: a \<open>Value\<close> always
  serialises (its keys are strings), different values serialise differently, the digest is
  not empty, and (an idealisation of SHA-256) different inputs have different digests.
\<close>

definition codec_total :: "codec \<Rightarrow> bool" where
  "codec_total c \<longleftrightarrow> (\<forall>v. \<exists>bs. to_vec c v = Inr bs \<and> sha256 c bs \<noteq> [])"

definition codec_injective :: "codec \<Rightarrow> bool" where
  "codec_injective c \<longleftrightarrow> inj (to_vec c) \<and> inj (sha256 c)"

lemma hex_digest_total: "codec_total c \<Longrightarrow> \<exists>h. hex_digest c v = Inr h"
  by (metis codec_total_def hex_digest_def map_ok_Inr)

lemma hex_digest_inj:
  assumes "codec_injective c" and "hex_digest c v = Inr h" and "hex_digest c w = Inr h"
  shows "v = w"
proof -
  from assms(2,3) obtain bs cs where bs: "to_vec c v = Inr bs" "h = hex_encode (sha256 c bs)"
    and cs: "to_vec c w = Inr cs" "h = hex_encode (sha256 c cs)"
    by (auto simp: hex_digest_def res_simps)
  then have "sha256 c bs = sha256 c cs" by (simp add: hex_encode_inj)
  with assms(1) have "bs = cs" by (auto simp: codec_injective_def dest: injD)
  with bs(1) cs(1) have "to_vec c v = to_vec c w" by simp
  with assms(1) show ?thesis by (auto simp: codec_injective_def dest: injD)
qed

lemma hex_encode_empty_iff: "hex_encode bs = [] \<longleftrightarrow> bs = []"
  by (cases bs) (auto simp: hex_encode_def hex_byte_def)

lemma hex_digest_nonempty: "codec_total c \<Longrightarrow> hex_digest c v = Inr h \<Longrightarrow> h \<noteq> []"
  unfolding codec_total_def hex_digest_def by (metis hex_encode_empty_iff map_ok_Inr sum.inject(2))

lemma value_get_object [simp]: "value_get (JObject m) k = bt_get m k"
  by (simp add: value_get_def)

lemma bt_of_list_wf: "bt_wf (bt_of_list xs)"
proof -
  have "bt_wf (fold (\<lambda>(k, v). bt_insert k v) xs m)" if "bt_wf m" for m
    using that by (induction xs arbitrary: m) (auto simp: bt_wf_insert)
  then show ?thesis by (simp add: bt_of_list_def)
qed

text \<open>
  The injectivity hypothesis of the codec can hold: bytes that spell out the value are one
  injective encoding, and the identity is a digest without collisions.
\<close>

fun flat_nat :: "nat \<Rightarrow> string" where
  "flat_nat n = replicate n CHR ''1'' @ ''0''"

definition flat_word :: "64 word \<Rightarrow> string" where
  "flat_word w = flat_nat (unat w)"

fun flat_string :: "string \<Rightarrow> string" where
  "flat_string s = flat_nat (length s) @ s"

fun flat_number :: "Number \<Rightarrow> string" where
  "flat_number (PosInt w) = CHR ''p'' # flat_word w"
| "flat_number (NegInt w) = CHR ''n'' # flat_word w"
| "flat_number (Float w) = CHR ''f'' # flat_word w"

fun flat :: "Value \<Rightarrow> string" where
  "flat JNull = ''0''"
| "flat (JBool b) = (if b then ''t'' else ''f'')"
| "flat (JNumber n) = CHR ''n'' # flat_number n"
| "flat (JString s) = CHR ''s'' # flat_string s"
| "flat (JArray vs) = CHR ''a'' # flat_nat (length vs) @ concat (map flat vs)"
| "flat (JObject m) = CHR ''o'' # flat_nat (length m) @ concat (map (\<lambda>e. flat_string (fst e) @ flat (snd e)) m)"

declare flat_nat.simps [simp del] flat_string.simps [simp del]

lemma flat_nat_append: "flat_nat m @ xs = flat_nat n @ ys \<Longrightarrow> m = n \<and> xs = ys"
proof (induction m arbitrary: n)
  case 0
  then show ?case by (cases n) (auto simp: flat_nat.simps)
next
  case (Suc m)
  then show ?case by (cases n) (auto simp: flat_nat.simps)
qed

lemma flat_string_append: "flat_string s @ xs = flat_string t @ ys \<Longrightarrow> s = t \<and> xs = ys"
  by (auto simp: flat_string.simps dest!: flat_nat_append)

lemma flat_number_append: "flat_number a @ xs = flat_number b @ ys \<Longrightarrow> a = b \<and> xs = ys"
  by (cases a; cases b) (auto simp: flat_word_def dest!: flat_nat_append intro: unsigned_word_eqI)

lemma flat_list_append:
  assumes "\<And>v xs w ys. v \<in> set vs \<Longrightarrow> f v @ xs = f w @ ys \<Longrightarrow> v = w \<and> xs = ys"
    and "length vs = length ws" and "concat (map f vs) @ xs = concat (map f ws) @ ys"
  shows "vs = ws \<and> xs = ys"
  using assms(2,1,3)
proof (induction vs ws rule: list_induct2)
  case Nil
  then show ?case by simp
next
  case (Cons v vs w ws)
  from Cons.prems(2) have "f v @ (concat (map f vs) @ xs) = f w @ (concat (map f ws) @ ys)"
    by simp
  then have "v = w" and "concat (map f vs) @ xs = concat (map f ws) @ ys"
    using Cons.prems(1)[of v] by fastforce+
  moreover from this(2) have "vs = ws \<and> xs = ys"
    using Cons.prems(1) by (intro Cons.IH) auto
  ultimately show ?case by simp
qed

lemma flat_append: "flat v @ xs = flat w @ ys \<Longrightarrow> v = w \<and> xs = ys"
proof (induction v arbitrary: w xs ys)
  case JNull
  then show ?case by (cases w) (auto split: if_splits)
next
  case (JBool b)
  then show ?case by (cases w) (auto split: if_splits)
next
  case (JNumber n)
  then show ?case by (cases w) (auto split: if_splits dest!: flat_number_append)
next
  case (JString s)
  then show ?case by (cases w) (auto split: if_splits dest!: flat_string_append)
next
  case (JArray vs)
  from JArray.prems obtain ws where w: "w = JArray ws" by (cases w) (auto split: if_splits)
  with JArray.prems have "length vs = length ws"
    and "concat (map flat vs) @ xs = concat (map flat ws) @ ys"
    by (auto dest!: flat_nat_append)
  then have "vs = ws \<and> xs = ys"
    by (intro flat_list_append[of vs flat ws xs ys] JArray.IH)
  with w show ?case by simp
next
  case (JObject m)
  let ?f = "\<lambda>e. flat_string (fst e) @ flat (snd e)"
  from JObject.prems obtain n where w: "w = JObject n" by (cases w) (auto split: if_splits)
  with JObject.prems have "length m = length n"
    and "concat (map ?f m) @ xs = concat (map ?f n) @ ys"
    by (auto dest!: flat_nat_append)
  moreover have "e = e' \<and> us = vs" if "e \<in> set m" "?f e @ us = ?f e' @ vs" for e e' us vs
  proof -
    from that(2) have "fst e = fst e'" and "flat (snd e) @ us = flat (snd e') @ vs"
      by (auto dest!: flat_string_append)
    moreover have "snd e \<in> Basic_BNFs.snds e" by (cases e) auto
    ultimately show ?thesis using JObject.IH[OF that(1)] by (metis prod.expand)
  qed
  ultimately have "m = n \<and> xs = ys"
    by (intro flat_list_append[of m ?f n xs ys])
  with w show ?case by simp
qed

definition flat_codec :: codec where
  "flat_codec = \<lparr>to_vec = (\<lambda>v. Inr (flat v)), sha256 = (\<lambda>bs. bs)\<rparr>"

lemma flat_inj: "flat v = flat w \<longleftrightarrow> v = w"
  using flat_append[of v "[]" w "[]"] by auto

lemma flat_codec_total: "codec_total flat_codec"
proof -
  have "flat v \<noteq> []" for v by (cases v) auto
  then show ?thesis by (simp add: codec_total_def flat_codec_def)
qed

lemma flat_codec_injective: "codec_injective flat_codec"
  by (auto simp: codec_injective_def flat_codec_def flat_inj inj_def)

text \<open>A codec whose digest is one byte, so that examples can be evaluated.\<close>

definition brief_codec :: codec where
  "brief_codec = \<lparr>to_vec = (\<lambda>v. Inr ''v''), sha256 = (\<lambda>bs. ''d'')\<rparr>"

end
