(* ===== verification/Core_Model.thy ===== *)
theory Core_Model
  imports Core_Ids Json
begin

text \<open>
  Crate \<open>next-infra-core\<close>, files \<open>status.rs\<close>, \<open>coverage.rs\<close>, \<open>evidence.rs\<close>,
  \<open>missing_evidence.rs\<close>, \<open>model.rs\<close> and the commit types of \<open>ports.rs\<close>: the domain data that
  every other component exchanges. Enums are datatypes with the constructors of the source (a
  prefix where two enums share a name), structs are records whose fields carry a prefix
  for the struct. Structs that serve as \<open>BTreeMap\<close> keys are datatypes with the derived
  lexicographic order.
\<close>

section \<open>status.rs\<close>

datatype Lifecycle = Active | Tombstoned | Orphaned

datatype ResourceHealth = Healthy | Degraded | Unhealthy | Unknown

datatype ConnectorHealth =
    ConnectorHealthy | ConnectorDegraded | AuthFailed | ConnectorRateLimited | Unreachable | Disabled

datatype Freshness = Fresh | Stale | Expired

datatype SyncMode = Full | Incremental | Targeted

datatype SyncTrigger = Schedule | User | Startup | Recovery

datatype SyncRunStatus =
    RunRunning | RunSucceeded | RunPartial | RunFailed | RunCancelled | RunInterrupted

datatype BindingStatus = BindingActive | BindingUnresolved | BindingDisabled

datatype InferenceRunStatus = InferenceRunning | InferenceCompleted | InferenceFailed

text \<open>The \<open>snake_case\<close> texts that serde writes for the enums stored in columns or snapshots.\<close>

fun lifecycle_text :: "Lifecycle \<Rightarrow> string" where
  "lifecycle_text Active = ''active''"
| "lifecycle_text Tombstoned = ''tombstoned''"
| "lifecycle_text Orphaned = ''orphaned''"

fun resource_health_text :: "ResourceHealth \<Rightarrow> string" where
  "resource_health_text Healthy = ''healthy''"
| "resource_health_text Degraded = ''degraded''"
| "resource_health_text Unhealthy = ''unhealthy''"
| "resource_health_text Unknown = ''unknown''"

fun binding_status_text :: "BindingStatus \<Rightarrow> string" where
  "binding_status_text BindingActive = ''active''"
| "binding_status_text BindingUnresolved = ''unresolved''"
| "binding_status_text BindingDisabled = ''disabled''"

section \<open>coverage.rs\<close>

datatype CoverageGapReason =
    GapPermissionDenied
  | GapPaginationIncomplete
  | GapRateLimited
  | GapProviderUnavailable
  | GapSchemaIncompatible
  | GapOther string

datatype SyncCoverage =
    AuthoritativeFull Scope
  | IncrementalCoverage SyncCursor
  | PartialCoverage "Scope option" CoverageGapReason
  | TargetedCoverage "ResourceId list"

fun contributes_missing_evidence :: "SyncCoverage \<Rightarrow> bool" where
  "contributes_missing_evidence (AuthoritativeFull _) = True"
| "contributes_missing_evidence _ = False"

datatype ConnectorCoverageLevel = Supported | PartialLevel | Unsupported

record ConnectorCoverage =
  cov_module :: string
  cov_level :: ConnectorCoverageLevel
  cov_reason :: "string option"

section \<open>evidence.rs\<close>

datatype EvidenceType = ProviderType | ConfiguredType | InferredType

datatype RelationEvidence =
    Provider ConnectionId SyncRunId FieldPath
  | Configured BindingId
  | Inferred RuleVersion "ResourceVersionId list" "RelationVersionId list" Confidence

fun evidence_type :: "RelationEvidence \<Rightarrow> EvidenceType" where
  "evidence_type (Provider _ _ _) = ProviderType"
| "evidence_type (Configured _) = ConfiguredType"
| "evidence_type (Inferred _ _ _ _) = InferredType"

fun evidence_sync_run_id :: "RelationEvidence \<Rightarrow> SyncRunId option" where
  "evidence_sync_run_id (Provider _ run _) = Some run"
| "evidence_sync_run_id _ = None"

fun evidence_confidence :: "RelationEvidence \<Rightarrow> Confidence option" where
  "evidence_confidence (Inferred _ _ _ c) = Some c"
| "evidence_confidence _ = None"

datatype OriginRef =
    SyncRunOrigin SyncRunId
  | BindingOrigin BindingId
  | InferenceOrigin RuleVersion "ResourceVersionId list" "RelationVersionId list"

text \<open>The derived \<open>Ord\<close> of the evidence type: the order of its constructors.\<close>

fun evidence_type_rank :: "EvidenceType \<Rightarrow> nat" where
  "evidence_type_rank ProviderType = 0"
| "evidence_type_rank ConfiguredType = 1"
| "evidence_type_rank InferredType = 2"

lemma evidence_type_rank_inj: "evidence_type_rank a = evidence_type_rank b \<longleftrightarrow> a = b"
  by (cases a; cases b) auto

instantiation EvidenceType :: linorder
begin
definition less_eq_EvidenceType :: "EvidenceType \<Rightarrow> EvidenceType \<Rightarrow> bool" where
  "a \<le> b \<longleftrightarrow> evidence_type_rank a \<le> evidence_type_rank b"
definition less_EvidenceType :: "EvidenceType \<Rightarrow> EvidenceType \<Rightarrow> bool" where
  "a < b \<longleftrightarrow> evidence_type_rank a < evidence_type_rank b"
instance
  by standard
    (auto simp: less_eq_EvidenceType_def less_EvidenceType_def evidence_type_rank_inj[symmetric])
end

section \<open>model.rs\<close>

datatype ResourceKey =
  ResourceKey (key_connection: ConnectionId) (key_kind: ResourceKind) (key_external: ExternalId)

definition resource_key_tuple :: "ResourceKey \<Rightarrow> string list" where
  "resource_key_tuple k = [key_connection k, key_kind k, key_external k]"

lemma resource_key_tuple_inj: "resource_key_tuple a = resource_key_tuple b \<longleftrightarrow> a = b"
  by (cases a; cases b) (auto simp: resource_key_tuple_def)

instantiation ResourceKey :: linorder
begin
definition less_eq_ResourceKey :: "ResourceKey \<Rightarrow> ResourceKey \<Rightarrow> bool" where
  "a \<le> b \<longleftrightarrow> resource_key_tuple a \<le> resource_key_tuple b"
definition less_ResourceKey :: "ResourceKey \<Rightarrow> ResourceKey \<Rightarrow> bool" where
  "a < b \<longleftrightarrow> resource_key_tuple a < resource_key_tuple b"
instance
  by standard
    (auto simp: less_eq_ResourceKey_def less_ResourceKey_def resource_key_tuple_inj[symmetric])
end

datatype RelationKey =
  RelationKey (rkey_source: ResourceId) (rkey_target: ResourceId) (rkey_kind: RelationKind)
    (rkey_evidence_type: EvidenceType) (rkey_evidence_key: EvidenceKey)

datatype SecretBackend = MacosDataProtectionKeychainV1

datatype SecretKind =
  ApiToken | PersonalAccessToken | SshPrivateKey | SshPassphrase | AccessKeyPair | DatabasePassword

record SecretRef =
  sec_backend :: SecretBackend
  sec_service :: string
  sec_account :: string
  sec_kind :: SecretKind
  sec_generation_id :: string
  sec_created_at :: Timestamp
  sec_last_verified_at :: Timestamp
  sec_permission_scope_summary :: string

record Connection =
  conn_id :: ConnectionId
  conn_type :: ConnectorType
  conn_display_name :: string
  conn_enabled :: bool
  conn_config :: Value
  conn_secret_ref :: "SecretRef option"
  conn_health :: ConnectorHealth
  conn_last_success_at :: "Timestamp option"
  conn_last_attempt_at :: "Timestamp option"
  conn_config_schema_version :: SchemaVersion
  conn_deleted_at :: "Timestamp option"

record Resource =
  res_id :: ResourceId
  res_connection_id :: ConnectionId
  res_kind :: ResourceKind
  res_external_id :: ExternalId
  res_name :: string
  res_display_name :: string
  res_scope :: Scope
  res_labels :: "(LabelKey, string) btree_map"
  res_lifecycle :: Lifecycle
  res_health :: ResourceHealth
  res_attributes :: Value
  res_attribute_schema_version :: SchemaVersion
  res_fingerprint :: Fingerprint
  res_first_seen_at :: Timestamp
  res_last_seen_at :: Timestamp
  res_last_changed_at :: Timestamp
  res_last_sync_run_id :: SyncRunId

definition resource_key :: "Resource \<Rightarrow> ResourceKey" where
  "resource_key r = ResourceKey (res_connection_id r) (res_kind r) (res_external_id r)"

record FieldChange =
  fc_path :: FieldPath
  fc_before :: "Value option"
  fc_after :: "Value option"

record ResourceVersion =
  rv_id :: ResourceVersionId
  rv_resource_id :: ResourceId
  rv_observed_at :: Timestamp
  rv_sync_run_id :: SyncRunId
  rv_snapshot :: Value
  rv_fingerprint :: Fingerprint
  rv_schema_version :: SchemaVersion
  rv_change_summary :: "FieldChange list"

record Relation =
  rel_id :: RelationId
  rel_source :: ResourceId
  rel_target :: ResourceId
  rel_kind :: RelationKind
  rel_evidence_key :: EvidenceKey
  rel_evidence :: RelationEvidence
  rel_first_seen_at :: Timestamp
  rel_last_seen_at :: Timestamp
  rel_lifecycle :: Lifecycle

definition relation_key :: "Relation \<Rightarrow> RelationKey" where
  "relation_key r =
     RelationKey (rel_source r) (rel_target r) (rel_kind r) (evidence_type (rel_evidence r))
       (rel_evidence_key r)"

definition relation_last_sync_run_id :: "Relation \<Rightarrow> SyncRunId option" where
  "relation_last_sync_run_id r = evidence_sync_run_id (rel_evidence r)"

record RelationVersion =
  relv_id :: RelationVersionId
  relv_relation_id :: RelationId
  relv_observed_at :: Timestamp
  relv_snapshot :: Value
  relv_fingerprint :: Fingerprint
  relv_schema_version :: SchemaVersion
  relv_origin :: OriginRef

record Binding =
  bind_id :: BindingId
  bind_source :: ResourceId
  bind_target :: ResourceId
  bind_kind :: RelationKind
  bind_status :: BindingStatus
  bind_created_at :: Timestamp
  bind_updated_at :: Timestamp

record InferenceRun =
  ir_id :: InferenceRunId
  ir_rule_version :: RuleVersion
  ir_started_at :: Timestamp
  ir_finished_at :: "Timestamp option"
  ir_status :: InferenceRunStatus
  ir_input_resource_version_ids :: "ResourceVersionId list"
  ir_input_relation_version_ids :: "RelationVersionId list"
  ir_output_relation_ids :: "RelationId list"

record SyncRunCounts =
  cnt_read :: nat
  cnt_created :: nat
  cnt_updated :: nat
  cnt_unchanged :: nat
  cnt_warnings :: nat

definition counts_default :: SyncRunCounts where
  "counts_default =
     \<lparr>cnt_read = 0, cnt_created = 0, cnt_updated = 0, cnt_unchanged = 0, cnt_warnings = 0\<rparr>"

record SyncRunWarning =
  warn_code :: ErrorCode
  warn_message :: string

record SyncRun =
  run_id :: SyncRunId
  run_connection_id :: ConnectionId
  run_mode :: SyncMode
  run_trigger :: SyncTrigger
  run_started_at :: Timestamp
  run_finished_at :: "Timestamp option"
  run_status :: SyncRunStatus
  run_coverage :: SyncCoverage
  run_cursor_before :: "SyncCursor option"
  run_cursor_after :: "SyncCursor option"
  run_counts :: SyncRunCounts
  run_errors :: "DomainError list"
  run_warnings :: "SyncRunWarning list"

datatype ChangeSubject =
    ResourceSubject ResourceId
  | RelationSubject RelationId
  | BindingSubject BindingId

record Change =
  chg_id :: ChangeId
  chg_subject :: ChangeSubject
  chg_observed_at :: Timestamp
  chg_fields :: "FieldChange list"
  chg_origin :: OriginRef

section \<open>missing_evidence.rs\<close>

text \<open>The counters are bytes (\<open>u8\<close>).\<close>

record MissingEvidenceState =
  mes_scope :: Scope
  mes_counts :: "(ResourceId, 8 word) btree_map"

definition missing_new :: "Scope \<Rightarrow> MissingEvidenceState" where
  "missing_new scope = \<lparr>mes_scope = scope, mes_counts = []\<rparr>"

definition missing_with_counts :: "Scope \<Rightarrow> (ResourceId, 8 word) btree_map \<Rightarrow> MissingEvidenceState" where
  "missing_with_counts scope counts = \<lparr>mes_scope = scope, mes_counts = counts\<rparr>"

definition count_for :: "MissingEvidenceState \<Rightarrow> ResourceId \<Rightarrow> 8 word" where
  "count_for s i = (case bt_get (mes_counts s) i of None \<Rightarrow> 0 | Some n \<Rightarrow> n)"

definition missing_is_empty :: "MissingEvidenceState \<Rightarrow> bool" where
  "missing_is_empty s \<longleftrightarrow> mes_counts s = []"

text \<open>\<open>u8::saturating_add(1)\<close> and \<open>u8::min\<close>.\<close>

definition saturating_succ :: "8 word \<Rightarrow> 8 word" where
  "saturating_succ n = (if n = 255 then 255 else n + 1)"

lemma unat_saturating_succ: "unat (saturating_succ n) = min 255 (unat n + 1)"
proof (cases "n = 255")
  case False
  have "n = 255" if "unat n = 255" using that by (intro unsigned_word_eqI) simp
  with False have "unat n \<noteq> 255" by blast
  moreover have "unat n < 256" using unsigned_less[of n] by simp
  ultimately have "unat n + 1 < 256" by simp
  then show ?thesis
    using False by (simp add: saturating_succ_def unat_word_ariths)
qed (simp add: saturating_succ_def)

section \<open>Commits (ports.rs)\<close>

record SyncCommit =
  sc_run :: SyncRun
  sc_resources :: "Resource list"
  sc_resource_versions :: "ResourceVersion list"
  sc_relations :: "Relation list"
  sc_relation_versions :: "RelationVersion list"
  sc_changes :: "Change list"
  sc_cursor_after :: "SyncCursor option"
  sc_missing_evidence :: "MissingEvidenceState option"

record BindingCommit =
  bc_binding :: Binding
  bc_relations :: "Relation list"
  bc_relation_versions :: "RelationVersion list"
  bc_changes :: "Change list"

record InferenceCommit =
  ic_run :: InferenceRun
  ic_relations :: "Relation list"
  ic_relation_versions :: "RelationVersion list"
  ic_changes :: "Change list"

record CommitResult =
  cr_resources_written :: nat
  cr_resource_versions_written :: nat
  cr_relations_written :: nat
  cr_relation_versions_written :: nat
  cr_changes_written :: nat

definition commit_result_default :: CommitResult where
  "commit_result_default =
     \<lparr>cr_resources_written = 0, cr_resource_versions_written = 0, cr_relations_written = 0,
      cr_relation_versions_written = 0, cr_changes_written = 0\<rparr>"

section \<open>JSON forms used in snapshots\<close>

definition json_strings :: "string list \<Rightarrow> Value" where
  "json_strings xs = JArray (map JString xs)"

definition json_u16 :: "16 word \<Rightarrow> Value" where
  "json_u16 w = JNumber (PosInt (ucast w))"

definition json_u32 :: "32 word \<Rightarrow> Value" where
  "json_u32 w = JNumber (PosInt (ucast w))"

definition json_labels :: "(LabelKey, string) btree_map \<Rightarrow> Value" where
  "json_labels m = JObject (map (\<lambda>(k, v). (k, JString v)) m)"

text \<open>The serde form of the evidence: a tag \<open>type\<close> beside the fields of the variant.\<close>

fun json_evidence :: "RelationEvidence \<Rightarrow> Value" where
  "json_evidence (Provider c run path) =
     json_object [(''type'', JString ''provider''), (''connection_id'', JString c),
       (''sync_run_id'', JString run), (''field_path'', JString path)]"
| "json_evidence (Configured b) =
     json_object [(''type'', JString ''configured''), (''binding_id'', JString b)]"
| "json_evidence (Inferred rule res rel conf) =
     json_object [(''type'', JString ''inferred''), (''rule_version'', JString rule),
       (''input_resource_version_ids'', json_strings res),
       (''input_relation_version_ids'', json_strings rel), (''confidence'', json_u16 conf)]"

definition json_resource_key :: "ResourceKey \<Rightarrow> Value" where
  "json_resource_key k =
     json_object [(''connection_id'', JString (key_connection k)), (''kind'', JString (key_kind k)),
       (''external_id'', JString (key_external k))]"

end
