(* ===== verification/Core_Secret.thy ===== *)
theory Core_Secret
  imports Core_Model
begin

text \<open>
  Crate \<open>next-infra-core\<close>, file \<open>secret.rs\<close>, and \<open>SecretValue\<close> of \<open>ports.rs\<close>: the validation of
  the metadata that points at one Keychain generation, and the redacting formatters.
\<close>

definition service_byte :: "char \<Rightarrow> bool" where
  "service_byte c \<longleftrightarrow> is_ascii_lowercase c \<or> is_ascii_digit c \<or>
     c = CHR ''.'' \<or> c = CHR ''-'' \<or> c = CHR ''_''"

definition validate_service :: "string \<Rightarrow> DomainError + unit" where
  "validate_service value =
     (if value = [] \<or> 255 < length value \<or> \<not> list_all service_byte value
      then Inl (invalid_value ''SecretRef service must be a lowercase bundle-derived identifier'')
      else Inr ())"

definition validate_account :: "string \<Rightarrow> DomainError + unit" where
  "validate_account value =
     (if 512 < length value \<or> \<not> starts_with value ''connection/'' \<or>
         \<not> contains_str value ''/kind/'' \<or> \<not> contains_str value ''/generation/'' \<or> has_control value
      then Inl (invalid_value ''SecretRef account does not match the Keychain naming contract'')
      else Inr ())"

definition generation_byte :: "char \<Rightarrow> bool" where
  "generation_byte c \<longleftrightarrow> is_ascii_lowercase c \<or> is_ascii_digit c \<or> c = CHR ''-''"

definition validate_generation :: "string \<Rightarrow> DomainError + unit" where
  "validate_generation value =
     (if value = [] \<or> 128 < length value \<or> \<not> list_all generation_byte value
      then Inl (invalid_value ''SecretRef generation must be a lowercase identifier'')
      else Inr ())"

definition validate_summary :: "string \<Rightarrow> DomainError + unit" where
  "validate_summary value =
     (if 512 < length value \<or> has_control value
      then Inl (invalid_value ''SecretRef permission summary is invalid'')
      else Inr ())"

text \<open>The input struct has the same fields as the reference.\<close>

definition SecretRef_new :: "SecretRef \<Rightarrow> DomainError + SecretRef" where
  "SecretRef_new input =
     res_bind (validate_service (sec_service input)) (\<lambda>_.
     res_bind (validate_account (sec_account input)) (\<lambda>_.
     res_bind (validate_generation (sec_generation_id input)) (\<lambda>_.
     res_bind (validate_summary (sec_permission_scope_summary input)) (\<lambda>_.
       if sec_last_verified_at input < sec_created_at input
       then Inl (invalid_value ''SecretRef verification time precedes creation'')
       else Inr input))))"

text \<open>\<open>SecretValue\<close> is its bytes; its \<open>Debug\<close> text is constant and its \<open>Drop\<close> writes zeros.\<close>

type_synonym SecretValue = string

definition secret_value_debug :: "SecretValue \<Rightarrow> string" where
  "secret_value_debug s = ''SecretValue([REDACTED])''"

definition secret_value_drop :: "SecretValue \<Rightarrow> SecretValue" where
  "secret_value_drop s = map (\<lambda>_. char_of (0::nat)) s"

definition secret_ref_wf :: "SecretRef \<Rightarrow> bool" where
  "secret_ref_wf r \<longleftrightarrow>
     0 < length (sec_service r) \<and> length (sec_service r) \<le> 255 \<and>
     list_all service_byte (sec_service r) \<and>
     length (sec_account r) \<le> 512 \<and> (\<exists>t. sec_account r = ''connection/'' @ t) \<and>
     (\<exists>u v. sec_account r = u @ ''/kind/'' @ v) \<and> (\<exists>u v. sec_account r = u @ ''/generation/'' @ v) \<and>
     \<not> has_control (sec_account r) \<and>
     0 < length (sec_generation_id r) \<and> length (sec_generation_id r) \<le> 128 \<and>
     list_all generation_byte (sec_generation_id r) \<and>
     length (sec_permission_scope_summary r) \<le> 512 \<and>
     \<not> has_control (sec_permission_scope_summary r) \<and>
     sec_created_at r \<le> sec_last_verified_at r"

lemma starts_with_iff: "starts_with s p \<longleftrightarrow> (\<exists>t. s = p @ t)"
  unfolding starts_with_def by (metis append_eq_conv_conj append_take_drop_id)

lemma validate_account_eq_Inr:
  "validate_account a = Inr u \<longleftrightarrow>
     length a \<le> 512 \<and> (\<exists>t. a = ''connection/'' @ t) \<and> (\<exists>u v. a = u @ ''/kind/'' @ v) \<and>
     (\<exists>u v. a = u @ ''/generation/'' @ v) \<and> \<not> has_control a"
  unfolding validate_account_def starts_with_iff contains_str_iff by (auto simp: not_less)

text \<open>
  A secret reference is built exactly when its four texts obey the naming contract of the
  Keychain (lengths, alphabets, the \<open>connection/\<close>, \<open>/kind/\<close> and \<open>/generation/\<close> parts, no control
  character) and it was not verified before it was created; what is built is the input unchanged.
\<close>

theorem SecretRef_new_iff: "SecretRef_new input = Inr r \<longleftrightarrow> secret_ref_wf input \<and> r = input"
proof -
  have "validate_service (sec_service input) = Inr () \<longleftrightarrow>
      0 < length (sec_service input) \<and> length (sec_service input) \<le> 255 \<and>
      list_all service_byte (sec_service input)"
    by (auto simp: validate_service_def)
  moreover have "validate_generation (sec_generation_id input) = Inr () \<longleftrightarrow>
      0 < length (sec_generation_id input) \<and> length (sec_generation_id input) \<le> 128 \<and>
      list_all generation_byte (sec_generation_id input)"
    by (auto simp: validate_generation_def)
  moreover have "validate_summary (sec_permission_scope_summary input) = Inr () \<longleftrightarrow>
      length (sec_permission_scope_summary input) \<le> 512 \<and>
      \<not> has_control (sec_permission_scope_summary input)"
    by (auto simp: validate_summary_def)
  ultimately show ?thesis
    by (simp add: SecretRef_new_def res_simps validate_account_eq_Inr secret_ref_wf_def not_less)
      blast
qed

end
