(* ===== verification/Connector_Api.thy ===== *)
theory Connector_Api
  imports Core_Model
begin

text \<open>
  Crate \<open>next-infra-connector-api\<close>: the requests a connector receives, the observation batch it
  returns with the validation both sides apply to it (\<open>observation.rs\<close>), the failure value
  (\<open>error.rs\<close>) and the descriptor with its consistency check (\<open>descriptor.rs\<close>).
\<close>

section \<open>Requests and observations\<close>

record ConnectionInput =
  ci_connection_id :: ConnectionId
  ci_connector_type :: ConnectorType
  ci_config :: Value
  ci_config_schema_version :: SchemaVersion

datatype ValidationStatus = Valid | Invalid

record ValidationIssue =
  vi_code :: ErrorCode
  vi_message :: string

record ValidationReport =
  vr_status :: ValidationStatus
  vr_warnings :: "ValidationIssue list"
  vr_errors :: "ValidationIssue list"

definition validation_report_validate :: "ValidationReport \<Rightarrow> DomainError + unit" where
  "validation_report_validate r =
     (let coherent = (case vr_status r of Valid \<Rightarrow> vr_errors r = [] | Invalid \<Rightarrow> vr_errors r \<noteq> [])
      in if coherent then Inr ()
         else Inl (invalid_value ''validation status and errors disagree''))"

record ResourceLocator =
  loc_kind :: ResourceKind
  loc_external_id :: ExternalId

record SyncRequest =
  req_sync_run_id :: SyncRunId
  req_connection :: ConnectionInput
  req_mode :: SyncMode
  req_scope :: Scope
  req_cursor :: "SyncCursor option"
  req_targeted_resources :: "ResourceLocator list"

text \<open>The mode and coverage pairs of the \<open>matches!\<close> tables here and in the sync engine.\<close>

fun mode_accepts :: "SyncMode \<Rightarrow> SyncCoverage \<Rightarrow> bool" where
  "mode_accepts Full (AuthoritativeFull _) = True"
| "mode_accepts Full (PartialCoverage _ _) = True"
| "mode_accepts Incremental (IncrementalCoverage _) = True"
| "mode_accepts Incremental (PartialCoverage _ _) = True"
| "mode_accepts Targeted (TargetedCoverage _) = True"
| "mode_accepts Targeted (PartialCoverage _ _) = True"
| "mode_accepts _ _ = False"

definition accepts_coverage :: "SyncRequest \<Rightarrow> SyncCoverage \<Rightarrow> bool" where
  "accepts_coverage request coverage = mode_accepts (req_mode request) coverage"

record ResourceObservation =
  ro_kind :: ResourceKind
  ro_external_id :: ExternalId
  ro_name :: string
  ro_display_name :: string
  ro_scope :: Scope
  ro_labels :: "(LabelKey, string) btree_map"
  ro_health :: ResourceHealth
  ro_attributes :: Value
  ro_attribute_schema_version :: SchemaVersion
  ro_observed_at :: Timestamp

record RelationObservation =
  lo_source :: ResourceLocator
  lo_target :: ResourceLocator
  lo_kind :: RelationKind
  lo_evidence_key :: EvidenceKey
  lo_field_path :: FieldPath
  lo_observed_at :: Timestamp

record RedactionReport =
  rr_removed_fields :: nat
  rr_unknown_fields_dropped :: nat
  rr_secret_sentinels_detected :: nat

record ProviderRequestSummary =
  prs_request_count :: nat
  prs_elapsed_ms :: nat
  prs_status_class_counts :: "(string, nat) btree_map"

record ObservationWarning =
  ow_code :: ErrorCode
  ow_message :: string

record ObservationBatch =
  ob_resources :: "ResourceObservation list"
  ob_relations :: "RelationObservation list"
  ob_coverage :: SyncCoverage
  ob_next_cursor :: "SyncCursor option"
  ob_warnings :: "ObservationWarning list"
  ob_redaction_report :: RedactionReport
  ob_provider_request_summary :: ProviderRequestSummary

definition batch_validate_for :: "ObservationBatch \<Rightarrow> SyncRequest \<Rightarrow> DomainError + unit" where
  "batch_validate_for batch request =
     (if \<not> accepts_coverage request (ob_coverage batch)
      then Inl (invalid_value ''observation coverage is incompatible with sync mode'')
      else if rr_secret_sentinels_detected (ob_redaction_report batch) \<noteq> 0
      then Inl (invalid_value ''observation batch contains a secret sentinel'')
      else Inr ())"

record ConnectorFailure =
  cf_code :: ErrorCode
  cf_message :: string
  cf_retryable :: bool
  cf_retry_after_ms :: "nat option"

datatype SyncOutcome = Complete ObservationBatch | PartialOutcome ObservationBatch ConnectorFailure

fun outcome_batch :: "SyncOutcome \<Rightarrow> ObservationBatch" where
  "outcome_batch (Complete b) = b"
| "outcome_batch (PartialOutcome b _) = b"

fun is_partial_coverage :: "SyncCoverage \<Rightarrow> bool" where
  "is_partial_coverage (PartialCoverage _ _) = True"
| "is_partial_coverage _ = False"

definition outcome_validate_for :: "SyncOutcome \<Rightarrow> SyncRequest \<Rightarrow> DomainError + unit" where
  "outcome_validate_for outcome request =
     res_bind (batch_validate_for (outcome_batch outcome) request) (\<lambda>_.
       let partial_coverage = is_partial_coverage (ob_coverage (outcome_batch outcome)) in
       case outcome of
         Complete _ \<Rightarrow>
           if partial_coverage
           then Inl (invalid_value ''complete outcome cannot contain partial coverage'')
           else Inr ()
       | PartialOutcome _ _ \<Rightarrow>
           if \<not> partial_coverage
           then Inl (invalid_value ''partial outcome must contain partial coverage'')
           else Inr ())"

section \<open>Descriptors\<close>

datatype AuthKind = AuthNone | AuthToken | AuthApiKey | AuthOauth | AuthSshAgent | AuthSshKey

record AuthDescriptor =
  auth_kind :: AuthKind
  auth_minimum_permissions :: "string list"

record ResourceCapability =
  rcap_kind :: ResourceKind
  rcap_attribute_schema_version :: SchemaVersion
  rcap_coverage :: ConnectorCoverage

record RelationCapability =
  lcap_kind :: RelationKind
  lcap_source_kind :: ResourceKind
  lcap_target_kind :: ResourceKind
  lcap_coverage :: ConnectorCoverage

record RateLimitGuidance =
  rl_default_max_concurrency :: "16 word"
  rl_requests_per_minute :: "32 word option"
  rl_respects_retry_after :: bool

record ConnectorDescriptor =
  desc_connector_type :: ConnectorType
  desc_connector_version :: string
  desc_config_schema_version :: SchemaVersion
  desc_auth :: AuthDescriptor
  desc_sync_modes :: "SyncMode list"
  desc_resources :: "ResourceCapability list"
  desc_relations :: "RelationCapability list"
  desc_sensitive_field_policy :: "string list"
  desc_rate_limit :: RateLimitGuidance
  desc_recommended_sync_interval_secs :: "64 word"
  desc_known_gaps :: "string list"

text \<open>A mode that occurs again later in the list.\<close>

fun has_duplicate_mode :: "SyncMode list \<Rightarrow> bool" where
  "has_duplicate_mode [] = False"
| "has_duplicate_mode (m # ms) \<longleftrightarrow> m \<in> set ms \<or> has_duplicate_mode ms"

definition descriptor_validate :: "ConnectorDescriptor \<Rightarrow> DomainError + unit" where
  "descriptor_validate d =
     (if trim (desc_connector_version d) = []
      then Inl (invalid_value ''connector_version cannot be empty'')
      else if desc_sync_modes d = []
      then Inl (invalid_value ''connector must support at least one sync mode'')
      else if has_duplicate_mode (desc_sync_modes d)
      then Inl (invalid_value ''connector sync_modes contain duplicates'')
      else if rl_default_max_concurrency (desc_rate_limit d) = 0
      then Inl (invalid_value ''default_max_concurrency must be positive'')
      else if desc_recommended_sync_interval_secs d = 0
      then Inl (invalid_value ''recommended_sync_interval_secs must be positive'')
      else
        let unique_resources = bs_of_list (map rcap_kind (desc_resources d)) in
        if length unique_resources \<noteq> length (desc_resources d)
        then Inl (invalid_value ''resource capabilities contain duplicate kinds'')
        else
          let unique_relations =
            bs_of_list (map (\<lambda>c. [lcap_source_kind c, lcap_target_kind c, lcap_kind c]) (desc_relations d)) in
          if length unique_relations \<noteq> length (desc_relations d)
          then Inl (invalid_value ''relation capabilities contain duplicate endpoints and kind'')
          else Inr ())"

section \<open>Properties\<close>

lemma has_duplicate_mode_iff: "has_duplicate_mode ms \<longleftrightarrow> \<not> distinct ms"
  by (induction ms) auto

lemma mode_accepts_full: "mode_accepts m (AuthoritativeFull s) \<Longrightarrow> m = Full"
  by (cases m) auto

text \<open>
  A descriptor passes validation exactly when its version text is not blank, it lists at least
  one sync mode and none twice, its concurrency and its interval are positive, and no two of its
  resource capabilities share a kind, nor two of its relation capabilities endpoints and kind.
\<close>

theorem descriptor_validate_iff:
  "descriptor_validate d = Inr () \<longleftrightarrow>
     trim (desc_connector_version d) \<noteq> [] \<and> desc_sync_modes d \<noteq> [] \<and> distinct (desc_sync_modes d) \<and>
     rl_default_max_concurrency (desc_rate_limit d) \<noteq> 0 \<and> desc_recommended_sync_interval_secs d \<noteq> 0 \<and>
     distinct (map rcap_kind (desc_resources d)) \<and>
     distinct (map (\<lambda>c. (lcap_source_kind c, lcap_target_kind c, lcap_kind c)) (desc_relations d))"
proof -
  have res: "length (bs_of_list (map rcap_kind (desc_resources d))) = length (desc_resources d) \<longleftrightarrow>
      distinct (map rcap_kind (desc_resources d))"
    using bs_length[of "map rcap_kind (desc_resources d)"] by simp
  let ?l = "\<lambda>c. [lcap_source_kind c, lcap_target_kind c, lcap_kind c]"
  have rel: "length (bs_of_list (map ?l (desc_relations d))) = length (desc_relations d) \<longleftrightarrow>
      distinct (map ?l (desc_relations d))"
    using bs_length[of "map ?l (desc_relations d)"] by simp
  have tuple: "distinct (map ?l (desc_relations d)) \<longleftrightarrow>
      distinct (map (\<lambda>c. (lcap_source_kind c, lcap_target_kind c, lcap_kind c)) (desc_relations d))"
    by (auto simp: distinct_map inj_on_def)
  show ?thesis
    by (simp add: descriptor_validate_def Let_def has_duplicate_mode_iff res rel tuple)
qed

text \<open>
  An outcome that validates for its request has a batch that validates for it, and the
  outcome's variant agrees with its coverage: partial outcomes carry partial coverage and complete
  outcomes do not. So only a complete outcome of a full synchronisation can contribute evidence
  that a resource is missing.
\<close>

theorem outcome_validate_sound:
  assumes "outcome_validate_for outcome request = Inr ()"
  shows "batch_validate_for (outcome_batch outcome) request = Inr () \<and>
    (is_partial_coverage (ob_coverage (outcome_batch outcome)) \<longleftrightarrow> (\<exists>b f. outcome = PartialOutcome b f)) \<and>
    (contributes_missing_evidence (ob_coverage (outcome_batch outcome)) \<longrightarrow>
       req_mode request = Full \<and> (\<exists>b. outcome = Complete b))"
proof -
  from assms show ?thesis
    by (cases outcome)
      (auto simp: outcome_validate_for_def batch_validate_for_def accepts_coverage_def res_simps
        split: if_splits elim!: contributes_missing_evidence.elims dest: mode_accepts_full)
qed

definition sample_batch :: ObservationBatch where
  "sample_batch =
     \<lparr>ob_resources = [], ob_relations = [], ob_coverage = AuthoritativeFull ''scope'',
      ob_next_cursor = None, ob_warnings = [],
      ob_redaction_report = \<lparr>rr_removed_fields = 0, rr_unknown_fields_dropped = 0,
        rr_secret_sentinels_detected = 0\<rparr>,
      ob_provider_request_summary = \<lparr>prs_request_count = 1, prs_elapsed_ms = 5,
        prs_status_class_counts = []\<rparr>\<rparr>"

definition sample_request :: SyncRequest where
  "sample_request =
     \<lparr>req_sync_run_id = ''run-1'',
      req_connection = \<lparr>ci_connection_id = ''c1'', ci_connector_type = ''github'', ci_config = JNull,
        ci_config_schema_version = 1\<rparr>,
      req_mode = Full, req_scope = ''scope'', req_cursor = None, req_targeted_resources = []\<rparr>"

theorem outcome_validate_sound_witness:
  "outcome_validate_for (Complete sample_batch) sample_request = Inr () \<and>
   req_mode sample_request = Full"
proof -
  have h: "outcome_validate_for (Complete sample_batch) sample_request = Inr ()"
    by (simp add: outcome_validate_for_def batch_validate_for_def accepts_coverage_def
        sample_batch_def sample_request_def)
  have "contributes_missing_evidence (ob_coverage (outcome_batch (Complete sample_batch)))"
    by (simp add: sample_batch_def)
  with h outcome_validate_sound[OF h] show ?thesis by blast
qed

end
