(* ===== verification/Normalizer.thy ===== *)
theory Normalizer
  imports Connector_Api "HOL-Library.Product_Lexorder"
begin

text \<open>
  Crate \<open>next-infra-normalizer\<close>: the schemas a connector registers, the secret scan, the
  projection of the attributes on the allowed paths, the fingerprints, and the step from an
  observation batch to a validated batch, which merges the observations of one identity.
\<close>

section \<open>Data\<close>

record AttributeSchema =
  as_kind :: ResourceKind
  as_schema_version :: SchemaVersion
  as_allowed_attributes :: "string btree_set"

record RelationSchema =
  rs_kind :: RelationKind
  rs_source_kind :: ResourceKind
  rs_target_kind :: ResourceKind

datatype ValidatedRelationKey =
  ValidatedRelationKey (vkey_source: ResourceKey) (vkey_target: ResourceKey)
    (vkey_kind: RelationKind) (vkey_evidence_key: EvidenceKey)

definition relation_key_tuple :: "ValidatedRelationKey \<Rightarrow> (ResourceKey \<times> ResourceKey) \<times> string list" where
  "relation_key_tuple k = ((vkey_source k, vkey_target k), [vkey_kind k, vkey_evidence_key k])"

lemma relation_key_tuple_inj: "relation_key_tuple a = relation_key_tuple b \<longleftrightarrow> a = b"
  by (cases a; cases b) (auto simp: relation_key_tuple_def)

instantiation ValidatedRelationKey :: linorder
begin
definition less_eq_ValidatedRelationKey :: "ValidatedRelationKey \<Rightarrow> ValidatedRelationKey \<Rightarrow> bool" where
  "a \<le> b \<longleftrightarrow> relation_key_tuple a \<le> relation_key_tuple b"
definition less_ValidatedRelationKey :: "ValidatedRelationKey \<Rightarrow> ValidatedRelationKey \<Rightarrow> bool" where
  "a < b \<longleftrightarrow> relation_key_tuple a < relation_key_tuple b"
instance
  by standard
    (auto simp: less_eq_ValidatedRelationKey_def less_ValidatedRelationKey_def
      relation_key_tuple_inj[symmetric])
end

record ValidatedResource =
  vr_key :: ResourceKey
  vr_name :: string
  vr_display_name :: string
  vr_scope :: Scope
  vr_labels :: "(LabelKey, string) btree_map"
  vr_health :: ResourceHealth
  vr_attributes :: Value
  vr_attribute_schema_version :: SchemaVersion
  vr_observed_at :: Timestamp
  vr_fingerprint :: Fingerprint

record ValidatedRelation =
  vl_key :: ValidatedRelationKey
  vl_evidence :: RelationEvidence
  vl_observed_at :: Timestamp
  vl_fingerprint :: Fingerprint

record ValidatedBatch =
  vb_connection_id :: ConnectionId
  vb_sync_run_id :: SyncRunId
  vb_resources :: "ValidatedResource list"
  vb_relations :: "ValidatedRelation list"
  vb_coverage :: SyncCoverage
  vb_next_cursor :: "SyncCursor option"
  vb_warnings :: "ObservationWarning list"
  vb_redaction_report :: RedactionReport
  vb_provider_request_summary :: ProviderRequestSummary

record Normalizer =
  nz_attribute_schemas :: "(ResourceKind \<times> 32 word, AttributeSchema) btree_map"
  nz_relation_schemas :: "RelationSchema list"

definition contract_error :: "ErrorCode \<Rightarrow> string \<Rightarrow> DomainError" where
  "contract_error code message = \<lparr>err_code = code, err_message = message, err_retryable = False\<rparr>"

section \<open>Secret scan\<close>

definition sensitive_words :: "string list" where
  "sensitive_words =
     [''token'', ''password'', ''secret'', ''access_key'', ''access_token'', ''secret_key'',
      ''authorization'', ''cookie'', ''private_key'', ''connection_string'']"

definition is_sensitive_field_name :: "string \<Rightarrow> bool" where
  "is_sensitive_field_name value =
     (let normalized = replace_byte CHR ''-'' CHR ''_'' (to_ascii_lowercase value) in
      list_ex (\<lambda>segment. segment \<in> set sensitive_words) (split_byte CHR ''.'' normalized))"

definition scan_text :: "string \<Rightarrow> DomainError + unit" where
  "scan_text value =
     (let normalized = to_ascii_lowercase value in
      if contains_str normalized ''-----begin private key-----'' \<or> starts_with normalized ''bearer ''
      then Inl (contract_error InvalidResponse ''normalized text contains a secret sentinel'')
      else Inr ())"

fun scan_for_secrets :: "Value \<Rightarrow> DomainError + unit" where
  "scan_for_secrets (JObject object) =
     res_all (\<lambda>e. if is_sensitive_field_name (fst e)
                  then Inl (contract_error InvalidResponse
                         ''resource attributes contain a forbidden secret field'')
                  else scan_for_secrets (snd e)) object"
| "scan_for_secrets (JArray values) = res_all scan_for_secrets values"
| "scan_for_secrets (JString value) = scan_text value"
| "scan_for_secrets JNull = Inr ()"
| "scan_for_secrets (JBool _) = Inr ()"
| "scan_for_secrets (JNumber _) = Inr ()"

section \<open>Attribute projection\<close>

fun value_at_path :: "Value \<Rightarrow> string list \<Rightarrow> Value option" where
  "value_at_path current [] = Some current"
| "value_at_path current (segment # segments) =
     (case as_object current of
        None \<Rightarrow> None
      | Some object \<Rightarrow>
          (case bt_get object segment of None \<Rightarrow> None | Some v \<Rightarrow> value_at_path v segments))"

fun insert_at_path :: "json_map \<Rightarrow> string list \<Rightarrow> Value \<Rightarrow> json_map" where
  "insert_at_path target [] value = target"
| "insert_at_path target [first] value = bt_insert first value target"
| "insert_at_path target (first # second # rest) value =
     (let entry = (case bt_get target first of None \<Rightarrow> JObject [] | Some e \<Rightarrow> e) in
      case as_object entry of
        Some object \<Rightarrow> bt_insert first (JObject (insert_at_path object (second # rest) value)) target
      | None \<Rightarrow> target)"

fun count_leaf_fields :: "Value \<Rightarrow> nat" where
  "count_leaf_fields (JObject object) = sum_list (map (\<lambda>e. count_leaf_fields (snd e)) object)"
| "count_leaf_fields (JArray _) = 1"
| "count_leaf_fields JNull = 1"
| "count_leaf_fields (JBool _) = 1"
| "count_leaf_fields (JNumber _) = 1"
| "count_leaf_fields (JString _) = 1"

definition project_step :: "Value \<Rightarrow> string \<Rightarrow> json_map \<times> nat \<Rightarrow> json_map \<times> nat" where
  "project_step source_value path acc =
     (let segments = split_byte CHR ''.'' path in
      case value_at_path source_value segments of
        None \<Rightarrow> acc
      | Some value \<Rightarrow>
          (insert_at_path (fst acc) segments value, snd acc + count_leaf_fields value))"

definition project_attributes :: "json_map \<Rightarrow> string btree_set \<Rightarrow> Value \<times> nat" where
  "project_attributes source allowed_paths =
     (let source_value = JObject source;
          acc = fold (project_step source_value) allowed_paths ([], 0)
      in (JObject (fst acc), count_leaf_fields source_value - snd acc))"

section \<open>Fingerprints\<close>

definition fingerprint :: "codec \<Rightarrow> Value \<Rightarrow> DomainError + Fingerprint" where
  "fingerprint c value =
     res_bind (map_err (\<lambda>e. contract_error Internal (''could not serialize normalized value: '' @ e))
       (hex_digest c value)) (string_value_new ''Fingerprint'')"

definition resource_fingerprint_input :: "ResourceKey \<Rightarrow> ResourceObservation \<Rightarrow> Value \<Rightarrow> Value" where
  "resource_fingerprint_input key obs attributes =
     json_object [(''key'', json_resource_key key), (''name'', JString (ro_name obs)),
       (''display_name'', JString (ro_display_name obs)), (''scope'', JString (ro_scope obs)),
       (''labels'', json_labels (ro_labels obs)),
       (''health'', JString (resource_health_text (ro_health obs))), (''attributes'', attributes),
       (''attribute_schema_version'', json_u32 (ro_attribute_schema_version obs))]"

definition json_relation_key :: "ValidatedRelationKey \<Rightarrow> Value" where
  "json_relation_key k =
     json_object [(''source'', json_resource_key (vkey_source k)),
       (''target'', json_resource_key (vkey_target k)), (''kind'', JString (vkey_kind k)),
       (''evidence_key'', JString (vkey_evidence_key k))]"

definition relation_fingerprint_input :: "ValidatedRelationKey \<Rightarrow> RelationEvidence \<Rightarrow> Value" where
  "relation_fingerprint_input key evidence =
     json_object [(''key'', json_relation_key key), (''evidence'', json_evidence evidence)]"

section \<open>The normalizer\<close>

definition register_schema ::
    "AttributeSchema \<Rightarrow> (ResourceKind \<times> 32 word, AttributeSchema) btree_map \<Rightarrow>
     DomainError + (ResourceKind \<times> 32 word, AttributeSchema) btree_map" where
  "register_schema schema attributes =
     (if list_ex (\<lambda>path. list_ex (\<lambda>w. w = []) (split_byte CHR ''.'' path) \<or> is_sensitive_field_name path)
           (as_allowed_attributes schema)
      then Inl (invalid_value ''attribute schema contains an invalid or sensitive path'')
      else
        let key = (as_kind schema, as_schema_version schema) in
        if bt_get attributes key \<noteq> None
        then Inl (invalid_value ''duplicate attribute schema registration'')
        else Inr (bt_insert key schema attributes))"

definition Normalizer_new ::
    "AttributeSchema list \<Rightarrow> RelationSchema list \<Rightarrow> DomainError + Normalizer" where
  "Normalizer_new attribute_schemas relation_schemas =
     res_bind (res_fold register_schema attribute_schemas []) (\<lambda>attributes.
       let unique_relations =
         bs_of_list (map (\<lambda>s. [rs_kind s, rs_source_kind s, rs_target_kind s]) relation_schemas) in
       if length unique_relations \<noteq> length relation_schemas
       then Inl (invalid_value ''duplicate relation schema registration'')
       else Inr \<lparr>nz_attribute_schemas = attributes, nz_relation_schemas = relation_schemas\<rparr>)"

definition scan_label :: "LabelKey \<times> string \<Rightarrow> DomainError + unit" where
  "scan_label e =
     (if is_sensitive_field_name (fst e)
      then Inl (contract_error InvalidResponse ''resource labels contain a forbidden secret field'')
      else scan_text (snd e))"

definition normalize_resource ::
    "codec \<Rightarrow> Normalizer \<Rightarrow> SyncRequest \<Rightarrow> ResourceObservation \<Rightarrow> DomainError + ValidatedResource \<times> nat" where
  "normalize_resource c nz request obs =
     res_bind (scan_for_secrets (ro_attributes obs)) (\<lambda>_.
     res_bind (scan_text (ro_name obs)) (\<lambda>_.
     res_bind (scan_text (ro_display_name obs)) (\<lambda>_.
     res_bind (res_all scan_label (ro_labels obs)) (\<lambda>_.
     res_bind (ok_or (contract_error SchemaIncompatible ''no matching resource attribute schema'')
        (bt_get (nz_attribute_schemas nz) (ro_kind obs, ro_attribute_schema_version obs))) (\<lambda>schema.
     res_bind (ok_or (contract_error InvalidResponse ''resource attributes must be a JSON object'')
        (as_object (ro_attributes obs))) (\<lambda>object.
       let (attributes, dropped) = project_attributes object (as_allowed_attributes schema);
           key = ResourceKey (ci_connection_id (req_connection request)) (ro_kind obs) (ro_external_id obs)
       in res_bind (fingerprint c (resource_fingerprint_input key obs attributes)) (\<lambda>fp.
          Inr (\<lparr>vr_key = key, vr_name = ro_name obs, vr_display_name = ro_display_name obs,
                vr_scope = ro_scope obs, vr_labels = ro_labels obs, vr_health = ro_health obs,
                vr_attributes = attributes,
                vr_attribute_schema_version = ro_attribute_schema_version obs,
                vr_observed_at = ro_observed_at obs, vr_fingerprint = fp\<rparr>, dropped))))))))"

definition normalize_relation ::
    "codec \<Rightarrow> Normalizer \<Rightarrow> SyncRequest \<Rightarrow> RelationObservation \<Rightarrow> DomainError + ValidatedRelation" where
  "normalize_relation c nz request obs =
     (if is_sensitive_field_name (lo_field_path obs)
      then Inl (contract_error InvalidResponse ''relation evidence points at a forbidden secret field'')
      else if \<not> list_ex (\<lambda>s. rs_kind s = lo_kind obs \<and> rs_source_kind s = loc_kind (lo_source obs) \<and>
                 rs_target_kind s = loc_kind (lo_target obs)) (nz_relation_schemas nz)
      then Inl (contract_error SchemaIncompatible ''relation kind or endpoint kinds are not registered'')
      else
        let conn = ci_connection_id (req_connection request);
            source = ResourceKey conn (loc_kind (lo_source obs)) (loc_external_id (lo_source obs));
            target = ResourceKey conn (loc_kind (lo_target obs)) (loc_external_id (lo_target obs));
            key = ValidatedRelationKey source target (lo_kind obs) (lo_evidence_key obs);
            evidence = Provider conn (req_sync_run_id request) (lo_field_path obs)
        in res_bind (fingerprint c (relation_fingerprint_input key evidence)) (\<lambda>fp.
           Inr \<lparr>vl_key = key, vl_evidence = evidence, vl_observed_at = lo_observed_at obs,
                 vl_fingerprint = fp\<rparr>))"

text \<open>The \<open>match\<close> on the entry already merged under the key of an observation.\<close>

definition merge_resource ::
    "ValidatedResource \<Rightarrow> (ResourceKey, ValidatedResource) btree_map \<Rightarrow>
     DomainError + (ResourceKey, ValidatedResource) btree_map" where
  "merge_resource r resources =
     (case bt_get resources (vr_key r) of
        Some existing \<Rightarrow>
          if vr_fingerprint existing \<noteq> vr_fingerprint r
          then Inl (contract_error InvalidResponse ''conflicting observations share one resource identity'')
          else if vr_observed_at r \<le> vr_observed_at existing then Inr resources
          else Inr (bt_insert (vr_key r) r resources)
      | None \<Rightarrow> Inr (bt_insert (vr_key r) r resources))"

definition merge_relation ::
    "ValidatedRelation \<Rightarrow> (ValidatedRelationKey, ValidatedRelation) btree_map \<Rightarrow>
     DomainError + (ValidatedRelationKey, ValidatedRelation) btree_map" where
  "merge_relation r relations =
     (case bt_get relations (vl_key r) of
        Some existing \<Rightarrow>
          if vl_fingerprint existing \<noteq> vl_fingerprint r
          then Inl (contract_error InvalidResponse ''conflicting observations share one relation identity'')
          else if vl_observed_at r \<le> vl_observed_at existing then Inr relations
          else Inr (bt_insert (vl_key r) r relations)
      | None \<Rightarrow> Inr (bt_insert (vl_key r) r relations))"

definition resource_step ::
    "codec \<Rightarrow> Normalizer \<Rightarrow> SyncRequest \<Rightarrow> ResourceObservation \<Rightarrow>
     RedactionReport \<times> (ResourceKey, ValidatedResource) btree_map \<Rightarrow>
     DomainError + RedactionReport \<times> (ResourceKey, ValidatedResource) btree_map" where
  "resource_step c nz request obs acc =
     res_bind (normalize_resource c nz request obs) (\<lambda>(r, dropped).
       map_ok (Pair ((fst acc)\<lparr>rr_unknown_fields_dropped :=
           rr_unknown_fields_dropped (fst acc) + dropped\<rparr>))
         (merge_resource r (snd acc)))"

definition relation_step ::
    "codec \<Rightarrow> Normalizer \<Rightarrow> SyncRequest \<Rightarrow> RelationObservation \<Rightarrow>
     (ValidatedRelationKey, ValidatedRelation) btree_map \<Rightarrow>
     DomainError + (ValidatedRelationKey, ValidatedRelation) btree_map" where
  "relation_step c nz request obs relations =
     res_bind (normalize_relation c nz request obs) (\<lambda>r. merge_relation r relations)"

definition normalize ::
    "codec \<Rightarrow> Normalizer \<Rightarrow> SyncRequest \<Rightarrow> ObservationBatch \<Rightarrow> DomainError + ValidatedBatch" where
  "normalize c nz request batch =
     res_bind (batch_validate_for batch request) (\<lambda>_.
     res_bind (res_all (\<lambda>w. scan_text (ow_message w)) (ob_warnings batch)) (\<lambda>_.
     res_bind (res_fold (resource_step c nz request) (ob_resources batch)
        (ob_redaction_report batch, [])) (\<lambda>(redaction_report, resources).
     res_bind (res_fold (relation_step c nz request) (ob_relations batch) []) (\<lambda>relations.
       Inr \<lparr>vb_connection_id = ci_connection_id (req_connection request),
             vb_sync_run_id = req_sync_run_id request,
             vb_resources = bt_values resources, vb_relations = bt_values relations,
             vb_coverage = ob_coverage batch, vb_next_cursor = ob_next_cursor batch,
             vb_warnings = ob_warnings batch, vb_redaction_report = redaction_report,
             vb_provider_request_summary = ob_provider_request_summary batch\<rparr>))))"

end
