(* ===== verification/Observation_Merge.thy ===== *)
theory Observation_Merge
  imports Normalizer
begin

text \<open>
  The normalizer merges the observations of one identity twice, once for resources and once for
  relations, with the same steps: reject a different fingerprint, keep the latest observation. The
  locale \<open>observation_merge\<close> states that contract over the key, the fingerprint and the time of an
  observation and proves what a run of merges computes; the two merge functions of the model
  interpret it.
\<close>

locale observation_merge =
  fixes key :: "'x \<Rightarrow> 'k::linorder"
    and print :: "'x \<Rightarrow> string"
    and at :: "'x \<Rightarrow> int"
    and merge :: "'x \<Rightarrow> ('k, 'x) btree_map \<Rightarrow> DomainError + ('k, 'x) btree_map"
    and conflict :: DomainError
  assumes merge_new: "bt_get m (key x) = None \<Longrightarrow> merge x m = Inr (bt_insert (key x) x m)"
    and merge_conflict:
      "bt_get m (key x) = Some e \<Longrightarrow> print e \<noteq> print x \<Longrightarrow> merge x m = Inl conflict"
    and merge_old:
      "bt_get m (key x) = Some e \<Longrightarrow> print e = print x \<Longrightarrow> at x \<le> at e \<Longrightarrow> merge x m = Inr m"
    and merge_later:
      "bt_get m (key x) = Some e \<Longrightarrow> print e = print x \<Longrightarrow> at e < at x \<Longrightarrow>
       merge x m = Inr (bt_insert (key x) x m)"
begin

text \<open>What the map holds after some observations: for each key one of the latest of them.\<close>

definition merged :: "'x list \<Rightarrow> ('k, 'x) btree_map \<Rightarrow> bool" where
  "merged xs m \<longleftrightarrow> bt_wf m \<and>
     (\<forall>k e. bt_get m k = Some e \<longrightarrow> e \<in> set xs \<and> key e = k) \<and>
     (\<forall>x\<in>set xs. \<exists>e. bt_get m (key x) = Some e \<and> print e = print x \<and> at x \<le> at e)"

lemma mergedD:
  "merged xs m \<Longrightarrow> bt_get m k = Some e \<Longrightarrow> x \<in> set xs \<Longrightarrow> key x = k \<Longrightarrow> print x = print e \<and> at x \<le> at e"
  by (fastforce simp: merged_def)

lemma mergedE: "merged xs m \<Longrightarrow> bt_get m k = Some e \<Longrightarrow> e \<in> set xs \<and> key e = k"
  by (simp add: merged_def)

lemma merged_empty: "merged [] []"
  by (simp add: merged_def)

lemma merged_step:
  assumes "merged xs m" and "merge x m = Inr n"
  shows "merged (xs @ [x]) n"
proof (cases "bt_get m (key x)")
  case None
  with assms(2) have n: "n = bt_insert (key x) x m" by (simp add: merge_new)
  with assms(1) None show ?thesis
    by (fastforce simp: merged_def bt_wf_insert bt_get_insert)
next
  case (Some e)
  with assms(2) have same: "print e = print x" by (metis merge_conflict Inl_Inr_False)
  show ?thesis
  proof (cases "at x \<le> at e")
    case True
    with assms(2) Some same have "n = m" by (simp add: merge_old)
    with assms(1) Some same True show ?thesis by (auto simp: merged_def)
  next
    case False
    with assms(2) Some same have n: "n = bt_insert (key x) x m" by (simp add: merge_later)
    have "\<exists>f. bt_get n (key y) = Some f \<and> print f = print y \<and> at y \<le> at f" if "y \<in> set xs" for y
    proof (cases "key y = key x")
      case True
      with assms(1) that Some have "print e = print y" "at y \<le> at e" by (auto simp: merged_def)
      with True n same False show ?thesis by (simp add: bt_get_insert)
    next
      case False
      with assms(1) that n show ?thesis by (simp add: merged_def bt_get_insert)
    qed
    with assms(1) n show ?thesis
      by (auto simp: merged_def bt_wf_insert bt_get_insert)
  qed
qed

lemma merged_fold:
  "merged xs m \<Longrightarrow> res_fold merge ys m = Inr n \<Longrightarrow> merged (xs @ ys) n"
proof (induction ys arbitrary: xs m)
  case Nil
  then show ?case by simp
next
  case (Cons y ys)
  from Cons.prems(2) obtain m' where m': "merge y m = Inr m'" "res_fold merge ys m' = Inr n"
    by (auto simp: res_simps)
  from Cons.IH[OF merged_step[OF Cons.prems(1) m'(1)] m'(2)] show ?case by simp
qed

lemma merged_all: "res_fold merge xs [] = Inr m \<Longrightarrow> merged xs m"
  using merged_fold[OF merged_empty, of xs m] by simp

text \<open>No two observations of one key disagree on the fingerprint.\<close>

definition consistent :: "'x list \<Rightarrow> bool" where
  "consistent xs \<longleftrightarrow> (\<forall>x\<in>set xs. \<forall>y\<in>set xs. key x = key y \<longrightarrow> print x = print y)"

lemma merged_consistent: "merged xs m \<Longrightarrow> consistent xs"
  unfolding merged_def consistent_def by (metis option.inject)

lemma merge_ok:
  assumes "merged xs m" and "\<forall>y\<in>set xs. key x = key y \<longrightarrow> print x = print y"
  shows "\<exists>n. merge x m = Inr n"
proof (cases "bt_get m (key x)")
  case None
  then show ?thesis by (simp add: merge_new)
next
  case (Some e)
  with assms(1) have "e \<in> set xs" "key e = key x" by (auto simp: merged_def)
  with assms(2) have "print e = print x" by metis
  with Some show ?thesis by (cases "at x \<le> at e") (auto simp: merge_old merge_later)
qed

lemma merge_error: "merge x m = Inl e \<Longrightarrow> e = conflict"
  by (cases "bt_get m (key x)")
    (auto simp: merge_new, metis Inl_inject Inr_Inl_False linorder_not_le merge_conflict merge_later merge_old)

lemma fold_ok:
  "merged xs m \<Longrightarrow> consistent (xs @ ys) \<Longrightarrow> \<exists>n. res_fold merge ys m = Inr n"
proof (induction ys arbitrary: xs m)
  case Nil
  then show ?case by simp
next
  case (Cons y ys)
  from Cons.prems obtain m' where m': "merge y m = Inr m'"
    using merge_ok[of xs m y] by (auto simp: consistent_def)
  have "\<exists>n. res_fold merge ys m' = Inr n"
    by (rule Cons.IH[OF merged_step[OF Cons.prems(1) m']]) (use Cons.prems(2) in simp)
  with m' show ?case by simp
qed

text \<open>The merge succeeds exactly for consistent observations, and then is functional.\<close>

lemma fold_ok_iff: "(\<exists>m. res_fold merge xs [] = Inr m) \<longleftrightarrow> consistent xs"
  using fold_ok[OF merged_empty, of xs] merged_all merged_consistent by auto

lemma fold_error:
  "res_fold merge xs m = Inl e \<Longrightarrow> e = conflict"
  by (induction xs arbitrary: m) (auto simp: res_simps dest: merge_error)

lemma fold_conflict_iff: "res_fold merge xs [] = Inl conflict \<longleftrightarrow> \<not> consistent xs"
  using fold_ok_iff[of xs] fold_error[of xs "[]"] by (cases "res_fold merge xs []") auto

lemma merged_keys: "merged xs m \<Longrightarrow> fst ` set m = key ` set xs"
proof -
  assume m: "merged xs m"
  have "k \<in> fst ` set m \<longleftrightarrow> k \<in> key ` set xs" for k
  proof
    assume "k \<in> fst ` set m"
    then obtain e where "bt_get m k = Some e" by (metis bt_get_None_iff not_None_eq)
    with m show "k \<in> key ` set xs" by (auto simp: merged_def)
  next
    assume "k \<in> key ` set xs"
    with m have "bt_get m k \<noteq> None" by (auto simp: merged_def)
    then show "k \<in> fst ` set m" by (metis bt_get_None_iff)
  qed
  then show ?thesis by blast
qed

lemma merged_values:
  assumes "merged xs m"
  shows "set (bt_values m) \<subseteq> set xs"
    and "map key (bt_values m) = bt_keys m"
    and "sorted_wrt (<) (map key (bt_values m))"
proof -
  have entry: "e \<in> set xs \<and> key e = k" if "(k, e) \<in> set m" for k e
    using assms that by (auto simp: merged_def bt_mem_iff)
  then show "set (bt_values m) \<subseteq> set xs" by (auto simp: bt_values_def)
  show keys: "map key (bt_values m) = bt_keys m"
    using entry by (auto simp: bt_values_def bt_keys_def)
  show "sorted_wrt (<) (map key (bt_values m))"
    using assms by (simp add: keys bt_keys_def merged_def bt_wf_def)
qed

lemma merged_latest:
  assumes "merged xs m" and "e \<in> set (bt_values m)" and "x \<in> set xs" and "key x = key e"
  shows "print x = print e" and "at x \<le> at e"
proof -
  from assms(1,2) obtain k where "bt_get m k = Some e"
    by (auto simp: merged_def bt_values_iff)
  with assms(1) mergedE have get: "bt_get m (key e) = Some e" by blast
  then show "print x = print e" "at x \<le> at e"
    using mergedD[OF assms(1) get assms(3,4)] by simp_all
qed

text \<open>The order of the observations does not matter for the identities, prints and times.\<close>

lemma merged_perm:
  assumes "merged xs m" and "merged ys n" and "set xs = set ys"
  shows "map (\<lambda>e. (key e, print e, at e)) (bt_values m) = map (\<lambda>e. (key e, print e, at e)) (bt_values n)"
proof -
  have "fst ` set m = fst ` set n" using assms by (simp add: merged_keys)
  then have keys: "map fst m = map fst n"
    using assms(1,2) bs_ext[of "map fst m" "map fst n"] by (simp add: merged_def bt_wf_def bs_wf_def)
  have view: "key e = key f \<and> print e = print f \<and> at e = at f"
    if g: "bt_get m k = Some e" "bt_get n k = Some f" for k e f
  proof -
    have e: "e \<in> set ys" "key e = k" and f: "f \<in> set xs" "key f = k"
      using mergedE[OF assms(1) g(1)] mergedE[OF assms(2) g(2)] assms(3) by auto
    show ?thesis
      using mergedD[OF assms(1) g(1) f] mergedD[OF assms(2) g(2) e] e(2) f(2) by simp
  qed
  have len: "length m = length n" using keys by (metis length_map)
  show ?thesis
  proof (rule nth_equalityI)
    show "length (map (\<lambda>e. (key e, print e, at e)) (bt_values m)) =
        length (map (\<lambda>e. (key e, print e, at e)) (bt_values n))"
      using len by (simp add: bt_values_def)
  next
    fix i
    assume "i < length (map (\<lambda>e. (key e, print e, at e)) (bt_values m))"
    then have i: "i < length m" "i < length n" using len by (simp_all add: bt_values_def)
    obtain k e where e: "m ! i = (k, e)" by (cases "m ! i")
    obtain l f where f: "n ! i = (l, f)" by (cases "n ! i")
    have "k = l" using arg_cong[OF keys, of "\<lambda>ks. ks ! i"] i e f by simp
    have "(k, e) \<in> set m" using nth_mem[OF i(1)] e by simp
    moreover have "(k, f) \<in> set n" using nth_mem[OF i(2)] f \<open>k = l\<close> by simp
    ultimately have g: "bt_get m k = Some e" "bt_get n k = Some f"
      using assms(1,2) by (simp_all add: merged_def bt_mem_iff)
    from view[OF g] i e f
    show "map (\<lambda>e. (key e, print e, at e)) (bt_values m) ! i =
        map (\<lambda>e. (key e, print e, at e)) (bt_values n) ! i"
      by (simp add: bt_values_def)
  qed
qed

end

definition resource_conflict :: DomainError where
  "resource_conflict =
     contract_error InvalidResponse ''conflicting observations share one resource identity''"

definition relation_conflict :: DomainError where
  "relation_conflict =
     contract_error InvalidResponse ''conflicting observations share one relation identity''"

interpretation resource_merge:
  observation_merge vr_key vr_fingerprint vr_observed_at merge_resource resource_conflict
  by unfold_locales (auto simp: merge_resource_def resource_conflict_def)

interpretation relation_merge:
  observation_merge vl_key vl_fingerprint vl_observed_at merge_relation relation_conflict
  by unfold_locales (auto simp: merge_relation_def relation_conflict_def)

end
