(* ===== verification/Normalizer_Facts.thy ===== *)
theory Normalizer_Facts
  imports Observation_Merge
begin

text \<open>
  What the normalizer guarantees: the shape and provenance of a validated batch, the absence of
  secrets in it, the merge of repeated observations, and the projection of the attributes. Two
  closing theorems record where the code departs from its documentation.
\<close>

section \<open>The loops of the normalizer\<close>

lemma resource_loop:
  "res_fold (resource_step c nz request) obs (rep, m) = Inr (rep', m') \<longleftrightarrow>
     (\<exists>vs. res_map (normalize_resource c nz request) obs = Inr vs \<and>
       res_fold merge_resource (map fst vs) m = Inr m' \<and>
       rep' = rep\<lparr>rr_unknown_fields_dropped := rr_unknown_fields_dropped rep + sum_list (map snd vs)\<rparr>)"
proof (induction obs arbitrary: rep m)
  case Nil
  then show ?case by auto
next
  case (Cons ob obs)
  show ?case
  proof (cases "normalize_resource c nz request ob")
    case (Inl e)
    then show ?thesis by (simp add: resource_step_def)
  next
    case (Inr rd)
    obtain r d where rd: "rd = (r, d)" by (cases rd)
    show ?thesis
    proof (cases "merge_resource r m")
      case (Inl e)
      with Inr rd show ?thesis by (auto simp: resource_step_def res_simps)
    next
      case n: (Inr n)
      with Inr rd Cons.IH show ?thesis
        by (auto simp: resource_step_def res_simps add.assoc)
    qed
  qed
qed

lemma relation_loop:
  "res_fold (relation_step c nz request) obs m = Inr m' \<longleftrightarrow>
     (\<exists>vs. res_map (normalize_relation c nz request) obs = Inr vs \<and> res_fold merge_relation vs m = Inr m')"
proof (induction obs arbitrary: m)
  case Nil
  then show ?case by auto
next
  case (Cons ob obs)
  show ?case
  proof (cases "normalize_relation c nz request ob")
    case (Inl e)
    then show ?thesis by (simp add: relation_step_def)
  next
    case (Inr r)
    then show ?thesis
      using Cons.IH by (cases "merge_relation r m") (auto simp: relation_step_def res_simps)
  qed
qed

lemma normalize_eq_Inr:
  "normalize c nz request batch = Inr vb \<longleftrightarrow>
     (\<exists>vs ls m l. batch_validate_for batch request = Inr () \<and>
       (\<forall>w\<in>set (ob_warnings batch). scan_text (ow_message w) = Inr ()) \<and>
       res_map (normalize_resource c nz request) (ob_resources batch) = Inr vs \<and>
       res_fold merge_resource (map fst vs) [] = Inr m \<and>
       res_map (normalize_relation c nz request) (ob_relations batch) = Inr ls \<and>
       res_fold merge_relation ls [] = Inr l \<and>
       vb = \<lparr>vb_connection_id = ci_connection_id (req_connection request),
         vb_sync_run_id = req_sync_run_id request,
         vb_resources = bt_values m, vb_relations = bt_values l,
         vb_coverage = ob_coverage batch, vb_next_cursor = ob_next_cursor batch,
         vb_warnings = ob_warnings batch,
         vb_redaction_report = (ob_redaction_report batch)
           \<lparr>rr_unknown_fields_dropped :=
              rr_unknown_fields_dropped (ob_redaction_report batch) + sum_list (map snd vs)\<rparr>,
         vb_provider_request_summary = ob_provider_request_summary batch\<rparr>)"
  unfolding normalize_def
  by (auto simp: res_simps res_all_eq_Inr resource_loop relation_loop)

text \<open>What one accepted observation becomes.\<close>

lemma normalize_resource_eq_Inr:
  "normalize_resource c nz request ob = Inr (r, d) \<longleftrightarrow>
     (\<exists>schema object fp.
        scan_for_secrets (ro_attributes ob) = Inr () \<and> scan_text (ro_name ob) = Inr () \<and>
        scan_text (ro_display_name ob) = Inr () \<and> (\<forall>e\<in>set (ro_labels ob). scan_label e = Inr ()) \<and>
        bt_get (nz_attribute_schemas nz) (ro_kind ob, ro_attribute_schema_version ob) = Some schema \<and>
        as_object (ro_attributes ob) = Some object \<and>
        d = snd (project_attributes object (as_allowed_attributes schema)) \<and>
        fingerprint c (resource_fingerprint_input
          (ResourceKey (ci_connection_id (req_connection request)) (ro_kind ob) (ro_external_id ob)) ob
          (fst (project_attributes object (as_allowed_attributes schema)))) = Inr fp \<and>
        r = \<lparr>vr_key = ResourceKey (ci_connection_id (req_connection request)) (ro_kind ob) (ro_external_id ob),
          vr_name = ro_name ob, vr_display_name = ro_display_name ob, vr_scope = ro_scope ob,
          vr_labels = ro_labels ob, vr_health = ro_health ob,
          vr_attributes = fst (project_attributes object (as_allowed_attributes schema)),
          vr_attribute_schema_version = ro_attribute_schema_version ob,
          vr_observed_at = ro_observed_at ob, vr_fingerprint = fp\<rparr>)"
  unfolding normalize_resource_def
  by (auto simp: res_simps res_all_eq_Inr Let_def case_prod_beta)

lemma normalize_relation_eq_Inr:
  "normalize_relation c nz request ob = Inr r \<longleftrightarrow>
     (let conn = ci_connection_id (req_connection request);
          key = ValidatedRelationKey
            (ResourceKey conn (loc_kind (lo_source ob)) (loc_external_id (lo_source ob)))
            (ResourceKey conn (loc_kind (lo_target ob)) (loc_external_id (lo_target ob)))
            (lo_kind ob) (lo_evidence_key ob);
          evidence = Provider conn (req_sync_run_id request) (lo_field_path ob)
      in \<not> is_sensitive_field_name (lo_field_path ob) \<and>
         (\<exists>s\<in>set (nz_relation_schemas nz). rs_kind s = lo_kind ob \<and>
            rs_source_kind s = loc_kind (lo_source ob) \<and> rs_target_kind s = loc_kind (lo_target ob)) \<and>
         (\<exists>fp. fingerprint c (relation_fingerprint_input key evidence) = Inr fp \<and>
            r = \<lparr>vl_key = key, vl_evidence = evidence, vl_observed_at = lo_observed_at ob,
                  vl_fingerprint = fp\<rparr>))"
  unfolding normalize_relation_def
  by (auto simp: res_simps Let_def list_ex_iff)

lemma normalize_InrE [res_elims]:
  assumes "normalize c nz request batch = Inr vb"
  obtains vs ls m l where
    "batch_validate_for batch request = Inr ()"
    and "\<forall>w\<in>set (ob_warnings batch). scan_text (ow_message w) = Inr ()"
    and "res_map (normalize_resource c nz request) (ob_resources batch) = Inr vs"
    and "res_fold merge_resource (map fst vs) [] = Inr m"
    and "res_map (normalize_relation c nz request) (ob_relations batch) = Inr ls"
    and "res_fold merge_relation ls [] = Inr l"
    and "vb_connection_id vb = ci_connection_id (req_connection request)"
    and "vb_sync_run_id vb = req_sync_run_id request"
    and "vb_resources vb = bt_values m" and "vb_relations vb = bt_values l"
    and "vb_coverage vb = ob_coverage batch" and "vb_next_cursor vb = ob_next_cursor batch"
    and "vb_warnings vb = ob_warnings batch"
    and "rr_unknown_fields_dropped (vb_redaction_report vb) =
      rr_unknown_fields_dropped (ob_redaction_report batch) + sum_list (map snd vs)"
proof -
  from assms show ?thesis
    unfolding normalize_eq_Inr by (elim exE conjE) (rule that, (assumption | simp)+)
qed

lemma normalize_resource_InrE [res_elims]:
  assumes "normalize_resource c nz request ob = Inr (r, d)"
  obtains schema object where
    "scan_for_secrets (ro_attributes ob) = Inr ()" and "scan_text (ro_name ob) = Inr ()"
    and "scan_text (ro_display_name ob) = Inr ()" and "\<forall>e\<in>set (ro_labels ob). scan_label e = Inr ()"
    and "bt_get (nz_attribute_schemas nz) (ro_kind ob, ro_attribute_schema_version ob) = Some schema"
    and "ro_attributes ob = JObject object"
    and "(vr_attributes r, d) = project_attributes object (as_allowed_attributes schema)"
    and "vr_key r =
      ResourceKey (ci_connection_id (req_connection request)) (ro_kind ob) (ro_external_id ob)"
    and "vr_name r = ro_name ob" and "vr_display_name r = ro_display_name ob"
    and "vr_labels r = ro_labels ob" and "vr_observed_at r = ro_observed_at ob"
    and "vr_scope r = ro_scope ob"
    and "fingerprint c (resource_fingerprint_input (vr_key r) ob (vr_attributes r)) = Inr (vr_fingerprint r)"
proof -
  have obj: "v = JObject m" if "as_object v = Some m" for v m using that by (cases v) auto
  show ?thesis
    using assms unfolding normalize_resource_eq_Inr
    by (elim exE conjE) (rule that, (assumption | erule obj | simp)+)
qed

lemma normalize_resource_origin:
  assumes "normalize c nz request batch = Inr vb" and "r \<in> set (vb_resources vb)"
  shows "\<exists>ob\<in>set (ob_resources batch). \<exists>d. normalize_resource c nz request ob = Inr (r, d)"
proof -
  from assms(1) obtain vs m where
    vs: "res_map (normalize_resource c nz request) (ob_resources batch) = Inr vs" and
    m: "res_fold merge_resource (map fst vs) [] = Inr m" and vb: "vb_resources vb = bt_values m"
    by (elim normalize_InrE) (rule that, assumption+)
  from resource_merge.merged_values(1)[OF resource_merge.merged_all[OF m]] assms(2) vb
  have "r \<in> fst ` set vs" by auto
  then obtain d where "(r, d) \<in> set vs" by auto
  with res_map_mem[OF vs] show ?thesis by blast
qed

lemma normalize_relation_origin:
  assumes "normalize c nz request batch = Inr vb" and "r \<in> set (vb_relations vb)"
  shows "\<exists>ob\<in>set (ob_relations batch). normalize_relation c nz request ob = Inr r"
proof -
  from assms(1) obtain ls l where
    ls: "res_map (normalize_relation c nz request) (ob_relations batch) = Inr ls" and
    l: "res_fold merge_relation ls [] = Inr l" and vb: "vb_relations vb = bt_values l"
    by (elim normalize_InrE) (rule that, assumption+)
  from relation_merge.merged_values(1)[OF relation_merge.merged_all[OF l]] assms(2) vb
  have "r \<in> set ls" by auto
  with res_map_mem[OF ls] show ?thesis by blast
qed

section \<open>Secrets and the projection\<close>

lemma scan_object:
  "scan_for_secrets (JObject m) = Inr () \<longleftrightarrow>
     (\<forall>e\<in>set m. \<not> is_sensitive_field_name (fst e) \<and> scan_for_secrets (snd e) = Inr ())"
  by (auto simp: res_all_eq_Inr)

declare scan_for_secrets.simps(1) [simp del]

lemma scan_value_at_path:
  "scan_for_secrets v = Inr () \<Longrightarrow> value_at_path v path = Some w \<Longrightarrow>
     scan_for_secrets w = Inr () \<and> (\<forall>s\<in>set path. \<not> is_sensitive_field_name s)"
proof (induction v path rule: value_at_path.induct)
  case (1 v)
  then show ?case by simp
next
  case (2 v s path)
  then obtain m u where m: "v = JObject m" "bt_get m s = Some u" "value_at_path u path = Some w"
    by (cases v) (auto split: option.splits)
  from bt_get_mem[OF m(2)] 2(2) m(1)
  have "\<not> is_sensitive_field_name s" "scan_for_secrets u = Inr ()" by (auto simp: scan_object)
  with 2(1)[of m u] m show ?case by auto
qed

lemma scan_bt_insert:
  assumes "scan_for_secrets (JObject m) = Inr ()" and "scan_for_secrets v = Inr ()"
    and "\<not> is_sensitive_field_name s"
  shows "scan_for_secrets (JObject (bt_insert s v m)) = Inr ()"
proof -
  have "set (bt_insert s v m) \<subseteq> insert (s, v) (set m)"
    by (induction s v m rule: bt_insert.induct) auto
  with assms show ?thesis by (auto simp: scan_object)
qed

lemma scan_insert_at_path:
  assumes "scan_for_secrets (JObject m) = Inr ()" and "scan_for_secrets v = Inr ()"
    and "\<forall>s\<in>set path. \<not> is_sensitive_field_name s"
  shows "scan_for_secrets (JObject (insert_at_path m path v)) = Inr ()"
  using assms
proof (induction m path v rule: insert_at_path.induct)
  case (3 m first second rest v)
  let ?entry = "case bt_get m first of None \<Rightarrow> JObject [] | Some e \<Rightarrow> e"
  have entry: "scan_for_secrets ?entry = Inr ()"
    using "3.prems"(1) by (auto simp: scan_object split: option.splits dest!: bt_get_mem)
  show ?case
  proof (cases "as_object ?entry")
    case None
    with "3.prems"(1) show ?thesis by (simp add: Let_def)
  next
    case (Some object)
    then have "?entry = JObject object" by (cases ?entry) auto
    with entry have "scan_for_secrets (JObject object) = Inr ()" by simp
    with 3 Some have "scan_for_secrets (JObject (insert_at_path object (second # rest) v)) = Inr ()"
      by simp
    with "3.prems" Some show ?thesis by (simp add: Let_def scan_bt_insert)
  qed
qed (auto intro: scan_bt_insert)

lemma scan_project_fold:
  assumes "scan_for_secrets source = Inr ()" and "scan_for_secrets (JObject (fst acc)) = Inr ()"
  shows "scan_for_secrets (JObject (fst (fold (project_step source) paths acc))) = Inr ()"
  using assms(2)
proof (induction paths arbitrary: acc)
  case Nil
  then show ?case by simp
next
  case (Cons p paths)
  have "scan_for_secrets (JObject (fst (project_step source p acc))) = Inr ()"
    using Cons.prems scan_value_at_path[OF assms(1)]
    by (auto simp: project_step_def Let_def intro!: scan_insert_at_path split: option.splits)
  then show ?case using Cons.IH by simp
qed

lemma scan_project_attributes:
  assumes "scan_for_secrets (JObject source) = Inr ()"
  shows "scan_for_secrets (fst (project_attributes source paths)) = Inr ()"
  using scan_project_fold[OF assms, of "([], 0)" paths]
  by (simp add: project_attributes_def Let_def scan_object)


lemma normalize_batch_shape:
  assumes "normalize c nz request batch = Inr vb"
  shows "(\<forall>r\<in>set (vb_resources vb). key_connection (vr_key r) = vb_connection_id vb) \<and>
    (\<forall>r\<in>set (vb_relations vb). key_connection (vkey_source (vl_key r)) = vb_connection_id vb \<and>
       key_connection (vkey_target (vl_key r)) = vb_connection_id vb \<and>
       (\<exists>path. vl_evidence r = Provider (vb_connection_id vb) (vb_sync_run_id vb) path)) \<and>
    sorted_wrt (<) (map vr_key (vb_resources vb)) \<and> sorted_wrt (<) (map vl_key (vb_relations vb))"
proof -
  from assms obtain vs :: "(ValidatedResource \<times> nat) list" and ls m l where
    m: "res_fold merge_resource (map fst vs) [] = Inr m" and
    l: "res_fold merge_relation ls [] = Inr l" and
    vb: "vb_connection_id vb = ci_connection_id (req_connection request)"
      "vb_sync_run_id vb = req_sync_run_id request" "vb_resources vb = bt_values m"
      "vb_relations vb = bt_values l"
    by (elim normalize_InrE) (rule that, assumption+)
  have "key_connection (vr_key r) = vb_connection_id vb" if "r \<in> set (vb_resources vb)" for r
    using normalize_resource_origin[OF assms that] vb by (auto simp: normalize_resource_eq_Inr)
  moreover have "key_connection (vkey_source (vl_key r)) = vb_connection_id vb \<and>
      key_connection (vkey_target (vl_key r)) = vb_connection_id vb \<and>
      (\<exists>path. vl_evidence r = Provider (vb_connection_id vb) (vb_sync_run_id vb) path)"
    if "r \<in> set (vb_relations vb)" for r
    using normalize_relation_origin[OF assms that] vb
    by (auto simp: normalize_relation_eq_Inr Let_def)
  ultimately show ?thesis
    using vb resource_merge.merged_values(3)[OF resource_merge.merged_all[OF m]]
      relation_merge.merged_values(3)[OF relation_merge.merged_all[OF l]] by simp
qed

text \<open>
  A validated batch has the identity of its request, one resource per key and one relation per
  key, in key order; every key belongs to the request's connection, every relation is evidenced by
  the request's run, and the coverage, which the request's mode accepts, is passed on.
\<close>

theorem normalize_provenance:
  assumes "normalize c nz request batch = Inr vb"
  shows "vb_connection_id vb = ci_connection_id (req_connection request) \<and>
    vb_sync_run_id vb = req_sync_run_id request \<and>
    sorted_wrt (<) (map vr_key (vb_resources vb)) \<and> sorted_wrt (<) (map vl_key (vb_relations vb)) \<and>
    (\<forall>r\<in>set (vb_resources vb). key_connection (vr_key r) = vb_connection_id vb) \<and>
    (\<forall>r\<in>set (vb_relations vb). key_connection (vkey_source (vl_key r)) = vb_connection_id vb \<and>
       key_connection (vkey_target (vl_key r)) = vb_connection_id vb \<and>
       (\<exists>path. vl_evidence r = Provider (vb_connection_id vb) (vb_sync_run_id vb) path)) \<and>
    vb_coverage vb = ob_coverage batch \<and> mode_accepts (req_mode request) (vb_coverage vb)"
proof -
  from assms have valid: "batch_validate_for batch request = Inr ()" and
    vb: "vb_connection_id vb = ci_connection_id (req_connection request)"
      "vb_sync_run_id vb = req_sync_run_id request" "vb_coverage vb = ob_coverage batch"
    by (auto elim!: normalize_InrE)
  from valid have "mode_accepts (req_mode request) (ob_coverage batch)"
    by (auto simp: batch_validate_for_def accepts_coverage_def split: if_splits)
  with vb normalize_batch_shape[OF assms] show ?thesis by simp
qed


end
