(* ===== verification/Attribute_Projection.thy ===== *)
theory Attribute_Projection
  imports Normalizer "HOL-Library.Sublist"
begin

text \<open>
  The projection of a resource's attributes on the allowed paths of its schema: what it keeps is
  part of the observed object, and the leaves it keeps and the leaves it reports as dropped add up,
  provided no allowed path is a prefix of another.
\<close>

section \<open>Parts of a value\<close>

fun sub_value :: "Value \<Rightarrow> Value \<Rightarrow> bool" where
  "sub_value (JObject m) (JObject n) \<longleftrightarrow>
     list_all (\<lambda>e. case bt_get n (fst e) of None \<Rightarrow> False | Some w \<Rightarrow> sub_value (snd e) w) m"
| "sub_value v w \<longleftrightarrow> v = w"

lemma sub_value_object:
  "sub_value (JObject m) (JObject n) \<longleftrightarrow>
     (\<forall>(k, v)\<in>set m. \<exists>w. bt_get n k = Some w \<and> sub_value v w)"
  by (force simp: list_all_iff split: option.splits)

declare sub_value.simps(1) [simp del]

lemma value_wf_object:
  "value_wf (JObject m) \<longleftrightarrow> bt_wf m \<and> (\<forall>(k, v)\<in>set m. value_wf v)"
  by (simp add: split_def)

declare value_wf.simps(2) [simp del]

lemma value_wf_empty [simp]: "value_wf (JObject [])"
  by (simp add: value_wf_object)

lemma value_wf_bt: "value_wf (JObject n) \<Longrightarrow> bt_wf n"
  by (simp add: value_wf_object)

lemma value_wf_mem: "value_wf (JObject n) \<Longrightarrow> (k, v) \<in> set n \<Longrightarrow> value_wf v"
  by (auto simp: value_wf_object)

lemma value_wf_get: "value_wf (JObject n) \<Longrightarrow> bt_get n k = Some v \<Longrightarrow> value_wf v"
  by (auto intro: value_wf_mem bt_get_mem)

lemma sub_value_refl: "value_wf v \<Longrightarrow> sub_value v v"
proof (induction v)
  case (JObject m)
  have "bt_get m k = Some v \<and> sub_value v v" if "(k, v) \<in> set m" for k v
  proof -
    have "v \<in> Basic_BNFs.snds (k, v)" by simp
    with JObject.IH[OF that] value_wf_mem[OF JObject.prems that] have "sub_value v v" by blast
    with that value_wf_bt[OF JObject.prems] show ?thesis by (simp add: bt_mem_iff)
  qed
  then show ?case by (auto simp: sub_value_object)
qed auto

lemma sub_value_non_object: "sub_value v (JObject n) \<Longrightarrow> \<exists>m. v = JObject m"
  by (cases v) auto

section \<open>Insertion at a path\<close>

lemma set_bt_insert_subset: "set (bt_insert k v m) \<subseteq> insert (k, v) (set m)"
  by (induction k v m rule: bt_insert.induct) auto

lemma sub_value_bt_insert:
  assumes "sub_value (JObject m) (JObject n)" and "bt_get n k = Some w" and "sub_value v w"
  shows "sub_value (JObject (bt_insert k v m)) (JObject n)"
  using assms set_bt_insert_subset[of k v m] by (force simp: sub_value_object)

lemma insert_at_path_sub:
  assumes "sub_value (JObject m) (JObject n)" and "value_wf (JObject n)"
    and "value_at_path (JObject n) path = Some v"
  shows "sub_value (JObject (insert_at_path m path v)) (JObject n)"
  using assms
proof (induction m path v arbitrary: n rule: insert_at_path.induct)
  case (2 m s v)
  then have "bt_get n s = Some v" by (auto split: option.splits)
  with 2 show ?case
    by (auto intro!: sub_value_bt_insert sub_value_refl elim: value_wf_get)
next
  case (3 m s t rest v)
  then obtain u where u: "bt_get n s = Some u" "value_at_path u (t # rest) = Some v"
    by (auto split: option.splits)
  then obtain n' where n': "u = JObject n'" by (cases u) auto
  let ?entry = "case bt_get m s of None \<Rightarrow> JObject [] | Some e \<Rightarrow> e"
  have "sub_value ?entry (JObject n')"
  proof (cases "bt_get m s")
    case None
    then show ?thesis by (simp add: sub_value_object)
  next
    case (Some e)
    from bt_get_mem[OF Some] "3.prems"(1) obtain w where "bt_get n s = Some w" "sub_value e w"
      by (auto simp: sub_value_object)
    with Some u(1) n' show ?thesis by simp
  qed
  moreover from this obtain m' where m': "?entry = JObject m'" using sub_value_non_object by blast
  moreover have "value_wf (JObject n')" using value_wf_get[OF "3.prems"(2) u(1)] n' by simp
  ultimately have "sub_value (JObject (insert_at_path m' (t # rest) v)) (JObject n')"
    using "3.IH"[of ?entry m' n'] u(2) n' by simp
  with "3.prems"(1) u(1) n' m' show ?case
    by (auto simp: Let_def intro: sub_value_bt_insert)
qed simp

lemma value_wf_bt_insert:
  "value_wf (JObject m) \<Longrightarrow> value_wf v \<Longrightarrow> value_wf (JObject (bt_insert k v m))"
  using set_bt_insert_subset[of k v m] by (fastforce simp: value_wf_object bt_wf_insert)

lemma insert_at_path_wf:
  "value_wf (JObject m) \<Longrightarrow> value_wf v \<Longrightarrow> value_wf (JObject (insert_at_path m path v))"
proof (induction m path v rule: insert_at_path.induct)
  case (3 m s t rest v)
  let ?entry = "case bt_get m s of None \<Rightarrow> JObject [] | Some e \<Rightarrow> e"
  have wf: "value_wf ?entry" using "3.prems"(1) by (auto split: option.splits elim: value_wf_get)
  show ?case
  proof (cases "as_object ?entry")
    case None
    with "3.prems" show ?thesis by (simp add: Let_def)
  next
    case (Some m')
    then have "?entry = JObject m'" by (cases ?entry) auto
    with wf have "value_wf (JObject m')" by simp
    with 3 Some have "value_wf (JObject (insert_at_path m' (t # rest) v))" by simp
    with "3.prems" Some show ?thesis by (simp only: insert_at_path.simps Let_def option.case value_wf_bt_insert)
  qed
qed (auto intro: value_wf_bt_insert)

lemma value_at_path_wf: "value_wf v \<Longrightarrow> value_at_path v path = Some w \<Longrightarrow> value_wf w"
proof (induction v path rule: value_at_path.induct)
  case (2 v s path)
  then obtain m u where "v = JObject m" "bt_get m s = Some u" "value_at_path u path = Some w"
    by (cases v) (auto split: option.splits)
  with 2 value_wf_get[of m s u] show ?case by simp
qed simp

lemma project_fold_invariant:
  assumes "value_wf source" and "source = JObject n"
    and "sub_value (JObject (fst acc)) source" and "value_wf (JObject (fst acc))"
  shows "sub_value (JObject (fst (fold (project_step source) paths acc))) source \<and>
    value_wf (JObject (fst (fold (project_step source) paths acc)))"
  using assms(3,4)
proof (induction paths arbitrary: acc)
  case Nil
  then show ?case by simp
next
  case (Cons p paths)
  have "sub_value (JObject (fst (project_step source p acc))) source \<and>
      value_wf (JObject (fst (project_step source p acc)))"
    using Cons.prems assms(1,2)
    by (auto simp: project_step_def Let_def split: option.splits
        intro: insert_at_path_sub insert_at_path_wf value_at_path_wf)
  then show ?case using Cons.IH[of "project_step source p acc"] by simp
qed

section \<open>Counting leaves\<close>

abbreviation leaves :: "json_map \<Rightarrow> nat" where
  "leaves m \<equiv> sum_list (map (\<lambda>e. count_leaf_fields (snd e)) m)"

lemma leaves_insert_new:
  "bt_get m k = None \<Longrightarrow> leaves (bt_insert k v m) = leaves m + count_leaf_fields v"
  by (induction k v m rule: bt_insert.induct) (auto split: if_splits)

lemma leaves_insert_old:
  "bt_wf m \<Longrightarrow> bt_get m k = Some u \<Longrightarrow>
     leaves (bt_insert k v m) + count_leaf_fields u = leaves m + count_leaf_fields v"
proof (induction k v m rule: bt_insert.induct)
  case (2 k v j w m)
  then show ?case by (auto simp: bt_wf_Cons split: if_splits dest!: bt_get_mem)
qed simp

lemma leaves_get_le: "bt_get m k = Some v \<Longrightarrow> count_leaf_fields v \<le> leaves m"
  by (induction m) (auto split: if_splits)

lemma leaves_remove:
  "bt_wf m \<Longrightarrow> bt_get m k = Some v \<Longrightarrow> leaves (bt_remove k m) + count_leaf_fields v = leaves m"
proof (induction m)
  case (Cons e m)
  have "bt_remove k m = m" if "k \<notin> fst ` set m"
    using that unfolding bt_remove_def by (intro filter_True) force
  moreover have "bt_remove k (e # m) = (if fst e = k then bt_remove k m else e # bt_remove k m)"
    by (auto simp: bt_remove_def)
  moreover have "k \<notin> fst ` set m" if "fst e = k"
    using that Cons.prems(1) by (cases e) (auto simp: bt_wf_Cons)
  ultimately show ?case using Cons
    by (cases e) (auto simp: bt_wf_Cons split: if_splits)
qed simp

lemma count_leaf_mono:
  "sub_value v w \<Longrightarrow> value_wf v \<Longrightarrow> value_wf w \<Longrightarrow> count_leaf_fields v \<le> count_leaf_fields w"
proof (induction v w rule: sub_value.induct)
  case (1 m n)
  have "leaves m' \<le> leaves n'"
    if "set m' \<subseteq> set m" "bt_wf m'" "bt_wf n'" "\<forall>k\<in>fst ` set m'. bt_get n' k = bt_get n k"
    for m' n'
    using that
  proof (induction m' arbitrary: n')
    case Nil
    then show ?case by simp
  next
    case (Cons e m')
    obtain k v where e: "e = (k, v)" by (cases e)
    with Cons.prems "1.prems" obtain w where w: "bt_get n k = Some w" "sub_value v w"
      by (auto simp: sub_value_object)
    have mem: "(k, v) \<in> set m" using Cons.prems(1) e by simp
    have "value_wf v" "value_wf w"
      using value_wf_mem[OF "1.prems"(2) mem] value_wf_get[OF "1.prems"(3) w(1)] by simp_all
    with "1.IH"[OF mem] w have le: "count_leaf_fields v \<le> count_leaf_fields w" by simp
    have k': "bt_get n' k = Some w" using Cons.prems(4) e w(1) by simp
    have "leaves m' \<le> leaves (bt_remove k n')"
    proof (rule Cons.IH)
      show "\<forall>j\<in>fst ` set m'. bt_get (bt_remove k n') j = bt_get n j"
        using Cons.prems(2,4) e by (auto simp: bt_get_remove bt_wf_Cons)
    qed (use Cons.prems e in \<open>auto simp: bt_wf_Cons bt_wf_remove\<close>)
    with le leaves_remove[OF Cons.prems(3) k'] e show ?case by simp
  qed
  from this[of m n] "1.prems" show ?case by (simp add: value_wf_bt)
qed auto

text \<open>A path along which an object has nothing yet.\<close>

fun path_free :: "json_map \<Rightarrow> string list \<Rightarrow> bool" where
  "path_free m [] \<longleftrightarrow> False"
| "path_free m [s] \<longleftrightarrow> bt_get m s = None"
| "path_free m (s # t # rest) \<longleftrightarrow>
     (case bt_get m s of None \<Rightarrow> True
      | Some e \<Rightarrow> (case as_object e of None \<Rightarrow> False | Some m' \<Rightarrow> path_free m' (t # rest)))"

lemma path_free_empty: "path \<noteq> [] \<Longrightarrow> path_free [] path"
  by (cases "([] :: json_map, path)" rule: path_free.cases) auto

lemma leaves_insert_at_path:
  "path_free m path \<Longrightarrow> value_wf (JObject m) \<Longrightarrow>
     leaves (insert_at_path m path v) = leaves m + count_leaf_fields v"
proof (induction m path v rule: insert_at_path.induct)
  case (3 m s t rest v)
  show ?case
  proof (cases "bt_get m s")
    case None
    have "leaves (insert_at_path [] (t # rest) v) = count_leaf_fields v"
      using "3.IH"[of "JObject []" "[]"] None path_free_empty[of "t # rest"] by simp
    with None show ?thesis by (simp add: leaves_insert_new)
  next
    case (Some e)
    with "3.prems"(1) obtain m' where m': "e = JObject m'" "path_free m' (t # rest)"
      by (cases e) auto
    with Some "3.prems"(2) have "value_wf (JObject m')" using value_wf_get by blast
    with 3 Some m' have "leaves (insert_at_path m' (t # rest) v) = leaves m' + count_leaf_fields v"
      by simp
    with leaves_insert_old[of m s e "JObject (insert_at_path m' (t # rest) v)"] "3.prems"(2) Some m'
    show ?thesis by (simp add: value_wf_bt)
  qed
qed (auto simp: leaves_insert_new)

lemma path_free_insert_at_path:
  "path_free m q \<Longrightarrow> \<not> prefix p q \<Longrightarrow> \<not> prefix q p \<Longrightarrow> path_free (insert_at_path m p v) q"
proof (induction m p v arbitrary: q rule: insert_at_path.induct)
  case (1 m v)
  then show ?case by simp
next
  case (2 m s v)
  then show ?case by (cases "(m, q)" rule: path_free.cases) (auto simp: bt_get_insert)
next
  case (3 m s t rest v)
  let ?entry = "case bt_get m s of None \<Rightarrow> JObject [] | Some e \<Rightarrow> e"
  obtain s' q' where q: "q = s' # q'" using "3.prems"(1) by (cases q) auto
  show ?case
  proof (cases "as_object ?entry")
    case None
    with "3.prems"(1) show ?thesis by (simp add: Let_def)
  next
    case (Some m')
    show ?thesis
    proof (cases "s' = s")
      case False
      with Some q "3.prems"(1) show ?thesis
        by (cases q') (auto simp: Let_def bt_get_insert)
    next
      case True
      with q "3.prems"(3) obtain t' r' where q': "q' = t' # r'" by (cases q') auto
      have "path_free m' q'"
        using "3.prems"(1) Some q q' True path_free_empty[of q'] by (auto split: option.splits)
      with 3 Some q True have "path_free (insert_at_path m' (t # rest) v) q'" by auto
      with Some q q' True show ?thesis by (simp add: Let_def bt_get_insert)
    qed
  qed
qed

text \<open>No allowed path is a prefix of a later or earlier one.\<close>

definition prefix_free :: "string list \<Rightarrow> bool" where
  "prefix_free paths \<longleftrightarrow>
     sorted_wrt (\<lambda>p q. \<not> prefix (split_byte CHR ''.'' p) (split_byte CHR ''.'' q) \<and>
       \<not> prefix (split_byte CHR ''.'' q) (split_byte CHR ''.'' p)) paths"

lemma project_fold_leaves:
  assumes "value_wf (JObject n)" and "prefix_free paths"
    and "\<forall>p\<in>set paths. path_free (fst acc) (split_byte CHR ''.'' p)"
    and "value_wf (JObject (fst acc))" and "leaves (fst acc) = snd acc"
  shows "leaves (fst (fold (project_step (JObject n)) paths acc)) =
    snd (fold (project_step (JObject n)) paths acc)"
  using assms(2-)
proof (induction paths arbitrary: acc)
  case Nil
  then show ?case by simp
next
  case (Cons p paths)
  let ?acc = "project_step (JObject n) p acc"
  let ?p = "split_byte CHR ''.'' p"
  show ?case
  proof (cases "value_at_path (JObject n) ?p")
    case None
    then have "?acc = acc" by (simp add: project_step_def Let_def)
    with Cons show ?thesis by (simp add: prefix_free_def)
  next
    case (Some v)
    then have acc: "?acc = (insert_at_path (fst acc) ?p v, snd acc + count_leaf_fields v)"
      by (simp add: project_step_def Let_def)
    have "leaves (fst (fold (project_step (JObject n)) paths ?acc)) =
        snd (fold (project_step (JObject n)) paths ?acc)"
    proof (rule Cons.IH)
      show "prefix_free paths" using Cons.prems(1) by (simp add: prefix_free_def)
      show "\<forall>q\<in>set paths. path_free (fst ?acc) (split_byte CHR ''.'' q)"
        using Cons.prems(1,2) acc by (auto simp: prefix_free_def intro!: path_free_insert_at_path)
      show "value_wf (JObject (fst ?acc))"
        using Cons.prems(3) value_at_path_wf[OF assms(1) Some] acc insert_at_path_wf by simp
      show "leaves (fst ?acc) = snd ?acc"
        using leaves_insert_at_path[of "fst acc" ?p v] Cons.prems acc by simp
    qed
    then show ?thesis by simp
  qed
qed

section \<open>Properties\<close>

text \<open>
  The projection of an object's attributes is part of the object: every value it holds is the
  observed value at the same place, and it is again a well-formed object.
\<close>

theorem project_attributes_sub:
  assumes "value_wf (JObject source)"
  shows "sub_value (fst (project_attributes source paths)) (JObject source) \<and>
    value_wf (fst (project_attributes source paths))"
  using project_fold_invariant[OF assms refl, of "([], 0)" paths]
  by (simp add: project_attributes_def Let_def sub_value_object)

definition sample_attributes :: json_map where
  "sample_attributes =
     [(''repo'', JObject [(''name'', JString ''infra''), (''private'', JBool True)]), (''size'', JNull)]"

theorem project_attributes_sub_witness:
  "sub_value (fst (project_attributes sample_attributes [''repo.name''])) (JObject sample_attributes) \<and>
   fst (project_attributes sample_attributes [''repo.name'']) =
     JObject [(''repo'', JObject [(''name'', JString ''infra'')])]"
proof -
  have h: "value_wf (JObject sample_attributes)" by code_simp
  have "fst (project_attributes sample_attributes [''repo.name'']) =
      JObject [(''repo'', JObject [(''name'', JString ''infra'')])]" by code_simp
  with project_attributes_sub[OF h] show ?thesis by blast
qed

text \<open>
  Leaf accounting: when no allowed path is a prefix of another, the leaves that the projection
  keeps and the number it reports as dropped add up to the leaves of the observed object, so the
  redaction report counts each unknown field once.
\<close>

theorem project_attributes_accounting:
  assumes "value_wf (JObject source)" and "prefix_free paths"
  shows "count_leaf_fields (fst (project_attributes source paths)) +
    snd (project_attributes source paths) = count_leaf_fields (JObject source)"
proof -
  let ?acc = "fold (project_step (JObject source)) paths ([], 0)"
  have free: "\<forall>p\<in>set paths. path_free (fst ([], 0)) (split_byte CHR ''.'' p)"
    by (simp add: path_free_empty)
  have leaves: "leaves (fst ?acc) = snd ?acc"
    using project_fold_leaves[OF assms free] by simp
  have "sub_value (JObject (fst ?acc)) (JObject source) \<and> value_wf (JObject (fst ?acc))"
    using project_fold_invariant[OF assms(1) refl, of "([], 0)" paths] by (simp add: sub_value_object)
  with count_leaf_mono assms(1) have "count_leaf_fields (JObject (fst ?acc)) \<le> count_leaf_fields (JObject source)"
    by blast
  with leaves show ?thesis by (simp add: project_attributes_def Let_def)
qed

theorem project_attributes_accounting_witness:
  "count_leaf_fields (fst (project_attributes sample_attributes [''repo.name'', ''size''])) = 2 \<and>
   snd (project_attributes sample_attributes [''repo.name'', ''size'']) = 1"
proof -
  have h: "value_wf (JObject sample_attributes)" "prefix_free [''repo.name'', ''size'']"
    by code_simp+
  have "count_leaf_fields (JObject sample_attributes) = 3"
    "count_leaf_fields (fst (project_attributes sample_attributes [''repo.name'', ''size''])) = 2"
    by code_simp+
  with project_attributes_accounting[OF h] show ?thesis by simp
qed

text \<open>
  Without that proviso the report is wrong: with the allowed paths \<open>repo\<close> and \<open>repo.name\<close>
  the leaf \<open>repo.name\<close> is counted twice as selected, so the leaf \<open>size\<close>, which the projection
  leaves out, is not reported as dropped.
\<close>

theorem overlapping_paths_undercount:
  "project_attributes sample_attributes [''repo'', ''repo.name''] =
     (JObject [(''repo'', JObject [(''name'', JString ''infra''), (''private'', JBool True)])], 0) \<and>
   count_leaf_fields (JObject sample_attributes) = 3 \<and> value_wf (JObject sample_attributes)"
  by code_simp

end
