(* ===== verification/Normalizer_Properties.thy ===== *)
theory Normalizer_Properties
  imports Normalizer_Facts Attribute_Projection "HOL-Library.Multiset"
begin

text \<open>
  What the fingerprints of the normalizer identify, the independence of the result from the order
  of the observations, the schemas a normalizer can hold, and a concrete batch at which the
  properties of the normalizer apply.
\<close>

section \<open>A concrete batch\<close>

definition sample_normalizer :: Normalizer where
  "sample_normalizer =
     \<lparr>nz_attribute_schemas =
        [((''gh.repo'', 1), \<lparr>as_kind = ''gh.repo'', as_schema_version = 1,
            as_allowed_attributes = [''size'']\<rparr>)],
      nz_relation_schemas =
        [\<lparr>rs_kind = ''gh.uses'', rs_source_kind = ''gh.repo'', rs_target_kind = ''gh.repo''\<rparr>]\<rparr>"

definition sample_repo :: "ExternalId \<Rightarrow> Timestamp \<Rightarrow> ResourceObservation" where
  "sample_repo external at =
     \<lparr>ro_kind = ''gh.repo'', ro_external_id = external, ro_name = ''n'', ro_display_name = ''N'',
      ro_scope = ''scope'', ro_labels = [(''gh.env'', ''a'')], ro_health = Healthy,
      ro_attributes = JObject [(''etag'', JString ''e''), (''size'', JNull)],
      ro_attribute_schema_version = 1, ro_observed_at = at\<rparr>"

definition sample_uses :: RelationObservation where
  "sample_uses =
     \<lparr>lo_source = \<lparr>loc_kind = ''gh.repo'', loc_external_id = ''1''\<rparr>,
      lo_target = \<lparr>loc_kind = ''gh.repo'', loc_external_id = ''2''\<rparr>,
      lo_kind = ''gh.uses'', lo_evidence_key = ''k'', lo_field_path = ''needs'', lo_observed_at = 7\<rparr>"

definition sample_repos :: ObservationBatch where
  "sample_repos = sample_batch\<lparr>ob_resources := [sample_repo ''1'' 5, sample_repo ''2'' 6, sample_repo ''1'' 9],
     ob_relations := [sample_uses]\<rparr>"

definition sample_validated :: ValidatedBatch where
  "sample_validated = projr (normalize brief_codec sample_normalizer sample_request sample_repos)"

lemma sample_normalize:
  "normalize brief_codec sample_normalizer sample_request sample_repos = Inr sample_validated"
proof -
  have "is_ok (normalize brief_codec sample_normalizer sample_request sample_repos)"
    by code_simp
  then show ?thesis by (auto simp: is_ok_iff sample_validated_def)
qed

lemma sample_validated_times:
  "map (\<lambda>r. (key_external (vr_key r), vr_observed_at r)) (vb_resources sample_validated) =
     [(''1'', 9), (''2'', 6)] \<and>
   rr_unknown_fields_dropped (vb_redaction_report sample_validated) = 3 \<and>
   length (vb_relations sample_validated) = 1"
  by code_simp


theorem normalize_provenance_witness:
  "vb_connection_id sample_validated = ''c1'' \<and>
   sorted_wrt (<) (map vr_key (vb_resources sample_validated))"
  using normalize_provenance[OF sample_normalize] by (simp add: sample_request_def)


section \<open>What a fingerprint identifies\<close>

lemma json_resource_key_inj: "json_resource_key a = json_resource_key b \<longleftrightarrow> a = b"
  by (cases a; cases b) (auto simp: json_resource_key_def json_object_def bt_of_list_def)

lemma resource_health_text_inj: "resource_health_text a = resource_health_text b \<longleftrightarrow> a = b"
  by (cases a; cases b) auto

lemma json_labels_inj: "json_labels a = json_labels b \<longleftrightarrow> a = b"
proof -
  have "inj (\<lambda>(k, v). (k, JString v))" by (auto simp: inj_def)
  then show ?thesis by (auto simp: json_labels_def dest: map_injective)
qed

lemma json_u32_inj: "json_u32 a = json_u32 b \<longleftrightarrow> a = b"
proof -
  have "ucast (ucast x :: 64 word) = x" for x :: "32 word"
    by (rule ucast_up_ucast_id) (simp add: is_up)
  then show ?thesis unfolding json_u32_def by (metis Number.inject(1) Value.inject(2))
qed

lemma resource_fingerprint_input_inj:
  "resource_fingerprint_input k ob a = resource_fingerprint_input k' ob' a' \<longleftrightarrow>
     k = k' \<and> a = a' \<and> ro_name ob = ro_name ob' \<and> ro_display_name ob = ro_display_name ob' \<and>
     ro_scope ob = ro_scope ob' \<and> ro_labels ob = ro_labels ob' \<and> ro_health ob = ro_health ob' \<and>
     ro_attribute_schema_version ob = ro_attribute_schema_version ob'"
  unfolding resource_fingerprint_input_def json_object_def bt_of_list_def
  by (auto simp: json_resource_key_inj resource_health_text_inj json_labels_inj json_u32_inj)

lemma json_relation_key_inj: "json_relation_key a = json_relation_key b \<longleftrightarrow> a = b"
  by (cases a; cases b)
    (auto simp: json_relation_key_def json_object_def bt_of_list_def json_resource_key_inj)

lemma relation_fingerprint_input_inj:
  "relation_fingerprint_input k (Provider c run path) = relation_fingerprint_input k' (Provider c' run' path') \<longleftrightarrow>
     k = k' \<and> c = c' \<and> run = run' \<and> path = path'"
  by (auto simp: relation_fingerprint_input_def json_object_def bt_of_list_def json_relation_key_inj)

lemma fingerprint_inj:
  "codec_injective c \<Longrightarrow> fingerprint c v = Inr h \<Longrightarrow> fingerprint c w = Inr h \<Longrightarrow> v = w"
  by (auto simp: fingerprint_def res_simps dest: hex_digest_inj)

lemma resource_content_eq:
  "r\<lparr>vr_observed_at := 0, vr_fingerprint := []\<rparr> = r'\<lparr>vr_observed_at := 0, vr_fingerprint := []\<rparr> \<longleftrightarrow>
     vr_key r = vr_key r' \<and> vr_attributes r = vr_attributes r' \<and> vr_name r = vr_name r' \<and>
     vr_display_name r = vr_display_name r' \<and> vr_scope r = vr_scope r' \<and> vr_labels r = vr_labels r' \<and>
     vr_health r = vr_health r' \<and> vr_attribute_schema_version r = vr_attribute_schema_version r'"
  for r r' :: ValidatedResource
  by (cases r, cases r') auto

lemma normalize_resource_content:
  assumes "normalize_resource c nz request ob = Inr (r, d)"
  shows "fingerprint c (resource_fingerprint_input (vr_key r) ob (vr_attributes r)) = Inr (vr_fingerprint r)"
    and "vr_name r = ro_name ob" and "vr_display_name r = ro_display_name ob" and "vr_scope r = ro_scope ob"
    and "vr_labels r = ro_labels ob" and "vr_health r = ro_health ob"
    and "vr_attribute_schema_version r = ro_attribute_schema_version ob"
  using assms by (auto simp: normalize_resource_eq_Inr)

text \<open>
  Two validated resources have the same fingerprint exactly when everything the domain keeps of
  them except the time is equal: key, names, scope, labels, health, projected attributes and schema
  version. A change of a dropped attribute or of the observation time is not a change.
\<close>

theorem resource_fingerprint_iff:
  assumes "codec_injective c"
    and "normalize_resource c nz request ob = Inr (r, d)"
    and "normalize_resource c nz' request' ob' = Inr (r', d')"
  shows "vr_fingerprint r = vr_fingerprint r' \<longleftrightarrow>
    r\<lparr>vr_observed_at := 0, vr_fingerprint := []\<rparr> = r'\<lparr>vr_observed_at := 0, vr_fingerprint := []\<rparr>"
proof -
  note a = normalize_resource_content[OF assms(2)] and b = normalize_resource_content[OF assms(3)]
  have "vr_fingerprint r = vr_fingerprint r' \<longleftrightarrow>
      resource_fingerprint_input (vr_key r) ob (vr_attributes r) =
      resource_fingerprint_input (vr_key r') ob' (vr_attributes r')"
  proof
    assume eq: "vr_fingerprint r = vr_fingerprint r'"
    show "resource_fingerprint_input (vr_key r) ob (vr_attributes r) =
        resource_fingerprint_input (vr_key r') ob' (vr_attributes r')"
      by (rule fingerprint_inj[OF assms(1) a(1)]) (use b(1) eq in simp)
  next
    assume "resource_fingerprint_input (vr_key r) ob (vr_attributes r) =
        resource_fingerprint_input (vr_key r') ob' (vr_attributes r')"
    with a(1) b(1) show "vr_fingerprint r = vr_fingerprint r'" by simp
  qed
  also have "\<dots> \<longleftrightarrow> r\<lparr>vr_observed_at := 0, vr_fingerprint := []\<rparr> = r'\<lparr>vr_observed_at := 0, vr_fingerprint := []\<rparr>"
    unfolding resource_content_eq resource_fingerprint_input_inj using a(2-) b(2-) by simp
  finally show ?thesis .
qed

lemma fingerprint_total:
  assumes "codec_total c"
  shows "\<exists>fp. fingerprint c v = Inr fp"
proof -
  from assms obtain bs where "to_vec c v = Inr bs" "sha256 c bs \<noteq> []"
    unfolding codec_total_def by blast
  then show ?thesis by (simp add: fingerprint_def hex_digest_def hex_string_ok)
qed

text \<open>A different time and a different dropped attribute do not change the fingerprint.\<close>

lemma sample_repo_total:
  assumes "codec_total c" and "attrs = JObject [(''etag'', JString e), (''size'', JNull)]"
    and "scan_text e = Inr ()"
  shows "\<exists>fp. normalize_resource c sample_normalizer sample_request
      (sample_repo ''1'' t\<lparr>ro_attributes := attrs\<rparr>) =
    Inr (\<lparr>vr_key = ResourceKey ''c1'' ''gh.repo'' ''1'', vr_name = ''n'', vr_display_name = ''N'',
      vr_scope = ''scope'', vr_labels = [(''gh.env'', ''a'')], vr_health = Healthy,
      vr_attributes = JObject [(''size'', JNull)], vr_attribute_schema_version = 1,
      vr_observed_at = t, vr_fingerprint = fp\<rparr>, 1)"
proof -
  let ?ob = "sample_repo ''1'' t\<lparr>ro_attributes := attrs\<rparr>"
  have names: "scan_text ''n'' = Inr ()" "scan_text ''N'' = Inr ()" "scan_text ''a'' = Inr ()"
    "\<not> is_sensitive_field_name ''etag''" "\<not> is_sensitive_field_name ''size''"
    "\<not> is_sensitive_field_name ''gh.env''" by code_simp+
  have project: "project_attributes [(''etag'', JString e), (''size'', JNull)] [''size''] =
      (JObject [(''size'', JNull)], 1)"
  proof -
    have "split_byte CHR ''.'' ''size'' = [''size'']" by code_simp
    then show ?thesis by (simp add: project_attributes_def project_step_def)
  qed
  obtain fp where "fingerprint c (resource_fingerprint_input (ResourceKey ''c1'' ''gh.repo'' ''1'') ?ob
      (JObject [(''size'', JNull)])) = Inr fp"
    using fingerprint_total[OF assms(1)] by blast
  then show ?thesis
    using assms(2,3) names project
    by (intro exI[of _ fp])
      (auto simp: normalize_resource_eq_Inr sample_repo_def sample_normalizer_def sample_request_def
        scan_label_def scan_for_secrets.simps res_all_eq_Inr)
qed

theorem resource_fingerprint_iff_witness:
  "\<exists>r r' d. normalize_resource flat_codec sample_normalizer sample_request (sample_repo ''1'' 5) = Inr (r, d) \<and>
     normalize_resource flat_codec sample_normalizer sample_request
       (sample_repo ''1'' 9\<lparr>ro_attributes := JObject [(''etag'', JString ''f''), (''size'', JNull)]\<rparr>) = Inr (r', d) \<and>
     vr_fingerprint r = vr_fingerprint r'"
proof -
  have e: "scan_text ''e'' = Inr ()" "scan_text ''f'' = Inr ()" by code_simp+
  have same: "sample_repo ''1'' 5\<lparr>ro_attributes := JObject [(''etag'', JString ''e''), (''size'', JNull)]\<rparr> =
      sample_repo ''1'' 5" by (simp add: sample_repo_def)
  from sample_repo_total[OF flat_codec_total refl e(1), of 5] obtain r where
    r: "normalize_resource flat_codec sample_normalizer sample_request (sample_repo ''1'' 5) = Inr (r, 1)"
      "r\<lparr>vr_observed_at := 0, vr_fingerprint := []\<rparr> = \<lparr>vr_key = ResourceKey ''c1'' ''gh.repo'' ''1'',
        vr_name = ''n'', vr_display_name = ''N'', vr_scope = ''scope'', vr_labels = [(''gh.env'', ''a'')],
        vr_health = Healthy, vr_attributes = JObject [(''size'', JNull)],
        vr_attribute_schema_version = 1, vr_observed_at = 0, vr_fingerprint = []\<rparr>"
    unfolding same by auto
  from sample_repo_total[OF flat_codec_total refl e(2), of 9] obtain r' where
    r': "normalize_resource flat_codec sample_normalizer sample_request
        (sample_repo ''1'' 9\<lparr>ro_attributes := JObject [(''etag'', JString ''f''), (''size'', JNull)]\<rparr>) = Inr (r', 1)"
      "r'\<lparr>vr_observed_at := 0, vr_fingerprint := []\<rparr> = \<lparr>vr_key = ResourceKey ''c1'' ''gh.repo'' ''1'',
        vr_name = ''n'', vr_display_name = ''N'', vr_scope = ''scope'', vr_labels = [(''gh.env'', ''a'')],
        vr_health = Healthy, vr_attributes = JObject [(''size'', JNull)],
        vr_attribute_schema_version = 1, vr_observed_at = 0, vr_fingerprint = []\<rparr>"
    by auto
  from resource_fingerprint_iff[OF flat_codec_injective r(1) r'(1)] r r' show ?thesis by auto
qed

text \<open>
  For relations this fails: the evidence that is fingerprinted names the sync run, so observing
  one unchanged relation in two runs gives the same key and two different fingerprints.
\<close>

theorem relation_fingerprint_changes_with_run:
  assumes "codec_injective c"
    and "normalize_relation c nz request ob = Inr r"
    and "normalize_relation c nz request' ob = Inr r'"
    and "ci_connection_id (req_connection request) = ci_connection_id (req_connection request')"
    and "req_sync_run_id request \<noteq> req_sync_run_id request'"
  shows "vl_key r = vl_key r' \<and> vl_fingerprint r \<noteq> vl_fingerprint r'"
proof -
  have r: "fingerprint c (relation_fingerprint_input (vl_key r) (vl_evidence r)) = Inr (vl_fingerprint r)"
    "vl_evidence r = Provider (ci_connection_id (req_connection q)) (req_sync_run_id q) (lo_field_path ob)"
    if "normalize_relation c nz q ob = Inr r" for q r
    using that by (auto simp: normalize_relation_eq_Inr Let_def)
  have "vl_key r = vl_key r'" using assms(2-4) by (auto simp: normalize_relation_eq_Inr Let_def)
  moreover have "vl_fingerprint r \<noteq> vl_fingerprint r'"
  proof
    assume "vl_fingerprint r = vl_fingerprint r'"
    with r(1)[OF assms(2)] r(1)[OF assms(3)] fingerprint_inj[OF assms(1)]
    have "relation_fingerprint_input (vl_key r) (vl_evidence r) =
        relation_fingerprint_input (vl_key r') (vl_evidence r')" by metis
    with r(2)[OF assms(2)] r(2)[OF assms(3)] assms(5) show False
      by (simp add: relation_fingerprint_input_inj)
  qed
  ultimately show ?thesis ..
qed

theorem relation_fingerprint_changes_with_run_witness:
  "\<exists>r r'. normalize_relation flat_codec sample_normalizer sample_request sample_uses = Inr r \<and>
     normalize_relation flat_codec sample_normalizer (sample_request\<lparr>req_sync_run_id := ''run-2''\<rparr>) sample_uses = Inr r' \<and>
     vl_fingerprint r \<noteq> vl_fingerprint r'"
proof -
  have ok: "\<exists>r. normalize_relation flat_codec sample_normalizer q sample_uses = Inr r" for q
  proof -
    have "\<not> is_sensitive_field_name ''needs''" by code_simp
    then show ?thesis
      using fingerprint_total[OF flat_codec_total]
      by (auto simp: normalize_relation_eq_Inr Let_def sample_uses_def sample_normalizer_def)
  qed
  from ok obtain r r' where
    r: "normalize_relation flat_codec sample_normalizer sample_request sample_uses = Inr r" and
    r': "normalize_relation flat_codec sample_normalizer (sample_request\<lparr>req_sync_run_id := ''run-2''\<rparr>) sample_uses = Inr r'"
    by blast
  have "ci_connection_id (req_connection sample_request) =
      ci_connection_id (req_connection (sample_request\<lparr>req_sync_run_id := ''run-2''\<rparr>))"
    "req_sync_run_id sample_request \<noteq> req_sync_run_id (sample_request\<lparr>req_sync_run_id := ''run-2''\<rparr>)"
    by (simp_all add: sample_request_def)
  from relation_fingerprint_changes_with_run[OF flat_codec_injective r r' this] r r' show ?thesis by blast
qed

section \<open>The order of the observations\<close>

lemma sum_list_mset_eq: "mset xs = mset ys \<Longrightarrow> sum_list xs = sum_list (ys :: nat list)"
  by (metis sum_mset_sum_list)

lemma res_map_mset:
  assumes "res_map f xs = Inr vs" and "mset ys = mset xs"
  shows "\<exists>ws. res_map f ys = Inr ws \<and> mset ws = mset vs"
proof -
  let ?g = "\<lambda>x. projr (f x)"
  have f: "f x = Inr (?g x)" if "x \<in> set xs" for x
    using assms(1) that unfolding res_map_eq_Inr list_all2_conv_all_nth
    by (metis in_set_conv_nth sum.sel(2))
  have "vs = map ?g xs" using assms(1) res_map_total[of xs f ?g] f by simp
  moreover have "res_map f ys = Inr (map ?g ys)"
    by (rule res_map_total) (metis assms(2) f mset_eq_setD)
  ultimately show ?thesis using assms(2) by (auto simp: mset_map)
qed

text \<open>
  The order of the resource observations in a batch does not matter: a permuted batch is
  accepted too, with the same relations, the same redaction report, and the same keys, fingerprints
  and times of the resources in the same order.
\<close>

theorem normalize_order_independent:
  assumes "normalize c nz request batch = Inr vb" and "mset obs = mset (ob_resources batch)"
  shows "\<exists>vb'. normalize c nz request (batch\<lparr>ob_resources := obs\<rparr>) = Inr vb' \<and>
    map (\<lambda>r. (vr_key r, vr_fingerprint r, vr_observed_at r)) (vb_resources vb') =
    map (\<lambda>r. (vr_key r, vr_fingerprint r, vr_observed_at r)) (vb_resources vb) \<and>
    vb_relations vb' = vb_relations vb \<and> vb_redaction_report vb' = vb_redaction_report vb"
proof -
  obtain vs m ls l where
    valid: "batch_validate_for batch request = Inr ()" and
    warn: "\<forall>w\<in>set (ob_warnings batch). scan_text (ow_message w) = Inr ()" and
    vs: "res_map (normalize_resource c nz request) (ob_resources batch) = Inr vs" and
    m: "res_fold merge_resource (map fst vs) [] = Inr m" and
    ls: "res_map (normalize_relation c nz request) (ob_relations batch) = Inr ls" and
    l: "res_fold merge_relation ls [] = Inr l" and
    vb: "vb = \<lparr>vb_connection_id = ci_connection_id (req_connection request),
          vb_sync_run_id = req_sync_run_id request,
          vb_resources = bt_values m, vb_relations = bt_values l, vb_coverage = ob_coverage batch,
          vb_next_cursor = ob_next_cursor batch, vb_warnings = ob_warnings batch,
          vb_redaction_report = (ob_redaction_report batch)\<lparr>rr_unknown_fields_dropped :=
            rr_unknown_fields_dropped (ob_redaction_report batch) + sum_list (map snd vs)\<rparr>,
          vb_provider_request_summary = ob_provider_request_summary batch\<rparr>"
    using iffD1[OF normalize_eq_Inr assms(1)] by blast
  from res_map_mset[OF vs assms(2)] obtain ws where
    ws: "res_map (normalize_resource c nz request) obs = Inr ws" "mset ws = mset vs" by blast
  have set_ws: "set (map fst ws) = set (map fst vs)" using mset_eq_setD[OF ws(2)] by simp
  have "resource_merge.consistent (map fst vs)" using m resource_merge.fold_ok_iff by blast
  then have "resource_merge.consistent (map fst ws)"
    unfolding resource_merge.consistent_def set_ws .
  then obtain n where n: "res_fold merge_resource (map fst ws) [] = Inr n"
    using resource_merge.fold_ok_iff by blast
  have "mset (map snd ws) = mset (map snd vs)" using ws(2) by simp
  then have sums: "sum_list (map snd ws) = sum_list (map snd vs)" by (rule sum_list_mset_eq)
  have same: "batch_validate_for (batch\<lparr>ob_resources := obs\<rparr>) request = batch_validate_for batch request"
    by (simp add: batch_validate_for_def)
  have "normalize c nz request (batch\<lparr>ob_resources := obs\<rparr>) = Inr (vb\<lparr>vb_resources := bt_values n\<rparr>)"
    unfolding normalize_eq_Inr
    by (rule exI[of _ ws], rule exI[of _ ls], rule exI[of _ n], rule exI[of _ l])
      (use valid warn ws(1) n ls l in \<open>simp add: same vb sums\<close>)
  moreover have "map (\<lambda>e. (vr_key e, vr_fingerprint e, vr_observed_at e)) (bt_values n) =
      map (\<lambda>e. (vr_key e, vr_fingerprint e, vr_observed_at e)) (bt_values m)"
    by (rule resource_merge.merged_perm[OF resource_merge.merged_all[OF n]
          resource_merge.merged_all[OF m] set_ws])
  ultimately show ?thesis
    by (intro exI[of _ "vb\<lparr>vb_resources := bt_values n\<rparr>"]) (simp add: vb)
qed

theorem normalize_order_independent_witness:
  "is_ok (normalize brief_codec sample_normalizer sample_request
     (sample_repos\<lparr>ob_resources := [sample_repo ''1'' 9, sample_repo ''1'' 5, sample_repo ''2'' 6]\<rparr>))"
proof -
  have "mset [sample_repo ''1'' 9, sample_repo ''1'' 5, sample_repo ''2'' 6] = mset (ob_resources sample_repos)"
    by (simp add: sample_repos_def)
  from normalize_order_independent[OF sample_normalize this] show ?thesis by (auto simp: is_ok_iff)
qed

end
