(* ===== verification/Store.thy ===== *)
theory Store
  imports Core_Model "HOL-Library.Product_Lexorder"
begin

text \<open>
  Crate \<open>next-infra-store\<close>: the SQLite store. A database is the record of its tables, each a map
  from the primary key to the row, sorted by key as the queries with \<open>ORDER BY\<close> return them. A row
  holds the values whose texts the columns hold; reading a row back checks what the \<open>read_*\<close>
  functions check. The constraints of the schema (primary keys, unique columns, foreign keys) are
  written out where a statement can violate them, and a statement that does gives a
  \<open>StoreError\<close>. An operation is a function from the database to an error or a result with the new
  database; on an error the transaction rolls back, so the caller keeps the old database. The clock
  that \<open>unixepoch\<close> reads is the argument \<open>now\<close>.
\<close>

section \<open>Errors and tables\<close>

datatype StoreError =
    StoreIo string
  | Sqlite string
  | Integrity string
  | UnsupportedSchema nat nat
  | UnsafePath string
  | Contract string
  | StoreJson string

definition domain_error :: "DomainError \<Rightarrow> StoreError" where
  "domain_error e = Contract (err_message e)"

definition unique_failed :: StoreError where
  "unique_failed = Sqlite ''UNIQUE constraint failed''"

definition foreign_key_failed :: StoreError where
  "foreign_key_failed = Sqlite ''FOREIGN KEY constraint failed''"

definition conversion_error :: StoreError where
  "conversion_error = Sqlite ''conversion error''"

text \<open>A row of \<open>connector_state\<close>; the second column is the map of scopes to missing counts.\<close>

type_synonym PersistedMissingEvidence = "(Scope, (ResourceId, 8 word) btree_map) btree_map"

record ConnectorState =
  cs_sync_cursor :: "string option"
  cs_consecutive_missing :: PersistedMissingEvidence

record ProjectionMetadata =
  pm_committed_revision :: int
  pm_committed_at :: int

record Database =
  db_connections :: "(ConnectionId, Connection) btree_map"
  db_connector_state :: "(ConnectionId, ConnectorState) btree_map"
  db_sync_runs :: "(SyncRunId, SyncRun) btree_map"
  db_resources :: "(ResourceId, Resource) btree_map"
  db_resource_versions :: "(ResourceVersionId, ResourceVersion) btree_map"
  db_relations :: "(RelationId, Relation) btree_map"
  db_relation_versions :: "(RelationVersionId, RelationVersion) btree_map"
  db_bindings :: "(BindingId, Binding) btree_map"
  db_changes :: "(ChangeId, Change) btree_map"
  db_inference_runs :: "(InferenceRunId, InferenceRun) btree_map"
  db_inference_outputs :: "(InferenceRunId \<times> RelationId, EvidenceKey) btree_map"
  db_secrets :: "(ConnectionId, string) btree_map"
  db_projection :: "ProjectionMetadata option"

text \<open>The database that the migrations create.\<close>

definition empty_database :: "int \<Rightarrow> Database" where
  "empty_database now =
     \<lparr>db_connections = [], db_connector_state = [], db_sync_runs = [], db_resources = [],
      db_resource_versions = [], db_relations = [], db_relation_versions = [], db_bindings = [],
      db_changes = [], db_inference_runs = [], db_inference_outputs = [], db_secrets = [],
      db_projection = Some \<lparr>pm_committed_revision = 0, pm_committed_at = now\<rparr>\<rparr>"

section \<open>Reading rows\<close>

definition time_ok :: "Timestamp \<Rightarrow> bool" where
  "time_ok t \<longleftrightarrow> 0 \<le> t"

definition time_option_ok :: "Timestamp option \<Rightarrow> bool" where
  "time_option_ok t = (case t of None \<Rightarrow> True | Some u \<Rightarrow> time_ok u)"

definition read_connection :: "Connection \<Rightarrow> StoreError + Connection" where
  "read_connection c =
     (if token_ok (conn_type c) \<and> time_option_ok (conn_last_success_at c) \<and>
         time_option_ok (conn_last_attempt_at c) \<and> conn_config_schema_version c \<noteq> 0 \<and>
         time_option_ok (conn_deleted_at c)
      then Inr c else Inl conversion_error)"

definition read_resource :: "Resource \<Rightarrow> StoreError + Resource" where
  "read_resource r =
     (if namespaced_ok (res_kind r) \<and> list_all (\<lambda>e. namespaced_ok (fst e)) (res_labels r) \<and>
         res_attribute_schema_version r \<noteq> 0 \<and> time_ok (res_first_seen_at r) \<and>
         time_ok (res_last_seen_at r) \<and> time_ok (res_last_changed_at r)
      then Inr r else Inl conversion_error)"

definition read_relation :: "Relation \<Rightarrow> StoreError + Relation" where
  "read_relation r =
     (if namespaced_ok (rel_kind r) \<and> time_ok (rel_first_seen_at r) \<and> time_ok (rel_last_seen_at r)
      then Inr r else Inl conversion_error)"

definition read_sync_run :: "SyncRun \<Rightarrow> StoreError + SyncRun" where
  "read_sync_run r =
     (if time_ok (run_started_at r) \<and> time_option_ok (run_finished_at r)
      then Inr r else Inl conversion_error)"

definition read_binding :: "Binding \<Rightarrow> StoreError + Binding" where
  "read_binding b =
     (if namespaced_ok (bind_kind b) \<and> time_ok (bind_created_at b) \<and> time_ok (bind_updated_at b)
      then Inr b else Inl conversion_error)"

text \<open>\<open>query_row(\<dots>).optional()\<close> on a primary key.\<close>

definition query_optional ::
    "('r \<Rightarrow> StoreError + 'r) \<Rightarrow> ('k::linorder, 'r) btree_map \<Rightarrow> 'k \<Rightarrow> StoreError + 'r option" where
  "query_optional read table key =
     (case bt_get table key of None \<Rightarrow> Inr None | Some row \<Rightarrow> map_ok Some (read row))"

section \<open>StoreReader\<close>

definition get_connection :: "Database \<Rightarrow> ConnectionId \<Rightarrow> StoreError + Connection option" where
  "get_connection db i = query_optional read_connection (db_connections db) i"

definition get_resource :: "Database \<Rightarrow> ResourceId \<Rightarrow> StoreError + Resource option" where
  "get_resource db i = query_optional read_resource (db_resources db) i"

definition get_relation :: "Database \<Rightarrow> RelationId \<Rightarrow> StoreError + Relation option" where
  "get_relation db i = query_optional read_relation (db_relations db) i"

definition get_sync_run :: "Database \<Rightarrow> SyncRunId \<Rightarrow> StoreError + SyncRun option" where
  "get_sync_run db i = query_optional read_sync_run (db_sync_runs db) i"

text \<open>The first row in the order \<open>observed_at DESC, relation_version_id DESC\<close>.\<close>

definition newer_version :: "RelationVersion \<Rightarrow> RelationVersion \<Rightarrow> RelationVersion" where
  "newer_version v w =
     (if (relv_observed_at v, relv_id v) < (relv_observed_at w, relv_id w) then w else v)"

fun newest_version :: "RelationVersion list \<Rightarrow> RelationVersion option" where
  "newest_version [] = None"
| "newest_version (v # vs) =
     Some (case newest_version vs of None \<Rightarrow> v | Some w \<Rightarrow> newer_version v w)"

definition latest_relation_version_fingerprint ::
    "Database \<Rightarrow> RelationId \<Rightarrow> StoreError + Fingerprint option" where
  "latest_relation_version_fingerprint db i =
     (case newest_version (filter (\<lambda>v. relv_relation_id v = i) (bt_values (db_relation_versions db))) of
        None \<Rightarrow> Inr None
      | Some v \<Rightarrow> map_err domain_error (map_ok Some (string_value_new ''Fingerprint'' (relv_fingerprint v))))"

definition sync_cursor :: "Database \<Rightarrow> ConnectionId \<Rightarrow> StoreError + SyncCursor option" where
  "sync_cursor db connection_id =
     (case bt_get (db_connector_state db) connection_id of
        None \<Rightarrow> Inr None
      | Some state \<Rightarrow>
          (case cs_sync_cursor state of
             None \<Rightarrow> Inr None
           | Some cursor \<Rightarrow> map_err domain_error (map_ok Some (string_value_new ''SyncCursor'' cursor))))"

definition read_missing_evidence_state ::
    "PersistedMissingEvidence \<Rightarrow> Scope \<Rightarrow> StoreError + MissingEvidenceState option" where
  "read_missing_evidence_state persisted scope =
     (case bt_get persisted scope of
        None \<Rightarrow> Inr None
      | Some counts \<Rightarrow>
          res_bind (res_map (\<lambda>(resource_id, count).
              map_err domain_error (map_ok (\<lambda>i. (i, count)) (string_value_new ''ResourceId'' resource_id)))
            counts) (\<lambda>counts. Inr (Some (missing_with_counts scope (bt_of_list counts)))))"

definition missing_evidence_state ::
    "Database \<Rightarrow> ConnectionId \<Rightarrow> Scope \<Rightarrow> StoreError + MissingEvidenceState option" where
  "missing_evidence_state db connection_id scope =
     (case bt_get (db_connector_state db) connection_id of
        None \<Rightarrow> Inr None
      | Some state \<Rightarrow> read_missing_evidence_state (cs_consecutive_missing state) scope)"

definition list_resources_for_scope ::
    "Database \<Rightarrow> ConnectionId \<Rightarrow> Scope \<Rightarrow> StoreError + Resource list" where
  "list_resources_for_scope db connection_id scope =
     res_map read_resource
       (filter (\<lambda>r. res_connection_id r = connection_id \<and> res_scope r = scope)
         (bt_values (db_resources db)))"

section \<open>Writing rows\<close>

text \<open>Foreign keys: whether a parent row exists.\<close>

definition has_key :: "('k::linorder, 'v) btree_map \<Rightarrow> 'k \<Rightarrow> bool" where
  "has_key table key \<longleftrightarrow> bt_get table key \<noteq> None"

definition bump_projection_metadata :: "int \<Rightarrow> Database \<Rightarrow> StoreError + Database" where
  "bump_projection_metadata now db =
     (case db_projection db of
        None \<Rightarrow> Inl (Contract ''projection metadata singleton is missing'')
      | Some p \<Rightarrow> Inr (db\<lparr>db_projection :=
          Some \<lparr>pm_committed_revision = pm_committed_revision p + 1, pm_committed_at = now\<rparr>\<rparr>))"

text \<open>The \<open>UPDATE\<close> of the binding and inference commits, which ignores a missing row.\<close>

definition set_projection_metadata :: "int \<Rightarrow> Database \<Rightarrow> Database" where
  "set_projection_metadata at db =
     db\<lparr>db_projection := map_option (\<lambda>p.
        \<lparr>pm_committed_revision = pm_committed_revision p + 1, pm_committed_at = at\<rparr>) (db_projection db)\<rparr>"

definition upsert_connection :: "int \<Rightarrow> Connection \<Rightarrow> Database \<Rightarrow> StoreError + Database" where
  "upsert_connection now connection db =
     bump_projection_metadata now
       (db\<lparr>db_connections := bt_insert (conn_id connection) connection (db_connections db)\<rparr>)"

definition insert_sync_run :: "SyncRun \<Rightarrow> Database \<Rightarrow> StoreError + Database" where
  "insert_sync_run run db =
     (if has_key (db_sync_runs db) (run_id run) then Inl unique_failed
      else if \<not> has_key (db_connections db) (run_connection_id run) then Inl foreign_key_failed
      else Inr (db\<lparr>db_sync_runs := bt_insert (run_id run) run (db_sync_runs db)\<rparr>))"

definition start_sync_run :: "int \<Rightarrow> SyncRun \<Rightarrow> Database \<Rightarrow> StoreError + Database" where
  "start_sync_run now run db =
     (if run_status run \<noteq> RunRunning \<or> run_finished_at run \<noteq> None
      then Inl (Contract ''start_sync_run requires running status without finished_at'')
      else res_bind (insert_sync_run run db) (bump_projection_metadata now))"

definition complete_sync_run :: "SyncRun \<Rightarrow> Database \<Rightarrow> StoreError + Database" where
  "complete_sync_run run db =
     (case bt_get (db_sync_runs db) (run_id run) of
        None \<Rightarrow> Inl (Contract ''sync run must be started before completion'')
      | Some row \<Rightarrow>
          if run_connection_id row \<noteq> run_connection_id run
          then Inl (Contract ''sync run must be started before completion'')
          else Inr (db\<lparr>db_sync_runs := bt_insert (run_id run)
            (row\<lparr>run_finished_at := run_finished_at run, run_status := run_status run,
                 run_coverage := run_coverage run, run_cursor_after := run_cursor_after run,
                 run_counts := run_counts run, run_errors := run_errors run,
                 run_warnings := run_warnings run\<rparr>) (db_sync_runs db)\<rparr>))"

definition resource_identity :: "Resource \<Rightarrow> ConnectionId \<times> ResourceKind \<times> ExternalId" where
  "resource_identity r = (res_connection_id r, res_kind r, res_external_id r)"

definition upsert_resource :: "Resource \<Rightarrow> Database \<Rightarrow> StoreError + Database" where
  "upsert_resource r db =
     (case bt_get (db_resources db) (res_id r) of
        Some row \<Rightarrow>
          if resource_identity row \<noteq> resource_identity r
          then Inl (Contract ''resource stable identity cannot change'')
          else if \<not> has_key (db_sync_runs db) (res_last_sync_run_id r) then Inl foreign_key_failed
          else Inr (db\<lparr>db_resources := bt_insert (res_id r)
            (r\<lparr>res_first_seen_at := res_first_seen_at row\<rparr>) (db_resources db)\<rparr>)
      | None \<Rightarrow>
          if list_ex (\<lambda>row. resource_identity row = resource_identity r) (bt_values (db_resources db))
          then Inl unique_failed
          else if \<not> has_key (db_connections db) (res_connection_id r) \<or>
              \<not> has_key (db_sync_runs db) (res_last_sync_run_id r)
          then Inl foreign_key_failed
          else Inr (db\<lparr>db_resources := bt_insert (res_id r) r (db_resources db)\<rparr>))"

definition insert_resource_version :: "ResourceVersion \<Rightarrow> Database \<Rightarrow> StoreError + nat \<times> Database" where
  "insert_resource_version v db =
     (if has_key (db_resource_versions db) (rv_id v) then Inr (0, db)
      else if \<not> has_key (db_resources db) (rv_resource_id v) \<or>
          \<not> has_key (db_sync_runs db) (rv_sync_run_id v)
      then Inl foreign_key_failed
      else Inr (1, db\<lparr>db_resource_versions := bt_insert (rv_id v) v (db_resource_versions db)\<rparr>))"

definition upsert_relation :: "Relation \<Rightarrow> Database \<Rightarrow> StoreError + Database" where
  "upsert_relation r db =
     (case bt_get (db_relations db) (rel_id r) of
        Some row \<Rightarrow>
          if relation_key row \<noteq> relation_key r
          then Inl (Contract ''relation stable identity cannot change'')
          else Inr (db\<lparr>db_relations := bt_insert (rel_id r)
            (row\<lparr>rel_evidence := rel_evidence r, rel_last_seen_at := rel_last_seen_at r,
                 rel_lifecycle := rel_lifecycle r\<rparr>) (db_relations db)\<rparr>)
      | None \<Rightarrow>
          if list_ex (\<lambda>row. relation_key row = relation_key r) (bt_values (db_relations db))
          then Inl unique_failed
          else if \<not> has_key (db_resources db) (rel_source r) \<or> \<not> has_key (db_resources db) (rel_target r)
          then Inl foreign_key_failed
          else Inr (db\<lparr>db_relations := bt_insert (rel_id r) r (db_relations db)\<rparr>))"

definition insert_relation_version :: "RelationVersion \<Rightarrow> Database \<Rightarrow> StoreError + nat \<times> Database" where
  "insert_relation_version v db =
     (if has_key (db_relation_versions db) (relv_id v) then Inr (0, db)
      else if \<not> has_key (db_relations db) (relv_relation_id v) then Inl foreign_key_failed
      else Inr (1, db\<lparr>db_relation_versions := bt_insert (relv_id v) v (db_relation_versions db)\<rparr>))"

definition insert_change :: "Change \<Rightarrow> Database \<Rightarrow> StoreError + nat \<times> Database" where
  "insert_change c db =
     (if has_key (db_changes db) (chg_id c) then Inr (0, db)
      else Inr (1, db\<lparr>db_changes := bt_insert (chg_id c) c (db_changes db)\<rparr>))"

text \<open>A loop that adds up the numbers of rows its statements changed.\<close>

fun write_all ::
    "('r \<Rightarrow> Database \<Rightarrow> StoreError + nat \<times> Database) \<Rightarrow> 'r list \<Rightarrow> Database \<Rightarrow>
     StoreError + nat \<times> Database" where
  "write_all f [] db = Inr (0, db)"
| "write_all f (r # rs) db =
     res_bind (f r db) (\<lambda>(m, db). res_bind (write_all f rs db) (\<lambda>(n, db). Inr (m + n, db)))"

section \<open>StoreWriter\<close>

definition validate_commit :: "SyncCommit \<Rightarrow> StoreError + unit" where
  "validate_commit commit =
     (let run = sc_run commit in
      if sc_cursor_after commit \<noteq> run_cursor_after run
      then Inl (Contract ''commit cursor must match SyncRun cursor_after'')
      else if list_ex (\<lambda>r. res_connection_id r \<noteq> run_connection_id run \<or>
                res_last_sync_run_id r \<noteq> run_id run) (sc_resources commit)
      then Inl (Contract ''resource provenance does not match SyncRun'')
      else if list_ex (\<lambda>v. rv_sync_run_id v \<noteq> run_id run) (sc_resource_versions commit)
      then Inl (Contract ''resource version provenance does not match SyncRun'')
      else if list_ex (\<lambda>r. case rel_evidence r of
                  Provider connection_id sync_run_id _ \<Rightarrow>
                    connection_id \<noteq> run_connection_id run \<or> sync_run_id \<noteq> run_id run
                | _ \<Rightarrow> False) (sc_relations commit)
      then Inl (Contract ''provider relation provenance does not match SyncRun'')
      else Inr ())"

text \<open>
  \<open>missing_evidence_json\<close>: the map of all scopes, in which only the scope of the commit is replaced.
\<close>

definition missing_evidence_json :: "Database \<Rightarrow> SyncCommit \<Rightarrow> PersistedMissingEvidence" where
  "missing_evidence_json db commit =
     (let persisted =
        (case bt_get (db_connector_state db) (run_connection_id (sc_run commit)) of
           None \<Rightarrow> [] | Some state \<Rightarrow> cs_consecutive_missing state)
      in case sc_missing_evidence commit of
           None \<Rightarrow> persisted
         | Some state \<Rightarrow> bt_insert (mes_scope state) (mes_counts state) persisted)"

definition write_connector_state :: "SyncCommit \<Rightarrow> Database \<Rightarrow> StoreError + Database" where
  "write_connector_state commit db =
     (let connection_id = run_connection_id (sc_run commit) in
      if \<not> has_key (db_connections db) connection_id then Inl foreign_key_failed
      else Inr (db\<lparr>db_connector_state := bt_insert connection_id
        \<lparr>cs_sync_cursor = sc_cursor_after commit,
         cs_consecutive_missing = missing_evidence_json db commit\<rparr> (db_connector_state db)\<rparr>))"

definition commit_sync :: "int \<Rightarrow> SyncCommit \<Rightarrow> Database \<Rightarrow> StoreError + CommitResult \<times> Database" where
  "commit_sync now commit db =
     (if run_status (sc_run commit) = RunRunning \<or> run_finished_at (sc_run commit) = None
      then Inl (Contract ''commit_sync requires a finished sync run'')
      else
        res_bind (validate_commit commit) (\<lambda>_.
        res_bind (complete_sync_run (sc_run commit) db) (\<lambda>db.
        res_bind (res_fold upsert_resource (sc_resources commit) db) (\<lambda>db.
        res_bind (write_all insert_resource_version (sc_resource_versions commit) db) (\<lambda>(rvs, db).
        res_bind (res_fold upsert_relation (sc_relations commit) db) (\<lambda>db.
        res_bind (write_all insert_relation_version (sc_relation_versions commit) db) (\<lambda>(relvs, db).
        res_bind (write_all insert_change (sc_changes commit) db) (\<lambda>(chgs, db).
        res_bind (write_connector_state commit db) (\<lambda>db.
        res_bind (bump_projection_metadata now db) (\<lambda>db.
          Inr (\<lparr>cr_resources_written = length (sc_resources commit),
                cr_resource_versions_written = rvs,
                cr_relations_written = length (sc_relations commit),
                cr_relation_versions_written = relvs, cr_changes_written = chgs\<rparr>, db)))))))))))"

definition interrupt_run :: "Timestamp \<Rightarrow> SyncRun \<Rightarrow> SyncRun" where
  "interrupt_run at run =
     (if run_status run = RunRunning
      then run\<lparr>run_status := RunInterrupted, run_finished_at := Some at\<rparr> else run)"

definition mark_running_syncs_interrupted ::
    "int \<Rightarrow> Timestamp \<Rightarrow> Database \<Rightarrow> StoreError + nat \<times> Database" where
  "mark_running_syncs_interrupted now at db =
     (let updated = length (filter (\<lambda>run. run_status run = RunRunning) (bt_values (db_sync_runs db)));
          db' = db\<lparr>db_sync_runs := map (\<lambda>(i, run). (i, interrupt_run at run)) (db_sync_runs db)\<rparr>
      in if 0 < updated then map_ok (Pair updated) (bump_projection_metadata now db')
         else Inr (updated, db'))"

section \<open>BindingStore and InferenceStore\<close>

definition get_binding :: "Database \<Rightarrow> BindingId \<Rightarrow> StoreError + Binding option" where
  "get_binding db i = query_optional read_binding (db_bindings db) i"

definition list_bindings :: "Database \<Rightarrow> StoreError + Binding list" where
  "list_bindings db = res_map read_binding (bt_values (db_bindings db))"

definition upsert_binding :: "Binding \<Rightarrow> Database \<Rightarrow> StoreError + Database" where
  "upsert_binding b db =
     (if \<not> has_key (db_resources db) (bind_source b) \<or> \<not> has_key (db_resources db) (bind_target b)
      then Inl foreign_key_failed
      else Inr (db\<lparr>db_bindings := bt_insert (bind_id b)
        (case bt_get (db_bindings db) (bind_id b) of
           None \<Rightarrow> b
         | Some row \<Rightarrow> b\<lparr>bind_created_at := bind_created_at row\<rparr>) (db_bindings db)\<rparr>))"

definition commit_binding :: "BindingCommit \<Rightarrow> Database \<Rightarrow> StoreError + Database" where
  "commit_binding commit db =
     res_bind (upsert_binding (bc_binding commit) db) (\<lambda>db.
     res_bind (res_fold upsert_relation (bc_relations commit) db) (\<lambda>db.
     res_bind (write_all insert_relation_version (bc_relation_versions commit) db) (\<lambda>(_, db).
     res_bind (write_all insert_change (bc_changes commit) db) (\<lambda>(_, db).
       Inr (set_projection_metadata (bind_updated_at (bc_binding commit)) db)))))"

definition resource_version_exists :: "Database \<Rightarrow> ResourceVersionId \<Rightarrow> StoreError + bool" where
  "resource_version_exists db i = Inr (has_key (db_resource_versions db) i)"

definition relation_version_exists :: "Database \<Rightarrow> RelationVersionId \<Rightarrow> StoreError + bool" where
  "relation_version_exists db i = Inr (has_key (db_relation_versions db) i)"

definition inferred_by :: "RuleVersion \<Rightarrow> RelationEvidence \<Rightarrow> bool" where
  "inferred_by rule evidence =
     (case evidence of Inferred rule_version _ _ _ \<Rightarrow> rule_version = rule | _ \<Rightarrow> False)"

definition inferred_relations_for_rule :: "Database \<Rightarrow> RuleVersion \<Rightarrow> StoreError + Relation list" where
  "inferred_relations_for_rule db rule =
     res_map read_relation
       (filter (\<lambda>r. inferred_by rule (rel_evidence r)) (bt_values (db_relations db)))"

definition insert_inference_run :: "InferenceRun \<Rightarrow> Database \<Rightarrow> StoreError + Database" where
  "insert_inference_run run db =
     (if has_key (db_inference_runs db) (ir_id run) then Inl unique_failed
      else Inr (db\<lparr>db_inference_runs := bt_insert (ir_id run) run (db_inference_runs db)\<rparr>))"

definition insert_inference_output ::
    "InferenceCommit \<Rightarrow> RelationId \<Rightarrow> Database \<Rightarrow> StoreError + Database" where
  "insert_inference_output commit relation_id db =
     (case List.find (\<lambda>r. rel_id r = relation_id) (ic_relations commit) of
        None \<Rightarrow> Inl (Contract ''inference output relation is missing from the commit'')
      | Some r \<Rightarrow>
          let run = ir_id (ic_run commit) in
          if has_key (db_inference_outputs db) (run, relation_id) then Inl unique_failed
          else if \<not> has_key (db_inference_runs db) run \<or> \<not> has_key (db_relations db) relation_id
          then Inl foreign_key_failed
          else Inr (db\<lparr>db_inference_outputs :=
            bt_insert (run, relation_id) (rel_evidence_key r) (db_inference_outputs db)\<rparr>))"

definition commit_inference :: "InferenceCommit \<Rightarrow> Database \<Rightarrow> StoreError + Database" where
  "commit_inference commit db =
     res_bind (insert_inference_run (ic_run commit) db) (\<lambda>db.
     res_bind (res_fold upsert_relation (ic_relations commit) db) (\<lambda>db.
     res_bind (write_all insert_relation_version (ic_relation_versions commit) db) (\<lambda>(_, db).
     res_bind (write_all insert_change (ic_changes commit) db) (\<lambda>(_, db).
     res_bind (res_fold (insert_inference_output commit) (ir_output_relation_ids (ic_run commit)) db)
       (\<lambda>db. Inr (set_projection_metadata
          (case ir_finished_at (ic_run commit) of None \<Rightarrow> ir_started_at (ic_run commit) | Some t \<Rightarrow> t)
          db))))))"

section \<open>Connection secrets\<close>

definition upsert_connection_secret :: "ConnectionId \<Rightarrow> string \<Rightarrow> Database \<Rightarrow> StoreError + Database" where
  "upsert_connection_secret connection_id secret db =
     (if \<not> has_key (db_connections db) connection_id then Inl foreign_key_failed
      else Inr (db\<lparr>db_secrets := bt_insert connection_id secret (db_secrets db)\<rparr>))"

definition connection_secret :: "Database \<Rightarrow> ConnectionId \<Rightarrow> string option" where
  "connection_secret db connection_id = bt_get (db_secrets db) connection_id"

definition remove_connection_secret :: "ConnectionId \<Rightarrow> Database \<Rightarrow> Database" where
  "remove_connection_secret connection_id db =
     db\<lparr>db_secrets := bt_remove connection_id (db_secrets db)\<rparr>"

end
