(* ===== verification/Store_Migrations.thy ===== *)
theory Store_Migrations
  imports Store
begin

text \<open>
  The schema migrations (\<open>migrations/mod.rs\<close>). A database file is seen as its \<open>user_version\<close>, its
  tables with their columns, its indexes, the rows of \<open>schema_migrations\<close> and the row of
  \<open>projection_metadata\<close>. Each migration is a batch of statements, and a statement fails when it
  creates what exists or alters what does not.
\<close>

section \<open>Statements\<close>

datatype Ddl =
    CreateTable string "string list"
  | CreateIndex string string "string list"
  | AddColumn string string
  | InsertProjectionRow

record SchemaFile =
  sf_user_version :: nat
  sf_tables :: "(string, string list) btree_map"
  sf_indexes :: "(string, string \<times> string list) btree_map"
  sf_migrations :: "(nat, int) btree_map"
  sf_projection :: "ProjectionMetadata option"

definition fresh_file :: SchemaFile where
  "fresh_file = \<lparr>sf_user_version = 0, sf_tables = [], sf_indexes = [], sf_migrations = [],
     sf_projection = None\<rparr>"

fun execute :: "int \<Rightarrow> Ddl \<Rightarrow> SchemaFile \<Rightarrow> StoreError + SchemaFile" where
  "execute now (CreateTable name columns) file =
     (if has_key (sf_tables file) name then Inl (Sqlite ''table already exists'')
      else Inr (file\<lparr>sf_tables := bt_insert name columns (sf_tables file)\<rparr>))"
| "execute now (CreateIndex name table columns) file =
     (case bt_get (sf_tables file) table of
        None \<Rightarrow> Inl (Sqlite ''no such table'')
      | Some existing \<Rightarrow>
          if has_key (sf_indexes file) name then Inl (Sqlite ''index already exists'')
          else if \<not> list_all (\<lambda>c. c \<in> set existing) columns then Inl (Sqlite ''no such column'')
          else Inr (file\<lparr>sf_indexes := bt_insert name (table, columns) (sf_indexes file)\<rparr>))"
| "execute now (AddColumn table column) file =
     (case bt_get (sf_tables file) table of
        None \<Rightarrow> Inl (Sqlite ''no such table'')
      | Some existing \<Rightarrow>
          if column \<in> set existing then Inl (Sqlite ''duplicate column name'')
          else Inr (file\<lparr>sf_tables := bt_insert table (existing @ [column]) (sf_tables file)\<rparr>))"
| "execute now InsertProjectionRow file =
     (if \<not> has_key (sf_tables file) ''projection_metadata'' then Inl (Sqlite ''no such table'')
      else if sf_projection file \<noteq> None then Inl unique_failed
      else Inr (file\<lparr>sf_projection :=
        Some \<lparr>pm_committed_revision = 0, pm_committed_at = now\<rparr>\<rparr>))"

definition execute_batch :: "int \<Rightarrow> Ddl list \<Rightarrow> SchemaFile \<Rightarrow> StoreError + SchemaFile" where
  "execute_batch now batch file = res_fold (execute now) batch file"

section \<open>The migrations\<close>

definition LATEST_SCHEMA_VERSION :: nat where
  "LATEST_SCHEMA_VERSION = 5"

definition MIGRATION_1 :: "Ddl list" where
  "MIGRATION_1 =
    [CreateTable ''schema_migrations'' [''version'', ''applied_at''],
      CreateTable ''connections'' [''connection_id'', ''connector_type'', ''display_name'',
         ''enabled'', ''config_json'', ''secret_ref'', ''health'', ''last_success_at'',
         ''last_attempt_at'', ''config_schema_version'', ''deleted_at''],
      CreateTable ''connector_state'' [''connection_id'', ''sync_cursor'',
         ''consecutive_missing_json''],
      CreateTable ''sync_runs'' [''sync_run_id'', ''connection_id'', ''mode'', ''trigger'',
         ''started_at'', ''finished_at'', ''status'', ''coverage_json'', ''cursor_before'',
         ''cursor_after'', ''counts_json'', ''errors_json''],
      CreateTable ''resources'' [''resource_id'', ''connection_id'', ''kind'', ''external_id'',
         ''name'', ''display_name'', ''scope'', ''labels_json'', ''lifecycle'', ''health'',
         ''attributes_json'', ''attribute_schema_version'', ''fingerprint'', ''first_seen_at'',
         ''last_seen_at'', ''last_changed_at'', ''last_sync_run_id''],
      CreateTable ''resource_versions'' [''version_id'', ''resource_id'', ''observed_at'',
         ''sync_run_id'', ''normalized_snapshot_json'', ''fingerprint'', ''schema_version'',
         ''change_summary_json''],
      CreateTable ''relations'' [''relation_id'', ''source_resource_id'',
         ''target_resource_id'', ''kind'', ''evidence_type'', ''evidence_key'',
         ''evidence_json'', ''first_seen_at'', ''last_seen_at'', ''lifecycle''],
      CreateTable ''relation_versions'' [''relation_version_id'', ''relation_id'',
         ''observed_at'', ''normalized_snapshot_json'', ''fingerprint'', ''schema_version'',
         ''origin_json''],
      CreateTable ''bindings'' [''binding_id'', ''source_resource_id'', ''target_resource_id'',
         ''kind'', ''status'', ''created_at'', ''updated_at''],
      CreateTable ''changes'' [''change_id'', ''subject_type'', ''subject_id'', ''observed_at'',
         ''fields_json'', ''origin_json''],
      CreateTable ''maintenance_runs'' [''maintenance_run_id'', ''started_at'', ''finished_at'',
         ''status'', ''summary_json''],
      CreateIndex ''resources_kind_lifecycle_health_idx'' ''resources'' [''kind'',
         ''lifecycle'', ''health''],
      CreateIndex ''resources_last_seen_idx'' ''resources'' [''last_seen_at''],
      CreateIndex ''resource_versions_resource_observed_idx'' ''resource_versions''
         [''resource_id'', ''observed_at''],
      CreateIndex ''relations_source_lifecycle_idx'' ''relations'' [''source_resource_id'',
         ''lifecycle''],
      CreateIndex ''relations_target_lifecycle_idx'' ''relations'' [''target_resource_id'',
         ''lifecycle''],
      CreateIndex ''changes_observed_idx'' ''changes'' [''observed_at''],
      CreateIndex ''sync_runs_connection_started_idx'' ''sync_runs'' [''connection_id'',
         ''started_at'']]"

definition MIGRATION_2 :: "Ddl list" where
  "MIGRATION_2 =
    [CreateTable ''projection_metadata'' [''singleton_id'', ''committed_revision'',
         ''committed_at''],
      InsertProjectionRow]"

definition MIGRATION_3 :: "Ddl list" where
  "MIGRATION_3 =
    [CreateIndex ''bindings_source_status_idx'' ''bindings'' [''source_resource_id'',
         ''status''],
      CreateIndex ''bindings_target_status_idx'' ''bindings'' [''target_resource_id'',
         ''status''],
      CreateTable ''inference_runs'' [''inference_run_id'', ''rule_version'', ''started_at'',
         ''finished_at'', ''status'', ''input_resource_version_ids_json'',
         ''input_relation_version_ids_json'', ''summary_json''],
      CreateTable ''inference_outputs'' [''inference_run_id'', ''relation_id'',
         ''evidence_key''],
      CreateIndex ''inference_runs_rule_started_idx'' ''inference_runs'' [''rule_version'',
         ''started_at'']]"

definition MIGRATION_4 :: "Ddl list" where
  "MIGRATION_4 =
    [AddColumn ''sync_runs'' ''warnings_json'']"

definition MIGRATION_5 :: "Ddl list" where
  "MIGRATION_5 =
    [CreateTable ''connection_secrets'' [''connection_id'', ''secret'']]"


definition record_migration :: "int \<Rightarrow> nat \<Rightarrow> SchemaFile \<Rightarrow> StoreError + SchemaFile" where
  "record_migration now version file =
     (if \<not> has_key (sf_tables file) ''schema_migrations'' then Inl (Sqlite ''no such table'')
      else if has_key (sf_migrations file) version then Inl unique_failed
      else Inr (file\<lparr>sf_migrations := bt_insert version now (sf_migrations file)\<rparr>))"

text \<open>One \<open>if current < version\<close> block.\<close>

definition migrate_to :: "int \<Rightarrow> nat \<Rightarrow> nat \<Rightarrow> Ddl list \<Rightarrow> SchemaFile \<Rightarrow> StoreError + SchemaFile" where
  "migrate_to now current version batch file =
     (if current < version then
        res_bind (execute_batch now batch file) (\<lambda>file.
        res_bind (record_migration now version file) (\<lambda>file.
          Inr (file\<lparr>sf_user_version := version\<rparr>)))
      else Inr file)"

definition apply_migrations :: "int \<Rightarrow> SchemaFile \<Rightarrow> StoreError + SchemaFile" where
  "apply_migrations now file =
     (let current = sf_user_version file in
      if current > LATEST_SCHEMA_VERSION
      then Inl (UnsupportedSchema current LATEST_SCHEMA_VERSION)
      else if current = LATEST_SCHEMA_VERSION then Inr file
      else
        res_bind (migrate_to now current 1 MIGRATION_1 file) (\<lambda>file.
        res_bind (migrate_to now current 2 MIGRATION_2 file) (\<lambda>file.
        res_bind (migrate_to now current 3 MIGRATION_3 file) (\<lambda>file.
        res_bind (migrate_to now current 4 MIGRATION_4 file) (\<lambda>file.
          migrate_to now current 5 MIGRATION_5 file)))))"

section \<open>Properties\<close>

text \<open>The file after the first migrations, as an older release of the program left it.\<close>

definition migrations :: "(nat \<times> Ddl list) list" where
  "migrations = [(1, MIGRATION_1), (2, MIGRATION_2), (3, MIGRATION_3), (4, MIGRATION_4), (5, MIGRATION_5)]"

definition release :: "int \<Rightarrow> nat \<Rightarrow> StoreError + SchemaFile" where
  "release now n =
     res_fold (\<lambda>(version, batch). migrate_to now 0 version batch) (take n migrations) fresh_file"

definition same_schema :: "SchemaFile \<Rightarrow> SchemaFile \<Rightarrow> bool" where
  "same_schema a b \<longleftrightarrow>
     sf_user_version a = sf_user_version b \<and> sf_tables a = sf_tables b \<and> sf_indexes a = sf_indexes b \<and>
     map fst (sf_migrations a) = map fst (sf_migrations b) \<and>
     map_option pm_committed_revision (sf_projection a) = map_option pm_committed_revision (sf_projection b)"

text \<open>Statements run at different times on files of the same schema give files of the same schema.\<close>

abbreviation same_result :: "StoreError + SchemaFile \<Rightarrow> StoreError + SchemaFile \<Rightarrow> bool" where
  "same_result \<equiv> rel_sum (=) same_schema"

lemma same_result_bind:
  "same_result r q \<Longrightarrow> (\<And>a b. same_schema a b \<Longrightarrow> same_result (f a) (g b)) \<Longrightarrow>
     same_result (res_bind r f) (res_bind q g)"
  by (auto elim!: rel_sum.cases)

lemma execute_same: "same_schema a b \<Longrightarrow> same_result (execute t d a) (execute t' d b)"
  by (cases d) (auto simp: same_schema_def split: option.splits)

lemma execute_batch_same: "same_schema a b \<Longrightarrow> same_result (execute_batch t ds a) (execute_batch t' ds b)"
  unfolding execute_batch_def
  by (induction ds arbitrary: a b) (auto intro: same_result_bind execute_same)

lemma has_key_fst: "map fst m = map fst n \<Longrightarrow> has_key m k = has_key n k"
  by (metis bt_get_None_iff has_key_def list.set_map)

lemma insert_fst: "map fst m = map fst n \<Longrightarrow> map fst (bt_insert k v m) = map fst (bt_insert k w n)"
proof (induction m arbitrary: n)
  case Nil
  then show ?case by simp
next
  case (Cons e m)
  then obtain f n' where "n = f # n'" by (cases n) auto
  with Cons show ?case by (cases e; cases f) auto
qed

lemma migrate_to_same:
  assumes "same_schema a b" and "current < version" and "current' < version"
  shows "same_result (migrate_to t current version ds a) (migrate_to t' current' version ds b)"
proof -
  have "same_result (record_migration t version x) (record_migration t' version y)" if "same_schema x y" for x y
    using that has_key_fst[of "sf_migrations x" "sf_migrations y" version]
    by (auto simp: same_schema_def record_migration_def intro: insert_fst)
  then show ?thesis
    using assms unfolding migrate_to_def
    by (auto intro!: same_result_bind execute_batch_same) (auto simp: same_schema_def)
qed

lemma same_result_ok: "same_result (Inr a) r \<Longrightarrow> \<exists>b. r = Inr b \<and> same_schema a b"
  by (auto elim: rel_sum.cases)

lemma same_schema_refl [simp]: "same_schema a a"
  by (simp add: same_schema_def)

text \<open>Migrations already applied are skipped.\<close>

fun migrate_list :: "int \<Rightarrow> nat \<Rightarrow> (nat \<times> Ddl list) list \<Rightarrow> SchemaFile \<Rightarrow> StoreError + SchemaFile" where
  "migrate_list now current [] file = Inr file"
| "migrate_list now current ((version, batch) # rest) file =
     res_bind (migrate_to now current version batch file) (migrate_list now current rest)"

lemma migrate_list_fun:
  "migrate_list now current [] = Inr"
  "migrate_list now current ((version, batch) # rest) =
     (\<lambda>x. res_bind (migrate_to now current version batch x) (migrate_list now current rest))"
  by (auto intro: ext)

lemma apply_migrations_list:
  "apply_migrations now file =
     (if sf_user_version file > 5 then Inl (UnsupportedSchema (sf_user_version file) 5)
      else migrate_list now (sf_user_version file) migrations file)"
proof -
  have "migrate_to now 5 v b f = Inr f" if "v \<le> 5" for v b f
    using that by (simp add: migrate_to_def)
  then show ?thesis
    by (auto simp: apply_migrations_def LATEST_SCHEMA_VERSION_def Let_def migrations_def migrate_list_fun)
qed

lemma migrate_list_skip:
  "\<forall>(v, b)\<in>set ms. v \<le> current \<Longrightarrow> migrate_list now current (ms @ ns) file = migrate_list now current ns file"
  by (induction ms) (auto simp: migrate_to_def)

lemma migrate_list_same:
  "same_schema a b \<Longrightarrow> \<forall>(v, d)\<in>set ms. current < v \<and> current' < v \<Longrightarrow>
     same_result (migrate_list t current ms a) (migrate_list t' current' ms b)"
  by (induction ms arbitrary: a b) (auto intro!: same_result_bind migrate_to_same)

lemma migrate_list_append:
  "migrate_list now current (ms @ ns) x =
     res_bind (migrate_list now current ms x) (migrate_list now current ns)"
proof (induction ms arbitrary: x)
  case Nil
  then show ?case by simp
next
  case (Cons m ms)
  then show ?case by (cases m) (auto simp: res_bind_assoc intro!: res_bind_cong)
qed

lemma release_list: "release now n = migrate_list now 0 (take n migrations) fresh_file"
proof -
  have "res_fold (\<lambda>(version, batch). migrate_to now 0 version batch) ms f = migrate_list now 0 ms f" for ms f
    by (induction ms arbitrary: f) (auto intro!: res_bind_cong)
  then show ?thesis by (simp add: release_def)
qed

lemma migrate_list_version:
  "migrate_list now current ms a = Inr b \<Longrightarrow> ms \<noteq> [] \<Longrightarrow> \<forall>(v, d)\<in>set ms. current < v \<Longrightarrow>
     sf_user_version b = fst (last ms)"
proof (induction ms arbitrary: a)
  case Nil
  then show ?case by simp
next
  case (Cons m ms)
  obtain v d where m: "m = (v, d)" by (cases m)
  with Cons.prems obtain f where f: "migrate_to now current v d a = Inr f" "migrate_list now current ms f = Inr b"
    by (auto simp: res_simps)
  have "sf_user_version f = v" using f(1) Cons.prems(3) m by (auto simp: migrate_to_def res_simps)
  with Cons f(2) m show ?case by (cases ms) auto
qed

lemma fresh_upgrade: "\<exists>g. migrate_list now 0 migrations fresh_file = Inr g"
proof -
  have "is_ok (apply_migrations now fresh_file)" by code_simp
  then show ?thesis by (auto simp: is_ok_iff apply_migrations_list fresh_file_def)
qed

lemma split_migrations:
  assumes "n \<le> 5"
  shows "\<forall>(v, b)\<in>set (take n migrations). 0 < v \<and> v \<le> n" and "\<forall>(v, b)\<in>set (drop n migrations). n < v"
    and "n \<noteq> 0 \<Longrightarrow> take n migrations \<noteq> [] \<and> fst (last (take n migrations)) = n"
proof -
  have "n \<in> {0, 1, 2, 3, 4, 5}" using assms by auto
  then show "\<forall>(v, b)\<in>set (take n migrations). 0 < v \<and> v \<le> n"
    "\<forall>(v, b)\<in>set (drop n migrations). n < v"
    "n \<noteq> 0 \<Longrightarrow> take n migrations \<noteq> [] \<and> fst (last (take n migrations)) = n"
    by (auto simp: migrations_def take_Cons' drop_Cons')
qed

text \<open>
  Whatever release from 0 to 5 wrote the file, the migrations succeed and reach the schema of a
  fresh installation: the same tables with the same columns, the same indexes and the same recorded
  versions, at \<open>user_version\<close> 5. Applying them again changes nothing, and a file of a newer version is
  refused.
\<close>

theorem migrations_converge:
  assumes "n \<le> 5"
  shows "\<exists>f g h. release t n = Inr f \<and> apply_migrations now f = Inr g \<and>
    apply_migrations now' fresh_file = Inr h \<and> same_schema g h \<and> sf_user_version g = 5 \<and>
    apply_migrations now'' g = Inr g \<and>
    apply_migrations now (f\<lparr>sf_user_version := 6 + k\<rparr>) = Inl (UnsupportedSchema (6 + k) 5)"
proof -
  note parts = split_migrations[OF assms]
  obtain e where e: "migrate_list t 0 migrations fresh_file = Inr e" using fresh_upgrade by blast
  have "migrate_list t 0 migrations fresh_file = res_bind (migrate_list t 0 (take n migrations) fresh_file)
      (migrate_list t 0 (drop n migrations))"
    using migrate_list_append[of t 0 "take n migrations" "drop n migrations" fresh_file] by simp
  with e obtain f where f: "migrate_list t 0 (take n migrations) fresh_file = Inr f"
    and e2: "migrate_list t 0 (drop n migrations) f = Inr e"
    by (metis res_bind_eq_Inr)
  have version: "sf_user_version f = n"
  proof (cases "n = 0")
    case True
    with f show ?thesis by (auto simp: fresh_file_def)
  next
    case False
    with migrate_list_version[OF f] parts show ?thesis by (fastforce split: prod.splits)
  qed
  have skip: "migrate_list now n migrations f = migrate_list now n (drop n migrations) f"
    using migrate_list_skip[of "take n migrations" n now "drop n migrations" f] parts(1) by fastforce
  have "same_result (migrate_list t 0 (drop n migrations) f) (migrate_list now n (drop n migrations) f)"
    using parts(2) by (intro migrate_list_same) auto
  then obtain g where g: "migrate_list now n (drop n migrations) f = Inr g" "same_schema e g"
    using same_result_ok e2 by fastforce
  obtain h where h: "migrate_list now' 0 migrations fresh_file = Inr h" using fresh_upgrade by blast
  have "same_result (migrate_list t 0 migrations fresh_file) (migrate_list now' 0 migrations fresh_file)"
    by (intro migrate_list_same) (auto simp: migrations_def)
  with e h have "same_schema e h" by auto
  with g(2) have same: "same_schema g h" by (simp add: same_schema_def)
  have "sf_user_version h = 5"
    using migrate_list_version[OF h] by (simp add: migrations_def)
  with same have five: "sf_user_version g = 5" by (simp add: same_schema_def)
  have again: "apply_migrations now'' g = Inr g"
    by (simp add: apply_migrations_def LATEST_SCHEMA_VERSION_def five)
  show ?thesis
    using f g(1) h same five again assms version skip
    by (auto simp: release_list apply_migrations_list fresh_file_def)
qed

theorem migrations_converge_witness:
  "\<exists>f g h. release 1 2 = Inr f \<and> apply_migrations 9 f = Inr g \<and> apply_migrations 0 fresh_file = Inr h \<and>
     same_schema g h"
  using migrations_converge[of 2 1 9 0 0 0] by auto

end
