(* ===== verification/Store_Ports.thy ===== *)
theory Store_Ports
  imports Core_Model
begin

text \<open>
  The traits \<open>StoreReader\<close> and \<open>StoreWriter\<close> of \<open>ports.rs\<close>. A trait that a component is generic
  over is a record of its operations, parametrised over the type \<open>'s\<close> of the store and \<open>'e\<close> of its
  errors. A write returns the error, in which case the store is unchanged, or its result
  with the new store.
\<close>

record ('s, 'e) StoreReader =
  sr_get_connection :: "'s \<Rightarrow> ConnectionId \<Rightarrow> 'e + Connection option"
  sr_get_resource :: "'s \<Rightarrow> ResourceId \<Rightarrow> 'e + Resource option"
  sr_get_relation :: "'s \<Rightarrow> RelationId \<Rightarrow> 'e + Relation option"
  sr_latest_relation_version_fingerprint :: "'s \<Rightarrow> RelationId \<Rightarrow> 'e + Fingerprint option"
  sr_get_sync_run :: "'s \<Rightarrow> SyncRunId \<Rightarrow> 'e + SyncRun option"
  sr_sync_cursor :: "'s \<Rightarrow> ConnectionId \<Rightarrow> 'e + SyncCursor option"
  sr_list_resources_for_scope :: "'s \<Rightarrow> ConnectionId \<Rightarrow> Scope \<Rightarrow> 'e + Resource list"
  sr_missing_evidence_state :: "'s \<Rightarrow> ConnectionId \<Rightarrow> Scope \<Rightarrow> 'e + MissingEvidenceState option"

record ('s, 'e) StoreWriter =
  sw_upsert_connection :: "Connection \<Rightarrow> 's \<Rightarrow> 'e + 's"
  sw_start_sync_run :: "SyncRun \<Rightarrow> 's \<Rightarrow> 'e + 's"
  sw_commit_sync :: "SyncCommit \<Rightarrow> 's \<Rightarrow> 'e + CommitResult \<times> 's"
  sw_mark_running_syncs_interrupted :: "Timestamp \<Rightarrow> 's \<Rightarrow> 'e + nat \<times> 's"

text \<open>The traits \<open>BindingStore\<close> and \<open>InferenceStore\<close> extend the reader.\<close>

record ('s, 'e) BindingStore = "('s, 'e) StoreReader" +
  bs_get_binding :: "'s \<Rightarrow> BindingId \<Rightarrow> 'e + Binding option"
  bs_list_bindings :: "'s \<Rightarrow> 'e + Binding list"
  bs_commit_binding :: "BindingCommit \<Rightarrow> 's \<Rightarrow> 'e + 's"

record ('s, 'e) InferenceStore = "('s, 'e) StoreReader" +
  is_resource_version_exists :: "'s \<Rightarrow> ResourceVersionId \<Rightarrow> 'e + bool"
  is_relation_version_exists :: "'s \<Rightarrow> RelationVersionId \<Rightarrow> 'e + bool"
  is_inferred_relations_for_rule :: "'s \<Rightarrow> RuleVersion \<Rightarrow> 'e + Relation list"
  is_commit_inference :: "InferenceCommit \<Rightarrow> 's \<Rightarrow> 'e + 's"

text \<open>Whether a looked-up resource exists and is active.\<close>

definition is_active :: "Resource option \<Rightarrow> bool" where
  "is_active r = (case r of None \<Rightarrow> False | Some r \<Rightarrow> res_lifecycle r = Active)"

end
