(* ===== verification/Store_Facts.thy ===== *)
theory Store_Facts
  imports Store
begin

text \<open>
  The integrity of the database: every table is sorted by the key its rows carry, every foreign key
  refers to a row, and the unique columns are unique. Every operation of the store keeps it,
  and its frame lemmas say which tables it touches.
\<close>

section \<open>Tables and references\<close>

named_theorems table_simps "how keys and references behave under writes"

definition table_ok :: "('v \<Rightarrow> 'k::linorder) \<Rightarrow> ('k, 'v) btree_map \<Rightarrow> bool" where
  "table_ok key m \<longleftrightarrow> bt_wf m \<and> (\<forall>k v. bt_get m k = Some v \<longrightarrow> key v = k)"

definition refs :: "('v \<Rightarrow> 'p::linorder) \<Rightarrow> ('k::linorder, 'v) btree_map \<Rightarrow> ('p, 'q) btree_map \<Rightarrow> bool" where
  "refs f child parent \<longleftrightarrow> (\<forall>k v. bt_get child k = Some v \<longrightarrow> has_key parent (f v))"

definition key_refs :: "('k::linorder \<Rightarrow> 'p::linorder) \<Rightarrow> ('k, 'v) btree_map \<Rightarrow> ('p, 'q) btree_map \<Rightarrow> bool" where
  "key_refs f child parent \<longleftrightarrow> (\<forall>k. has_key child k \<longrightarrow> has_key parent (f k))"

definition unique_by :: "('v \<Rightarrow> 'u) \<Rightarrow> ('k::linorder, 'v) btree_map \<Rightarrow> bool" where
  "unique_by f m \<longleftrightarrow>
     (\<forall>k v j w. bt_get m k = Some v \<longrightarrow> bt_get m j = Some w \<longrightarrow> f v = f w \<longrightarrow> k = j)"

lemma has_key_insert [table_simps]: "has_key (bt_insert k v m) j \<longleftrightarrow> j = k \<or> has_key m j"
  by (simp add: has_key_def bt_get_insert)

lemma table_ok_insert [table_simps]: "table_ok key m \<Longrightarrow> key v = k \<Longrightarrow> table_ok key (bt_insert k v m)"
  by (auto simp: table_ok_def bt_wf_insert bt_get_insert)

lemma table_ok_wf: "table_ok key m \<Longrightarrow> bt_wf m"
  by (simp add: table_ok_def)

lemma table_ok_key: "table_ok key m \<Longrightarrow> bt_get m k = Some v \<Longrightarrow> key v = k"
  by (simp add: table_ok_def)

lemma table_ok_values: "table_ok key m \<Longrightarrow> v \<in> set (bt_values m) \<longleftrightarrow> bt_get m (key v) = Some v"
  by (auto simp: table_ok_def bt_values_iff)

lemma refs_child [table_simps]: "refs f c p \<Longrightarrow> has_key p (f v) \<Longrightarrow> refs f (bt_insert k v c) p"
  by (auto simp: refs_def bt_get_insert)

lemma refs_parent [table_simps]: "refs f c p \<Longrightarrow> refs f c (bt_insert k v p)"
  by (auto simp: refs_def table_simps)

lemma key_refs_child [table_simps]: "key_refs f c p \<Longrightarrow> has_key p (f k) \<Longrightarrow> key_refs f (bt_insert k v c) p"
  by (auto simp: key_refs_def table_simps)

lemma key_refs_parent [table_simps]: "key_refs f c p \<Longrightarrow> key_refs f c (bt_insert k v p)"
  by (auto simp: key_refs_def table_simps)

lemma unique_by_insert:
  assumes "unique_by f m" and "\<And>j w. bt_get m j = Some w \<Longrightarrow> f w = f v \<Longrightarrow> j = k"
  shows "unique_by f (bt_insert k v m)"
  using assms unfolding unique_by_def bt_get_insert by (metis option.inject)

lemma unique_by_replace:
  "unique_by f m \<Longrightarrow> bt_get m k = Some u \<Longrightarrow> f v = f u \<Longrightarrow> unique_by f (bt_insert k v m)"
  by (rule unique_by_insert) (auto simp: unique_by_def)

lemma unique_by_fresh:
  "unique_by f m \<Longrightarrow> \<not> list_ex (\<lambda>w. f w = f v) (bt_values m) \<Longrightarrow> unique_by f (bt_insert k v m)"
  by (rule unique_by_insert) (auto simp: list_ex_iff bt_values_def dest!: bt_get_mem)

text \<open>A key that has a row keeps one when every row is mapped to a row.\<close>

lemma has_key_map [table_simps]: "has_key (map (\<lambda>(k, v). (k, f k v)) m) j \<longleftrightarrow> has_key m j"
  by (simp add: has_key_def bt_get_map)

section \<open>Integrity\<close>

definition tables_ok :: "Database \<Rightarrow> bool" where
  "tables_ok db \<longleftrightarrow>
     table_ok conn_id (db_connections db) \<and> bt_wf (db_connector_state db) \<and>
     table_ok run_id (db_sync_runs db) \<and> table_ok res_id (db_resources db) \<and>
     table_ok rv_id (db_resource_versions db) \<and> table_ok rel_id (db_relations db) \<and>
     table_ok relv_id (db_relation_versions db) \<and> table_ok bind_id (db_bindings db) \<and>
     table_ok chg_id (db_changes db) \<and> table_ok ir_id (db_inference_runs db) \<and>
     bt_wf (db_inference_outputs db) \<and> bt_wf (db_secrets db)"

definition foreign_keys_ok :: "Database \<Rightarrow> bool" where
  "foreign_keys_ok db \<longleftrightarrow>
     key_refs (\<lambda>i. i) (db_connector_state db) (db_connections db) \<and>
     key_refs (\<lambda>i. i) (db_secrets db) (db_connections db) \<and>
     refs run_connection_id (db_sync_runs db) (db_connections db) \<and>
     refs res_connection_id (db_resources db) (db_connections db) \<and>
     refs res_last_sync_run_id (db_resources db) (db_sync_runs db) \<and>
     refs rv_resource_id (db_resource_versions db) (db_resources db) \<and>
     refs rv_sync_run_id (db_resource_versions db) (db_sync_runs db) \<and>
     refs rel_source (db_relations db) (db_resources db) \<and>
     refs rel_target (db_relations db) (db_resources db) \<and>
     refs relv_relation_id (db_relation_versions db) (db_relations db) \<and>
     refs bind_source (db_bindings db) (db_resources db) \<and>
     refs bind_target (db_bindings db) (db_resources db) \<and>
     key_refs fst (db_inference_outputs db) (db_inference_runs db) \<and>
     key_refs snd (db_inference_outputs db) (db_relations db)"

definition unique_ok :: "Database \<Rightarrow> bool" where
  "unique_ok db \<longleftrightarrow>
     unique_by resource_identity (db_resources db) \<and> unique_by relation_key (db_relations db)"

definition db_ok :: "Database \<Rightarrow> bool" where
  "db_ok db \<longleftrightarrow> tables_ok db \<and> foreign_keys_ok db \<and> unique_ok db \<and> db_projection db \<noteq> None"

lemmas db_ok_defs = db_ok_def tables_ok_def foreign_keys_ok_def unique_ok_def

lemma db_ok_empty: "db_ok (empty_database now)"
  by (simp add: db_ok_defs empty_database_def table_ok_def refs_def key_refs_def unique_by_def has_key_def)

section \<open>Each statement keeps the integrity\<close>

lemma bump_projection_metadata_eq [res_simps]:
  "bump_projection_metadata now db = Inr db' \<longleftrightarrow>
     (\<exists>p. db_projection db = Some p \<and> db' = db\<lparr>db_projection :=
        Some \<lparr>pm_committed_revision = pm_committed_revision p + 1, pm_committed_at = now\<rparr>\<rparr>)"
  by (auto simp: bump_projection_metadata_def split: option.splits)

lemma bump_ok: "bump_projection_metadata now db = Inr db' \<Longrightarrow> db_ok db \<Longrightarrow> db_ok db'"
  by (auto simp: db_ok_defs res_simps)

lemma set_projection_ok: "db_ok db \<Longrightarrow> db_ok (set_projection_metadata at db)"
  by (simp add: db_ok_defs set_projection_metadata_def)

lemma upsert_connection_ok: "upsert_connection now c db = Inr db' \<Longrightarrow> db_ok db \<Longrightarrow> db_ok db'"
  by (auto simp: db_ok_defs upsert_connection_def res_simps table_simps)

lemma insert_sync_run_ok: "insert_sync_run run db = Inr db' \<Longrightarrow> db_ok db \<Longrightarrow> db_ok db'"
  by (auto simp: db_ok_defs insert_sync_run_def table_simps split: if_splits)

lemma start_sync_run_ok: "start_sync_run now run db = Inr db' \<Longrightarrow> db_ok db \<Longrightarrow> db_ok db'"
  by (auto simp: start_sync_run_def res_bind_eq_Inr dest!: insert_sync_run_ok bump_ok split: if_splits)

lemma complete_sync_run_ok: "complete_sync_run run db = Inr db' \<Longrightarrow> db_ok db \<Longrightarrow> db_ok db'"
proof -
  assume ok: "db_ok db" and "complete_sync_run run db = Inr db'"
  then obtain row where row: "bt_get (db_sync_runs db) (run_id run) = Some row"
    and db': "db' = db\<lparr>db_sync_runs := bt_insert (run_id run)
            (row\<lparr>run_finished_at := run_finished_at run, run_status := run_status run,
                 run_coverage := run_coverage run, run_cursor_after := run_cursor_after run,
                 run_counts := run_counts run, run_errors := run_errors run,
                 run_warnings := run_warnings run\<rparr>) (db_sync_runs db)\<rparr>"
    by (auto simp: complete_sync_run_def split: option.splits if_splits)
  have "run_id row = run_id run" using ok row by (simp add: db_ok_defs table_ok_def)
  moreover have "has_key (db_connections db) (run_connection_id row)"
    using ok row by (simp add: db_ok_defs refs_def)
  ultimately show "db_ok db'" using ok unfolding db' by (simp add: db_ok_defs table_simps)
qed

lemma upsert_resource_ok:
  assumes "upsert_resource r db = Inr db'" and "db_ok db"
  shows "db_ok db'"
proof (cases "bt_get (db_resources db) (res_id r)")
  case None
  with assms(1) have new: "\<not> list_ex (\<lambda>row. resource_identity row = resource_identity r) (bt_values (db_resources db))"
    and keys: "has_key (db_connections db) (res_connection_id r)" "has_key (db_sync_runs db) (res_last_sync_run_id r)"
    and db': "db' = db\<lparr>db_resources := bt_insert (res_id r) r (db_resources db)\<rparr>"
    by (auto simp: upsert_resource_def split: if_splits)
  from assms(2) new have "unique_by resource_identity (bt_insert (res_id r) r (db_resources db))"
    by (auto simp: db_ok_defs intro: unique_by_fresh)
  with assms(2) keys show ?thesis unfolding db' by (simp add: db_ok_defs table_simps)
next
  case (Some row)
  with assms(1) have same: "resource_identity row = resource_identity r"
    and keys: "has_key (db_sync_runs db) (res_last_sync_run_id r)"
    and db': "db' = db\<lparr>db_resources := bt_insert (res_id r)
            (r\<lparr>res_first_seen_at := res_first_seen_at row\<rparr>) (db_resources db)\<rparr>"
    by (auto simp: upsert_resource_def split: if_splits)
  have "has_key (db_connections db) (res_connection_id row)"
    using assms(2) Some by (simp add: db_ok_defs refs_def)
  with same have "has_key (db_connections db) (res_connection_id r)" by (simp add: resource_identity_def)
  moreover have "unique_by resource_identity (bt_insert (res_id r)
      (r\<lparr>res_first_seen_at := res_first_seen_at row\<rparr>) (db_resources db))"
    using assms(2) same by (intro unique_by_replace[OF _ Some]) (auto simp: db_ok_defs resource_identity_def)
  ultimately show ?thesis using assms(2) keys unfolding db' by (simp add: db_ok_defs table_simps)
qed

lemma upsert_relation_ok:
  assumes "upsert_relation r db = Inr db'" and "db_ok db"
  shows "db_ok db'"
proof (cases "bt_get (db_relations db) (rel_id r)")
  case None
  with assms(1) have new: "\<not> list_ex (\<lambda>row. relation_key row = relation_key r) (bt_values (db_relations db))"
    and keys: "has_key (db_resources db) (rel_source r)" "has_key (db_resources db) (rel_target r)"
    and db': "db' = db\<lparr>db_relations := bt_insert (rel_id r) r (db_relations db)\<rparr>"
    by (auto simp: upsert_relation_def split: if_splits)
  from assms(2) new have "unique_by relation_key (bt_insert (rel_id r) r (db_relations db))"
    by (auto simp: db_ok_defs intro: unique_by_fresh)
  with assms(2) keys show ?thesis unfolding db' by (simp add: db_ok_defs table_simps)
next
  case (Some row)
  let ?new = "row\<lparr>rel_evidence := rel_evidence r, rel_last_seen_at := rel_last_seen_at r,
                 rel_lifecycle := rel_lifecycle r\<rparr>"
  from Some assms(1) have same: "relation_key row = relation_key r"
    and db': "db' = db\<lparr>db_relations := bt_insert (rel_id r) ?new (db_relations db)\<rparr>"
    by (auto simp: upsert_relation_def split: if_splits)
  have "rel_id row = rel_id r" "has_key (db_resources db) (rel_source row)"
    "has_key (db_resources db) (rel_target row)"
    using assms(2) Some by (auto simp: db_ok_defs refs_def table_ok_def)
  moreover have "relation_key ?new = relation_key row" using same by (simp add: relation_key_def)
  then have "unique_by relation_key (bt_insert (rel_id r) ?new (db_relations db))"
    using assms(2) by (intro unique_by_replace[OF _ Some]) (auto simp: db_ok_defs)
  ultimately show ?thesis using assms(2) unfolding db' by (simp add: db_ok_defs table_simps)
qed

lemma insert_resource_version_ok:
  "insert_resource_version v db = Inr (n, db') \<Longrightarrow> db_ok db \<Longrightarrow> db_ok db'"
  by (auto simp: db_ok_defs insert_resource_version_def table_simps split: if_splits)

lemma insert_relation_version_ok:
  "insert_relation_version v db = Inr (n, db') \<Longrightarrow> db_ok db \<Longrightarrow> db_ok db'"
  by (auto simp: db_ok_defs insert_relation_version_def table_simps split: if_splits)

lemma insert_change_ok: "insert_change c db = Inr (n, db') \<Longrightarrow> db_ok db \<Longrightarrow> db_ok db'"
  by (auto simp: db_ok_defs insert_change_def table_simps split: if_splits)

lemma write_connector_state_ok: "write_connector_state commit db = Inr db' \<Longrightarrow> db_ok db \<Longrightarrow> db_ok db'"
  by (auto simp: db_ok_defs write_connector_state_def Let_def table_simps bt_wf_insert split: if_splits)

lemma upsert_binding_ok: "upsert_binding b db = Inr db' \<Longrightarrow> db_ok db \<Longrightarrow> db_ok db'"
  by (auto simp: db_ok_defs upsert_binding_def table_simps split: if_splits option.splits)

lemma insert_inference_run_ok: "insert_inference_run run db = Inr db' \<Longrightarrow> db_ok db \<Longrightarrow> db_ok db'"
  by (auto simp: db_ok_defs insert_inference_run_def table_simps split: if_splits)

lemma insert_inference_output_ok: "insert_inference_output c i db = Inr db' \<Longrightarrow> db_ok db \<Longrightarrow> db_ok db'"
  by (auto simp: db_ok_defs insert_inference_output_def Let_def table_simps bt_wf_insert
      split: if_splits option.splits)

end
