(* ===== verification/Store_Commit.thy ===== *)
theory Store_Commit
  imports Store_Facts
begin

text \<open>
  What the transactions of the store do as a whole: each keeps the integrity of the database, raises
  the committed revision by one, only adds to the history, and keeps the identity and the first
  sighting of every resource.
\<close>

section \<open>Loops of statements\<close>

lemma write_all_invariant:
  assumes "write_all f rs db = Inr (n, db')" and "P db"
    and "\<And>r u m v. r \<in> set rs \<Longrightarrow> P u \<Longrightarrow> f r u = Inr (m, v) \<Longrightarrow> P v"
  shows "P db'"
  using assms
proof (induction rs arbitrary: n db)
  case Nil
  then show ?case by simp
next
  case (Cons r rs)
  from Cons.prems(1) obtain m k u where u: "f r db = Inr (m, u)" "write_all f rs u = Inr (k, db')"
    by (auto simp: res_simps)
  have "P u" by (rule Cons.prems(3)[OF _ Cons.prems(2) u(1)]) simp
  then show ?case by (rule Cons.IH[OF u(2)]) (auto intro: Cons.prems(3))
qed

lemma commit_sync_InrE:
  assumes "commit_sync now commit db = Inr (result, db')"
  obtains db1 db2 db3 db4 db5 db6 db7 n1 n2 n3 where
    "run_status (sc_run commit) \<noteq> RunRunning" and "run_finished_at (sc_run commit) \<noteq> None"
    and "validate_commit commit = Inr ()" and "complete_sync_run (sc_run commit) db = Inr db1"
    and "res_fold upsert_resource (sc_resources commit) db1 = Inr db2"
    and "write_all insert_resource_version (sc_resource_versions commit) db2 = Inr (n1, db3)"
    and "res_fold upsert_relation (sc_relations commit) db3 = Inr db4"
    and "write_all insert_relation_version (sc_relation_versions commit) db4 = Inr (n2, db5)"
    and "write_all insert_change (sc_changes commit) db5 = Inr (n3, db6)"
    and "write_connector_state commit db6 = Inr db7"
    and "bump_projection_metadata now db7 = Inr db'"
    and "result = \<lparr>cr_resources_written = length (sc_resources commit),
                cr_resource_versions_written = n1,
                cr_relations_written = length (sc_relations commit),
                cr_relation_versions_written = n2, cr_changes_written = n3\<rparr>"
  using assms by (auto simp: commit_sync_def res_simps split: if_splits)

text \<open>What every statement of a commit keeps, the commit keeps.\<close>

lemma commit_sync_invariant:
  assumes "commit_sync now commit db = Inr (result, db')" and "P db"
    and "\<And>u v. P u \<Longrightarrow> complete_sync_run (sc_run commit) u = Inr v \<Longrightarrow> P v"
    and "\<And>r u v. r \<in> set (sc_resources commit) \<Longrightarrow> P u \<Longrightarrow> upsert_resource r u = Inr v \<Longrightarrow> P v"
    and "\<And>r u n v. r \<in> set (sc_resource_versions commit) \<Longrightarrow> P u \<Longrightarrow>
      insert_resource_version r u = Inr (n, v) \<Longrightarrow> P v"
    and "\<And>r u v. r \<in> set (sc_relations commit) \<Longrightarrow> P u \<Longrightarrow> upsert_relation r u = Inr v \<Longrightarrow> P v"
    and "\<And>r u n v. r \<in> set (sc_relation_versions commit) \<Longrightarrow> P u \<Longrightarrow>
      insert_relation_version r u = Inr (n, v) \<Longrightarrow> P v"
    and "\<And>r u n v. r \<in> set (sc_changes commit) \<Longrightarrow> P u \<Longrightarrow> insert_change r u = Inr (n, v) \<Longrightarrow> P v"
    and "\<And>u v. P u \<Longrightarrow> write_connector_state commit u = Inr v \<Longrightarrow> P v"
    and "\<And>u v. P u \<Longrightarrow> bump_projection_metadata now u = Inr v \<Longrightarrow> P v"
  shows "P db'"
proof -
  from assms(1) obtain db1 db2 db3 db4 db5 db6 db7 n1 n2 n3 where
    chain: "complete_sync_run (sc_run commit) db = Inr db1"
    "res_fold upsert_resource (sc_resources commit) db1 = Inr db2"
    "write_all insert_resource_version (sc_resource_versions commit) db2 = Inr (n1, db3)"
    "res_fold upsert_relation (sc_relations commit) db3 = Inr db4"
    "write_all insert_relation_version (sc_relation_versions commit) db4 = Inr (n2, db5)"
    "write_all insert_change (sc_changes commit) db5 = Inr (n3, db6)"
    "write_connector_state commit db6 = Inr db7" "bump_projection_metadata now db7 = Inr db'"
    by (elim commit_sync_InrE) (rule that, assumption+)
  have "P db1" using assms(2,3) chain(1) by blast
  then have "P db2" by (rule res_fold_invariant[OF chain(2)]) (rule assms(4))
  then have "P db3" by (rule write_all_invariant[OF chain(3)]) (rule assms(5))
  then have "P db4" by (rule res_fold_invariant[OF chain(4)]) (rule assms(6))
  then have "P db5" by (rule write_all_invariant[OF chain(5)]) (rule assms(7))
  then have "P db6" by (rule write_all_invariant[OF chain(6)]) (rule assms(8))
  then have "P db7" using assms(9) chain(7) by blast
  then show "P db'" using assms(10) chain(8) by blast
qed

lemma commit_binding_invariant:
  assumes "commit_binding commit db = Inr db'" and "P db"
    and "\<And>u v. P u \<Longrightarrow> upsert_binding (bc_binding commit) u = Inr v \<Longrightarrow> P v"
    and "\<And>r u v. r \<in> set (bc_relations commit) \<Longrightarrow> P u \<Longrightarrow> upsert_relation r u = Inr v \<Longrightarrow> P v"
    and "\<And>r u n v. r \<in> set (bc_relation_versions commit) \<Longrightarrow> P u \<Longrightarrow>
      insert_relation_version r u = Inr (n, v) \<Longrightarrow> P v"
    and "\<And>r u n v. r \<in> set (bc_changes commit) \<Longrightarrow> P u \<Longrightarrow> insert_change r u = Inr (n, v) \<Longrightarrow> P v"
    and "\<And>u at. P u \<Longrightarrow> P (set_projection_metadata at u)"
  shows "P db'"
proof -
  from assms(1) obtain db1 db2 db3 db4 n1 n2 where
    chain: "upsert_binding (bc_binding commit) db = Inr db1"
    "res_fold upsert_relation (bc_relations commit) db1 = Inr db2"
    "write_all insert_relation_version (bc_relation_versions commit) db2 = Inr (n1, db3)"
    "write_all insert_change (bc_changes commit) db3 = Inr (n2, db4)"
    "db' = set_projection_metadata (bind_updated_at (bc_binding commit)) db4"
    by (auto simp: commit_binding_def res_simps)
  have "P db1" using assms(2,3) chain(1) by blast
  then have "P db2" by (rule res_fold_invariant[OF chain(2)]) (rule assms(4))
  then have "P db3" by (rule write_all_invariant[OF chain(3)]) (rule assms(5))
  then have "P db4" by (rule write_all_invariant[OF chain(4)]) (rule assms(6))
  then show "P db'" using assms(7) chain(5) by blast
qed

lemma commit_inference_invariant:
  assumes "commit_inference commit db = Inr db'" and "P db"
    and "\<And>u v. P u \<Longrightarrow> insert_inference_run (ic_run commit) u = Inr v \<Longrightarrow> P v"
    and "\<And>r u v. r \<in> set (ic_relations commit) \<Longrightarrow> P u \<Longrightarrow> upsert_relation r u = Inr v \<Longrightarrow> P v"
    and "\<And>r u n v. r \<in> set (ic_relation_versions commit) \<Longrightarrow> P u \<Longrightarrow>
      insert_relation_version r u = Inr (n, v) \<Longrightarrow> P v"
    and "\<And>r u n v. r \<in> set (ic_changes commit) \<Longrightarrow> P u \<Longrightarrow> insert_change r u = Inr (n, v) \<Longrightarrow> P v"
    and "\<And>i u v. P u \<Longrightarrow> insert_inference_output commit i u = Inr v \<Longrightarrow> P v"
    and "\<And>u at. P u \<Longrightarrow> P (set_projection_metadata at u)"
  shows "P db'"
proof -
  from assms(1) obtain db1 db2 db3 db4 db5 n1 n2 at where
    chain: "insert_inference_run (ic_run commit) db = Inr db1"
    "res_fold upsert_relation (ic_relations commit) db1 = Inr db2"
    "write_all insert_relation_version (ic_relation_versions commit) db2 = Inr (n1, db3)"
    "write_all insert_change (ic_changes commit) db3 = Inr (n2, db4)"
    "res_fold (insert_inference_output commit) (ir_output_relation_ids (ic_run commit)) db4 = Inr db5"
    "db' = set_projection_metadata at db5"
    by (auto simp: commit_inference_def res_simps)
  have "P db1" using assms(2,3) chain(1) by blast
  then have "P db2" by (rule res_fold_invariant[OF chain(2)]) (rule assms(4))
  then have "P db3" by (rule write_all_invariant[OF chain(3)]) (rule assms(5))
  then have "P db4" by (rule write_all_invariant[OF chain(4)]) (rule assms(6))
  then have "P db5" by (rule res_fold_invariant[OF chain(5)]) (rule assms(7))
  then show "P db'" using assms(8) chain(6) by blast
qed

section \<open>Integrity of the transactions\<close>

lemma commit_sync_ok: "commit_sync now commit db = Inr (result, db') \<Longrightarrow> db_ok db \<Longrightarrow> db_ok db'"
  by (erule commit_sync_invariant) (auto intro: complete_sync_run_ok upsert_resource_ok
      insert_resource_version_ok upsert_relation_ok insert_relation_version_ok insert_change_ok
      write_connector_state_ok bump_ok)

lemma commit_binding_ok: "commit_binding commit db = Inr db' \<Longrightarrow> db_ok db \<Longrightarrow> db_ok db'"
  by (erule commit_binding_invariant) (auto intro: upsert_binding_ok upsert_relation_ok
      insert_relation_version_ok insert_change_ok set_projection_ok)

lemma commit_inference_ok: "commit_inference commit db = Inr db' \<Longrightarrow> db_ok db \<Longrightarrow> db_ok db'"
  by (erule commit_inference_invariant) (auto intro: insert_inference_run_ok upsert_relation_ok
      insert_relation_version_ok insert_change_ok insert_inference_output_ok set_projection_ok)

lemma refs_map_child:
  "refs f c p \<Longrightarrow> (\<And>v. f (g v) = f v) \<Longrightarrow> refs f (map (\<lambda>(k, v). (k, g v)) c) p"
  by (auto simp: refs_def bt_get_map)

lemma refs_map_parent: "refs f c p \<Longrightarrow> refs f c (map (\<lambda>(k, v). (k, g v)) p)"
  by (auto simp: refs_def table_simps)

lemma table_ok_map:
  "table_ok key m \<Longrightarrow> (\<And>v. key (g v) = key v) \<Longrightarrow> table_ok key (map (\<lambda>(k, v). (k, g v)) m)"
  by (auto simp: table_ok_def bt_wf_map bt_get_map)

lemma interrupt_run_keeps [simp]:
  "run_id (interrupt_run at run) = run_id run"
  "run_connection_id (interrupt_run at run) = run_connection_id run"
  by (simp_all add: interrupt_run_def)

lemma mark_interrupted_eq:
  "mark_running_syncs_interrupted now at db = Inr (n, db') \<Longrightarrow>
     n = length (filter (\<lambda>run. run_status run = RunRunning) (bt_values (db_sync_runs db))) \<and>
     (\<exists>p. db' = db\<lparr>db_sync_runs := map (\<lambda>(i, run). (i, interrupt_run at run)) (db_sync_runs db),
         db_projection := p\<rparr> \<and>
       (if n = 0 then p = db_projection db
        else \<exists>q. db_projection db = Some q \<and>
          p = Some \<lparr>pm_committed_revision = pm_committed_revision q + 1, pm_committed_at = now\<rparr>))"
  by (auto simp: mark_running_syncs_interrupted_def Let_def res_simps split: if_splits)

lemma mark_interrupted_ok:
  assumes "mark_running_syncs_interrupted now at db = Inr (n, db')" and "db_ok db"
  shows "db_ok db'"
proof -
  from mark_interrupted_eq[OF assms(1)] obtain p where
    db': "db' = db\<lparr>db_sync_runs := map (\<lambda>(i, run). (i, interrupt_run at run)) (db_sync_runs db),
         db_projection := p\<rparr>" and "db_projection db \<noteq> None \<longrightarrow> p \<noteq> None"
    by (auto split: if_splits)
  with assms(2) show ?thesis
    by (simp add: db_ok_defs table_ok_map refs_map_child refs_map_parent)
qed

lemma upsert_secret_ok: "upsert_connection_secret c s db = Inr db' \<Longrightarrow> db_ok db \<Longrightarrow> db_ok db'"
  by (auto simp: db_ok_defs upsert_connection_secret_def table_simps bt_wf_insert split: if_splits)

lemma remove_secret_ok: "db_ok db \<Longrightarrow> db_ok (remove_connection_secret c db)"
  by (auto simp: db_ok_defs remove_connection_secret_def bt_wf_remove key_refs_def has_key_def bt_get_remove)

end
