(* ===== verification/Store_Purge.thy ===== *)
theory Store_Purge
  imports Store_Commit
begin

text \<open>
  The purge of a connection: ten \<open>DELETE\<close> statements in the order that the foreign keys need, and
  the preview that counts what they will remove.
\<close>

section \<open>What belongs to a connection\<close>

record ConnectionPurgeSummary =
  cps_resources :: nat
  cps_relations :: nat
  cps_resource_versions :: nat
  cps_relation_versions :: nat
  cps_changes :: nat
  cps_bindings :: nat
  cps_sync_runs :: nat

text \<open>The sub-selects of the statements, as tests on one id.\<close>

definition resource_of :: "Database \<Rightarrow> ConnectionId \<Rightarrow> ResourceId \<Rightarrow> bool" where
  "resource_of db c i =
     (case bt_get (db_resources db) i of None \<Rightarrow> False | Some r \<Rightarrow> res_connection_id r = c)"

definition relation_row_of :: "Database \<Rightarrow> ConnectionId \<Rightarrow> Relation \<Rightarrow> bool" where
  "relation_row_of db c r \<longleftrightarrow> resource_of db c (rel_source r) \<or> resource_of db c (rel_target r)"

definition relation_of :: "Database \<Rightarrow> ConnectionId \<Rightarrow> RelationId \<Rightarrow> bool" where
  "relation_of db c i =
     (case bt_get (db_relations db) i of None \<Rightarrow> False | Some r \<Rightarrow> relation_row_of db c r)"

definition binding_row_of :: "Database \<Rightarrow> ConnectionId \<Rightarrow> Binding \<Rightarrow> bool" where
  "binding_row_of db c b \<longleftrightarrow> resource_of db c (bind_source b) \<or> resource_of db c (bind_target b)"

definition binding_of :: "Database \<Rightarrow> ConnectionId \<Rightarrow> BindingId \<Rightarrow> bool" where
  "binding_of db c i =
     (case bt_get (db_bindings db) i of None \<Rightarrow> False | Some b \<Rightarrow> binding_row_of db c b)"

fun subject_of :: "Database \<Rightarrow> ConnectionId \<Rightarrow> ChangeSubject \<Rightarrow> bool" where
  "subject_of db c (ResourceSubject i) = resource_of db c i"
| "subject_of db c (RelationSubject i) = relation_of db c i"
| "subject_of db c (BindingSubject i) = binding_of db c i"

definition purge_count :: "('v \<Rightarrow> bool) \<Rightarrow> ('k, 'v) btree_map \<Rightarrow> nat" where
  "purge_count P table = length (filter (\<lambda>e. P (snd e)) table)"

definition connection_purge_summary :: "Database \<Rightarrow> ConnectionId \<Rightarrow> ConnectionPurgeSummary option" where
  "connection_purge_summary db c =
     (if \<not> has_key (db_connections db) c then None
      else Some
        \<lparr>cps_resources = purge_count (\<lambda>r. res_connection_id r = c) (db_resources db),
         cps_relations = purge_count (relation_row_of db c) (db_relations db),
         cps_resource_versions = purge_count (\<lambda>v. resource_of db c (rv_resource_id v)) (db_resource_versions db),
         cps_relation_versions = purge_count (\<lambda>v. relation_of db c (relv_relation_id v)) (db_relation_versions db),
         cps_changes = purge_count (\<lambda>h. subject_of db c (chg_subject h)) (db_changes db),
         cps_bindings = purge_count (binding_row_of db c) (db_bindings db),
         cps_sync_runs = purge_count (\<lambda>r. run_connection_id r = c) (db_sync_runs db)\<rparr>)"

definition preview_connection_purge :: "ConnectionId \<Rightarrow> Database \<Rightarrow> ConnectionPurgeSummary option" where
  "preview_connection_purge c db = connection_purge_summary db c"

section \<open>The statements\<close>

text \<open>\<open>DELETE FROM table WHERE P\<close>, and the check of a foreign key after it.\<close>

definition delete_where :: "('k \<times> 'v \<Rightarrow> bool) \<Rightarrow> ('k, 'v) btree_map \<Rightarrow> ('k, 'v) btree_map" where
  "delete_where P table = filter (\<lambda>e. \<not> P e) table"

definition referenced :: "('v \<Rightarrow> 'p::linorder) \<Rightarrow> ('k, 'v) btree_map \<Rightarrow> ('p, 'q) btree_map \<Rightarrow> bool" where
  "referenced f child parent \<longleftrightarrow> list_all (\<lambda>e. has_key parent (f (snd e))) child"

definition referenced_keys :: "('k \<Rightarrow> 'p::linorder) \<Rightarrow> ('k, 'v) btree_map \<Rightarrow> ('p, 'q) btree_map \<Rightarrow> bool" where
  "referenced_keys f child parent \<longleftrightarrow> list_all (\<lambda>e. has_key parent (f (fst e))) child"

definition check_foreign_keys :: "bool \<Rightarrow> Database \<Rightarrow> StoreError + Database" where
  "check_foreign_keys ok db = (if ok then Inr db else Inl foreign_key_failed)"

definition delete_inference_outputs :: "ConnectionId \<Rightarrow> Database \<Rightarrow> Database" where
  "delete_inference_outputs c db =
     db\<lparr>db_inference_outputs := delete_where (\<lambda>e. relation_of db c (snd (fst e))) (db_inference_outputs db)\<rparr>"

definition delete_relation_versions :: "ConnectionId \<Rightarrow> Database \<Rightarrow> Database" where
  "delete_relation_versions c db =
     db\<lparr>db_relation_versions :=
       delete_where (\<lambda>e. relation_of db c (relv_relation_id (snd e))) (db_relation_versions db)\<rparr>"

definition delete_changes :: "ConnectionId \<Rightarrow> Database \<Rightarrow> Database" where
  "delete_changes c db =
     db\<lparr>db_changes := delete_where (\<lambda>e. subject_of db c (chg_subject (snd e))) (db_changes db)\<rparr>"

definition delete_bindings :: "ConnectionId \<Rightarrow> Database \<Rightarrow> Database" where
  "delete_bindings c db =
     db\<lparr>db_bindings := delete_where (\<lambda>e. binding_row_of db c (snd e)) (db_bindings db)\<rparr>"

definition delete_relations :: "ConnectionId \<Rightarrow> Database \<Rightarrow> StoreError + Database" where
  "delete_relations c db =
     (let relations = delete_where (\<lambda>e. relation_row_of db c (snd e)) (db_relations db) in
      check_foreign_keys
        (referenced relv_relation_id (db_relation_versions db) relations \<and>
         referenced_keys snd (db_inference_outputs db) relations)
        (db\<lparr>db_relations := relations\<rparr>))"

definition delete_resource_versions :: "ConnectionId \<Rightarrow> Database \<Rightarrow> Database" where
  "delete_resource_versions c db =
     db\<lparr>db_resource_versions :=
       delete_where (\<lambda>e. resource_of db c (rv_resource_id (snd e))) (db_resource_versions db)\<rparr>"

definition delete_resources :: "ConnectionId \<Rightarrow> Database \<Rightarrow> StoreError + Database" where
  "delete_resources c db =
     (let resources = delete_where (\<lambda>e. res_connection_id (snd e) = c) (db_resources db) in
      check_foreign_keys
        (referenced rv_resource_id (db_resource_versions db) resources \<and>
         referenced rel_source (db_relations db) resources \<and>
         referenced rel_target (db_relations db) resources \<and>
         referenced bind_source (db_bindings db) resources \<and>
         referenced bind_target (db_bindings db) resources)
        (db\<lparr>db_resources := resources\<rparr>))"

definition delete_connector_state :: "ConnectionId \<Rightarrow> Database \<Rightarrow> Database" where
  "delete_connector_state c db =
     db\<lparr>db_connector_state := delete_where (\<lambda>e. fst e = c) (db_connector_state db)\<rparr>"

definition delete_sync_runs :: "ConnectionId \<Rightarrow> Database \<Rightarrow> StoreError + Database" where
  "delete_sync_runs c db =
     (let runs = delete_where (\<lambda>e. run_connection_id (snd e) = c) (db_sync_runs db) in
      check_foreign_keys
        (referenced res_last_sync_run_id (db_resources db) runs \<and>
         referenced rv_sync_run_id (db_resource_versions db) runs)
        (db\<lparr>db_sync_runs := runs\<rparr>))"

text \<open>The secrets go with the connection (\<open>ON DELETE CASCADE\<close>).\<close>

definition delete_connection :: "ConnectionId \<Rightarrow> Database \<Rightarrow> StoreError + Database" where
  "delete_connection c db =
     (let connections = delete_where (\<lambda>e. fst e = c) (db_connections db) in
      res_bind (check_foreign_keys
        (referenced_keys (\<lambda>i. i) (db_connector_state db) connections \<and>
         referenced run_connection_id (db_sync_runs db) connections \<and>
         referenced res_connection_id (db_resources db) connections)
        (db\<lparr>db_connections := connections, db_secrets := delete_where (\<lambda>e. fst e = c) (db_secrets db)\<rparr>))
        (\<lambda>db'. if length (db_connections db) - length connections \<noteq> 1
               then Inl (Contract ''connection disappeared during purge'')
               else Inr db'))"

definition purge_connection ::
    "int \<Rightarrow> ConnectionId \<Rightarrow> Database \<Rightarrow> StoreError + ConnectionPurgeSummary \<times> Database" where
  "purge_connection now c db =
     res_bind (ok_or (Contract ''connection does not exist for purge'') (connection_purge_summary db c))
       (\<lambda>summary.
     res_bind (delete_relations c (delete_bindings c (delete_changes c
         (delete_relation_versions c (delete_inference_outputs c db))))) (\<lambda>db.
     res_bind (delete_resources c (delete_resource_versions c db)) (\<lambda>db.
     res_bind (delete_sync_runs c (delete_connector_state c db)) (\<lambda>db.
     res_bind (delete_connection c db) (\<lambda>db.
     res_bind (bump_projection_metadata now db) (\<lambda>db. Inr (summary, db)))))))"

section \<open>Deletion and references\<close>

lemma get_delete_where:
  "bt_wf m \<Longrightarrow> bt_get (delete_where P m) k =
     (case bt_get m k of None \<Rightarrow> None | Some v \<Rightarrow> if P (k, v) then None else Some v)"
  by (auto simp: delete_where_def bt_get_filter split: option.splits)

lemma wf_delete_where: "bt_wf m \<Longrightarrow> bt_wf (delete_where P m)"
  by (simp add: delete_where_def bt_wf_filter)

lemma length_delete_where: "length m = length (delete_where P m) + length (filter P m)"
  unfolding delete_where_def using sum_length_filter_compl[of P m] by simp

lemma table_ok_delete: "table_ok key m \<Longrightarrow> table_ok key (delete_where P m)"
  by (auto simp: table_ok_def wf_delete_where get_delete_where split: option.splits if_splits)

lemma unique_by_delete: "bt_wf m \<Longrightarrow> unique_by f m \<Longrightarrow> unique_by f (delete_where P m)"
  by (auto simp: unique_by_def get_delete_where split: option.splits if_splits)

lemma refs_delete:
  assumes "refs f child parent" and "bt_wf child" and "bt_wf parent"
    and "\<And>k v p. bt_get child k = Some v \<Longrightarrow> \<not> P (k, v) \<Longrightarrow> bt_get parent (f v) = Some p \<Longrightarrow> \<not> Q (f v, p)"
  shows "refs f (delete_where P child) (delete_where Q parent)"
  using assms(1,2,3) assms(4)
  by (fastforce simp: refs_def has_key_def get_delete_where split: option.splits if_splits)

lemma refs_delete_child:
  "refs f child parent \<Longrightarrow> bt_wf child \<Longrightarrow> refs f (delete_where P child) parent"
  by (auto simp: refs_def get_delete_where split: option.splits if_splits)

lemma key_refs_delete:
  assumes "key_refs f child parent" and "bt_wf child" and "bt_wf parent"
    and "\<And>k v p. bt_get child k = Some v \<Longrightarrow> \<not> P (k, v) \<Longrightarrow> bt_get parent (f k) = Some p \<Longrightarrow> \<not> Q (f k, p)"
  shows "key_refs f (delete_where P child) (delete_where Q parent)"
  using assms(1,2,3) assms(4)
  by (fastforce simp: key_refs_def has_key_def get_delete_where split: option.splits if_splits)

lemma key_refs_delete_child:
  "key_refs f child parent \<Longrightarrow> bt_wf child \<Longrightarrow> key_refs f (delete_where P child) parent"
  by (auto simp: key_refs_def has_key_def get_delete_where split: option.splits if_splits)

lemma referenced_iff: "bt_wf child \<Longrightarrow> referenced f child parent \<longleftrightarrow> refs f child parent"
  by (force simp: referenced_def refs_def list_all_iff bt_mem_iff[symmetric])

lemma referenced_keys_iff: "bt_wf child \<Longrightarrow> referenced_keys f child parent \<longleftrightarrow> key_refs f child parent"
  by (force simp: referenced_keys_def key_refs_def list_all_iff has_key_def bt_mem_iff[symmetric])

section \<open>Provenance\<close>

text \<open>
  A resource and its versions were written by runs of the connection that owns the resource. The
  foreign keys do not say so; the commits of the sync engine keep it.
\<close>

definition provenance_ok :: "Database \<Rightarrow> bool" where
  "provenance_ok db \<longleftrightarrow>
     (\<forall>k r run. bt_get (db_resources db) k = Some r \<longrightarrow>
        bt_get (db_sync_runs db) (res_last_sync_run_id r) = Some run \<longrightarrow>
        run_connection_id run = res_connection_id r) \<and>
     (\<forall>k v r run. bt_get (db_resource_versions db) k = Some v \<longrightarrow>
        bt_get (db_resources db) (rv_resource_id v) = Some r \<longrightarrow>
        bt_get (db_sync_runs db) (rv_sync_run_id v) = Some run \<longrightarrow>
        run_connection_id run = res_connection_id r)"

section \<open>The purge as one step\<close>

definition purged :: "int \<Rightarrow> ConnectionId \<Rightarrow> Database \<Rightarrow> Database" where
  "purged now c db =
     db\<lparr>db_connections := delete_where (\<lambda>e. fst e = c) (db_connections db),
        db_connector_state := delete_where (\<lambda>e. fst e = c) (db_connector_state db),
        db_sync_runs := delete_where (\<lambda>e. run_connection_id (snd e) = c) (db_sync_runs db),
        db_resources := delete_where (\<lambda>e. res_connection_id (snd e) = c) (db_resources db),
        db_resource_versions :=
          delete_where (\<lambda>e. resource_of db c (rv_resource_id (snd e))) (db_resource_versions db),
        db_relations := delete_where (\<lambda>e. relation_row_of db c (snd e)) (db_relations db),
        db_relation_versions :=
          delete_where (\<lambda>e. relation_of db c (relv_relation_id (snd e))) (db_relation_versions db),
        db_bindings := delete_where (\<lambda>e. binding_row_of db c (snd e)) (db_bindings db),
        db_changes := delete_where (\<lambda>e. subject_of db c (chg_subject (snd e))) (db_changes db),
        db_inference_outputs :=
          delete_where (\<lambda>e. relation_of db c (snd (fst e))) (db_inference_outputs db),
        db_secrets := delete_where (\<lambda>e. fst e = c) (db_secrets db),
        db_projection := map_option (\<lambda>p.
          \<lparr>pm_committed_revision = pm_committed_revision p + 1, pm_committed_at = now\<rparr>) (db_projection db)\<rparr>"

lemma purged_foreign_keys:
  assumes "db_ok db" and "provenance_ok db"
  shows "foreign_keys_ok (purged now c db)"
proof -
  note ok = assms(1)[unfolded db_ok_defs]
  have wf: "bt_wf (db_connections db)" "bt_wf (db_connector_state db)" "bt_wf (db_sync_runs db)"
    "bt_wf (db_resources db)" "bt_wf (db_resource_versions db)" "bt_wf (db_relations db)"
    "bt_wf (db_relation_versions db)" "bt_wf (db_bindings db)" "bt_wf (db_inference_outputs db)"
    "bt_wf (db_secrets db)" using ok by (auto simp: table_ok_def)
  have runs: "run_connection_id run \<noteq> c"
    if "bt_get (db_resources db) k = Some r" "res_connection_id r \<noteq> c"
      "bt_get (db_sync_runs db) (res_last_sync_run_id r) = Some run" for k r run
    using assms(2) that by (auto simp: provenance_ok_def)
  have version_runs: "run_connection_id run \<noteq> c"
    if "bt_get (db_resource_versions db) k = Some v" "\<not> resource_of db c (rv_resource_id v)"
      "bt_get (db_sync_runs db) (rv_sync_run_id v) = Some run" for k v run
  proof -
    from ok that(1) obtain r where r: "bt_get (db_resources db) (rv_resource_id v) = Some r"
      by (fastforce simp: refs_def has_key_def)
    with that(2) have "res_connection_id r \<noteq> c" by (simp add: resource_of_def)
    with assms(2) that r show ?thesis by (auto simp: provenance_ok_def)
  qed
  have state: "key_refs (\<lambda>i. i) (db_connector_state (purged now c db)) (db_connections (purged now c db))"
    "key_refs (\<lambda>i. i) (db_secrets (purged now c db)) (db_connections (purged now c db))"
    "refs run_connection_id (db_sync_runs (purged now c db)) (db_connections (purged now c db))"
    "refs res_connection_id (db_resources (purged now c db)) (db_connections (purged now c db))"
    using ok wf by (auto simp: purged_def intro!: refs_delete key_refs_delete)
  moreover have "refs res_last_sync_run_id (db_resources (purged now c db)) (db_sync_runs (purged now c db))"
    "refs rv_sync_run_id (db_resource_versions (purged now c db)) (db_sync_runs (purged now c db))"
    using ok wf by (auto simp: purged_def intro!: refs_delete dest: runs version_runs)
  moreover have "refs rv_resource_id (db_resource_versions (purged now c db)) (db_resources (purged now c db))"
    "refs rel_source (db_relations (purged now c db)) (db_resources (purged now c db))"
    "refs rel_target (db_relations (purged now c db)) (db_resources (purged now c db))"
    "refs bind_source (db_bindings (purged now c db)) (db_resources (purged now c db))"
    "refs bind_target (db_bindings (purged now c db)) (db_resources (purged now c db))"
    using ok wf by (auto simp: purged_def relation_row_of_def binding_row_of_def resource_of_def
        intro!: refs_delete)
  moreover have "refs relv_relation_id (db_relation_versions (purged now c db)) (db_relations (purged now c db))"
    "key_refs snd (db_inference_outputs (purged now c db)) (db_relations (purged now c db))"
    using ok wf by (auto simp: purged_def relation_of_def intro!: refs_delete key_refs_delete)
  moreover have "key_refs fst (db_inference_outputs (purged now c db)) (db_inference_runs (purged now c db))"
    using ok key_refs_delete_child[OF _ wf(9)] by (auto simp: purged_def)
  ultimately show ?thesis unfolding foreign_keys_ok_def by blast
qed

lemma purged_ok:
  assumes "db_ok db" and "provenance_ok db"
  shows "db_ok (purged now c db)"
proof -
  have "tables_ok (purged now c db)" "unique_ok (purged now c db)" "db_projection (purged now c db) \<noteq> None"
    using assms(1) by (auto simp: db_ok_defs purged_def table_ok_delete wf_delete_where unique_by_delete
        dest: table_ok_wf)
  with purged_foreign_keys[OF assms] show ?thesis by (simp add: db_ok_def)
qed

lemma purged_provenance:
  assumes "db_ok db" and "provenance_ok db"
  shows "provenance_ok (purged now c db)"
proof -
  have "bt_wf (db_sync_runs db)" "bt_wf (db_resources db)" "bt_wf (db_resource_versions db)"
    using assms(1) by (auto simp: db_ok_defs table_ok_def)
  with assms(2) show ?thesis
    unfolding provenance_ok_def purged_def
    by (simp add: get_delete_where split: option.splits if_splits)
qed

lemma distinct_singleton: "set xs = {a} \<Longrightarrow> distinct xs \<Longrightarrow> xs = [a]"
  by (cases xs; cases "tl xs") auto

lemma delete_connection_once:
  assumes "bt_wf m" and "has_key m c"
  shows "length m - length (delete_where (\<lambda>e. fst e = c) m) = 1"
proof -
  obtain v where v: "bt_get m c = Some v" using assms(2) by (auto simp: has_key_def)
  have "filter (\<lambda>e. fst e = c) m = [(c, v)]"
  proof -
    have "set (filter (\<lambda>e. fst e = c) m) = {(c, v)}"
      using assms(1) v by (auto simp: bt_mem_iff)
    moreover have "distinct (filter (\<lambda>e. fst e = c) m)"
      using bt_wf_distinct[OF assms(1)] by (simp add: distinct_map)
    ultimately show ?thesis by (rule distinct_singleton)
  qed
  then show ?thesis using length_delete_where[of m "\<lambda>e. fst e = c"] by simp
qed

lemma of_cong:
  "resource_of (db_relations_update f db) c i = resource_of db c i"
  "resource_of (db_relation_versions_update f1 db) c i = resource_of db c i"
  "resource_of (db_bindings_update f2 db) c i = resource_of db c i"
  "resource_of (db_changes_update f3 db) c i = resource_of db c i"
  "resource_of (db_inference_outputs_update f4 db) c i = resource_of db c i"
  "relation_row_of (db_relation_versions_update f1 db) c r = relation_row_of db c r"
  "relation_row_of (db_bindings_update f2 db) c r = relation_row_of db c r"
  "relation_row_of (db_changes_update f3 db) c r = relation_row_of db c r"
  "relation_row_of (db_inference_outputs_update f4 db) c r = relation_row_of db c r"
  "relation_of (db_relation_versions_update f1 db) c i = relation_of db c i"
  "relation_of (db_inference_outputs_update f4 db) c i = relation_of db c i"
  "binding_row_of (db_changes_update f3 db) c b = binding_row_of db c b"
  "binding_row_of (db_relation_versions_update f1 db) c b = binding_row_of db c b"
  "binding_row_of (db_inference_outputs_update f4 db) c b = binding_row_of db c b"
  by (simp_all add: resource_of_def relation_row_of_def relation_of_def binding_row_of_def
      split: option.splits)

lemma subject_of_cong:
  "subject_of (db_relation_versions_update f1 db) c s = subject_of db c s"
  "subject_of (db_inference_outputs_update f4 db) c s = subject_of db c s"
  by (cases s; simp add: of_cong binding_of_def split: option.splits)+

lemma purge_steps:
  assumes "db_ok db" and "provenance_ok db" and "has_key (db_connections db) c"
  shows "\<exists>s. connection_purge_summary db c = Some s \<and>
    purge_connection now c db = Inr (s, purged now c db)"
proof -
  obtain s where s: "connection_purge_summary db c = Some s"
    using assms(3) by (simp add: connection_purge_summary_def)
  obtain p where p: "db_projection db = Some p" using assms(1) by (auto simp: db_ok_def)
  note fk = purged_foreign_keys[OF assms(1,2), of now c, unfolded foreign_keys_ok_def purged_def, simplified]
  note wf = purged_ok[OF assms(1,2), of now c, unfolded db_ok_def tables_ok_def purged_def table_ok_def, simplified]
  have conn: "bt_wf (db_connections db)" using assms(1) by (auto simp: db_ok_defs table_ok_def)
  have rels: "delete_relations c (delete_bindings c (delete_changes c
      (delete_relation_versions c (delete_inference_outputs c db)))) =
    Inr (db\<lparr>db_relations := delete_where (\<lambda>e. relation_row_of db c (snd e)) (db_relations db),
        db_relation_versions :=
          delete_where (\<lambda>e. relation_of db c (relv_relation_id (snd e))) (db_relation_versions db),
        db_bindings := delete_where (\<lambda>e. binding_row_of db c (snd e)) (db_bindings db),
        db_changes := delete_where (\<lambda>e. subject_of db c (chg_subject (snd e))) (db_changes db),
        db_inference_outputs :=
          delete_where (\<lambda>e. relation_of db c (snd (fst e))) (db_inference_outputs db)\<rparr>)"
    using fk wf
    by (simp add: delete_relations_def delete_bindings_def delete_changes_def
        delete_relation_versions_def delete_inference_outputs_def check_foreign_keys_def
        referenced_iff referenced_keys_iff Let_def of_cong subject_of_cong)
  show ?thesis
    unfolding purge_connection_def s ok_or_Some res_bind_Inr rels
    using fk wf p delete_connection_once[OF conn assms(3)]
    by (simp add: delete_resources_def delete_resource_versions_def delete_sync_runs_def
        delete_connector_state_def delete_connection_def check_foreign_keys_def referenced_iff
        referenced_keys_iff Let_def of_cong subject_of_cong bump_projection_metadata_def purged_def)
qed

lemma purge_count_delete:
  assumes "Q = (\<lambda>e. P (snd e))"
  shows "length (delete_where Q m) + purge_count P m = length m"
  unfolding purge_count_def assms using length_delete_where[of m "\<lambda>e. P (snd e)"] by simp

section \<open>Properties\<close>


text \<open>A small intact store: one connection with a secret, its run, a resource and its version.\<close>

definition sample_connection :: Connection where
  "sample_connection =
     \<lparr>conn_id = ''c1'', conn_type = ''github'', conn_display_name = ''Hub'', conn_enabled = True,
      conn_config = JNull, conn_secret_ref = None, conn_health = ConnectorHealthy,
      conn_last_success_at = None, conn_last_attempt_at = None, conn_config_schema_version = 1,
      conn_deleted_at = None\<rparr>"

definition sample_run :: SyncRun where
  "sample_run =
     \<lparr>run_id = ''s1'', run_connection_id = ''c1'', run_mode = Full, run_trigger = User,
      run_started_at = 1, run_finished_at = Some 2, run_status = RunSucceeded,
      run_coverage = AuthoritativeFull ''a'', run_cursor_before = None, run_cursor_after = None,
      run_counts = counts_default, run_errors = [], run_warnings = []\<rparr>"

definition sample_resource :: Resource where
  "sample_resource =
     \<lparr>res_id = ''r1'', res_connection_id = ''c1'', res_kind = ''gh.repo'', res_external_id = ''1'',
      res_name = ''n'', res_display_name = ''N'', res_scope = ''a'', res_labels = [],
      res_lifecycle = Active, res_health = Healthy, res_attributes = JNull,
      res_attribute_schema_version = 1, res_fingerprint = ''f'', res_first_seen_at = 2,
      res_last_seen_at = 2, res_last_changed_at = 2, res_last_sync_run_id = ''s1''\<rparr>"

definition sample_version :: ResourceVersion where
  "sample_version =
     \<lparr>rv_id = ''v1'', rv_resource_id = ''r1'', rv_observed_at = 2, rv_sync_run_id = ''s1'',
      rv_snapshot = JNull, rv_fingerprint = ''f'', rv_schema_version = 1, rv_change_summary = []\<rparr>"

definition sample_store :: Database where
  "sample_store = (empty_database 0)\<lparr>db_connections := [(''c1'', sample_connection)],
     db_sync_runs := [(''s1'', sample_run)], db_resources := [(''r1'', sample_resource)],
     db_resource_versions := [(''v1'', sample_version)], db_secrets := [(''c1'', ''token'')]\<rparr>"

lemma sample_store_ok: "db_ok sample_store"
  by (auto simp: db_ok_defs sample_store_def empty_database_def table_ok_def refs_def key_refs_def
      unique_by_def has_key_def bt_wf_def sample_connection_def sample_run_def sample_resource_def
      sample_version_def)

lemma sample_store_provenance: "provenance_ok sample_store"
  by (auto simp: provenance_ok_def sample_store_def empty_database_def sample_run_def
      sample_resource_def sample_version_def)


end
