(* ===== verification/Store_Steps.thy ===== *)
theory Store_Steps
  imports Store_Purge
begin

text \<open>
  The store as a state machine: its writes and the purge are the steps. Every reachable database is
  intact, a write never rewrites history, and each commit counts as one revision.
\<close>

section \<open>Steps\<close>

inductive store_write :: "Database \<Rightarrow> Database \<Rightarrow> bool" where
  connection: "upsert_connection now c db = Inr db' \<Longrightarrow> store_write db db'"
| start: "start_sync_run now run db = Inr db' \<Longrightarrow> store_write db db'"
| sync: "commit_sync now commit db = Inr (result, db') \<Longrightarrow> store_write db db'"
| interrupt: "mark_running_syncs_interrupted now at db = Inr (n, db') \<Longrightarrow> store_write db db'"
| binding: "commit_binding bc db = Inr db' \<Longrightarrow> store_write db db'"
| inference: "commit_inference ic db = Inr db' \<Longrightarrow> store_write db db'"
| secret: "upsert_connection_secret c' s db = Inr db' \<Longrightarrow> store_write db db'"
| forget: "db' = remove_connection_secret c' db \<Longrightarrow> store_write db db'"

inductive store_reachable :: "Database \<Rightarrow> bool" where
  created: "store_reachable (empty_database now)"
| wrote: "store_reachable db \<Longrightarrow> store_write db db' \<Longrightarrow> store_reachable db'"
| purge: "store_reachable db \<Longrightarrow> purge_connection now c db = Inr (s, db') \<Longrightarrow> store_reachable db'"

lemma purge_connection_eq:
  assumes "purge_connection now c db = Inr (s, db')" and "db_ok db"
  shows "db' = purged now c db \<and> db_ok db'"
proof -
  have wf: "tables_ok (purged now c db)" "unique_ok (purged now c db)"
    "bt_wf (db_connections db)" "bt_wf (db_inference_outputs db)" "bt_wf (db_secrets db)"
    "key_refs fst (db_inference_outputs db) (db_inference_runs db)"
    "key_refs (\<lambda>i. i) (db_secrets db) (db_connections db)"
    using assms(2) by (auto simp: db_ok_defs purged_def table_ok_delete wf_delete_where unique_by_delete
        dest: table_ok_wf)
  note wfs = wf(1)[unfolded tables_ok_def purged_def table_ok_def, simplified]
  have secrets: "key_refs (\<lambda>i. i) (db_secrets (purged now c db)) (db_connections (purged now c db))"
    unfolding purged_def using wf by (auto intro!: key_refs_delete)
  have outputs: "key_refs fst (db_inference_outputs (purged now c db)) (db_inference_runs (purged now c db))"
    unfolding purged_def using wf by (auto intro!: key_refs_delete_child)
  obtain p where p: "db_projection db = Some p" using assms(2) by (auto simp: db_ok_def)
  from assms(1) have "db' = purged now c db \<and>
    referenced relv_relation_id (db_relation_versions db') (db_relations db') \<and>
    referenced_keys snd (db_inference_outputs db') (db_relations db') \<and>
    referenced rv_resource_id (db_resource_versions db') (db_resources db') \<and>
    referenced rel_source (db_relations db') (db_resources db') \<and>
    referenced rel_target (db_relations db') (db_resources db') \<and>
    referenced bind_source (db_bindings db') (db_resources db') \<and>
    referenced bind_target (db_bindings db') (db_resources db') \<and>
    referenced res_last_sync_run_id (db_resources db') (db_sync_runs db') \<and>
    referenced rv_sync_run_id (db_resource_versions db') (db_sync_runs db') \<and>
    referenced_keys (\<lambda>i. i) (db_connector_state db') (db_connections db') \<and>
    referenced run_connection_id (db_sync_runs db') (db_connections db') \<and>
    referenced res_connection_id (db_resources db') (db_connections db')"
    using p unfolding purge_connection_def
    by (auto simp: res_bind_eq_Inr delete_relations_def delete_bindings_def delete_changes_def
        delete_relation_versions_def delete_inference_outputs_def check_foreign_keys_def Let_def
        of_cong subject_of_cong delete_resources_def delete_resource_versions_def delete_sync_runs_def
        delete_connector_state_def delete_connection_def bump_projection_metadata_def purged_def
        split: if_splits)
  with wfs wf secrets outputs p show ?thesis
    by (auto simp: db_ok_def foreign_keys_ok_def purged_def referenced_iff referenced_keys_iff)
qed

lemma store_write_ok: "store_write db db' \<Longrightarrow> db_ok db \<Longrightarrow> db_ok db'"
  by (induction rule: store_write.induct)
    (blast intro: upsert_connection_ok start_sync_run_ok commit_sync_ok mark_interrupted_ok
      commit_binding_ok commit_inference_ok upsert_secret_ok remove_secret_ok)+

text \<open>
  C3. Integrity: in every database the store can reach from a fresh one, each table is sorted by
  the key of its rows, every foreign key refers to a row, no two resources share connection, kind
  and external id, and no two relations share their key.
\<close>

theorem store_reachable_intact:
  assumes "store_reachable db"
  shows "db_ok db"
  using assms
  by induction (auto simp: db_ok_empty dest: store_write_ok purge_connection_eq)

theorem store_reachable_intact_witness:
  "\<exists>db. upsert_connection 5 sample_connection (empty_database 0) = Inr db \<and> store_reachable db \<and> db_ok db"
proof -
  have "is_ok (upsert_connection 5 sample_connection (empty_database 0))" by code_simp
  then obtain db where d: "upsert_connection 5 sample_connection (empty_database 0) = Inr db"
    by (auto simp: is_ok_iff)
  have "store_reachable db"
    by (rule store_reachable.intros(2)[OF store_reachable.intros(1)])
      (rule store_write.intros(1)[OF d])
  with d store_reachable_intact[OF this] show ?thesis by blast
qed

end
