(* ===== verification/Store_History.thy ===== *)
theory Store_History
  imports Store_Steps
begin

text \<open>
  What a write leaves alone and what a sync commit does: history is append only, identities and
  first sightings are stable, the committed revision counts the commits, the run, the resources, the
  cursor and the missing evidence are those of the commit, and an interruption touches running runs
  only.
\<close>

section \<open>History\<close>

definition kept :: "('v \<Rightarrow> 'a) \<Rightarrow> ('k::linorder, 'v) btree_map \<Rightarrow> ('k, 'v) btree_map \<Rightarrow> bool" where
  "kept f m n \<longleftrightarrow> (\<forall>k v. bt_get m k = Some v \<longrightarrow> (\<exists>w. bt_get n k = Some w \<and> f w = f v))"

definition history_kept :: "Database \<Rightarrow> Database \<Rightarrow> bool" where
  "history_kept db db' \<longleftrightarrow>
     kept (\<lambda>v. v) (db_resource_versions db) (db_resource_versions db') \<and>
     kept (\<lambda>v. v) (db_relation_versions db) (db_relation_versions db') \<and>
     kept (\<lambda>v. v) (db_changes db) (db_changes db') \<and>
     kept (\<lambda>v. v) (db_inference_runs db) (db_inference_runs db') \<and>
     kept (\<lambda>r. (resource_identity r, res_first_seen_at r)) (db_resources db) (db_resources db') \<and>
     kept (\<lambda>r. (relation_key r, rel_first_seen_at r)) (db_relations db) (db_relations db') \<and>
     kept bind_created_at (db_bindings db) (db_bindings db') \<and>
     kept (\<lambda>r. (run_connection_id r, run_mode r, run_trigger r, run_started_at r, run_cursor_before r))
       (db_sync_runs db) (db_sync_runs db')"

lemma kept_refl [simp]: "kept f m m"
  by (simp add: kept_def)

lemma kept_trans: "kept f m n \<Longrightarrow> kept f n l \<Longrightarrow> kept f m l"
  unfolding kept_def by metis

lemma kept_insert:
  "kept f m n \<Longrightarrow> (case bt_get n k of None \<Rightarrow> True | Some u \<Rightarrow> f v = f u) \<Longrightarrow> kept f m (bt_insert k v n)"
  unfolding kept_def bt_get_insert by (fastforce split: option.splits)

lemma kept_map: "(\<And>v. f (g v) = f v) \<Longrightarrow> kept f m (map (\<lambda>(k, v). (k, g v)) m)"
  by (simp add: kept_def bt_get_map)

lemma history_refl [simp]: "history_kept db db"
  by (simp add: history_kept_def)

lemma history_trans: "history_kept a b \<Longrightarrow> history_kept b c \<Longrightarrow> history_kept a c"
  unfolding history_kept_def by (auto intro: kept_trans)

named_theorems history_intro "each statement keeps the history"

lemma upsert_resource_history [history_intro]:
  assumes "history_kept db u" and "upsert_resource r u = Inr v"
  shows "history_kept db v"
  using assms
  by (auto simp: upsert_resource_def history_kept_def has_key_def resource_identity_def
      split: option.splits if_splits intro!: kept_insert)

lemma upsert_relation_history [history_intro]:
  assumes "history_kept db u" and "upsert_relation r u = Inr v"
  shows "history_kept db v"
  using assms
  by (auto simp: upsert_relation_def history_kept_def has_key_def relation_key_def
      split: option.splits if_splits intro!: kept_insert)

lemma insert_resource_version_history [history_intro]:
  "history_kept db u \<Longrightarrow> insert_resource_version r u = Inr (n, v) \<Longrightarrow> history_kept db v"
  by (auto simp: insert_resource_version_def history_kept_def has_key_def split: if_splits intro!: kept_insert)

lemma insert_relation_version_history [history_intro]:
  "history_kept db u \<Longrightarrow> insert_relation_version r u = Inr (n, v) \<Longrightarrow> history_kept db v"
  by (auto simp: insert_relation_version_def history_kept_def has_key_def split: if_splits intro!: kept_insert)

lemma insert_change_history [history_intro]:
  "history_kept db u \<Longrightarrow> insert_change r u = Inr (n, v) \<Longrightarrow> history_kept db v"
  by (auto simp: insert_change_def history_kept_def has_key_def split: if_splits intro!: kept_insert)

lemma complete_sync_run_history [history_intro]:
  "history_kept db u \<Longrightarrow> complete_sync_run r u = Inr v \<Longrightarrow> history_kept db v"
  by (auto simp: complete_sync_run_def history_kept_def has_key_def split: option.splits if_splits
      intro!: kept_insert)

lemma insert_sync_run_history [history_intro]:
  "history_kept db u \<Longrightarrow> insert_sync_run r u = Inr v \<Longrightarrow> history_kept db v"
  by (auto simp: insert_sync_run_def history_kept_def has_key_def split: if_splits intro!: kept_insert)

lemma upsert_binding_history [history_intro]:
  "history_kept db u \<Longrightarrow> upsert_binding r u = Inr v \<Longrightarrow> history_kept db v"
  by (auto simp: upsert_binding_def history_kept_def has_key_def split: option.splits if_splits
      intro!: kept_insert)

lemma insert_inference_run_history [history_intro]:
  "history_kept db u \<Longrightarrow> insert_inference_run r u = Inr v \<Longrightarrow> history_kept db v"
  by (auto simp: insert_inference_run_def history_kept_def has_key_def split: if_splits intro!: kept_insert)

lemma other_history [history_intro]:
  "history_kept db u \<Longrightarrow> insert_inference_output c i u = Inr v \<Longrightarrow> history_kept db v"
  "history_kept db u \<Longrightarrow> write_connector_state commit u = Inr v \<Longrightarrow> history_kept db v"
  "history_kept db u \<Longrightarrow> bump_projection_metadata now u = Inr v \<Longrightarrow> history_kept db v"
  "history_kept db u \<Longrightarrow> history_kept db (set_projection_metadata at u)"
  by (auto simp: insert_inference_output_def write_connector_state_def set_projection_metadata_def
      bump_projection_metadata_def history_kept_def Let_def split: if_splits option.splits)

lemma mark_interrupted_history:
  assumes "mark_running_syncs_interrupted now at db = Inr (n, db')"
  shows "history_kept db db'"
proof -
  from mark_interrupted_eq[OF assms] obtain p where
    db': "db' = db\<lparr>db_sync_runs := map (\<lambda>(i, run). (i, interrupt_run at run)) (db_sync_runs db),
         db_projection := p\<rparr>" by auto
  show ?thesis unfolding db' history_kept_def by (simp add: kept_map interrupt_run_def)
qed

text \<open>
  C11. A write never rewrites history: every stored version, change and inference run is still stored
  with the same content, and resources, relations, bindings and runs keep their identity and the
  time they were first seen, created or started.
\<close>

theorem store_write_appends:
  assumes "store_write db db'"
  shows "history_kept db db'"
  using assms
proof cases
  case (connection now c)
  then show ?thesis
    by (auto simp: upsert_connection_def history_kept_def res_simps)
next
  case (start now run)
  then show ?thesis
    by (auto simp: start_sync_run_def res_bind_eq_Inr split: if_splits
        intro: history_intro dest: insert_sync_run_history[OF history_refl])
next
  case (sync now commit result)
  then show ?thesis by (rule commit_sync_invariant) (auto intro: history_intro)
next
  case (interrupt now at n)
  then show ?thesis by (rule mark_interrupted_history)
next
  case (binding bc)
  then show ?thesis by (rule commit_binding_invariant) (auto intro: history_intro)
next
  case (inference ic)
  then show ?thesis by (rule commit_inference_invariant) (auto intro: history_intro)
next
  case (secret c' s)
  then show ?thesis by (auto simp: upsert_connection_secret_def history_kept_def has_key_def split: if_splits)
next
  case (forget c')
  then show ?thesis by (simp add: remove_connection_secret_def history_kept_def)
qed

theorem store_write_appends_witness:
  "\<exists>db'. store_write sample_store db' \<and>
     bt_get (db_resource_versions db') ''v1'' = Some sample_version"
proof -
  obtain db' where "upsert_connection 5 sample_connection sample_store = Inr db'"
    by (simp add: upsert_connection_def bump_projection_metadata_def sample_store_def empty_database_def)
  then have w: "store_write sample_store db'" by (rule store_write.connection)
  have "bt_get (db_resource_versions sample_store) ''v1'' = Some sample_version"
    by (simp add: sample_store_def)
  with store_write_appends[OF w] w show ?thesis unfolding history_kept_def kept_def by fastforce
qed

section \<open>Frames\<close>

lemma write_all_frame:
  assumes "write_all f rs u = Inr (n, v)" and "\<And>r a m b. f r a = Inr (m, b) \<Longrightarrow> g b = g a"
  shows "g v = g u"
  by (rule write_all_invariant[OF assms(1), where P = "\<lambda>d. g d = g u"]) (auto dest: assms(2))

lemma write_all_trace:
  assumes "write_all f rs u = Inr (n, v)" and "r \<in> set rs"
    and "\<And>a m b. f r a = Inr (m, b) \<Longrightarrow> Q b"
    and "\<And>s a m b. f s a = Inr (m, b) \<Longrightarrow> Q a \<Longrightarrow> Q b"
  shows "Q v"
  using assms(1,2)
proof (induction rs arbitrary: u n)
  case Nil
  then show ?case by simp
next
  case (Cons s rs)
  from Cons.prems(1) obtain m k a where a: "f s u = Inr (m, a)" "write_all f rs a = Inr (k, v)"
    by (auto simp: res_simps)
  show ?case
  proof (cases "r \<in> set rs")
    case True
    with Cons.IH[OF a(2)] show ?thesis by simp
  next
    case False
    with Cons.prems(2) a(1) assms(3) have "Q a" by auto
    then show ?thesis by (rule write_all_invariant[OF a(2)]) (rule assms(4))
  qed
qed

text \<open>The tables a loop of statements does not write.\<close>

lemma upsert_resources_frame:
  assumes "res_fold upsert_resource rs u = Inr v"
  shows "v = u\<lparr>db_resources := db_resources v\<rparr>"
proof -
  have "\<exists>x. v = u\<lparr>db_resources := x\<rparr>"
    by (rule res_fold_invariant[OF assms], rule exI[of _ "db_resources u"])
      (auto simp: upsert_resource_def split: option.splits if_splits)
  then show ?thesis by auto
qed

lemma upsert_relations_frame:
  assumes "res_fold upsert_relation rs u = Inr v"
  shows "v = u\<lparr>db_relations := db_relations v\<rparr>"
proof -
  have "\<exists>x. v = u\<lparr>db_relations := x\<rparr>"
    by (rule res_fold_invariant[OF assms], rule exI[of _ "db_relations u"])
      (auto simp: upsert_relation_def split: option.splits if_splits)
  then show ?thesis by auto
qed

lemma insert_resource_versions_frame:
  assumes "write_all insert_resource_version rs u = Inr (n, v)"
  shows "v = u\<lparr>db_resource_versions := db_resource_versions v\<rparr>"
proof -
  have "\<exists>x. v = u\<lparr>db_resource_versions := x\<rparr>"
    by (rule write_all_invariant[OF assms], rule exI[of _ "db_resource_versions u"])
      (auto simp: insert_resource_version_def split: option.splits if_splits)
  then show ?thesis by auto
qed

lemma insert_relation_versions_frame:
  assumes "write_all insert_relation_version rs u = Inr (n, v)"
  shows "v = u\<lparr>db_relation_versions := db_relation_versions v\<rparr>"
proof -
  have "\<exists>x. v = u\<lparr>db_relation_versions := x\<rparr>"
    by (rule write_all_invariant[OF assms], rule exI[of _ "db_relation_versions u"])
      (auto simp: insert_relation_version_def split: option.splits if_splits)
  then show ?thesis by auto
qed

lemma insert_changes_frame:
  assumes "write_all insert_change rs u = Inr (n, v)"
  shows "v = u\<lparr>db_changes := db_changes v\<rparr>"
proof -
  have "\<exists>x. v = u\<lparr>db_changes := x\<rparr>"
    by (rule write_all_invariant[OF assms], rule exI[of _ "db_changes u"])
      (auto simp: insert_change_def split: option.splits if_splits)
  then show ?thesis by auto
qed

text \<open>The rows that the loop over the resources leaves behind.\<close>

definition first_seen_kept :: "Database \<Rightarrow> Resource \<Rightarrow> Resource" where
  "first_seen_kept db r =
     (case bt_get (db_resources db) (res_id r) of None \<Rightarrow> r
      | Some row \<Rightarrow> r\<lparr>res_first_seen_at := res_first_seen_at row\<rparr>)"

lemma upsert_resource_result:
  "upsert_resource r u = Inr v \<Longrightarrow> db_resources v = bt_insert (res_id r) (first_seen_kept u r) (db_resources u)"
  by (auto simp: upsert_resource_def first_seen_kept_def split: option.splits if_splits)

lemma upsert_resources_result:
  assumes "res_fold upsert_resource rs u = Inr v" and "distinct (map res_id rs)"
  shows "bt_get (db_resources v) k =
    (case List.find (\<lambda>r. res_id r = k) rs of None \<Rightarrow> bt_get (db_resources u) k
     | Some r \<Rightarrow> Some (first_seen_kept u r))"
  using assms
proof (induction rs arbitrary: u)
  case Nil
  then show ?case by simp
next
  case (Cons r rs)
  from Cons.prems(1) obtain w where w: "upsert_resource r u = Inr w" "res_fold upsert_resource rs w = Inr v"
    by (auto simp: res_simps)
  have fresh: "res_id r' \<noteq> res_id r" if "List.find (\<lambda>r. res_id r = k) rs = Some r'" for r'
    using that Cons.prems(2) by (force simp: find_Some_iff set_conv_nth)
  have none: "List.find (\<lambda>r. res_id r = k) rs = None" if "k = res_id r"
    using Cons.prems(2) that by (auto simp: find_None_iff) (metis image_eqI)
  show ?case
    using Cons.IH[OF w(2)] Cons.prems(2) fresh none upsert_resource_result[OF w(1)]
    by (auto simp: bt_get_insert first_seen_kept_def split: option.splits)
qed

lemma upsert_resources_some:
  assumes "res_fold upsert_resource rs u = Inr v"
  shows "if k \<in> res_id ` set rs
    then \<exists>r t. r \<in> set rs \<and> res_id r = k \<and> bt_get (db_resources v) k = Some (r\<lparr>res_first_seen_at := t\<rparr>)
    else bt_get (db_resources v) k = bt_get (db_resources u) k"
  using assms
proof (induction rs arbitrary: u)
  case Nil
  then show ?case by simp
next
  case (Cons r rs)
  from Cons.prems obtain w where w: "upsert_resource r u = Inr w" "res_fold upsert_resource rs w = Inr v"
    by (auto simp: res_simps)
  have "\<exists>t. bt_get (db_resources w) (res_id r) = Some (r\<lparr>res_first_seen_at := t\<rparr>)"
    by (simp add: upsert_resource_result[OF w(1)] bt_get_insert first_seen_kept_def split: option.split)
      (metis Resource.surjective Resource.update_convs(14))
  moreover have "bt_get (db_resources w) k = bt_get (db_resources u) k" if "k \<noteq> res_id r"
    using that by (simp add: upsert_resource_result[OF w(1)] bt_get_insert)
  ultimately show ?case using Cons.IH[OF w(2)]
    by (cases "k \<in> res_id ` set rs"; cases "k = res_id r") (simp, blast, simp, blast, simp, blast, simp)
qed

lemma insert_resource_versions_present:
  assumes "write_all insert_resource_version vs u = Inr (n, w)"
  shows "\<forall>v\<in>set vs. has_key (db_resource_versions w) (rv_id v)"
proof
  fix v
  assume "v \<in> set vs"
  from assms this show "has_key (db_resource_versions w) (rv_id v)"
    by (rule write_all_trace[where Q = "\<lambda>d. has_key (db_resource_versions d) (rv_id v)"])
      (auto simp: insert_resource_version_def table_simps split: if_splits)
qed

lemma insert_relation_versions_present:
  assumes "write_all insert_relation_version vs u = Inr (n, w)"
  shows "\<forall>v\<in>set vs. has_key (db_relation_versions w) (relv_id v)"
proof
  fix v
  assume "v \<in> set vs"
  from assms this show "has_key (db_relation_versions w) (relv_id v)"
    by (rule write_all_trace[where Q = "\<lambda>d. has_key (db_relation_versions d) (relv_id v)"])
      (auto simp: insert_relation_version_def table_simps split: if_splits)
qed

lemma insert_changes_present:
  assumes "write_all insert_change vs u = Inr (n, w)"
  shows "\<forall>v\<in>set vs. has_key (db_changes w) (chg_id v)"
proof
  fix v
  assume "v \<in> set vs"
  from assms this show "has_key (db_changes w) (chg_id v)"
    by (rule write_all_trace[where Q = "\<lambda>d. has_key (db_changes d) (chg_id v)"])
      (auto simp: insert_change_def table_simps split: if_splits)
qed

section \<open>What a commit does\<close>

definition revision :: "Database \<Rightarrow> int" where
  "revision db = (case db_projection db of None \<Rightarrow> 0 | Some p \<Rightarrow> pm_committed_revision p)"

definition completed :: "SyncRun \<Rightarrow> SyncRun \<Rightarrow> SyncRun" where
  "completed row run =
     row\<lparr>run_finished_at := run_finished_at run, run_status := run_status run,
       run_coverage := run_coverage run, run_cursor_after := run_cursor_after run,
       run_counts := run_counts run, run_errors := run_errors run, run_warnings := run_warnings run\<rparr>"

text \<open>The tables that the steps of a commit leave behind.\<close>

lemma commit_sync_tables:
  assumes "commit_sync now commit db = Inr (result, db')"
  obtains row db1 db2 db3 db4 db5 db6 n1 n2 n3 where
    "bt_get (db_sync_runs db) (run_id (sc_run commit)) = Some row"
    and "run_connection_id row = run_connection_id (sc_run commit)"
    and "db_sync_runs db' = bt_insert (run_id (sc_run commit)) (completed row (sc_run commit)) (db_sync_runs db)"
    and "db_resources db1 = db_resources db"
    and "res_fold upsert_resource (sc_resources commit) db1 = Inr db2" and "db_resources db' = db_resources db2"
    and "write_all insert_resource_version (sc_resource_versions commit) db2 = Inr (n1, db3)"
    and "db_resource_versions db' = db_resource_versions db3"
    and "write_all insert_relation_version (sc_relation_versions commit) db4 = Inr (n2, db5)"
    and "db_relation_versions db' = db_relation_versions db5"
    and "write_all insert_change (sc_changes commit) db5 = Inr (n3, db6)" and "db_changes db' = db_changes db6"
    and "db_connector_state db' = bt_insert (run_connection_id (sc_run commit))
      \<lparr>cs_sync_cursor = sc_cursor_after commit,
       cs_consecutive_missing = missing_evidence_json db commit\<rparr> (db_connector_state db)"
    and "db_connections db' = db_connections db" and "db_bindings db' = db_bindings db"
    and "revision db' = revision db + 1"
proof -
  from assms obtain db1 db2 db3 db4 db5 db6 db7 n1 n2 n3 where
    c1: "complete_sync_run (sc_run commit) db = Inr db1" and
    c2: "res_fold upsert_resource (sc_resources commit) db1 = Inr db2" and
    c3: "write_all insert_resource_version (sc_resource_versions commit) db2 = Inr (n1, db3)" and
    c4: "res_fold upsert_relation (sc_relations commit) db3 = Inr db4" and
    c5: "write_all insert_relation_version (sc_relation_versions commit) db4 = Inr (n2, db5)" and
    c6: "write_all insert_change (sc_changes commit) db5 = Inr (n3, db6)" and
    c7: "write_connector_state commit db6 = Inr db7" and
    c8: "bump_projection_metadata now db7 = Inr db'"
    by (elim commit_sync_InrE) (rule that, assumption+)
  from c1 obtain row where row: "bt_get (db_sync_runs db) (run_id (sc_run commit)) = Some row"
    "run_connection_id row = run_connection_id (sc_run commit)"
    and db1: "db1 = db\<lparr>db_sync_runs := bt_insert (run_id (sc_run commit))
      (completed row (sc_run commit)) (db_sync_runs db)\<rparr>"
    by (auto simp: complete_sync_run_def completed_def split: option.splits if_splits)
  obtain x2 where db2: "db2 = db1\<lparr>db_resources := x2\<rparr>" using upsert_resources_frame[OF c2] by blast
  obtain x3 where db3: "db3 = db2\<lparr>db_resource_versions := x3\<rparr>"
    using insert_resource_versions_frame[OF c3] by blast
  obtain x4 where db4: "db4 = db3\<lparr>db_relations := x4\<rparr>" using upsert_relations_frame[OF c4] by blast
  obtain x5 where db5: "db5 = db4\<lparr>db_relation_versions := x5\<rparr>"
    using insert_relation_versions_frame[OF c5] by blast
  obtain x6 where db6: "db6 = db5\<lparr>db_changes := x6\<rparr>" using insert_changes_frame[OF c6] by blast
  note below = db6 db5 db4 db3 db2 db1
  have "missing_evidence_json db6 commit = missing_evidence_json db commit"
    by (simp add: missing_evidence_json_def below)
  with c7 have db7: "db7 = db6\<lparr>db_connector_state := bt_insert (run_connection_id (sc_run commit))
        \<lparr>cs_sync_cursor = sc_cursor_after commit,
         cs_consecutive_missing = missing_evidence_json db commit\<rparr> (db_connector_state db)\<rparr>"
    by (auto simp: write_connector_state_def Let_def below split: if_splits)
  from c8 obtain p where p: "db_projection db7 = Some p" and db': "db' = db7\<lparr>db_projection :=
      Some \<lparr>pm_committed_revision = pm_committed_revision p + 1, pm_committed_at = now\<rparr>\<rparr>"
    by (auto simp: res_simps)
  have "revision db' = revision db + 1"
    using p by (simp add: revision_def db' db7 below)
  from that[OF row _ _ c2 _ c3 _ c5 _ c6 _ _ _ _ this] show thesis
    by (simp add: db' db7 below)
qed


definition sample_commit :: SyncCommit where
  "sample_commit =
     \<lparr>sc_run = sample_run, sc_resources = [sample_resource\<lparr>res_first_seen_at := 7\<rparr>],
      sc_resource_versions = [sample_version], sc_relations = [], sc_relation_versions = [],
      sc_changes = [], sc_cursor_after = None,
      sc_missing_evidence = Some (missing_with_counts ''a'' [(''r2'', 1)])\<rparr>"


section \<open>Recovery after a crash\<close>

lemma interrupt_run_idle: "run_status run \<noteq> RunRunning \<Longrightarrow> interrupt_run at run = run"
  by (simp add: interrupt_run_def)

lemma map_interrupt_idle:
  "\<forall>run\<in>set (bt_values m). run_status run \<noteq> RunRunning \<Longrightarrow>
     map (\<lambda>(i, run). (i, interrupt_run at run)) m = m"
  by (induction m) (auto simp: bt_values_def interrupt_run_idle)

text \<open>
  Marking interrupted runs at start-up changes exactly the runs that were running: they become
  interrupted and finished at the given time, every other run and all projected data stay as they
  are, and a second call finds nothing to do and changes nothing, the revision included.
\<close>

theorem mark_interrupted_effect:
  assumes "mark_running_syncs_interrupted now at db = Inr (n, db')"
  shows "n = length (filter (\<lambda>run. run_status run = RunRunning) (bt_values (db_sync_runs db))) \<and>
    (\<forall>k. bt_get (db_sync_runs db') k = map_option (interrupt_run at) (bt_get (db_sync_runs db) k)) \<and>
    (\<forall>run\<in>set (bt_values (db_sync_runs db')). run_status run \<noteq> RunRunning) \<and>
    db' = db\<lparr>db_sync_runs := db_sync_runs db', db_projection := db_projection db'\<rparr> \<and>
    revision db' = revision db + (if n = 0 then 0 else 1) \<and>
    mark_running_syncs_interrupted now' at' db' = Inr (0, db')"
proof -
  from mark_interrupted_eq[OF assms] obtain p where
    n: "n = length (filter (\<lambda>run. run_status run = RunRunning) (bt_values (db_sync_runs db)))" and
    db': "db' = db\<lparr>db_sync_runs := map (\<lambda>(i, run). (i, interrupt_run at run)) (db_sync_runs db),
         db_projection := p\<rparr>" and
    p: "if n = 0 then p = db_projection db else \<exists>q. db_projection db = Some q \<and>
          p = Some \<lparr>pm_committed_revision = pm_committed_revision q + 1, pm_committed_at = now\<rparr>"
    by auto
  have idle: "\<forall>run\<in>set (bt_values (db_sync_runs db')). run_status run \<noteq> RunRunning"
    by (auto simp: db' bt_values_def interrupt_run_def split: if_splits)
  have rev: "revision db' = revision db + (if n = 0 then 0 else 1)"
    using p by (auto simp: revision_def db' split: if_splits)
  have none: "filter (\<lambda>run. run_status run = RunRunning) (bt_values (db_sync_runs db')) = []"
    using idle by simp
  have again: "mark_running_syncs_interrupted now' at' db' = Inr (0, db')"
    unfolding mark_running_syncs_interrupted_def Let_def none map_interrupt_idle[OF idle] by simp
  have runs: "bt_get (db_sync_runs db') k = map_option (interrupt_run at) (bt_get (db_sync_runs db) k)" for k
    by (simp add: db' bt_get_map)
  show ?thesis using n runs idle rev again by (simp add: db')
qed

theorem mark_interrupted_effect_witness:
  "\<exists>n db'. mark_running_syncs_interrupted 5 4
       (sample_store\<lparr>db_sync_runs := [(''s1'', sample_run\<lparr>run_status := RunRunning\<rparr>)]\<rparr>) = Inr (n, db') \<and>
     n = 1 \<and> revision db' = 1"
proof -
  let ?db = "sample_store\<lparr>db_sync_runs := [(''s1'', sample_run\<lparr>run_status := RunRunning\<rparr>)]\<rparr>"
  have "is_ok (mark_running_syncs_interrupted 5 4 ?db)" by code_simp
  then obtain n db' where r: "mark_running_syncs_interrupted 5 4 ?db = Inr (n, db')"
    by (auto simp: is_ok_iff)
  have "length (filter (\<lambda>run. run_status run = RunRunning) (bt_values (db_sync_runs ?db))) = 1"
    "revision ?db = 0"
    by (simp_all add: bt_values_def sample_store_def empty_database_def revision_def)
  with r mark_interrupted_effect[OF r, of 0 0] show ?thesis by auto
qed

end
