(* ===== verification/Writer_Queue.thy ===== *)
theory Writer_Queue
  imports Store_Ports Store_History
begin

text \<open>
  \<open>writer.rs\<close> of crate \<open>next-infra-sync\<close>: the queue of commits in front of the store. An operation
  that fails part of the way leaves a changed queue, so each returns its result together with the
  queue.
\<close>

section \<open>The queue\<close>

record 's WriterQueue =
  wq_store :: 's
  wq_pending :: "SyncCommit list"

definition WriterQueue_new :: "'s \<Rightarrow> 's WriterQueue" where
  "WriterQueue_new store = \<lparr>wq_store = store, wq_pending = []\<rparr>"

definition pending_len :: "'s WriterQueue \<Rightarrow> nat" where
  "pending_len q = length (wq_pending q)"

definition enqueue :: "SyncCommit \<Rightarrow> 's WriterQueue \<Rightarrow> 's WriterQueue" where
  "enqueue commit q = q\<lparr>wq_pending := wq_pending q @ [commit]\<rparr>"

fun flush_loop ::
    "('s, 'e) StoreWriter \<Rightarrow> SyncCommit list \<Rightarrow> 's \<Rightarrow> CommitResult list \<Rightarrow>
     ('e + CommitResult list) \<times> 's WriterQueue" where
  "flush_loop w [] store results = (Inr results, \<lparr>wq_store = store, wq_pending = []\<rparr>)"
| "flush_loop w (commit # pending) store results =
     (case sw_commit_sync w commit store of
        Inr (result, store') \<Rightarrow> flush_loop w pending store' (results @ [result])
      | Inl error \<Rightarrow> (Inl error, \<lparr>wq_store = store, wq_pending = commit # pending\<rparr>))"

definition flush ::
    "('s, 'e) StoreWriter \<Rightarrow> 's WriterQueue \<Rightarrow> ('e + CommitResult list) \<times> 's WriterQueue" where
  "flush w q = flush_loop w (wq_pending q) (wq_store q) []"

text \<open>\<open>pop\<close> of the results; a successful flush of a non-empty queue has one.\<close>

definition submit ::
    "('s, 'e) StoreWriter \<Rightarrow> SyncCommit \<Rightarrow> 's WriterQueue \<Rightarrow> ('e + CommitResult) \<times> 's WriterQueue" where
  "submit w commit q =
     (case flush w (enqueue commit q) of
        (Inl error, q') \<Rightarrow> (Inl error, q')
      | (Inr results, q') \<Rightarrow> (Inr (last results), q'))"

section \<open>Draining\<close>

text \<open>The commits applied one after the other, as long as the store accepts them.\<close>

fun commit_all ::
    "('s, 'e) StoreWriter \<Rightarrow> SyncCommit list \<Rightarrow> 's \<Rightarrow> 'e + CommitResult list \<times> 's" where
  "commit_all w [] s = Inr ([], s)"
| "commit_all w (c # cs) s =
     res_bind (sw_commit_sync w c s) (\<lambda>(r, s). map_ok (\<lambda>(rs, s). (r # rs, s)) (commit_all w cs s))"

lemma flush_loop_spec:
  "flush_loop w cs s rs = (result, q) \<Longrightarrow>
     \<exists>front behind rs' s'. cs = front @ behind \<and> commit_all w front s = Inr (rs', s') \<and>
       q = \<lparr>wq_store = s', wq_pending = behind\<rparr> \<and>
       (case result of
          Inr all \<Rightarrow> behind = [] \<and> all = rs @ rs'
        | Inl e \<Rightarrow> \<exists>c rest. behind = c # rest \<and> sw_commit_sync w c s' = Inl e)"
proof (induction w cs s rs arbitrary: result q rule: flush_loop.induct)
  case (1 w s rs)
  then show ?case by auto
next
  case (2 w c cs s rs)
  show ?case
  proof (cases "sw_commit_sync w c s")
    case (Inl e)
    with 2 show ?thesis by (intro exI[of _ "[]"] exI[of _ "c # cs"]) auto
  next
    case (Inr rr)
    obtain r s1 where rr: "rr = (r, s1)" by (cases rr)
    with Inr "2.prems" have "flush_loop w cs s1 (rs @ [r]) = (result, q)" by simp
    from "2.IH"[OF Inr rr[symmetric] this] obtain front behind rs' s' where
      ih: "cs = front @ behind" "commit_all w front s1 = Inr (rs', s')"
      "q = \<lparr>wq_store = s', wq_pending = behind\<rparr>"
      "case result of Inr all \<Rightarrow> behind = [] \<and> all = (rs @ [r]) @ rs'
        | Inl e \<Rightarrow> \<exists>c rest. behind = c # rest \<and> sw_commit_sync w c s' = Inl e" by blast
    have all: "commit_all w (c # front) s = Inr (r # rs', s')"
      using Inr rr ih(2) by simp
    have "case result of Inr all \<Rightarrow> behind = [] \<and> all = rs @ r # rs'
        | Inl e \<Rightarrow> \<exists>c rest. behind = c # rest \<and> sw_commit_sync w c s' = Inl e"
      using ih(4) by (cases result) auto
    with ih(1,3) all show ?thesis by (intro exI[of _ "c # front"] exI[of _ behind]) auto
  qed
qed

lemma commit_all_length: "commit_all w cs s = Inr (rs, s') \<Longrightarrow> length rs = length cs"
  by (induction cs arbitrary: s rs) (auto simp: res_simps)

section \<open>Stores whose writes keep an invariant\<close>

locale commit_store =
  fixes w :: "('s, 'e) StoreWriter" and inv :: "'s \<Rightarrow> bool"
  assumes commit_inv: "inv s \<Longrightarrow> sw_commit_sync w c s = Inr (r, s') \<Longrightarrow> inv s'"
begin

lemma commit_all_inv: "inv s \<Longrightarrow> commit_all w cs s = Inr (rs, s') \<Longrightarrow> inv s'"
  by (induction cs arbitrary: s rs) (auto simp: res_simps dest: commit_inv)

lemma flush_inv:
  assumes "inv (wq_store q)" and "flush w q = (result, q')"
  shows "inv (wq_store q')"
proof -
  from flush_loop_spec[OF assms(2)[unfolded flush_def]] obtain front rs' s' where
    "commit_all w front (wq_store q) = Inr (rs', s')" "wq_store q' = s'" by auto
  with assms(1) commit_all_inv show ?thesis by blast
qed

lemma submit_inv:
  assumes "inv (wq_store q)" and "submit w c q = (result, q')"
  shows "inv (wq_store q')"
proof -
  obtain result' q1 where f: "flush w (enqueue c q) = (result', q1)" by fastforce
  moreover have "wq_store (enqueue c q) = wq_store q" by (simp add: enqueue_def)
  ultimately have "inv (wq_store q1)" using flush_inv[OF _ f] assms(1) by simp
  moreover have "q' = q1" using assms(2) f by (auto simp: submit_def split: sum.splits)
  ultimately show ?thesis by simp
qed

end

text \<open>The SQLite store as an instance of the traits; the clock reads \<open>now\<close>.\<close>

definition store_reader :: "(Database, StoreError) StoreReader" where
  "store_reader =
     \<lparr>sr_get_connection = get_connection, sr_get_resource = get_resource,
      sr_get_relation = get_relation,
      sr_latest_relation_version_fingerprint = latest_relation_version_fingerprint,
      sr_get_sync_run = get_sync_run, sr_sync_cursor = sync_cursor,
      sr_list_resources_for_scope = list_resources_for_scope,
      sr_missing_evidence_state = missing_evidence_state\<rparr>"

definition store_writer :: "int \<Rightarrow> (Database, StoreError) StoreWriter" where
  "store_writer now =
     \<lparr>sw_upsert_connection = upsert_connection now, sw_start_sync_run = start_sync_run now,
      sw_commit_sync = commit_sync now,
      sw_mark_running_syncs_interrupted = mark_running_syncs_interrupted now\<rparr>"

interpretation store_queue: commit_store "store_writer now" db_ok for now
  by unfold_locales (auto simp: store_writer_def intro: commit_sync_ok)

section \<open>Properties\<close>

text \<open>
  C14. Submitting a commit applies the waiting commits and then this one, in the order in which they
  were queued. On success the queue is empty and the result is that of the submitted commit; on
  failure exactly the commits before the rejected one are applied, and the rejected commit stays at
  the front of the queue with everything after it, the new commit last.
\<close>

theorem submit_fifo:
  fixes w :: "('s, 'e) StoreWriter"
  assumes "submit w commit q = (result, q')"
  shows "case result of
      Inr r \<Rightarrow> wq_pending q' = [] \<and>
        (\<exists>rs. commit_all w (wq_pending q @ [commit]) (wq_store q) = Inr (rs @ [r], wq_store q'))
    | Inl e \<Rightarrow> \<exists>front c rest rs. wq_pending q @ [commit] = front @ c # rest \<and>
        wq_pending q' = c # rest \<and> commit_all w front (wq_store q) = Inr (rs, wq_store q') \<and>
        sw_commit_sync w c (wq_store q') = Inl e"
proof -
  obtain result' q1 where f: "flush w (enqueue commit q) = (result', q1)" by fastforce
  have q1: "q' = q1" using assms f by (auto simp: submit_def split: sum.splits)
  from flush_loop_spec[OF f[unfolded flush_def]] obtain front behind rs s' where
    spec: "wq_pending q @ [commit] = front @ behind" "commit_all w front (wq_store q) = Inr (rs, s')"
      "q1 = \<lparr>wq_store = s', wq_pending = behind\<rparr>"
      "case result' of Inr all \<Rightarrow> behind = [] \<and> all = [] @ rs
        | Inl e \<Rightarrow> \<exists>c rest. behind = c # rest \<and> sw_commit_sync w c s' = Inl e"
    by (auto simp: enqueue_def)
  show ?thesis
  proof (cases result')
    case (Inl e)
    with spec assms f q1 show ?thesis by (auto simp: submit_def)
  next
    case (Inr all)
    with spec have "behind = []" "all = rs" by auto
    moreover from this have "length rs = Suc (length (wq_pending q))"
      using commit_all_length[OF spec(2)] spec(1) by (metis append_Nil2 length_append_singleton)
    then have "rs = butlast rs @ [last rs]" by (cases rs rule: rev_cases) auto
    ultimately show ?thesis
      using spec(1-3) assms f q1 Inr
      by (auto simp: submit_def intro!: exI[of _ "butlast rs"])
  qed
qed

theorem submit_fifo_witness:
  "\<exists>result q'. submit (store_writer 9) sample_commit (WriterQueue_new sample_store) = (result, q') \<and>
     (case result of Inr r \<Rightarrow> wq_pending q' = [] | Inl e \<Rightarrow> wq_pending q' \<noteq> [])"
proof -
  obtain result q' where s: "submit (store_writer 9) sample_commit (WriterQueue_new sample_store) = (result, q')"
    by fastforce
  from submit_fifo[OF s] s show ?thesis by (cases result) auto
qed

text \<open>
  A commit that the store never accepts blocks the queue for good: with it at the front, every
  later submission, also one for another connection or to record a failure, is answered with
  the error of the blocking commit, changes nothing in the store and makes the queue longer.
\<close>

theorem rejected_commit_blocks_queue:
  fixes w :: "('s, 'e) StoreWriter"
  assumes "\<And>s. sw_commit_sync w poison s = Inl (err s)" and "wq_pending q = poison # rest"
  shows "submit w commit q =
    (Inl (err (wq_store q)), q\<lparr>wq_pending := wq_pending q @ [commit]\<rparr>)"
  using assms by (simp add: submit_def flush_def enqueue_def)

text \<open>The store never accepts a commit for a run whose status is still running.\<close>

definition running_commit :: SyncCommit where
  "running_commit = sample_commit\<lparr>sc_run := sample_run\<lparr>run_status := RunRunning\<rparr>\<rparr>"

theorem rejected_commit_blocks_queue_witness:
  "\<exists>e. fst (submit (store_writer 9) sample_commit
       \<lparr>wq_store = sample_store, wq_pending = [running_commit]\<rparr>) = Inl e"
proof -
  have "sw_commit_sync (store_writer 9) running_commit s =
      Inl (Contract ''commit_sync requires a finished sync run'')" for s
    by (simp add: store_writer_def commit_sync_def running_commit_def)
  from rejected_commit_blocks_queue[of "store_writer 9" running_commit "\<lambda>_. Contract ''commit_sync requires a finished sync run''",
      OF this, of "\<lparr>wq_store = sample_store, wq_pending = [running_commit]\<rparr>" "[]" sample_commit]
  show ?thesis by simp
qed

end
