(* ===== verification/Sync_Engine.thy ===== *)
theory Sync_Engine
  imports Writer_Queue Normalizer
begin

text \<open>
  \<open>engine.rs\<close> of crate \<open>next-infra-sync\<close>: the life of a sync run and the construction of its commit
  from a validated batch and the store. The engine is generic over the store, so its definitions
  take the trait records of \<open>Store_Ports\<close>; its state is the writer queue.
\<close>

section \<open>Data\<close>

record SyncRunHandle =
  h_run :: SyncRun
  h_scope :: Scope

record SyncRunStart =
  st_sync_run_id :: SyncRunId
  st_mode :: SyncMode
  st_trigger :: SyncTrigger
  st_scope :: Scope
  st_started_at :: Timestamp
  st_targeted_resources :: "ResourceLocator list"

datatype 'e SyncEngineError =
    StoreFailure 'e
  | DomainFailure DomainError
  | InvalidRun string
  | MissingResource ResourceId

definition INITIAL_CURSOR :: string where
  "INITIAL_CURSOR = ''initial''"

section \<open>Stable identifiers\<close>

definition stable_resource_id :: "ResourceKey \<Rightarrow> DomainError + ResourceId" where
  "stable_resource_id key =
     string_value_new ''ResourceId''
       (''resource:'' @ key_connection key @ '':'' @ key_kind key @ '':'' @ key_external key)"

definition stable_resource_id_from_locator :: "ConnectionId \<Rightarrow> ResourceLocator \<Rightarrow> DomainError + ResourceId" where
  "stable_resource_id_from_locator connection_id locator =
     stable_resource_id (ResourceKey connection_id (loc_kind locator) (loc_external_id locator))"

definition stable_relation_id :: "ValidatedRelationKey \<Rightarrow> DomainError + RelationId" where
  "stable_relation_id key =
     res_bind (stable_resource_id (vkey_source key)) (\<lambda>source.
     res_bind (stable_resource_id (vkey_target key)) (\<lambda>target.
       string_value_new ''RelationId''
         (''relation:'' @ source @ '':'' @ target @ '':'' @ vkey_kind key @ '':'' @ vkey_evidence_key key)))"

definition resource_version_id :: "ResourceId \<Rightarrow> SyncRunId \<Rightarrow> DomainError + ResourceVersionId" where
  "resource_version_id resource_id sync_run_id =
     string_value_new ''ResourceVersionId'' (''resource-version:'' @ resource_id @ '':'' @ sync_run_id)"

definition relation_version_id :: "RelationId \<Rightarrow> SyncRunId \<Rightarrow> DomainError + RelationVersionId" where
  "relation_version_id relation_id sync_run_id =
     string_value_new ''RelationVersionId'' (''relation-version:'' @ relation_id @ '':'' @ sync_run_id)"

definition next_schema_version :: "DomainError + SchemaVersion" where
  "next_schema_version = SchemaVersion_new 1"

section \<open>Validation of a handle\<close>

definition validate_handle ::
    "SyncRunHandle \<Rightarrow> ConnectionId \<Rightarrow> SyncRunId \<Rightarrow> 'e SyncEngineError + unit" where
  "validate_handle handle connection_id sync_run_id =
     (if run_status (h_run handle) \<noteq> RunRunning \<or> run_finished_at (h_run handle) \<noteq> None
      then Inl (InvalidRun ''commit requires a running SyncRun'')
      else if run_connection_id (h_run handle) \<noteq> connection_id \<or> run_id (h_run handle) \<noteq> sync_run_id
      then Inl (InvalidRun ''validated batch provenance does not match SyncRun'')
      else Inr ())"

text \<open>The scope that an authoritative or scoped partial coverage names.\<close>

fun coverage_scope :: "SyncCoverage \<Rightarrow> Scope option" where
  "coverage_scope (AuthoritativeFull scope) = Some scope"
| "coverage_scope (PartialCoverage scope _) = scope"
| "coverage_scope _ = None"

definition validate_coverage :: "SyncRunHandle \<Rightarrow> SyncCoverage \<Rightarrow> 'e SyncEngineError + unit" where
  "validate_coverage handle coverage =
     (if \<not> mode_accepts (run_mode (h_run handle)) coverage
      then Inl (DomainFailure (invalid_value ''validated coverage is incompatible with SyncRun mode''))
      else case coverage_scope coverage of
             Some scope \<Rightarrow>
               if scope \<noteq> h_scope handle
               then Inl (DomainFailure
                 (invalid_value ''validated coverage scope does not match SyncRun scope''))
               else Inr ()
           | None \<Rightarrow> Inr ())"

definition initial_coverage ::
    "SyncMode \<Rightarrow> ConnectionId \<Rightarrow> Scope \<Rightarrow> SyncCursor option \<Rightarrow> ResourceLocator list \<Rightarrow>
     'e SyncEngineError + SyncCoverage" where
  "initial_coverage mode connection_id scope cursor_before targeted_resources =
     (case mode of
        Full \<Rightarrow> Inr (AuthoritativeFull scope)
      | Incremental \<Rightarrow>
          res_bind (map_err DomainFailure (string_value_new ''SyncCursor'' INITIAL_CURSOR)) (\<lambda>initial.
            Inr (IncrementalCoverage (case cursor_before of Some cursor \<Rightarrow> cursor | None \<Rightarrow> initial)))
      | Targeted \<Rightarrow>
          res_bind (map_err DomainFailure
              (res_map (stable_resource_id_from_locator connection_id) targeted_resources))
            (\<lambda>ids. Inr (TargetedCoverage ids)))"

section \<open>Projection of one observation\<close>

definition project_resource ::
    "ValidatedResource \<Rightarrow> ResourceId \<Rightarrow> SyncRun \<Rightarrow> Resource option \<Rightarrow> Resource" where
  "project_resource validated resource_id run existing =
     (let changed = (case existing of None \<Rightarrow> True
            | Some old \<Rightarrow> res_fingerprint old \<noteq> vr_fingerprint validated \<or> res_lifecycle old \<noteq> Active)
      in \<lparr>res_id = resource_id, res_connection_id = key_connection (vr_key validated),
          res_kind = key_kind (vr_key validated), res_external_id = key_external (vr_key validated),
          res_name = vr_name validated, res_display_name = vr_display_name validated,
          res_scope = vr_scope validated, res_labels = vr_labels validated, res_lifecycle = Active,
          res_health = vr_health validated, res_attributes = vr_attributes validated,
          res_attribute_schema_version = vr_attribute_schema_version validated,
          res_fingerprint = vr_fingerprint validated,
          res_first_seen_at = (case existing of None \<Rightarrow> vr_observed_at validated
            | Some old \<Rightarrow> res_first_seen_at old),
          res_last_seen_at = vr_observed_at validated,
          res_last_changed_at = (if changed then vr_observed_at validated
            else case existing of None \<Rightarrow> vr_observed_at validated | Some old \<Rightarrow> res_last_changed_at old),
          res_last_sync_run_id = run_id run\<rparr>)"

definition project_relation ::
    "ValidatedRelation \<Rightarrow> RelationId \<Rightarrow> ResourceId \<Rightarrow> ResourceId \<Rightarrow> Relation option \<Rightarrow> Relation" where
  "project_relation validated relation_id source target existing =
     \<lparr>rel_id = relation_id, rel_source = source, rel_target = target,
      rel_kind = vkey_kind (vl_key validated), rel_evidence_key = vkey_evidence_key (vl_key validated),
      rel_evidence = vl_evidence validated,
      rel_first_seen_at = (case existing of None \<Rightarrow> vl_observed_at validated
        | Some old \<Rightarrow> rel_first_seen_at old),
      rel_last_seen_at = vl_observed_at validated, rel_lifecycle = Active\<rparr>"

definition tombstone_resource :: "Resource \<Rightarrow> SyncRun \<Rightarrow> Timestamp \<Rightarrow> Resource" where
  "tombstone_resource existing run at =
     existing\<lparr>res_lifecycle := Tombstoned, res_last_changed_at := at,
       res_last_sync_run_id := run_id run\<rparr>"

definition resource_snapshot :: "Resource \<Rightarrow> Value" where
  "resource_snapshot r =
     json_object [(''resource_id'', JString (res_id r)), (''connection_id'', JString (res_connection_id r)),
       (''kind'', JString (res_kind r)), (''external_id'', JString (res_external_id r)),
       (''name'', JString (res_name r)), (''display_name'', JString (res_display_name r)),
       (''scope'', JString (res_scope r)), (''labels'', json_labels (res_labels r)),
       (''lifecycle'', JString (lifecycle_text (res_lifecycle r))),
       (''health'', JString (resource_health_text (res_health r))),
       (''attributes'', res_attributes r),
       (''attribute_schema_version'', json_u32 (res_attribute_schema_version r)),
       (''fingerprint'', JString (res_fingerprint r))]"

definition relation_snapshot :: "Relation \<Rightarrow> Value" where
  "relation_snapshot r =
     json_object [(''relation_id'', JString (rel_id r)), (''source_resource_id'', JString (rel_source r)),
       (''target_resource_id'', JString (rel_target r)), (''kind'', JString (rel_kind r)),
       (''evidence_key'', JString (rel_evidence_key r)), (''evidence'', json_evidence (rel_evidence r)),
       (''lifecycle'', JString (lifecycle_text (rel_lifecycle r)))]"

definition diff_fields :: "Value \<Rightarrow> Value \<Rightarrow> string list \<Rightarrow> DomainError + FieldChange list" where
  "diff_fields before after names =
     res_map (\<lambda>field.
         res_bind (string_value_new ''FieldPath'' field) (\<lambda>path.
           Inr \<lparr>fc_path = path, fc_before = value_get before field, fc_after = value_get after field\<rparr>))
       (filter (\<lambda>field. value_get before field \<noteq> value_get after field) names)"

definition creation_diff :: "string \<Rightarrow> Value \<Rightarrow> DomainError + FieldChange list" where
  "creation_diff field snapshot =
     res_bind (string_value_new ''FieldPath'' field) (\<lambda>path.
       Inr [\<lparr>fc_path = path, fc_before = None, fc_after = Some snapshot\<rparr>])"

definition resource_diff :: "Resource option \<Rightarrow> Resource \<Rightarrow> DomainError + FieldChange list" where
  "resource_diff existing resource =
     (case existing of
        None \<Rightarrow> creation_diff ''resource'' (resource_snapshot resource)
      | Some old \<Rightarrow>
          diff_fields (resource_snapshot old) (resource_snapshot resource)
            [''name'', ''display_name'', ''scope'', ''labels'', ''lifecycle'', ''health'', ''attributes'',
             ''attribute_schema_version'', ''fingerprint''])"

definition relation_diff :: "Relation option \<Rightarrow> Relation \<Rightarrow> DomainError + FieldChange list" where
  "relation_diff existing relation =
     (case existing of
        None \<Rightarrow> creation_diff ''relation'' (relation_snapshot relation)
      | Some old \<Rightarrow>
          diff_fields (relation_snapshot old) (relation_snapshot relation) [''evidence'', ''lifecycle''])"

text \<open>The fields of a change: a change of an existing item never has none.\<close>

definition change_fields ::
    "Lifecycle option \<Rightarrow> Lifecycle \<Rightarrow> FieldChange list \<Rightarrow> DomainError + FieldChange list" where
  "change_fields old new diff =
     (if diff = [] \<and> old \<noteq> None
      then res_bind (string_value_new ''FieldPath'' ''lifecycle'') (\<lambda>path.
        Inr [\<lparr>fc_path = path,
              fc_before = Some (json_option (\<lambda>l. JString (lifecycle_text l)) old),
              fc_after = Some (JString (lifecycle_text new))\<rparr>])
      else Inr diff)"

definition resource_change ::
    "Resource \<Rightarrow> Resource option \<Rightarrow> FieldChange list \<Rightarrow> SyncRunId \<Rightarrow> Timestamp \<Rightarrow> DomainError + Change" where
  "resource_change resource existing diff sync_run_id observed_at =
     res_bind (string_value_new ''ChangeId'' (''change:'' @ res_id resource @ '':'' @ sync_run_id)) (\<lambda>i.
     res_bind (change_fields (map_option res_lifecycle existing) (res_lifecycle resource) diff) (\<lambda>diff.
       Inr \<lparr>chg_id = i, chg_subject = ResourceSubject (res_id resource), chg_observed_at = observed_at,
             chg_fields = diff, chg_origin = SyncRunOrigin sync_run_id\<rparr>))"

definition relation_change ::
    "Relation \<Rightarrow> Relation option \<Rightarrow> FieldChange list \<Rightarrow> SyncRunId \<Rightarrow> Timestamp \<Rightarrow> DomainError + Change" where
  "relation_change relation existing diff sync_run_id observed_at =
     res_bind (string_value_new ''ChangeId'' (''change:'' @ rel_id relation @ '':'' @ sync_run_id)) (\<lambda>i.
     res_bind (change_fields (map_option rel_lifecycle existing) (rel_lifecycle relation) diff) (\<lambda>diff.
       Inr \<lparr>chg_id = i, chg_subject = RelationSubject (rel_id relation), chg_observed_at = observed_at,
             chg_fields = diff, chg_origin = SyncRunOrigin sync_run_id\<rparr>))"

section \<open>Building a commit\<close>

text \<open>The local variables of \<open>build_commit\<close> that its loops update.\<close>

record CommitDraft =
  cd_resources :: "Resource list"
  cd_resource_versions :: "ResourceVersion list"
  cd_relations :: "Relation list"
  cd_relation_versions :: "RelationVersion list"
  cd_changes :: "Change list"
  cd_counts :: SyncRunCounts
  cd_observed :: "ResourceId btree_set"

definition domain :: "DomainError + 'a \<Rightarrow> 'e SyncEngineError + 'a" where
  "domain r = map_err DomainFailure r"

definition store_call :: "'e + 'a \<Rightarrow> 'e SyncEngineError + 'a" where
  "store_call r = map_err StoreFailure r"

definition count_observation :: "bool \<Rightarrow> bool \<Rightarrow> SyncRunCounts \<Rightarrow> SyncRunCounts" where
  "count_observation is_new changed counts =
     (if is_new then counts\<lparr>cnt_created := cnt_created counts + 1\<rparr>
      else if changed then counts\<lparr>cnt_updated := cnt_updated counts + 1\<rparr>
      else counts\<lparr>cnt_unchanged := cnt_unchanged counts + 1\<rparr>)"

definition resource_observation ::
    "('s, 'e) StoreReader \<Rightarrow> 's \<Rightarrow> SyncRun \<Rightarrow> ValidatedResource \<Rightarrow> CommitDraft \<Rightarrow>
     'e SyncEngineError + CommitDraft" where
  "resource_observation rd store run validated d =
     res_bind (domain (stable_resource_id (vr_key validated))) (\<lambda>resource_id.
     res_bind (store_call (sr_get_resource rd store resource_id)) (\<lambda>existing.
       let resource = project_resource validated resource_id run existing;
           fingerprint_changed = (case existing of None \<Rightarrow> True
             | Some previous \<Rightarrow> res_fingerprint previous \<noteq> res_fingerprint resource);
           lifecycle_changed = (case existing of None \<Rightarrow> False
             | Some previous \<Rightarrow> res_lifecycle previous \<noteq> res_lifecycle resource);
           counts = count_observation (existing = None) (fingerprint_changed \<or> lifecycle_changed) (cd_counts d)
       in
       res_bind
         (if existing = None \<or> fingerprint_changed then
            res_bind (domain (resource_diff existing resource)) (\<lambda>summary.
            res_bind (domain (resource_version_id (res_id resource) (run_id run))) (\<lambda>version_id.
            res_bind (domain (resource_change resource existing summary (run_id run)
                (vr_observed_at validated))) (\<lambda>change.
              Inr (cd_resource_versions d @
                    [\<lparr>rv_id = version_id, rv_resource_id = res_id resource,
                      rv_observed_at = vr_observed_at validated, rv_sync_run_id = run_id run,
                      rv_snapshot = resource_snapshot resource, rv_fingerprint = res_fingerprint resource,
                      rv_schema_version = res_attribute_schema_version resource,
                      rv_change_summary = summary\<rparr>],
                   cd_changes d @ [change]))))
          else if lifecycle_changed then
            res_bind (domain (resource_diff existing resource)) (\<lambda>summary.
            res_bind (domain (resource_change resource existing summary (run_id run)
                (vr_observed_at validated))) (\<lambda>change.
              Inr (cd_resource_versions d, cd_changes d @ [change])))
          else Inr (cd_resource_versions d, cd_changes d))
         (\<lambda>(versions, changes).
           Inr (d\<lparr>cd_resources := cd_resources d @ [resource], cd_resource_versions := versions,
                  cd_changes := changes, cd_counts := counts,
                  cd_observed := bs_insert resource_id (cd_observed d)\<rparr>))))"

definition ensure_relation_endpoint ::
    "('s, 'e) StoreReader \<Rightarrow> 's \<Rightarrow> ResourceId btree_set \<Rightarrow> ResourceId \<Rightarrow> 'e SyncEngineError + unit" where
  "ensure_relation_endpoint rd store planned i =
     (if i \<in> set planned then Inr ()
      else res_bind (store_call (sr_get_resource rd store i)) (\<lambda>r.
        case r of None \<Rightarrow> Inl (MissingResource i) | Some _ \<Rightarrow> Inr ()))"

definition relation_observation ::
    "('s, 'e) StoreReader \<Rightarrow> 's \<Rightarrow> SyncRun \<Rightarrow> ValidatedRelation \<Rightarrow> CommitDraft \<Rightarrow>
     'e SyncEngineError + CommitDraft" where
  "relation_observation rd store run validated d =
     res_bind (domain (stable_relation_id (vl_key validated))) (\<lambda>relation_id.
     res_bind (domain (stable_resource_id (vkey_source (vl_key validated)))) (\<lambda>source_id.
     res_bind (domain (stable_resource_id (vkey_target (vl_key validated)))) (\<lambda>target_id.
     res_bind (ensure_relation_endpoint rd store (cd_observed d) source_id) (\<lambda>_.
     res_bind (ensure_relation_endpoint rd store (cd_observed d) target_id) (\<lambda>_.
     res_bind (store_call (sr_get_relation rd store relation_id)) (\<lambda>existing.
     res_bind (store_call (sr_latest_relation_version_fingerprint rd store relation_id)) (\<lambda>latest.
       let relation = project_relation validated relation_id source_id target_id existing;
           fingerprint_changed = (case existing of None \<Rightarrow> True
             | Some _ \<Rightarrow> (case latest of None \<Rightarrow> True | Some previous \<Rightarrow> previous \<noteq> vl_fingerprint validated));
           lifecycle_changed = (case existing of None \<Rightarrow> False
             | Some previous \<Rightarrow> rel_lifecycle previous \<noteq> rel_lifecycle relation);
           counts = count_observation (existing = None) (fingerprint_changed \<or> lifecycle_changed) (cd_counts d)
       in
       res_bind
         (if existing = None \<or> fingerprint_changed then
            res_bind (domain (relation_diff existing relation)) (\<lambda>summary.
            res_bind (domain (relation_version_id (rel_id relation) (run_id run))) (\<lambda>version_id.
            res_bind (domain next_schema_version) (\<lambda>schema_version.
            res_bind (domain (relation_change relation existing summary (run_id run)
                (vl_observed_at validated))) (\<lambda>change.
              Inr (cd_relation_versions d @
                    [\<lparr>relv_id = version_id, relv_relation_id = rel_id relation,
                      relv_observed_at = vl_observed_at validated,
                      relv_snapshot = relation_snapshot relation,
                      relv_fingerprint = vl_fingerprint validated, relv_schema_version = schema_version,
                      relv_origin = SyncRunOrigin (run_id run)\<rparr>],
                   cd_changes d @ [change])))))
          else if lifecycle_changed then
            res_bind (domain (relation_diff existing relation)) (\<lambda>summary.
            res_bind (domain (relation_change relation existing summary (run_id run)
                (vl_observed_at validated))) (\<lambda>change.
              Inr (cd_relation_versions d, cd_changes d @ [change])))
          else Inr (cd_relation_versions d, cd_changes d))
         (\<lambda>(versions, changes).
           Inr (d\<lparr>cd_relations := cd_relations d @ [relation], cd_relation_versions := versions,
                  cd_changes := changes, cd_counts := counts\<rparr>)))))))))"

text \<open>One resource of the scope that the batch did not observe.\<close>

definition missing_resource ::
    "SyncRun \<Rightarrow> Timestamp \<Rightarrow> Resource \<Rightarrow> MissingEvidenceState \<times> CommitDraft \<Rightarrow>
     'e SyncEngineError + MissingEvidenceState \<times> CommitDraft" where
  "missing_resource run finished_at existing acc =
     (let state = fst acc; d = snd acc in
      if res_id existing \<in> set (cd_observed d) then Inr acc
      else
        let count = saturating_succ (count_for state (res_id existing));
            state' = state\<lparr>mes_counts := bt_insert (res_id existing) (min count 2) (mes_counts state)\<rparr>
        in if 2 \<le> count \<and> res_lifecycle existing \<noteq> Tombstoned then
             let tombstoned = tombstone_resource existing run finished_at in
             res_bind (domain (resource_diff (Some existing) tombstoned)) (\<lambda>summary.
             res_bind (domain (resource_change tombstoned (Some existing) summary (run_id run) finished_at))
               (\<lambda>change.
               Inr (state', d\<lparr>cd_resources := cd_resources d @ [tombstoned],
                 cd_changes := cd_changes d @ [change],
                 cd_counts := (cd_counts d)\<lparr>cnt_updated := cnt_updated (cd_counts d) + 1\<rparr>\<rparr>)))
           else Inr (state', d))"

definition missing_pass ::
    "('s, 'e) StoreReader \<Rightarrow> 's \<Rightarrow> SyncRun \<Rightarrow> Timestamp \<Rightarrow> SyncCoverage \<Rightarrow> CommitDraft \<Rightarrow>
     'e SyncEngineError + MissingEvidenceState option \<times> CommitDraft" where
  "missing_pass rd store run finished_at coverage d =
     (case coverage of
        AuthoritativeFull scope \<Rightarrow>
          res_bind (store_call (sr_missing_evidence_state rd store (run_connection_id run) scope)) (\<lambda>persisted.
            let state = (case persisted of None \<Rightarrow> missing_new scope | Some s \<Rightarrow> s);
                state = state\<lparr>mes_counts := fold bt_remove (cd_observed d) (mes_counts state)\<rparr>
            in res_bind (store_call (sr_list_resources_for_scope rd store (run_connection_id run) scope))
              (\<lambda>existing_resources.
            res_bind (res_fold (missing_resource run finished_at) existing_resources (state, d))
              (\<lambda>(state, d). Inr (Some state, d))))
      | _ \<Rightarrow> Inr (None, d))"

definition finished_run :: "SyncRunHandle \<Rightarrow> ValidatedBatch \<Rightarrow> Timestamp \<Rightarrow> SyncRun" where
  "finished_run handle batch finished_at =
     (h_run handle)\<lparr>run_status :=
         (if is_partial_coverage (vb_coverage batch) then RunPartial else RunSucceeded),
       run_finished_at := Some finished_at, run_coverage := vb_coverage batch,
       run_cursor_after := vb_next_cursor batch\<rparr>"

definition empty_draft :: "ValidatedBatch \<Rightarrow> CommitDraft" where
  "empty_draft batch =
     \<lparr>cd_resources = [], cd_resource_versions = [], cd_relations = [], cd_relation_versions = [],
      cd_changes = [],
      cd_counts = counts_default\<lparr>cnt_read := length (vb_resources batch) + length (vb_relations batch),
        cnt_warnings := length (vb_warnings batch)\<rparr>,
      cd_observed = []\<rparr>"

definition build_commit ::
    "('s, 'e) StoreReader \<Rightarrow> 's \<Rightarrow> SyncRunHandle \<Rightarrow> ValidatedBatch \<Rightarrow> Timestamp \<Rightarrow>
     'e SyncEngineError + SyncCommit" where
  "build_commit rd store handle batch finished_at =
     (let run = finished_run handle batch finished_at in
      res_bind (res_fold (resource_observation rd store run) (vb_resources batch) (empty_draft batch)) (\<lambda>d.
      res_bind (res_fold (relation_observation rd store run) (vb_relations batch) d) (\<lambda>d.
      res_bind (missing_pass rd store run finished_at (vb_coverage batch) d) (\<lambda>(missing, d).
        Inr \<lparr>sc_run = run\<lparr>run_counts := cd_counts d,
                run_warnings := map (\<lambda>w. \<lparr>warn_code = ow_code w, warn_message = ow_message w\<rparr>)
                  (vb_warnings batch)\<rparr>,
             sc_resources = cd_resources d, sc_resource_versions = cd_resource_versions d,
             sc_relations = cd_relations d, sc_relation_versions = cd_relation_versions d,
             sc_changes = cd_changes d, sc_cursor_after = vb_next_cursor batch,
             sc_missing_evidence = missing\<rparr>))))"

section \<open>The engine\<close>

type_synonym 's SyncEngine = "'s WriterQueue"

definition engine_start ::
    "('s, 'e) StoreReader \<Rightarrow> ('s, 'e) StoreWriter \<Rightarrow> Connection \<Rightarrow> SyncRunStart \<Rightarrow> 's SyncEngine \<Rightarrow>
     'e SyncEngineError + SyncRunHandle \<times> 's SyncEngine" where
  "engine_start rd w connection start q =
     res_bind (store_call (sr_sync_cursor rd (wq_store q) (conn_id connection))) (\<lambda>cursor_before.
     res_bind (initial_coverage (st_mode start) (conn_id connection) (st_scope start) cursor_before
         (st_targeted_resources start)) (\<lambda>coverage.
       let run = \<lparr>run_id = st_sync_run_id start, run_connection_id = conn_id connection,
             run_mode = st_mode start, run_trigger = st_trigger start,
             run_started_at = st_started_at start, run_finished_at = None, run_status = RunRunning,
             run_coverage = coverage, run_cursor_before = cursor_before, run_cursor_after = None,
             run_counts = counts_default, run_errors = [], run_warnings = []\<rparr>
       in res_bind (store_call (sw_start_sync_run w run (wq_store q))) (\<lambda>store.
          Inr (\<lparr>h_run = run, h_scope = st_scope start\<rparr>, q\<lparr>wq_store := store\<rparr>))))"

definition engine_commit ::
    "('s, 'e) StoreReader \<Rightarrow> ('s, 'e) StoreWriter \<Rightarrow> SyncRunHandle \<Rightarrow> ValidatedBatch \<Rightarrow> Timestamp \<Rightarrow>
     's SyncEngine \<Rightarrow> ('e SyncEngineError + CommitResult) \<times> 's SyncEngine" where
  "engine_commit rd w handle batch finished_at q =
     (case res_bind (validate_handle handle (vb_connection_id batch) (vb_sync_run_id batch)) (\<lambda>_.
           res_bind (validate_coverage handle (vb_coverage batch)) (\<lambda>_.
             build_commit rd (wq_store q) handle batch finished_at)) of
        Inl error \<Rightarrow> (Inl error, q)
      | Inr commit \<Rightarrow> (case submit w commit q of (result, q') \<Rightarrow> (store_call result, q')))"

definition failure_commit :: "SyncRun \<Rightarrow> DomainError \<Rightarrow> Timestamp \<Rightarrow> SyncCommit" where
  "failure_commit run error finished_at =
     \<lparr>sc_run = run\<lparr>run_status := RunFailed, run_finished_at := Some finished_at, run_errors := [error],
        run_warnings := [], run_cursor_after := run_cursor_before run\<rparr>,
      sc_resources = [], sc_resource_versions = [], sc_relations = [], sc_relation_versions = [],
      sc_changes = [], sc_cursor_after = run_cursor_before run, sc_missing_evidence = None\<rparr>"

definition engine_fail ::
    "('s, 'e) StoreWriter \<Rightarrow> SyncRunHandle \<Rightarrow> DomainError \<Rightarrow> Timestamp \<Rightarrow> 's SyncEngine \<Rightarrow>
     ('e SyncEngineError + CommitResult) \<times> 's SyncEngine" where
  "engine_fail w handle error finished_at q =
     (if run_status (h_run handle) \<noteq> RunRunning \<or> run_finished_at (h_run handle) \<noteq> None
      then (Inl (InvalidRun ''failed run must still be running''), q)
      else (case submit w (failure_commit (h_run handle) error finished_at) q of
              (result, q') \<Rightarrow> (store_call result, q')))"

definition engine_recover ::
    "('s, 'e) StoreWriter \<Rightarrow> Timestamp \<Rightarrow> 's SyncEngine \<Rightarrow> 'e SyncEngineError + nat \<times> 's SyncEngine" where
  "engine_recover w at q =
     map_ok (\<lambda>(n, store). (n, q\<lparr>wq_store := store\<rparr>))
       (store_call (sw_mark_running_syncs_interrupted w at (wq_store q)))"

end
