(* ===== verification/Sync_Ids.thy ===== *)
theory Sync_Ids
  imports Sync_Engine
begin

text \<open>
  The stable identifiers of the sync engine: what they tell apart, and where the colons that join
  their parts let two different keys share one identifier.
\<close>

lemma token_byte_colon: "\<not> token_byte CHR '':''"
  by code_simp

lemma namespaced_no_colon:
  assumes "namespaced_ok s"
  shows "CHR '':'' \<notin> set s"
proof
  assume "CHR '':'' \<in> set s"
  then obtain w where "w \<in> set (split_byte CHR ''.'' s)" "CHR '':'' \<in> set w"
    using set_split_byte[of s "CHR ''.''"] by auto
  with assms have "token_byte CHR '':''"
    by (auto simp: namespaced_ok_def token_ok_def list_all_iff)
  then show False using token_byte_colon by contradiction
qed

lemma split_at_separator:
  "d \<notin> set s \<Longrightarrow> d \<notin> set s' \<Longrightarrow> s @ d # r = s' @ d # r' \<longleftrightarrow> s = s' \<and> r = r'"
proof (induction s arbitrary: s')
  case Nil
  then show ?case by (cases s') auto
next
  case (Cons c s)
  then show ?case by (cases s') auto
qed

lemma stable_resource_id_eq [res_simps]:
  "stable_resource_id key = Inr i \<longleftrightarrow>
     i = ''resource:'' @ key_connection key @ '':'' @ key_kind key @ '':'' @ key_external key \<and> string_value_ok i"
  unfolding stable_resource_id_def string_value_new_eq_Inr by auto

text \<open>
  Within one connection the stable identifier of a resource identifies it: two keys with valid
  kinds and the same identifier are equal, whatever their external ids contain.
\<close>

theorem stable_resource_id_injective:
  assumes "stable_resource_id k = Inr i" and "stable_resource_id k' = Inr i"
    and "key_connection k = key_connection k'"
    and "namespaced_ok (key_kind k)" and "namespaced_ok (key_kind k')"
  shows "k = k'"
proof -
  from assms(1-3) have "key_kind k @ CHR '':'' # key_external k = key_kind k' @ CHR '':'' # key_external k'"
    by (auto simp: res_simps)
  then have "key_kind k = key_kind k' \<and> key_external k = key_external k'"
    using split_at_separator[OF namespaced_no_colon[OF assms(4)] namespaced_no_colon[OF assms(5)]] by simp
  with assms(3) show ?thesis by (cases k; cases k') simp
qed

theorem stable_resource_id_injective_witness:
  "stable_resource_id (ResourceKey ''c1'' ''gh.repo'' ''a:b'') = Inr ''resource:c1:gh.repo:a:b'' \<and>
   {e. stable_resource_id (ResourceKey ''c1'' ''gh.repo'' e) = Inr ''resource:c1:gh.repo:a:b''} = {''a:b''}"
proof -
  have i: "stable_resource_id (ResourceKey ''c1'' ''gh.repo'' ''a:b'') = Inr ''resource:c1:gh.repo:a:b''"
    by code_simp
  have ok: "namespaced_ok ''gh.repo''" by code_simp
  have "e = ''a:b''" if "stable_resource_id (ResourceKey ''c1'' ''gh.repo'' e) = Inr ''resource:c1:gh.repo:a:b''" for e
    using stable_resource_id_injective[OF that i] ok by simp
  with i show ?thesis by blast
qed

definition ambiguous_relation :: "ExternalId \<Rightarrow> ExternalId \<Rightarrow> ValidatedRelationKey" where
  "ambiguous_relation source target =
     ValidatedRelationKey (ResourceKey ''c1'' ''a.b'' source) (ResourceKey ''c1'' ''a.b'' target) ''a.c'' ''e''"

text \<open>
  The stable identifier of a relation does not identify it: two relations between different
  resources of one connection get the same identifier when external ids contain colons, although all
  their kinds are valid. The store then refuses the second one, because a stored relation cannot
  change its endpoints.
\<close>

theorem stable_relation_id_collides:
  "stable_relation_id (ambiguous_relation ''1'' ''2:resource:c1:a.b:3'') =
     stable_relation_id (ambiguous_relation ''1:resource:c1:a.b:2'' ''3'') \<and>
   is_ok (stable_relation_id (ambiguous_relation ''1'' ''2:resource:c1:a.b:3'')) \<and>
   ambiguous_relation ''1'' ''2:resource:c1:a.b:3'' \<noteq> ambiguous_relation ''1:resource:c1:a.b:2'' ''3''"
proof (intro conjI)
  show "stable_relation_id (ambiguous_relation ''1'' ''2:resource:c1:a.b:3'') =
     stable_relation_id (ambiguous_relation ''1:resource:c1:a.b:2'' ''3'')" by code_simp
  show "is_ok (stable_relation_id (ambiguous_relation ''1'' ''2:resource:c1:a.b:3''))" by code_simp
  show "ambiguous_relation ''1'' ''2:resource:c1:a.b:3'' \<noteq> ambiguous_relation ''1:resource:c1:a.b:2'' ''3''"
    by (simp add: ambiguous_relation_def)
qed

end
