(* ===== verification/Sync_Facts.thy ===== *)
theory Sync_Facts
  imports Sync_Ids
begin

text \<open>
  What the loops of \<open>build_commit\<close> add to the draft of a commit, and the properties of one commit:
  its provenance, its counts, its versions, its tombstones and its missing evidence.
\<close>

section \<open>One step of each loop\<close>

definition fingerprint_changed :: "Resource option \<Rightarrow> ValidatedResource \<Rightarrow> bool" where
  "fingerprint_changed existing v =
     (case existing of None \<Rightarrow> True | Some old \<Rightarrow> res_fingerprint old \<noteq> vr_fingerprint v)"

definition resource_touched :: "Resource option \<Rightarrow> ValidatedResource \<Rightarrow> bool" where
  "resource_touched existing v \<longleftrightarrow>
     fingerprint_changed existing v \<or>
     (case existing of None \<Rightarrow> False | Some old \<Rightarrow> res_lifecycle old \<noteq> Active)"

lemma project_resource_simps [simp]:
  "res_id (project_resource v i run e) = i"
  "res_connection_id (project_resource v i run e) = key_connection (vr_key v)"
  "res_kind (project_resource v i run e) = key_kind (vr_key v)"
  "res_external_id (project_resource v i run e) = key_external (vr_key v)"
  "res_lifecycle (project_resource v i run e) = Active"
  "res_fingerprint (project_resource v i run e) = vr_fingerprint v"
  "res_last_sync_run_id (project_resource v i run e) = run_id run"
  "res_scope (project_resource v i run e) = vr_scope v"
  by (simp_all add: project_resource_def Let_def)

lemma project_relation_simps [simp]:
  "rel_id (project_relation v i s t e) = i"
  "rel_evidence (project_relation v i s t e) = vl_evidence v"
  "rel_lifecycle (project_relation v i s t e) = Active"
  by (simp_all add: project_relation_def)

lemma domain_eq_Inr [res_simps]: "domain r = Inr x \<longleftrightarrow> r = Inr x"
  by (simp add: domain_def res_simps)

lemma store_call_eq_Inr [res_simps]: "store_call r = Inr x \<longleftrightarrow> r = Inr x"
  by (simp add: store_call_def res_simps)

lemma resource_change_origin:
  "resource_change r e diff run at = Inr h \<Longrightarrow>
     chg_id h = ''change:'' @ res_id r @ '':'' @ run \<and> chg_subject h = ResourceSubject (res_id r) \<and>
     chg_origin h = SyncRunOrigin run"
  by (auto simp: resource_change_def res_simps)

lemma resource_observation_InrE:
  assumes "resource_observation rd s run v d = Inr d'"
  obtains i existing versions changes where
    "stable_resource_id (vr_key v) = Inr i" and "sr_get_resource rd s i = Inr existing"
    and "d' = d\<lparr>cd_resources := cd_resources d @ [project_resource v i run existing],
      cd_resource_versions := cd_resource_versions d @ versions, cd_changes := cd_changes d @ changes,
      cd_counts := count_observation (existing = None) (resource_touched existing v) (cd_counts d),
      cd_observed := bs_insert i (cd_observed d)\<rparr>"
    and "length versions = (if fingerprint_changed existing v then 1 else 0)"
    and "\<forall>x\<in>set versions. rv_sync_run_id x = run_id run \<and> rv_resource_id x = i \<and>
      rv_fingerprint x = vr_fingerprint v"
    and "length changes = (if resource_touched existing v then 1 else 0)"
proof -
  from assms obtain i existing where i: "stable_resource_id (vr_key v) = Inr i"
    "sr_get_resource rd s i = Inr existing"
    unfolding resource_observation_def by (auto simp: res_bind_eq_Inr domain_eq_Inr store_call_eq_Inr)
  consider (new) "fingerprint_changed existing v"
    | (lifecycle) "\<not> fingerprint_changed existing v" "resource_touched existing v"
    | (same) "\<not> resource_touched existing v"
    by (auto simp: resource_touched_def)
  then show ?thesis
  proof cases
    case new
    with assms i show ?thesis
      by (cases existing)
        (auto simp: resource_observation_def res_bind_eq_Inr domain_eq_Inr store_call_eq_Inr
          fingerprint_changed_def resource_touched_def Let_def intro!: that[OF i])
  next
    case lifecycle
    with assms i show ?thesis
      by (cases existing)
        (auto simp: resource_observation_def res_bind_eq_Inr domain_eq_Inr store_call_eq_Inr
          fingerprint_changed_def resource_touched_def Let_def intro!: that[OF i])
  next
    case same
    with assms i show ?thesis
      by (cases existing)
        (auto simp: resource_observation_def res_bind_eq_Inr domain_eq_Inr store_call_eq_Inr
          fingerprint_changed_def resource_touched_def Let_def intro!: that[OF i, of "[]" "[]"])
  qed
qed

definition relation_changed :: "Relation option \<Rightarrow> Fingerprint option \<Rightarrow> ValidatedRelation \<Rightarrow> bool" where
  "relation_changed existing latest v =
     (case existing of None \<Rightarrow> True
      | Some _ \<Rightarrow> (case latest of None \<Rightarrow> True | Some f \<Rightarrow> f \<noteq> vl_fingerprint v))"

definition relation_touched :: "Relation option \<Rightarrow> Fingerprint option \<Rightarrow> ValidatedRelation \<Rightarrow> bool" where
  "relation_touched existing latest v \<longleftrightarrow>
     relation_changed existing latest v \<or>
     (case existing of None \<Rightarrow> False | Some old \<Rightarrow> rel_lifecycle old \<noteq> Active)"

lemma relation_observation_InrE:
  assumes "relation_observation rd s run v d = Inr d'"
  obtains i source target existing latest versions changes where
    "stable_relation_id (vl_key v) = Inr i"
    and "sr_get_relation rd s i = Inr existing"
    and "sr_latest_relation_version_fingerprint rd s i = Inr latest"
    and "ensure_relation_endpoint rd s (cd_observed d) source = Inr ()"
    and "ensure_relation_endpoint rd s (cd_observed d) target = Inr ()"
    and "d' = d\<lparr>cd_relations := cd_relations d @ [project_relation v i source target existing],
      cd_relation_versions := cd_relation_versions d @ versions, cd_changes := cd_changes d @ changes,
      cd_counts := count_observation (existing = None) (relation_touched existing latest v) (cd_counts d)\<rparr>"
    and "length versions = (if relation_changed existing latest v then 1 else 0)"
    and "\<forall>x\<in>set versions. relv_relation_id x = i \<and> relv_fingerprint x = vl_fingerprint v"
    and "length changes = (if relation_touched existing latest v then 1 else 0)"
proof -
  from assms obtain i source target existing latest where i:
    "stable_relation_id (vl_key v) = Inr i" "sr_get_relation rd s i = Inr existing"
    "sr_latest_relation_version_fingerprint rd s i = Inr latest"
    "ensure_relation_endpoint rd s (cd_observed d) source = Inr ()"
    "ensure_relation_endpoint rd s (cd_observed d) target = Inr ()"
    and st: "stable_resource_id (vkey_source (vl_key v)) = Inr source"
      "stable_resource_id (vkey_target (vl_key v)) = Inr target"
    unfolding relation_observation_def by (auto simp: res_bind_eq_Inr domain_eq_Inr store_call_eq_Inr)
  consider (new) "relation_changed existing latest v"
    | (lifecycle) "\<not> relation_changed existing latest v" "relation_touched existing latest v"
    | (same) "\<not> relation_touched existing latest v"
    by (auto simp: relation_touched_def)
  then show ?thesis
  proof cases
    case new
    with assms i st show ?thesis
      by (cases existing; cases latest)
        (auto simp: relation_observation_def res_bind_eq_Inr domain_eq_Inr store_call_eq_Inr
          relation_changed_def relation_touched_def Let_def intro!: that[OF i])
  next
    case lifecycle
    with assms i st show ?thesis
      by (cases existing; cases latest)
        (auto simp: relation_observation_def res_bind_eq_Inr domain_eq_Inr store_call_eq_Inr
          relation_changed_def relation_touched_def Let_def intro!: that[OF i])
  next
    case same
    with assms i st show ?thesis
      by (cases existing; cases latest)
        (auto simp: relation_observation_def res_bind_eq_Inr domain_eq_Inr store_call_eq_Inr
          relation_changed_def relation_touched_def Let_def intro!: that[OF i, of "[]" "[]"])
  qed
qed

definition bumped :: "MissingEvidenceState \<Rightarrow> ResourceId \<Rightarrow> MissingEvidenceState" where
  "bumped state i =
     state\<lparr>mes_counts := bt_insert i (min (saturating_succ (count_for state i)) 2) (mes_counts state)\<rparr>"

text \<open>The count of an unobserved resource has reached two and the resource is not yet tombstoned.\<close>

definition to_bury :: "MissingEvidenceState \<Rightarrow> Resource \<Rightarrow> bool" where
  "to_bury state r \<longleftrightarrow> 2 \<le> saturating_succ (count_for state (res_id r)) \<and> res_lifecycle r \<noteq> Tombstoned"

lemma missing_resource_InrE:
  assumes "missing_resource run at r (state, d) = Inr (state', d')"
  obtains (observed) "res_id r \<in> set (cd_observed d)" and "state' = state" and "d' = d"
  | (buried) h where "res_id r \<notin> set (cd_observed d)" and "to_bury state r"
      and "state' = bumped state (res_id r)"
      and "d' = d\<lparr>cd_resources := cd_resources d @ [tombstone_resource r run at],
        cd_changes := cd_changes d @ [h],
        cd_counts := (cd_counts d)\<lparr>cnt_updated := cnt_updated (cd_counts d) + 1\<rparr>\<rparr>"
      and "chg_subject h = ResourceSubject (res_id r)"
  | (waiting) "res_id r \<notin> set (cd_observed d)" and "\<not> to_bury state r"
      and "state' = bumped state (res_id r)" and "d' = d"
  using assms
  by (auto simp: missing_resource_def Let_def bumped_def to_bury_def res_simps tombstone_resource_def
      dest!: resource_change_origin split: if_splits)

lemma missing_pass_cases:
  fixes rd :: "('s, 'e) StoreReader"
  assumes "missing_pass rd s run at coverage d = Inr (missing, d')"
  obtains (full) scope persisted rs state where "coverage = AuthoritativeFull scope"
      and "sr_missing_evidence_state rd s (run_connection_id run) scope = Inr persisted"
      and "sr_list_resources_for_scope rd s (run_connection_id run) scope = Inr rs"
      and "res_fold (missing_resource run at) rs
        ((case persisted of None \<Rightarrow> missing_new scope | Some s \<Rightarrow> s)
          \<lparr>mes_counts := fold bt_remove (cd_observed d)
            (mes_counts (case persisted of None \<Rightarrow> missing_new scope | Some s \<Rightarrow> s))\<rparr>, d) =
        (Inr (state, d') :: 'e SyncEngineError + MissingEvidenceState \<times> CommitDraft)"
      and "missing = Some state"
  | (other) "\<not> contributes_missing_evidence coverage" and "missing = None" and "d' = d"
proof (cases "contributes_missing_evidence coverage")
  case True
  then obtain scope where c: "coverage = AuthoritativeFull scope" by (cases coverage) auto
  with assms obtain persisted rs state where
    "sr_missing_evidence_state rd s (run_connection_id run) scope = Inr persisted"
    "sr_list_resources_for_scope rd s (run_connection_id run) scope = Inr rs"
    "res_fold (missing_resource run at) rs
        ((case persisted of None \<Rightarrow> missing_new scope | Some s \<Rightarrow> s)
          \<lparr>mes_counts := fold bt_remove (cd_observed d)
            (mes_counts (case persisted of None \<Rightarrow> missing_new scope | Some s \<Rightarrow> s))\<rparr>, d) =
        (Inr (state, d') :: 'e SyncEngineError + MissingEvidenceState \<times> CommitDraft)"
    "missing = Some state"
    by (auto simp: missing_pass_def res_bind_eq_Inr store_call_eq_Inr Let_def)
  with c show ?thesis by (rule that(1))
next
  case False
  with assms that(2) show ?thesis by (cases coverage) (auto simp: missing_pass_def)
qed

lemma build_commit_InrE:
  assumes "build_commit rd s handle batch at = Inr commit"
  obtains d1 d2 d3 missing where
    "res_fold (resource_observation rd s (finished_run handle batch at)) (vb_resources batch)
      (empty_draft batch) = Inr d1"
    and "res_fold (relation_observation rd s (finished_run handle batch at)) (vb_relations batch) d1 = Inr d2"
    and "missing_pass rd s (finished_run handle batch at) at (vb_coverage batch) d2 = Inr (missing, d3)"
    and "commit = \<lparr>sc_run = (finished_run handle batch at)\<lparr>run_counts := cd_counts d3,
                run_warnings := map (\<lambda>w. \<lparr>warn_code = ow_code w, warn_message = ow_message w\<rparr>)
                  (vb_warnings batch)\<rparr>,
             sc_resources = cd_resources d3, sc_resource_versions = cd_resource_versions d3,
             sc_relations = cd_relations d3, sc_relation_versions = cd_relation_versions d3,
             sc_changes = cd_changes d3, sc_cursor_after = vb_next_cursor batch,
             sc_missing_evidence = missing\<rparr>"
  using assms by (auto simp: build_commit_def Let_def res_bind_eq_Inr)

text \<open>What every step of the three loops keeps, the draft of the commit has.\<close>

lemma build_commit_draft:
  fixes rd :: "('s, 'e) StoreReader"
  assumes "build_commit rd s handle batch at = Inr commit" and "P (empty_draft batch)"
    and "\<And>v d d'. v \<in> set (vb_resources batch) \<Longrightarrow> P d \<Longrightarrow>
      resource_observation rd s (finished_run handle batch at) v d = Inr d' \<Longrightarrow> P d'"
    and "\<And>v d d'. v \<in> set (vb_relations batch) \<Longrightarrow> P d \<Longrightarrow>
      relation_observation rd s (finished_run handle batch at) v d = Inr d' \<Longrightarrow> P d'"
    and "\<And>scope rs r st d st' d'. vb_coverage batch = AuthoritativeFull scope \<Longrightarrow>
      sr_list_resources_for_scope rd s (run_connection_id (h_run handle)) scope = Inr rs \<Longrightarrow> r \<in> set rs \<Longrightarrow>
      P d \<Longrightarrow> missing_resource (finished_run handle batch at) at r (st, d) =
        (Inr (st', d') :: 'e SyncEngineError + MissingEvidenceState \<times> CommitDraft) \<Longrightarrow> P d'"
  shows "\<exists>d missing. P d \<and> commit = \<lparr>sc_run = (finished_run handle batch at)\<lparr>run_counts := cd_counts d,
                run_warnings := map (\<lambda>w. \<lparr>warn_code = ow_code w, warn_message = ow_message w\<rparr>)
                  (vb_warnings batch)\<rparr>,
             sc_resources = cd_resources d, sc_resource_versions = cd_resource_versions d,
             sc_relations = cd_relations d, sc_relation_versions = cd_relation_versions d,
             sc_changes = cd_changes d, sc_cursor_after = vb_next_cursor batch,
             sc_missing_evidence = missing\<rparr>"
proof -
  from assms(1) obtain d1 d2 d3 missing where
    l1: "res_fold (resource_observation rd s (finished_run handle batch at)) (vb_resources batch)
      (empty_draft batch) = Inr d1" and
    l2: "res_fold (relation_observation rd s (finished_run handle batch at)) (vb_relations batch) d1 = Inr d2" and
    l3: "missing_pass rd s (finished_run handle batch at) at (vb_coverage batch) d2 = Inr (missing, d3)" and
    commit: "commit = \<lparr>sc_run = (finished_run handle batch at)\<lparr>run_counts := cd_counts d3,
                run_warnings := map (\<lambda>w. \<lparr>warn_code = ow_code w, warn_message = ow_message w\<rparr>)
                  (vb_warnings batch)\<rparr>,
             sc_resources = cd_resources d3, sc_resource_versions = cd_resource_versions d3,
             sc_relations = cd_relations d3, sc_relation_versions = cd_relation_versions d3,
             sc_changes = cd_changes d3, sc_cursor_after = vb_next_cursor batch,
             sc_missing_evidence = missing\<rparr>"
    by (elim build_commit_InrE) (rule that, assumption+)
  have p1: "P d1" using l1 assms(2) by (rule res_fold_invariant[where P = P]) (rule assms(3))
  have p2: "P d2" using l2 p1 by (rule res_fold_invariant[where P = P]) (rule assms(4))
  have "P d3" using l3
  proof (cases rule: missing_pass_cases)
    case (full scope persisted rs state)
    have conn: "run_connection_id (finished_run handle batch at) = run_connection_id (h_run handle)"
      by (simp add: finished_run_def)
    have "P (snd (state, d3))"
    proof (rule res_fold_invariant[OF full(4), where P = "\<lambda>x. P (snd x)"])
      fix r and u v :: "MissingEvidenceState \<times> CommitDraft"
      assume r: "r \<in> set rs" "P (snd u)" "missing_resource (finished_run handle batch at) at r u =
          (Inr v :: 'e SyncEngineError + MissingEvidenceState \<times> CommitDraft)"
      obtain st a where u: "u = (st, a)" by (cases u)
      obtain st' b where v: "v = (st', b)" by (cases v)
      have "P b"
        by (rule assms(5)[OF full(1) full(3)[unfolded conn] r(1), of a st st' b]) (use r u v in simp_all)
      with v show "P (snd v)" by simp
    qed (simp add: p2)
    then show ?thesis by simp
  next
    case other
    with p2 show ?thesis by simp
  qed
  with commit show ?thesis by blast
qed

end
