(* ===== verification/Sync_Commit.thy ===== *)
theory Sync_Commit
  imports Sync_Facts Normalizer_Properties
begin

text \<open>
  Properties of one commit that the sync engine builds: the store's contract checks accept it when
  the batch comes from the normalizer, and its counts account for everything it writes. A failed run
  records the failure and nothing else, but it also writes back the cursor it started from.
\<close>

section \<open>Provenance\<close>

definition draft_of_run :: "SyncRun \<Rightarrow> CommitDraft \<Rightarrow> bool" where
  "draft_of_run run d \<longleftrightarrow>
     (\<forall>r\<in>set (cd_resources d). res_connection_id r = run_connection_id run \<and>
        res_last_sync_run_id r = run_id run) \<and>
     (\<forall>v\<in>set (cd_resource_versions d). rv_sync_run_id v = run_id run) \<and>
     (\<forall>r\<in>set (cd_relations d). \<exists>path.
        rel_evidence r = Provider (run_connection_id run) (run_id run) path)"

lemma read_resource_eq [res_simps]:
  "read_resource r = Inr r' \<longleftrightarrow> r' = r \<and> namespaced_ok (res_kind r) \<and>
     list_all (\<lambda>e. namespaced_ok (fst e)) (res_labels r) \<and> res_attribute_schema_version r \<noteq> 0 \<and>
     time_ok (res_first_seen_at r) \<and> time_ok (res_last_seen_at r) \<and> time_ok (res_last_changed_at r)"
  by (auto simp: read_resource_def)

lemma list_resources_spec:
  assumes "list_resources_for_scope db c scope = Inr rs"
  shows "rs = filter (\<lambda>r. res_connection_id r = c \<and> res_scope r = scope) (bt_values (db_resources db))"
proof -
  have "xs = ys" if "res_map read_resource xs = Inr ys" for xs ys
    using that by (induction xs arbitrary: ys) (auto simp: res_simps)
  with assms show ?thesis by (auto simp: list_resources_for_scope_def)
qed

text \<open>
  C1. A commit that the engine builds for a batch from the normalizer is finished and passes every
  check of \<open>validate_commit\<close>: the store cannot reject it for its provenance or its cursor.
\<close>

theorem engine_commit_passes_checks:
  assumes "normalize c nz request observations = Inr batch"
    and "(validate_handle handle (vb_connection_id batch) (vb_sync_run_id batch) ::
      StoreError SyncEngineError + unit) = Inr ()"
    and "build_commit store_reader db handle batch at = Inr commit"
  shows "validate_commit commit = Inr () \<and> run_status (sc_run commit) \<noteq> RunRunning \<and>
    run_finished_at (sc_run commit) = Some at"
proof -
  let ?run = "finished_run handle batch at"
  have h: "run_connection_id ?run = vb_connection_id batch" "run_id ?run = vb_sync_run_id batch"
    using assms(2) by (auto simp: validate_handle_def finished_run_def split: if_splits)
  note prov = normalize_batch_shape[OF assms(1)]
  have "\<exists>d missing. draft_of_run ?run d \<and> commit = \<lparr>sc_run = ?run\<lparr>run_counts := cd_counts d,
                run_warnings := map (\<lambda>w. \<lparr>warn_code = ow_code w, warn_message = ow_message w\<rparr>)
                  (vb_warnings batch)\<rparr>,
             sc_resources = cd_resources d, sc_resource_versions = cd_resource_versions d,
             sc_relations = cd_relations d, sc_relation_versions = cd_relation_versions d,
             sc_changes = cd_changes d, sc_cursor_after = vb_next_cursor batch,
             sc_missing_evidence = missing\<rparr>"
  proof (rule build_commit_draft[OF assms(3)])
    show "draft_of_run ?run (empty_draft batch)" by (simp add: draft_of_run_def empty_draft_def)
  next
    fix v d d'
    assume "v \<in> set (vb_resources batch)" "draft_of_run ?run d"
      "resource_observation store_reader db ?run v d = Inr d'"
    with prov h show "draft_of_run ?run d'"
      by (elim resource_observation_InrE) (auto simp: draft_of_run_def)
  next
    fix v d d'
    assume "v \<in> set (vb_relations batch)" "draft_of_run ?run d"
      "relation_observation store_reader db ?run v d = Inr d'"
    with prov h show "draft_of_run ?run d'"
      by (elim relation_observation_InrE) (auto simp: draft_of_run_def)
  next
    fix scope rs r st d st' d'
    assume rs: "sr_list_resources_for_scope store_reader db (run_connection_id (h_run handle)) scope = Inr rs"
      "r \<in> set rs" and d: "draft_of_run ?run d"
      "missing_resource ?run at r (st, d) =
        (Inr (st', d') :: StoreError SyncEngineError + MissingEvidenceState \<times> CommitDraft)"
    have "res_connection_id r = run_connection_id ?run"
      using rs list_resources_spec[of db "run_connection_id (h_run handle)" scope rs]
      by (auto simp: store_reader_def finished_run_def)
    with d(1) show "draft_of_run ?run d'"
      using d(2) by (elim missing_resource_InrE) (auto simp: draft_of_run_def tombstone_resource_def)
  qed
  then obtain d missing where d: "draft_of_run ?run d" and commit:
    "sc_run commit = ?run\<lparr>run_counts := cd_counts d,
                run_warnings := map (\<lambda>w. \<lparr>warn_code = ow_code w, warn_message = ow_message w\<rparr>)
                  (vb_warnings batch)\<rparr>"
    "sc_resources commit = cd_resources d" "sc_resource_versions commit = cd_resource_versions d"
    "sc_relations commit = cd_relations d" "sc_cursor_after commit = vb_next_cursor batch" by auto
  have "run_cursor_after ?run = vb_next_cursor batch" "run_status ?run \<noteq> RunRunning"
    "run_finished_at ?run = Some at" by (simp_all add: finished_run_def)
  with d commit show ?thesis
    by (auto simp: validate_commit_def Let_def draft_of_run_def list_ex_iff dest!: bspec)
qed

definition sample_handle :: SyncRunHandle where
  "sample_handle =
     \<lparr>h_run = sample_run\<lparr>run_id := ''run-1'', run_finished_at := None, run_status := RunRunning\<rparr>,
      h_scope = ''scope''\<rparr>"

theorem engine_commit_passes_checks_witness:
  "\<exists>commit. build_commit store_reader sample_store sample_handle sample_validated 9 = Inr commit \<and>
     validate_commit commit = Inr ()"
proof -
  have "is_ok (build_commit store_reader sample_store sample_handle sample_validated 9)" by code_simp
  then obtain commit where c: "build_commit store_reader sample_store sample_handle sample_validated 9 = Inr commit"
    by (auto simp: is_ok_iff)
  have "vb_connection_id sample_validated = ''c1'' \<and> vb_sync_run_id sample_validated = ''run-1''"
    using normalize_InrE[OF sample_normalize] by (metis sample_request_def ConnectionInput.select_convs(1) SyncRequest.select_convs(1,2))
  then have "(validate_handle sample_handle (vb_connection_id sample_validated) (vb_sync_run_id sample_validated) ::
      StoreError SyncEngineError + unit) = Inr ()"
    by (simp add: validate_handle_def sample_handle_def sample_run_def)
  from engine_commit_passes_checks[OF sample_normalize this c] c show ?thesis by blast
qed

section \<open>Accounting\<close>

definition draft_counted :: "CommitDraft \<Rightarrow> bool" where
  "draft_counted d \<longleftrightarrow>
     cnt_created (cd_counts d) + cnt_updated (cd_counts d) + cnt_unchanged (cd_counts d) =
       length (cd_resources d) + length (cd_relations d) \<and>
     length (cd_changes d) = cnt_created (cd_counts d) + cnt_updated (cd_counts d) \<and>
     length (cd_resource_versions d) + length (cd_relation_versions d) \<le> length (cd_changes d)"

lemma touched_cases:
  "existing = None \<Longrightarrow> resource_touched existing v" "fingerprint_changed existing v \<Longrightarrow> resource_touched existing v"
  "existing' = None \<Longrightarrow> relation_touched existing' latest w"
  "relation_changed existing' latest w \<Longrightarrow> relation_touched existing' latest w"
  by (auto simp: resource_touched_def fingerprint_changed_def relation_touched_def relation_changed_def)

text \<open>
  The counts of a finished run account for its commit: it read every item of the batch, every
  written resource and relation (the tombstones among them) is counted once as created, updated or
  unchanged, there is exactly one change for each created or updated one, and at most one version
  for each change.
\<close>

theorem build_commit_counts:
  fixes rd :: "('s, 'e) StoreReader"
  assumes "build_commit rd store handle batch at = Inr commit"
  shows "cnt_read (run_counts (sc_run commit)) = length (vb_resources batch) + length (vb_relations batch) \<and>
    cnt_warnings (run_counts (sc_run commit)) = length (vb_warnings batch) \<and>
    cnt_created (run_counts (sc_run commit)) + cnt_updated (run_counts (sc_run commit)) +
      cnt_unchanged (run_counts (sc_run commit)) = length (sc_resources commit) + length (sc_relations commit) \<and>
    length (sc_changes commit) =
      cnt_created (run_counts (sc_run commit)) + cnt_updated (run_counts (sc_run commit)) \<and>
    length (sc_resource_versions commit) + length (sc_relation_versions commit) \<le> length (sc_changes commit)"
proof -
  let ?run = "finished_run handle batch at"
  let ?P = "\<lambda>d. draft_counted d \<and>
    cnt_read (cd_counts d) = length (vb_resources batch) + length (vb_relations batch) \<and>
    cnt_warnings (cd_counts d) = length (vb_warnings batch)"
  have "\<exists>d missing. ?P d \<and> commit = \<lparr>sc_run = ?run\<lparr>run_counts := cd_counts d,
                run_warnings := map (\<lambda>w. \<lparr>warn_code = ow_code w, warn_message = ow_message w\<rparr>)
                  (vb_warnings batch)\<rparr>,
             sc_resources = cd_resources d, sc_resource_versions = cd_resource_versions d,
             sc_relations = cd_relations d, sc_relation_versions = cd_relation_versions d,
             sc_changes = cd_changes d, sc_cursor_after = vb_next_cursor batch,
             sc_missing_evidence = missing\<rparr>"
  proof (rule build_commit_draft[OF assms, where P = ?P])
    show "?P (empty_draft batch)" by (simp add: draft_counted_def empty_draft_def counts_default_def)
  next
    fix v d d'
    assume p: "?P d" and "resource_observation rd store ?run v d = Inr d'"
    from this(2) obtain i existing versions changes where
      d': "d' = d\<lparr>cd_resources := cd_resources d @ [project_resource v i ?run existing],
      cd_resource_versions := cd_resource_versions d @ versions, cd_changes := cd_changes d @ changes,
      cd_counts := count_observation (existing = None) (resource_touched existing v) (cd_counts d),
      cd_observed := bs_insert i (cd_observed d)\<rparr>"
      and l: "length versions = (if fingerprint_changed existing v then 1 else 0)"
        "length changes = (if resource_touched existing v then 1 else 0)"
      by (elim resource_observation_InrE) (rule that, assumption+)
    show "?P d'"
      using p l touched_cases(1,2)[of existing v]
      unfolding d' by (auto simp: draft_counted_def count_observation_def)
  next
    fix v d d'
    assume p: "?P d" and "relation_observation rd store ?run v d = Inr d'"
    from this(2) obtain i source target existing latest versions changes where
      d': "d' = d\<lparr>cd_relations := cd_relations d @ [project_relation v i source target existing],
      cd_relation_versions := cd_relation_versions d @ versions, cd_changes := cd_changes d @ changes,
      cd_counts := count_observation (existing = None) (relation_touched existing latest v) (cd_counts d)\<rparr>"
      and l: "length versions = (if relation_changed existing latest v then 1 else 0)"
        "length changes = (if relation_touched existing latest v then 1 else 0)"
      by (elim relation_observation_InrE) (rule that, assumption+)
    show "?P d'"
      using p l touched_cases(3,4)[of existing latest v]
      unfolding d' by (auto simp: draft_counted_def count_observation_def)
  next
    fix scope rs r st d st' d'
    assume p: "?P d" and "missing_resource ?run at r (st, d) =
        (Inr (st', d') :: 'e SyncEngineError + MissingEvidenceState \<times> CommitDraft)"
    from this(2) show "?P d'"
      using p by (cases rule: missing_resource_InrE) (auto simp: draft_counted_def)
  qed
  then show ?thesis by (auto simp: draft_counted_def)
qed

theorem build_commit_counts_witness:
  "\<exists>commit. build_commit store_reader sample_store sample_handle sample_validated 9 = Inr commit \<and>
     cnt_read (run_counts (sc_run commit)) = 3"
proof -
  have "is_ok (build_commit store_reader sample_store sample_handle sample_validated 9)" by code_simp
  then obtain commit where c: "build_commit store_reader sample_store sample_handle sample_validated 9 = Inr commit"
    by (auto simp: is_ok_iff)
  have "length (map (\<lambda>r. (key_external (vr_key r), vr_observed_at r)) (vb_resources sample_validated)) = 2"
    by (subst conjunct1[OF sample_validated_times]) simp
  then have "length (vb_resources sample_validated) = 2" "length (vb_relations sample_validated) = 1"
    using conjunct2[OF sample_validated_times] by (simp_all only: length_map)
  with build_commit_counts[OF c] c show ?thesis by auto
qed

section \<open>Failed runs\<close>

text \<open>
  Recording a failed run changes the run, the cursor and the revision and nothing else: no
  resource, version, relation or change is written, the missing evidence of every connection stays
  as it was, the run is failed with its error, and the stored cursor is the one the run started
  from.
\<close>

theorem engine_fail_effect:
  assumes "engine_fail (store_writer now) handle error at \<lparr>wq_store = db, wq_pending = []\<rparr> = (Inr result, q')"
  shows "\<exists>db' row state. q' = \<lparr>wq_store = db', wq_pending = []\<rparr> \<and>
    bt_get (db_sync_runs db') (run_id (h_run handle)) = Some row \<and>
    run_status row = RunFailed \<and> run_errors row = [error] \<and>
    bt_get (db_connector_state db') (run_connection_id (h_run handle)) = Some state \<and>
    cs_sync_cursor state = run_cursor_before (h_run handle) \<and>
    (\<forall>c scope. missing_evidence_state db' c scope = missing_evidence_state db c scope) \<and>
    db' = db\<lparr>db_sync_runs := db_sync_runs db', db_connector_state := db_connector_state db',
             db_projection := db_projection db'\<rparr> \<and>
    revision db' = revision db + 1"
proof -
  let ?commit = "failure_commit (h_run handle) error at"
  have empty: "sc_resources ?commit = []" "sc_resource_versions ?commit = []" "sc_relations ?commit = []"
    "sc_relation_versions ?commit = []" "sc_changes ?commit = []" "sc_missing_evidence ?commit = None"
    "run_id (sc_run ?commit) = run_id (h_run handle)"
    "run_connection_id (sc_run ?commit) = run_connection_id (h_run handle)"
    "sc_cursor_after ?commit = run_cursor_before (h_run handle)"
    by (simp_all add: failure_commit_def)
  from assms obtain db' r where c: "commit_sync now ?commit db = Inr (r, db')"
    and q': "q' = \<lparr>wq_store = db', wq_pending = []\<rparr>"
    by (auto simp: engine_fail_def submit_def flush_def enqueue_def store_writer_def store_call_def
        split: if_splits sum.splits prod.splits)
  from c obtain row p where
    row: "bt_get (db_sync_runs db) (run_id (h_run handle)) = Some row"
    and db': "db' = db\<lparr>db_sync_runs := bt_insert (run_id (h_run handle)) (completed row (sc_run ?commit)) (db_sync_runs db),
        db_connector_state := bt_insert (run_connection_id (h_run handle))
          \<lparr>cs_sync_cursor = run_cursor_before (h_run handle),
           cs_consecutive_missing = missing_evidence_json db ?commit\<rparr> (db_connector_state db),
        db_projection := Some \<lparr>pm_committed_revision = pm_committed_revision p + 1, pm_committed_at = now\<rparr>\<rparr>"
    and p: "db_projection db = Some p"
    by (auto simp: commit_sync_def res_simps empty complete_sync_run_def completed_def
        write_connector_state_def Let_def missing_evidence_json_def split: if_splits option.splits)
  have same: "missing_evidence_state db' c scope = missing_evidence_state db c scope" for c scope
    by (auto simp: missing_evidence_state_def db' bt_get_insert missing_evidence_json_def empty
        read_missing_evidence_state_def split: option.splits)
  have "run_status (completed row (sc_run ?commit)) = RunFailed"
    "run_errors (completed row (sc_run ?commit)) = [error]"
    by (simp_all add: completed_def failure_commit_def)
  then show ?thesis
    using same p by (auto simp: q' db' bt_get_insert revision_def)
qed

theorem engine_fail_effect_witness:
  "\<exists>result q'. engine_fail (store_writer 9)
       (sample_handle\<lparr>h_run := sample_run\<lparr>run_finished_at := None, run_status := RunRunning\<rparr>\<rparr>)
       (invalid_value ''e'') 8 \<lparr>wq_store = sample_store, wq_pending = []\<rparr> = (Inr result, q') \<and>
     db_resources (wq_store q') = db_resources sample_store"
proof -
  let ?h = "sample_handle\<lparr>h_run := sample_run\<lparr>run_finished_at := None, run_status := RunRunning\<rparr>\<rparr>"
  let ?r = "engine_fail (store_writer 9) ?h (invalid_value ''e'') 8 \<lparr>wq_store = sample_store, wq_pending = []\<rparr>"
  have "is_ok (fst ?r)" by code_simp
  then obtain result where "fst ?r = Inr result" by (auto simp: is_ok_iff)
  then obtain q' where r: "?r = (Inr result, q')" by (metis prod.collapse)
  from engine_fail_effect[OF r] obtain db' where
    "q' = \<lparr>wq_store = db', wq_pending = []\<rparr>"
    "db' = sample_store\<lparr>db_sync_runs := db_sync_runs db', db_connector_state := db_connector_state db',
             db_projection := db_projection db'\<rparr>" by blast
  then have "db_resources (wq_store q') = db_resources sample_store"
    by (metis (no_types, lifting) Database.select_convs(4) Database.surjective Database.update_convs(2,3,13) WriterQueue.select_convs(1))
  with r show ?thesis by blast
qed

definition overtaken_store :: Database where
  "overtaken_store = sample_store\<lparr>db_connector_state :=
     [(''c1'', \<lparr>cs_sync_cursor = Some ''page-2'', cs_consecutive_missing = []\<rparr>)]\<rparr>"

text \<open>
  So the claim that a failed run never clears connector progress does not hold when another run
  of the connection committed in between: here the run \<open>s2\<close> stored a cursor after \<open>s1\<close> started
  without one, and recording the failure of \<open>s1\<close> clears it.
\<close>

theorem engine_fail_clears_cursor:
  "sync_cursor overtaken_store ''c1'' = Inr (Some ''page-2'') \<and>
   sync_cursor (wq_store (snd (engine_fail (store_writer 9)
       \<lparr>h_run = sample_run\<lparr>run_finished_at := None, run_status := RunRunning\<rparr>, h_scope = ''a''\<rparr>
       (invalid_value ''timeout'') 8 \<lparr>wq_store = overtaken_store, wq_pending = []\<rparr>))) ''c1'' = Inr None"
  by (intro conjI) code_simp+

end
