(* ===== verification/Sync_Evidence.thy ===== *)
theory Sync_Evidence
  imports Sync_Facts
begin

text \<open>
  Missing evidence. An authoritative full run counts, for each resource of its scope that it did not
  observe, how often in a row that happened, and tombstones the resource at the second time. What this rests on in the
  store is the locale \<open>evidence_store\<close>.
\<close>

section \<open>Counts\<close>

lemma count_for_insert:
  "count_for (st\<lparr>mes_counts := bt_insert i n (mes_counts st)\<rparr>) j = (if j = i then n else count_for st j)"
  by (simp add: count_for_def bt_get_insert)

lemma count_for_remove:
  "count_for (st\<lparr>mes_counts := fold bt_remove xs (mes_counts st)\<rparr>) j = (if j \<in> set xs then 0 else count_for st j)"
proof -
  have "bt_get (fold bt_remove xs m) j = (if j \<in> set xs then None else bt_get m j)" for m :: "(ResourceId, 8 word) btree_map"
    by (induction xs arbitrary: m) (auto simp: bt_get_remove)
  then show ?thesis by (simp add: count_for_def)
qed

definition next_count :: "nat \<Rightarrow> nat" where
  "next_count n = min 2 (n + 1)"

lemma unat_min_word: "unat (min a b) = min (unat a) (unat b)"
  by (simp add: min_def word_le_nat_alt)

lemma bumped_count: "unat (count_for (bumped st i) j) = (if j = i then next_count (unat (count_for st i)) else unat (count_for st j))"
  by (simp add: bumped_def count_for_insert next_count_def unat_saturating_succ unat_min_word) linarith

lemma to_bury_iff: "to_bury st r \<longleftrightarrow> 1 \<le> unat (count_for st (res_id r)) \<and> res_lifecycle r \<noteq> Tombstoned"
  by (auto simp: to_bury_def word_le_nat_alt unat_saturating_succ)

lemma bumped_wf: "bt_wf (mes_counts st) \<Longrightarrow> bt_wf (mes_counts (bumped st i))"
  by (simp add: bumped_def bt_wf_insert)

lemma bumped_scope [simp]: "mes_scope (bumped st i) = mes_scope st"
  by (simp add: bumped_def)

lemma bt_wf_fold_remove: "bt_wf m \<Longrightarrow> bt_wf (fold bt_remove xs m)"
  by (induction xs arbitrary: m) (auto intro: bt_wf_remove)

section \<open>The loop over the scope\<close>

lemma tombstone_simps [simp]:
  "res_id (tombstone_resource r run at) = res_id r"
  "res_lifecycle (tombstone_resource r run at) = Tombstoned"
  by (simp_all add: tombstone_resource_def)

lemma missing_loop:
  fixes rs :: "Resource list"
  assumes "res_fold (missing_resource run at) rs (st, d) =
      (Inr (st', d') :: 'e SyncEngineError + MissingEvidenceState \<times> CommitDraft)"
    and "distinct (map res_id rs)" and "bt_wf (mes_counts st)"
  shows "bt_wf (mes_counts st') \<and> mes_scope st' = mes_scope st \<and>
    (\<forall>i. unat (count_for st' i) =
      (if i \<in> res_id ` set rs \<and> i \<notin> set (cd_observed d) then next_count (unat (count_for st i))
       else unat (count_for st i))) \<and>
    cd_resources d' = cd_resources d @ map (\<lambda>r. tombstone_resource r run at)
      (filter (\<lambda>r. res_id r \<notin> set (cd_observed d) \<and> to_bury st r) rs)"
  using assms
proof (induction rs arbitrary: st d)
  case Nil
  then show ?case by simp
next
  case (Cons r rs)
  from Cons.prems(1) obtain st1 d1 where one: "missing_resource run at r (st, d) =
      (Inr (st1, d1) :: 'e SyncEngineError + MissingEvidenceState \<times> CommitDraft)"
    and rest: "res_fold (missing_resource run at) rs (st1, d1) =
      (Inr (st', d') :: 'e SyncEngineError + MissingEvidenceState \<times> CommitDraft)"
    by (auto simp: res_simps)
  have same: "to_bury (bumped st (res_id r)) x = to_bury st x" if "x \<in> set rs" for x
  proof -
    have "res_id x \<noteq> res_id r" using Cons.prems(2) imageI[OF that, of res_id] by auto
    then show ?thesis by (simp add: to_bury_iff bumped_count)
  qed
  have filt: "filter (\<lambda>x. res_id x \<notin> obs \<and> to_bury (bumped st (res_id r)) x) rs =
      filter (\<lambda>x. res_id x \<notin> obs \<and> to_bury st x) rs" for obs
    by (rule filter_cong) (simp_all add: same)
  note ih = Cons.IH[OF rest]
  from one show ?case
  proof (cases rule: missing_resource_InrE)
    case observed
    with ih Cons.prems(2,3) show ?thesis by auto
  next
    case (buried h)
    with ih Cons.prems(2,3) show ?thesis by (auto simp: bumped_count bumped_wf filt)
  next
    case waiting
    with ih Cons.prems(2,3) show ?thesis by (auto simp: bumped_count bumped_wf filt)
  qed
qed

section \<open>The resources of a commit\<close>

text \<open>The resources that a batch observes, by their stable identifiers.\<close>

definition observes :: "ValidatedBatch \<Rightarrow> ResourceId \<Rightarrow> bool" where
  "observes batch i \<longleftrightarrow> (\<exists>v\<in>set (vb_resources batch). stable_resource_id (vr_key v) = Inr i)"

text \<open>A resource as some observation of it states it.\<close>

definition observed_as :: "ValidatedResource list \<Rightarrow> Resource \<Rightarrow> bool" where
  "observed_as vs r \<longleftrightarrow> res_lifecycle r = Active \<and>
     (\<exists>v\<in>set vs. stable_resource_id (vr_key v) = Inr (res_id r) \<and>
       res_connection_id r = key_connection (vr_key v) \<and> res_scope r = vr_scope v)"

definition draft_observed :: "ValidatedResource list \<Rightarrow> CommitDraft \<Rightarrow> bool" where
  "draft_observed vs d \<longleftrightarrow>
     (\<forall>i. i \<in> set (cd_observed d) \<longleftrightarrow> (\<exists>v\<in>set vs. stable_resource_id (vr_key v) = Inr i)) \<and>
     (\<forall>i. i \<in> set (cd_observed d) \<longleftrightarrow> i \<in> res_id ` set (cd_resources d)) \<and>
     (\<forall>r\<in>set (cd_resources d). observed_as vs r)"

lemma observation_loop:
  assumes "res_fold (resource_observation rd s run) vs d = Inr d'" and "draft_observed us d"
  shows "draft_observed (us @ vs) d'"
  using assms
proof (induction vs arbitrary: d us)
  case Nil
  then show ?case by simp
next
  case (Cons v vs)
  from Cons.prems(1) obtain d1 where d1: "resource_observation rd s run v d = Inr d1"
    "res_fold (resource_observation rd s run) vs d1 = Inr d'" by (auto simp: res_simps)
  from d1(1) obtain i existing versions changes where "stable_resource_id (vr_key v) = Inr i"
    "d1 = d\<lparr>cd_resources := cd_resources d @ [project_resource v i run existing],
      cd_resource_versions := cd_resource_versions d @ versions, cd_changes := cd_changes d @ changes,
      cd_counts := count_observation (existing = None) (resource_touched existing v) (cd_counts d),
      cd_observed := bs_insert i (cd_observed d)\<rparr>"
    by (elim resource_observation_InrE) (rule that, assumption+)
  with Cons.prems(2) have "draft_observed (us @ [v]) d1"
    by (auto simp: draft_observed_def observed_as_def project_resource_def Let_def)
  from Cons.IH[OF d1(2) this] show ?case by simp
qed

lemma relation_loop_frame:
  assumes "res_fold (relation_observation rd s run) vs d = Inr d'"
  shows "cd_resources d' = cd_resources d \<and> cd_observed d' = cd_observed d"
proof -
  have "(cd_resources d', cd_observed d') = (cd_resources d, cd_observed d)"
    by (rule res_fold_frame[OF assms]) (auto elim!: relation_observation_InrE)
  then show ?thesis by simp
qed

section \<open>The contract\<close>

locale evidence_store =
  fixes rd :: "('s, 'e) StoreReader" and w :: "('s, 'e) StoreWriter"
    and resources :: "'s \<Rightarrow> ResourceId \<Rightarrow> Resource option"
    and missing :: "'s \<Rightarrow> ConnectionId \<Rightarrow> Scope \<Rightarrow> ResourceId \<Rightarrow> nat"
    and inv :: "'s \<Rightarrow> bool"
  assumes list_law: "inv s \<Longrightarrow> sr_list_resources_for_scope rd s c scope = Inr rs \<Longrightarrow>
      distinct (map res_id rs) \<and> (\<forall>r. r \<in> set rs \<longleftrightarrow>
        resources s (res_id r) = Some r \<and> res_connection_id r = c \<and> res_scope r = scope)"
    and key_law: "inv s \<Longrightarrow> resources s i = Some r \<Longrightarrow> res_id r = i"
    and missing_law: "inv s \<Longrightarrow> sr_missing_evidence_state rd s c scope = Inr persisted \<Longrightarrow>
      (case persisted of None \<Rightarrow> \<forall>i. missing s c scope i = 0
       | Some st \<Rightarrow> mes_scope st = scope \<and> bt_wf (mes_counts st) \<and> (\<forall>i. missing s c scope i = unat (count_for st i)))"
    and commit_law: "inv s \<Longrightarrow> sw_commit_sync w commit s = Inr (result, s') \<Longrightarrow>
      \<forall>st. sc_missing_evidence commit = Some st \<longrightarrow> bt_wf (mes_counts st) \<Longrightarrow>
      inv s' \<and>
      (\<forall>i. i \<notin> res_id ` set (sc_resources commit) \<longrightarrow> resources s' i = resources s i) \<and>
      (\<forall>i. i \<in> res_id ` set (sc_resources commit) \<longrightarrow>
        (\<exists>r t. r \<in> set (sc_resources commit) \<and> res_id r = i \<and> resources s' i = Some (r\<lparr>res_first_seen_at := t\<rparr>))) \<and>
      (\<forall>c scope i. missing s' c scope i =
        (case sc_missing_evidence commit of
           None \<Rightarrow> missing s c scope i
         | Some st \<Rightarrow> if c = run_connection_id (sc_run commit) \<and> scope = mes_scope st
             then unat (count_for st i) else missing s c scope i))"
begin

lemma passed_full:
  assumes "missing_pass rd s run at (AuthoritativeFull scope) d = Inr (miss, d')" and "inv s"
    and "run_connection_id run = c"
  obtains st st1 rs where "miss = Some st" and "mes_scope st = scope" and "bt_wf (mes_counts st)"
    and "\<And>i. unat (count_for st1 i) = (if i \<in> set (cd_observed d) then 0 else missing s c scope i)"
    and "\<And>i. i \<in> res_id ` set rs \<longleftrightarrow>
      (\<exists>r. resources s i = Some r \<and> res_connection_id r = c \<and> res_scope r = scope)"
    and "\<And>r. r \<in> set rs \<Longrightarrow> resources s (res_id r) = Some r"
    and "\<And>i. unat (count_for st i) =
      (if i \<in> res_id ` set rs \<and> i \<notin> set (cd_observed d) then next_count (unat (count_for st1 i))
       else unat (count_for st1 i))"
    and "cd_resources d' = cd_resources d @ map (\<lambda>r. tombstone_resource r run at)
      (filter (\<lambda>r. res_id r \<notin> set (cd_observed d) \<and> to_bury st1 r) rs)"
proof -
  from assms(1,3) obtain persisted rs st where pass:
    "sr_missing_evidence_state rd s c scope = Inr persisted"
    "sr_list_resources_for_scope rd s c scope = Inr rs"
    "res_fold (missing_resource run at) rs
        ((case persisted of None \<Rightarrow> missing_new scope | Some s \<Rightarrow> s)
          \<lparr>mes_counts := fold bt_remove (cd_observed d)
            (mes_counts (case persisted of None \<Rightarrow> missing_new scope | Some s \<Rightarrow> s))\<rparr>, d) =
        (Inr (st, d') :: 'e SyncEngineError + MissingEvidenceState \<times> CommitDraft)"
    "miss = Some st"
    by (auto elim!: missing_pass_cases)
  let ?st0 = "case persisted of None \<Rightarrow> missing_new scope | Some s \<Rightarrow> s"
  let ?st1 = "?st0\<lparr>mes_counts := fold bt_remove (cd_observed d) (mes_counts ?st0)\<rparr>"
  have st0: "mes_scope ?st0 = scope" "bt_wf (mes_counts ?st0)" "\<And>i. unat (count_for ?st0 i) = missing s c scope i"
    using missing_law[OF assms(2) pass(1)]
    by (auto simp: missing_new_def count_for_def split: option.splits)
  have wf1: "bt_wf (mes_counts ?st1)" using bt_wf_fold_remove[OF st0(2)] by simp
  have count1: "unat (count_for ?st1 i) = (if i \<in> set (cd_observed d) then 0 else missing s c scope i)" for i
    using st0(3) by (simp add: count_for_remove)
  note ls = list_law[OF assms(2) pass(2)]
  note loop = missing_loop[OF pass(3) conjunct1[OF ls] wf1]
  have in_rs: "i \<in> res_id ` set rs \<longleftrightarrow>
      (\<exists>r. resources s i = Some r \<and> res_connection_id r = c \<and> res_scope r = scope)" for i
    using conjunct2[OF ls] key_law[OF assms(2)] by (metis (no_types, lifting) image_iff)
  show thesis
    by (rule that[of st ?st1 rs]) (use pass(4) loop st0(1) count1 in_rs ls in simp_all)
qed

lemma observed_drafts:
  assumes "res_fold (resource_observation rd s run) (vb_resources batch) (empty_draft batch) = Inr d1"
    and "res_fold (relation_observation rd s run) (vb_relations batch) d1 = Inr d2"
  shows "(\<forall>i. i \<in> set (cd_observed d2) \<longleftrightarrow> observes batch i) \<and>
    (\<forall>i. i \<in> res_id ` set (cd_resources d2) \<longleftrightarrow> observes batch i) \<and>
    (\<forall>r\<in>set (cd_resources d2). observed_as (vb_resources batch) r)"
proof -
  have "draft_observed ([] @ vb_resources batch) d1"
    by (rule observation_loop[OF assms(1)]) (simp add: draft_observed_def empty_draft_def)
  then show ?thesis
    unfolding draft_observed_def observes_def append_Nil relation_loop_frame[OF assms(2), THEN conjunct1]
      relation_loop_frame[OF assms(2), THEN conjunct2] by (elim conjE) (intro conjI; simp)
qed

lemma buried_ids:
  assumes "\<And>i. i \<in> res_id ` set rs \<longleftrightarrow>
      (\<exists>r. resources s i = Some r \<and> res_connection_id r = c \<and> res_scope r = scope)"
    and "\<And>r. r \<in> set rs \<Longrightarrow> resources s (res_id r) = Some r"
    and "\<And>r. \<not> observed (res_id r) \<Longrightarrow> B r \<longleftrightarrow> 1 \<le> missing s c scope (res_id r) \<and> res_lifecycle r \<noteq> Tombstoned"
  shows "i \<in> res_id ` set (map (\<lambda>r. tombstone_resource r run at)
      (filter (\<lambda>r. \<not> observed (res_id r) \<and> B r) rs)) \<longleftrightarrow>
    \<not> observed i \<and> (\<exists>r. resources s i = Some r \<and> res_connection_id r = c \<and> res_scope r = scope \<and>
      1 \<le> missing s c scope i \<and> res_lifecycle r \<noteq> Tombstoned)" (is "?L \<longleftrightarrow> ?R")
proof
  assume ?L
  then obtain r where r: "r \<in> set rs" "res_id r = i" "\<not> observed (res_id r)" "B r" by auto
  with assms(1)[of i] assms(2)[OF r(1)] assms(3)[OF r(3)] show ?R by auto
next
  assume ?R
  then obtain r where r: "resources s i = Some r" "\<not> observed i" "res_connection_id r = c" "res_scope r = scope"
    "1 \<le> missing s c scope i" "res_lifecycle r \<noteq> Tombstoned" by blast
  from assms(1)[of i] r(1,3,4) obtain x where x: "x \<in> set rs" "res_id x = i" by auto
  with assms(2)[OF x(1)] r(1) have "x = r" by simp
  with x r assms(3)[of r] have "res_id (tombstone_resource x run at) = i"
    "x \<in> set (filter (\<lambda>r. \<not> observed (res_id r) \<and> B r) rs)" by simp_all
  then show ?L
    unfolding set_map by (intro image_eqI[where x = "tombstone_resource x run at"] imageI) simp_all
qed

lemma built_full:
  assumes "build_commit rd s handle batch at = Inr commit" and "inv s"
    and "vb_coverage batch = AuthoritativeFull scope" and "run_connection_id (h_run handle) = c"
  obtains st where "sc_missing_evidence commit = Some st" and "mes_scope st = scope" and "bt_wf (mes_counts st)"
    and "run_connection_id (sc_run commit) = c"
    and "\<And>i. unat (count_for st i) =
      (if observes batch i then 0
       else if \<exists>r. resources s i = Some r \<and> res_connection_id r = c \<and> res_scope r = scope
       then next_count (missing s c scope i) else missing s c scope i)"
    and "\<And>r. r \<in> set (sc_resources commit) \<Longrightarrow>
      if observes batch (res_id r) then observed_as (vb_resources batch) r
      else \<exists>old at. resources s (res_id r) = Some old \<and> r = tombstone_resource old (finished_run handle batch at) at"
    and "\<And>i. i \<in> res_id ` set (sc_resources commit) \<longleftrightarrow> observes batch i \<or>
      (\<exists>r. resources s i = Some r \<and> res_connection_id r = c \<and> res_scope r = scope \<and>
        1 \<le> missing s c scope i \<and> res_lifecycle r \<noteq> Tombstoned)"
proof -
  let ?run = "finished_run handle batch at"
  from assms(1) obtain d1 d2 d3 miss where
    l1: "res_fold (resource_observation rd s ?run) (vb_resources batch) (empty_draft batch) = Inr d1"
    and l2: "res_fold (relation_observation rd s ?run) (vb_relations batch) d1 = Inr d2"
    and l3: "missing_pass rd s ?run at (vb_coverage batch) d2 = Inr (miss, d3)"
    and commit: "sc_missing_evidence commit = miss" "sc_resources commit = cd_resources d3"
      "run_connection_id (sc_run commit) = run_connection_id ?run"
    by (elim build_commit_InrE) (rule that, assumption+, simp_all)
  have conn: "run_connection_id ?run = c" by (simp add: finished_run_def assms(4))
  note drafts = observed_drafts[OF l1 l2]
  note obs = drafts[THEN conjunct1, rule_format]
  note written = drafts[THEN conjunct2, THEN conjunct1, rule_format]
  note active = drafts[THEN conjunct2, THEN conjunct2, rule_format]
  obtain st st1 rs where p: "miss = Some st" "mes_scope st = scope" "bt_wf (mes_counts st)"
    and c1: "\<And>i. unat (count_for st1 i) = (if observes batch i then 0 else missing s c scope i)"
    and in_rs: "\<And>i. i \<in> res_id ` set rs \<longleftrightarrow>
      (\<exists>r. resources s i = Some r \<and> res_connection_id r = c \<and> res_scope r = scope)"
    and rs: "\<And>r. r \<in> set rs \<Longrightarrow> resources s (res_id r) = Some r"
    and c2: "\<And>i. unat (count_for st i) =
      (if i \<in> res_id ` set rs \<and> \<not> observes batch i then next_count (unat (count_for st1 i))
       else unat (count_for st1 i))"
    and res: "cd_resources d3 = cd_resources d2 @ map (\<lambda>r. tombstone_resource r ?run at)
      (filter (\<lambda>r. \<not> observes batch (res_id r) \<and> to_bury st1 r) rs)"
    by (rule passed_full[OF l3[unfolded assms(3)] assms(2) conn, unfolded obs]) (rule that; assumption)
  have bury: "to_bury st1 r \<longleftrightarrow> 1 \<le> missing s c scope (res_id r) \<and> res_lifecycle r \<noteq> Tombstoned"
    if "\<not> observes batch (res_id r)" for r
    using that by (simp add: to_bury_iff c1)
  have life: "if observes batch (res_id r) then observed_as (vb_resources batch) r
      else \<exists>old at. resources s (res_id r) = Some old \<and> r = tombstone_resource old (finished_run handle batch at) at"
    if "r \<in> set (sc_resources commit)" for r
    using that active written rs unfolding commit(2) res by fastforce
  have ids: "i \<in> res_id ` set (sc_resources commit) \<longleftrightarrow> observes batch i \<or>
      (\<exists>r. resources s i = Some r \<and> res_connection_id r = c \<and> res_scope r = scope \<and>
        1 \<le> missing s c scope i \<and> res_lifecycle r \<noteq> Tombstoned)" for i
    unfolding commit(2) res set_append image_Un Un_iff written
    using buried_ids[of rs s c scope "observes batch" "to_bury st1" i ?run at, OF in_rs rs bury] by blast
  have counts: "unat (count_for st i) =
      (if observes batch i then 0
       else if \<exists>r. resources s i = Some r \<and> res_connection_id r = c \<and> res_scope r = scope
       then next_count (missing s c scope i) else missing s c scope i)" for i
    unfolding c2 c1 in_rs by (simp only: split: if_split) blast
  show thesis
    by (rule that[OF commit(1)[unfolded p(1)] p(2,3) commit(3)[unfolded conn] counts life ids])
qed

text \<open>Whether a resource is known in a scope.\<close>

definition known_in :: "'s \<Rightarrow> ConnectionId \<Rightarrow> Scope \<Rightarrow> ResourceId \<Rightarrow> bool" where
  "known_in s c scope i \<longleftrightarrow>
     (\<exists>r. resources s i = Some r \<and> res_connection_id r = c \<and> res_scope r = scope)"

lemma full_effect:
  assumes "build_commit rd s handle batch at = Inr commit" and "inv s"
    and "vb_coverage batch = AuthoritativeFull scope" and "run_connection_id (h_run handle) = c"
    and "sw_commit_sync w commit s = Inr (result, s')"
  shows "inv s' \<and>
    (\<forall>i. missing s' c scope i =
      (if observes batch i then 0
       else if known_in s c scope i then next_count (missing s c scope i) else missing s c scope i)) \<and>
    (\<forall>i. if observes batch i then \<exists>r. resources s' i = Some r \<and> observed_as (vb_resources batch) r
      else if known_in s c scope i \<and> 1 \<le> missing s c scope i \<and>
        (\<exists>r. resources s i = Some r \<and> res_lifecycle r \<noteq> Tombstoned)
      then \<exists>r old. resources s i = Some old \<and> resources s' i = Some r \<and> res_lifecycle r = Tombstoned \<and>
        res_connection_id r = res_connection_id old \<and> res_scope r = res_scope old
      else resources s' i = resources s i)"
proof -
  from assms(1-4) obtain st where st: "sc_missing_evidence commit = Some st" "mes_scope st = scope"
      "bt_wf (mes_counts st)" "run_connection_id (sc_run commit) = c"
    and counts: "\<And>i. unat (count_for st i) =
      (if observes batch i then 0
       else if \<exists>r. resources s i = Some r \<and> res_connection_id r = c \<and> res_scope r = scope
       then next_count (missing s c scope i) else missing s c scope i)"
    and life: "\<And>r. r \<in> set (sc_resources commit) \<Longrightarrow>
      if observes batch (res_id r) then observed_as (vb_resources batch) r
      else \<exists>old at. resources s (res_id r) = Some old \<and> r = tombstone_resource old (finished_run handle batch at) at"
    and ids: "\<And>i. i \<in> res_id ` set (sc_resources commit) \<longleftrightarrow> observes batch i \<or>
      (\<exists>r. resources s i = Some r \<and> res_connection_id r = c \<and> res_scope r = scope \<and>
        1 \<le> missing s c scope i \<and> res_lifecycle r \<noteq> Tombstoned)"
    by (rule built_full) (rule that; assumption)
  note law = commit_law[OF assms(2,5), unfolded st(1)]
  have law: "inv s'" "\<And>i. i \<notin> res_id ` set (sc_resources commit) \<Longrightarrow> resources s' i = resources s i"
    "\<And>i. i \<in> res_id ` set (sc_resources commit) \<Longrightarrow>
      \<exists>r t. r \<in> set (sc_resources commit) \<and> res_id r = i \<and> resources s' i = Some (r\<lparr>res_first_seen_at := t\<rparr>)"
    "missing s' c scope i = unat (count_for st i)" for i
    using law st by simp_all
  have "if observes batch i then \<exists>r. resources s' i = Some r \<and> observed_as (vb_resources batch) r
      else if known_in s c scope i \<and> 1 \<le> missing s c scope i \<and>
        (\<exists>r. resources s i = Some r \<and> res_lifecycle r \<noteq> Tombstoned)
      then \<exists>r old. resources s i = Some old \<and> resources s' i = Some r \<and> res_lifecycle r = Tombstoned \<and>
        res_connection_id r = res_connection_id old \<and> res_scope r = res_scope old
      else resources s' i = resources s i" for i
  proof (cases "i \<in> res_id ` set (sc_resources commit)")
    case True
    from law(3)[OF this] obtain r t where r: "r \<in> set (sc_resources commit)" "res_id r = i"
      "resources s' i = Some (r\<lparr>res_first_seen_at := t\<rparr>)" by blast
    show ?thesis
    proof (cases "observes batch i")
      case True
      with life[OF r(1)] r show ?thesis by (auto simp: observed_as_def)
    next
      case False
      with life[OF r(1)] r ids[of i] \<open>i \<in> _\<close> show ?thesis
        by (auto simp: known_in_def tombstone_resource_def)
    qed
  next
    case False
    with law(2)[OF this] ids[of i] show ?thesis by (auto simp: known_in_def)
  qed
  then show ?thesis using law(1,4) counts by (simp add: known_in_def)
qed

lemma partial_effect:
  assumes "build_commit rd s handle batch at = Inr commit" and "inv s"
    and "\<not> contributes_missing_evidence (vb_coverage batch)"
    and "sw_commit_sync w commit s = Inr (result, s')"
  shows "inv s' \<and> (\<forall>c scope i. missing s' c scope i = missing s c scope i) \<and>
    (\<forall>i. if observes batch i then \<exists>r. resources s' i = Some r \<and> observed_as (vb_resources batch) r
      else resources s' i = resources s i)"
proof -
  let ?run = "finished_run handle batch at"
  from assms(1) obtain d1 d2 d3 miss where
    l1: "res_fold (resource_observation rd s ?run) (vb_resources batch) (empty_draft batch) = Inr d1"
    and l2: "res_fold (relation_observation rd s ?run) (vb_relations batch) d1 = Inr d2"
    and l3: "missing_pass rd s ?run at (vb_coverage batch) d2 = Inr (miss, d3)"
    and commit: "sc_missing_evidence commit = miss" "sc_resources commit = cd_resources d3"
    by (elim build_commit_InrE) (rule that, assumption+, simp_all)
  from l3 assms(3) have none: "miss = None" "d3 = d2" by (auto elim!: missing_pass_cases)
  note drafts = observed_drafts[OF l1 l2]
  have law: "inv s'" "\<And>i. i \<notin> res_id ` set (sc_resources commit) \<Longrightarrow> resources s' i = resources s i"
    "\<And>i. i \<in> res_id ` set (sc_resources commit) \<Longrightarrow>
      \<exists>r t. r \<in> set (sc_resources commit) \<and> res_id r = i \<and> resources s' i = Some (r\<lparr>res_first_seen_at := t\<rparr>)"
    "missing s' c scope i = missing s c scope i" for c scope i
    using commit_law[OF assms(2,4)] commit(1) none by simp_all
  have "if observes batch i then \<exists>r. resources s' i = Some r \<and> observed_as (vb_resources batch) r
      else resources s' i = resources s i" for i
  proof (cases "observes batch i")
    case True
    with drafts commit none have "i \<in> res_id ` set (sc_resources commit)" by simp
    from law(3)[OF this] obtain r t where "r \<in> set (sc_resources commit)" "res_id r = i"
      "resources s' i = Some (r\<lparr>res_first_seen_at := t\<rparr>)" by blast
    with True drafts commit none show ?thesis by (auto simp: observed_as_def)
  next
    case False
    with drafts commit none have "i \<notin> res_id ` set (sc_resources commit)" by simp
    with False law(2) show ?thesis by simp
  qed
  with law(1,4) show ?thesis by blast
qed

end

end
