(* ===== verification/Sync_Missing.thy ===== *)
theory Sync_Missing
  imports Sync_Evidence Sync_Commit
begin

text \<open>
  The missing evidence that the SQLite store keeps in \<open>connector_state\<close>, and what the sync runs do to
  it: the interpretation of \<open>evidence_store\<close> on the store, the effect of a full and of a partial
  run, and the life of a resource over a history of full runs.
\<close>

section \<open>The stored counts\<close>

definition missing_count :: "Database \<Rightarrow> ConnectionId \<Rightarrow> Scope \<Rightarrow> ResourceId \<Rightarrow> nat" where
  "missing_count db c scope i =
     (case bt_get (db_connector_state db) c of
        None \<Rightarrow> 0
      | Some state \<Rightarrow>
          (case bt_get (cs_consecutive_missing state) scope of
             None \<Rightarrow> 0
           | Some counts \<Rightarrow> (case bt_get counts i of None \<Rightarrow> 0 | Some n \<Rightarrow> unat n)))"

text \<open>The counts of every scope are a sorted map, as \<open>BTreeMap\<close> serializes them.\<close>

definition counts_ok :: "Database \<Rightarrow> bool" where
  "counts_ok db \<longleftrightarrow>
     (\<forall>c state scope counts. bt_get (db_connector_state db) c = Some state \<longrightarrow>
        bt_get (cs_consecutive_missing state) scope = Some counts \<longrightarrow> bt_wf counts)"

definition evidence_ok :: "Database \<Rightarrow> bool" where
  "evidence_ok db \<longleftrightarrow> db_ok db \<and> counts_ok db"

lemma unat_count_for: "unat (count_for st i) = (case bt_get (mes_counts st) i of None \<Rightarrow> 0 | Some n \<Rightarrow> unat n)"
  by (simp add: count_for_def split: option.split)

lemma bt_of_list_id:
  assumes "bt_wf m"
  shows "bt_of_list m = m"
proof -
  have "bt_wf (fold (\<lambda>(k, v). bt_insert k v) xs n) \<and> bt_get (fold (\<lambda>(k, v). bt_insert k v) xs n) j =
      (case bt_get xs j of None \<Rightarrow> bt_get n j | Some v \<Rightarrow> Some v)"
    if "bt_wf n" "bt_wf xs" for xs n :: "('a, 'b) btree_map" and j
    using that
  proof (induction xs arbitrary: n)
    case Nil
    then show ?case by simp
  next
    case (Cons e xs)
    obtain k v where e: "e = (k, v)" by (cases e)
    with Cons.prems have wf: "bt_wf xs" and "k \<notin> fst ` set xs" by (auto simp: bt_wf_Cons)
    then have "bt_get xs k = None" by (simp add: bt_get_None_iff)
    with Cons.IH[OF bt_wf_insert[OF Cons.prems(1), of k v] wf] e show ?case
      by (auto simp: bt_get_insert split: option.split)
  qed
  from this[OF bt_wf_Nil assms] show ?thesis
    unfolding bt_of_list_def by (intro bt_wf_ext) (auto simp: assms split: option.split)
qed

lemma read_missing_counts:
  assumes "read_missing_evidence_state persisted scope = Inr (Some st)"
    and "bt_get persisted scope = Some counts" and "bt_wf counts"
  shows "mes_scope st = scope \<and> mes_counts st = counts"
proof -
  have same: "ys = xs" if "res_map (\<lambda>(resource_id, count).
      map_err domain_error (map_ok (\<lambda>i. (i, count)) (string_value_new ''ResourceId'' resource_id))) xs = Inr ys"
    for xs ys :: "(string \<times> 8 word) list"
    using that by (induction xs arbitrary: ys) (auto simp: res_simps)
  from assms(1,2) obtain x where "res_map (\<lambda>(resource_id, count).
      map_err domain_error (map_ok (\<lambda>i. (i, count)) (string_value_new ''ResourceId'' resource_id))) counts = Inr x"
    "st = missing_with_counts scope (bt_of_list x)"
    by (auto simp: read_missing_evidence_state_def res_bind_eq_Inr)
  with same[OF this(1)] assms(3) show ?thesis
    by (simp add: missing_with_counts_def bt_of_list_id)
qed

lemma stored_missing:
  assumes "missing_evidence_state db c scope = Inr persisted" and "counts_ok db"
  shows "case persisted of None \<Rightarrow> \<forall>i. missing_count db c scope i = 0
    | Some st \<Rightarrow> mes_scope st = scope \<and> bt_wf (mes_counts st) \<and>
        (\<forall>i. missing_count db c scope i = unat (count_for st i))"
proof (cases persisted)
  case None
  with assms(1) show ?thesis
    by (auto simp: missing_evidence_state_def read_missing_evidence_state_def missing_count_def
        res_bind_eq_Inr split: option.splits)
next
  case (Some st)
  with assms(1) obtain state counts where s: "bt_get (db_connector_state db) c = Some state"
    "read_missing_evidence_state (cs_consecutive_missing state) scope = Inr (Some st)"
    "bt_get (cs_consecutive_missing state) scope = Some counts"
    by (auto simp: missing_evidence_state_def read_missing_evidence_state_def split: option.splits)
  have wf: "bt_wf counts" using assms(2) s(1,3) unfolding counts_ok_def by blast
  from read_missing_counts[OF s(2,3) wf] Some s wf show ?thesis
    by (simp add: missing_count_def unat_count_for)
qed

lemma listed_resources:
  assumes "list_resources_for_scope db c scope = Inr rs" and "db_ok db"
  shows "distinct (map res_id rs) \<and> (\<forall>r. r \<in> set rs \<longleftrightarrow>
    bt_get (db_resources db) (res_id r) = Some r \<and> res_connection_id r = c \<and> res_scope r = scope)"
proof -
  have ok: "table_ok res_id (db_resources db)" using assms(2) by (simp add: db_ok_def tables_ok_def)
  note rs = list_resources_spec[OF assms(1)]
  have "map res_id (bt_values (db_resources db)) = map fst (db_resources db)"
    using ok by (auto simp: table_ok_def bt_values_def bt_mem_iff)
  then have "distinct (map res_id (bt_values (db_resources db)))"
    using bt_wf_distinct[OF table_ok_wf[OF ok]] by simp
  then have "distinct (map res_id rs)" unfolding rs by (rule distinct_map_filter)
  with ok show ?thesis by (auto simp: rs table_ok_values)
qed

lemma committed_missing:
  assumes "commit_sync now commit db = Inr (result, db')"
  shows "missing_count db' c scope i =
    (case sc_missing_evidence commit of
       None \<Rightarrow> missing_count db c scope i
     | Some st \<Rightarrow> if c = run_connection_id (sc_run commit) \<and> scope = mes_scope st
         then unat (count_for st i) else missing_count db c scope i)"
proof -
  from assms have "db_connector_state db' = bt_insert (run_connection_id (sc_run commit))
      \<lparr>cs_sync_cursor = sc_cursor_after commit,
       cs_consecutive_missing = missing_evidence_json db commit\<rparr> (db_connector_state db)"
    by (elim commit_sync_tables)
  then show ?thesis
    by (auto simp: missing_count_def missing_evidence_json_def bt_get_insert unat_count_for
        split: option.splits)
qed

lemma committed_counts_ok:
  assumes "commit_sync now commit db = Inr (result, db')" and "counts_ok db"
    and "\<forall>st. sc_missing_evidence commit = Some st \<longrightarrow> bt_wf (mes_counts st)"
  shows "counts_ok db'"
proof -
  from assms(1) have "db_connector_state db' = bt_insert (run_connection_id (sc_run commit))
      \<lparr>cs_sync_cursor = sc_cursor_after commit,
       cs_consecutive_missing = missing_evidence_json db commit\<rparr> (db_connector_state db)"
    by (elim commit_sync_tables)
  with assms(2,3) show ?thesis
    by (auto simp: counts_ok_def missing_evidence_json_def bt_get_insert split: option.splits if_splits)
qed

interpretation sqlite_evidence: evidence_store store_reader "store_writer now"
    "\<lambda>db. bt_get (db_resources db)" missing_count evidence_ok for now
proof unfold_locales
  fix db c scope rs
  assume "evidence_ok db" "sr_list_resources_for_scope store_reader db c scope = Inr rs"
  then show "distinct (map res_id rs) \<and> (\<forall>r. r \<in> set rs \<longleftrightarrow>
      bt_get (db_resources db) (res_id r) = Some r \<and> res_connection_id r = c \<and> res_scope r = scope)"
    by (intro listed_resources) (simp_all add: store_reader_def evidence_ok_def)
next
  fix db i r
  assume "evidence_ok db" "bt_get (db_resources db) i = Some r"
  then show "res_id r = i"
    by (auto simp: evidence_ok_def db_ok_def tables_ok_def dest: table_ok_key)
next
  fix db c scope persisted
  assume "evidence_ok db" "sr_missing_evidence_state store_reader db c scope = Inr persisted"
  then show "case persisted of None \<Rightarrow> \<forall>i. missing_count db c scope i = 0
    | Some st \<Rightarrow> mes_scope st = scope \<and> bt_wf (mes_counts st) \<and>
        (\<forall>i. missing_count db c scope i = unat (count_for st i))"
    by (intro stored_missing) (simp_all add: store_reader_def evidence_ok_def)
next
  fix db commit result db'
  assume ok: "evidence_ok db" and c: "sw_commit_sync (store_writer now) commit db = Inr (result, db')"
    and wf: "\<forall>st. sc_missing_evidence commit = Some st \<longrightarrow> bt_wf (mes_counts st)"
  from c have c: "commit_sync now commit db = Inr (result, db')" by (simp add: store_writer_def)
  from c obtain db1 db2 where u: "db_resources db1 = db_resources db"
    "res_fold upsert_resource (sc_resources commit) db1 = Inr db2" "db_resources db' = db_resources db2"
    by (elim commit_sync_tables) (rule that; assumption)
  have "evidence_ok db'"
    using ok c wf by (auto simp: evidence_ok_def intro: commit_sync_ok committed_counts_ok)
  moreover have "\<forall>i. i \<notin> res_id ` set (sc_resources commit) \<longrightarrow>
      bt_get (db_resources db') i = bt_get (db_resources db) i"
    using upsert_resources_some[OF u(2)] by (metis u(1,3))
  moreover have "\<forall>i. i \<in> res_id ` set (sc_resources commit) \<longrightarrow>
      (\<exists>r t. r \<in> set (sc_resources commit) \<and> res_id r = i \<and>
        bt_get (db_resources db') i = Some (r\<lparr>res_first_seen_at := t\<rparr>))"
    using upsert_resources_some[OF u(2)] by (metis u(3))
  ultimately show "evidence_ok db' \<and>
      (\<forall>i. i \<notin> res_id ` set (sc_resources commit) \<longrightarrow>
        bt_get (db_resources db') i = bt_get (db_resources db) i) \<and>
      (\<forall>i. i \<in> res_id ` set (sc_resources commit) \<longrightarrow>
        (\<exists>r t. r \<in> set (sc_resources commit) \<and> res_id r = i \<and>
          bt_get (db_resources db') i = Some (r\<lparr>res_first_seen_at := t\<rparr>))) \<and>
      (\<forall>c scope i. missing_count db' c scope i =
        (case sc_missing_evidence commit of
           None \<Rightarrow> missing_count db c scope i
         | Some st \<Rightarrow> if c = run_connection_id (sc_run commit) \<and> scope = mes_scope st
             then unat (count_for st i) else missing_count db c scope i))"
    using committed_missing[OF c] by blast
qed

section \<open>The effect of a run\<close>

lemma engine_commit_InrE:
  assumes "engine_commit rd w handle batch at \<lparr>wq_store = s, wq_pending = []\<rparr> = (Inr result, q')"
  obtains commit s' where "build_commit rd s handle batch at = Inr commit"
    and "sw_commit_sync w commit s = Inr (result, s')" and "q' = \<lparr>wq_store = s', wq_pending = []\<rparr>"
  using assms
  by (auto simp: engine_commit_def submit_def flush_def enqueue_def store_call_def res_bind_eq_Inr
      split: sum.splits prod.splits)

text \<open>Whether the store knows a resource in a scope of a connection.\<close>

definition in_scope :: "Database \<Rightarrow> ConnectionId \<Rightarrow> Scope \<Rightarrow> ResourceId \<Rightarrow> bool" where
  "in_scope db c scope i =
     (case bt_get (db_resources db) i of None \<Rightarrow> False
      | Some r \<Rightarrow> res_connection_id r = c \<and> res_scope r = scope)"

lemma known_in_scope: "sqlite_evidence.known_in = in_scope"
  by (intro ext) (auto simp: sqlite_evidence.known_in_def in_scope_def split: option.split)

definition lifecycle_of :: "Database \<Rightarrow> ResourceId \<Rightarrow> Lifecycle option" where
  "lifecycle_of db i = map_option res_lifecycle (bt_get (db_resources db) i)"

text \<open>
  C16. An authoritative full run settles its whole scope. What it observes is active with no missing
  evidence. What it does not observe there has one more missing run, counted up to two. At
  the second one in a row the resource becomes tombstoned; every other resource of the store keeps its row.
\<close>

theorem authoritative_run_effect:
  assumes "engine_commit store_reader (store_writer now) handle batch at \<lparr>wq_store = db, wq_pending = []\<rparr>
      = (Inr result, q')"
    and "evidence_ok db" and "vb_coverage batch = AuthoritativeFull scope"
    and "run_connection_id (h_run handle) = c"
  shows "\<exists>db'. q' = \<lparr>wq_store = db', wq_pending = []\<rparr> \<and> evidence_ok db' \<and>
    (\<forall>i. missing_count db' c scope i =
      (if observes batch i then 0
       else if in_scope db c scope i then min 2 (missing_count db c scope i + 1)
       else missing_count db c scope i)) \<and>
    (\<forall>i. if observes batch i then lifecycle_of db' i = Some Active
      else if in_scope db c scope i \<and> 1 \<le> missing_count db c scope i then lifecycle_of db' i = Some Tombstoned
      else bt_get (db_resources db') i = bt_get (db_resources db) i)"
proof -
  from assms(1) obtain commit db' where
    b: "build_commit store_reader db handle batch at = Inr commit"
    and c: "sw_commit_sync (store_writer now) commit db = Inr (result, db')"
    and q': "q' = \<lparr>wq_store = db', wq_pending = []\<rparr>"
    by (elim engine_commit_InrE) (rule that; assumption)
  note effect = sqlite_evidence.full_effect[OF b assms(2-4) c, unfolded known_in_scope]
  note rows = effect[THEN conjunct2, THEN conjunct2, rule_format]
  have "if observes batch i then lifecycle_of db' i = Some Active
      else if in_scope db c scope i \<and> 1 \<le> missing_count db c scope i then lifecycle_of db' i = Some Tombstoned
      else bt_get (db_resources db') i = bt_get (db_resources db) i" for i
    using rows[of i]
    by (auto simp: lifecycle_of_def observed_as_def in_scope_def split: if_splits option.splits)
  with effect show ?thesis unfolding q' next_count_def by blast
qed

text \<open>A full run of scope \<open>a\<close> that observes nothing.\<close>

definition empty_batch :: ValidatedBatch where
  "empty_batch =
     \<lparr>vb_connection_id = ''c1'', vb_sync_run_id = ''s1'', vb_resources = [], vb_relations = [],
      vb_coverage = AuthoritativeFull ''a'', vb_next_cursor = None, vb_warnings = [],
      vb_redaction_report = \<lparr>rr_removed_fields = 0, rr_unknown_fields_dropped = 0, rr_secret_sentinels_detected = 0\<rparr>,
      vb_provider_request_summary = \<lparr>prs_request_count = 1, prs_elapsed_ms = 1, prs_status_class_counts = []\<rparr>\<rparr>"

definition empty_handle :: SyncRunHandle where
  "empty_handle = \<lparr>h_run = sample_run\<lparr>run_finished_at := None, run_status := RunRunning\<rparr>, h_scope = ''a''\<rparr>"

definition missed_once :: Database where
  "missed_once = wq_store (snd (engine_commit store_reader (store_writer 9) empty_handle empty_batch 8
     \<lparr>wq_store = sample_store, wq_pending = []\<rparr>))"

lemma sample_evidence: "evidence_ok sample_store"
  unfolding evidence_ok_def
  by (rule conjI[OF sample_store_ok]) (simp add: counts_ok_def sample_store_def empty_database_def)

lemma engine_commit_done:
  assumes "is_ok (fst (engine_commit rd w handle batch at q))"
  obtains result where "engine_commit rd w handle batch at q =
    (Inr result, snd (engine_commit rd w handle batch at q))"
  using assms by (auto simp: is_ok_iff) (metis prod.collapse)

lemma missed_once_run:
  obtains result where "engine_commit store_reader (store_writer 9) empty_handle empty_batch 8
      \<lparr>wq_store = sample_store, wq_pending = []\<rparr> = (Inr result, \<lparr>wq_store = missed_once, wq_pending = []\<rparr>)"
proof -
  have "is_ok (fst (engine_commit store_reader (store_writer 9) empty_handle empty_batch 8
      \<lparr>wq_store = sample_store, wq_pending = []\<rparr>))" by code_simp
  from engine_commit_done[OF this] obtain result where
    r: "engine_commit store_reader (store_writer 9) empty_handle empty_batch 8
      \<lparr>wq_store = sample_store, wq_pending = []\<rparr> = (Inr result, snd (engine_commit store_reader
        (store_writer 9) empty_handle empty_batch 8 \<lparr>wq_store = sample_store, wq_pending = []\<rparr>))" .
  then obtain s' where "snd (engine_commit store_reader (store_writer 9) empty_handle empty_batch 8
      \<lparr>wq_store = sample_store, wq_pending = []\<rparr>) = \<lparr>wq_store = s', wq_pending = []\<rparr>"
    by (rule engine_commit_InrE)
  with r have "engine_commit store_reader (store_writer 9) empty_handle empty_batch 8
      \<lparr>wq_store = sample_store, wq_pending = []\<rparr> = (Inr result, \<lparr>wq_store = missed_once, wq_pending = []\<rparr>)"
    by (simp add: missed_once_def)
  then show thesis by (rule that)
qed

theorem authoritative_run_effect_witness:
  "missing_count missed_once ''c1'' ''a'' ''r1'' = 1 \<and> bt_get (db_resources missed_once) ''r1'' = Some sample_resource"
proof -
  obtain result where r: "engine_commit store_reader (store_writer 9) empty_handle empty_batch 8
      \<lparr>wq_store = sample_store, wq_pending = []\<rparr> = (Inr result, \<lparr>wq_store = missed_once, wq_pending = []\<rparr>)"
    by (rule missed_once_run)
  have f: "vb_coverage empty_batch = AuthoritativeFull ''a''" "run_connection_id (h_run empty_handle) = ''c1''"
    "\<not> observes empty_batch i" for i
    by (simp_all add: empty_batch_def empty_handle_def sample_run_def observes_def)
  have s: "in_scope sample_store ''c1'' ''a'' ''r1''" "missing_count sample_store ''c1'' ''a'' ''r1'' = 0"
    "bt_get (db_resources sample_store) ''r1'' = Some sample_resource"
    by (simp_all add: in_scope_def missing_count_def sample_store_def empty_database_def sample_resource_def)
  from authoritative_run_effect[OF r sample_evidence f(1,2)] have
    "missing_count missed_once ''c1'' ''a'' ''r1'' =
      (if observes empty_batch ''r1'' then 0
       else if in_scope sample_store ''c1'' ''a'' ''r1'' then min 2 (missing_count sample_store ''c1'' ''a'' ''r1'' + 1)
       else missing_count sample_store ''c1'' ''a'' ''r1'')"
    "if observes empty_batch ''r1'' then lifecycle_of missed_once ''r1'' = Some Active
      else if in_scope sample_store ''c1'' ''a'' ''r1'' \<and> 1 \<le> missing_count sample_store ''c1'' ''a'' ''r1''
      then lifecycle_of missed_once ''r1'' = Some Tombstoned
      else bt_get (db_resources missed_once) ''r1'' = bt_get (db_resources sample_store) ''r1''"
    by fastforce+
  then show ?thesis using f(3) s by simp
qed

text \<open>
  Only an authoritative full run can make a resource disappear: after a run of any other coverage
  every resource that it did not observe has the row it had, and no missing evidence of any scope of any connection
  changed.
\<close>

theorem other_runs_bury_nothing:
  assumes "engine_commit store_reader (store_writer now) handle batch at \<lparr>wq_store = db, wq_pending = []\<rparr>
      = (Inr result, q')"
    and "evidence_ok db" and "\<forall>scope. vb_coverage batch \<noteq> AuthoritativeFull scope"
  shows "(\<forall>i. if observes batch i then lifecycle_of (wq_store q') i = Some Active
      else bt_get (db_resources (wq_store q')) i = bt_get (db_resources db) i) \<and>
    (\<forall>c scope i. missing_count (wq_store q') c scope i = missing_count db c scope i)"
proof -
  from assms(1) obtain commit db' where
    b: "build_commit store_reader db handle batch at = Inr commit"
    and c: "sw_commit_sync (store_writer now) commit db = Inr (result, db')"
    and q': "q' = \<lparr>wq_store = db', wq_pending = []\<rparr>"
    by (elim engine_commit_InrE) (rule that; assumption)
  have "\<not> contributes_missing_evidence (vb_coverage batch)"
    using assms(3) by (cases "vb_coverage batch") auto
  note effect = sqlite_evidence.partial_effect[OF b assms(2) this c]
  then show ?thesis
    by (auto simp: q' lifecycle_of_def observed_as_def split: if_splits)
qed

theorem other_runs_bury_nothing_witness:
  "\<exists>result q'. engine_commit store_reader (store_writer 9) (empty_handle\<lparr>h_run := (h_run empty_handle)\<lparr>run_mode := Incremental\<rparr>\<rparr>)
       (empty_batch\<lparr>vb_coverage := IncrementalCoverage ''x''\<rparr>) 8 \<lparr>wq_store = sample_store, wq_pending = []\<rparr> = (Inr result, q') \<and>
     bt_get (db_resources (wq_store q')) ''r1'' = Some sample_resource"
proof -
  let ?h = "empty_handle\<lparr>h_run := (h_run empty_handle)\<lparr>run_mode := Incremental\<rparr>\<rparr>"
  let ?b = "empty_batch\<lparr>vb_coverage := IncrementalCoverage ''x''\<rparr>"
  let ?r = "engine_commit store_reader (store_writer 9) ?h ?b 8 \<lparr>wq_store = sample_store, wq_pending = []\<rparr>"
  have "is_ok (fst ?r)" by code_simp
  from engine_commit_done[OF this] obtain result where r: "?r = (Inr result, snd ?r)" .
  have "\<forall>scope. vb_coverage ?b \<noteq> AuthoritativeFull scope" "\<not> observes ?b ''r1''"
    by (simp_all add: empty_batch_def observes_def)
  with other_runs_bury_nothing[OF r sample_evidence this(1)] have
    "bt_get (db_resources (wq_store (snd ?r))) ''r1'' = bt_get (db_resources sample_store) ''r1''"
    by fastforce
  then have "bt_get (db_resources (wq_store (snd ?r))) ''r1'' = Some sample_resource"
    by (simp add: sample_store_def empty_database_def)
  with r show ?thesis by blast
qed

section \<open>Histories\<close>

text \<open>
  The full runs of one scope, as seen from one resource: each committed run either observes it
  (in this scope) or does not. Between the commits further runs are started.
\<close>

inductive full_runs :: "ConnectionId \<Rightarrow> Scope \<Rightarrow> ResourceId \<Rightarrow> Database \<Rightarrow> bool list \<Rightarrow> Database \<Rightarrow> bool"
    for c scope i db where
  none: "full_runs c scope i db [] db"
| started: "full_runs c scope i db seen db1 \<Longrightarrow>
    start_sync_run now run db1 = Inr db2 \<Longrightarrow> full_runs c scope i db seen db2"
| synced: "full_runs c scope i db seen db1 \<Longrightarrow>
    engine_commit store_reader (store_writer now) handle batch at \<lparr>wq_store = db1, wq_pending = []\<rparr>
      = (Inr result, \<lparr>wq_store = db2, wq_pending = []\<rparr>) \<Longrightarrow>
    vb_coverage batch = AuthoritativeFull scope \<Longrightarrow> run_connection_id (h_run handle) = c \<Longrightarrow>
    \<forall>v\<in>set (vb_resources batch). stable_resource_id (vr_key v) = Inr i \<longrightarrow>
      key_connection (vr_key v) = c \<and> vr_scope v = scope \<Longrightarrow>
    full_runs c scope i db (seen @ [observes batch i]) db2"

text \<open>The state of a resource in its scope: how many full runs in a row have missed it.\<close>

definition tracked :: "Database \<Rightarrow> ConnectionId \<Rightarrow> Scope \<Rightarrow> ResourceId \<Rightarrow> nat \<Rightarrow> bool" where
  "tracked db c scope i n \<longleftrightarrow>
     n \<le> 2 \<and> in_scope db c scope i \<and> missing_count db c scope i = n \<and>
     lifecycle_of db i = Some (if n = 2 then Tombstoned else Active)"

definition missed :: "bool \<Rightarrow> nat \<Rightarrow> nat" where
  "missed seen n = (if seen then 0 else min 2 (n + 1))"

lemma tracked_synced:
  assumes "tracked db c scope i n" and "evidence_ok db"
    and "build_commit store_reader db handle batch at = Inr commit"
    and "sw_commit_sync (store_writer now) commit db = Inr (result, db')"
    and "vb_coverage batch = AuthoritativeFull scope" and "run_connection_id (h_run handle) = c"
    and "\<forall>v\<in>set (vb_resources batch). stable_resource_id (vr_key v) = Inr i \<longrightarrow>
      key_connection (vr_key v) = c \<and> vr_scope v = scope"
  shows "evidence_ok db' \<and> tracked db' c scope i (missed (observes batch i) n)"
proof -
  note effect = sqlite_evidence.full_effect[OF assms(3,2,5,6,4), unfolded known_in_scope]
  note count = effect[THEN conjunct2, THEN conjunct1, rule_format, of i]
  note row = effect[THEN conjunct2, THEN conjunct2, rule_format, of i]
  have "tracked db' c scope i (missed (observes batch i) n)"
  proof (cases "observes batch i")
    case True
    with row obtain r where r: "bt_get (db_resources db') i = Some r"
      "observed_as (vb_resources batch) r" by auto
    with conjunct1[OF effect] have "res_id r = i"
      by (auto simp: evidence_ok_def db_ok_def tables_ok_def dest: table_ok_key)
    with r assms(7) True count show ?thesis
      by (auto simp: tracked_def in_scope_def lifecycle_of_def observed_as_def missed_def)
  next
    case False
    from assms(1) obtain r where r: "bt_get (db_resources db) i = Some r" "res_connection_id r = c"
      "res_scope r = scope" "res_lifecycle r = (if n = 2 then Tombstoned else Active)"
      and n: "missing_count db c scope i = n" "n \<le> 2"
      by (auto simp: tracked_def in_scope_def lifecycle_of_def split: option.splits)
    from r(1-3) have scope: "in_scope db c scope i" by (simp add: in_scope_def)
    from n(2) consider "n = 0" | "n = 1" | "n = 2" by linarith
    then show ?thesis
      using r row count False scope n(1)
      by cases (auto simp: tracked_def in_scope_def lifecycle_of_def missed_def next_count_def)
  qed
  with effect show ?thesis by blast
qed

lemma started_frame:
  assumes "start_sync_run now run db = Inr db'"
  shows "db_resources db' = db_resources db \<and> db_connector_state db' = db_connector_state db"
  using assms by (auto simp: start_sync_run_def insert_sync_run_def res_simps split: if_splits)

lemma full_runs_tracked:
  assumes "full_runs c scope i db seen db'" and "evidence_ok db" and "tracked db c scope i n"
  shows "evidence_ok db' \<and> tracked db' c scope i (fold missed seen n)"
  using assms
proof (induction rule: full_runs.induct)
  case none
  then show ?case by simp
next
  case (started seen db1 now run db2)
  with started_frame[OF started(2)] start_sync_run_ok[OF started(2)] show ?case
    by (simp add: evidence_ok_def counts_ok_def tracked_def in_scope_def missing_count_def lifecycle_of_def)
next
  case (synced seen db1 now handle batch at result db2)
  from synced(2) obtain commit where "build_commit store_reader db1 handle batch at = Inr commit"
    "sw_commit_sync (store_writer now) commit db1 = Inr (result, db2)"
    by (elim engine_commit_InrE) auto
  from synced.IH[OF synced.prems] tracked_synced[OF _ _ this synced(3,4,5)] show ?case by auto
qed

lemma fold_missed: "fold missed seen 0 = min 2 (length (takeWhile Not (rev seen)))"
  by (induction seen rule: rev_induct) (auto simp: missed_def)

lemma two_trailing:
  "2 \<le> length (takeWhile Not (rev seen)) \<longleftrightarrow> (\<exists>before. seen = before @ [False, False])"
proof (cases seen rule: rev_cases)
  case (snoc xs x)
  then show ?thesis
    by (cases xs rule: rev_cases) (auto simp: Suc_le_eq)
qed simp

text \<open>
  C17. Over any history of full runs of a scope the missing evidence is exactly the number of runs since
  the last observation, up to two, and the lifecycle follows it: a resource is tombstoned if
  and only if the last two full runs both missed it, so one incomplete listing never tombstones it, two in a row
  always do, and one observation brings it back.
\<close>

theorem tombstoned_after_two_misses:
  assumes "full_runs c scope i db seen db'" and "evidence_ok db" and "tracked db c scope i 0"
  shows "missing_count db' c scope i = min 2 (length (takeWhile Not (rev seen))) \<and>
    lifecycle_of db' i =
      Some (if \<exists>before. seen = before @ [False, False] then Tombstoned else Active)"
proof -
  have t: "tracked db' c scope i (min 2 (length (takeWhile Not (rev seen))))"
    using full_runs_tracked[OF assms] fold_missed by simp
  have "2 \<le> length (takeWhile Not (rev seen)) \<longleftrightarrow> (\<exists>before. seen = before @ [False, False])"
    using two_trailing by blast
  moreover have "min 2 n = 2 \<longleftrightarrow> 2 \<le> n" for n :: nat by auto
  ultimately show ?thesis using t by (simp add: tracked_def)
qed

theorem tombstoned_after_two_misses_witness:
  "\<exists>db'. full_runs ''c1'' ''a'' ''r1'' sample_store [False, False] db' \<and>
     lifecycle_of db' ''r1'' = Some Tombstoned"
proof -
  have f: "vb_coverage empty_batch = AuthoritativeFull ''a''" "run_connection_id (h_run empty_handle) = ''c1''"
    "\<forall>v\<in>set (vb_resources empty_batch). stable_resource_id (vr_key v) = Inr ''r1'' \<longrightarrow>
      key_connection (vr_key v) = ''c1'' \<and> vr_scope v = ''a''" "observes empty_batch ''r1'' = False"
    by (simp_all add: empty_batch_def empty_handle_def sample_run_def observes_def)
  obtain r1 where r1: "engine_commit store_reader (store_writer 9) empty_handle empty_batch 8
      \<lparr>wq_store = sample_store, wq_pending = []\<rparr> = (Inr r1, \<lparr>wq_store = missed_once, wq_pending = []\<rparr>)"
    by (rule missed_once_run)
  let ?r = "engine_commit store_reader (store_writer 9) empty_handle empty_batch 8
    \<lparr>wq_store = missed_once, wq_pending = []\<rparr>"
  have "is_ok (fst ?r)" by code_simp
  from engine_commit_done[OF this] obtain r2 where r2: "?r = (Inr r2, snd ?r)" .
  then obtain db2 where db2: "snd ?r = \<lparr>wq_store = db2, wq_pending = []\<rparr>" by (rule engine_commit_InrE)
  have runs: "full_runs ''c1'' ''a'' ''r1'' sample_store (([] @ [False]) @ [False]) db2"
    using full_runs.synced[OF full_runs.synced[OF full_runs.none r1 f(1-3)] r2[unfolded db2] f(1-3)] unfolding f(4) .
  have t: "tracked sample_store ''c1'' ''a'' ''r1'' 0"
    by (simp add: tracked_def in_scope_def missing_count_def lifecycle_of_def sample_store_def
        empty_database_def sample_resource_def)
  from tombstoned_after_two_misses[OF runs sample_evidence t] runs show ?thesis by auto
qed

end
