(* ===== verification/Binding_Service.thy ===== *)
theory Binding_Service
  imports Writer_Queue
begin

text \<open>
  Crate \<open>next-infra-binding\<close>: relations that the user configures. A binding is created, updated,
  disabled or reconciled with the state of its end points; each of these is one commit that also
  writes the relation the binding stands for, its version and the change. The service is
  generic over the trait \<open>BindingStore\<close>; the random part of a new identifier is the argument
  \<open>uuid\<close>.
\<close>

section \<open>Data\<close>

record BindingInput =
  bin_source :: ResourceId
  bin_target :: ResourceId
  bin_kind :: RelationKind

datatype 'e BindingError =
    BindingStoreError 'e
  | BindingInvalid DomainError
  | BindingNotFound
  | BindingDuplicate
  | TemporalConflict

section \<open>The commit of a binding\<close>

definition validate_input :: "BindingInput \<Rightarrow> DomainError + unit" where
  "validate_input input =
     (if bin_source input = bin_target input
      then Inl (invalid_value ''binding source and target must be different'') else Inr ())"

definition ensure_later :: "Timestamp \<Rightarrow> Timestamp \<Rightarrow> 'e BindingError + unit" where
  "ensure_later at previous = (if at \<le> previous then Inl TemporalConflict else Inr ())"

definition binding_relation_id :: "Binding \<Rightarrow> DomainError + RelationId" where
  "binding_relation_id b =
     string_value_new ''RelationId''
       (''binding-relation:'' @ bind_id b @ '':'' @ bind_source b @ '':'' @ bind_target b @ '':'' @ bind_kind b)"

fun relation_lifecycle :: "BindingStatus \<Rightarrow> Lifecycle" where
  "relation_lifecycle BindingActive = Active"
| "relation_lifecycle BindingUnresolved = Orphaned"
| "relation_lifecycle BindingDisabled = Tombstoned"

definition configured_relation :: "Binding \<Rightarrow> Lifecycle \<Rightarrow> Timestamp \<Rightarrow> DomainError + Relation" where
  "configured_relation b lifecycle at =
     res_bind (binding_relation_id b) (\<lambda>relation_id.
     res_bind (string_value_new ''EvidenceKey'' (''binding:'' @ bind_id b)) (\<lambda>evidence_key.
       Inr \<lparr>rel_id = relation_id, rel_source = bind_source b, rel_target = bind_target b,
            rel_kind = bind_kind b, rel_evidence_key = evidence_key,
            rel_evidence = Configured (bind_id b), rel_first_seen_at = bind_created_at b,
            rel_last_seen_at = at, rel_lifecycle = lifecycle\<rparr>))"

definition binding_fingerprint :: "codec \<Rightarrow> Value \<Rightarrow> DomainError + Fingerprint" where
  "binding_fingerprint c value =
     res_bind (map_err (\<lambda>_. invalid_value ''binding snapshot cannot be encoded'') (hex_digest c value))
       (\<lambda>digest. string_value_new ''Fingerprint'' (''sha256:'' @ digest))"

definition configured_snapshot :: "Relation \<Rightarrow> Value" where
  "configured_snapshot r =
     json_object [(''source_resource_id'', JString (rel_source r)),
       (''target_resource_id'', JString (rel_target r)), (''kind'', JString (rel_kind r)),
       (''evidence'', json_evidence (rel_evidence r)),
       (''lifecycle'', JString (lifecycle_text (rel_lifecycle r)))]"

definition configured_version ::
    "codec \<Rightarrow> BindingId \<Rightarrow> Timestamp \<Rightarrow> Relation \<Rightarrow> DomainError + RelationVersion" where
  "configured_version c binding_id at r =
     res_bind (string_value_new ''RelationVersionId''
       (''binding-relation-version:'' @ rel_id r @ '':'' @ show_int at)) (\<lambda>version_id.
     res_bind (binding_fingerprint c (configured_snapshot r)) (\<lambda>fp.
     res_bind (SchemaVersion_new 1) (\<lambda>schema.
       Inr \<lparr>relv_id = version_id, relv_relation_id = rel_id r, relv_observed_at = at,
            relv_snapshot = configured_snapshot r, relv_fingerprint = fp,
            relv_schema_version = schema, relv_origin = BindingOrigin binding_id\<rparr>)))"

definition field_change ::
    "string \<Rightarrow> Value option \<Rightarrow> Value \<Rightarrow> FieldChange list \<Rightarrow> DomainError + FieldChange list" where
  "field_change path before after changes =
     (if before \<noteq> Some after
      then res_bind (string_value_new ''FieldPath'' path) (\<lambda>path.
        Inr (changes @ [\<lparr>fc_path = path, fc_before = before, fc_after = Some after\<rparr>]))
      else Inr changes)"

definition binding_changes :: "Binding option \<Rightarrow> Binding \<Rightarrow> DomainError + FieldChange list" where
  "binding_changes previous current =
     (let field = (\<lambda>path get. field_change path (map_option (\<lambda>b. JString (get b)) previous) (JString (get current)))
      in res_bind (field ''binding.source_resource_id'' bind_source []) (\<lambda>changes.
         res_bind (field ''binding.target_resource_id'' bind_target changes) (\<lambda>changes.
         res_bind (field ''binding.kind'' bind_kind changes) (\<lambda>changes.
           field ''binding.status'' (\<lambda>b. binding_status_text (bind_status b)) changes))))"

definition same_projection :: "Binding \<Rightarrow> Binding \<Rightarrow> bool" where
  "same_projection a b \<longleftrightarrow>
     bind_source a = bind_source b \<and> bind_target a = bind_target b \<and> bind_kind a = bind_kind b"

definition retired_relation :: "Binding option \<Rightarrow> Binding \<Rightarrow> Timestamp \<Rightarrow> DomainError + Relation list" where
  "retired_relation previous b at =
     (case previous of
        None \<Rightarrow> Inr []
      | Some old \<Rightarrow>
          if same_projection old b then Inr []
          else res_bind (configured_relation old Tombstoned at) (\<lambda>r. Inr [r]))"

definition binding_commit ::
    "codec \<Rightarrow> Binding option \<Rightarrow> Binding \<Rightarrow> Timestamp \<Rightarrow> DomainError + BindingCommit" where
  "binding_commit c previous b at =
     res_bind (retired_relation previous b at) (\<lambda>retired.
     res_bind (configured_relation b (relation_lifecycle (bind_status b)) at) (\<lambda>current.
       let relations = retired @ [current] in
       res_bind (res_map (configured_version c (bind_id b) at) relations) (\<lambda>versions.
       res_bind (binding_changes previous b) (\<lambda>fields.
       res_bind (if fields = [] then Inr [] else
           res_bind (string_value_new ''ChangeId''
             (''binding-change:'' @ bind_id b @ '':'' @ show_int at)) (\<lambda>change_id.
           Inr [\<lparr>chg_id = change_id, chg_subject = BindingSubject (bind_id b), chg_observed_at = at,
                 chg_fields = fields, chg_origin = BindingOrigin (bind_id b)\<rparr>])) (\<lambda>changes.
         Inr \<lparr>bc_binding = b, bc_relations = relations, bc_relation_versions = versions,
              bc_changes = changes\<rparr>)))))"

section \<open>The service\<close>

definition find_binding ::
    "('s, 'e) BindingStore \<Rightarrow> BindingId \<Rightarrow> 's \<Rightarrow> 'e BindingError + Binding" where
  "find_binding st i s =
     res_bind (map_err BindingStoreError (bs_get_binding st s i)) (ok_or BindingNotFound)"

definition endpoint_status ::
    "('s, 'e) BindingStore \<Rightarrow> BindingInput \<Rightarrow> 's \<Rightarrow> 'e BindingError + BindingStatus" where
  "endpoint_status st input s =
     res_bind (map_err BindingStoreError (sr_get_resource st s (bin_source input))) (\<lambda>source.
     res_bind (map_err BindingStoreError (sr_get_resource st s (bin_target input))) (\<lambda>target.
       Inr (if is_active source \<and> is_active target then BindingActive else BindingUnresolved)))"

definition occupies :: "BindingInput \<Rightarrow> BindingId option \<Rightarrow> Binding \<Rightarrow> bool" where
  "occupies input excluded b \<longleftrightarrow>
     excluded \<noteq> Some (bind_id b) \<and> bind_source b = bin_source input \<and>
     bind_target b = bin_target input \<and> bind_kind b = bin_kind input \<and>
     (bind_status b = BindingActive \<or> bind_status b = BindingUnresolved)"

definition ensure_unique ::
    "('s, 'e) BindingStore \<Rightarrow> BindingInput \<Rightarrow> BindingId option \<Rightarrow> 's \<Rightarrow> 'e BindingError + unit" where
  "ensure_unique st input excluded s =
     res_bind (map_err BindingStoreError (bs_list_bindings st s)) (\<lambda>bindings.
       if list_ex (occupies input excluded) bindings then Inl BindingDuplicate else Inr ())"

text \<open>Building the commit and handing it to the store.\<close>

definition save_binding ::
    "codec \<Rightarrow> ('s, 'e) BindingStore \<Rightarrow> Binding option \<Rightarrow> Binding \<Rightarrow> Timestamp \<Rightarrow> 's \<Rightarrow>
     'e BindingError + Binding \<times> 's" where
  "save_binding c st previous b at s =
     res_bind (map_err BindingInvalid (binding_commit c previous b at)) (\<lambda>commit.
     res_bind (map_err BindingStoreError (bs_commit_binding st commit s)) (\<lambda>s. Inr (b, s)))"

definition create_binding ::
    "codec \<Rightarrow> ('s, 'e) BindingStore \<Rightarrow> string \<Rightarrow> BindingInput \<Rightarrow> Timestamp \<Rightarrow> 's \<Rightarrow>
     'e BindingError + Binding \<times> 's" where
  "create_binding c st uuid input at s =
     res_bind (map_err BindingInvalid (validate_input input)) (\<lambda>_.
     res_bind (ensure_unique st input None s) (\<lambda>_.
     res_bind (endpoint_status st input s) (\<lambda>status.
     res_bind (map_err BindingInvalid (string_value_new ''BindingId'' (''binding:v1:'' @ uuid))) (\<lambda>binding_id.
       save_binding c st None
         \<lparr>bind_id = binding_id, bind_source = bin_source input, bind_target = bin_target input,
          bind_kind = bin_kind input, bind_status = status, bind_created_at = at,
          bind_updated_at = at\<rparr> at s))))"

definition update_binding ::
    "codec \<Rightarrow> ('s, 'e) BindingStore \<Rightarrow> BindingId \<Rightarrow> BindingInput \<Rightarrow> Timestamp \<Rightarrow> 's \<Rightarrow>
     'e BindingError + Binding \<times> 's" where
  "update_binding c st binding_id input at s =
     res_bind (map_err BindingInvalid (validate_input input)) (\<lambda>_.
     res_bind (find_binding st binding_id s) (\<lambda>existing.
     res_bind (ensure_later at (bind_updated_at existing)) (\<lambda>_.
     res_bind (if bind_status existing \<noteq> BindingDisabled
       then ensure_unique st input (Some binding_id) s else Inr ()) (\<lambda>_.
     res_bind (if bind_status existing = BindingDisabled then Inr BindingDisabled
       else endpoint_status st input s) (\<lambda>status.
       let b = \<lparr>bind_id = bind_id existing, bind_source = bin_source input,
                bind_target = bin_target input, bind_kind = bin_kind input, bind_status = status,
                bind_created_at = bind_created_at existing, bind_updated_at = at\<rparr>
       in if b = existing then Inr (existing, s)
          else save_binding c st (Some existing) b at s)))))"

definition disable_binding ::
    "codec \<Rightarrow> ('s, 'e) BindingStore \<Rightarrow> BindingId \<Rightarrow> Timestamp \<Rightarrow> 's \<Rightarrow> 'e BindingError + Binding \<times> 's" where
  "disable_binding c st binding_id at s =
     res_bind (find_binding st binding_id s) (\<lambda>existing.
       if bind_status existing = BindingDisabled then Inr (existing, s)
       else res_bind (ensure_later at (bind_updated_at existing)) (\<lambda>_.
         save_binding c st (Some existing)
           (existing\<lparr>bind_status := BindingDisabled, bind_updated_at := at\<rparr>) at s))"

definition reconcile_binding ::
    "codec \<Rightarrow> ('s, 'e) BindingStore \<Rightarrow> BindingId \<Rightarrow> Timestamp \<Rightarrow> 's \<Rightarrow> 'e BindingError + Binding \<times> 's" where
  "reconcile_binding c st binding_id at s =
     res_bind (find_binding st binding_id s) (\<lambda>existing.
       if bind_status existing = BindingDisabled then Inr (existing, s)
       else res_bind (endpoint_status st \<lparr>bin_source = bind_source existing,
             bin_target = bind_target existing, bin_kind = bind_kind existing\<rparr> s) (\<lambda>status.
         if status = bind_status existing then Inr (existing, s)
         else res_bind (ensure_later at (bind_updated_at existing)) (\<lambda>_.
           save_binding c st (Some existing)
             (existing\<lparr>bind_status := status, bind_updated_at := at\<rparr>) at s)))"

section \<open>The service on the store\<close>

definition binding_store :: "(Database, StoreError) BindingStore" where
  "binding_store = StoreReader.extend store_reader
     \<lparr>bs_get_binding = get_binding, bs_list_bindings = list_bindings,
      bs_commit_binding = commit_binding\<rparr>"

end
