(* ===== verification/Relation_Writes.thy ===== *)
theory Relation_Writes
  imports Store_History
begin

text \<open>
  Writing relations, seen as an operation on the map from identifiers to rows. It is what the services
  that commit relations (bindings and inference) rely on, and what the store does.
\<close>

section \<open>Relation writes as a map\<close>

definition restated :: "Relation \<Rightarrow> Relation \<Rightarrow> Relation" where
  "restated row r = row\<lparr>rel_evidence := rel_evidence r, rel_last_seen_at := rel_last_seen_at r,
     rel_lifecycle := rel_lifecycle r\<rparr>"

fun upserted :: "(RelationId \<Rightarrow> Relation option) \<Rightarrow> Relation list \<Rightarrow> (RelationId \<Rightarrow> Relation option) option" where
  "upserted m [] = Some m"
| "upserted m (r # rs) =
     (case m (rel_id r) of
        None \<Rightarrow> upserted (m(rel_id r \<mapsto> r)) rs
      | Some row \<Rightarrow>
          if relation_key row = relation_key r then upserted (m(rel_id r \<mapsto> restated row r)) rs
          else None)"

lemma restated_key: "relation_key row = relation_key r \<Longrightarrow> relation_key (restated row r) = relation_key r"
  by (auto simp: relation_key_def restated_def)

lemma restated_simps [simp]:
  "rel_evidence (restated row r) = rel_evidence r" "rel_lifecycle (restated row r) = rel_lifecycle r"
  "rel_evidence_key (restated row r) = rel_evidence_key row"
  "rel_last_seen_at (restated row r) = rel_last_seen_at r"
  by (simp_all add: restated_def)

lemma upserted_one:
  assumes "upserted m [r] = Some m'"
  obtains row where "m' = m(rel_id r \<mapsto> row)" "relation_key row = relation_key r"
    "rel_evidence row = rel_evidence r" "rel_lifecycle row = rel_lifecycle r"
    "\<forall>old. m (rel_id r) = Some old \<longrightarrow> relation_key old = relation_key r"
  using assms by (auto split: option.splits if_splits simp: restated_key)

lemma upserted_append:
  "upserted m (rs @ qs) = Some m' \<longleftrightarrow> (\<exists>n. upserted m rs = Some n \<and> upserted n qs = Some m')"
  by (induction rs arbitrary: m) (auto split: option.splits)

text \<open>A relation that is not written keeps its row; one that is written once takes it over.\<close>

lemma upserted_other: "upserted m rs = Some n \<Longrightarrow> k \<notin> rel_id ` set rs \<Longrightarrow> n k = m k"
proof (induction rs arbitrary: m)
  case Nil
  then show ?case by simp
next
  case (Cons r rs)
  then show ?case by (auto split: option.splits if_splits)
qed

lemma upserted_once:
  assumes "upserted m rs = Some n" and "distinct (map rel_id rs)" and "r \<in> set rs"
  shows "\<exists>row. n (rel_id r) = Some row \<and> relation_key row = relation_key r \<and>
    rel_evidence row = rel_evidence r \<and> rel_lifecycle row = rel_lifecycle r \<and>
    rel_last_seen_at row = rel_last_seen_at r"
  using assms
proof (induction rs arbitrary: m)
  case Nil
  then show ?case by simp
next
  case (Cons q rs)
  show ?case
  proof (cases "r = q")
    case False
    with Cons.prems(3) have "r \<in> set rs" by simp
    with Cons show ?thesis by (auto split: option.splits if_splits)
  next
    case True
    then have "rel_id r \<notin> rel_id ` set rs" using Cons.prems(2) by simp
    with True Cons.prems(1) upserted_other[of _ rs n "rel_id r"] show ?thesis
      by (auto simp: restated_key split: option.splits if_splits)
  qed
qed

section \<open>The store\<close>

lemma upsert_relation_upserted:
  "upsert_relation r db = Inr db' \<Longrightarrow>
     upserted (bt_get (db_relations db)) [r] = Some (bt_get (db_relations db'))"
  by (auto simp: upsert_relation_def restated_def bt_get_insert fun_eq_iff split: option.splits if_splits)

lemma upsert_relations_upserted:
  "res_fold upsert_relation rs db = Inr db' \<Longrightarrow>
     upserted (bt_get (db_relations db)) rs = Some (bt_get (db_relations db'))"
proof (induction rs arbitrary: db)
  case Nil
  then show ?case by simp
next
  case (Cons r rs)
  then obtain u where u: "upsert_relation r db = Inr u" "res_fold upsert_relation rs u = Inr db'"
    by (auto simp: res_simps)
  have "upserted (bt_get (db_relations db)) ([r] @ rs) = Some (bt_get (db_relations db'))"
    unfolding upserted_append using upsert_relation_upserted[OF u(1)] Cons.IH[OF u(2)] by blast
  then show ?case by simp
qed

lemma set_projection_frame [simp]:
  "db_relations (set_projection_metadata at db) = db_relations db"
  "db_bindings (set_projection_metadata at db) = db_bindings db"
  "db_resources (set_projection_metadata at db) = db_resources db"
  by (simp_all add: set_projection_metadata_def)

lemma query_optional_same:
  "query_optional read table k = Inr r \<Longrightarrow> (\<And>x y. read x = Inr y \<Longrightarrow> y = x) \<Longrightarrow> r = bt_get table k"
  by (auto simp: query_optional_def res_simps split: option.splits)

lemma res_map_same:
  assumes "res_map f xs = Inr ys" and "\<And>x y. f x = Inr y \<Longrightarrow> y = x"
  shows "ys = xs"
  using assms by (induction xs arbitrary: ys) (auto simp: res_simps)

end
