(* ===== verification/Binding_Facts.thy ===== *)
theory Binding_Facts
  imports Binding_Service Relation_Writes
begin

text \<open>
  What the binding service needs of its store, as the locale \<open>binding_ledger\<close>, the two
  invariants it keeps over any such store, and the SQLite store as an instance. The invariants:
  no two enabled bindings connect the same end points with the same kind, and the configured relations
  mirror the bindings.
\<close>

section \<open>The commit\<close>

lemma validate_input_InrD: "validate_input input = Inr u \<Longrightarrow> bin_source input \<noteq> bin_target input"
  by (auto simp: validate_input_def split: if_splits)

lemma ensure_later_eq [res_simps]: "ensure_later at t = Inr u \<longleftrightarrow> t < at"
  by (auto simp: ensure_later_def)

lemma configured_relation_eq [res_simps]:
  "configured_relation b l at = Inr r \<longleftrightarrow>
     (\<exists>i. binding_relation_id b = Inr i \<and> string_value_ok (''binding:'' @ bind_id b) \<and>
       r = \<lparr>rel_id = i, rel_source = bind_source b, rel_target = bind_target b,
            rel_kind = bind_kind b, rel_evidence_key = ''binding:'' @ bind_id b,
            rel_evidence = Configured (bind_id b), rel_first_seen_at = bind_created_at b,
            rel_last_seen_at = at, rel_lifecycle = l\<rparr>)"
  by (auto simp: configured_relation_def res_simps)

lemma configured_relation_fields:
  assumes "configured_relation b l at = Inr r"
  shows "binding_relation_id b = Inr (rel_id r) \<and> rel_evidence r = Configured (bind_id b) \<and>
    rel_lifecycle r = l \<and> rel_evidence_key r = ''binding:'' @ bind_id b \<and>
    relation_key r = RelationKey (bind_source b) (bind_target b) (bind_kind b) ConfiguredType
      (''binding:'' @ bind_id b)"
  using assms by (auto simp: res_simps relation_key_def)

lemma binding_commit_InrE:
  assumes "binding_commit c previous b at = Inr commit"
  obtains retired current where
    "retired_relation previous b at = Inr retired"
    "configured_relation b (relation_lifecycle (bind_status b)) at = Inr current"
    "bc_binding commit = b" "bc_relations commit = retired @ [current]"
  using assms by (auto simp: binding_commit_def res_simps Let_def)

lemma same_projection_id:
  "same_projection a b \<Longrightarrow> bind_id a = bind_id b \<Longrightarrow> binding_relation_id a = binding_relation_id b"
  by (simp add: same_projection_def binding_relation_id_def)

section \<open>The invariants\<close>

definition enabled :: "Binding \<Rightarrow> bool" where
  "enabled b \<longleftrightarrow> bind_status b = BindingActive \<or> bind_status b = BindingUnresolved"

definition exclusive :: "(BindingId \<Rightarrow> Binding option) \<Rightarrow> bool" where
  "exclusive m \<longleftrightarrow>
     (\<forall>i a j b. m i = Some a \<longrightarrow> m j = Some b \<longrightarrow> enabled a \<longrightarrow> enabled b \<longrightarrow> same_projection a b \<longrightarrow> i = j)"

definition mirrors :: "Binding \<Rightarrow> Relation \<Rightarrow> bool" where
  "mirrors b r \<longleftrightarrow>
     relation_key r = RelationKey (bind_source b) (bind_target b) (bind_kind b) ConfiguredType
       (''binding:'' @ bind_id b) \<and>
     rel_evidence r = Configured (bind_id b) \<and> rel_lifecycle r = relation_lifecycle (bind_status b)"

definition mirrored :: "(BindingId \<Rightarrow> Binding option) \<Rightarrow> (RelationId \<Rightarrow> Relation option) \<Rightarrow> bool" where
  "mirrored m n \<longleftrightarrow>
     (\<forall>i b. m i = Some b \<longrightarrow>
        bind_id b = i \<and> (\<exists>k r. binding_relation_id b = Inr k \<and> n k = Some r \<and> mirrors b r)) \<and>
     (\<forall>k r i. n k = Some r \<longrightarrow> rel_evidence r = Configured i \<longrightarrow> rel_lifecycle r \<noteq> Tombstoned \<longrightarrow>
        (\<exists>b. m i = Some b \<and> binding_relation_id b = Inr k))"

lemma mirroredI:
  assumes "\<And>i b. m i = Some b \<Longrightarrow>
      bind_id b = i \<and> (\<exists>k r. binding_relation_id b = Inr k \<and> n k = Some r \<and> mirrors b r)"
    and "\<And>k r i. n k = Some r \<Longrightarrow> rel_evidence r = Configured i \<Longrightarrow> rel_lifecycle r \<noteq> Tombstoned \<Longrightarrow>
      \<exists>b. m i = Some b \<and> binding_relation_id b = Inr k"
  shows "mirrored m n"
  using assms unfolding mirrored_def by blast

lemma mirroredD1:
  "mirrored m n \<Longrightarrow> m i = Some b \<Longrightarrow>
     bind_id b = i \<and> (\<exists>k r. binding_relation_id b = Inr k \<and> n k = Some r \<and> mirrors b r)"
  unfolding mirrored_def by blast

lemma mirroredD2:
  "mirrored m n \<Longrightarrow> n k = Some r \<Longrightarrow> rel_evidence r = Configured i \<Longrightarrow> rel_lifecycle r \<noteq> Tombstoned \<Longrightarrow>
     \<exists>b. m i = Some b \<and> binding_relation_id b = Inr k"
  unfolding mirrored_def by blast

lemma exclusive_update:
  assumes "exclusive m"
    and "\<And>j a. j \<noteq> i \<Longrightarrow> m j = Some a \<Longrightarrow> enabled a \<Longrightarrow> enabled b \<Longrightarrow> \<not> same_projection a b"
  shows "exclusive (m(i \<mapsto> b))"
  unfolding exclusive_def
proof (intro allI impI)
  fix j a k d
  assume h: "(m(i \<mapsto> b)) j = Some a" "(m(i \<mapsto> b)) k = Some d" "enabled a" "enabled d" "same_projection a d"
  have s: "same_projection d a" using h(5) by (auto simp: same_projection_def)
  show "j = k"
    using h s assms(1) assms(2)[of j a] assms(2)[of k d]
    unfolding exclusive_def by (auto split: if_splits)
qed

text \<open>Writing a relation that no binding shadows keeps the mirror of the other bindings.\<close>

lemma evidence_key_inj: "(''binding:'' @ i) = ''binding:'' @ j \<longleftrightarrow> i = j"
  by simp

lemma mirrors_key:
  assumes "mirrors b r" and "mirrors a r'" and "relation_key r = relation_key r'"
  shows "bind_id a = bind_id b"
  using assms by (auto simp: mirrors_def)

definition mirror_others ::
    "BindingId \<Rightarrow> (BindingId \<Rightarrow> Binding option) \<Rightarrow> (RelationId \<Rightarrow> Relation option) \<Rightarrow> RelationId set \<Rightarrow> bool" where
  "mirror_others i m n live \<longleftrightarrow>
     (\<forall>j b. j \<noteq> i \<longrightarrow> m j = Some b \<longrightarrow>
        bind_id b = j \<and> (\<exists>k r. binding_relation_id b = Inr k \<and> n k = Some r \<and> mirrors b r)) \<and>
     (\<forall>k r j. n k = Some r \<longrightarrow> rel_evidence r = Configured j \<longrightarrow> rel_lifecycle r \<noteq> Tombstoned \<longrightarrow>
        (if j = i then k \<in> live else \<exists>b. m j = Some b \<and> binding_relation_id b = Inr k))"

lemma mirror_others_init:
  assumes "mirrored m n"
  shows "mirror_others i m n {k. \<exists>b. m i = Some b \<and> binding_relation_id b = Inr k}"
  unfolding mirror_others_def using mirroredD1[OF assms] mirroredD2[OF assms] by simp

lemma mirror_others_write:
  assumes others: "mirror_others i m n live" and up: "upserted n [r] = Some n'"
    and r: "rel_evidence r = Configured i" "rkey_evidence_key (relation_key r) = ''binding:'' @ i"
  shows "mirror_others i m n'
    (if rel_lifecycle r = Tombstoned then live - {rel_id r} else insert (rel_id r) live)"
proof -
  obtain row where n': "n' = n(rel_id r \<mapsto> row)" and row: "relation_key row = relation_key r"
    "rel_evidence row = rel_evidence r" "rel_lifecycle row = rel_lifecycle r"
    and old: "\<forall>old. n (rel_id r) = Some old \<longrightarrow> relation_key old = relation_key r"
    using up by (rule upserted_one)
  have one: "bind_id b = j \<and> (\<exists>k q. binding_relation_id b = Inr k \<and> n' k = Some q \<and> mirrors b q)"
    if b: "j \<noteq> i" "m j = Some b" for j b
  proof -
    from others b obtain k q where q: "bind_id b = j" "binding_relation_id b = Inr k" "n k = Some q" "mirrors b q"
      unfolding mirror_others_def by blast
    have "k \<noteq> rel_id r"
    proof
      assume "k = rel_id r"
      with old q(3) have "relation_key q = relation_key r" by simp
      with q(4) r(2) have "bind_id b = i" by (simp add: mirrors_def)
      with q(1) b(1) show False by simp
    qed
    with q n' show ?thesis by auto
  qed
  have two: "if j = i
      then k \<in> (if rel_lifecycle r = Tombstoned then live - {rel_id r} else insert (rel_id r) live)
      else \<exists>b. m j = Some b \<and> binding_relation_id b = Inr k"
    if h: "n' k = Some q" "rel_evidence q = Configured j" "rel_lifecycle q \<noteq> Tombstoned" for k q j
  proof (cases "k = rel_id r")
    case True
    with h n' row r show ?thesis by auto
  next
    case False
    with h n' have "n k = Some q" by simp
    with others h(2,3) False show ?thesis unfolding mirror_others_def by fastforce
  qed
  show ?thesis unfolding mirror_others_def using one two by blast
qed

lemma mirror_others_done:
  assumes "mirror_others i m n live" and "live \<subseteq> {k. binding_relation_id b = Inr k}"
    and "bind_id b = i" and "binding_relation_id b = Inr k" and "n k = Some r" and "mirrors b r"
  shows "mirrored (m(i \<mapsto> b)) n"
proof (rule mirroredI)
  fix j a
  assume "(m(i \<mapsto> b)) j = Some a"
  with assms show "bind_id a = j \<and> (\<exists>k r. binding_relation_id a = Inr k \<and> n k = Some r \<and> mirrors a r)"
    unfolding mirror_others_def by (auto split: if_splits)
next
  fix l q j
  assume h: "n l = Some q" "rel_evidence q = Configured j" "rel_lifecycle q \<noteq> Tombstoned"
  with assms(1) have "if j = i then l \<in> live else \<exists>b. m j = Some b \<and> binding_relation_id b = Inr l"
    unfolding mirror_others_def by blast
  with assms(2) show "\<exists>b'. (m(i \<mapsto> b)) j = Some b' \<and> binding_relation_id b' = Inr l"
    by (auto split: if_splits)
qed

lemma mirrored_write:
  assumes mirror: "mirrored m n" and up: "upserted n (retired @ [current]) = Some n'"
    and retired: "retired_relation previous b at = Inr retired"
    and current: "configured_relation b (relation_lifecycle (bind_status b)) at = Inr current"
    and previous: "m (bind_id b) = previous"
    and b': "same_projection b' b" "bind_id b' = bind_id b" "bind_status b' = bind_status b"
  shows "mirrored (m(bind_id b \<mapsto> b')) n'"
proof -
  let ?i = "bind_id b"
  note cur = configured_relation_fields[OF current]
  obtain n1 where n1: "upserted n retired = Some n1" "upserted n1 [current] = Some n'"
    using up by (auto simp only: upserted_append)
  have "\<exists>live. mirror_others ?i m n1 live \<and> live \<subseteq> {k. binding_relation_id b = Inr k}"
  proof (cases "retired = []")
    case True
    have live: "{k. \<exists>a. m ?i = Some a \<and> binding_relation_id a = Inr k} \<subseteq> {k. binding_relation_id b = Inr k}"
    proof clarify
      fix k a
      assume a: "m ?i = Some a" "binding_relation_id a = Inr k"
      with retired True previous have "same_projection a b"
        by (auto simp: retired_relation_def res_simps split: option.splits if_splits)
      moreover have "bind_id a = ?i" using mirroredD1[OF mirror a(1)] by simp
      ultimately show "binding_relation_id b = Inr k" using same_projection_id a(2) by metis
    qed
    from True n1(1) have "n1 = n" by simp
    with mirror_others_init[OF mirror] live show ?thesis by blast
  next
    case False
    with retired obtain old r where old: "previous = Some old" "configured_relation old Tombstoned at = Inr r"
      "retired = [r]"
      by (auto simp: retired_relation_def res_bind_eq_Inr split: option.splits if_splits)
    from old previous have "m ?i = Some old" by simp
    with mirroredD1[OF mirror] have id: "bind_id old = ?i" by blast
    note f = configured_relation_fields[OF old(2)]
    have "mirror_others ?i m n1
        ({k. \<exists>b. m ?i = Some b \<and> binding_relation_id b = Inr k} - {rel_id r})"
      using mirror_others_write[OF mirror_others_init[OF mirror, of ?i], of r n1] n1(1) old(3) f id
      by (auto simp: relation_key_def)
    moreover have "{k. \<exists>b. m ?i = Some b \<and> binding_relation_id b = Inr k} - {rel_id r} = {}"
      using \<open>m ?i = Some old\<close> f by auto
    ultimately show ?thesis by auto
  qed
  then obtain live where live: "mirror_others ?i m n1 live" "live \<subseteq> {k. binding_relation_id b = Inr k}" by blast
  obtain row where row: "n' = n1(rel_id current \<mapsto> row)" "relation_key row = relation_key current"
    "rel_evidence row = rel_evidence current" "rel_lifecycle row = rel_lifecycle current"
    using n1(2) by (rule upserted_one)
  have id: "binding_relation_id b' = binding_relation_id b" using same_projection_id[OF b'(1,2)] .
  have w: "mirror_others ?i m n'
    (if rel_lifecycle current = Tombstoned then live - {rel_id current} else insert (rel_id current) live)"
    using mirror_others_write[OF live(1) n1(2)] cur by simp
  show ?thesis
  proof (rule mirror_others_done[OF w])
    show "(if rel_lifecycle current = Tombstoned then live - {rel_id current} else insert (rel_id current) live)
        \<subseteq> {k. binding_relation_id b' = Inr k}"
      using live(2) cur id by auto
    show "bind_id b' = ?i" "binding_relation_id b' = Inr (rel_id current)" using b' cur id by simp_all
    show "n' (rel_id current) = Some row" using row(1) by simp
    show "mirrors b' row" using row cur b' by (simp add: mirrors_def same_projection_def)
  qed
qed

end
