(* ===== verification/Binding_Ledger.thy ===== *)
theory Binding_Ledger
  imports Binding_Facts
begin

text \<open>
  The contract between the binding service and its store, the facts about the service that follow from
  it, and the proof that the SQLite store honours it.
\<close>

section \<open>The contract\<close>

inductive binding_step :: "codec \<Rightarrow> ('s, 'e) BindingStore \<Rightarrow> 's \<Rightarrow> 's \<Rightarrow> bool" for c st where
  create: "bs_get_binding st s (''binding:v1:'' @ uuid) = Inr None \<Longrightarrow>
     create_binding c st uuid input at s = Inr (b, s') \<Longrightarrow> binding_step c st s s'"
| update: "update_binding c st i input at s = Inr (b, s') \<Longrightarrow> binding_step c st s s'"
| disable: "disable_binding c st i at s = Inr (b, s') \<Longrightarrow> binding_step c st s s'"
| reconcile: "reconcile_binding c st i at s = Inr (b, s') \<Longrightarrow> binding_step c st s s'"

locale binding_ledger =
  fixes st :: "('s, 'e) BindingStore"
    and bindings :: "'s \<Rightarrow> BindingId \<Rightarrow> Binding option"
    and relations :: "'s \<Rightarrow> RelationId \<Rightarrow> Relation option"
    and resources :: "'s \<Rightarrow> ResourceId \<Rightarrow> Resource option"
    and inv :: "'s \<Rightarrow> bool"
  assumes get_law: "inv s \<Longrightarrow> bs_get_binding st s i = Inr found \<Longrightarrow> found = bindings s i"
    and key_law: "inv s \<Longrightarrow> bindings s i = Some b \<Longrightarrow> bind_id b = i"
    and list_law: "inv s \<Longrightarrow> bs_list_bindings st s = Inr bs \<Longrightarrow> b \<in> set bs \<longleftrightarrow> (\<exists>i. bindings s i = Some b)"
    and resource_law: "inv s \<Longrightarrow> sr_get_resource st s j = Inr r \<Longrightarrow> r = resources s j"
    and commit_law: "inv s \<Longrightarrow> bs_commit_binding st commit s = Inr s' \<Longrightarrow>
      inv s' \<and> resources s' = resources s \<and>
      bindings s' = (bindings s)(bind_id (bc_binding commit) \<mapsto>
        (case bindings s (bind_id (bc_binding commit)) of
           None \<Rightarrow> bc_binding commit
         | Some row \<Rightarrow> (bc_binding commit)\<lparr>bind_created_at := bind_created_at row\<rparr>)) \<and>
      upserted (relations s) (bc_relations commit) = Some (relations s')"
begin

definition status_of :: "'s \<Rightarrow> ResourceId \<Rightarrow> ResourceId \<Rightarrow> BindingStatus" where
  "status_of s source target =
     (if is_active (resources s source) \<and> is_active (resources s target)
      then BindingActive else BindingUnresolved)"

definition free_for :: "'s \<Rightarrow> BindingId option \<Rightarrow> Binding \<Rightarrow> bool" where
  "free_for s excluded b \<longleftrightarrow>
     (\<forall>j a. bindings s j = Some a \<longrightarrow> excluded \<noteq> Some j \<longrightarrow> enabled a \<longrightarrow> \<not> same_projection a b)"

lemma find_InrE:
  assumes "find_binding st i s = Inr b" and "inv s"
  shows "bindings s i = Some b \<and> bind_id b = i"
proof -
  from assms get_law have "bindings s i = Some b" by (auto simp: find_binding_def res_simps)
  with key_law[OF assms(2)] show ?thesis by blast
qed

lemma endpoint_status_eq:
  "endpoint_status st input s = Inr status \<Longrightarrow> inv s \<Longrightarrow>
     status = status_of s (bin_source input) (bin_target input)"
  by (auto simp: endpoint_status_def res_simps status_of_def dest!: resource_law[rotated])

lemma ensure_unique_free:
  assumes "ensure_unique st input excluded s = Inr u" and "inv s"
    and "bind_source b = bin_source input" and "bind_target b = bin_target input"
    and "bind_kind b = bin_kind input"
  shows "free_for s excluded b"
proof -
  from assms(1) obtain bs where bs: "bs_list_bindings st s = Inr bs" "\<not> list_ex (occupies input excluded) bs"
    by (auto simp: ensure_unique_def res_simps split: if_splits)
  have "\<not> same_projection a b" if a: "bindings s j = Some a" "excluded \<noteq> Some j" "enabled a" for j a
  proof -
    have "a \<in> set bs" using list_law[OF assms(2) bs(1)] a(1) by blast
    with bs(2) have "\<not> occupies input excluded a" by (auto simp: list_ex_iff)
    with a key_law[OF assms(2) a(1)] assms(3-5) show ?thesis
      by (auto simp: occupies_def enabled_def same_projection_def)
  qed
  then show ?thesis by (auto simp: free_for_def)
qed

lemma save_result:
  assumes "save_binding c st previous b at s = Inr (b', s')" and "inv s"
    and previous: "bindings s (bind_id b) = previous"
    and created: "\<And>old. previous = Some old \<Longrightarrow> bind_created_at b = bind_created_at old"
  shows "b' = b \<and> inv s' \<and> resources s' = resources s \<and> bindings s' = (bindings s)(bind_id b \<mapsto> b) \<and>
    (mirrored (bindings s) (relations s) \<longrightarrow> mirrored (bindings s') (relations s'))"
proof -
  from assms(1) obtain commit where commit: "binding_commit c previous b at = Inr commit"
    "bs_commit_binding st commit s = Inr s'" and b': "b' = b"
    by (auto simp: save_binding_def res_simps)
  from commit(1) obtain retired current where parts:
    "retired_relation previous b at = Inr retired"
    "configured_relation b (relation_lifecycle (bind_status b)) at = Inr current"
    "bc_binding commit = b" "bc_relations commit = retired @ [current]"
    by (rule binding_commit_InrE)
  have keep: "b\<lparr>bind_created_at := bind_created_at row\<rparr> = b" if "previous = Some row" for row
    using created[OF that] by simp
  have law: "inv s'" "resources s' = resources s" "bindings s' = (bindings s)(bind_id b \<mapsto> b)"
    "upserted (relations s) (retired @ [current]) = Some (relations s')"
    using commit_law[OF assms(2) commit(2)] parts(3,4) previous keep by (auto split: option.splits)
  have "mirrored (bindings s') (relations s')" if "mirrored (bindings s) (relations s)"
    unfolding law(3) using mirrored_write[OF that law(4) parts(1,2) previous, of b]
    by (simp add: same_projection_def)
  with b' law show ?thesis by blast
qed

lemma create_result:
  assumes "create_binding c st uuid input at s = Inr (b, s')" and "inv s"
    and "bindings s (''binding:v1:'' @ uuid) = None"
  shows "inv s' \<and> resources s' = resources s \<and> bindings s' = (bindings s)(bind_id b \<mapsto> b) \<and>
    bind_id b = ''binding:v1:'' @ uuid \<and> bind_source b = bin_source input \<and>
    bind_target b = bin_target input \<and> bind_kind b = bin_kind input \<and>
    bin_source input \<noteq> bin_target input \<and>
    bind_status b = status_of s (bin_source input) (bin_target input) \<and> free_for s None b \<and>
    bind_created_at b = at \<and> bind_updated_at b = at \<and>
    (mirrored (bindings s) (relations s) \<longrightarrow> mirrored (bindings s') (relations s'))"
proof -
  let ?b = "\<lambda>status. \<lparr>bind_id = ''binding:v1:'' @ uuid, bind_source = bin_source input,
    bind_target = bin_target input, bind_kind = bin_kind input, bind_status = status,
    bind_created_at = at, bind_updated_at = at\<rparr>"
  from assms(1) obtain u status v where steps: "validate_input input = Inr u"
    "ensure_unique st input None s = Inr v" "endpoint_status st input s = Inr status"
    "save_binding c st None (?b status) at s = Inr (b, s')"
    by (auto simp: create_binding_def res_simps)
  have saved: "b = ?b status \<and> inv s' \<and> resources s' = resources s \<and>
    bindings s' = (bindings s)(bind_id (?b status) \<mapsto> ?b status) \<and>
    (mirrored (bindings s) (relations s) \<longrightarrow> mirrored (bindings s') (relations s'))"
    by (rule save_result[OF steps(4) assms(2)]) (use assms(3) in simp_all)
  with ensure_unique_free[OF steps(2) assms(2), of "?b status"] validate_input_InrD[OF steps(1)]
    endpoint_status_eq[OF steps(3) assms(2)]
  show ?thesis by (elim conjE) simp
qed

text \<open>What a change of an existing binding did: nothing, or one commit that moved its time on.\<close>

definition changed :: "'s \<Rightarrow> 's \<Rightarrow> Binding \<Rightarrow> Binding \<Rightarrow> Timestamp \<Rightarrow> bool" where
  "changed s s' old b at \<longleftrightarrow>
     bindings s (bind_id b) = Some old \<and> bind_created_at b = bind_created_at old \<and>
     inv s' \<and> resources s' = resources s \<and>
     (s' = s \<and> b = old \<or> bind_updated_at old < at \<and> bind_updated_at b = at) \<and>
     bindings s' = (bindings s)(bind_id b \<mapsto> b) \<and>
     (mirrored (bindings s) (relations s) \<longrightarrow> mirrored (bindings s') (relations s'))"

lemma unchanged: "inv s \<Longrightarrow> bindings s (bind_id b) = Some b \<Longrightarrow> changed s s b b at"
  by (auto simp: changed_def)

lemma saved_changed:
  assumes "save_binding c st (Some old) b at s = Inr (b', s')" and "inv s"
    and "bindings s (bind_id b) = Some old" and "bind_created_at b = bind_created_at old"
    and "bind_updated_at old < at" and "bind_updated_at b = at"
  shows "b' = b \<and> changed s s' old b at"
  using save_result[OF assms(1-3)] assms(3-6) by (auto simp: changed_def)

lemma update_result:
  assumes "update_binding c st i input at s = Inr (b, s')" and "inv s"
  shows "\<exists>old. changed s s' old b at \<and> bind_id b = i \<and> bind_updated_at old < at \<and>
    bind_source b = bin_source input \<and> bind_target b = bin_target input \<and> bind_kind b = bin_kind input \<and>
    bin_source input \<noteq> bin_target input \<and>
    (if bind_status old = BindingDisabled then bind_status b = BindingDisabled
     else bind_status b = status_of s (bin_source input) (bin_target input) \<and> free_for s (Some i) b)"
proof -
  let ?b = "\<lambda>old status. \<lparr>bind_id = bind_id old, bind_source = bin_source input,
    bind_target = bin_target input, bind_kind = bin_kind input, bind_status = status,
    bind_created_at = bind_created_at old, bind_updated_at = at\<rparr>"
  from assms(1) obtain u old v w status where steps: "validate_input input = Inr u"
    "find_binding st i s = Inr old" "ensure_later at (bind_updated_at old) = (Inr v :: 'e BindingError + unit)"
    "(if bind_status old \<noteq> BindingDisabled then ensure_unique st input (Some i) s else Inr ()) = Inr w"
    "(if bind_status old = BindingDisabled then Inr BindingDisabled
      else endpoint_status st input s) = Inr status"
    and final: "(if ?b old status = old then Inr (old, s)
      else save_binding c st (Some old) (?b old status) at s) = Inr (b, s')"
    by (auto simp: update_binding_def res_bind_eq_Inr map_err_eq_Inr Let_def)
  note found = find_InrE[OF steps(2) assms(2)]
  have later: "bind_updated_at old < at" using steps(3) by (simp add: res_simps)
  then have "?b old status \<noteq> old" by (cases old) auto
  with final have "save_binding c st (Some old) (?b old status) at s = Inr (b, s')" by simp
  from saved_changed[OF this assms(2)] found later
  have "b = ?b old status" "changed s s' old b at" by auto
  with found later steps(4,5) validate_input_InrD[OF steps(1)] endpoint_status_eq[OF _ assms(2)]
    ensure_unique_free[OF _ assms(2), of input "Some i" w b]
  show ?thesis by (intro exI[of _ old]) (auto split: if_splits)
qed

lemma disable_result:
  assumes "disable_binding c st i at s = Inr (b, s')" and "inv s"
  shows "\<exists>old. changed s s' old b at \<and> bind_id b = i \<and> same_projection b old \<and> bind_status b = BindingDisabled"
proof -
  from assms(1) obtain old where old: "find_binding st i s = Inr old"
    by (auto simp: disable_binding_def res_simps)
  note found = find_InrE[OF old assms(2)]
  show ?thesis
  proof (cases "bind_status old = BindingDisabled")
    case True
    with assms old found show ?thesis
      by (intro exI[of _ old]) (auto simp: disable_binding_def same_projection_def intro: unchanged)
  next
    case False
    let ?b = "old\<lparr>bind_status := BindingDisabled, bind_updated_at := at\<rparr>"
    from False assms(1) old have "bind_updated_at old < at"
      "save_binding c st (Some old) ?b at s = Inr (b, s')"
      by (auto simp: disable_binding_def res_simps)
    with saved_changed[OF this(2) assms(2)] found have "b = ?b" "changed s s' old b at" by auto
    with found show ?thesis by (auto simp: same_projection_def)
  qed
qed

lemma reconcile_result:
  assumes "reconcile_binding c st i at s = Inr (b, s')" and "inv s"
  shows "\<exists>old. changed s s' old b at \<and> bind_id b = i \<and> same_projection b old \<and>
    (if bind_status old = BindingDisabled then b = old
     else bind_status b = status_of s (bind_source b) (bind_target b))"
proof -
  from assms(1) obtain old where old: "find_binding st i s = Inr old"
    by (auto simp: reconcile_binding_def res_simps)
  note found = find_InrE[OF old assms(2)]
  show ?thesis
  proof (cases "bind_status old = BindingDisabled")
    case True
    with assms old found show ?thesis
      by (intro exI[of _ old]) (auto simp: reconcile_binding_def same_projection_def intro: unchanged)
  next
    case False
    let ?in = "\<lparr>bin_source = bind_source old, bin_target = bind_target old, bin_kind = bind_kind old\<rparr>"
    from False assms(1) old obtain status where status: "endpoint_status st ?in s = Inr status"
      by (auto simp: reconcile_binding_def res_simps)
    have eq: "status = status_of s (bind_source old) (bind_target old)"
      using endpoint_status_eq[OF status assms(2)] by simp
    show ?thesis
    proof (cases "status = bind_status old")
      case True
      with False assms old found status eq show ?thesis
        by (intro exI[of _ old]) (auto simp: reconcile_binding_def same_projection_def intro: unchanged)
    next
      case stale: False
      let ?b = "old\<lparr>bind_status := status, bind_updated_at := at\<rparr>"
      from False stale assms(1) old status have "bind_updated_at old < at"
        "save_binding c st (Some old) ?b at s = Inr (b, s')"
        by (auto simp: reconcile_binding_def res_simps)
      with saved_changed[OF this(2) assms(2)] found have "b = ?b" "changed s s' old b at" by auto
      with found False eq show ?thesis by (auto simp: same_projection_def)
    qed
  qed
qed

lemma changed_exclusive:
  assumes "changed s s' old b at" and "exclusive (bindings s)"
    and "enabled b \<Longrightarrow> free_for s (Some (bind_id b)) b \<or> enabled old \<and> same_projection old b"
  shows "exclusive (bindings s')"
proof -
  have b: "bindings s' = (bindings s)(bind_id b \<mapsto> b)" "bindings s (bind_id b) = Some old"
    using assms(1) by (simp_all add: changed_def)
  show ?thesis unfolding b(1)
  proof (rule exclusive_update[OF assms(2)])
    fix j a
    assume a: "j \<noteq> bind_id b" "bindings s j = Some a" "enabled a" "enabled b"
    show "\<not> same_projection a b"
      using assms(3)[OF a(4)]
    proof
      assume "free_for s (Some (bind_id b)) b"
      with a show ?thesis by (auto simp: free_for_def)
    next
      assume "enabled old \<and> same_projection old b"
      with a b(2) assms(2) show ?thesis unfolding exclusive_def same_projection_def by metis
    qed
  qed
qed

lemma step_keeps:
  assumes "binding_step c st s s'" and "inv s"
    and "exclusive (bindings s)" and "mirrored (bindings s) (relations s)"
  shows "inv s' \<and> exclusive (bindings s') \<and> mirrored (bindings s') (relations s')"
  using assms(1)
proof cases
  case (create uuid input at b)
  note r = create_result[OF create(2) assms(2)]
  have "bindings s (''binding:v1:'' @ uuid) = None" using get_law[OF assms(2) create(1)] by simp
  note r = create_result[OF create(2) assms(2) this]
  have "exclusive (bindings s')"
    using r exclusive_update[OF assms(3), of "bind_id b" b] by (auto simp: free_for_def)
  with r assms(4) show ?thesis by blast
next
  case (update i input at b)
  from update_result[OF update assms(2)] obtain old where o: "changed s s' old b at" "bind_id b = i"
    "if bind_status old = BindingDisabled then bind_status b = BindingDisabled
     else bind_status b = status_of s (bin_source input) (bin_target input) \<and> free_for s (Some i) b"
    by blast
  have "exclusive (bindings s')"
    by (rule changed_exclusive[OF o(1) assms(3)]) (use o in \<open>auto simp: enabled_def split: if_splits\<close>)
  with o(1) assms(4) show ?thesis unfolding changed_def by blast
next
  case (disable i at b)
  from disable_result[OF disable assms(2)] obtain old where o: "changed s s' old b at"
    "bind_status b = BindingDisabled" by blast
  have "exclusive (bindings s')"
    by (rule changed_exclusive[OF o(1) assms(3)]) (use o in \<open>auto simp: enabled_def\<close>)
  with o(1) assms(4) show ?thesis unfolding changed_def by blast
next
  case (reconcile i at b)
  from reconcile_result[OF reconcile assms(2)] obtain old where o: "changed s s' old b at"
    "same_projection b old" "bind_status old = BindingDisabled \<Longrightarrow> b = old" by (metis (full_types))
  have "exclusive (bindings s')"
  proof (rule changed_exclusive[OF o(1) assms(3)])
    assume "enabled b"
    with o(3) have "enabled old" by (cases "bind_status old") (auto simp: enabled_def)
    with o(2) show "free_for s (Some (bind_id b)) b \<or> enabled old \<and> same_projection old b"
      by (simp add: same_projection_def)
  qed
  with o(1) assms(4) show ?thesis unfolding changed_def by blast
qed

end

end
