(* ===== verification/Binding_Properties.thy ===== *)
theory Binding_Properties
  imports Binding_Ledger
begin

text \<open>
  The binding service on the SQLite store: the store honours the contract \<open>binding_ledger\<close>, so
  every database the program reaches keeps its bindings exclusive and mirrored by relations.
\<close>

section \<open>The store honours the contract\<close>

lemma commit_binding_tables:
  assumes "commit_binding commit db = Inr db'"
  shows "db_resources db' = db_resources db \<and>
    db_bindings db' = bt_insert (bind_id (bc_binding commit))
      (case bt_get (db_bindings db) (bind_id (bc_binding commit)) of
         None \<Rightarrow> bc_binding commit
       | Some row \<Rightarrow> (bc_binding commit)\<lparr>bind_created_at := bind_created_at row\<rparr>) (db_bindings db) \<and>
    upserted (bt_get (db_relations db)) (bc_relations commit) = Some (bt_get (db_relations db'))"
proof -
  from assms obtain db1 db2 db3 db4 n1 n2 where
    chain: "upsert_binding (bc_binding commit) db = Inr db1"
    "res_fold upsert_relation (bc_relations commit) db1 = Inr db2"
    "write_all insert_relation_version (bc_relation_versions commit) db2 = Inr (n1, db3)"
    "write_all insert_change (bc_changes commit) db3 = Inr (n2, db4)"
    "db' = set_projection_metadata (bind_updated_at (bc_binding commit)) db4"
    by (auto simp: commit_binding_def res_simps)
  obtain x y z where frames: "db2 = db1\<lparr>db_relations := x\<rparr>" "db3 = db2\<lparr>db_relation_versions := y\<rparr>"
    "db4 = db3\<lparr>db_changes := z\<rparr>"
    using upsert_relations_frame[OF chain(2)] insert_relation_versions_frame[OF chain(3)]
      insert_changes_frame[OF chain(4)] by metis
  have one: "db_relations db1 = db_relations db" "db_resources db1 = db_resources db"
    "db_bindings db1 = bt_insert (bind_id (bc_binding commit))
      (case bt_get (db_bindings db) (bind_id (bc_binding commit)) of
         None \<Rightarrow> bc_binding commit
       | Some row \<Rightarrow> (bc_binding commit)\<lparr>bind_created_at := bind_created_at row\<rparr>) (db_bindings db)"
    using chain(1) by (auto simp: upsert_binding_def split: if_splits)
  have "upserted (bt_get (db_relations db1)) (bc_relations commit) = Some (bt_get (db_relations db2))"
    using upsert_relations_upserted[OF chain(2)] .
  moreover have "db_relations db' = db_relations db2" "db_resources db' = db_resources db1"
    "db_bindings db' = db_bindings db1" using chain(5) frames by simp_all
  ultimately show ?thesis using one by simp
qed

lemma read_binding_eq [res_simps]:
  "read_binding b = Inr b' \<longleftrightarrow>
     b' = b \<and> namespaced_ok (bind_kind b) \<and> time_ok (bind_created_at b) \<and> time_ok (bind_updated_at b)"
  by (auto simp: read_binding_def)

lemma read_resource_same: "read_resource r = Inr r' \<Longrightarrow> r' = r"
  by (auto simp: read_resource_def split: if_splits)

lemma list_bindings_mem:
  assumes "db_ok db" and "list_bindings db = Inr bs"
  shows "b \<in> set bs \<longleftrightarrow> (\<exists>i. bt_get (db_bindings db) i = Some b)"
proof -
  have "bs = bt_values (db_bindings db)"
    using assms(2) by (auto simp: list_bindings_def res_simps intro: res_map_same)
  moreover have "bt_wf (db_bindings db)" using assms(1) by (auto simp: db_ok_defs dest: table_ok_wf)
  ultimately show ?thesis by (simp add: bt_values_iff)
qed

lemma binding_store_simps [simp]:
  "bs_get_binding binding_store = get_binding" "bs_list_bindings binding_store = list_bindings"
  "bs_commit_binding binding_store = commit_binding" "sr_get_resource binding_store = get_resource"
  by (simp_all add: binding_store_def StoreReader.extend_def store_reader_def)

interpretation binding_sqlite: binding_ledger binding_store "\<lambda>db. bt_get (db_bindings db)"
    "\<lambda>db. bt_get (db_relations db)" "\<lambda>db. bt_get (db_resources db)" db_ok
proof unfold_locales
  fix db i found
  assume "bs_get_binding binding_store db i = Inr found"
  then show "found = bt_get (db_bindings db) i"
    by (auto simp: get_binding_def res_simps intro: query_optional_same)
next
  fix db i b
  assume "db_ok db" "bt_get (db_bindings db) i = Some b"
  then show "bind_id b = i" by (auto simp: db_ok_defs table_ok_def)
next
  fix db bs b
  assume "db_ok db" "bs_list_bindings binding_store db = Inr bs"
  then show "b \<in> set bs \<longleftrightarrow> (\<exists>i. bt_get (db_bindings db) i = Some b)" by (simp add: list_bindings_mem)
next
  fix db j r
  assume "sr_get_resource binding_store db j = Inr r"
  then show "r = bt_get (db_resources db) j"
    by (auto simp: get_resource_def intro: query_optional_same read_resource_same)
next
  fix db commit db'
  assume h: "db_ok db" "bs_commit_binding binding_store commit db = Inr db'"
  then show "db_ok db' \<and> bt_get (db_resources db') = bt_get (db_resources db) \<and>
      bt_get (db_bindings db') = (bt_get (db_bindings db))(bind_id (bc_binding commit) \<mapsto>
        (case bt_get (db_bindings db) (bind_id (bc_binding commit)) of
           None \<Rightarrow> bc_binding commit
         | Some row \<Rightarrow> (bc_binding commit)\<lparr>bind_created_at := bind_created_at row\<rparr>)) \<and>
      upserted (bt_get (db_relations db)) (bc_relations commit) = Some (bt_get (db_relations db'))"
    using commit_binding_tables[of commit db db'] commit_binding_ok[of commit db db']
    by (simp add: bt_get_insert fun_eq_iff)
qed

section \<open>Other writers\<close>

definition bindings_ok :: "Database \<Rightarrow> bool" where
  "bindings_ok db \<longleftrightarrow>
     exclusive (bt_get (db_bindings db)) \<and> mirrored (bt_get (db_bindings db)) (bt_get (db_relations db))"

text \<open>Writing relations that are not configured cannot touch one that is.\<close>

lemma upserted_foreign:
  assumes "upserted n rs = Some n'" and "\<forall>r\<in>set rs. evidence_type (rel_evidence r) \<noteq> ConfiguredType"
    and "mirrored m n"
  shows "mirrored m n'"
  using assms
proof (induction rs arbitrary: n)
  case Nil
  then show ?case by simp
next
  case (Cons r rs)
  from Cons.prems(1) obtain n1 where n1: "upserted n [r] = Some n1" "upserted n1 rs = Some n'"
    using upserted_append[of n "[r]" rs] by auto
  obtain row where row: "n1 = n(rel_id r \<mapsto> row)" "relation_key row = relation_key r"
    "rel_evidence row = rel_evidence r" "rel_lifecycle row = rel_lifecycle r"
    "\<forall>old. n (rel_id r) = Some old \<longrightarrow> relation_key old = relation_key r"
    using n1(1) by (rule upserted_one)
  have foreign: "evidence_type (rel_evidence r) \<noteq> ConfiguredType" using Cons.prems(2) by simp
  have "mirrored m n1"
  proof (rule mirroredI)
    fix i b
    assume "m i = Some b"
    with Cons.prems(3) obtain k q where q: "bind_id b = i" "binding_relation_id b = Inr k" "n k = Some q"
      "mirrors b q" by (auto dest!: mirroredD1)
    have "k \<noteq> rel_id r" using q(3,4) row(5) foreign by (auto simp: mirrors_def relation_key_def)
    with q row(1) show "bind_id b = i \<and> (\<exists>k r. binding_relation_id b = Inr k \<and> n1 k = Some r \<and> mirrors b r)"
      by auto
  next
    fix k q i
    assume h: "n1 k = Some q" "rel_evidence q = Configured i" "rel_lifecycle q \<noteq> Tombstoned"
    have "k \<noteq> rel_id r"
    proof
      assume "k = rel_id r"
      with h(1) row(1) have "q = row" by simp
      with h(2) row(3) have "rel_evidence r = Configured i" by simp
      with foreign show False by simp
    qed
    with h row(1) have "n k = Some q" by simp
    with h Cons.prems(3) show "\<exists>b. m i = Some b \<and> binding_relation_id b = Inr k" by (blast dest: mirroredD2)
  qed
  then show ?case using Cons.IH[OF n1(2)] Cons.prems(2) by simp
qed

lemma commit_sync_bindings:
  assumes "commit_sync now commit db = Inr (result, db')"
    and "\<forall>r\<in>set (sc_relations commit). evidence_type (rel_evidence r) \<noteq> ConfiguredType"
    and "bindings_ok db"
  shows "bindings_ok db'"
proof -
  let ?P = "\<lambda>u. bindings_ok u"
  show ?thesis
  proof (rule commit_sync_invariant[OF assms(1), where P = ?P])
    fix r u v
    assume "r \<in> set (sc_relations commit)" "bindings_ok u" "upsert_relation r u = Inr v"
    then show "bindings_ok v"
      using assms(2) upserted_foreign[OF upsert_relation_upserted, of r u v]
      by (auto simp: bindings_ok_def upsert_relation_def split: option.splits if_splits)
  qed (use assms(3) in \<open>auto simp: bindings_ok_def upsert_resource_def insert_resource_version_def
      insert_relation_version_def insert_change_def complete_sync_run_def write_connector_state_def
      bump_projection_metadata_def Let_def split: option.splits if_splits\<close>)
qed

lemma commit_sync_keeps_bindings:
  assumes "commit_sync now commit db = Inr (result, db')"
  shows "db_bindings db' = db_bindings db"
  by (rule commit_sync_invariant[OF assms, where P = "\<lambda>u. db_bindings u = db_bindings db"])
    (auto simp: upsert_resource_def insert_resource_version_def upsert_relation_def
      insert_relation_version_def insert_change_def complete_sync_run_def write_connector_state_def
      bump_projection_metadata_def Let_def split: option.splits if_splits)

lemma commit_inference_bindings:
  assumes "commit_inference commit db = Inr db'"
    and "\<forall>r\<in>set (ic_relations commit). evidence_type (rel_evidence r) \<noteq> ConfiguredType"
    and "bindings_ok db"
  shows "bindings_ok db'"
proof (rule commit_inference_invariant[OF assms(1), where P = bindings_ok])
  fix r u v
  assume "r \<in> set (ic_relations commit)" "bindings_ok u" "upsert_relation r u = Inr v"
  then show "bindings_ok v"
    using assms(2) upserted_foreign[OF upsert_relation_upserted, of r u v]
    by (auto simp: bindings_ok_def upsert_relation_def split: option.splits if_splits)
qed (use assms(3) in \<open>auto simp: bindings_ok_def insert_inference_run_def insert_relation_version_def
    insert_change_def insert_inference_output_def Let_def split: option.splits if_splits\<close>)

lemma mirrors_row:
  "mirrors b r \<Longrightarrow> relation_row_of db c r \<longleftrightarrow> binding_row_of db c b"
  by (auto simp: mirrors_def relation_key_def relation_row_of_def binding_row_of_def)

lemma purged_bindings:
  assumes "bindings_ok db" and "db_ok db"
  shows "bindings_ok (purged now c db)"
proof -
  let ?m = "bt_get (db_bindings db)" and ?n = "bt_get (db_relations db)"
  let ?m' = "bt_get (db_bindings (purged now c db))" and ?n' = "bt_get (db_relations (purged now c db))"
  have wf: "bt_wf (db_bindings db)" "bt_wf (db_relations db)"
    using assms(2) by (auto simp: db_ok_defs dest: table_ok_wf)
  have m': "?m' i = Some b \<longleftrightarrow> ?m i = Some b \<and> \<not> binding_row_of db c b" for i b
    by (auto simp: purged_def get_delete_where[OF wf(1)] split: option.splits)
  have n': "?n' k = Some r \<longleftrightarrow> ?n k = Some r \<and> \<not> relation_row_of db c r" for k r
    by (auto simp: purged_def get_delete_where[OF wf(2)] split: option.splits)
  have ok: "exclusive ?m" "mirrored ?m ?n" using assms(1) by (simp_all add: bindings_ok_def)
  have "exclusive ?m'" using ok(1) unfolding exclusive_def m' by blast
  moreover have "mirrored ?m' ?n'"
  proof (rule mirroredI)
    fix i b
    assume "?m' i = Some b"
    with mirroredD1[OF ok(2)] m' mirrors_row n'
    show "bind_id b = i \<and> (\<exists>k r. binding_relation_id b = Inr k \<and> ?n' k = Some r \<and> mirrors b r)"
      by blast
  next
    fix k r i
    assume h: "?n' k = Some r" "rel_evidence r = Configured i" "rel_lifecycle r \<noteq> Tombstoned"
    then obtain b where b: "?m i = Some b" "binding_relation_id b = Inr k"
      using mirroredD2[OF ok(2)] n' by blast
    with mirroredD1[OF ok(2) b(1)] h(1) n' have "mirrors b r" by auto
    with h(1) n' mirrors_row have "\<not> binding_row_of db c b" by blast
    with b m' show "\<exists>b. ?m' i = Some b \<and> binding_relation_id b = Inr k" by blast
  qed
  ultimately show ?thesis by (simp add: bindings_ok_def)
qed

text \<open>
  The databases that the program reaches: the binding service is the only writer of configured
  relations, the sync engine and the inference engine commit provider and inferred ones.
\<close>

inductive bindings_reachable :: "codec \<Rightarrow> Database \<Rightarrow> bool" for c where
  created: "bindings_reachable c (empty_database now)"
| service: "bindings_reachable c db \<Longrightarrow> binding_step c binding_store db db' \<Longrightarrow> bindings_reachable c db'"
| sync: "bindings_reachable c db \<Longrightarrow> commit_sync now commit db = Inr (result, db') \<Longrightarrow>
    \<forall>r\<in>set (sc_relations commit). evidence_type (rel_evidence r) \<noteq> ConfiguredType \<Longrightarrow>
    bindings_reachable c db'"
| inference: "bindings_reachable c db \<Longrightarrow> commit_inference ic db = Inr db' \<Longrightarrow>
    \<forall>r\<in>set (ic_relations ic). evidence_type (rel_evidence r) \<noteq> ConfiguredType \<Longrightarrow>
    bindings_reachable c db'"
| connection: "bindings_reachable c db \<Longrightarrow> upsert_connection now cn db = Inr db' \<Longrightarrow> bindings_reachable c db'"
| start: "bindings_reachable c db \<Longrightarrow> start_sync_run now run db = Inr db' \<Longrightarrow> bindings_reachable c db'"
| interrupt: "bindings_reachable c db \<Longrightarrow> mark_running_syncs_interrupted now at db = Inr (n, db') \<Longrightarrow>
    bindings_reachable c db'"
| purge: "bindings_reachable c db \<Longrightarrow> purge_connection now cid db = Inr (s, db') \<Longrightarrow> bindings_reachable c db'"

lemma bindings_same_tables:
  "bindings_ok db \<Longrightarrow> db_bindings db' = db_bindings db \<Longrightarrow> db_relations db' = db_relations db \<Longrightarrow> bindings_ok db'"
  by (simp add: bindings_ok_def)

lemma bindings_reachable_ok: "bindings_reachable c db \<Longrightarrow> db_ok db \<and> bindings_ok db"
proof (induction rule: bindings_reachable.induct)
  case (created now)
  have "bindings_ok (empty_database now)"
    by (simp add: bindings_ok_def exclusive_def mirrored_def empty_database_def)
  then show ?case using db_ok_empty by blast
next
  case (service db db')
  then show ?case using binding_sqlite.step_keeps[of c db db'] by (simp add: bindings_ok_def)
next
  case (sync db now commit result db')
  then show ?case using commit_sync_ok commit_sync_bindings by blast
next
  case (inference db ic db')
  then show ?case using commit_inference_ok commit_inference_bindings by blast
next
  case (connection db now cn db')
  from connection.hyps(2) have "db_bindings db' = db_bindings db" "db_relations db' = db_relations db"
    by (auto simp: upsert_connection_def res_simps)
  then show ?case using connection upsert_connection_ok bindings_same_tables by blast
next
  case (start db now run db')
  from start.hyps(2) have "db_bindings db' = db_bindings db" "db_relations db' = db_relations db"
    by (auto simp: start_sync_run_def insert_sync_run_def res_simps split: if_splits)
  then show ?case using start start_sync_run_ok bindings_same_tables by blast
next
  case (interrupt db now at n db')
  from interrupt.hyps(2) have "db_bindings db' = db_bindings db" "db_relations db' = db_relations db"
    by (auto simp: mark_running_syncs_interrupted_def Let_def res_simps split: if_splits)
  then show ?case using interrupt mark_interrupted_ok bindings_same_tables by blast
next
  case (purge db now cid s db')
  then show ?case using purge_connection_eq[OF purge.hyps(2)] purged_bindings by blast
qed

section \<open>Properties\<close>

text \<open>
  C18. Two invariants of the configured relations, in every database the program reaches. No two enabled
  bindings connect the same resources with the same kind. Each binding is shown by its relation, whose end
  points, kind and evidence are those of the binding and whose lifecycle is the one of its status; and
  every configured relation that is not tombstoned is the current relation of a stored binding, so
  the relations of former end points never stay visible.
\<close>

theorem bindings_exclusive_and_mirrored:
  assumes "bindings_reachable c db"
  shows "(\<forall>i a j b. bt_get (db_bindings db) i = Some a \<longrightarrow> bt_get (db_bindings db) j = Some b \<longrightarrow>
        enabled a \<longrightarrow> enabled b \<longrightarrow> same_projection a b \<longrightarrow> i = j) \<and>
    (\<forall>i b. bt_get (db_bindings db) i = Some b \<longrightarrow>
        (\<exists>k r. binding_relation_id b = Inr k \<and> bt_get (db_relations db) k = Some r \<and>
          rel_source r = bind_source b \<and> rel_target r = bind_target b \<and> rel_kind r = bind_kind b \<and>
          rel_evidence r = Configured i \<and> rel_lifecycle r = relation_lifecycle (bind_status b))) \<and>
    (\<forall>k r i. bt_get (db_relations db) k = Some r \<longrightarrow> rel_evidence r = Configured i \<longrightarrow>
        rel_lifecycle r \<noteq> Tombstoned \<longrightarrow>
        (\<exists>b. bt_get (db_bindings db) i = Some b \<and> binding_relation_id b = Inr k))"
proof -
  have ok: "exclusive (bt_get (db_bindings db))"
    "mirrored (bt_get (db_bindings db)) (bt_get (db_relations db))"
    using bindings_reachable_ok[OF assms] by (simp_all add: bindings_ok_def)
  have "\<exists>k r. binding_relation_id b = Inr k \<and> bt_get (db_relations db) k = Some r \<and>
          rel_source r = bind_source b \<and> rel_target r = bind_target b \<and> rel_kind r = bind_kind b \<and>
          rel_evidence r = Configured i \<and> rel_lifecycle r = relation_lifecycle (bind_status b)"
    if "bt_get (db_bindings db) i = Some b" for i b
    using mirroredD1[OF ok(2) that] by (auto simp: mirrors_def relation_key_def)
  moreover note mirroredD2[OF ok(2)]
  ultimately show ?thesis using ok(1) unfolding exclusive_def by blast
qed

text \<open>A store with two active resources and one that is gone.\<close>

definition two_resources :: Database where
  "two_resources = sample_store\<lparr>db_resources :=
     [(''r1'', sample_resource),
      (''r2'', sample_resource\<lparr>res_id := ''r2'', res_external_id := ''2''\<rparr>),
      (''r3'', sample_resource\<lparr>res_id := ''r3'', res_external_id := ''3'', res_lifecycle := Tombstoned\<rparr>)]\<rparr>"

definition sample_input :: BindingInput where
  "sample_input = \<lparr>bin_source = ''r1'', bin_target = ''r2'', bin_kind = ''app.uses''\<rparr>"

lemma two_resources_ok: "db_ok two_resources"
  by (auto simp: db_ok_defs two_resources_def sample_store_def empty_database_def table_ok_def refs_def
      key_refs_def unique_by_def has_key_def bt_wf_def sample_connection_def sample_run_def
      sample_resource_def sample_version_def resource_identity_def)

text \<open>From the empty database: a connection, a run, its resources, and a binding between them.\<close>

definition run_with_resources :: "Resource list \<Rightarrow> SyncCommit" where
  "run_with_resources rs =
     \<lparr>sc_run = sample_run, sc_resources = rs, sc_resource_versions = [], sc_relations = [],
      sc_relation_versions = [], sc_changes = [], sc_cursor_after = None, sc_missing_evidence = None\<rparr>"

definition bound_store :: "StoreError + Database" where
  "bound_store =
     res_bind (upsert_connection 0 sample_connection (empty_database 0)) (\<lambda>db.
     res_bind (start_sync_run 1 (sample_run\<lparr>run_status := RunRunning, run_finished_at := None\<rparr>) db) (\<lambda>db.
     res_bind (commit_sync 2 (run_with_resources
         [sample_resource, sample_resource\<lparr>res_id := ''r2'', res_external_id := ''2''\<rparr>]) db) (\<lambda>(_, db).
       map_err (\<lambda>_. conversion_error) (map_ok snd
         (create_binding brief_codec binding_store ''u'' sample_input 5 db)))))"

theorem bindings_exclusive_and_mirrored_witness:
  "\<exists>db b k r. bound_store = Inr db \<and> bt_get (db_bindings db) ''binding:v1:u'' = Some b \<and>
     bt_get (db_relations db) k = Some r \<and> rel_evidence r = Configured ''binding:v1:u'' \<and>
     rel_lifecycle r = relation_lifecycle (bind_status b)"
proof -
  have ok: "is_ok bound_store" by code_simp
  then obtain db where db: "bound_store = Inr db" by (auto simp: is_ok_iff)
  then obtain db1 db2 r3 db3 b where steps:
    "upsert_connection 0 sample_connection (empty_database 0) = Inr db1"
    "start_sync_run 1 (sample_run\<lparr>run_status := RunRunning, run_finished_at := None\<rparr>) db1 = Inr db2"
    "commit_sync 2 (run_with_resources
         [sample_resource, sample_resource\<lparr>res_id := ''r2'', res_external_id := ''2''\<rparr>]) db2 = Inr (r3, db3)"
    "create_binding brief_codec binding_store ''u'' sample_input 5 db3 = Inr (b, db)"
    by (auto simp: bound_store_def res_simps split: prod.splits)
  have r2: "bindings_reachable brief_codec db2"
    using bindings_reachable.start[OF bindings_reachable.connection[OF bindings_reachable.created steps(1)] steps(2)] .
  have r3: "bindings_reachable brief_codec db3"
    by (rule bindings_reachable.sync[OF r2 steps(3)]) (simp add: run_with_resources_def)
  have "db_bindings db3 = []"
  proof -
    have "db_bindings db2 = []"
      using steps(1,2) by (auto simp: upsert_connection_def start_sync_run_def insert_sync_run_def
          empty_database_def res_simps split: if_splits)
    then show ?thesis using commit_sync_keeps_bindings[OF steps(3)] by simp
  qed
  then have "bs_get_binding binding_store db3 (''binding:v1:'' @ ''u'') = Inr None"
    by (simp add: get_binding_def query_optional_def)
  with r3 steps(4) have "bindings_reachable brief_codec db"
    by (blast intro: bindings_reachable.service binding_step.create)
  note invariants = bindings_exclusive_and_mirrored[OF this]
  have "map_ok (\<lambda>db. bt_get (db_bindings db) ''binding:v1:u'' \<noteq> None) bound_store = Inr True" by code_simp
  then have "bt_get (db_bindings db) ''binding:v1:u'' \<noteq> None" unfolding db by simp
  then obtain b' where b': "bt_get (db_bindings db) ''binding:v1:u'' = Some b'" by blast
  from invariants[THEN conjunct2, THEN conjunct1, rule_format, OF b'] obtain k r where
    "bt_get (db_relations db) k = Some r" "rel_evidence r = Configured ''binding:v1:u''"
    "rel_lifecycle r = relation_lifecycle (bind_status b')" by blast
  with db b' show ?thesis by blast
qed

text \<open>
  What creating a binding answers. Its end points differ and exist in the store, and no enabled
  binding connects them with this kind; the new binding is active exactly when both resources are, and
  it is stored under its fresh identifier beside the unchanged others.
\<close>

theorem create_binding_outcome:
  assumes "db_ok db" and "bt_get (db_bindings db) (''binding:v1:'' @ uuid) = None"
    and "create_binding c binding_store uuid input at db = Inr (b, db')"
  shows "db_ok db' \<and> bind_id b = ''binding:v1:'' @ uuid \<and>
    bt_get (db_bindings db') = (bt_get (db_bindings db))(bind_id b \<mapsto> b) \<and>
    bin_source input \<noteq> bin_target input \<and>
    has_key (db_resources db) (bin_source input) \<and> has_key (db_resources db) (bin_target input) \<and>
    (\<forall>j a. bt_get (db_bindings db) j = Some a \<longrightarrow> enabled a \<longrightarrow> \<not> same_projection a b) \<and>
    bind_source b = bin_source input \<and> bind_target b = bin_target input \<and> bind_kind b = bin_kind input \<and>
    bind_status b =
      (if is_active (bt_get (db_resources db) (bin_source input)) \<and>
          is_active (bt_get (db_resources db) (bin_target input))
       then BindingActive else BindingUnresolved)"
proof -
  note r = binding_sqlite.create_result[OF assms(3,1,2)]
  have "bt_get (db_bindings db') (bind_id b) = Some b" using r by simp
  moreover have "refs bind_source (db_bindings db') (db_resources db')"
    "refs bind_target (db_bindings db') (db_resources db')" using r by (auto simp: db_ok_defs)
  ultimately have "has_key (db_resources db') (bind_source b)" "has_key (db_resources db') (bind_target b)"
    unfolding refs_def by blast+
  then have "has_key (db_resources db) (bin_source input)" "has_key (db_resources db) (bin_target input)"
    using r by (auto simp: has_key_def)
  with r show ?thesis
    unfolding binding_sqlite.free_for_def binding_sqlite.status_of_def by blast
qed

theorem create_binding_outcome_witness:
  "\<exists>b db'. create_binding brief_codec binding_store ''u'' sample_input 5 two_resources = Inr (b, db') \<and>
     bind_status b = BindingActive"
proof -
  have "is_ok (create_binding brief_codec binding_store ''u'' sample_input 5 two_resources)" by code_simp
  then obtain b db' where c: "create_binding brief_codec binding_store ''u'' sample_input 5 two_resources = Inr (b, db')"
    by (auto simp: is_ok_iff)
  have "bt_get (db_bindings two_resources) (''binding:v1:'' @ ''u'') = None" by code_simp
  note o = create_binding_outcome[OF two_resources_ok this c]
  have "is_active (bt_get (db_resources two_resources) (bin_source sample_input)) \<and>
    is_active (bt_get (db_resources two_resources) (bin_target sample_input))" by code_simp
  with o c show ?thesis by auto
qed

lemma save_never_duplicate: "save_binding c st p b at s \<noteq> Inl BindingDuplicate"
  by (auto simp: save_binding_def res_simps)

lemma list_bindings_eq: "list_bindings db = Inr bs \<Longrightarrow> bs = bt_values (db_bindings db)"
  by (auto simp: list_bindings_def res_simps intro: res_map_same)

text \<open>
  C19. Which requests to create a binding are refused, and how: a loop is invalid, a second enabled binding
  for the same end points and kind is a duplicate (and nothing else is), and a resource the
  store does not have cannot be an end point, although the service would call the binding unresolved.
\<close>

theorem create_binding_refusals:
  assumes "db_ok db" and "list_bindings db = Inr bs"
    and "bt_get (db_bindings db) (''binding:v1:'' @ uuid) = None"
  shows "(bin_source input = bin_target input \<longrightarrow>
      create_binding c binding_store uuid input at db =
        Inl (BindingInvalid (invalid_value ''binding source and target must be different''))) \<and>
    (create_binding c binding_store uuid input at db = Inl BindingDuplicate \<longleftrightarrow>
      bin_source input \<noteq> bin_target input \<and>
      (\<exists>i a. bt_get (db_bindings db) i = Some a \<and> enabled a \<and> bind_source a = bin_source input \<and>
        bind_target a = bin_target input \<and> bind_kind a = bin_kind input)) \<and>
    (\<not> has_key (db_resources db) (bin_source input) \<or> \<not> has_key (db_resources db) (bin_target input) \<longrightarrow>
      \<not> is_ok (create_binding c binding_store uuid input at db))"
proof (intro conjI impI)
  assume "bin_source input = bin_target input"
  then show "create_binding c binding_store uuid input at db =
      Inl (BindingInvalid (invalid_value ''binding source and target must be different''))"
    by (simp add: create_binding_def validate_input_def)
next
  let ?taken = "\<exists>i a. bt_get (db_bindings db) i = Some a \<and> enabled a \<and> bind_source a = bin_source input \<and>
        bind_target a = bin_target input \<and> bind_kind a = bin_kind input"
  have taken: "list_ex (occupies input None) bs \<longleftrightarrow> ?taken"
    unfolding list_ex_iff Bex_def list_bindings_mem[OF assms(1,2)] occupies_def enabled_def by blast
  show "create_binding c binding_store uuid input at db = Inl BindingDuplicate \<longleftrightarrow>
      bin_source input \<noteq> bin_target input \<and> ?taken"
    unfolding taken[symmetric]
    by (auto simp: create_binding_def validate_input_def ensure_unique_def assms(2) endpoint_status_def
        res_simps save_never_duplicate split: if_splits)
next
  assume missing: "\<not> has_key (db_resources db) (bin_source input) \<or> \<not> has_key (db_resources db) (bin_target input)"
  show "\<not> is_ok (create_binding c binding_store uuid input at db)"
  proof
    assume "is_ok (create_binding c binding_store uuid input at db)"
    then obtain b db' where b: "create_binding c binding_store uuid input at db = Inr (b, db')"
      by (auto simp: is_ok_iff)
    note r = binding_sqlite.create_result[OF b assms(1,3)]
    have "bt_get (db_bindings db') (bind_id b) = Some b" using r by simp
    moreover have "refs bind_source (db_bindings db') (db_resources db')"
      "refs bind_target (db_bindings db') (db_resources db')" using r by (auto simp: db_ok_defs)
    ultimately have "has_key (db_resources db') (bind_source b)" "has_key (db_resources db') (bind_target b)"
      unfolding refs_def by blast+
    with r missing show False by (auto simp: has_key_def)
  qed
qed

theorem create_binding_refusals_witness:
  "create_binding brief_codec binding_store ''u'' (sample_input\<lparr>bin_target := ''r1''\<rparr>) 5 two_resources =
     Inl (BindingInvalid (invalid_value ''binding source and target must be different''))"
proof -
  have l: "list_bindings two_resources = Inr []"
    "bt_get (db_bindings two_resources) (''binding:v1:'' @ ''u'') = None" by code_simp+
  show ?thesis
    using create_binding_refusals[OF two_resources_ok l, of "sample_input\<lparr>bin_target := ''r1''\<rparr>" brief_codec 5]
    by (simp add: sample_input_def)
qed

text \<open>
  Reconciling settles a binding: its status then tells whether both end points are active (unless the
  user disabled it), and reconciling again, at any time, answers the same without writing.
\<close>

theorem reconcile_binding_settles:
  assumes "db_ok db" and "reconcile_binding c binding_store i at db = Inr (b, db')"
  shows "reconcile_binding c' binding_store i at' db' = Inr (b, db') \<and>
    (bind_status b = BindingDisabled \<or>
     (bind_status b = BindingActive \<longleftrightarrow>
        is_active (bt_get (db_resources db') (bind_source b)) \<and>
        is_active (bt_get (db_resources db') (bind_target b))))"
proof -
  from binding_sqlite.reconcile_result[OF assms(2,1)] obtain old where
    o: "binding_sqlite.changed db db' old b at" "bind_id b = i" "same_projection b old"
    "if bind_status old = BindingDisabled then b = old
     else bind_status b = binding_sqlite.status_of db (bind_source b) (bind_target b)" by blast
  from o(1) have db': "bt_get (db_bindings db') i = Some b" "bt_get (db_bindings db) i = Some old"
    "bt_get (db_resources db') = bt_get (db_resources db)" "bind_created_at b = bind_created_at old"
    "bind_updated_at old \<le> bind_updated_at b"
    unfolding binding_sqlite.changed_def using o(2) by auto
  from assms(2) obtain f where "find_binding binding_store i db = Inr f"
    by (auto simp: reconcile_binding_def res_simps)
  with db'(2) have old: "find_binding binding_store i db = Inr old" "read_binding old = Inr old"
    by (auto simp: find_binding_def get_binding_def query_optional_def res_simps)
  have "read_binding b = Inr b"
    using old(2) o(3) db'(4,5) by (auto simp: res_simps same_projection_def time_ok_def)
  with db'(1) have find: "find_binding binding_store i db' = Inr b"
    by (simp add: find_binding_def get_binding_def query_optional_def)
  have resources: "get_resource db' k = get_resource db k" for k
    by (simp add: get_resource_def query_optional_def db'(3))
  show ?thesis
  proof (cases "bind_status old = BindingDisabled")
    case True
    with o(4) find show ?thesis by (simp add: reconcile_binding_def)
  next
    case False
    with o(4) have st: "bind_status b = binding_sqlite.status_of db (bind_source b) (bind_target b)" by simp
    let ?in = "\<lparr>bin_source = bind_source b, bin_target = bind_target b, bin_kind = bind_kind b\<rparr>"
    from False old(1) assms(2) o(3) obtain status where "endpoint_status binding_store ?in db = Inr status"
      by (auto simp: reconcile_binding_def same_projection_def res_simps)
    moreover from binding_sqlite.endpoint_status_eq[OF this assms(1)] st have "status = bind_status b" by simp
    ultimately have "endpoint_status binding_store ?in db' = Inr (bind_status b)"
      by (simp add: endpoint_status_def resources)
    with find have "reconcile_binding c' binding_store i at' db' = Inr (b, db')"
      by (simp add: reconcile_binding_def)
    with st show ?thesis
      by (auto simp: binding_sqlite.status_of_def db'(3))
  qed
qed

text \<open>A binding between an active resource and one that is gone, stored as active.\<close>

definition stale_binding :: Database where
  "stale_binding = two_resources\<lparr>db_bindings :=
     [(''b'', \<lparr>bind_id = ''b'', bind_source = ''r1'', bind_target = ''r3'', bind_kind = ''app.uses'',
        bind_status = BindingActive, bind_created_at = 1, bind_updated_at = 1\<rparr>)]\<rparr>"

theorem reconcile_binding_settles_witness:
  "\<exists>b db'. reconcile_binding brief_codec binding_store ''b'' 5 stale_binding = Inr (b, db') \<and>
     reconcile_binding brief_codec binding_store ''b'' 7 db' = Inr (b, db')"
proof -
  have ok: "db_ok stale_binding"
    by (auto simp: stale_binding_def db_ok_defs two_resources_def sample_store_def empty_database_def
        table_ok_def refs_def key_refs_def unique_by_def has_key_def bt_wf_def sample_connection_def
        sample_run_def sample_resource_def sample_version_def resource_identity_def)
  have "is_ok (reconcile_binding brief_codec binding_store ''b'' 5 stale_binding)" by code_simp
  then obtain b db' where r: "reconcile_binding brief_codec binding_store ''b'' 5 stale_binding = Inr (b, db')"
    by (auto simp: is_ok_iff)
  from reconcile_binding_settles[OF ok r, of brief_codec 7] r show ?thesis by blast
qed

end
