(* ===== verification/Scheduler.thy ===== *)
theory Scheduler
  imports Core_Model
begin

text \<open>
  The scheduler of crate \<open>next-infra-runtime\<close>: one entry per connection, and planning, which emits at most one run
  for each connection that is due and moves its next due time past the time of the evaluation. A panic is
  \<open>None\<close>.
\<close>

section \<open>Data\<close>

record ScheduleEntry =
  se_connection_id :: ConnectionId
  se_interval_millis :: "64 word"
  se_next_due_at :: Timestamp

record ScheduledSync =
  ss_connection_id :: ConnectionId
  ss_scheduled_at :: Timestamp
  ss_run_at :: Timestamp
  ss_catch_up :: bool

datatype SchedulerError = InvalidInterval

record Scheduler =
  sch_entries :: "(ConnectionId, ScheduleEntry) btree_map"

definition MAX_TIMESTAMP_MILLIS :: "64 word" where
  "MAX_TIMESTAMP_MILLIS = 9223372036854775807"

section \<open>Operations\<close>

definition scheduler_register ::
    "ConnectionId \<Rightarrow> 64 word \<Rightarrow> Timestamp \<Rightarrow> Scheduler \<Rightarrow> SchedulerError + Scheduler" where
  "scheduler_register connection_id interval_millis next_due_at sch =
     (if interval_millis = 0 then Inl InvalidInterval
      else Inr (sch\<lparr>sch_entries := bt_insert connection_id
        \<lparr>se_connection_id = connection_id, se_interval_millis = interval_millis,
         se_next_due_at = next_due_at\<rparr> (sch_entries sch)\<rparr>))"

definition scheduler_remove :: "ConnectionId \<Rightarrow> Scheduler \<Rightarrow> ScheduleEntry option \<times> Scheduler" where
  "scheduler_remove connection_id sch =
     (bt_get (sch_entries sch) connection_id,
      sch\<lparr>sch_entries := bt_remove connection_id (sch_entries sch)\<rparr>)"

definition scheduler_entry :: "Scheduler \<Rightarrow> ConnectionId \<Rightarrow> ScheduleEntry option" where
  "scheduler_entry sch connection_id = bt_get (sch_entries sch) connection_id"

text \<open>\<open>i64::saturating_add\<close>.\<close>

definition i64_saturating_add :: "int \<Rightarrow> int \<Rightarrow> int" where
  "i64_saturating_add a b = max (- i64_max - 1) (min i64_max (a + b))"

definition add_interval :: "Timestamp \<Rightarrow> 64 word \<Rightarrow> Timestamp option" where
  "add_interval at interval_millis =
     (let interval = uint (min interval_millis MAX_TIMESTAMP_MILLIS) in
      case from_unix_millis (i64_saturating_add at interval) of Inl _ \<Rightarrow> None | Inr t \<Rightarrow> Some t)"

fun plan_entries ::
    "Timestamp \<Rightarrow> bool \<Rightarrow> (ConnectionId, ScheduleEntry) btree_map \<Rightarrow>
     (ScheduledSync list \<times> (ConnectionId, ScheduleEntry) btree_map) option" where
  "plan_entries now catch_up [] = Some ([], [])"
| "plan_entries now catch_up ((i, entry) # entries) =
     (if now < se_next_due_at entry
      then map_option (\<lambda>(plans, rest). (plans, (i, entry) # rest)) (plan_entries now catch_up entries)
      else
        (case add_interval now (se_interval_millis entry) of
           None \<Rightarrow> None
         | Some due \<Rightarrow>
             map_option (\<lambda>(plans, rest).
               (\<lparr>ss_connection_id = se_connection_id entry, ss_scheduled_at = se_next_due_at entry,
                 ss_run_at = now, ss_catch_up = catch_up\<rparr> # plans,
                (i, entry\<lparr>se_next_due_at := due\<rparr>) # rest)) (plan_entries now catch_up entries)))"

definition scheduler_plan :: "bool \<Rightarrow> Timestamp \<Rightarrow> Scheduler \<Rightarrow> (ScheduledSync list \<times> Scheduler) option" where
  "scheduler_plan catch_up now sch =
     map_option (\<lambda>(plans, entries). (plans, sch\<lparr>sch_entries := entries\<rparr>))
       (plan_entries now catch_up (sch_entries sch))"

definition scheduler_plan_due :: "Timestamp \<Rightarrow> Scheduler \<Rightarrow> (ScheduledSync list \<times> Scheduler) option" where
  "scheduler_plan_due now sch = scheduler_plan False now sch"

definition plan_wake_catch_up :: "Timestamp \<Rightarrow> Scheduler \<Rightarrow> (ScheduledSync list \<times> Scheduler) option" where
  "plan_wake_catch_up now sch = scheduler_plan True now sch"

section \<open>Planning\<close>

definition scheduler_ok :: "Scheduler \<Rightarrow> bool" where
  "scheduler_ok sch \<longleftrightarrow> bt_wf (sch_entries sch) \<and>
     (\<forall>i e. bt_get (sch_entries sch) i = Some e \<longrightarrow>
        se_connection_id e = i \<and> se_interval_millis e \<noteq> 0 \<and> 0 \<le> se_next_due_at e \<and> se_next_due_at e \<le> i64_max)"

lemma scheduler_register_ok:
  "scheduler_register i interval due sch = Inr sch' \<Longrightarrow> scheduler_ok sch \<Longrightarrow> 0 \<le> due \<Longrightarrow> due \<le> i64_max \<Longrightarrow>
     scheduler_ok sch'"
  by (auto simp: scheduler_register_def scheduler_ok_def bt_wf_insert bt_get_insert split: if_splits)

lemma scheduler_remove_ok: "scheduler_ok sch \<Longrightarrow> scheduler_ok (snd (scheduler_remove i sch))"
  by (auto simp: scheduler_remove_def scheduler_ok_def bt_wf_remove bt_get_remove split: if_splits)

definition effective_interval :: "64 word \<Rightarrow> int" where
  "effective_interval interval = min (uint interval) i64_max"

lemma effective_interval_pos: "interval \<noteq> 0 \<Longrightarrow> 0 < effective_interval interval"
proof -
  assume "interval \<noteq> 0"
  then have "uint interval \<noteq> 0" by (simp add: unsigned_eq_0_iff)
  then have "0 < uint interval" using uint_ge_0[of interval] by linarith
  then show ?thesis by (simp add: effective_interval_def i64_max_def)
qed

lemma uint_min_word: "uint (min a b) = min (uint a) (uint b)"
  by (simp add: min_def word_le_def)

lemma add_interval_eq:
  assumes "0 \<le> at" and "at \<le> i64_max"
  shows "add_interval at interval = Some (min i64_max (at + effective_interval interval))"
proof -
  have "uint (min interval MAX_TIMESTAMP_MILLIS) = effective_interval interval"
    by (simp add: uint_min_word effective_interval_def MAX_TIMESTAMP_MILLIS_def i64_max_def)
  moreover have "0 \<le> effective_interval interval" by (simp add: effective_interval_def i64_max_def)
  then have "i64_saturating_add at (effective_interval interval) = min i64_max (at + effective_interval interval)"
    and "\<not> min i64_max (at + effective_interval interval) < 0"
    using assms(1) by (simp_all add: i64_saturating_add_def i64_max_def)
  ultimately show ?thesis by (simp add: add_interval_def from_unix_millis_def Let_def del: min_less_iff_disj)
qed

definition planned :: "Timestamp \<Rightarrow> ScheduleEntry \<Rightarrow> ScheduleEntry" where
  "planned now e =
     (if now < se_next_due_at e then e
      else e\<lparr>se_next_due_at := min i64_max (now + effective_interval (se_interval_millis e))\<rparr>)"

definition plan_for :: "Timestamp \<Rightarrow> bool \<Rightarrow> ScheduleEntry \<Rightarrow> ScheduledSync" where
  "plan_for now catch_up e =
     \<lparr>ss_connection_id = se_connection_id e, ss_scheduled_at = se_next_due_at e, ss_run_at = now,
      ss_catch_up = catch_up\<rparr>"

lemma plan_entries_eq:
  assumes "0 \<le> now" and "now \<le> i64_max"
  shows "plan_entries now catch_up m =
    Some (map (\<lambda>(_, e). plan_for now catch_up e) (filter (\<lambda>(_, e). se_next_due_at e \<le> now) m),
          map (\<lambda>(i, e). (i, planned now e)) m)"
  by (induction m) (auto simp: add_interval_eq[OF assms] plan_for_def planned_def)

lemma scheduler_plan_eq:
  assumes "0 \<le> now" and "now \<le> i64_max"
  shows "scheduler_plan catch_up now sch =
    Some (map (\<lambda>(_, e). plan_for now catch_up e) (filter (\<lambda>(_, e). se_next_due_at e \<le> now) (sch_entries sch)),
          sch\<lparr>sch_entries := map (\<lambda>(i, e). (i, planned now e)) (sch_entries sch)\<rparr>)"
  by (simp add: scheduler_plan_def plan_entries_eq[OF assms])

lemma scheduler_plan_ok:
  assumes "scheduler_plan catch_up now sch = Some (plans, sch')" and "scheduler_ok sch"
    and "0 \<le> now" and "now \<le> i64_max"
  shows "scheduler_ok sch'"
proof -
  have "0 \<le> now + effective_interval i" for i
    using assms(3) by (simp add: effective_interval_def i64_max_def)
  then have "se_connection_id (planned now e) = se_connection_id e \<and>
      se_interval_millis (planned now e) = se_interval_millis e \<and>
      (0 \<le> se_next_due_at e \<and> se_next_due_at e \<le> i64_max \<longrightarrow>
       0 \<le> se_next_due_at (planned now e) \<and> se_next_due_at (planned now e) \<le> i64_max)" for e
    by (simp add: planned_def i64_max_def)
  moreover have "sch' = sch\<lparr>sch_entries := map (\<lambda>(i, e). (i, planned now e)) (sch_entries sch)\<rparr>"
    using assms(1) by (simp add: scheduler_plan_eq[OF assms(3,4)])
  ultimately show ?thesis using assms(2) by (auto simp: scheduler_ok_def bt_wf_map bt_get_map)
qed

section \<open>Properties\<close>

text \<open>
  Planning never panics. It emits exactly one run for each connection that is due and none for the
  others, in the order of the connection ids, each run stamped with the time of the evaluation; the next due time of a
  planned connection is one interval later (saturating), the others keep theirs. So, before the end of
  time, planning again at the same moment emits nothing: missed intervals are never replayed.
\<close>

theorem scheduler_plan_outcome:
  assumes "scheduler_ok sch" and "0 \<le> now" and "now \<le> i64_max"
  shows "\<exists>plans sch'. scheduler_plan catch_up now sch = Some (plans, sch') \<and> scheduler_ok sch' \<and>
    sorted_wrt (<) (map ss_connection_id plans) \<and>
    (\<forall>i. i \<in> ss_connection_id ` set plans \<longleftrightarrow>
       (\<exists>e. scheduler_entry sch i = Some e \<and> se_next_due_at e \<le> now)) \<and>
    (\<forall>p\<in>set plans. ss_run_at p = now \<and> ss_catch_up p = catch_up \<and> ss_scheduled_at p \<le> now) \<and>
    (\<forall>i. scheduler_entry sch' i = map_option (\<lambda>e. if now < se_next_due_at e then e
       else e\<lparr>se_next_due_at := min i64_max (now + min (uint (se_interval_millis e)) i64_max)\<rparr>)
       (scheduler_entry sch i)) \<and>
    (now < i64_max \<longrightarrow> scheduler_plan catch_up' now sch' = Some ([], sch'))"
proof -
  let ?due = "filter (\<lambda>(_, e). se_next_due_at e \<le> now) (sch_entries sch)"
  let ?plans = "map (\<lambda>(_, e). plan_for now catch_up e) ?due"
  let ?sch' = "sch\<lparr>sch_entries := map (\<lambda>(i, e). (i, planned now e)) (sch_entries sch)\<rparr>"
  note eq = scheduler_plan_eq[OF assms(2,3)]
  have wf: "bt_wf (sch_entries sch)" using assms(1) by (simp add: scheduler_ok_def)
  have mem: "(i, e) \<in> set (sch_entries sch) \<longleftrightarrow> scheduler_entry sch i = Some e" for i e
    by (simp add: scheduler_entry_def bt_mem_iff[OF wf])
  have key: "se_connection_id e = i \<and> se_interval_millis e \<noteq> 0" if "scheduler_entry sch i = Some e" for i e
    using that assms(1) by (simp add: scheduler_entry_def scheduler_ok_def)
  have ids: "map ss_connection_id ?plans = map fst ?due"
    using mem key by (auto simp: plan_for_def)
  show ?thesis
  proof (intro exI conjI impI)
    show "scheduler_plan catch_up now sch = Some (?plans, ?sch')" by (rule eq)
    then show "scheduler_ok ?sch'" by (rule scheduler_plan_ok[OF _ assms])
    show "sorted_wrt (<) (map ss_connection_id ?plans)"
      unfolding ids using bt_wf_filter[OF wf] by (simp add: bt_wf_def)
    have "ss_connection_id ` set ?plans = set (map fst ?due)" unfolding ids[symmetric] by (simp only: set_map)
    moreover have "i \<in> set (map fst ?due) \<longleftrightarrow> (\<exists>e. (i, e) \<in> set (sch_entries sch) \<and> se_next_due_at e \<le> now)" for i
      by force
    ultimately show "\<forall>i. i \<in> ss_connection_id ` set ?plans \<longleftrightarrow>
       (\<exists>e. scheduler_entry sch i = Some e \<and> se_next_due_at e \<le> now)" by (simp only: mem simp_thms)
    show "\<forall>p\<in>set ?plans. ss_run_at p = now \<and> ss_catch_up p = catch_up \<and> ss_scheduled_at p \<le> now"
      by (auto simp: plan_for_def)
    show "\<forall>i. scheduler_entry ?sch' i = map_option (\<lambda>e. if now < se_next_due_at e then e
       else e\<lparr>se_next_due_at := min i64_max (now + min (uint (se_interval_millis e)) i64_max)\<rparr>)
       (scheduler_entry sch i)"
      unfolding effective_interval_def[symmetric] planned_def[symmetric]
      by (simp add: scheduler_entry_def bt_get_map)
  next
    assume end_of_time: "now < i64_max"
    have later: "now < se_next_due_at (planned now e)" if "(i, e) \<in> set (sch_entries sch)" for i e
      using key[of i e] that mem end_of_time effective_interval_pos[of "se_interval_millis e"]
      by (auto simp: planned_def)
    then have "planned now (planned now e) = planned now e" if "(i, e) \<in> set (sch_entries sch)" for i e
      using that by (simp add: planned_def[of now "planned now e"])
    then have same: "map (\<lambda>(i, e). (i, planned now e)) (sch_entries ?sch') = sch_entries ?sch'" by auto
    have none: "filter (\<lambda>(_, e). se_next_due_at e \<le> now) (sch_entries ?sch') = []"
      using later by (fastforce simp: filter_empty_conv not_le)
    show "scheduler_plan catch_up' now ?sch' = Some ([], ?sch')"
      unfolding scheduler_plan_eq[OF assms(2,3)] same none by simp
  qed
qed

definition sample_scheduler :: Scheduler where
  "sample_scheduler = \<lparr>sch_entries =
     [(''c1'', \<lparr>se_connection_id = ''c1'', se_interval_millis = 10, se_next_due_at = 5\<rparr>),
      (''c2'', \<lparr>se_connection_id = ''c2'', se_interval_millis = 100, se_next_due_at = 50\<rparr>)]\<rparr>"

lemma sample_scheduler_ok: "scheduler_ok sample_scheduler"
  by (auto simp: scheduler_ok_def sample_scheduler_def bt_wf_def i64_max_def)

theorem scheduler_plan_outcome_witness:
  "\<exists>plans sch'. scheduler_plan True 35 sample_scheduler = Some (plans, sch') \<and>
     scheduler_plan False 35 sch' = Some ([], sch') \<and> ss_connection_id ` set plans = {''c1''}"
proof -
  have b: "0 \<le> (35::int)" "35 \<le> i64_max" "35 < i64_max" by (simp_all add: i64_max_def)
  from scheduler_plan_outcome[OF sample_scheduler_ok b(1,2), of True False] b(3)
  obtain plans sch' where p: "scheduler_plan True 35 sample_scheduler = Some (plans, sch')"
    "scheduler_plan False 35 sch' = Some ([], sch')"
    "\<forall>i. i \<in> ss_connection_id ` set plans \<longleftrightarrow> (\<exists>e. scheduler_entry sample_scheduler i = Some e \<and> se_next_due_at e \<le> 35)"
    by blast
  have only: "(\<exists>e. scheduler_entry sample_scheduler i = Some e \<and> se_next_due_at e \<le> 35) \<longleftrightarrow> i = ''c1''" for i
    by (auto simp: scheduler_entry_def sample_scheduler_def)
  have "ss_connection_id ` set plans = {''c1''}" using p(3) unfolding only by blast
  with p(1,2) show ?thesis by blast
qed

section \<open>Runs over time\<close>

text \<open>The times at which a connection runs when the scheduler is polled at the times \<open>ts\<close>.\<close>

fun run_times :: "ConnectionId \<Rightarrow> Timestamp list \<Rightarrow> Scheduler \<Rightarrow> Timestamp list option" where
  "run_times i [] sch = Some []"
| "run_times i (t # ts) sch =
     (case scheduler_plan_due t sch of
        None \<Rightarrow> None
      | Some (plans, sch') \<Rightarrow>
          map_option (\<lambda>rest. (if i \<in> ss_connection_id ` set plans then [t] else []) @ rest) (run_times i ts sch'))"

fun entry_runs :: "Timestamp list \<Rightarrow> ScheduleEntry \<Rightarrow> Timestamp list" where
  "entry_runs [] e = []"
| "entry_runs (t # ts) e = (if se_next_due_at e \<le> t then t # entry_runs ts (planned t e) else entry_runs ts e)"

lemma run_times_eq:
  assumes "scheduler_ok sch" and "scheduler_entry sch i = Some e" and "\<forall>t\<in>set ts. 0 \<le> t \<and> t \<le> i64_max"
  shows "run_times i ts sch = Some (entry_runs ts e)"
  using assms
proof (induction ts arbitrary: sch e)
  case Nil
  then show ?case by simp
next
  case (Cons t ts)
  have t: "0 \<le> t" "t \<le> i64_max" using Cons.prems(3) by simp_all
  let ?due = "filter (\<lambda>(_, e). se_next_due_at e \<le> t) (sch_entries sch)"
  let ?plans = "map (\<lambda>(_, e). plan_for t False e) ?due"
  let ?sch' = "sch\<lparr>sch_entries := map (\<lambda>(i, e). (i, planned t e)) (sch_entries sch)\<rparr>"
  have plan: "scheduler_plan_due t sch = Some (?plans, ?sch')"
    by (simp add: scheduler_plan_due_def scheduler_plan_eq[OF t])
  have wf: "bt_wf (sch_entries sch)" using Cons.prems(1) by (simp add: scheduler_ok_def)
  have ids: "se_connection_id e' = j" if "(j, e') \<in> set (sch_entries sch)" for j e'
    using that Cons.prems(1) bt_mem_iff[OF wf] by (simp add: scheduler_ok_def)
  have "i \<in> ss_connection_id ` set ?plans \<longleftrightarrow> (\<exists>e'. (i, e') \<in> set (sch_entries sch) \<and> se_next_due_at e' \<le> t)"
    using ids by (force simp: plan_for_def image_iff)
  also have "\<dots> \<longleftrightarrow> se_next_due_at e \<le> t"
    using Cons.prems(2) by (simp add: bt_mem_iff[OF wf] scheduler_entry_def)
  finally have due: "i \<in> ss_connection_id ` set ?plans \<longleftrightarrow> se_next_due_at e \<le> t" .
  have "scheduler_ok ?sch'"
    by (rule scheduler_plan_ok[OF scheduler_plan_eq[OF t, of False] Cons.prems(1) t])
  moreover have "scheduler_entry ?sch' i = Some (planned t e)"
    using Cons.prems(2) by (simp add: scheduler_entry_def bt_get_map)
  ultimately have "run_times i ts ?sch' = Some (entry_runs ts (planned t e))"
    using Cons.IH Cons.prems(3) by simp
  moreover have "planned t e = e" if "\<not> se_next_due_at e \<le> t" using that by (simp add: planned_def)
  ultimately show ?case using due by (simp add: plan)
qed

lemma entry_runs_from: "r \<in> set (entry_runs ts e) \<Longrightarrow> \<forall>t\<in>set ts. t \<le> i64_max \<Longrightarrow> se_interval_millis e \<noteq> 0 \<Longrightarrow>
    r \<in> set ts \<and> se_next_due_at e \<le> r"
proof (induction ts arbitrary: e)
  case Nil
  then show ?case by simp
next
  case (Cons t ts)
  have "t \<le> se_next_due_at (planned t e)"
    using Cons.prems(2) effective_interval_pos[OF Cons.prems(3)] by (simp add: planned_def)
  moreover have "se_interval_millis (planned t e) = se_interval_millis e" by (simp add: planned_def)
  ultimately show ?case using Cons.IH[of "planned t e"] Cons.IH[of e] Cons.prems by (auto split: if_splits)
qed

lemma entry_runs_spaced:
  assumes "\<forall>t\<in>set ts. t \<le> i64_max" and "se_interval_millis e \<noteq> 0"
  shows "sorted_wrt (\<lambda>a b. min i64_max (a + effective_interval (se_interval_millis e)) \<le> b) (entry_runs ts e)"
  using assms
proof (induction ts arbitrary: e)
  case Nil
  then show ?case by simp
next
  case (Cons t ts)
  have p: "se_interval_millis (planned t e) = se_interval_millis e"
    "se_next_due_at e \<le> t \<Longrightarrow> se_next_due_at (planned t e) = min i64_max (t + effective_interval (se_interval_millis e))"
    by (simp_all add: planned_def)
  show ?case
    using Cons.IH[of e] Cons.IH[of "planned t e"] Cons.prems p entry_runs_from[of _ ts "planned t e"] by auto
qed

lemma entry_runs_live:
  assumes "sorted ts" and "\<forall>t\<in>set ts. t \<le> i64_max" and "se_interval_millis e \<noteq> 0"
    and "t \<in> set ts" and "se_next_due_at e \<le> t"
  shows "\<exists>r\<in>set (entry_runs ts e). r \<le> t \<and> t < r + effective_interval (se_interval_millis e)"
  using assms
proof (induction ts arbitrary: e)
  case Nil
  then show ?case by simp
next
  case (Cons u ts)
  have pos: "0 < effective_interval (se_interval_millis e)" using effective_interval_pos Cons.prems(3) .
  show ?case
  proof (cases "se_next_due_at e \<le> u")
    case False
    with Cons.prems have "t \<in> set ts" by auto
    with False Cons.IH[of e] Cons.prems show ?thesis by simp
  next
    case True
    then have p: "se_interval_millis (planned u e) = se_interval_millis e"
      "se_next_due_at (planned u e) = min i64_max (u + effective_interval (se_interval_millis e))"
      by (simp_all add: planned_def)
    show ?thesis
    proof (cases "t < u + effective_interval (se_interval_millis e)")
      case near: True
      have "u \<le> t" using Cons.prems(1,4) by auto
      with near True show ?thesis by auto
    next
      case False
      then have "t \<noteq> u" using pos by auto
      with Cons.prems(4) have "t \<in> set ts" by simp
      with False True Cons.IH[of "planned u e"] Cons.prems p show ?thesis by auto
    qed
  qed
qed



end
