(* ===== verification/Runtime.thy ===== *)
theory Runtime
  imports Scheduler Sync_Engine
begin

text \<open>
  Crate \<open>next-infra-runtime\<close>: the life cycle of the control plane around a backend and the scheduler. A
  failing operation changes the runtime too, so each returns its result together with the runtime;
  \<open>None\<close> is a panic of the scheduler. The query service is a handle that the runtime only holds.
\<close>

section \<open>Data\<close>

datatype RuntimeMode = Interactive | Background

datatype RuntimeState =
    RuntimeNew
  | Starting RuntimeMode
  | Running RuntimeMode
  | Sleeping RuntimeMode
  | Stopping
  | Stopped
  | RuntimeFailed

record StartupReport =
  sur_mode :: RuntimeMode
  sur_interrupted_runs :: nat

record ShutdownReport =
  shr_writer_drained :: bool
  shr_store_checkpointed :: bool

datatype 'e RuntimeError = InvalidState string RuntimeState | Backend 'e

record ('b, 'e) RuntimeBackend =
  rb_recover_startup :: "Timestamp \<Rightarrow> 'b \<Rightarrow> ('e + nat) \<times> 'b"
  rb_drain_writer :: "'b \<Rightarrow> ('e + unit) \<times> 'b"
  rb_checkpoint_store :: "'b \<Rightarrow> ('e + unit) \<times> 'b"

record 'b Runtime =
  rt_backend :: 'b
  rt_scheduler :: Scheduler
  rt_state :: RuntimeState
  rt_interrupted_runs :: nat

section \<open>Operations\<close>

definition Runtime_new :: "'b \<Rightarrow> Scheduler \<Rightarrow> 'b Runtime" where
  "Runtime_new backend scheduler =
     \<lparr>rt_backend = backend, rt_scheduler = scheduler, rt_state = RuntimeNew, rt_interrupted_runs = 0\<rparr>"

definition runtime_start ::
    "('b, 'e) RuntimeBackend \<Rightarrow> RuntimeMode \<Rightarrow> Timestamp \<Rightarrow> 'b Runtime \<Rightarrow>
     ('e RuntimeError + StartupReport) \<times> 'b Runtime" where
  "runtime_start rb mode at r =
     (if rt_state r \<noteq> RuntimeNew then (Inl (InvalidState ''start'' (rt_state r)), r)
      else
        let r = r\<lparr>rt_state := Starting mode\<rparr> in
        case rb_recover_startup rb at (rt_backend r) of
          (Inr interrupted_runs, backend) \<Rightarrow>
            (Inr \<lparr>sur_mode = mode, sur_interrupted_runs = interrupted_runs\<rparr>,
             r\<lparr>rt_backend := backend, rt_interrupted_runs := interrupted_runs, rt_state := Running mode\<rparr>)
        | (Inl error, backend) \<Rightarrow>
            (Inl (Backend error), r\<lparr>rt_backend := backend, rt_state := RuntimeFailed\<rparr>))"

definition is_running :: "RuntimeState \<Rightarrow> bool" where
  "is_running state \<longleftrightarrow> (case state of Running _ \<Rightarrow> True | _ \<Rightarrow> False)"

definition ensure_admission :: "'b Runtime \<Rightarrow> 'e RuntimeError + unit" where
  "ensure_admission r =
     (if is_running (rt_state r) then Inr () else Inl (InvalidState ''admit sync'' (rt_state r)))"

definition runtime_plan_due ::
    "Timestamp \<Rightarrow> 'b Runtime \<Rightarrow> (('e RuntimeError + ScheduledSync list) \<times> 'b Runtime) option" where
  "runtime_plan_due now r =
     (case ensure_admission r of
        Inl error \<Rightarrow> Some (Inl error, r)
      | Inr _ \<Rightarrow>
          map_option (\<lambda>(plans, scheduler). (Inr plans, r\<lparr>rt_scheduler := scheduler\<rparr>))
            (scheduler_plan_due now (rt_scheduler r)))"

definition runtime_sleep :: "'b Runtime \<Rightarrow> ('e RuntimeError + unit) \<times> 'b Runtime" where
  "runtime_sleep r =
     (case rt_state r of
        Running mode \<Rightarrow> (Inr (), r\<lparr>rt_state := Sleeping mode\<rparr>)
      | state \<Rightarrow> (Inl (InvalidState ''sleep'' state), r))"

definition runtime_wake ::
    "Timestamp \<Rightarrow> 'b Runtime \<Rightarrow> (('e RuntimeError + ScheduledSync list) \<times> 'b Runtime) option" where
  "runtime_wake now r =
     (case rt_state r of
        Sleeping mode \<Rightarrow>
          (let r = r\<lparr>rt_state := Running mode\<rparr> in
           map_option (\<lambda>(plans, scheduler). (Inr plans, r\<lparr>rt_scheduler := scheduler\<rparr>))
             (plan_wake_catch_up now (rt_scheduler r)))
      | state \<Rightarrow> Some (Inl (InvalidState ''wake'' state), r))"

definition runtime_stop ::
    "('b, 'e) RuntimeBackend \<Rightarrow> 'b Runtime \<Rightarrow> ('e RuntimeError + ShutdownReport) \<times> 'b Runtime" where
  "runtime_stop rb r =
     (if \<not> (case rt_state r of Running _ \<Rightarrow> True | Sleeping _ \<Rightarrow> True | _ \<Rightarrow> False)
      then (Inl (InvalidState ''stop'' (rt_state r)), r)
      else
        let r = r\<lparr>rt_state := Stopping\<rparr> in
        case rb_drain_writer rb (rt_backend r) of
          (Inl error, backend) \<Rightarrow> (Inl (Backend error), r\<lparr>rt_backend := backend, rt_state := RuntimeFailed\<rparr>)
        | (Inr _, backend) \<Rightarrow>
            (case rb_checkpoint_store rb backend of
               (Inl error, backend) \<Rightarrow>
                 (Inl (Backend error), r\<lparr>rt_backend := backend, rt_state := RuntimeFailed\<rparr>)
             | (Inr _, backend) \<Rightarrow>
                 (Inr \<lparr>shr_writer_drained = True, shr_store_checkpointed = True\<rparr>,
                  r\<lparr>rt_backend := backend, rt_state := Stopped\<rparr>)))"

section \<open>The SQLite backend\<close>

text \<open>
  The backend owns the engine, hence the writer queue in front of the store. The checkpoint of
  the write-ahead log is I/O that leaves the data alone: it is the parameter \<open>checkpoint_wal\<close>.
\<close>

definition recover_startup ::
    "int \<Rightarrow> Timestamp \<Rightarrow> Database WriterQueue \<Rightarrow> (StoreError + nat) \<times> Database WriterQueue" where
  "recover_startup now at q =
     (case sw_mark_running_syncs_interrupted (store_writer now) at (wq_store q) of
        Inl error \<Rightarrow> (Inl error, q)
      | Inr (n, store) \<Rightarrow> (Inr n, q\<lparr>wq_store := store\<rparr>))"

definition drain_writer ::
    "int \<Rightarrow> Database WriterQueue \<Rightarrow> (StoreError + unit) \<times> Database WriterQueue" where
  "drain_writer now q = (case flush (store_writer now) q of (r, q') \<Rightarrow> (map_ok (\<lambda>_. ()) r, q'))"

definition sqlite_backend ::
    "int \<Rightarrow> (Database \<Rightarrow> StoreError + unit) \<Rightarrow> (Database WriterQueue, StoreError) RuntimeBackend" where
  "sqlite_backend now checkpoint_wal =
     \<lparr>rb_recover_startup = recover_startup now, rb_drain_writer = drain_writer now,
      rb_checkpoint_store = (\<lambda>q. (checkpoint_wal (wq_store q), q))\<rparr>"

section \<open>The runtime as a state machine\<close>

inductive runtime_step :: "('b, 'e) RuntimeBackend \<Rightarrow> 'b Runtime \<Rightarrow> 'b Runtime \<Rightarrow> bool" for rb where
  start: "runtime_start rb mode at r = (result, r') \<Longrightarrow> runtime_step rb r r'"
| plan: "runtime_plan_due now r = Some (result :: 'e RuntimeError + ScheduledSync list, r') \<Longrightarrow> runtime_step rb r r'"
| sleep: "runtime_sleep r = (outcome :: 'e RuntimeError + unit, r') \<Longrightarrow> runtime_step rb r r'"
| wake: "runtime_wake now r = Some (result' :: 'e RuntimeError + ScheduledSync list, r') \<Longrightarrow> runtime_step rb r r'"
| stop: "runtime_stop rb r = (report, r') \<Longrightarrow> runtime_step rb r r'"

fun settled :: "RuntimeState \<Rightarrow> bool" where
  "settled (Starting _) = False"
| "settled Stopping = False"
| "settled _ = True"

fun follows :: "RuntimeState \<Rightarrow> RuntimeState \<Rightarrow> bool" where
  "follows RuntimeNew t = settled t"
| "follows (Running m) t \<longleftrightarrow> t \<in> {Running m, Sleeping m, Stopped, RuntimeFailed}"
| "follows (Sleeping m) t \<longleftrightarrow> t \<in> {Running m, Sleeping m, Stopped, RuntimeFailed}"
| "follows s t \<longleftrightarrow> t = s"

lemma follows_refl: "settled s \<Longrightarrow> follows s s"
  by (cases s) auto

lemma follows_trans: "follows s t \<Longrightarrow> follows t u \<Longrightarrow> follows s u"
  by (cases s; cases t) auto

lemma follows_settled: "follows s t \<Longrightarrow> settled s \<Longrightarrow> settled t"
  by (cases s) auto

lemma runtime_step_follows:
  assumes "runtime_step rb r r'" and "settled (rt_state r)"
  shows "follows (rt_state r) (rt_state r') \<and>
    (rt_state r = Stopped \<or> rt_state r = RuntimeFailed \<longrightarrow> r' = r)"
  using assms
proof cases
  case (start mode at result)
  with assms(2) show ?thesis
    by (auto simp: runtime_start_def Let_def split: if_splits prod.splits sum.splits intro: follows_refl)
next
  case (plan now result)
  with assms(2) show ?thesis
    by (auto simp: runtime_plan_due_def ensure_admission_def is_running_def intro: follows_refl
        split: if_splits prod.splits sum.splits RuntimeState.splits)
next
  case (sleep outcome)
  with assms(2) show ?thesis
    by (auto simp: runtime_sleep_def split: RuntimeState.splits)
next
  case (wake now result')
  with assms(2) show ?thesis
    by (auto simp: runtime_wake_def Let_def split: RuntimeState.splits)
next
  case (stop report)
  with assms(2) show ?thesis
    by (auto simp: runtime_stop_def Let_def split: if_splits prod.splits sum.splits RuntimeState.splits)
qed

end
