(* ===== verification/Runtime_Properties.thy ===== *)
theory Runtime_Properties
  imports Runtime
begin

text \<open>
  The life cycle of the runtime over all sequences of calls, and what starting and stopping do to the
  store behind it.
\<close>

lemma runtime_steps_follow:
  assumes "(runtime_step rb)\<^sup>*\<^sup>* r r'" and "settled (rt_state r)"
  shows "settled (rt_state r') \<and> follows (rt_state r) (rt_state r') \<and>
    (rt_state r = Stopped \<or> rt_state r = RuntimeFailed \<longrightarrow> r' = r)"
  using assms
proof (induction rule: rtranclp_induct)
  case base
  then show ?case by (simp add: follows_refl)
next
  case (step u v)
  then have u: "settled (rt_state u)" "follows (rt_state r) (rt_state u)"
    "rt_state r = Stopped \<or> rt_state r = RuntimeFailed \<longrightarrow> u = r" by auto
  note s = runtime_step_follows[OF step.hyps(2) u(1)]
  have f: "follows (rt_state r) (rt_state v)" using follows_trans[OF u(2)] s by blast
  have "settled (rt_state v)" by (rule follows_settled[OF f step.prems])
  moreover have "v = r" if "rt_state r = Stopped \<or> rt_state r = RuntimeFailed" using that u(3) s by auto
  ultimately show ?case using f by blast
qed


definition calm_backend :: "(nat, nat) RuntimeBackend" where
  "calm_backend =
     \<lparr>rb_recover_startup = (\<lambda>at b. (Inr 2, b)), rb_drain_writer = (\<lambda>b. (Inr (), b)),
      rb_checkpoint_store = (\<lambda>b. (Inr (), b))\<rparr>"


text \<open>
  Starting the runtime on its store recovers it: admission opens (the runtime runs) only after every run
  that a crash left behind is interrupted, the report counts them, and apart from them (and the
  revision) the store and the queue are as before.
\<close>

theorem runtime_start_recovers:
  assumes "runtime_start (sqlite_backend now checkpoint_wal) mode at r = (Inr report, r')"
  shows "rt_state r = RuntimeNew \<and> rt_state r' = Running mode \<and>
    sur_interrupted_runs report =
      length (filter (\<lambda>run. run_status run = RunRunning) (bt_values (db_sync_runs (wq_store (rt_backend r))))) \<and>
    (\<forall>run\<in>set (bt_values (db_sync_runs (wq_store (rt_backend r')))). run_status run \<noteq> RunRunning) \<and>
    wq_pending (rt_backend r') = wq_pending (rt_backend r) \<and>
    (\<exists>runs p. wq_store (rt_backend r') =
       (wq_store (rt_backend r))\<lparr>db_sync_runs := runs, db_projection := p\<rparr>)"
proof -
  from assms obtain n db where m: "mark_running_syncs_interrupted now at (wq_store (rt_backend r)) = Inr (n, db)"
    and r': "rt_state r = RuntimeNew" "rt_state r' = Running mode" "sur_interrupted_runs report = n"
      "rt_backend r' = (rt_backend r)\<lparr>wq_store := db\<rparr>"
    by (auto simp: runtime_start_def sqlite_backend_def recover_startup_def store_writer_def Let_def
        split: if_splits prod.splits sum.splits)
  from mark_interrupted_eq[OF m] obtain p where
    n: "n = length (filter (\<lambda>run. run_status run = RunRunning) (bt_values (db_sync_runs (wq_store (rt_backend r)))))"
    and db: "db = (wq_store (rt_backend r))\<lparr>db_sync_runs :=
        map (\<lambda>(i, run). (i, interrupt_run at run)) (db_sync_runs (wq_store (rt_backend r))), db_projection := p\<rparr>"
    by auto
  have "\<forall>run\<in>set (bt_values (db_sync_runs db)). run_status run \<noteq> RunRunning"
    by (auto simp: db bt_values_def interrupt_run_def split: if_splits)
  with r' n db show ?thesis by auto
qed

definition crashed_runtime :: "Database WriterQueue Runtime" where
  "crashed_runtime = Runtime_new (WriterQueue_new
     (sample_store\<lparr>db_sync_runs := [(''s1'', sample_run\<lparr>run_status := RunRunning, run_finished_at := None\<rparr>)]\<rparr>))
     sample_scheduler"

theorem runtime_start_recovers_witness:
  "\<exists>report r'. runtime_start (sqlite_backend 9 (\<lambda>_. Inr ())) Background 7 crashed_runtime = (Inr report, r') \<and>
     sur_interrupted_runs report = 1 \<and> rt_state r' = Running Background"
proof -
  let ?x = "runtime_start (sqlite_backend 9 (\<lambda>_. Inr ())) Background 7 crashed_runtime"
  have "is_ok (fst ?x)" by code_simp
  then obtain report r' where x: "?x = (Inr report, r')" by (metis is_ok_iff prod.collapse)
  have "length (filter (\<lambda>run. run_status run = RunRunning)
      (bt_values (db_sync_runs (wq_store (rt_backend crashed_runtime))))) = 1" by code_simp
  with runtime_start_recovers[OF x] x show ?thesis by auto
qed

text \<open>
  C24. Stopping the runtime drains the queue into the store in order. The runtime is stopped exactly when
  every waiting commit was accepted and the checkpoint succeeded; otherwise it has failed, the commits before
  the rejected one are in the store, and the rest is still queued, so nothing is lost silently. The store
  stays intact in both cases.
\<close>

theorem runtime_stop_drains:
  assumes "runtime_stop (sqlite_backend now checkpoint_wal) r = (result, r')"
    and "rt_state r = Running mode \<or> rt_state r = Sleeping mode"
  shows "\<exists>front behind results db. wq_pending (rt_backend r) = front @ behind \<and>
    commit_all (store_writer now) front (wq_store (rt_backend r)) = Inr (results, db) \<and>
    rt_backend r' = \<lparr>wq_store = db, wq_pending = behind\<rparr> \<and>
    (db_ok (wq_store (rt_backend r)) \<longrightarrow> db_ok db) \<and>
    (case result of
       Inr report \<Rightarrow> behind = [] \<and> is_ok (checkpoint_wal db) \<and> rt_state r' = Stopped
     | Inl error \<Rightarrow> rt_state r' = RuntimeFailed \<and>
         (case behind of
            [] \<Rightarrow> \<exists>e. checkpoint_wal db = Inl e \<and> error = Backend e
          | c # _ \<Rightarrow> \<exists>e. commit_sync now c db = Inl e \<and> error = Backend e))"
proof -
  let ?q = "rt_backend r"
  obtain fr q' where f: "flush (store_writer now) ?q = (fr, q')" by fastforce
  from flush_loop_spec[OF f[unfolded flush_def]] obtain front behind results db where
    spec: "wq_pending ?q = front @ behind" "commit_all (store_writer now) front (wq_store ?q) = Inr (results, db)"
    "q' = \<lparr>wq_store = db, wq_pending = behind\<rparr>"
    "case fr of Inr all \<Rightarrow> behind = [] \<and> all = [] @ results
      | Inl e \<Rightarrow> \<exists>c rest. behind = c # rest \<and> sw_commit_sync (store_writer now) c db = Inl e"
    by blast
  have ok: "db_ok (wq_store ?q) \<longrightarrow> db_ok db"
    using store_queue.commit_all_inv spec(2) by blast
  show ?thesis
  proof (cases fr)
    case (Inl e)
    with spec(4) obtain c rest where c: "behind = c # rest" "commit_sync now c db = Inl e"
      by (auto simp: store_writer_def)
    from assms f Inl have "result = Inl (Backend e)" "rt_state r' = RuntimeFailed" "rt_backend r' = q'"
      by (auto simp: runtime_stop_def sqlite_backend_def drain_writer_def Let_def split: if_splits)
    with spec c ok show ?thesis by auto
  next
    case (Inr all)
    with spec(4) have "behind = []" by simp
    with Inr assms f spec(3) have "rt_backend r' = \<lparr>wq_store = db, wq_pending = []\<rparr>"
      "case checkpoint_wal db of
         Inr u \<Rightarrow> is_ok result \<and> rt_state r' = Stopped
       | Inl e \<Rightarrow> result = Inl (Backend e) \<and> rt_state r' = RuntimeFailed"
      by (auto simp: runtime_stop_def sqlite_backend_def drain_writer_def Let_def split: if_splits sum.splits)
    with spec \<open>behind = []\<close> ok show ?thesis by (cases "checkpoint_wal db"; cases result) auto
  qed
qed

theorem runtime_stop_drains_witness:
  "\<exists>r'. runtime_stop (sqlite_backend 9 (\<lambda>_. Inr ()))
       (crashed_runtime\<lparr>rt_state := Running Interactive\<rparr>) =
       (Inr \<lparr>shr_writer_drained = True, shr_store_checkpointed = True\<rparr>, r') \<and>
     wq_pending (rt_backend r') = [] \<and> rt_state r' = Stopped"
proof -
  let ?r = "crashed_runtime\<lparr>rt_state := Running Interactive\<rparr>"
  have "fst (runtime_stop (sqlite_backend 9 (\<lambda>_. Inr ())) ?r) =
      Inr \<lparr>shr_writer_drained = True, shr_store_checkpointed = True\<rparr>" by code_simp
  then obtain r' where s: "runtime_stop (sqlite_backend 9 (\<lambda>_. Inr ())) ?r =
      (Inr \<lparr>shr_writer_drained = True, shr_store_checkpointed = True\<rparr>, r')" by (metis prod.collapse)
  from runtime_stop_drains[OF s, of Interactive] s show ?thesis by auto
qed

end
