(* ===== verification/Rust_Int.thy ===== *)
theory Rust_Int
  imports Core_Ids
begin

text \<open>
  What the query crates use of \<open>i64\<close>: the checked and saturating operations, reading and writing
  decimal numbers. An \<open>i64\<close> is kept as an integer with its range written out.
\<close>

section \<open>Range\<close>

definition i64_min :: int where
  "i64_min = - i64_max - 1"

text \<open>The result of a checked operation.\<close>

definition i64_checked :: "int \<Rightarrow> int option" where
  "i64_checked v = (if i64_min \<le> v \<and> v \<le> i64_max then Some v else None)"

definition i64_saturated :: "int \<Rightarrow> int" where
  "i64_saturated v = max i64_min (min i64_max v)"

text \<open>The result of an unchecked operation in the release profile, which the workspace does not override.\<close>

definition i64_wrapped :: "int \<Rightarrow> int" where
  "i64_wrapped v = (v + 9223372036854775808) mod 18446744073709551616 - 9223372036854775808"

lemma i64_checked_eq: "i64_checked v = Some w \<longleftrightarrow> w = v \<and> i64_min \<le> v \<and> v \<le> i64_max"
  by (auto simp: i64_checked_def)

lemma i64_wrapped_ok [simp]: "i64_min \<le> v \<Longrightarrow> v \<le> i64_max \<Longrightarrow> i64_wrapped v = v"
  by (simp add: i64_wrapped_def i64_min_def i64_max_def)

lemma i64_checked_ok [simp]: "i64_min \<le> v \<Longrightarrow> v \<le> i64_max \<Longrightarrow> i64_checked v = Some v"
  by (simp add: i64_checked_def)

section \<open>Decimal texts\<close>

text \<open>\<open>str::parse::<i64>\<close>: an optional sign and at least one digit, in range.\<close>

definition parse_magnitude :: "string \<Rightarrow> nat option" where
  "parse_magnitude s = (if s = [] \<or> \<not> list_all is_ascii_digit s then None else Some (parse_digits 0 s))"

definition parse_i64 :: "string \<Rightarrow> int option" where
  "parse_i64 s =
     (case s of
        [] \<Rightarrow> None
      | c # t \<Rightarrow>
          if c = CHR ''-'' then Option.bind (parse_magnitude t) (\<lambda>n. i64_checked (- int n))
          else if c = CHR ''+'' then Option.bind (parse_magnitude t) (\<lambda>n. i64_checked (int n))
          else Option.bind (parse_magnitude s) (\<lambda>n. i64_checked (int n)))"

text \<open>\<open>{:0w}\<close>: padded with zeros to \<open>w\<close> bytes, the sign before them.\<close>

definition pad_left :: "nat \<Rightarrow> string \<Rightarrow> string" where
  "pad_left w s = replicate (w - length s) CHR ''0'' @ s"

definition show_padded :: "nat \<Rightarrow> int \<Rightarrow> string" where
  "show_padded w i =
     (if i < 0 then CHR ''-'' # pad_left (w - 1) (show_nat (nat (- i))) else pad_left w (show_nat (nat i)))"

lemma parse_digits_zeros: "parse_digits 0 (replicate k CHR ''0'' @ s) = parse_digits 0 s"
  by (induction k) (simp_all add: byte_def)

lemma pad_left_digits: "list_all is_ascii_digit (pad_left w (show_nat n))"
  by (auto simp: pad_left_def list_all_iff is_ascii_digit_def byte_def dest: show_nat_digits[unfolded is_ascii_digit_def byte_def])

lemma parse_pad_left: "parse_magnitude (pad_left w (show_nat n)) = Some n"
  using pad_left_digits[of w n]
  by (auto simp: parse_magnitude_def pad_left_def parse_digits_zeros parse_show_nat)

lemma digit_not_sign: "is_ascii_digit c \<Longrightarrow> c \<noteq> CHR ''-'' \<and> c \<noteq> CHR ''+''"
  by (auto simp: is_ascii_digit_def byte_def)

lemma parse_i64_magnitude:
  assumes "parse_magnitude s = Some n" and "int n \<le> i64_max"
  shows "parse_i64 s = Some (int n)"
proof -
  from assms(1) have d: "s \<noteq> []" "list_all is_ascii_digit s" by (auto simp: parse_magnitude_def split: if_splits)
  then obtain c t where s: "s = c # t" and c: "is_ascii_digit c" by (cases s) auto
  from assms(2) have "i64_checked (int n) = Some (int n)" by (simp add: i64_min_def i64_max_def)
  with assms(1) digit_not_sign[OF c] show ?thesis by (simp add: parse_i64_def s)
qed

lemma parse_show_padded: "0 \<le> i \<Longrightarrow> i \<le> i64_max \<Longrightarrow> parse_i64 (show_padded w i) = Some i"
  using parse_i64_magnitude[OF parse_pad_left[of w "nat i"]] by (simp add: show_padded_def)

lemma show_padded_digits: "0 \<le> i \<Longrightarrow> list_all is_ascii_digit (show_padded w i)"
  by (simp add: show_padded_def pad_left_digits)

lemma show_padded_nonempty [simp]: "show_padded w i \<noteq> []"
  by (simp add: show_padded_def pad_left_def)

section \<open>Splitting\<close>

text \<open>\<open>split_once\<close> at a byte.\<close>

fun split_once :: "char \<Rightarrow> string \<Rightarrow> (string \<times> string) option" where
  "split_once d [] = None"
| "split_once d (c # s) =
     (if c = d then Some ([], s) else map_option (\<lambda>(u, v). (c # u, v)) (split_once d s))"

definition strip_suffix_byte :: "char \<Rightarrow> string \<Rightarrow> string option" where
  "strip_suffix_byte d s = (if s \<noteq> [] \<and> last s = d then Some (butlast s) else None)"

lemma split_once_append: "d \<notin> set u \<Longrightarrow> split_once d (u @ d # v) = Some (u, v)"
  by (induction u) auto

lemma strip_suffix_append: "strip_suffix_byte d (u @ [d]) = Some u"
  by (simp add: strip_suffix_byte_def)

lemma split_once_Some: "split_once d s = Some (u, v) \<Longrightarrow> s = u @ d # v \<and> d \<notin> set u"
  by (induction s arbitrary: u) (auto split: if_splits)

lemma split_once_None: "split_once d s = None \<longleftrightarrow> d \<notin> set s"
  by (induction s) auto

lemma split_byte_append: "d \<notin> set u \<Longrightarrow> split_byte d (u @ d # v) = u # split_byte d v"
  by (induction u) (auto split: list.split)

lemma split_byte_id: "d \<notin> set u \<Longrightarrow> split_byte d u = [u]"
  by (induction u) auto

end
