(* ===== verification/Query_Time.thy ===== *)
theory Query_Time
  imports Rust_Int Store
begin

text \<open>
  The conversion between timestamps and the texts of the query interface, at the end of
  \<open>query_source.rs\<close> of crate \<open>next-infra-runtime\<close>. The products with a part of the clock are
  unchecked: they wrap, as in the release profile (a build with overflow checks panics there).
\<close>

section \<open>Errors of the query source\<close>

datatype QueryContextError = ContextInvalidInterval | RevisionMustIncrease

datatype QuerySourceError = SourceStore StoreError | SourceContext QueryContextError | SourceContract string

section \<open>Days and dates\<close>

definition civil_from_days :: "int \<Rightarrow> int \<times> int \<times> int" where
  "civil_from_days days_since_epoch =
     (let z = days_since_epoch + 719468;
          era = (if 0 \<le> z then z else z - 146096) div 146097;
          doe = z - era * 146097;
          yoe = (doe - doe div 1460 + doe div 36524 - doe div 146096) div 365;
          year = yoe + era * 400;
          doy = doe - (365 * yoe + yoe div 4 - yoe div 100);
          month_part = (5 * doy + 2) div 153;
          day = doy - (153 * month_part + 2) div 5 + 1;
          month = month_part + (if month_part < 10 then 3 else - 9);
          year = year + (if month \<le> 2 then 1 else 0)
      in (year, month, day))"

definition month_days :: "int list" where
  "month_days = [31, 28, 31, 30, 31, 30, 31, 31, 30, 31, 30, 31]"

definition leap_year :: "int \<Rightarrow> bool" where
  "leap_year year \<longleftrightarrow> year mod 4 = 0 \<and> (year mod 100 \<noteq> 0 \<or> year mod 400 = 0)"

text \<open>The caller has checked that the month is between 1 and 12.\<close>

definition days_from_civil :: "int \<Rightarrow> int \<Rightarrow> int \<Rightarrow> int option" where
  "days_from_civil year month day =
     (let max_day = month_days ! nat (month - 1) + (if month = 2 \<and> leap_year year then 1 else 0) in
      if day < 1 \<or> max_day < day then None
      else
        let adjusted_year = year - (if month \<le> 2 then 1 else 0);
            era = (if 0 \<le> adjusted_year then adjusted_year else adjusted_year - 399) div 400;
            year_of_era = adjusted_year - era * 400;
            month_part = month + (if 2 < month then - 3 else 9);
            day_of_year = (153 * month_part + 2) div 5 + day - 1;
            day_of_era = year_of_era * 365 + year_of_era div 4 - year_of_era div 100 + day_of_year
        in Option.bind (i64_checked (era * 146097)) (\<lambda>v.
           Option.bind (i64_checked (v + day_of_era)) (\<lambda>v. i64_checked (v - 719468))))"

section \<open>Texts\<close>

definition format_timestamp :: "Timestamp \<Rightarrow> string" where
  "format_timestamp millis =
     (let seconds = millis div 1000;
          milliseconds = millis mod 1000;
          days = seconds div 86400;
          seconds_of_day = seconds mod 86400
      in case civil_from_days days of (year, month, day) \<Rightarrow>
        show_padded 4 year @ ''-'' @ show_padded 2 month @ ''-'' @ show_padded 2 day @ ''T'' @
        show_padded 2 (seconds_of_day div 3600) @ '':'' @
        show_padded 2 ((seconds_of_day mod 3600) div 60) @ '':'' @
        show_padded 2 (seconds_of_day mod 60) @ ''.'' @ show_padded 3 milliseconds @ ''Z'')"

definition timestamp_invalid :: QuerySourceError where
  "timestamp_invalid = SourceContract ''timestamp is invalid''"

text \<open>The three numbers of a date or a clock time, and nothing after them.\<close>

definition parse_three :: "char \<Rightarrow> string \<Rightarrow> (int \<times> int \<times> int) option" where
  "parse_three d s =
     (case split_byte d s of
        [a, b, c] \<Rightarrow>
          Option.bind (parse_i64 a) (\<lambda>a. Option.bind (parse_i64 b) (\<lambda>b.
          map_option (\<lambda>c. (a, b, c)) (parse_i64 c)))
      | _ \<Rightarrow> None)"

definition parse_fraction :: "string \<Rightarrow> int option" where
  "parse_fraction fraction =
     (if fraction = [] then Some 0
      else if 3 < length fraction \<or> \<not> list_all is_ascii_digit fraction then None
      else map_option (\<lambda>n. n * 10 ^ (3 - length fraction)) (parse_i64 fraction))"

text \<open>The sum of the parts: an addition is checked, a product with a part of the clock is not.\<close>

definition add_part :: "int \<Rightarrow> int option \<Rightarrow> int option" where
  "add_part part acc = Option.bind acc (\<lambda>v. i64_checked (v + i64_wrapped part))"

definition sum_timestamp :: "int \<Rightarrow> int \<Rightarrow> int \<Rightarrow> int \<Rightarrow> int \<Rightarrow> int option" where
  "sum_timestamp days hour minute second fraction =
     Option.bind
       (add_part fraction (add_part (second * 1000) (add_part (minute * 60000)
         (add_part (hour * 3600000) (i64_checked (days * 86400000))))))
       (\<lambda>t. if 0 \<le> t then Some t else None)"

definition parse_timestamp :: "string \<Rightarrow> QuerySourceError + int" where
  "parse_timestamp value =
     (case parse_i64 value of
        Some millis \<Rightarrow> if 0 \<le> millis then Inr millis else Inl timestamp_invalid
      | None \<Rightarrow>
      (case strip_suffix_byte CHR ''Z'' value of
        None \<Rightarrow> Inl (SourceContract ''timestamp must be UTC'')
      | Some value \<Rightarrow>
      (case split_once CHR ''T'' value of
        None \<Rightarrow> Inl timestamp_invalid
      | Some (date, time) \<Rightarrow>
      (case parse_three CHR ''-'' date of
        None \<Rightarrow> Inl timestamp_invalid
      | Some (year, month, day) \<Rightarrow>
      if \<not> (1 \<le> month \<and> month \<le> 12) \<or> day = 0 then Inl timestamp_invalid
      else
        (case (case split_once CHR ''.'' time of None \<Rightarrow> (time, []) | Some parts \<Rightarrow> parts) of (clock, fraction) \<Rightarrow>
        (case parse_three CHR '':'' clock of
          None \<Rightarrow> Inl timestamp_invalid
        | Some (hour, minute, second) \<Rightarrow>
        if 23 < hour \<or> 59 < minute \<or> 59 < second then Inl timestamp_invalid
        else
          ok_or timestamp_invalid
            (Option.bind (parse_fraction fraction) (\<lambda>fraction.
             Option.bind (days_from_civil year month day) (\<lambda>days.
               sum_timestamp days hour minute second fraction)))))))))"

section \<open>The calendar\<close>

text \<open>Days before the year \<open>y\<close> of an era of 400 years, which begins on the first of March.\<close>

definition era_start :: "int \<Rightarrow> int" where
  "era_start y = 365 * y + y div 4 - y div 100"

lemma int_div_eqI: "b * q \<le> a \<Longrightarrow> a < b * q + b \<Longrightarrow> a div b = (q :: int)"
  by (rule int_div_pos_eq[of a b q "a - b * q"]) auto

text \<open>A day of an era: its century, its place in the century by four-year cycles, and the rest.\<close>

lemma era_split:
  assumes "0 \<le> doe" and "doe < 146096"
  obtains c q s :: int where "doe = 36524 * c + 1461 * q + s" and "0 \<le> c" and "c \<le> 3" and "0 \<le> q" and "q \<le> 24"
    and "0 \<le> s" and "s \<le> 1460" and "q = 24 \<longrightarrow> s \<le> 1459"
proof -
  define r where "r = doe mod 36524"
  have r: "0 \<le> r" "r \<le> 36523" unfolding r_def using pos_mod_bound[of 36524 doe] by simp_all
  have s: "0 \<le> r mod 1461" "r mod 1461 \<le> 1460" using pos_mod_bound[of 1461 r] by simp_all
  have eqs: "doe = 36524 * (doe div 36524) + r" "r = 1461 * (r div 1461) + r mod 1461"
    unfolding r_def by simp_all
  have c: "0 \<le> doe div 36524" "doe div 36524 \<le> 3"
    using assms zdiv_mono1[of doe 146095 36524] by (simp_all add: pos_imp_zdiv_nonneg_iff)
  have q: "0 \<le> r div 1461" "r div 1461 \<le> 24"
    using r zdiv_mono1[of r 36523 1461] by (simp_all add: pos_imp_zdiv_nonneg_iff)
  have "r div 1461 = 24 \<longrightarrow> r mod 1461 \<le> 1459" using eqs(2) r(2) by linarith
  with that[of "doe div 36524" "r div 1461" "r mod 1461"] eqs c q s show thesis by linarith
qed

lemma era_year_split:
  fixes c q s :: int
  assumes "doe = 36524 * c + 1461 * q + s" and "0 \<le> c" and "c \<le> 3" and "0 \<le> q" and "q \<le> 24"
    and "0 \<le> s" and "s \<le> 1460" and "q = 24 \<longrightarrow> s \<le> 1459" and "k = min 3 (s div 365)"
  shows "(doe - doe div 1460 + doe div 36524 - doe div 146096) div 365 = 100 * c + 4 * q + k"
proof -
  have r: "1461 * q + s < 36524" using assms(5,7,8) by (cases "q = 24") auto
  have c: "doe div 36524 = c" by (rule int_div_eqI) (use assms r in linarith)+
  have z: "doe div 146096 = 0" using assms r by (intro div_pos_pos_trivial) linarith+
  let ?d = "if 1460 \<le> 24 * c + q + s then 1 else 0 :: int"
  have y: "doe div 1460 = 25 * c + q + ?d"
  proof (cases "1460 \<le> 24 * c + q + s")
    case True
    then have "doe div 1460 = 25 * c + q + 1" by (intro int_div_eqI) (use assms(1-7) in \<open>simp_all add: algebra_simps\<close>)
    with True show ?thesis by simp
  next
    case False
    then have "doe div 1460 = 25 * c + q" by (intro int_div_eqI) (use assms(1-7) in \<open>simp_all add: algebra_simps\<close>)
    with False show ?thesis by simp
  qed
  have "365 * k \<le> s - ?d \<and> s - ?d < 365 * k + 365"
  proof -
    consider "s < 365" | "365 \<le> s" "s < 730" | "730 \<le> s" "s < 1095" | "1095 \<le> s" by linarith
    then show ?thesis
    proof cases
      case 1
      then have "s div 365 = 0" using assms(6) by simp
      with 1 assms show ?thesis by simp
    next
      case 2
      then have "s div 365 = 1" by (intro int_div_eqI) simp_all
      with 2 assms show ?thesis by simp
    next
      case 3
      then have "s div 365 = 2" by (intro int_div_eqI) simp_all
      with 3 assms show ?thesis by simp
    next
      case 4
      then have "3 \<le> s div 365" using zdiv_mono1[of 1095 s 365] by simp
      with 4 assms show ?thesis by simp
    qed
  qed
  then show ?thesis unfolding c z y by (intro int_div_eqI) (use assms(1) in \<open>simp_all add: algebra_simps\<close>)
qed

lemma era_year:
  assumes "0 \<le> doe" and "doe \<le> 146096"
    and "yoe = (doe - doe div 1460 + doe div 36524 - doe div 146096) div 365"
  shows "0 \<le> yoe \<and> yoe \<le> 399 \<and> era_start yoe \<le> doe \<and> doe - era_start yoe \<le> 365 \<and>
    (doe - era_start yoe = 365 \<longrightarrow> (yoe + 1) mod 4 = 0 \<and> ((yoe + 1) mod 100 \<noteq> 0 \<or> (yoe + 1) mod 400 = 0))"
proof (cases "doe = 146096")
  case True
  with assms(3) have "yoe = 399" by simp
  with True show ?thesis by (simp add: era_start_def)
next
  case False
  with assms(2) have "doe < 146096" by simp
  then obtain c q s where d: "doe = 36524 * c + 1461 * q + s" "0 \<le> c" "c \<le> 3" "0 \<le> q" "q \<le> 24"
    "0 \<le> s" "s \<le> 1460" "q = 24 \<longrightarrow> s \<le> 1459"
    by (rule era_split[OF assms(1)])
  define k where "k = min 3 (s div 365)"
  have y: "yoe = 100 * c + 4 * q + k" unfolding assms(3) by (rule era_year_split[OF d k_def])
  have div: "365 * (s div 365) \<le> s" "s < 365 * (s div 365) + 365" "0 \<le> s div 365"
    using d(6) by (auto simp: pos_imp_zdiv_nonneg_iff)
  have k: "0 \<le> k" "k \<le> 3" "365 * k \<le> s" "s - 365 * k \<le> 365" "s - 365 * k = 365 \<longrightarrow> k = 3 \<and> s = 1460"
    using div d(7) unfolding k_def by linarith+
  have "yoe div 4 = 25 * c + q" by (rule int_div_eqI) (use y k(1,2) in \<open>simp_all add: algebra_simps\<close>)
  moreover have "yoe div 100 = c" by (rule int_div_eqI) (use y k(1,2) d(4,5) in \<open>simp_all add: algebra_simps\<close>)
  ultimately have start: "era_start yoe = 36524 * c + 1461 * q + 365 * k" using y by (simp add: era_start_def)
  have "(yoe + 1) mod 4 = 0 \<and> (yoe + 1) mod 100 \<noteq> 0" if "s - 365 * k = 365"
  proof -
    from that k(5) d(8) d(5) have k3: "k = 3" "q \<le> 23" by auto
    then have e: "yoe + 1 = 4 * (25 * c + q + 1)" using y by simp
    have "(yoe + 1) div 100 = c" by (rule int_div_eqI) (use y k3 d(4) in \<open>simp_all add: algebra_simps\<close>)
    then have "(yoe + 1) mod 100 = 4 * q + 4" using y k3 by (simp add: minus_div_mult_eq_mod[symmetric])
    with d(4) e show ?thesis by simp
  qed
  then show ?thesis using start d y k by auto
qed

text \<open>The months of a year that begins in March.\<close>

definition month_ok :: "int \<Rightarrow> bool" where
  "month_ok doy =
     (let mp = (5 * doy + 2) div 153; day = doy - (153 * mp + 2) div 5 + 1;
          month = mp + (if mp < 10 then 3 else - 9)
      in 0 \<le> mp \<and> mp \<le> 11 \<and> 1 \<le> month \<and> month \<le> 12 \<and> 1 \<le> day \<and> day \<le> 31 \<and>
         month + (if 2 < month then - 3 else 9) = mp \<and> (month \<le> 2 \<longleftrightarrow> 10 \<le> mp) \<and>
         day \<le> month_days ! nat (month - 1) + (if doy = 365 then 1 else 0) \<and>
         (doy = 365 \<longrightarrow> month = 2))"

lemma month_days_ok:
  assumes "0 \<le> doy" and "doy \<le> 365"
  shows "month_ok doy"
proof -
  define mp where "mp = (5 * doy + 2) div 153"
  have b: "153 * mp \<le> 5 * doy + 2" "5 * doy + 2 < 153 * mp + 153"
    using mult_div_mod_eq[of 153 "5 * doy + 2"] pos_mod_bound[of 153 "5 * doy + 2"]
      pos_mod_sign[of 153 "5 * doy + 2"] unfolding mp_def by linarith+
  with assms have "0 \<le> mp" "mp \<le> 11" by linarith+
  then have "mp = 0 \<or> mp = 1 \<or> mp = 2 \<or> mp = 3 \<or> mp = 4 \<or> mp = 5 \<or> mp = 6 \<or> mp = 7 \<or>
    mp = 8 \<or> mp = 9 \<or> mp = 10 \<or> mp = 11" by presburger
  then show ?thesis
    unfolding month_ok_def Let_def mp_def[symmetric]
    by (elim disjE) (use b assms in \<open>simp_all add: month_days_def\<close>)
qed

lemma days_from_civil_eval:
  assumes "1 \<le> day" and "day \<le> month_days ! nat (month - 1) + (if month = 2 \<and> leap_year year then 1 else 0)"
    and "year - (if month \<le> 2 then 1 else 0) = yoe + era * 400" and "0 \<le> yoe" and "yoe \<le> 399" and "0 \<le> era"
    and "era \<le> 2000000" and "month + (if 2 < month then - 3 else 9) = mp"
    and "(153 * mp + 2) div 5 + day - 1 = doy"
    and "yoe * 365 + yoe div 4 - yoe div 100 + doy = doe" and "0 \<le> doe" and "doe \<le> 146096"
  shows "days_from_civil year month day = Some (era * 146097 + doe - 719468)"
proof -
  have day: "\<not> (day < 1 \<or> month_days ! nat (month - 1) + (if month = 2 \<and> leap_year year then 1 else 0) < day)"
    using assms(1,2) by linarith
  have "0 \<le> yoe + era * 400" using assms(4,6) by simp
  moreover have "(yoe + era * 400) div 400 = era" using assms(4,5) by (simp add: int_div_eqI)
  ultimately have era: "(if 0 \<le> yoe + era * 400 then yoe + era * 400 else yoe + era * 400 - 399) div 400 = era"
    by (simp only: if_True)
  have y: "yoe + era * 400 - era * 400 = yoe" by simp
  have c: "i64_checked (era * 146097) = Some (era * 146097)"
    "i64_checked (era * 146097 + doe) = Some (era * 146097 + doe)"
    "i64_checked (era * 146097 + doe - 719468) = Some (era * 146097 + doe - 719468)"
    using assms(6,7,11,12) by (simp_all add: i64_min_def i64_max_def)
  show ?thesis
    unfolding days_from_civil_def Let_def if_not_P[OF day] assms(3) era y assms(8,9,10) c Option.bind.simps
    by (rule refl)
qed

lemma civil_from_days_eval:
  assumes "0 \<le> d + 719468" and "era = (d + 719468) div 146097" and "doe = d + 719468 - era * 146097"
    and "yoe = (doe - doe div 1460 + doe div 36524 - doe div 146096) div 365" and "doy = doe - era_start yoe"
    and "mp = (5 * doy + 2) div 153" and "month = mp + (if mp < 10 then 3 else - 9)"
  shows "civil_from_days d =
    (yoe + era * 400 + (if month \<le> 2 then 1 else 0), month, doy - (153 * mp + 2) div 5 + 1)"
  unfolding civil_from_days_def Let_def if_P[OF assms(1)] assms(2)[symmetric] assms(3)[symmetric]
    assms(4)[symmetric] era_start_def[symmetric] assms(5)[symmetric] assms(6)[symmetric] assms(7)[symmetric]
  by (rule refl)

text \<open>What the two evaluations need to know of a day's month.\<close>

lemma month_of_day:
  assumes "0 \<le> doy" and "doy \<le> 365" and "mp = (5 * doy + 2) div 153"
    and "month = mp + (if mp < 10 then 3 else - 9)" and "day = doy - (153 * mp + 2) div 5 + 1"
  shows "1 \<le> month" and "month \<le> 12" and "1 \<le> day" and "day \<le> 31"
    and "month + (if 2 < month then - 3 else 9) = mp"
    and "day \<le> month_days ! nat (month - 1) + (if doy = 365 then 1 else 0)" and "doy = 365 \<longrightarrow> month = 2"
  using month_days_ok[OF assms(1,2), unfolded month_ok_def Let_def, folded assms(3), folded assms(4,5)]
  by blast+

lemma leap_year_era: "leap_year (x + 400 * era) \<longleftrightarrow> leap_year x"
proof -
  have "(x + 400 * era) mod 4 = x mod 4" using mod_mult_self2[of x 4 "100 * era"] by simp
  moreover have "(x + 400 * era) mod 100 = x mod 100" using mod_mult_self2[of x 100 "4 * era"] by simp
  moreover have "(x + 400 * era) mod 400 = x mod 400" by (rule mod_mult_self2)
  ultimately show ?thesis unfolding leap_year_def by (simp only:)
qed

lemma leap_of_day:
  assumes "doy = 365 \<longrightarrow> (yoe + 1) mod 4 = 0 \<and> ((yoe + 1) mod 100 \<noteq> 0 \<or> (yoe + 1) mod 400 = 0)"
    and "doy = 365 \<longrightarrow> month = 2" and "year = yoe + era * 400 + (if month \<le> 2 then 1 else 0)"
    and "day \<le> month_days ! nat (month - 1) + (if doy = 365 then 1 else 0 :: int)"
  shows "day \<le> month_days ! nat (month - 1) + (if month = 2 \<and> leap_year year then 1 else 0)"
proof (cases "doy = 365")
  case True
  then have "year = (yoe + 1) + 400 * era" using assms(2,3) by simp
  moreover have "leap_year (yoe + 1)" using assms(1) True unfolding leap_year_def by (simp only: simp_thms)
  ultimately have "leap_year year" by (simp only: leap_year_era)
  then show ?thesis using assms(2,4) True by simp
next
  case False
  then show ?thesis using assms(4) by auto
qed

text \<open>The bound is far beyond the last day that a timestamp reaches.\<close>

lemma days_from_civil_inverse:
  assumes "0 \<le> d" and "d \<le> 200000000000" and "civil_from_days d = (year, month, day)"
  shows "days_from_civil year month day = Some d \<and> 1 \<le> month \<and> month \<le> 12 \<and> 1 \<le> day \<and> day \<le> 31 \<and>
    0 \<le> year \<and> year \<le> 1000000000"
proof -
  define z where "z = d + 719468"
  define era where "era = z div 146097"
  define doe where "doe = z - era * 146097"
  define yoe where "yoe = (doe - doe div 1460 + doe div 36524 - doe div 146096) div 365"
  define doy where "doy = doe - era_start yoe"
  define mp where "mp = (5 * doy + 2) div 153"
  have z: "0 \<le> z" "z \<le> 200000719468" using assms by (simp_all add: z_def)
  have era: "0 \<le> era" "era \<le> 2000000"
    using z zdiv_mono1[of z 200000719468 146097] by (simp_all add: era_def pos_imp_zdiv_nonneg_iff)
  have doe: "0 \<le> doe" "doe \<le> 146096"
    using mult_div_mod_eq[of 146097 z] pos_mod_bound[of 146097 z] pos_mod_sign[of 146097 z]
    unfolding doe_def era_def by linarith+
  note y = era_year[OF doe yoe_def]
  have doy: "0 \<le> doy" "doy \<le> 365"
    "doy = 365 \<longrightarrow> (yoe + 1) mod 4 = 0 \<and> ((yoe + 1) mod 100 \<noteq> 0 \<or> (yoe + 1) mod 400 = 0)"
    using y unfolding doy_def by linarith+
  define month' where "month' = mp + (if mp < 10 then 3 else - 9)"
  have ymd: "year = yoe + era * 400 + (if month' \<le> 2 then 1 else 0)" "month = month'"
    "day = doy - (153 * mp + 2) div 5 + 1"
    using civil_from_days_eval[OF z(1)[unfolded z_def] era_def[unfolded z_def] doe_def[unfolded z_def] yoe_def
        doy_def mp_def month'_def] assms(3) by simp_all
  note month = month_of_day[OF doy(1,2) mp_def month'_def[folded ymd(2)] ymd(3)]
  have year: "year = yoe + era * 400 + (if month \<le> 2 then 1 else 0)" using ymd(1,2) by simp
  have range: "0 \<le> year" "year \<le> 1000000000" using y era year by simp_all
  have adj: "year - (if month \<le> 2 then 1 else 0) = yoe + era * 400" using year by simp
  have days: "day \<le> month_days ! nat (month - 1) + (if month = 2 \<and> leap_year year then 1 else 0)"
    by (rule leap_of_day[OF doy(3) month(7) year month(6)])
  have doy': "(153 * mp + 2) div 5 + day - 1 = doy" using ymd(3) by simp
  have doe': "yoe * 365 + yoe div 4 - yoe div 100 + doy = doe" by (simp add: doy_def era_start_def)
  have "0 \<le> yoe" "yoe \<le> 399" using y by blast+
  then have "days_from_civil year month day = Some (era * 146097 + doe - 719468)"
    by (rule days_from_civil_eval[OF month(3) days adj _ _ era month(5) doy' doe' doe])
  also have "era * 146097 + doe - 719468 = d" by (simp add: doe_def z_def)
  finally have "days_from_civil year month day = Some d" .
  with month(1-4) range show ?thesis by simp
qed

section \<open>Round trip\<close>

lemma digits_no: "list_all is_ascii_digit s \<Longrightarrow> \<not> is_ascii_digit c \<Longrightarrow> c \<notin> set s"
  by (auto simp: list_all_iff)

lemma parse_three_padded:
  assumes "\<not> is_ascii_digit d" and "0 \<le> a" and "a \<le> i64_max" and "0 \<le> b" and "b \<le> i64_max"
    and "0 \<le> c" and "c \<le> i64_max"
  shows "parse_three d (show_padded u a @ d # show_padded v b @ d # show_padded w c) = Some (a, b, c)"
proof -
  have no: "d \<notin> set (show_padded n i)" if "0 \<le> i" for n i
    using digits_no[OF show_padded_digits[OF that] assms(1)] .
  have "split_byte d (show_padded u a @ d # show_padded v b @ d # show_padded w c) =
      [show_padded u a, show_padded v b, show_padded w c]"
    using no assms by (simp add: split_byte_append split_byte_id)
  then show ?thesis using assms by (simp add: parse_three_def parse_show_padded)
qed

lemma parse_i64_none:
  assumes "c \<in> set s" and "\<not> is_ascii_digit c" and "c \<noteq> CHR ''-''" and "c \<noteq> CHR ''+''"
  shows "parse_i64 s = None"
proof -
  have "parse_magnitude t = None" if "c \<in> set t" for t
    using that assms(2) by (auto simp: parse_magnitude_def list_all_iff)
  with assms show ?thesis by (cases s) (auto simp: parse_i64_def)
qed

lemma show_nat_length: "n < 1000 \<Longrightarrow> length (show_nat n) \<le> 3"
  by (subst show_nat.simps, subst show_nat.simps, subst show_nat.simps) auto

lemma parse_fraction_padded:
  assumes "0 \<le> f" and "f < 1000"
  shows "parse_fraction (show_padded 3 f) = Some f"
proof -
  have "length (show_padded 3 f) = 3"
    using assms show_nat_length[of "nat f"] by (simp add: show_padded_def pad_left_def)
  moreover have "f \<le> i64_max" using assms by (simp add: i64_max_def)
  ultimately show ?thesis
    using assms show_padded_digits[of f 3] by (simp add: parse_fraction_def parse_show_padded)
qed

lemma sum_timestamp_ok:
  assumes "0 \<le> days" and "0 \<le> hour" and "0 \<le> minute" and "0 \<le> second" and "0 \<le> fraction"
    and "days * 86400000 + hour * 3600000 + minute * 60000 + second * 1000 + fraction \<le> i64_max"
  shows "sum_timestamp days hour minute second fraction =
    Some (days * 86400000 + hour * 3600000 + minute * 60000 + second * 1000 + fraction)"
  using assms by (simp add: sum_timestamp_def add_part_def i64_min_def i64_max_def)

text \<open>
  C31. Every timestamp survives the trip through its text: \<open>parse_timestamp\<close> reads what
  \<open>format_timestamp\<close> writes and gives the same millisecond, up to the last one an \<open>i64\<close> can hold.
\<close>

theorem timestamp_roundtrip:
  assumes "0 \<le> t" and "t \<le> i64_max"
  shows "parse_timestamp (format_timestamp t) = Inr t"
proof -
  define d where "d = t div 1000 div 86400"
  define sod where "sod = t div 1000 mod 86400"
  obtain year month day where ymd: "civil_from_days d = (year, month, day)" by (cases "civil_from_days d")
  have d: "0 \<le> d" "d \<le> 200000000000"
    using assms zdiv_mono1[of t i64_max 1000] zdiv_mono1[of "t div 1000" "i64_max div 1000" 86400]
    unfolding d_def i64_max_def by (simp_all add: pos_imp_zdiv_nonneg_iff)
  note civil = days_from_civil_inverse[OF d ymd]
  have nonneg: "0 \<le> year" "0 \<le> month" "0 \<le> day" using civil by simp_all
  define h where "h = sod div 3600"
  define m where "m = sod mod 3600 div 60"
  define s where "s = sod mod 60"
  define f where "f = t mod 1000"
  have sod: "0 \<le> sod" "sod \<le> 86399" using pos_mod_bound[of 86400 "t div 1000"] by (simp_all add: sod_def)
  have h: "0 \<le> h" "h \<le> 23"
    using sod zdiv_mono1[of sod 86399 3600] by (simp_all add: h_def pos_imp_zdiv_nonneg_iff)
  have m: "0 \<le> m" "m \<le> 59"
    using pos_mod_bound[of 3600 sod] zdiv_mono1[of "sod mod 3600" 3599 60] by (simp_all add: m_def pos_imp_zdiv_nonneg_iff)
  have s: "0 \<le> s" "s \<le> 59" using pos_mod_bound[of 60 sod] by (simp_all add: s_def)
  have f: "0 \<le> f" "f < 1000" by (simp_all add: f_def)
  have sums: "d * 86400000 + h * 3600000 + m * 60000 + s * 1000 + f = t"
  proof -
    have "t = 1000 * (t div 1000) + f" "t div 1000 = 86400 * d + sod" "sod = 3600 * h + sod mod 3600"
      by (simp_all add: f_def d_def sod_def h_def)
    moreover have "sod mod 3600 = 60 * m + s"
      using mult_div_mod_eq[of 60 "sod mod 3600"] by (simp add: m_def s_def mod_mod_cancel)
    ultimately show ?thesis by linarith
  qed
  have small: "x \<le> i64_max" if "x \<le> 1000000000" for x using that by (simp add: i64_max_def)
  let ?date = "show_padded 4 year @ CHR ''-'' # show_padded 2 month @ CHR ''-'' # show_padded 2 day"
  let ?clock = "show_padded 2 h @ CHR '':'' # show_padded 2 m @ CHR '':'' # show_padded 2 s"
  let ?text = "?date @ CHR ''T'' # ?clock @ CHR ''.'' # show_padded 3 f"
  have fmt: "format_timestamp t = ?text @ [CHR ''Z'']"
    unfolding format_timestamp_def Let_def d_def[symmetric] sod_def[symmetric] ymd
      h_def[symmetric] m_def[symmetric] s_def[symmetric] f_def[symmetric] by simp
  have nodigit: "\<not> is_ascii_digit (CHR ''-'')" "\<not> is_ascii_digit (CHR '':'')" "\<not> is_ascii_digit (CHR ''T'')"
    "\<not> is_ascii_digit (CHR ''.'')" "\<not> is_ascii_digit (CHR ''Z'')"
    by (simp_all add: is_ascii_digit_def byte_def)
  have notin: "c \<notin> set (show_padded w i)" if "\<not> is_ascii_digit c" "0 \<le> i" for c w i
    using digits_no[OF show_padded_digits[OF that(2)] that(1)] .
  have "parse_i64 (format_timestamp t) = None"
    unfolding fmt by (rule parse_i64_none[of "CHR ''Z''"]) (simp_all add: nodigit)
  moreover have "strip_suffix_byte CHR ''Z'' (format_timestamp t) = Some ?text"
    unfolding fmt by (rule strip_suffix_append)
  moreover have "split_once CHR ''T'' ?text = Some (?date, ?clock @ CHR ''.'' # show_padded 3 f)"
    by (rule split_once_append) (simp add: notin nodigit nonneg)
  moreover have "parse_three CHR ''-'' ?date = Some (year, month, day)"
    by (rule parse_three_padded[OF nodigit(1)]) (use civil nonneg in \<open>simp_all add: small\<close>)
  moreover have "split_once CHR ''.'' (?clock @ CHR ''.'' # show_padded 3 f) = Some (?clock, show_padded 3 f)"
    using split_once_append[of "CHR ''.''" ?clock "show_padded 3 f"] by (simp add: notin nodigit h m s)
  moreover have "parse_three CHR '':'' ?clock = Some (h, m, s)"
    by (rule parse_three_padded[OF nodigit(2)]) (use h m s in \<open>simp_all add: small\<close>)
  moreover have "parse_fraction (show_padded 3 f) = Some f" by (rule parse_fraction_padded[OF f])
  moreover have "sum_timestamp d h m s f = Some t"
    using sum_timestamp_ok[of d h m s f, unfolded sums] d(1) h(1) m(1) s(1) f(1) assms(2) by simp
  moreover have "days_from_civil year month day = Some d" "1 \<le> month" "month \<le> 12" "day \<noteq> 0" using civil by auto
  moreover have "\<not> (23 < h \<or> 59 < m \<or> 59 < s)" using h m s by simp
  ultimately show ?thesis by (simp add: parse_timestamp_def ok_or_def)
qed

theorem timestamp_roundtrip_witness:
  "parse_timestamp (format_timestamp 1709210096789) = Inr 1709210096789 \<and>
   format_timestamp 1709210096789 = ''2024-02-29T12:34:56.789Z''"
proof -
  have "format_timestamp 1709210096789 = ''2024-02-29T12:34:56.789Z''" by code_simp
  with timestamp_roundtrip[of 1709210096789] show ?thesis by (simp add: i64_max_def)
qed

text \<open>
  The parts of the clock have no lower bound: a negative hour is accepted, and one whose product wraps
  is taken for another hour.
\<close>

lemma negative_clock_accepted: "parse_timestamp ''1970-01-02T-1:00:00Z'' = Inr 82800000"
  by code_simp

lemma wrapped_clock_accepted: "sum_timestamp 1 (- 9223372036854775808) 0 0 0 = Some 86400000"
  by (simp add: sum_timestamp_def add_part_def i64_wrapped_def i64_min_def i64_max_def)

end
