(* ===== verification/Query_Dto.thy ===== *)
theory Query_Dto
  imports Ordered_Map Json
begin

text \<open>
  \<open>dto/mod.rs\<close> of crate \<open>next-infra-query\<close>: the objects that the query interface returns. They
  repeat the enums of the core crate as types of their own; a constructor that shares its name with
  one of the core crate carries the prefix \<open>Dto\<close>, and a type that does carries the alias under which
  \<open>query_source.rs\<close> imports it.
\<close>

section \<open>Metadata, pages and errors\<close>

type_synonym DtoSchemaVersion = "32 word"

definition QUERY_DTO_SCHEMA_VERSION :: DtoSchemaVersion where
  "QUERY_DTO_SCHEMA_VERSION = 1"

record SnapshotMetadata =
  sm_schema_version :: DtoSchemaVersion
  sm_snapshot_version :: string
  sm_generated_at :: string

record PageInfo =
  pi_next_cursor :: "string option"

definition PageInfo_new :: "string option \<Rightarrow> PageInfo" where
  "PageInfo_new next_cursor = \<lparr>pi_next_cursor = next_cursor\<rparr>"

record ErrorEnvelope =
  ee_schema_version :: DtoSchemaVersion
  ee_code :: string
  ee_message :: string
  ee_retryable :: bool

section \<open>Resources and relations\<close>

datatype QueryLifecycle = DtoActive | DtoTombstoned | DtoOrphaned

datatype QueryResourceHealth = DtoHealthy | DtoDegraded | DtoUnhealthy | DtoUnknown

datatype QueryFreshness = DtoFresh | DtoStale | DtoExpired

record ResourceDto =
  rd_resource_id :: string
  rd_connection_id :: string
  rd_kind :: string
  rd_display_name :: string
  rd_scope :: string
  rd_lifecycle :: QueryLifecycle
  rd_health :: QueryResourceHealth
  rd_freshness :: QueryFreshness
  rd_observed_at :: string

datatype QueryEvidenceType = DtoProviderType | DtoConfiguredType | DtoInferredType

datatype RelationEvidenceDto =
    DtoProvider string string string string
  | DtoConfigured string string
  | DtoInferred string "string list" "string list" "16 word"

record RelationDto =
  ld_relation_id :: string
  ld_source_resource_id :: string
  ld_target_resource_id :: string
  ld_kind :: string
  ld_lifecycle :: QueryLifecycle
  ld_evidence_type :: QueryEvidenceType
  ld_evidence :: RelationEvidenceDto
  ld_last_seen_at :: string

section \<open>Connections and sync runs\<close>

datatype QueryConnectorHealth =
    DtoConnHealthy | DtoConnDegraded | DtoAuthFailed | DtoConnRateLimited | DtoUnreachable | DtoConnDisabled

record ConnectionDto =
  cd_connection_id :: string
  cd_connector_type :: string
  cd_display_name :: string
  cd_enabled :: bool
  cd_health :: QueryConnectorHealth
  cd_last_success_at :: "string option"
  cd_last_attempt_at :: "string option"

record ConnectionSnapshotDto =
  cns_metadata :: SnapshotMetadata
  cns_items :: "ConnectionDto list"

datatype SyncModeDto = DtoFull | DtoIncremental | DtoTargeted

datatype SyncTriggerDto = DtoSchedule | DtoUser | DtoStartup | DtoRecovery

datatype SyncRunStatusDto =
    DtoRunning | DtoSucceeded | DtoRunPartial | DtoFailed | DtoCancelled | DtoInterrupted

datatype SyncCoverageDto =
    DtoAuthoritativeFull string
  | DtoIncrementalCoverage string
  | DtoPartialCoverage "string option" string
  | DtoTargetedCoverage "string list"

datatype ConnectorCoverageLevelDto = DtoSupported | DtoPartialLevel | DtoUnsupported

record ConnectorCoverageDto =
  ccd_connector_type :: string
  ccd_connector_version :: string
  ccd_module :: string
  ccd_level :: ConnectorCoverageLevelDto
  ccd_reason :: "string option"

record SyncRunCountsDto =
  scd_read :: nat
  scd_created :: nat
  scd_updated :: nat
  scd_unchanged :: nat
  scd_warnings :: nat

record SyncRunErrorDto =
  sed_code :: string
  sed_message :: string
  sed_retryable :: bool

record SyncRunWarningDto =
  swd_code :: string
  swd_message :: string

record SyncRunDto =
  srd_sync_run_id :: string
  srd_connection_id :: string
  srd_mode :: SyncModeDto
  srd_trigger :: SyncTriggerDto
  srd_status :: SyncRunStatusDto
  srd_coverage :: SyncCoverageDto
  srd_started_at :: string
  srd_finished_at :: "string option"
  srd_cursor_before :: "string option"
  srd_cursor_after :: "string option"
  srd_counts :: SyncRunCountsDto
  srd_errors :: "SyncRunErrorDto list"
  srd_warnings :: "SyncRunWarningDto list"

section \<open>Changes\<close>

datatype ChangeSubjectDto = DtoResourceSubject string | DtoRelationSubject string | DtoBindingSubject string

record FieldChangeDto =
  fcd_path :: string
  fcd_before :: "Value option"
  fcd_after :: "Value option"

datatype ChangeOriginDto =
    DtoSyncRunOrigin string
  | DtoBindingOrigin string
  | DtoInferenceOrigin string "string list" "string list"

record ChangeDto =
  chd_change_id :: string
  chd_subject :: ChangeSubjectDto
  chd_observed_at :: string
  chd_fields :: "FieldChangeDto list"
  chd_origin :: ChangeOriginDto

section \<open>Answers\<close>

record ResourcePageDto =
  rpd_metadata :: SnapshotMetadata
  rpd_items :: "ResourceDto list"
  rpd_page_info :: PageInfo

record RelationPageDto =
  lpd_metadata :: SnapshotMetadata
  lpd_items :: "RelationDto list"
  lpd_page_info :: PageInfo

record ResourceDetailDto =
  rdd_metadata :: SnapshotMetadata
  rdd_resource :: ResourceDto
  rdd_attributes :: Value
  rdd_relations :: "RelationDto list"
  rdd_recent_changes :: "ChangeDto list"
  rdd_connector_coverage :: "ConnectorCoverageDto list"

datatype FrontierDirectionDto = Incoming | Outgoing

record TopologyFrontierDto =
  tfd_resource_id :: string
  tfd_direction :: FrontierDirectionDto

record TopologyDto =
  td_metadata :: SnapshotMetadata
  td_focus_resource_id :: string
  td_depth :: "8 word"
  td_nodes :: "ResourceDto list"
  td_edges :: "RelationDto list"
  td_frontier :: "TopologyFrontierDto list"
  td_truncated :: bool

datatype TimelineOriginDto =
    TimelineSyncRun string
  | TimelineBinding string
  | TimelineInference string "string list" "string list"

datatype TimelineVersionLinkDto = ResourceVersionLink string string | RelationVersionLink string string

record TimelineItemDto =
  tid_change :: ChangeDto
  tid_version_links :: "TimelineVersionLinkDto list"

record TimelineGroupDto =
  tgd_group_id :: string
  tgd_origin :: TimelineOriginDto
  tgd_occurred_at :: string
  tgd_items :: "TimelineItemDto list"

record TimelinePageDto =
  tpd_metadata :: SnapshotMetadata
  tpd_groups :: "TimelineGroupDto list"
  tpd_page_info :: PageInfo

record ResourceHealthCountsDto =
  rhc_healthy :: nat
  rhc_degraded :: nat
  rhc_unhealthy :: nat
  rhc_unknown :: nat

record FreshnessCountsDto =
  frc_fresh :: nat
  frc_stale :: nat
  frc_expired :: nat

record ConnectorHealthCountsDto =
  chc_healthy :: nat
  chc_degraded :: nat
  chc_auth_failed :: nat
  chc_rate_limited :: nat
  chc_unreachable :: nat
  chc_disabled :: nat

record HealthSummaryDto =
  hsd_metadata :: SnapshotMetadata
  hsd_resource_health :: ResourceHealthCountsDto
  hsd_freshness :: FreshnessCountsDto
  hsd_connector_health :: ConnectorHealthCountsDto

record ChangePageDto =
  cpd_metadata :: SnapshotMetadata
  cpd_items :: "ChangeDto list"
  cpd_page_info :: PageInfo

record SyncStatusDto =
  ssd_metadata :: SnapshotMetadata
  ssd_connection :: ConnectionDto
  ssd_recent_runs :: "SyncRunDto list"
  ssd_next_scheduled_at :: "string option"

record ConnectorCoverageSnapshotDto =
  ccs_metadata :: SnapshotMetadata
  ccs_items :: "ConnectorCoverageDto list"

end
