(* ===== verification/Query_Service.thy ===== *)
theory Query_Service
  imports Query_Dto
begin

text \<open>
  \<open>service.rs\<close> of crate \<open>next-infra-query\<close>: the service checks a request, asks its source, checks that
  the source kept the limits and assembles the answer. The trait \<open>QuerySource\<close> is a record of its
  operations over the type \<open>'e\<close> of its errors. A \<open>BTreeSet\<close> is a strictly sorted list.
\<close>

section \<open>Limits\<close>

definition DEFAULT_RESOURCE_LIMIT :: nat where
  "DEFAULT_RESOURCE_LIMIT = 25"

definition MAX_RESOURCE_LIMIT :: nat where
  "MAX_RESOURCE_LIMIT = 100"

definition MAX_CONNECTIONS :: nat where
  "MAX_CONNECTIONS = 200"

definition DEFAULT_CHANGE_LIMIT :: nat where
  "DEFAULT_CHANGE_LIMIT = 20"

definition MAX_CHANGE_LIMIT :: nat where
  "MAX_CHANGE_LIMIT = 100"

definition DEFAULT_TOPOLOGY_DEPTH :: "8 word" where
  "DEFAULT_TOPOLOGY_DEPTH = 1"

definition MAX_TOPOLOGY_DEPTH :: "8 word" where
  "MAX_TOPOLOGY_DEPTH = 3"

definition DEFAULT_TOPOLOGY_NODES :: nat where
  "DEFAULT_TOPOLOGY_NODES = 100"

definition DEFAULT_TOPOLOGY_EDGES :: nat where
  "DEFAULT_TOPOLOGY_EDGES = 200"

definition MAX_TOPOLOGY_NODES :: nat where
  "MAX_TOPOLOGY_NODES = 200"

definition MAX_TOPOLOGY_EDGES :: nat where
  "MAX_TOPOLOGY_EDGES = 400"

definition DEFAULT_TIMELINE_LIMIT :: nat where
  "DEFAULT_TIMELINE_LIMIT = 50"

definition MAX_TIMELINE_LIMIT :: nat where
  "MAX_TIMELINE_LIMIT = 200"

definition DEFAULT_RELATIONS_LIMIT :: nat where
  "DEFAULT_RELATIONS_LIMIT = 200"

definition MAX_RELATIONS_LIMIT :: nat where
  "MAX_RELATIONS_LIMIT = 400"

definition CURSOR_PREFIX :: string where
  "CURSOR_PREFIX = ''niq1:''"

definition MAX_CURSOR_LENGTH :: nat where
  "MAX_CURSOR_LENGTH = 512"

lemmas limit_defs = DEFAULT_RESOURCE_LIMIT_def MAX_RESOURCE_LIMIT_def MAX_CONNECTIONS_def
  DEFAULT_CHANGE_LIMIT_def MAX_CHANGE_LIMIT_def DEFAULT_TOPOLOGY_DEPTH_def MAX_TOPOLOGY_DEPTH_def
  DEFAULT_TOPOLOGY_NODES_def DEFAULT_TOPOLOGY_EDGES_def MAX_TOPOLOGY_NODES_def MAX_TOPOLOGY_EDGES_def
  DEFAULT_TIMELINE_LIMIT_def MAX_TIMELINE_LIMIT_def DEFAULT_RELATIONS_LIMIT_def MAX_RELATIONS_LIMIT_def

section \<open>Requests and plans\<close>

record SearchResourcesRequest =
  srq_query :: "string option"
  srq_kinds :: "string list"
  srq_connector_types :: "string list"
  srq_health :: "QueryResourceHealth list"
  srq_freshness :: "QueryFreshness list"
  srq_labels :: "(string, string) btree_map"
  srq_limit :: "nat option"
  srq_cursor :: "string option"

record RelationsForResourcesRequest =
  rrq_resource_ids :: "string list"
  rrq_limit :: "nat option"
  rrq_cursor :: "string option"

datatype ResourceInclude = IncludeAttributes | IncludeRelations | IncludeRecentChanges | IncludeConnectorCoverage

record GetResourceRequest =
  grq_resource_id :: string
  grq_include :: "ResourceInclude list"

record GetTopologyRequest =
  trq_focus_resource_id :: string
  trq_depth :: "8 word option"
  trq_max_nodes :: "nat option"
  trq_max_edges :: "nat option"

record RecentChangesRequest =
  crq_since :: "string option"
  crq_resource_id :: "string option"
  crq_kinds :: "string list"
  crq_limit :: "nat option"
  crq_cursor :: "string option"

record SyncStatusRequest =
  yrq_connection_id :: string
  yrq_recent_run_limit :: "nat option"

record TimelineRequest =
  mrq_limit :: "nat option"
  mrq_cursor :: "string option"

record ResourceSearchPlan =
  spl_query :: "string option"
  spl_kinds :: "string list"
  spl_connector_types :: "string list"
  spl_health :: "QueryResourceHealth list"
  spl_freshness :: "QueryFreshness list"
  spl_labels :: "(string, string) btree_map"
  spl_limit :: nat
  spl_after :: "string option"

record RecentChangesPlan =
  cpl_since :: "string option"
  cpl_resource_id :: "string option"
  cpl_kinds :: "string list"
  cpl_limit :: nat
  cpl_after :: "string option"

record TopologyPlan =
  tpl_focus_resource_id :: string
  tpl_depth :: "8 word"
  tpl_max_nodes :: nat
  tpl_max_edges :: nat

record TimelinePlan =
  mpl_limit :: nat
  mpl_after :: "string option"

section \<open>The source\<close>

record 'a SourcePage =
  sp_items :: "'a list"
  sp_next_after :: "string option"

record TimelineSourcePage =
  tsp_groups :: "TimelineGroupDto list"
  tsp_item_count :: nat
  tsp_next_after :: "string option"

record 'a SourceSnapshot =
  ss_metadata :: SnapshotMetadata
  ss_body :: 'a

record ResourceDetailBody =
  rdb_resource :: ResourceDto
  rdb_attributes :: Value
  rdb_relations :: "RelationDto list"
  rdb_recent_changes :: "ChangeDto list"
  rdb_connector_coverage :: "ConnectorCoverageDto list"

record TopologyBody =
  tb_nodes :: "ResourceDto list"
  tb_edges :: "RelationDto list"
  tb_frontier :: "TopologyFrontierDto list"
  tb_truncated :: bool

record HealthSummaryBody =
  hsb_resource_health :: ResourceHealthCountsDto
  hsb_freshness :: FreshnessCountsDto
  hsb_connector_health :: ConnectorHealthCountsDto

record SyncStatusBody =
  ssb_connection :: ConnectionDto
  ssb_recent_runs :: "SyncRunDto list"
  ssb_next_scheduled_at :: "string option"

record 'e QuerySource =
  qs_search_resources :: "ResourceSearchPlan \<Rightarrow> 'e + ResourceDto SourcePage SourceSnapshot"
  qs_get_resource :: "string \<Rightarrow> ResourceInclude list \<Rightarrow> 'e + ResourceDetailBody option SourceSnapshot"
  qs_get_topology :: "TopologyPlan \<Rightarrow> 'e + TopologyBody option SourceSnapshot"
  qs_relations_for_resources ::
    "string list \<Rightarrow> nat \<Rightarrow> string option \<Rightarrow> 'e + RelationDto SourcePage SourceSnapshot"
  qs_get_health_summary :: "'e + HealthSummaryBody SourceSnapshot"
  qs_list_connections :: "'e + ConnectionDto list SourceSnapshot"
  qs_get_recent_changes :: "RecentChangesPlan \<Rightarrow> 'e + ChangeDto SourcePage SourceSnapshot"
  qs_get_sync_status :: "string \<Rightarrow> nat \<Rightarrow> 'e + SyncStatusBody option SourceSnapshot"
  qs_get_timeline :: "TimelinePlan \<Rightarrow> 'e + TimelineSourcePage SourceSnapshot"
  qs_list_connector_coverage :: "'e + ConnectorCoverageDto list SourceSnapshot"

section \<open>Checks\<close>

definition error_envelope :: "string \<Rightarrow> string \<Rightarrow> bool \<Rightarrow> ErrorEnvelope" where
  "error_envelope code message retryable =
     \<lparr>ee_schema_version = QUERY_DTO_SCHEMA_VERSION, ee_code = code, ee_message = message,
      ee_retryable = retryable\<rparr>"

definition invalid_request :: "string \<Rightarrow> ErrorEnvelope" where
  "invalid_request message = error_envelope ''invalid_request'' message False"

definition not_found :: "string \<Rightarrow> string \<Rightarrow> ErrorEnvelope" where
  "not_found code message = error_envelope code message False"

definition source_error :: ErrorEnvelope where
  "source_error = error_envelope ''query_source_unavailable''
     ''The local query snapshot is temporarily unavailable.'' True"

definition query_contract_error :: "string \<Rightarrow> ErrorEnvelope" where
  "query_contract_error message = error_envelope ''query_contract_violation'' message False"

definition bounded_limit :: "nat option \<Rightarrow> nat \<Rightarrow> nat \<Rightarrow> ErrorEnvelope + nat" where
  "bounded_limit value dflt maximum =
     (let value = (case value of None \<Rightarrow> dflt | Some v \<Rightarrow> v) in
      if value = 0 \<or> maximum < value then Inl (invalid_request ''limit is outside the supported range'')
      else Inr value)"

definition bounded_u8 :: "8 word option \<Rightarrow> 8 word \<Rightarrow> 8 word \<Rightarrow> ErrorEnvelope + 8 word" where
  "bounded_u8 value dflt maximum =
     (let value = (case value of None \<Rightarrow> dflt | Some v \<Rightarrow> v) in
      if value = 0 \<or> maximum < value then Inl (invalid_request ''depth is outside the supported range'')
      else Inr value)"

definition validate_page_size :: "nat \<Rightarrow> nat \<Rightarrow> ErrorEnvelope + unit" where
  "validate_page_size actual limit =
     (if limit < actual then Inl (query_contract_error ''query source exceeded page limit'') else Inr ())"

definition required_text :: "string \<Rightarrow> string \<Rightarrow> ErrorEnvelope + string" where
  "required_text value field =
     (let trimmed = trim value in
      if trimmed = [] \<or> 512 < length trimmed \<or> has_control trimmed
      then Inl (invalid_request (field @ '' is invalid'')) else Inr trimmed)"

definition clean_optional_text :: "string option \<Rightarrow> string \<Rightarrow> ErrorEnvelope + string option" where
  "clean_optional_text value field =
     (case value of None \<Rightarrow> Inr None | Some v \<Rightarrow> map_ok Some (required_text v field))"

definition decode_cursor :: "string option \<Rightarrow> ErrorEnvelope + string option" where
  "decode_cursor cursor =
     (case cursor of
        None \<Rightarrow> Inr None
      | Some cursor \<Rightarrow>
          if MAX_CURSOR_LENGTH < length cursor \<or> \<not> starts_with cursor CURSOR_PREFIX
          then Inl (invalid_request ''cursor is invalid'')
          else
            let value = drop (length CURSOR_PREFIX) cursor in
            if value = [] \<or> has_control value then Inl (invalid_request ''cursor is invalid'')
            else Inr (Some value))"

definition encode_cursor :: "string \<Rightarrow> string" where
  "encode_cursor value = CURSOR_PREFIX @ value"

definition page_cursor :: "string option \<Rightarrow> PageInfo" where
  "page_cursor next_after = PageInfo_new (map_option encode_cursor next_after)"

section \<open>The service\<close>

definition search_resources :: "'e QuerySource \<Rightarrow> SearchResourcesRequest \<Rightarrow> ErrorEnvelope + ResourcePageDto" where
  "search_resources source request =
     res_bind (bounded_limit (srq_limit request) DEFAULT_RESOURCE_LIMIT MAX_RESOURCE_LIMIT) (\<lambda>limit.
     res_bind (clean_optional_text (srq_query request) ''query'') (\<lambda>query.
     res_bind (decode_cursor (srq_cursor request)) (\<lambda>after.
     res_bind (map_err (\<lambda>_. source_error) (qs_search_resources source
       \<lparr>spl_query = query, spl_kinds = srq_kinds request, spl_connector_types = srq_connector_types request,
        spl_health = srq_health request, spl_freshness = srq_freshness request,
        spl_labels = srq_labels request, spl_limit = limit, spl_after = after\<rparr>)) (\<lambda>snapshot.
     let page = ss_body snapshot in
     res_bind (validate_page_size (length (sp_items page)) limit) (\<lambda>_.
       Inr \<lparr>rpd_metadata = ss_metadata snapshot, rpd_items = sp_items page,
            rpd_page_info = page_cursor (sp_next_after page)\<rparr>)))))"

definition service_get_resource ::
    "'e QuerySource \<Rightarrow> GetResourceRequest \<Rightarrow> ErrorEnvelope + ResourceDetailDto" where
  "service_get_resource source request =
     res_bind (required_text (grq_resource_id request) ''resource_id'') (\<lambda>resource_id.
     res_bind (map_err (\<lambda>_. source_error) (qs_get_resource source resource_id (grq_include request))) (\<lambda>snapshot.
     res_bind (ok_or (not_found ''resource_not_found'' ''Resource was not found.'') (ss_body snapshot)) (\<lambda>body.
       Inr \<lparr>rdd_metadata = ss_metadata snapshot, rdd_resource = rdb_resource body,
            rdd_attributes = rdb_attributes body, rdd_relations = rdb_relations body,
            rdd_recent_changes = rdb_recent_changes body,
            rdd_connector_coverage = rdb_connector_coverage body\<rparr>)))"

definition service_get_topology :: "'e QuerySource \<Rightarrow> GetTopologyRequest \<Rightarrow> ErrorEnvelope + TopologyDto" where
  "service_get_topology source request =
     res_bind (required_text (trq_focus_resource_id request) ''focus_resource_id'') (\<lambda>focus.
     res_bind (bounded_u8 (trq_depth request) DEFAULT_TOPOLOGY_DEPTH MAX_TOPOLOGY_DEPTH) (\<lambda>depth.
     res_bind (bounded_limit (trq_max_nodes request) DEFAULT_TOPOLOGY_NODES MAX_TOPOLOGY_NODES) (\<lambda>max_nodes.
     res_bind (bounded_limit (trq_max_edges request) DEFAULT_TOPOLOGY_EDGES MAX_TOPOLOGY_EDGES) (\<lambda>max_edges.
     res_bind (map_err (\<lambda>_. source_error) (qs_get_topology source
       \<lparr>tpl_focus_resource_id = focus, tpl_depth = depth, tpl_max_nodes = max_nodes,
        tpl_max_edges = max_edges\<rparr>)) (\<lambda>snapshot.
     res_bind (ok_or (not_found ''resource_not_found'' ''Topology focus was not found.'') (ss_body snapshot)) (\<lambda>body.
       if max_nodes < length (tb_nodes body) \<or> max_edges < length (tb_edges body)
       then Inl (query_contract_error ''query source exceeded topology limits'')
       else Inr \<lparr>td_metadata = ss_metadata snapshot, td_focus_resource_id = focus, td_depth = depth,
                 td_nodes = tb_nodes body, td_edges = tb_edges body, td_frontier = tb_frontier body,
                 td_truncated = tb_truncated body\<rparr>))))))"

definition get_relations_for_resources ::
    "'e QuerySource \<Rightarrow> RelationsForResourcesRequest \<Rightarrow> ErrorEnvelope + RelationPageDto" where
  "get_relations_for_resources source request =
     res_bind (bounded_limit (rrq_limit request) DEFAULT_RELATIONS_LIMIT MAX_RELATIONS_LIMIT) (\<lambda>limit.
     let resource_ids = bs_of_list (rrq_resource_ids request) in
     if resource_ids = [] then Inl (query_contract_error ''resource_ids must not be empty'')
     else if MAX_RESOURCE_LIMIT < length resource_ids then Inl (query_contract_error ''too many resource ids'')
     else
       res_bind (decode_cursor (rrq_cursor request)) (\<lambda>after.
       res_bind (map_err (\<lambda>_. source_error) (qs_relations_for_resources source resource_ids limit after)) (\<lambda>snapshot.
       let page = ss_body snapshot in
       res_bind (validate_page_size (length (sp_items page)) limit) (\<lambda>_.
         Inr \<lparr>lpd_metadata = ss_metadata snapshot, lpd_items = sp_items page,
              lpd_page_info = page_cursor (sp_next_after page)\<rparr>))))"

definition service_get_health_summary :: "'e QuerySource \<Rightarrow> ErrorEnvelope + HealthSummaryDto" where
  "service_get_health_summary source =
     res_bind (map_err (\<lambda>_. source_error) (qs_get_health_summary source)) (\<lambda>snapshot.
     let body = ss_body snapshot in
       Inr \<lparr>hsd_metadata = ss_metadata snapshot, hsd_resource_health = hsb_resource_health body,
            hsd_freshness = hsb_freshness body, hsd_connector_health = hsb_connector_health body\<rparr>)"

definition service_list_connections :: "'e QuerySource \<Rightarrow> ErrorEnvelope + ConnectionSnapshotDto" where
  "service_list_connections source =
     res_bind (map_err (\<lambda>_. source_error) (qs_list_connections source)) (\<lambda>snapshot.
       if MAX_CONNECTIONS < length (ss_body snapshot)
       then Inl (query_contract_error ''query source exceeded connection limit'')
       else Inr \<lparr>cns_metadata = ss_metadata snapshot, cns_items = ss_body snapshot\<rparr>)"

definition service_get_recent_changes ::
    "'e QuerySource \<Rightarrow> RecentChangesRequest \<Rightarrow> ErrorEnvelope + ChangePageDto" where
  "service_get_recent_changes source request =
     res_bind (bounded_limit (crq_limit request) DEFAULT_CHANGE_LIMIT MAX_CHANGE_LIMIT) (\<lambda>limit.
     res_bind (clean_optional_text (crq_since request) ''since'') (\<lambda>since.
     res_bind (clean_optional_text (crq_resource_id request) ''resource_id'') (\<lambda>resource_id.
     res_bind (decode_cursor (crq_cursor request)) (\<lambda>after.
     res_bind (map_err (\<lambda>_. source_error) (qs_get_recent_changes source
       \<lparr>cpl_since = since, cpl_resource_id = resource_id, cpl_kinds = crq_kinds request,
        cpl_limit = limit, cpl_after = after\<rparr>)) (\<lambda>snapshot.
     let page = ss_body snapshot in
     res_bind (validate_page_size (length (sp_items page)) limit) (\<lambda>_.
       Inr \<lparr>cpd_metadata = ss_metadata snapshot, cpd_items = sp_items page,
            cpd_page_info = page_cursor (sp_next_after page)\<rparr>))))))"

definition service_get_sync_status :: "'e QuerySource \<Rightarrow> SyncStatusRequest \<Rightarrow> ErrorEnvelope + SyncStatusDto" where
  "service_get_sync_status source request =
     res_bind (required_text (yrq_connection_id request) ''connection_id'') (\<lambda>connection_id.
     res_bind (bounded_limit (yrq_recent_run_limit request) 10 100) (\<lambda>limit.
     res_bind (map_err (\<lambda>_. source_error) (qs_get_sync_status source connection_id limit)) (\<lambda>snapshot.
     res_bind (ok_or (not_found ''connection_not_found'' ''Connection was not found.'') (ss_body snapshot)) (\<lambda>body.
       if limit < length (ssb_recent_runs body)
       then Inl (query_contract_error ''query source exceeded sync run limit'')
       else Inr \<lparr>ssd_metadata = ss_metadata snapshot, ssd_connection = ssb_connection body,
                 ssd_recent_runs = ssb_recent_runs body,
                 ssd_next_scheduled_at = ssb_next_scheduled_at body\<rparr>))))"

definition service_get_timeline :: "'e QuerySource \<Rightarrow> TimelineRequest \<Rightarrow> ErrorEnvelope + TimelinePageDto" where
  "service_get_timeline source request =
     res_bind (bounded_limit (mrq_limit request) DEFAULT_TIMELINE_LIMIT MAX_TIMELINE_LIMIT) (\<lambda>limit.
     res_bind (decode_cursor (mrq_cursor request)) (\<lambda>after.
     res_bind (map_err (\<lambda>_. source_error) (qs_get_timeline source \<lparr>mpl_limit = limit, mpl_after = after\<rparr>))
       (\<lambda>snapshot.
     let page = ss_body snapshot in
     res_bind (validate_page_size (tsp_item_count page) limit) (\<lambda>_.
       if sum_list (map (\<lambda>group. length (tgd_items group)) (tsp_groups page)) \<noteq> tsp_item_count page
       then Inl (query_contract_error ''timeline group item count is inconsistent'')
       else Inr \<lparr>tpd_metadata = ss_metadata snapshot, tpd_groups = tsp_groups page,
                 tpd_page_info = page_cursor (tsp_next_after page)\<rparr>))))"

definition service_list_connector_coverage :: "'e QuerySource \<Rightarrow> ErrorEnvelope + ConnectorCoverageSnapshotDto" where
  "service_list_connector_coverage source =
     res_bind (map_err (\<lambda>_. source_error) (qs_list_connector_coverage source)) (\<lambda>snapshot.
       Inr \<lparr>ccs_metadata = ss_metadata snapshot, ccs_items = ss_body snapshot\<rparr>)"

section \<open>Checks accept and reject\<close>

lemma bounded_limit_iff:
  "bounded_limit value dflt maximum = Inr n \<longleftrightarrow>
   n = (case value of None \<Rightarrow> dflt | Some v \<Rightarrow> v) \<and> 0 < n \<and> n \<le> maximum"
  by (auto simp: bounded_limit_def Let_def)

lemma validate_page_size_ok [simp]: "validate_page_size n limit = Inr u \<longleftrightarrow> n \<le> limit"
  by (auto simp: validate_page_size_def)

lemma map_err_Inr_iff [simp]: "map_err f r = Inr x \<longleftrightarrow> r = Inr x"
  by (cases r) (simp_all add: map_err_def)

text \<open>
  A cursor that the service hands out is accepted again, with the same meaning, exactly when the
  position it encodes is not empty, at most 507 bytes long and free of control characters.
\<close>

theorem cursor_roundtrip_iff:
  "decode_cursor (Some (encode_cursor v)) =
   (if v \<noteq> [] \<and> length v \<le> 507 \<and> \<not> has_control v then Inr (Some v)
    else Inl (invalid_request ''cursor is invalid''))"
  by (auto simp: decode_cursor_def encode_cursor_def starts_with_def CURSOR_PREFIX_def MAX_CURSOR_LENGTH_def)

subsection \<open>Bounds\<close>

lemma search_bounded:
  assumes "search_resources source sr = Inr sp"
  shows "length (rpd_items sp) \<le> min 100 (case srq_limit sr of None \<Rightarrow> 25 | Some n \<Rightarrow> n)"
  using assms by (auto simp: search_resources_def Let_def res_simps bounded_limit_iff limit_defs split: option.splits)

lemma relations_bounded:
  assumes "get_relations_for_resources source rr = Inr rp"
  shows "length (lpd_items rp) \<le> min 400 (case rrq_limit rr of None \<Rightarrow> 200 | Some n \<Rightarrow> n)"
  using assms
  by (auto simp: get_relations_for_resources_def Let_def res_simps bounded_limit_iff limit_defs
      split: option.splits if_splits)

lemma changes_bounded:
  assumes "service_get_recent_changes source cr = Inr cp"
  shows "length (cpd_items cp) \<le> min 100 (case crq_limit cr of None \<Rightarrow> 20 | Some n \<Rightarrow> n)"
  using assms
  by (auto simp: service_get_recent_changes_def Let_def res_simps bounded_limit_iff limit_defs split: option.splits)

lemma timeline_bounded:
  assumes "service_get_timeline source mr = Inr mp"
  shows "sum_list (map (length \<circ> tgd_items) (tpd_groups mp)) \<le> min 200 (case mrq_limit mr of None \<Rightarrow> 50 | Some n \<Rightarrow> n)"
  using assms
  by (auto simp: service_get_timeline_def Let_def res_simps bounded_limit_iff limit_defs comp_def
      split: option.splits if_splits)

lemma topology_bounded:
  assumes "service_get_topology source tr = Inr tp"
  shows "length (td_nodes tp) \<le> 200 \<and> length (td_edges tp) \<le> 400 \<and> 0 < td_depth tp \<and> td_depth tp \<le> 3"
  using assms
  by (auto simp: service_get_topology_def res_simps bounded_limit_iff bounded_u8_def Let_def limit_defs word_neq_0_conv
      split: option.splits if_splits)

lemma sync_status_bounded:
  assumes "service_get_sync_status source yr = Inr yp"
  shows "length (ssd_recent_runs yp) \<le> min 100 (case yrq_recent_run_limit yr of None \<Rightarrow> 10 | Some n \<Rightarrow> n)"
  using assms
  by (auto simp: service_get_sync_status_def res_simps bounded_limit_iff split: option.splits if_splits)

lemma connections_bounded:
  assumes "service_list_connections source = Inr np"
  shows "length (cns_items np) \<le> 200"
  using assms by (auto simp: service_list_connections_def res_simps limit_defs split: if_splits)


text \<open>A source that answers every question with nothing.\<close>

definition sample_metadata :: SnapshotMetadata where
  "sample_metadata = \<lparr>sm_schema_version = 1, sm_snapshot_version = ''nis1'', sm_generated_at = ''''\<rparr>"

definition sample_connection :: ConnectionDto where
  "sample_connection =
     \<lparr>cd_connection_id = ''c'', cd_connector_type = ''t'', cd_display_name = ''n'', cd_enabled = True,
      cd_health = DtoConnHealthy, cd_last_success_at = None, cd_last_attempt_at = None\<rparr>"

definition sample_page :: "'a SourcePage" where
  "sample_page = \<lparr>sp_items = [], sp_next_after = None\<rparr>"

definition sample_source :: "unit QuerySource" where
  "sample_source =
     \<lparr>qs_search_resources = \<lambda>_. Inr \<lparr>ss_metadata = sample_metadata, ss_body = sample_page\<rparr>,
      qs_get_resource = \<lambda>_ _. Inr \<lparr>ss_metadata = sample_metadata, ss_body = None\<rparr>,
      qs_get_topology = \<lambda>_. Inr \<lparr>ss_metadata = sample_metadata, ss_body =
        Some \<lparr>tb_nodes = [], tb_edges = [], tb_frontier = [], tb_truncated = False\<rparr>\<rparr>,
      qs_relations_for_resources = \<lambda>_ _ _. Inr \<lparr>ss_metadata = sample_metadata, ss_body = sample_page\<rparr>,
      qs_get_health_summary = Inl (),
      qs_list_connections = Inr \<lparr>ss_metadata = sample_metadata, ss_body = []\<rparr>,
      qs_get_recent_changes = \<lambda>_. Inr \<lparr>ss_metadata = sample_metadata, ss_body = sample_page\<rparr>,
      qs_get_sync_status = \<lambda>_ _. Inr \<lparr>ss_metadata = sample_metadata, ss_body =
        Some \<lparr>ssb_connection = sample_connection, ssb_recent_runs = [], ssb_next_scheduled_at = None\<rparr>\<rparr>,
      qs_get_timeline = \<lambda>_. Inr \<lparr>ss_metadata = sample_metadata, ss_body =
        \<lparr>tsp_groups = [], tsp_item_count = 0, tsp_next_after = None\<rparr>\<rparr>,
      qs_list_connector_coverage = Inl ()\<rparr>"

definition sample_search :: SearchResourcesRequest where
  "sample_search = \<lparr>srq_query = None, srq_kinds = [], srq_connector_types = [], srq_health = [],
     srq_freshness = [], srq_labels = [], srq_limit = Some 3, srq_cursor = None\<rparr>"

definition sample_relations :: RelationsForResourcesRequest where
  "sample_relations = \<lparr>rrq_resource_ids = [''a''], rrq_limit = None, rrq_cursor = None\<rparr>"

definition sample_changes :: RecentChangesRequest where
  "sample_changes = \<lparr>crq_since = None, crq_resource_id = None, crq_kinds = [], crq_limit = None, crq_cursor = None\<rparr>"

definition sample_timeline :: TimelineRequest where
  "sample_timeline = \<lparr>mrq_limit = None, mrq_cursor = None\<rparr>"

definition sample_topology :: GetTopologyRequest where
  "sample_topology = \<lparr>trq_focus_resource_id = ''a'', trq_depth = None, trq_max_nodes = None, trq_max_edges = None\<rparr>"

definition sample_status :: SyncStatusRequest where
  "sample_status = \<lparr>yrq_connection_id = ''c'', yrq_recent_run_limit = None\<rparr>"

lemmas sample_defs = sample_source_def sample_metadata_def sample_page_def sample_connection_def
  sample_search_def sample_relations_def sample_changes_def sample_timeline_def sample_topology_def
  sample_status_def

lemma sample_answers:
  "\<exists>sp. search_resources sample_source sample_search = Inr sp"
  "\<exists>rp. get_relations_for_resources sample_source sample_relations = Inr rp"
  "\<exists>cp. service_get_recent_changes sample_source sample_changes = Inr cp"
  "\<exists>mp. service_get_timeline sample_source sample_timeline = Inr mp"
  "\<exists>tp. service_get_topology sample_source sample_topology = Inr tp"
  "\<exists>yp. service_get_sync_status sample_source sample_status = Inr yp"
  "\<exists>np. service_list_connections sample_source = Inr np"
proof -
  have t: "required_text ''a'' f = Inr ''a''" "required_text ''c'' f = Inr ''c''" for f
    unfolding required_text_def Let_def by code_simp+
  show "\<exists>sp. search_resources sample_source sample_search = Inr sp"
    "\<exists>rp. get_relations_for_resources sample_source sample_relations = Inr rp"
    "\<exists>cp. service_get_recent_changes sample_source sample_changes = Inr cp"
    "\<exists>mp. service_get_timeline sample_source sample_timeline = Inr mp"
    "\<exists>tp. service_get_topology sample_source sample_topology = Inr tp"
    "\<exists>yp. service_get_sync_status sample_source sample_status = Inr yp"
    "\<exists>np. service_list_connections sample_source = Inr np"
    by (simp_all add: sample_defs t bs_of_list_def search_resources_def get_relations_for_resources_def
        service_get_recent_changes_def service_get_timeline_def service_get_topology_def
        service_get_sync_status_def service_list_connections_def bounded_limit_def bounded_u8_def limit_defs
        clean_optional_text_def decode_cursor_def map_err_def ok_or_def validate_page_size_def)
qed


section \<open>Errors\<close>

text \<open>The source with every error replaced.\<close>

definition relabel_errors :: "('e \<Rightarrow> 'f) \<Rightarrow> 'e QuerySource \<Rightarrow> 'f QuerySource" where
  "relabel_errors f source =
     \<lparr>qs_search_resources = \<lambda>p. map_err f (qs_search_resources source p),
      qs_get_resource = \<lambda>i n. map_err f (qs_get_resource source i n),
      qs_get_topology = \<lambda>p. map_err f (qs_get_topology source p),
      qs_relations_for_resources = \<lambda>i n a. map_err f (qs_relations_for_resources source i n a),
      qs_get_health_summary = map_err f (qs_get_health_summary source),
      qs_list_connections = map_err f (qs_list_connections source),
      qs_get_recent_changes = \<lambda>p. map_err f (qs_get_recent_changes source p),
      qs_get_sync_status = \<lambda>i n. map_err f (qs_get_sync_status source i n),
      qs_get_timeline = \<lambda>p. map_err f (qs_get_timeline source p),
      qs_list_connector_coverage = map_err f (qs_list_connector_coverage source)\<rparr>"

lemma map_err_comp: "map_err g (map_err f r) = map_err (\<lambda>e. g (f e)) r"
  by (cases r) (simp_all add: map_err_def)

lemma relabel_selectors:
  "qs_search_resources (relabel_errors f source) = (\<lambda>p. map_err f (qs_search_resources source p))"
  "qs_get_resource (relabel_errors f source) = (\<lambda>i n. map_err f (qs_get_resource source i n))"
  "qs_get_topology (relabel_errors f source) = (\<lambda>p. map_err f (qs_get_topology source p))"
  "qs_relations_for_resources (relabel_errors f source) =
    (\<lambda>i n a. map_err f (qs_relations_for_resources source i n a))"
  "qs_get_health_summary (relabel_errors f source) = map_err f (qs_get_health_summary source)"
  "qs_list_connections (relabel_errors f source) = map_err f (qs_list_connections source)"
  "qs_get_recent_changes (relabel_errors f source) = (\<lambda>p. map_err f (qs_get_recent_changes source p))"
  "qs_get_sync_status (relabel_errors f source) = (\<lambda>i n. map_err f (qs_get_sync_status source i n))"
  "qs_get_timeline (relabel_errors f source) = (\<lambda>p. map_err f (qs_get_timeline source p))"
  "qs_list_connector_coverage (relabel_errors f source) = map_err f (qs_list_connector_coverage source)"
  by (simp_all add: relabel_errors_def)

text \<open>
  An answer says nothing about the error of the source: sources that differ only in their errors
  cannot be told apart.
\<close>

theorem errors_redacted:
  "search_resources (relabel_errors f source) sr = search_resources source sr \<and>
   service_get_resource (relabel_errors f source) gr = service_get_resource source gr \<and>
   service_get_topology (relabel_errors f source) tr = service_get_topology source tr \<and>
   get_relations_for_resources (relabel_errors f source) rr = get_relations_for_resources source rr \<and>
   service_get_health_summary (relabel_errors f source) = service_get_health_summary source \<and>
   service_list_connections (relabel_errors f source) = service_list_connections source \<and>
   service_get_recent_changes (relabel_errors f source) cr = service_get_recent_changes source cr \<and>
   service_get_sync_status (relabel_errors f source) yr = service_get_sync_status source yr \<and>
   service_get_timeline (relabel_errors f source) mr = service_get_timeline source mr \<and>
   service_list_connector_coverage (relabel_errors f source) = service_list_connector_coverage source"
  unfolding search_resources_def service_get_resource_def service_get_topology_def
    get_relations_for_resources_def service_get_health_summary_def service_list_connections_def
    service_get_recent_changes_def service_get_sync_status_def service_get_timeline_def
    service_list_connector_coverage_def relabel_selectors map_err_comp
  by (intro conjI refl)

end
