(* ===== verification/Store_Query.thy ===== *)
theory Store_Query
  imports Store Rust_Int
begin

text \<open>
  \<open>query_projection.rs\<close> of crate \<open>next-infra-store\<close>: the read side of the store. A query runs in one
  transaction, so it is a function of one database; it reads the projection metadata first. A
  \<open>SELECT\<close> is a filter over the rows in the order of its \<open>ORDER BY\<close>, cut by its \<open>LIMIT\<close>; the rows that
  are left are then read one after the other, and the first that cannot be read is the error.
\<close>

section \<open>Data\<close>

definition MAX_PROJECTION_PAGE_LIMIT :: nat where
  "MAX_PROJECTION_PAGE_LIMIT = 512"

definition MAX_DETAIL_RELATIONS :: nat where
  "MAX_DETAIL_RELATIONS = 400"

definition MAX_DETAIL_CHANGES :: nat where
  "MAX_DETAIL_CHANGES = 100"

record 'a ProjectionSnapshot =
  ps_metadata :: ProjectionMetadata
  ps_body :: 'a

record 'a ProjectionPage =
  pp_items :: "'a list"
  pp_next_after :: "string option"

record FreshnessCutoffs =
  fco_fresh_after_millis :: int
  fco_expired_after_millis :: int

type_synonym Cutoffs = "(ConnectionId, FreshnessCutoffs) btree_map"

record ResourceProjectionPlan =
  rpp_query :: "string option"
  rpp_kinds :: "string list"
  rpp_connector_types :: "string list"
  rpp_health :: "ResourceHealth list"
  rpp_freshness :: "Freshness list"
  rpp_labels :: "(string, string) btree_map"
  rpp_cutoffs :: Cutoffs
  rpp_limit :: nat
  rpp_after :: "string option"

record ProjectedResource =
  pr_resource :: Resource
  pr_connector_type :: ConnectorType
  pr_freshness :: Freshness

record ProjectedRelation =
  pl_relation :: Relation
  pl_provider_connector_type :: "ConnectorType option"
  pl_configured_created_at :: "Timestamp option"

record ResourceDetailProjection =
  rdp_resource :: Resource
  rdp_relations :: "ProjectedRelation list"
  rdp_recent_changes :: "Change list"
  rdp_relations_truncated :: bool
  rdp_recent_changes_truncated :: bool

record ProjectedConnection =
  pc_connection_id :: ConnectionId
  pc_connector_type :: ConnectorType
  pc_display_name :: string
  pc_enabled :: bool
  pc_health :: ConnectorHealth
  pc_last_success_at :: "Timestamp option"
  pc_last_attempt_at :: "Timestamp option"

record HealthProjection =
  hp_resource_health :: "(ResourceHealth \<times> nat) list"
  hp_freshness :: "(Freshness \<times> nat) list"
  hp_connector_health :: "(ConnectorHealth \<times> nat) list"

record RecentChangesProjectionPlan =
  rcp_since_millis :: "int option"
  rcp_resource_id :: "ResourceId option"
  rcp_kinds :: "string list"
  rcp_limit :: nat
  rcp_after :: "string option"

datatype TimelineVersionLinkProjection =
    ResourceLink ResourceId ResourceVersionId
  | RelationLink RelationId RelationVersionId

record TimelineProjectionItem =
  tpi_change :: Change
  tpi_version_links :: "TimelineVersionLinkProjection list"

record SyncStatusProjection =
  ssp_connection :: ProjectedConnection
  ssp_recent_runs :: "SyncRun list"

record GitHubActionsSummaryRow =
  ghr_connection_id :: ConnectionId
  ghr_connection_name :: string
  ghr_repository_id :: ResourceId
  ghr_repository_name :: string
  ghr_action_count :: nat
  ghr_succeeded :: nat
  ghr_failed :: nat
  ghr_running :: nat

section \<open>LIKE\<close>

text \<open>
  SQLite's \<open>LIKE\<close> with the escape character \<open>\\<close>: \<open>%\<close> stands for any text, \<open>_\<close> for one character, an
  escaped character for itself, and ASCII letters compare without case. \<open>LOWER\<close> touches ASCII
  letters only.
\<close>

datatype LikeToken = LikeAny | LikeOne | LikeByte char | LikeNever

definition backslash :: char where
  "backslash = CHR 0x5C"

fun like_tokens :: "string \<Rightarrow> LikeToken list" where
  "like_tokens [] = []"
| "like_tokens [c] =
     [if c = backslash then LikeNever else if c = CHR ''%'' then LikeAny
      else if c = CHR ''_'' then LikeOne else LikeByte c]"
| "like_tokens (c # d # s) =
     (if c = backslash then LikeByte d # like_tokens s
      else if c = CHR ''%'' then LikeAny # like_tokens (d # s)
      else if c = CHR ''_'' then LikeOne # like_tokens (d # s)
      else LikeByte c # like_tokens (d # s))"

definition continuation_byte :: "char \<Rightarrow> bool" where
  "continuation_byte c \<longleftrightarrow> 128 \<le> byte c \<and> byte c < 192"

function like_match :: "LikeToken list \<Rightarrow> string \<Rightarrow> bool" where
  "like_match [] s \<longleftrightarrow> s = []"
| "like_match (LikeAny # ts) [] \<longleftrightarrow> like_match ts []"
| "like_match (LikeAny # ts) (c # s) \<longleftrightarrow> like_match ts (c # s) \<or> like_match (LikeAny # ts) s"
| "like_match (LikeOne # ts) [] \<longleftrightarrow> False"
| "like_match (LikeOne # ts) (c # s) \<longleftrightarrow> like_match ts (dropWhile continuation_byte s)"
| "like_match (LikeByte d # ts) [] \<longleftrightarrow> False"
| "like_match (LikeByte d # ts) (c # s) \<longleftrightarrow> ascii_lower c = ascii_lower d \<and> like_match ts s"
| "like_match (LikeNever # ts) s \<longleftrightarrow> False"
  by pat_completeness auto
termination
  by (relation "measure (\<lambda>(ts, s). length ts + length s)") (auto simp: less_Suc_eq_le le_SucI length_dropWhile_le)

definition sql_like :: "string \<Rightarrow> string \<Rightarrow> bool" where
  "sql_like value pattern = like_match (like_tokens pattern) value"

definition escape_like :: "string \<Rightarrow> string" where
  "escape_like value =
     concat (map (\<lambda>c. if c = backslash \<or> c = CHR ''%'' \<or> c = CHR ''_'' then [backslash, c] else [c]) value)"

definition like_pattern :: "(string \<Rightarrow> string) \<Rightarrow> string \<Rightarrow> string" where
  "like_pattern to_lowercase query = ''%'' @ escape_like (to_lowercase query) @ ''%''"

section \<open>Cutoffs and freshness\<close>

definition validate_limit :: "nat \<Rightarrow> StoreError + unit" where
  "validate_limit limit =
     (if limit = 0 \<or> MAX_PROJECTION_PAGE_LIMIT < limit
      then Inl (Contract ''projection limit is outside the supported range'') else Inr ())"

definition read_projection_metadata :: "Database \<Rightarrow> StoreError + ProjectionMetadata" where
  "read_projection_metadata db =
     (case db_projection db of
        None \<Rightarrow> Inl (Sqlite ''Query returned no rows'')
      | Some p \<Rightarrow>
          if pm_committed_revision p < 0 then Inl (Contract ''projection revision cannot be negative'')
          else Inr p)"

definition with_projection_snapshot ::
    "Database \<Rightarrow> (Database \<Rightarrow> StoreError + 'a) \<Rightarrow> StoreError + 'a ProjectionSnapshot" where
  "with_projection_snapshot db read =
     res_bind (read_projection_metadata db) (\<lambda>metadata.
     res_bind (read db) (\<lambda>body. Inr \<lparr>ps_metadata = metadata, ps_body = body\<rparr>))"

definition validate_cutoffs :: "Database \<Rightarrow> Cutoffs \<Rightarrow> StoreError + unit" where
  "validate_cutoffs db cutoffs =
     res_bind (res_all (\<lambda>c. ensure (\<not> fco_fresh_after_millis c < fco_expired_after_millis c)
         (Contract ''freshness cutoffs are inverted'')) (bt_values cutoffs)) (\<lambda>_.
     res_all (\<lambda>connection_id. ensure (has_key cutoffs connection_id)
         (Contract (''freshness cutoff is missing for connection '' @ connection_id)))
       (remdups_adj (sort (map res_connection_id (bt_values (db_resources db))))))"

definition classify_millis :: "int \<Rightarrow> FreshnessCutoffs \<Rightarrow> Freshness" where
  "classify_millis last_seen_at cutoff =
     (if fco_fresh_after_millis cutoff \<le> last_seen_at then Fresh
      else if fco_expired_after_millis cutoff \<le> last_seen_at then Stale else Expired)"

definition store_classify_freshness :: "Resource \<Rightarrow> Cutoffs \<Rightarrow> StoreError + Freshness" where
  "store_classify_freshness resource cutoffs =
     map_ok (classify_millis (res_last_seen_at resource))
       (ok_or (Contract ''freshness cutoff disappeared during query'')
         (bt_get cutoffs (res_connection_id resource)))"

text \<open>\<open>push_freshness_filter\<close>: no filter for no or all three values, else one disjunct for each cutoff.\<close>

definition requested_values :: "Freshness list \<Rightarrow> Freshness list" where
  "requested_values requested = filter (\<lambda>v. v \<in> set requested) [Fresh, Stale, Expired]"

definition freshness_branch :: "Resource \<Rightarrow> FreshnessCutoffs \<Rightarrow> Freshness \<Rightarrow> bool" where
  "freshness_branch r cutoff freshness =
     (case freshness of
        Fresh \<Rightarrow> fco_fresh_after_millis cutoff \<le> res_last_seen_at r
      | Stale \<Rightarrow> res_last_seen_at r < fco_fresh_after_millis cutoff \<and>
          fco_expired_after_millis cutoff \<le> res_last_seen_at r
      | Expired \<Rightarrow> res_last_seen_at r < fco_expired_after_millis cutoff)"

definition has_freshness_filter :: "Freshness list \<Rightarrow> bool" where
  "has_freshness_filter requested \<longleftrightarrow>
     \<not> (requested_values requested = [] \<or> length (requested_values requested) = 3)"

definition freshness_filter :: "Freshness list \<Rightarrow> Cutoffs \<Rightarrow> Resource \<Rightarrow> bool" where
  "freshness_filter requested cutoffs r \<longleftrightarrow>
     (has_freshness_filter requested \<longrightarrow>
      list_ex (\<lambda>(connection_id, cutoff). res_connection_id r = connection_id \<and>
        list_ex (freshness_branch r cutoff) (requested_values requested)) cutoffs)"

section \<open>Pages\<close>

text \<open>
  The rows of a page are one more than its limit; the last row is dropped and only tells that there
  is another page, whose cursor is the last row that stays.
\<close>

definition projection_page :: "('a \<Rightarrow> string) \<Rightarrow> nat \<Rightarrow> 'a list \<Rightarrow> 'a ProjectionPage" where
  "projection_page cursor limit items =
     (let truncated = limit < length items;
          items = (if truncated then butlast items else items)
      in \<lparr>pp_items = items,
          pp_next_after = (if truncated \<and> items \<noteq> [] then Some (cursor (last items)) else None)\<rparr>)"

section \<open>Resources\<close>

definition text_set :: "string list \<Rightarrow> string \<Rightarrow> bool" where
  "text_set values column \<longleftrightarrow> values = [] \<or> column \<in> set values"

definition after_key :: "string option \<Rightarrow> string \<Rightarrow> bool" where
  "after_key after key = (case after of None \<Rightarrow> True | Some a \<Rightarrow> a < key)"

definition query_filter :: "(string \<Rightarrow> string) \<Rightarrow> string option \<Rightarrow> Resource \<Rightarrow> bool" where
  "query_filter to_lowercase query r =
     (case query of
        None \<Rightarrow> True
      | Some q \<Rightarrow>
          list_ex (\<lambda>column. sql_like (to_ascii_lowercase column) (like_pattern to_lowercase q))
            [res_display_name r, res_name r, res_kind r, res_external_id r, res_id r])"

definition resource_matches ::
    "(string \<Rightarrow> string) \<Rightarrow> Database \<Rightarrow> ResourceProjectionPlan \<Rightarrow> Resource \<Rightarrow> bool" where
  "resource_matches to_lowercase db plan r \<longleftrightarrow>
     (case bt_get (db_connections db) (res_connection_id r) of
        None \<Rightarrow> False
      | Some c \<Rightarrow>
          query_filter to_lowercase (rpp_query plan) r \<and> text_set (rpp_kinds plan) (res_kind r) \<and>
          text_set (rpp_connector_types plan) (conn_type c) \<and>
          text_set (map resource_health_text (rpp_health plan)) (resource_health_text (res_health r)) \<and>
          list_all (\<lambda>(key, value). bt_get (res_labels r) key = Some value) (rpp_labels plan) \<and>
          freshness_filter (rpp_freshness plan) (rpp_cutoffs plan) r)"

definition read_resource_row :: "Database \<Rightarrow> Cutoffs \<Rightarrow> Resource \<Rightarrow> StoreError + ProjectedResource" where
  "read_resource_row db cutoffs row =
     res_bind (read_resource row) (\<lambda>resource.
     case bt_get (db_connections db) (res_connection_id row) of
       None \<Rightarrow> Inl conversion_error
     | Some c \<Rightarrow>
         if \<not> token_ok (conn_type c) then Inl conversion_error
         else
           res_bind (store_classify_freshness resource cutoffs) (\<lambda>freshness.
             Inr \<lparr>pr_resource = resource, pr_connector_type = conn_type c, pr_freshness = freshness\<rparr>))"

definition read_resource_page ::
    "(string \<Rightarrow> string) \<Rightarrow> ResourceProjectionPlan \<Rightarrow> Database \<Rightarrow> StoreError + ProjectedResource ProjectionPage" where
  "read_resource_page to_lowercase plan db =
     (if has_freshness_filter (rpp_freshness plan) \<and> rpp_cutoffs plan = []
      then Inl (Sqlite ''near )'')
      else
        map_ok (projection_page (\<lambda>item. res_id (pr_resource item)) (rpp_limit plan))
          (res_map (read_resource_row db (rpp_cutoffs plan))
            (take (rpp_limit plan + 1)
              (filter (\<lambda>r. after_key (rpp_after plan) (res_id r) \<and> resource_matches to_lowercase db plan r)
                (bt_values (db_resources db))))))"

definition query_resources ::
    "(string \<Rightarrow> string) \<Rightarrow> Database \<Rightarrow> ResourceProjectionPlan \<Rightarrow>
     StoreError + ProjectedResource ProjectionPage ProjectionSnapshot" where
  "query_resources to_lowercase db plan =
     res_bind (validate_limit (rpp_limit plan)) (\<lambda>_.
     with_projection_snapshot db (\<lambda>db.
       res_bind (validate_cutoffs db (rpp_cutoffs plan)) (\<lambda>_. read_resource_page to_lowercase plan db)))"

definition read_resources_by_ids :: "ResourceId list \<Rightarrow> Database \<Rightarrow> StoreError + Resource list" where
  "read_resources_by_ids resource_ids db =
     (if resource_ids = [] then Inr []
      else res_map read_resource (filter (\<lambda>r. res_id r \<in> set resource_ids) (bt_values (db_resources db))))"

definition query_resources_by_ids ::
    "Database \<Rightarrow> ResourceId list \<Rightarrow> StoreError + Resource list ProjectionSnapshot" where
  "query_resources_by_ids db resource_ids =
     (if MAX_PROJECTION_PAGE_LIMIT < length resource_ids then Inl (Contract ''too many resource ids'')
      else with_projection_snapshot db (read_resources_by_ids resource_ids))"

section \<open>Relations\<close>

definition read_projected_relation :: "Database \<Rightarrow> Relation \<Rightarrow> StoreError + ProjectedRelation" where
  "read_projected_relation db row =
     res_bind (read_relation row) (\<lambda>relation.
     let connector_type =
           (case rel_evidence row of
              Provider connection_id _ _ \<Rightarrow> map_option conn_type (bt_get (db_connections db) connection_id)
            | _ \<Rightarrow> None);
         created_at =
           (case rel_evidence row of
              Configured binding_id \<Rightarrow> map_option bind_created_at (bt_get (db_bindings db) binding_id)
            | _ \<Rightarrow> None)
     in if (case connector_type of None \<Rightarrow> True | Some t \<Rightarrow> token_ok t) \<and> time_option_ok created_at
        then Inr \<lparr>pl_relation = relation, pl_provider_connector_type = connector_type,
                  pl_configured_created_at = created_at\<rparr>
        else Inl conversion_error)"

definition read_relations_for_resources ::
    "ResourceId list \<Rightarrow> nat \<Rightarrow> string option \<Rightarrow> bool \<Rightarrow> Database \<Rightarrow>
     StoreError + ProjectedRelation ProjectionPage" where
  "read_relations_for_resources resource_ids limit after require_both_endpoints db =
     (if resource_ids = [] then Inr \<lparr>pp_items = [], pp_next_after = None\<rparr>
      else
        map_ok (projection_page (\<lambda>item. rel_id (pl_relation item)) limit)
          (res_map (read_projected_relation db)
            (take (limit + 1)
              (filter (\<lambda>r.
                  (if require_both_endpoints
                   then rel_source r \<in> set resource_ids \<and> rel_target r \<in> set resource_ids
                   else rel_source r \<in> set resource_ids \<or> rel_target r \<in> set resource_ids) \<and>
                  after_key after (rel_id r))
                (bt_values (db_relations db))))))"

definition query_relations_for_resources ::
    "Database \<Rightarrow> ResourceId list \<Rightarrow> nat \<Rightarrow> string option \<Rightarrow>
     StoreError + ProjectedRelation ProjectionPage ProjectionSnapshot" where
  "query_relations_for_resources db resource_ids limit after =
     res_bind (validate_limit limit) (\<lambda>_.
     if MAX_PROJECTION_PAGE_LIMIT < length resource_ids
     then Inl (Contract ''too many topology frontier resources'')
     else with_projection_snapshot db (read_relations_for_resources resource_ids limit after False))"

definition query_relations_within_resources ::
    "Database \<Rightarrow> ResourceId list \<Rightarrow> nat \<Rightarrow> string option \<Rightarrow>
     StoreError + ProjectedRelation ProjectionPage ProjectionSnapshot" where
  "query_relations_within_resources db resource_ids limit after =
     res_bind (validate_limit limit) (\<lambda>_.
     if MAX_PROJECTION_PAGE_LIMIT < length resource_ids then Inl (Contract ''too many resource ids'')
     else with_projection_snapshot db (read_relations_for_resources resource_ids limit after True))"

section \<open>Changes\<close>

definition read_change :: "Change \<Rightarrow> StoreError + Change" where
  "read_change c = (if time_ok (chg_observed_at c) then Inr c else Inl conversion_error)"

text \<open>\<open>ORDER BY observed_at DESC, change_id DESC\<close>.\<close>

definition change_key :: "Change \<Rightarrow> int \<times> string" where
  "change_key c = (chg_observed_at c, chg_id c)"

definition changes_newest_first :: "Database \<Rightarrow> Change list" where
  "changes_newest_first db = rev (sort_key change_key (bt_values (db_changes db)))"

definition relation_touches :: "Database \<Rightarrow> RelationId \<Rightarrow> ResourceId \<Rightarrow> bool" where
  "relation_touches db relation_id resource_id \<longleftrightarrow>
     (case bt_get (db_relations db) relation_id of
        None \<Rightarrow> False | Some r \<Rightarrow> rel_source r = resource_id \<or> rel_target r = resource_id)"

definition change_concerns :: "Database \<Rightarrow> ResourceId \<Rightarrow> Change \<Rightarrow> bool" where
  "change_concerns db resource_id c =
     (case chg_subject c of
        ResourceSubject i \<Rightarrow> i = resource_id
      | RelationSubject i \<Rightarrow> relation_touches db i resource_id
      | BindingSubject _ \<Rightarrow> False)"

definition change_kind_in :: "Database \<Rightarrow> string list \<Rightarrow> Change \<Rightarrow> bool" where
  "change_kind_in db kinds c =
     (case chg_subject c of
        ResourceSubject i \<Rightarrow> (case bt_get (db_resources db) i of None \<Rightarrow> False | Some r \<Rightarrow> res_kind r \<in> set kinds)
      | RelationSubject i \<Rightarrow> (case bt_get (db_relations db) i of None \<Rightarrow> False | Some r \<Rightarrow> rel_kind r \<in> set kinds)
      | BindingSubject _ \<Rightarrow> False)"

definition change_cursor :: "Change \<Rightarrow> string" where
  "change_cursor c = show_int (chg_observed_at c) @ '':'' @ chg_id c"

definition parse_change_cursor :: "string \<Rightarrow> StoreError + int \<times> string" where
  "parse_change_cursor value =
     (case split_once CHR '':'' value of
        None \<Rightarrow> Inl (Contract ''change cursor is invalid'')
      | Some (observed_at, change_id) \<Rightarrow>
      (case parse_i64 observed_at of
        None \<Rightarrow> Inl (Contract ''change cursor is invalid'')
      | Some observed_at \<Rightarrow>
          if change_id = [] then Inl (Contract ''change cursor is invalid'')
          else Inr (observed_at, change_id)))"

definition change_matches :: "Database \<Rightarrow> RecentChangesProjectionPlan \<Rightarrow> Change \<Rightarrow> bool" where
  "change_matches db plan c \<longleftrightarrow>
     (case rcp_since_millis plan of None \<Rightarrow> True | Some since \<Rightarrow> since \<le> chg_observed_at c) \<and>
     (case rcp_resource_id plan of None \<Rightarrow> True | Some i \<Rightarrow> change_concerns db i c) \<and>
     (rcp_kinds plan \<noteq> [] \<longrightarrow> change_kind_in db (rcp_kinds plan) c)"

definition read_recent_changes :: "RecentChangesProjectionPlan \<Rightarrow> Database \<Rightarrow> StoreError + Change ProjectionPage" where
  "read_recent_changes plan db =
     res_bind (case rcp_after plan of None \<Rightarrow> Inr None | Some a \<Rightarrow> map_ok Some (parse_change_cursor a)) (\<lambda>after.
       map_ok (projection_page change_cursor (rcp_limit plan))
         (res_map read_change
           (take (rcp_limit plan + 1)
             (filter (\<lambda>c. change_matches db plan c \<and>
                 (case after of
                    None \<Rightarrow> True
                  | Some (at, change_id) \<Rightarrow>
                      chg_observed_at c < at \<or> chg_observed_at c = at \<and> chg_id c < change_id))
               (changes_newest_first db)))))"

definition query_recent_changes ::
    "Database \<Rightarrow> RecentChangesProjectionPlan \<Rightarrow> StoreError + Change ProjectionPage ProjectionSnapshot" where
  "query_recent_changes db plan =
     res_bind (validate_limit (rcp_limit plan)) (\<lambda>_.
       with_projection_snapshot db (read_recent_changes plan))"

definition read_resource_detail ::
    "ResourceId \<Rightarrow> Database \<Rightarrow> StoreError + ResourceDetailProjection option" where
  "read_resource_detail resource_id db =
     res_bind (query_optional read_resource (db_resources db) resource_id) (\<lambda>found.
     case found of
       None \<Rightarrow> Inr None
     | Some resource \<Rightarrow>
         res_bind (res_map (read_projected_relation db)
           (take (MAX_DETAIL_RELATIONS + 1)
             (filter (\<lambda>r. rel_source r = resource_id \<or> rel_target r = resource_id) (bt_values (db_relations db)))))
           (\<lambda>relations.
         res_bind (res_map read_change
           (take (MAX_DETAIL_CHANGES + 1) (filter (change_concerns db resource_id) (changes_newest_first db))))
           (\<lambda>changes.
         Inr (Some \<lparr>rdp_resource = resource, rdp_relations = take MAX_DETAIL_RELATIONS relations,
                    rdp_recent_changes = take MAX_DETAIL_CHANGES changes,
                    rdp_relations_truncated = (MAX_DETAIL_RELATIONS < length relations),
                    rdp_recent_changes_truncated = (MAX_DETAIL_CHANGES < length changes)\<rparr>))))"

definition query_resource_detail ::
    "Database \<Rightarrow> ResourceId \<Rightarrow> StoreError + ResourceDetailProjection option ProjectionSnapshot" where
  "query_resource_detail db resource_id = with_projection_snapshot db (read_resource_detail resource_id)"

section \<open>Timeline\<close>

text \<open>The texts of two origins are equal exactly when the origins are.\<close>

definition read_relation_version_links ::
    "RelationId \<Rightarrow> Timestamp \<Rightarrow> OriginRef \<Rightarrow> Database \<Rightarrow> TimelineVersionLinkProjection list" where
  "read_relation_version_links relation_id observed_at origin db =
     (case rev (filter (\<lambda>v. relv_relation_id v = relation_id \<and> relv_observed_at v = observed_at \<and>
             relv_origin v = origin) (bt_values (db_relation_versions db))) of
        [] \<Rightarrow> []
      | v # _ \<Rightarrow> [RelationLink relation_id (relv_id v)])"

definition read_timeline_version_links :: "Change \<Rightarrow> Database \<Rightarrow> TimelineVersionLinkProjection list" where
  "read_timeline_version_links change db =
     (case chg_subject change of
        ResourceSubject resource_id \<Rightarrow>
          (case chg_origin change of
             SyncRunOrigin sync_run_id \<Rightarrow>
               (case rev (filter (\<lambda>v. rv_resource_id v = resource_id \<and>
                       rv_observed_at v = chg_observed_at change \<and> rv_sync_run_id v = sync_run_id)
                     (bt_values (db_resource_versions db))) of
                  [] \<Rightarrow> []
                | v # _ \<Rightarrow> [ResourceLink resource_id (rv_id v)])
           | _ \<Rightarrow> [])
      | RelationSubject relation_id \<Rightarrow>
          read_relation_version_links relation_id (chg_observed_at change) (chg_origin change) db
      | BindingSubject _ \<Rightarrow>
          (case chg_origin change of
             BindingOrigin _ \<Rightarrow>
               map (\<lambda>v. RelationLink (relv_relation_id v) (relv_id v))
                 (sort_key (\<lambda>v. (relv_relation_id v, relv_id v))
                   (filter (\<lambda>v. relv_observed_at v = chg_observed_at change \<and>
                       relv_origin v = chg_origin change) (bt_values (db_relation_versions db))))
           | _ \<Rightarrow> []))"

definition query_timeline ::
    "Database \<Rightarrow> nat \<Rightarrow> string option \<Rightarrow> StoreError + TimelineProjectionItem ProjectionPage ProjectionSnapshot" where
  "query_timeline db limit after =
     res_bind (validate_limit limit) (\<lambda>_.
     with_projection_snapshot db (\<lambda>db.
       map_ok (\<lambda>page.
           \<lparr>pp_items = map (\<lambda>c. \<lparr>tpi_change = c, tpi_version_links = read_timeline_version_links c db\<rparr>) (pp_items page),
            pp_next_after = pp_next_after page\<rparr>)
         (read_recent_changes
           \<lparr>rcp_since_millis = None, rcp_resource_id = None, rcp_kinds = [], rcp_limit = limit,
            rcp_after = after\<rparr> db)))"

section \<open>Connections and runs\<close>

definition projected_connection :: "Connection \<Rightarrow> ProjectedConnection" where
  "projected_connection c =
     \<lparr>pc_connection_id = conn_id c, pc_connector_type = conn_type c, pc_display_name = conn_display_name c,
      pc_enabled = conn_enabled c, pc_health = conn_health c, pc_last_success_at = conn_last_success_at c,
      pc_last_attempt_at = conn_last_attempt_at c\<rparr>"

definition run_key :: "SyncRun \<Rightarrow> int \<times> string" where
  "run_key r = (run_started_at r, run_id r)"

definition runs_newest_first :: "Database \<Rightarrow> ConnectionId \<Rightarrow> SyncRun list" where
  "runs_newest_first db connection_id =
     rev (sort_key run_key (filter (\<lambda>r. run_connection_id r = connection_id) (bt_values (db_sync_runs db))))"

definition read_sync_status ::
    "ConnectionId \<Rightarrow> nat \<Rightarrow> Database \<Rightarrow> StoreError + SyncStatusProjection option" where
  "read_sync_status connection_id recent_run_limit db =
     res_bind (query_optional read_connection (db_connections db) connection_id) (\<lambda>found.
     case found of
       None \<Rightarrow> Inr None
     | Some c \<Rightarrow>
         res_bind (res_map read_sync_run (take recent_run_limit (runs_newest_first db connection_id))) (\<lambda>runs.
           Inr (Some \<lparr>ssp_connection = projected_connection c, ssp_recent_runs = runs\<rparr>)))"

definition query_sync_status ::
    "Database \<Rightarrow> ConnectionId \<Rightarrow> nat \<Rightarrow> StoreError + SyncStatusProjection option ProjectionSnapshot" where
  "query_sync_status db connection_id recent_run_limit =
     res_bind (validate_limit recent_run_limit) (\<lambda>_.
       with_projection_snapshot db (read_sync_status connection_id recent_run_limit))"

definition read_connections :: "Database \<Rightarrow> StoreError + ProjectedConnection list" where
  "read_connections db =
     map_ok (map projected_connection)
       (res_map read_connection (filter (\<lambda>c. conn_deleted_at c = None) (bt_values (db_connections db))))"

definition query_connections :: "Database \<Rightarrow> StoreError + ProjectedConnection list ProjectionSnapshot" where
  "query_connections db = with_projection_snapshot db read_connections"

section \<open>Health\<close>

text \<open>\<open>GROUP BY\<close>: one row for each text, with the number of its occurrences.\<close>

definition grouped_counts :: "string list \<Rightarrow> (string \<times> nat) list" where
  "grouped_counts column = map (\<lambda>t. (t, length (filter (\<lambda>u. u = t) column))) (remdups_adj (sort column))"

definition resource_health_value :: "string \<Rightarrow> StoreError + ResourceHealth" where
  "resource_health_value value =
     (if value = ''healthy'' then Inr Healthy
      else if value = ''degraded'' then Inr Degraded
      else if value = ''unhealthy'' then Inr Unhealthy
      else if value = ''unknown'' then Inr Unknown
      else Inl (Contract ''unknown resource health''))"

fun connector_health_text :: "ConnectorHealth \<Rightarrow> string" where
  "connector_health_text ConnectorHealthy = ''healthy''"
| "connector_health_text ConnectorDegraded = ''degraded''"
| "connector_health_text AuthFailed = ''auth_failed''"
| "connector_health_text ConnectorRateLimited = ''rate_limited''"
| "connector_health_text Unreachable = ''unreachable''"
| "connector_health_text Disabled = ''disabled''"

definition connector_health_value :: "string \<Rightarrow> StoreError + ConnectorHealth" where
  "connector_health_value value =
     (if value = ''healthy'' then Inr ConnectorHealthy
      else if value = ''degraded'' then Inr ConnectorDegraded
      else if value = ''auth_failed'' then Inr AuthFailed
      else if value = ''rate_limited'' then Inr ConnectorRateLimited
      else if value = ''unreachable'' then Inr Unreachable
      else if value = ''disabled'' then Inr Disabled
      else Inl (Contract ''unknown connector health''))"

definition freshness_index :: "Freshness \<Rightarrow> nat" where
  "freshness_index value = (case value of Fresh \<Rightarrow> 0 | Stale \<Rightarrow> 1 | Expired \<Rightarrow> 2)"

definition count_freshness :: "Cutoffs \<Rightarrow> Resource \<Rightarrow> nat list \<Rightarrow> StoreError + nat list" where
  "count_freshness cutoffs r counts =
     map_ok (\<lambda>cutoff.
         let i = freshness_index (classify_millis (res_last_seen_at r) cutoff) in counts[i := counts ! i + 1])
       (ok_or (Contract ''freshness cutoff disappeared during query'')
         (bt_get cutoffs (res_connection_id r)))"

definition read_health_projection :: "Cutoffs \<Rightarrow> Database \<Rightarrow> StoreError + HealthProjection" where
  "read_health_projection cutoffs db =
     res_bind (res_map (\<lambda>(value, count). map_ok (\<lambda>h. (h, count)) (resource_health_value value))
       (grouped_counts (map (\<lambda>r. resource_health_text (res_health r)) (bt_values (db_resources db)))))
       (\<lambda>resource_health.
     res_bind (res_map (\<lambda>(value, count). map_ok (\<lambda>h. (h, count)) (connector_health_value value))
       (grouped_counts (map (\<lambda>c. connector_health_text (conn_health c))
         (filter (\<lambda>c. conn_deleted_at c = None) (bt_values (db_connections db)))))) (\<lambda>connector_health.
     res_bind (res_fold (count_freshness cutoffs) (bt_values (db_resources db)) [0, 0, 0]) (\<lambda>counts.
       Inr \<lparr>hp_resource_health = resource_health,
            hp_freshness = [(Fresh, counts ! 0), (Stale, counts ! 1), (Expired, counts ! 2)],
            hp_connector_health = connector_health\<rparr>)))"

definition query_health_summary :: "Database \<Rightarrow> Cutoffs \<Rightarrow> StoreError + HealthProjection ProjectionSnapshot" where
  "query_health_summary db cutoffs =
     with_projection_snapshot db (\<lambda>db.
       res_bind (validate_cutoffs db cutoffs) (\<lambda>_. read_health_projection cutoffs db))"

end
