(* ===== verification/Query_Context.thy ===== *)
theory Query_Context
  imports Query_Time Query_Service Store_Query Connector_Api
begin

text \<open>
  The inputs of the query source other than the store: the connector catalog (\<open>lib.rs\<close> of crate
  \<open>next-infra-connector-catalog\<close> and the catalog snapshot of \<open>query_source.rs\<close>) and the context with
  the clock and the schedules. The text that serde writes for a coverage subject is the argument
  \<open>subject_text\<close>. The lock of the context is never poisoned: nothing panics while it is held.
\<close>

section \<open>Coverage snapshots\<close>

datatype CoverageSubject =
    CoverageResource ResourceKind "32 word"
  | CoverageRelation RelationKind ResourceKind ResourceKind

record ModuleCoverageSnapshot =
  mcs_module :: string
  mcs_level :: ConnectorCoverageLevel
  mcs_reason :: "string option"
  mcs_subject :: CoverageSubject

record ConnectorCoverageSnapshot =
  ccv_connector_type :: ConnectorType
  ccv_connector_version :: string
  ccv_auth :: AuthDescriptor
  ccv_sync_modes :: "SyncMode list"
  ccv_rate_limit :: RateLimitGuidance
  ccv_known_gaps :: "string list"
  ccv_modules :: "ModuleCoverageSnapshot list"

definition resource_module :: "ResourceCapability \<Rightarrow> ModuleCoverageSnapshot" where
  "resource_module capability =
     \<lparr>mcs_module = cov_module (rcap_coverage capability), mcs_level = cov_level (rcap_coverage capability),
      mcs_reason = cov_reason (rcap_coverage capability),
      mcs_subject = CoverageResource (rcap_kind capability) (rcap_attribute_schema_version capability)\<rparr>"

definition relation_module :: "RelationCapability \<Rightarrow> ModuleCoverageSnapshot" where
  "relation_module capability =
     \<lparr>mcs_module = cov_module (lcap_coverage capability), mcs_level = cov_level (lcap_coverage capability),
      mcs_reason = cov_reason (lcap_coverage capability),
      mcs_subject = CoverageRelation (lcap_kind capability) (lcap_source_kind capability)
        (lcap_target_kind capability)\<rparr>"

definition module_key :: "(CoverageSubject \<Rightarrow> string) \<Rightarrow> ModuleCoverageSnapshot \<Rightarrow> string" where
  "module_key subject_text module = mcs_module module @ '':'' @ subject_text (mcs_subject module)"

definition from_descriptor ::
    "(CoverageSubject \<Rightarrow> string) \<Rightarrow> ConnectorDescriptor \<Rightarrow> DomainError + ConnectorCoverageSnapshot" where
  "from_descriptor subject_text descriptor =
     res_bind (descriptor_validate descriptor) (\<lambda>_.
       Inr \<lparr>ccv_connector_type = desc_connector_type descriptor,
            ccv_connector_version = desc_connector_version descriptor, ccv_auth = desc_auth descriptor,
            ccv_sync_modes = desc_sync_modes descriptor, ccv_rate_limit = desc_rate_limit descriptor,
            ccv_known_gaps = desc_known_gaps descriptor,
            ccv_modules = sort_key (module_key subject_text)
              (map resource_module (desc_resources descriptor) @ map relation_module (desc_relations descriptor))\<rparr>)"

section \<open>The catalog\<close>

record ConnectorCatalogSnapshot =
  ccs_connectors :: "ConnectorCoverageSnapshot list"

definition ConnectorCatalogSnapshot_new :: "ConnectorCoverageSnapshot list \<Rightarrow> ConnectorCatalogSnapshot" where
  "ConnectorCatalogSnapshot_new connectors =
     \<lparr>ccs_connectors = sort_key (\<lambda>c. (ccv_connector_type c, ccv_connector_version c)) connectors\<rparr>"

definition catalog_fingerprint :: "ConnectorCatalogSnapshot \<Rightarrow> string" where
  "catalog_fingerprint catalog =
     join_byte CHR '','' (sort (map (\<lambda>c. ccv_connector_type c @ ''@'' @ ccv_connector_version c) (ccs_connectors catalog)))"

definition coverage_level :: "ConnectorCoverageLevel \<Rightarrow> ConnectorCoverageLevelDto" where
  "coverage_level value = (case value of Supported \<Rightarrow> DtoSupported | PartialLevel \<Rightarrow> DtoPartialLevel | Unsupported \<Rightarrow> DtoUnsupported)"

definition catalog_coverage :: "ConnectorCatalogSnapshot \<Rightarrow> ConnectorType option \<Rightarrow> ConnectorCoverageDto list" where
  "catalog_coverage catalog connector_type =
     sort_key (\<lambda>d. (ccd_connector_type d, ccd_connector_version d, ccd_module d))
       (concat (map (\<lambda>c. map (\<lambda>m.
            \<lparr>ccd_connector_type = ccv_connector_type c, ccd_connector_version = ccv_connector_version c,
             ccd_module = mcs_module m, ccd_level = coverage_level (mcs_level m), ccd_reason = mcs_reason m\<rparr>)
            (ccv_modules c))
         (filter (\<lambda>c. case connector_type of None \<Rightarrow> True | Some expected \<Rightarrow> ccv_connector_type c = expected)
           (ccs_connectors catalog))))"

section \<open>The context\<close>

record QuerySchedule =
  qsc_interval_millis :: "64 word"
  qsc_next_scheduled_at :: "Timestamp option"

definition QuerySchedule_new :: "64 word \<Rightarrow> Timestamp option \<Rightarrow> QueryContextError + QuerySchedule" where
  "QuerySchedule_new interval_millis next_scheduled_at =
     (if interval_millis = 0 then Inl ContextInvalidInterval
      else Inr \<lparr>qsc_interval_millis = interval_millis, qsc_next_scheduled_at = next_scheduled_at\<rparr>)"

record QueryContextSnapshot =
  qcx_evaluated_at :: Timestamp
  qcx_revision :: "64 word"
  qcx_schedules :: "(ConnectionId, QuerySchedule) btree_map"

definition into_query_schedule_entry ::
    "ConnectionId \<times> QuerySchedule \<Rightarrow> QueryContextError + ConnectionId \<times> QuerySchedule" where
  "into_query_schedule_entry entry =
     map_ok (Pair (fst entry))
       (QuerySchedule_new (qsc_interval_millis (snd entry)) (qsc_next_scheduled_at (snd entry)))"

definition QueryContextSnapshot_new ::
    "Timestamp \<Rightarrow> 64 word \<Rightarrow> (ConnectionId \<times> QuerySchedule) list \<Rightarrow> QueryContextError + QueryContextSnapshot" where
  "QueryContextSnapshot_new evaluated_at query_context_revision schedules =
     map_ok (\<lambda>entries. \<lparr>qcx_evaluated_at = evaluated_at, qcx_revision = query_context_revision,
         qcx_schedules = bt_of_list entries\<rparr>)
       (res_map into_query_schedule_entry schedules)"

definition QueryContextSnapshot_empty :: "Timestamp \<Rightarrow> 64 word \<Rightarrow> QueryContextSnapshot" where
  "QueryContextSnapshot_empty evaluated_at query_context_revision =
     \<lparr>qcx_evaluated_at = evaluated_at, qcx_revision = query_context_revision, qcx_schedules = []\<rparr>"

definition QueryContextSnapshot_from_intervals ::
    "Timestamp \<Rightarrow> 64 word \<Rightarrow> (ConnectionId \<times> 64 word \<times> Timestamp option) list \<Rightarrow>
     QueryContextError + QueryContextSnapshot" where
  "QueryContextSnapshot_from_intervals evaluated_at query_context_revision intervals =
     res_bind (res_map (\<lambda>(connection_id, interval_millis, next_scheduled_at).
         map_ok (Pair connection_id) (QuerySchedule_new interval_millis next_scheduled_at)) intervals) (\<lambda>entries.
       QueryContextSnapshot_new evaluated_at query_context_revision (bt_of_list entries))"

definition context_schedule :: "QueryContextSnapshot \<Rightarrow> ConnectionId \<Rightarrow> QuerySchedule option" where
  "context_schedule context connection_id = bt_get (qcx_schedules context) connection_id"

text \<open>\<open>QueryContextRefreshHandle::refresh\<close>: the context behind the lock, and the one that comes after it.\<close>

definition context_refresh :: "QueryContextSnapshot \<Rightarrow> QueryContextSnapshot \<Rightarrow> QueryContextError + QueryContextSnapshot" where
  "context_refresh snapshot current =
     (if qcx_revision snapshot \<le> qcx_revision current then Inl RevisionMustIncrease else Inr snapshot)"

section \<open>Cutoffs and metadata\<close>

definition query_cutoffs :: "QueryContextSnapshot \<Rightarrow> Cutoffs" where
  "query_cutoffs context =
     bt_of_list (map (\<lambda>(connection_id, schedule).
       (let interval = (if uint (qsc_interval_millis schedule) \<le> i64_max
                        then uint (qsc_interval_millis schedule) else i64_max);
            evaluated = qcx_evaluated_at context;
            triple = (case i64_checked (interval * 3) of None \<Rightarrow> i64_max | Some v \<Rightarrow> v)
        in (connection_id,
            \<lparr>fco_fresh_after_millis = i64_saturated (evaluated - interval),
             fco_expired_after_millis = i64_saturated (evaluated - triple)\<rparr>))) (qcx_schedules context))"

definition query_metadata ::
    "ConnectorCatalogSnapshot \<Rightarrow> ProjectionMetadata \<Rightarrow> QueryContextSnapshot \<Rightarrow> SnapshotMetadata" where
  "query_metadata catalog projection context =
     \<lparr>sm_schema_version = QUERY_DTO_SCHEMA_VERSION,
      sm_snapshot_version = ''nis1:'' @ show_int (pm_committed_revision projection) @ '':'' @
        catalog_fingerprint catalog @ '':'' @ show_int (qcx_evaluated_at context) @ '':'' @
        show_nat (unat (qcx_revision context)),
      sm_generated_at = format_timestamp (qcx_evaluated_at context)\<rparr>"

text \<open>\<open>classify_freshness\<close> of the source: exact arithmetic (\<open>i128\<close>) on the age.\<close>

definition source_classify_freshness :: "Resource \<Rightarrow> QueryContextSnapshot \<Rightarrow> QuerySourceError + Freshness" where
  "source_classify_freshness resource context =
     res_bind (ok_or (SourceContract ''freshness schedule is missing'')
         (context_schedule context (res_connection_id resource))) (\<lambda>schedule.
     let interval = uint (qsc_interval_millis schedule) in
     if interval = 0 then Inl (SourceContext ContextInvalidInterval)
     else
       let age = max 0 (qcx_evaluated_at context - res_last_seen_at resource) in
       if age \<le> interval then Inr Fresh
       else if age \<le> interval * 3 then Inr Stale
       else Inr Expired)"

end
