(* ===== verification/Query_Mapping.thy ===== *)
theory Query_Mapping
  imports Query_Context
begin

text \<open>
  The functions of \<open>query_source.rs\<close> that map core values and projections to the objects of the query
  interface.
\<close>

section \<open>Enums\<close>

fun query_lifecycle :: "Lifecycle \<Rightarrow> QueryLifecycle" where
  "query_lifecycle Active = DtoActive"
| "query_lifecycle Tombstoned = DtoTombstoned"
| "query_lifecycle Orphaned = DtoOrphaned"

fun query_resource_health :: "ResourceHealth \<Rightarrow> QueryResourceHealth" where
  "query_resource_health Healthy = DtoHealthy"
| "query_resource_health Degraded = DtoDegraded"
| "query_resource_health Unhealthy = DtoUnhealthy"
| "query_resource_health Unknown = DtoUnknown"

fun core_resource_health :: "QueryResourceHealth \<Rightarrow> ResourceHealth" where
  "core_resource_health DtoHealthy = Healthy"
| "core_resource_health DtoDegraded = Degraded"
| "core_resource_health DtoUnhealthy = Unhealthy"
| "core_resource_health DtoUnknown = Unknown"

fun query_freshness :: "Freshness \<Rightarrow> QueryFreshness" where
  "query_freshness Fresh = DtoFresh"
| "query_freshness Stale = DtoStale"
| "query_freshness Expired = DtoExpired"

fun core_freshness :: "QueryFreshness \<Rightarrow> Freshness" where
  "core_freshness DtoFresh = Fresh"
| "core_freshness DtoStale = Stale"
| "core_freshness DtoExpired = Expired"

fun query_connector_health :: "ConnectorHealth \<Rightarrow> QueryConnectorHealth" where
  "query_connector_health ConnectorHealthy = DtoConnHealthy"
| "query_connector_health ConnectorDegraded = DtoConnDegraded"
| "query_connector_health AuthFailed = DtoAuthFailed"
| "query_connector_health ConnectorRateLimited = DtoConnRateLimited"
| "query_connector_health Unreachable = DtoUnreachable"
| "query_connector_health Disabled = DtoConnDisabled"

fun query_sync_mode :: "SyncMode \<Rightarrow> SyncModeDto" where
  "query_sync_mode Full = DtoFull"
| "query_sync_mode Incremental = DtoIncremental"
| "query_sync_mode Targeted = DtoTargeted"

fun query_sync_trigger :: "SyncTrigger \<Rightarrow> SyncTriggerDto" where
  "query_sync_trigger Schedule = DtoSchedule"
| "query_sync_trigger User = DtoUser"
| "query_sync_trigger Startup = DtoStartup"
| "query_sync_trigger Recovery = DtoRecovery"

fun query_sync_run_status :: "SyncRunStatus \<Rightarrow> SyncRunStatusDto" where
  "query_sync_run_status RunRunning = DtoRunning"
| "query_sync_run_status RunSucceeded = DtoSucceeded"
| "query_sync_run_status RunPartial = DtoRunPartial"
| "query_sync_run_status RunFailed = DtoFailed"
| "query_sync_run_status RunCancelled = DtoCancelled"
| "query_sync_run_status RunInterrupted = DtoInterrupted"

lemma core_freshness_inverse [simp]: "core_freshness (query_freshness f) = f"
  by (cases f) simp_all

lemma core_resource_health_inverse [simp]: "core_resource_health (query_resource_health h) = h"
  by (cases h) simp_all

section \<open>Resources and relations\<close>

definition resource_dto :: "Resource \<Rightarrow> Freshness \<Rightarrow> ResourceDto" where
  "resource_dto source freshness =
     \<lparr>rd_resource_id = res_id source, rd_connection_id = res_connection_id source, rd_kind = res_kind source,
      rd_display_name = res_display_name source, rd_scope = res_scope source,
      rd_lifecycle = query_lifecycle (res_lifecycle source),
      rd_health = query_resource_health (res_health source), rd_freshness = query_freshness freshness,
      rd_observed_at = format_timestamp (res_last_seen_at source)\<rparr>"

definition resource_dto_from_context :: "QueryContextSnapshot \<Rightarrow> Resource \<Rightarrow> QuerySourceError + ResourceDto" where
  "resource_dto_from_context context source = map_ok (resource_dto source) (source_classify_freshness source context)"

definition projected_relation_dto :: "ProjectedRelation \<Rightarrow> QuerySourceError + RelationDto" where
  "projected_relation_dto projected =
     (let relation = pl_relation projected in
      map_ok (\<lambda>(evidence_type, evidence).
          \<lparr>ld_relation_id = rel_id relation, ld_source_resource_id = rel_source relation,
           ld_target_resource_id = rel_target relation, ld_kind = rel_kind relation,
           ld_lifecycle = query_lifecycle (rel_lifecycle relation), ld_evidence_type = evidence_type,
           ld_evidence = evidence, ld_last_seen_at = format_timestamp (rel_last_seen_at relation)\<rparr>)
        (case rel_evidence relation of
           Provider connection_id sync_run_id field_path \<Rightarrow>
             map_ok (\<lambda>connector_type.
                 (DtoProviderType, DtoProvider connector_type connection_id sync_run_id field_path))
               (ok_or (SourceContract ''provider connector type is missing'') (pl_provider_connector_type projected))
         | Configured binding_id \<Rightarrow>
             map_ok (\<lambda>created_at. (DtoConfiguredType, DtoConfigured binding_id (format_timestamp created_at)))
               (ok_or (SourceContract ''configured relation creation time is missing'')
                 (pl_configured_created_at projected))
         | Inferred rule resource_inputs relation_inputs confidence \<Rightarrow>
             Inr (DtoInferredType, DtoInferred rule resource_inputs relation_inputs confidence)))"

section \<open>Connections and runs\<close>

definition connection_dto :: "ProjectedConnection \<Rightarrow> ConnectionDto" where
  "connection_dto source =
     \<lparr>cd_connection_id = pc_connection_id source, cd_connector_type = pc_connector_type source,
      cd_display_name = pc_display_name source, cd_enabled = pc_enabled source,
      cd_health = query_connector_health (pc_health source),
      cd_last_success_at = map_option format_timestamp (pc_last_success_at source),
      cd_last_attempt_at = map_option format_timestamp (pc_last_attempt_at source)\<rparr>"

definition coverage_gap_reason :: "CoverageGapReason \<Rightarrow> string" where
  "coverage_gap_reason reason =
     (case reason of
        GapPermissionDenied \<Rightarrow> ''permission_denied''
      | GapPaginationIncomplete \<Rightarrow> ''pagination_incomplete''
      | GapRateLimited \<Rightarrow> ''rate_limited''
      | GapProviderUnavailable \<Rightarrow> ''provider_unavailable''
      | GapSchemaIncompatible \<Rightarrow> ''schema_incompatible''
      | GapOther reason \<Rightarrow> reason)"

definition query_sync_coverage :: "SyncCoverage \<Rightarrow> SyncCoverageDto" where
  "query_sync_coverage coverage =
     (case coverage of
        AuthoritativeFull scope \<Rightarrow> DtoAuthoritativeFull scope
      | IncrementalCoverage cursor \<Rightarrow> DtoIncrementalCoverage cursor
      | PartialCoverage scope reason \<Rightarrow> DtoPartialCoverage scope (coverage_gap_reason reason)
      | TargetedCoverage resource_ids \<Rightarrow> DtoTargetedCoverage resource_ids)"

text \<open>The name that the derived \<open>Debug\<close> writes, in snake case.\<close>

fun error_code_debug :: "ErrorCode \<Rightarrow> string" where
  "error_code_debug InvalidDomainValue = ''InvalidDomainValue''"
| "error_code_debug NotFound = ''NotFound''"
| "error_code_debug Conflict = ''Conflict''"
| "error_code_debug AuthenticationFailed = ''AuthenticationFailed''"
| "error_code_debug CredentialUnavailable = ''CredentialUnavailable''"
| "error_code_debug PermissionDenied = ''PermissionDenied''"
| "error_code_debug RateLimited = ''RateLimited''"
| "error_code_debug NetworkUnreachable = ''NetworkUnreachable''"
| "error_code_debug HostKeyMismatch = ''HostKeyMismatch''"
| "error_code_debug ProviderUnavailable = ''ProviderUnavailable''"
| "error_code_debug InvalidResponse = ''InvalidResponse''"
| "error_code_debug SchemaIncompatible = ''SchemaIncompatible''"
| "error_code_debug PartialPagination = ''PartialPagination''"
| "error_code_debug Cancelled = ''Cancelled''"
| "error_code_debug Internal = ''Internal''"

definition domain_error_code_from_error_code :: "ErrorCode \<Rightarrow> string" where
  "domain_error_code_from_error_code code =
     concat (map (\<lambda>(index, character).
         if is_ascii_uppercase character \<and> index \<noteq> 0 then [CHR ''_'', ascii_lower character]
         else [ascii_lower character]) (enumerate 0 (error_code_debug code)))"

fun domain_error_message :: "ErrorCode \<Rightarrow> string" where
  "domain_error_message InvalidDomainValue = ''A synchronized value was invalid.''"
| "domain_error_message NotFound = ''The requested provider object was not found.''"
| "domain_error_message Conflict = ''The provider reported a conflicting state.''"
| "domain_error_message AuthenticationFailed = ''Provider authentication failed.''"
| "domain_error_message CredentialUnavailable = ''The provider credential was unavailable.''"
| "domain_error_message PermissionDenied = ''The provider denied the requested read access.''"
| "domain_error_message RateLimited = ''The provider rate-limited the synchronization.''"
| "domain_error_message NetworkUnreachable = ''The provider network endpoint was unreachable.''"
| "domain_error_message HostKeyMismatch = ''The remote host identity did not match.''"
| "domain_error_message ProviderUnavailable = ''The provider was unavailable.''"
| "domain_error_message InvalidResponse = ''The provider returned an invalid response.''"
| "domain_error_message SchemaIncompatible = ''The provider response schema was incompatible.''"
| "domain_error_message PartialPagination = ''The provider result was only partially paginated.''"
| "domain_error_message Cancelled = ''The synchronization was cancelled.''"
| "domain_error_message Internal = ''The synchronization failed internally.''"

definition sync_run_dto :: "SyncRun \<Rightarrow> SyncRunDto" where
  "sync_run_dto run =
     \<lparr>srd_sync_run_id = run_id run, srd_connection_id = run_connection_id run,
      srd_mode = query_sync_mode (run_mode run), srd_trigger = query_sync_trigger (run_trigger run),
      srd_status = query_sync_run_status (run_status run), srd_coverage = query_sync_coverage (run_coverage run),
      srd_started_at = format_timestamp (run_started_at run),
      srd_finished_at = map_option format_timestamp (run_finished_at run),
      srd_cursor_before = run_cursor_before run, srd_cursor_after = run_cursor_after run,
      srd_counts = \<lparr>scd_read = cnt_read (run_counts run), scd_created = cnt_created (run_counts run),
        scd_updated = cnt_updated (run_counts run), scd_unchanged = cnt_unchanged (run_counts run),
        scd_warnings = cnt_warnings (run_counts run)\<rparr>,
      srd_errors = map (\<lambda>e. \<lparr>sed_code = domain_error_code_from_error_code (err_code e),
        sed_message = domain_error_message (err_code e), sed_retryable = err_retryable e\<rparr>) (run_errors run),
      srd_warnings = map (\<lambda>w. \<lparr>swd_code = domain_error_code_from_error_code (warn_code w),
        swd_message = warn_message w\<rparr>) (run_warnings run)\<rparr>"

definition sync_status_body :: "SyncStatusProjection \<Rightarrow> QuerySchedule option \<Rightarrow> SyncStatusBody" where
  "sync_status_body source schedule =
     \<lparr>ssb_connection = connection_dto (ssp_connection source),
      ssb_recent_runs = map sync_run_dto (ssp_recent_runs source),
      ssb_next_scheduled_at = map_option format_timestamp (Option.bind schedule qsc_next_scheduled_at)\<rparr>"

section \<open>Health\<close>

fun set_resource_health :: "ResourceHealth \<times> nat \<Rightarrow> ResourceHealthCountsDto \<Rightarrow> ResourceHealthCountsDto" where
  "set_resource_health (Healthy, count) c = c\<lparr>rhc_healthy := count\<rparr>"
| "set_resource_health (Degraded, count) c = c\<lparr>rhc_degraded := count\<rparr>"
| "set_resource_health (Unhealthy, count) c = c\<lparr>rhc_unhealthy := count\<rparr>"
| "set_resource_health (Unknown, count) c = c\<lparr>rhc_unknown := count\<rparr>"

fun set_freshness :: "Freshness \<times> nat \<Rightarrow> FreshnessCountsDto \<Rightarrow> FreshnessCountsDto" where
  "set_freshness (Fresh, count) c = c\<lparr>frc_fresh := count\<rparr>"
| "set_freshness (Stale, count) c = c\<lparr>frc_stale := count\<rparr>"
| "set_freshness (Expired, count) c = c\<lparr>frc_expired := count\<rparr>"

fun set_connector_health :: "ConnectorHealth \<times> nat \<Rightarrow> ConnectorHealthCountsDto \<Rightarrow> ConnectorHealthCountsDto" where
  "set_connector_health (ConnectorHealthy, count) c = c\<lparr>chc_healthy := count\<rparr>"
| "set_connector_health (ConnectorDegraded, count) c = c\<lparr>chc_degraded := count\<rparr>"
| "set_connector_health (AuthFailed, count) c = c\<lparr>chc_auth_failed := count\<rparr>"
| "set_connector_health (ConnectorRateLimited, count) c = c\<lparr>chc_rate_limited := count\<rparr>"
| "set_connector_health (Unreachable, count) c = c\<lparr>chc_unreachable := count\<rparr>"
| "set_connector_health (Disabled, count) c = c\<lparr>chc_disabled := count\<rparr>"

definition health_summary_dto :: "HealthProjection \<Rightarrow> HealthSummaryBody" where
  "health_summary_dto source =
     \<lparr>hsb_resource_health = fold set_resource_health (hp_resource_health source)
        \<lparr>rhc_healthy = 0, rhc_degraded = 0, rhc_unhealthy = 0, rhc_unknown = 0\<rparr>,
      hsb_freshness = fold set_freshness (hp_freshness source) \<lparr>frc_fresh = 0, frc_stale = 0, frc_expired = 0\<rparr>,
      hsb_connector_health = fold set_connector_health (hp_connector_health source)
        \<lparr>chc_healthy = 0, chc_degraded = 0, chc_auth_failed = 0, chc_rate_limited = 0, chc_unreachable = 0,
         chc_disabled = 0\<rparr>\<rparr>"

section \<open>Changes and the timeline\<close>

definition change_dto :: "Change \<Rightarrow> ChangeDto" where
  "change_dto change =
     \<lparr>chd_change_id = chg_id change,
      chd_subject = (case chg_subject change of
          ResourceSubject i \<Rightarrow> DtoResourceSubject i
        | RelationSubject i \<Rightarrow> DtoRelationSubject i
        | BindingSubject i \<Rightarrow> DtoBindingSubject i),
      chd_observed_at = format_timestamp (chg_observed_at change),
      chd_fields = map (\<lambda>f. \<lparr>fcd_path = fc_path f, fcd_before = fc_before f, fcd_after = fc_after f\<rparr>) (chg_fields change),
      chd_origin = (case chg_origin change of
          SyncRunOrigin i \<Rightarrow> DtoSyncRunOrigin i
        | BindingOrigin i \<Rightarrow> DtoBindingOrigin i
        | InferenceOrigin rule resource_inputs relation_inputs \<Rightarrow>
            DtoInferenceOrigin rule resource_inputs relation_inputs)\<rparr>"

definition timeline_origin_dto :: "OriginRef \<Rightarrow> TimelineOriginDto" where
  "timeline_origin_dto origin =
     (case origin of
        SyncRunOrigin i \<Rightarrow> TimelineSyncRun i
      | BindingOrigin i \<Rightarrow> TimelineBinding i
      | InferenceOrigin rule resource_inputs relation_inputs \<Rightarrow>
          TimelineInference rule resource_inputs relation_inputs)"

definition timeline_group_id :: "OriginRef \<Rightarrow> Timestamp \<Rightarrow> string" where
  "timeline_group_id origin observed_at =
     ''timeline:'' @
     (case origin of
        SyncRunOrigin i \<Rightarrow> ''sync_run:'' @ i
      | BindingOrigin i \<Rightarrow> ''binding:'' @ i
      | InferenceOrigin rule resource_inputs relation_inputs \<Rightarrow>
          ''inference:'' @ rule @ '':resources='' @ join_byte CHR '','' resource_inputs @
          '':relations='' @ join_byte CHR '','' relation_inputs) @
     '':'' @ show_int observed_at"

definition timeline_version_link_dto :: "TimelineVersionLinkProjection \<Rightarrow> TimelineVersionLinkDto" where
  "timeline_version_link_dto link =
     (case link of
        ResourceLink resource_id version_id \<Rightarrow> ResourceVersionLink resource_id version_id
      | RelationLink relation_id version_id \<Rightarrow> RelationVersionLink relation_id version_id)"

section \<open>Details\<close>

definition resource_detail_body ::
    "ResourceDetailProjection \<Rightarrow> ResourceInclude list \<Rightarrow> QueryContextSnapshot \<Rightarrow> ConnectorType option \<Rightarrow>
     ConnectorCatalogSnapshot \<Rightarrow> QuerySourceError + ResourceDetailBody" where
  "resource_detail_body detail includes context connector_type catalog =
     (if IncludeRelations \<in> set includes \<and> rdp_relations_truncated detail
      then Inl (SourceContract ''resource relation projection was truncated'')
      else if IncludeRecentChanges \<in> set includes \<and> rdp_recent_changes_truncated detail
      then Inl (SourceContract ''resource change projection was truncated'')
      else
        res_bind (resource_dto_from_context context (rdp_resource detail)) (\<lambda>resource.
        res_bind (if IncludeRelations \<in> set includes
                  then res_map projected_relation_dto (rdp_relations detail) else Inr []) (\<lambda>relations.
          Inr \<lparr>rdb_resource = resource,
               rdb_attributes = (if IncludeAttributes \<in> set includes then res_attributes (rdp_resource detail) else JNull),
               rdb_relations = relations,
               rdb_recent_changes = (if IncludeRecentChanges \<in> set includes
                 then map change_dto (rdp_recent_changes detail) else []),
               rdb_connector_coverage = (if IncludeConnectorCoverage \<in> set includes
                 then catalog_coverage catalog connector_type else [])\<rparr>)))"

end
