(* ===== verification/Query_Topology.thy ===== *)
theory Query_Topology
  imports Query_Mapping
begin

text \<open>
  \<open>build_topology\<close> of \<open>query_source.rs\<close>: a breadth-first search from the focus along the relations of
  both directions, bounded by a depth, a number of nodes and a number of edges. The loop over the levels
  recurses on the levels that are left, at most the depth of the plan.
\<close>

section \<open>Texts of errors\<close>

definition store_error_text :: "StoreError \<Rightarrow> string" where
  "store_error_text e =
     (case e of
        StoreIo error \<Rightarrow> ''store I/O error: '' @ error
      | Sqlite error \<Rightarrow> ''store SQLite error: '' @ error
      | Integrity result \<Rightarrow> ''store integrity check failed: '' @ result
      | UnsupportedSchema found supported \<Rightarrow> ''store schema version '' @ show_nat found @
          '' is newer than supported version '' @ show_nat supported
      | UnsafePath message \<Rightarrow> ''unsafe store path: '' @ message
      | Contract message \<Rightarrow> ''store contract error: '' @ message
      | StoreJson error \<Rightarrow> ''store JSON error: '' @ error)"

definition context_error_text :: "QueryContextError \<Rightarrow> string" where
  "context_error_text e =
     (case e of
        ContextInvalidInterval \<Rightarrow> ''query schedule interval is invalid''
      | RevisionMustIncrease \<Rightarrow> ''query context revision must increase'')"

definition source_error_text :: "QuerySourceError \<Rightarrow> string" where
  "source_error_text e =
     (case e of
        SourceStore error \<Rightarrow> ''store query failed: '' @ store_error_text error
      | SourceContext error \<Rightarrow> ''query context failed: '' @ context_error_text error
      | SourceContract message \<Rightarrow> message)"

section \<open>The search\<close>

record TopologySearch =
  ts_visited :: "ResourceId list"
  ts_frontier_ids :: "ResourceId list"
  ts_edges :: "(string, ProjectedRelation) btree_map"
  ts_frontier :: "(string \<times> 8 word) list"
  ts_truncated :: bool

definition frontier_direction_key :: "FrontierDirectionDto \<Rightarrow> 8 word" where
  "frontier_direction_key direction = (case direction of Incoming \<Rightarrow> 0 | Outgoing \<Rightarrow> 1)"

definition frontier_direction :: "8 word \<Rightarrow> FrontierDirectionDto" where
  "frontier_direction value = (if value = 0 then Incoming else Outgoing)"

definition add_frontier_for_relation ::
    "(string \<times> 8 word) list \<Rightarrow> Relation \<Rightarrow> ResourceId list \<Rightarrow> (string \<times> 8 word) list" where
  "add_frontier_for_relation frontier relation visited =
     (if rel_source relation \<in> set visited \<and> rel_target relation \<notin> set visited
      then bs_insert (rel_target relation, frontier_direction_key Outgoing) frontier
      else if rel_target relation \<in> set visited \<and> rel_source relation \<notin> set visited
      then bs_insert (rel_source relation, frontier_direction_key Incoming) frontier
      else frontier)"

text \<open>The end of a relation that is not in the frontier of the level, and the direction to it.\<close>

definition relation_neighbor :: "ResourceId list \<Rightarrow> Relation \<Rightarrow> (ResourceId \<times> FrontierDirectionDto) option" where
  "relation_neighbor frontier_ids relation =
     (if rel_source relation \<in> set frontier_ids then Some (rel_target relation, Outgoing)
      else if rel_target relation \<in> set frontier_ids then Some (rel_source relation, Incoming)
      else None)"

text \<open>The body of the loop over the relations of a level; the second component is the next frontier.\<close>

definition topology_relation ::
    "TopologyPlan \<Rightarrow> ProjectedRelation \<Rightarrow> TopologySearch \<times> ResourceId list \<Rightarrow> TopologySearch \<times> ResourceId list" where
  "topology_relation plan projected state =
     (case state of (s, next_frontier) \<Rightarrow>
      let relation = pl_relation projected; relation_id = rel_id relation in
      if has_key (ts_edges s) relation_id then (s, next_frontier)
      else
        (case relation_neighbor (ts_frontier_ids s) relation of
           None \<Rightarrow> (s, next_frontier)
         | Some (neighbor, direction) \<Rightarrow>
             let neighbor_is_visited = neighbor \<in> set (ts_visited s) in
             if \<not> neighbor_is_visited \<and> tpl_max_nodes plan \<le> length (ts_visited s)
             then (s\<lparr>ts_truncated := True,
                     ts_frontier := bs_insert (neighbor, frontier_direction_key direction) (ts_frontier s)\<rparr>,
                   next_frontier)
             else if tpl_max_edges plan \<le> length (ts_edges s)
             then (s\<lparr>ts_truncated := True,
                     ts_frontier := add_frontier_for_relation (ts_frontier s) relation (ts_visited s)\<rparr>,
                   next_frontier)
             else
               let s = s\<lparr>ts_edges := bt_insert relation_id projected (ts_edges s)\<rparr> in
               if neighbor_is_visited then (s, next_frontier)
               else (s\<lparr>ts_visited := bs_insert neighbor (ts_visited s)\<rparr>, bs_insert neighbor next_frontier)))"

text \<open>
  One level: the relations at the frontier, at most one more than the edges that are left, and the
  loop over them. \<open>None\<close> is the \<open>break\<close>.
\<close>

definition topology_level ::
    "Database \<Rightarrow> TopologyPlan \<Rightarrow> ProjectionMetadata \<Rightarrow> TopologySearch \<Rightarrow>
     QuerySourceError + TopologySearch" where
  "topology_level db plan metadata s =
     res_bind (map_err SourceStore (query_relations_for_resources db (ts_frontier_ids s)
         (tpl_max_edges plan - length (ts_edges s) + 1) None)) (\<lambda>projection.
     if ps_metadata projection \<noteq> metadata
     then Inl (SourceContract ''topology projections changed during query'')
     else
       let s = s\<lparr>ts_truncated := ts_truncated s \<or> pp_next_after (ps_body projection) \<noteq> None\<rparr> in
       case fold (topology_relation plan) (pp_items (ps_body projection)) (s, []) of
         (s, next_frontier) \<Rightarrow> Inr (s\<lparr>ts_frontier_ids := next_frontier\<rparr>))"

fun topology_levels ::
    "nat \<Rightarrow> Database \<Rightarrow> TopologyPlan \<Rightarrow> ProjectionMetadata \<Rightarrow> TopologySearch \<Rightarrow>
     QuerySourceError + TopologySearch" where
  "topology_levels 0 db plan metadata s = Inr s"
| "topology_levels (Suc levels) db plan metadata s =
     (if ts_frontier_ids s = [] then Inr s
      else if tpl_max_edges plan - length (ts_edges s) = 0 then Inr (s\<lparr>ts_truncated := True\<rparr>)
      else res_bind (topology_level db plan metadata s) (topology_levels levels db plan metadata))"

definition topology_start :: "ResourceId \<Rightarrow> TopologySearch" where
  "topology_start focus_id =
     \<lparr>ts_visited = [focus_id], ts_frontier_ids = [focus_id], ts_edges = [], ts_frontier = [],
      ts_truncated = False\<rparr>"

definition topology_body ::
    "Database \<Rightarrow> ProjectionMetadata \<Rightarrow> QueryContextSnapshot \<Rightarrow> TopologySearch \<Rightarrow> QuerySourceError + TopologyBody" where
  "topology_body db metadata context s =
     res_bind (map_err SourceStore (query_resources_by_ids db (ts_visited s))) (\<lambda>resources.
     if ps_metadata resources \<noteq> metadata
     then Inl (SourceContract ''topology projections changed during query'')
     else
       res_bind (res_map (resource_dto_from_context context) (ps_body resources)) (\<lambda>nodes.
       res_bind (res_map projected_relation_dto (bt_values (ts_edges s))) (\<lambda>edges.
         Inr \<lparr>tb_nodes = nodes, tb_edges = edges,
              tb_frontier = map (\<lambda>(resource_id, direction).
                \<lparr>tfd_resource_id = resource_id, tfd_direction = frontier_direction direction\<rparr>) (ts_frontier s),
              tb_truncated = ts_truncated s\<rparr>)))"

definition build_topology ::
    "Database \<Rightarrow> ResourceId \<Rightarrow> TopologyPlan \<Rightarrow> QueryContextSnapshot \<Rightarrow>
     QuerySourceError + ProjectionMetadata \<times> TopologyBody option" where
  "build_topology db focus_id plan context =
     res_bind (map_err SourceStore (query_resources_by_ids db [focus_id])) (\<lambda>focus_projection.
     let metadata = ps_metadata focus_projection in
     if ps_body focus_projection = [] then Inr (metadata, None)
     else
       res_bind (topology_levels (unat (tpl_depth plan)) db plan metadata (topology_start focus_id)) (\<lambda>s.
       res_bind (topology_body db metadata context s) (\<lambda>body. Inr (metadata, Some body))))"

end
