(* ===== verification/Query_Source.thy ===== *)
theory Query_Source
  imports Query_Topology
begin

text \<open>
  \<open>CommittedQuerySource\<close> of \<open>query_source.rs\<close>: the query source over the committed rows of the store. An
  operation takes one snapshot of the context and reads the store through the shared handle, so
  it is a function of one database, the catalog and one context.
\<close>

record CommittedQuerySource =
  cqs_store :: Database
  cqs_catalog :: ConnectorCatalogSnapshot
  cqs_context :: QueryContextSnapshot

definition resource_id_new :: "string \<Rightarrow> QuerySourceError + ResourceId" where
  "resource_id_new value = map_err (\<lambda>e. SourceContract (err_message e)) (string_value_new ''ResourceId'' value)"

definition connection_id_new :: "string \<Rightarrow> QuerySourceError + ConnectionId" where
  "connection_id_new value = map_err (\<lambda>e. SourceContract (err_message e)) (string_value_new ''ConnectionId'' value)"

text \<open>What every operation returns: the body with the metadata of the projection it was read with.\<close>

definition source_snapshot :: "CommittedQuerySource \<Rightarrow> ProjectionMetadata \<Rightarrow> 'a \<Rightarrow> 'a SourceSnapshot" where
  "source_snapshot source projection body =
     \<lparr>ss_metadata = query_metadata (cqs_catalog source) projection (cqs_context source), ss_body = body\<rparr>"

definition resource_projection_plan :: "ResourceSearchPlan \<Rightarrow> Cutoffs \<Rightarrow> ResourceProjectionPlan" where
  "resource_projection_plan plan cutoffs =
     \<lparr>rpp_query = spl_query plan, rpp_kinds = spl_kinds plan, rpp_connector_types = spl_connector_types plan,
      rpp_health = map core_resource_health (spl_health plan),
      rpp_freshness = map core_freshness (spl_freshness plan), rpp_labels = spl_labels plan,
      rpp_cutoffs = cutoffs, rpp_limit = spl_limit plan, rpp_after = spl_after plan\<rparr>"

definition source_search_resources ::
    "(string \<Rightarrow> string) \<Rightarrow> CommittedQuerySource \<Rightarrow> ResourceSearchPlan \<Rightarrow>
     QuerySourceError + ResourceDto SourcePage SourceSnapshot" where
  "source_search_resources to_lowercase source plan =
     res_bind (map_err SourceStore (query_resources to_lowercase (cqs_store source)
         (resource_projection_plan plan (query_cutoffs (cqs_context source))))) (\<lambda>projection.
       Inr (source_snapshot source (ps_metadata projection)
         \<lparr>sp_items = map (\<lambda>item. resource_dto (pr_resource item) (pr_freshness item)) (pp_items (ps_body projection)),
          sp_next_after = pp_next_after (ps_body projection)\<rparr>))"

definition source_get_resource ::
    "CommittedQuerySource \<Rightarrow> string \<Rightarrow> ResourceInclude list \<Rightarrow>
     QuerySourceError + ResourceDetailBody option SourceSnapshot" where
  "source_get_resource source resource_id includes =
     res_bind (resource_id_new resource_id) (\<lambda>id.
     res_bind (map_err SourceStore (query_resource_detail (cqs_store source) id)) (\<lambda>projection.
     res_bind (case ps_body projection of
         None \<Rightarrow> Inr None
       | Some detail \<Rightarrow> map_err SourceStore (map_ok (map_option conn_type)
           (get_connection (cqs_store source) (res_connection_id (rdp_resource detail))))) (\<lambda>connector_type.
     res_bind (case ps_body projection of
         None \<Rightarrow> Inr None
       | Some detail \<Rightarrow> map_ok Some (resource_detail_body detail includes (cqs_context source) connector_type
           (cqs_catalog source))) (\<lambda>body.
       Inr (source_snapshot source (ps_metadata projection) body)))))"

definition source_get_topology ::
    "CommittedQuerySource \<Rightarrow> TopologyPlan \<Rightarrow> QuerySourceError + TopologyBody option SourceSnapshot" where
  "source_get_topology source plan =
     (if tpl_depth plan = 0 \<or> tpl_max_nodes plan = 0 \<or> tpl_max_edges plan = 0
      then Inl (SourceContract ''topology bounds must be positive'')
      else
        res_bind (resource_id_new (tpl_focus_resource_id plan)) (\<lambda>focus_id.
        res_bind (map_err (\<lambda>e. SourceStore (Contract (source_error_text e)))
            (build_topology (cqs_store source) focus_id plan (cqs_context source))) (\<lambda>(projection, body).
          Inr (source_snapshot source projection body))))"

definition source_relations_for_resources ::
    "CommittedQuerySource \<Rightarrow> string list \<Rightarrow> nat \<Rightarrow> string option \<Rightarrow>
     QuerySourceError + RelationDto SourcePage SourceSnapshot" where
  "source_relations_for_resources source resource_ids limit after =
     res_bind (res_map resource_id_new resource_ids) (\<lambda>ids.
     res_bind (map_err SourceStore (query_relations_within_resources (cqs_store source) (bs_of_list ids) limit after))
       (\<lambda>projection.
     res_bind (res_map projected_relation_dto (pp_items (ps_body projection))) (\<lambda>items.
       Inr (source_snapshot source (ps_metadata projection)
         \<lparr>sp_items = items, sp_next_after = pp_next_after (ps_body projection)\<rparr>))))"

definition source_get_health_summary ::
    "CommittedQuerySource \<Rightarrow> QuerySourceError + HealthSummaryBody SourceSnapshot" where
  "source_get_health_summary source =
     res_bind (map_err SourceStore (query_health_summary (cqs_store source) (query_cutoffs (cqs_context source))))
       (\<lambda>projection.
       Inr (source_snapshot source (ps_metadata projection) (health_summary_dto (ps_body projection))))"

definition source_list_connections ::
    "CommittedQuerySource \<Rightarrow> QuerySourceError + ConnectionDto list SourceSnapshot" where
  "source_list_connections source =
     res_bind (map_err SourceStore (query_connections (cqs_store source))) (\<lambda>projection.
       Inr (source_snapshot source (ps_metadata projection) (map connection_dto (ps_body projection))))"

definition source_get_recent_changes ::
    "CommittedQuerySource \<Rightarrow> RecentChangesPlan \<Rightarrow> QuerySourceError + ChangeDto SourcePage SourceSnapshot" where
  "source_get_recent_changes source plan =
     res_bind (case cpl_since plan of None \<Rightarrow> Inr None | Some v \<Rightarrow> map_ok Some (parse_timestamp v)) (\<lambda>since_millis.
     res_bind (case cpl_resource_id plan of None \<Rightarrow> Inr None | Some v \<Rightarrow> map_ok Some (resource_id_new v)) (\<lambda>resource_id.
     res_bind (map_err SourceStore (query_recent_changes (cqs_store source)
         \<lparr>rcp_since_millis = since_millis, rcp_resource_id = resource_id, rcp_kinds = cpl_kinds plan,
          rcp_limit = cpl_limit plan, rcp_after = cpl_after plan\<rparr>)) (\<lambda>projection.
       Inr (source_snapshot source (ps_metadata projection)
         \<lparr>sp_items = map change_dto (pp_items (ps_body projection)),
          sp_next_after = pp_next_after (ps_body projection)\<rparr>))))"

text \<open>The loop of \<open>get_timeline\<close>: an item joins the last group when it has the same identifier.\<close>

definition timeline_item_dto :: "TimelineProjectionItem \<Rightarrow> TimelineItemDto" where
  "timeline_item_dto item =
     \<lparr>tid_change = change_dto (tpi_change item),
      tid_version_links = map timeline_version_link_dto (tpi_version_links item)\<rparr>"

definition push_timeline_item :: "TimelineProjectionItem \<Rightarrow> TimelineGroupDto list \<Rightarrow> TimelineGroupDto list" where
  "push_timeline_item item groups =
     (let change = tpi_change item;
          group_id = timeline_group_id (chg_origin change) (chg_observed_at change) in
      if groups \<noteq> [] \<and> tgd_group_id (last groups) = group_id
      then butlast groups @
        [(last groups)\<lparr>tgd_items := tgd_items (last groups) @ [timeline_item_dto item]\<rparr>]
      else groups @
        [\<lparr>tgd_group_id = group_id, tgd_origin = timeline_origin_dto (chg_origin change),
          tgd_occurred_at = format_timestamp (chg_observed_at change), tgd_items = [timeline_item_dto item]\<rparr>])"

definition source_get_timeline ::
    "CommittedQuerySource \<Rightarrow> TimelinePlan \<Rightarrow> QuerySourceError + TimelineSourcePage SourceSnapshot" where
  "source_get_timeline source plan =
     res_bind (map_err SourceStore (query_timeline (cqs_store source) (mpl_limit plan) (mpl_after plan))) (\<lambda>projection.
     let groups = fold push_timeline_item (pp_items (ps_body projection)) [] in
       Inr (source_snapshot source (ps_metadata projection)
         \<lparr>tsp_groups = groups, tsp_item_count = sum_list (map (\<lambda>group. length (tgd_items group)) groups),
          tsp_next_after = pp_next_after (ps_body projection)\<rparr>))"

definition source_get_sync_status ::
    "CommittedQuerySource \<Rightarrow> string \<Rightarrow> nat \<Rightarrow> QuerySourceError + SyncStatusBody option SourceSnapshot" where
  "source_get_sync_status source connection_id recent_run_limit =
     res_bind (connection_id_new connection_id) (\<lambda>id.
     res_bind (map_err SourceStore (query_sync_status (cqs_store source) id recent_run_limit)) (\<lambda>projection.
     res_bind (case ps_body projection of
         None \<Rightarrow> Inr None
       | Some _ \<Rightarrow> map_ok Some (ok_or (SourceContract ''query schedule is missing'')
           (context_schedule (cqs_context source) id))) (\<lambda>schedule.
       Inr (source_snapshot source (ps_metadata projection)
         (map_option (\<lambda>status. sync_status_body status schedule) (ps_body projection))))))"

definition source_list_connector_coverage ::
    "CommittedQuerySource \<Rightarrow> QuerySourceError + ConnectorCoverageDto list SourceSnapshot" where
  "source_list_connector_coverage source =
     res_bind (map_err SourceStore (query_connections (cqs_store source))) (\<lambda>projection.
       Inr (source_snapshot source (ps_metadata projection) (catalog_coverage (cqs_catalog source) None)))"

definition committed_source :: "(string \<Rightarrow> string) \<Rightarrow> CommittedQuerySource \<Rightarrow> QuerySourceError QuerySource" where
  "committed_source to_lowercase source =
     \<lparr>qs_search_resources = source_search_resources to_lowercase source,
      qs_get_resource = source_get_resource source,
      qs_get_topology = source_get_topology source,
      qs_relations_for_resources = source_relations_for_resources source,
      qs_get_health_summary = source_get_health_summary source,
      qs_list_connections = source_list_connections source,
      qs_get_recent_changes = source_get_recent_changes source,
      qs_get_sync_status = source_get_sync_status source,
      qs_get_timeline = source_get_timeline source,
      qs_list_connector_coverage = source_list_connector_coverage source\<rparr>"

end
