(* ===== verification/Query_Pages.thy ===== *)
theory Query_Pages
  imports Query_Source Store_Facts
begin

text \<open>
  Following the cursors of a paged query. A page holds the rows beyond its cursor up to the limit and, when
  there are more, the cursor of its last row. The locale states what a paged query promises for its
  rows in order; whoever follows the cursors of such a query gets every row once and in order. It is
  interpreted on the resource search and on the recent changes of the query service.
\<close>

section \<open>Pages of a list\<close>

lemma res_map_map_ok: "res_map (\<lambda>r. map_ok g (f r)) rows = map_ok (map g) (res_map f rows)"
  by (induction rows) (auto simp: res_bind_def map_ok_def split: sum.splits)

lemma res_map_map_err: "res_map (\<lambda>r. map_err g (f r)) rows = map_err g (res_map f rows)"
  by (induction rows) (auto simp: res_bind_def map_err_def split: sum.splits)

lemma res_map_take: "res_map f xs = Inr ys \<Longrightarrow> res_map f (take n xs) = Inr (take n ys)"
  by (simp add: res_map_eq_Inr list_all2_takeI)

lemma res_map_drop: "res_map f xs = Inr ys \<Longrightarrow> res_map f (drop n xs) = Inr (drop n ys)"
  by (simp add: res_map_eq_Inr list_all2_dropI)

lemma res_map_nth: "res_map f xs = Inr ys \<Longrightarrow> i < length xs \<Longrightarrow> f (xs ! i) = Inr (ys ! i)"
  using list_all2_nthD[of "\<lambda>x y. f x = Inr y" xs ys i] by (simp add: res_map_eq_Inr)

text \<open>What a page is, in terms of the rows that it is read from.\<close>

lemma projection_page_rows:
  assumes "0 < limit" and "res_map read (take (limit + 1) rows) = Inr items"
    and "\<And>row item. read row = Inr item \<Longrightarrow> cursor item = row_cursor row"
  shows "projection_page cursor limit items =
    \<lparr>pp_items = take limit items,
     pp_next_after = (if limit < length rows then Some (row_cursor (rows ! (limit - 1))) else None)\<rparr>"
proof (cases "limit < length rows")
  case True
  then have len: "length items = limit + 1" using res_map_length[OF assms(2)] by simp
  then have ne: "butlast items \<noteq> []" using assms(1) by (cases items rule: rev_cases) auto
  have "last (butlast items) = items ! (limit - 1)"
    using last_conv_nth[OF ne] len assms(1) by (simp add: nth_butlast)
  moreover have "read (rows ! (limit - 1)) = Inr (items ! (limit - 1))"
    using res_map_nth[OF assms(2), of "limit - 1"] True assms(1) by simp
  moreover have "butlast items = take limit items" using len by (simp add: butlast_conv_take)
  ultimately show ?thesis using True len ne by (simp add: projection_page_def Let_def assms(3))
next
  case False
  then have "length items \<le> limit" using res_map_length[OF assms(2)] by simp
  then show ?thesis using False by (simp add: projection_page_def)
qed

section \<open>Following the cursors\<close>

text \<open>A client that asks for page after page, at most \<open>n\<close> of them.\<close>

fun collect_pages :: "nat \<Rightarrow> ('c option \<Rightarrow> 'e + 'a list \<times> 'c option) \<Rightarrow> 'c option \<Rightarrow> 'e + 'a list" where
  "collect_pages 0 fetch cursor = Inr []"
| "collect_pages (Suc n) fetch cursor =
     res_bind (fetch cursor) (\<lambda>(items, next_cursor).
       case next_cursor of
         None \<Rightarrow> Inr items
       | Some c \<Rightarrow> map_ok (\<lambda>rest. items @ rest) (collect_pages n fetch (Some c)))"

definition page_of_rows :: "('r \<Rightarrow> 'e + 'a) \<Rightarrow> ('r \<Rightarrow> 'c) \<Rightarrow> nat \<Rightarrow> 'r list \<Rightarrow> 'e + 'a list \<times> 'c option" where
  "page_of_rows read cursor limit rows =
     map_ok (\<lambda>items. (take limit items, if limit < length rows then Some (cursor (rows ! (limit - 1))) else None))
       (res_map read (take (limit + 1) rows))"

lemma page_of_rows_ok:
  assumes "res_map read rows = Inr items"
  shows "page_of_rows read cursor limit rows =
    Inr (take limit items, if limit < length rows then Some (cursor (rows ! (limit - 1))) else None)"
  unfolding page_of_rows_def res_map_take[OF assms] by simp

text \<open>
  The promise of a paged query, for every state \<open>s\<close> that is \<open>ready\<close>: the first page is one of all rows, the
  page after the cursor of a row is one of the rows beyond it.
\<close>

locale paged_query =
  fixes ready :: "'s \<Rightarrow> bool"
    and rows :: "'s \<Rightarrow> 'r list"
    and read :: "'s \<Rightarrow> 'r \<Rightarrow> 'e + 'a"
    and cursor :: "'r \<Rightarrow> 'c"
    and limit :: "'s \<Rightarrow> nat"
    and fetch :: "'s \<Rightarrow> 'c option \<Rightarrow> 'e + 'a list \<times> 'c option"
  assumes positive: "ready s \<Longrightarrow> 0 < limit s"
    and first_page: "ready s \<Longrightarrow> fetch s None = page_of_rows (read s) cursor (limit s) (rows s)"
    and page_after: "ready s \<Longrightarrow> i < length (rows s) \<Longrightarrow>
      fetch s (Some (cursor (rows s ! i))) = page_of_rows (read s) cursor (limit s) (drop (Suc i) (rows s))"
begin

lemma collect_from:
  assumes "ready s" and "res_map (read s) (rows s) = Inr items" and "k \<le> length items"
    and "fetch s c = page_of_rows (read s) cursor (limit s) (drop k (rows s))"
    and "length items - k < n * limit s"
  shows "collect_pages n (fetch s) c = Inr (drop k items)"
  using assms(3-5)
proof (induction n arbitrary: k c)
  case 0
  then show ?case by simp
next
  case (Suc n)
  note pos = positive[OF assms(1)]
  have len: "length (rows s) = length items" using res_map_length[OF assms(2)] by simp
  have page: "fetch s c = Inr (take (limit s) (drop k items),
      if limit s < length items - k then Some (cursor (rows s ! (k + limit s - 1))) else None)"
    using page_of_rows_ok[OF res_map_drop[OF assms(2)], of cursor "limit s" k] Suc.prems(1,2) pos len
    by simp
  show ?case
  proof (cases "limit s < length items - k")
    case False
    then show ?thesis using page by simp
  next
    case True
    define j where "j = k + limit s - 1"
    have j: "Suc j = k + limit s" "j < length (rows s)" using True pos Suc.prems(1) len by (auto simp: j_def)
    from page_after[OF assms(1) j(2)]
    have "fetch s (Some (cursor (rows s ! j))) = page_of_rows (read s) cursor (limit s) (drop (k + limit s) (rows s))"
      by (simp add: j(1))
    moreover have "length items - (k + limit s) < n * limit s" using Suc.prems(3) True by simp
    ultimately have "collect_pages n (fetch s) (Some (cursor (rows s ! j))) = Inr (drop (k + limit s) items)"
      using True by (intro Suc.IH) simp_all
    then show ?thesis
      using True page append_take_drop_id[of "limit s" "drop k items"] by (simp add: j_def add.commute)
  qed
qed

lemma collect_all:
  assumes "ready s" and "res_map (read s) (rows s) = Inr items" and "length items < n * limit s"
  shows "collect_pages n (fetch s) None = Inr items"
  using collect_from[OF assms(1,2), of 0 None n] first_page[OF assms(1)] assms(3) by simp

end

text \<open>Rows in the strict order of a key: those beyond the key of the \<open>i\<close>th are those after it.\<close>

lemma filter_beyond:
  assumes "sorted_wrt (\<lambda>x y. before (key x) (key y)) rows" and "i < length rows"
    and "\<And>x. \<not> before x x" and "\<And>x y. before x y \<Longrightarrow> \<not> before y x"
  shows "filter (\<lambda>r. before (key (rows ! i)) (key r)) rows = drop (Suc i) rows"
  using assms(1,2)
proof (induction rows arbitrary: i)
  case Nil
  then show ?case by simp
next
  case (Cons r rows)
  show ?case
  proof (cases i)
    case 0
    with Cons.prems(1) assms(3) show ?thesis by (simp add: filter_id_conv)
  next
    case (Suc j)
    have "before (key r) (key (rows ! j))" using Cons.prems Suc by simp
    then have "\<not> before (key (rows ! j)) (key r)" by (rule assms(4))
    with Cons Suc show ?thesis by simp
  qed
qed

lemma table_sorted:
  assumes "table_ok key m"
  shows "sorted_wrt (\<lambda>x y. key x < key y) (bt_values m)"
proof -
  have "map (key \<circ> snd) m = map fst m"
    using assms by (auto simp: table_ok_def bt_mem_iff)
  moreover have "sorted_wrt (<) (map fst m)" using assms by (simp add: table_ok_def bt_wf_def)
  ultimately show ?thesis by (metis bt_values_def list.map_comp sorted_wrt_map)
qed

end
