(* ===== verification/Query_Search.thy ===== *)
theory Query_Search
  imports Query_Pages
begin

text \<open>
  The query service over the committed source, from the request of a client down to the rows of the store:
  the resource search and the recent changes keep the promise of a paged query.
\<close>

section \<open>What a query needs\<close>

text \<open>The metadata row that every query reads first.\<close>

definition metadata_ok :: "Database \<Rightarrow> bool" where
  "metadata_ok db \<longleftrightarrow> (case db_projection db of None \<Rightarrow> False | Some p \<Rightarrow> 0 \<le> pm_committed_revision p)"

lemma with_projection_snapshot_ok:
  assumes "metadata_ok db"
  shows "with_projection_snapshot db f =
    map_ok (\<lambda>body. \<lparr>ps_metadata = the (db_projection db), ps_body = body\<rparr>) (f db)"
  using assms
  by (cases "f db") (auto simp: with_projection_snapshot_def read_projection_metadata_def metadata_ok_def
      split: option.splits)

text \<open>A position that the service can hand out and take back as a cursor.\<close>

definition cursor_ok :: "string \<Rightarrow> bool" where
  "cursor_ok v \<longleftrightarrow> v \<noteq> [] \<and> length v \<le> 507 \<and> \<not> has_control v"

lemma decode_encode_cursor: "cursor_ok v \<Longrightarrow> decode_cursor (Some (encode_cursor v)) = Inr (Some v)"
  by (auto simp: cursor_ok_def decode_cursor_def encode_cursor_def starts_with_def CURSOR_PREFIX_def
      MAX_CURSOR_LENGTH_def)

section \<open>Resource search\<close>

type_synonym Search = "(string \<Rightarrow> string) \<times> CommittedQuerySource \<times> SearchResourcesRequest"

definition option_or :: "'a \<Rightarrow> 'a option \<Rightarrow> 'a" where
  "option_or dflt value = (case value of None \<Rightarrow> dflt | Some v \<Rightarrow> v)"

fun search_limit :: "Search \<Rightarrow> nat" where
  "search_limit (to_lowercase, source, request) = option_or DEFAULT_RESOURCE_LIMIT (srq_limit request)"

definition search_plan :: "CommittedQuerySource \<Rightarrow> SearchResourcesRequest \<Rightarrow> string option \<Rightarrow> ResourceProjectionPlan" where
  "search_plan source request query =
     resource_projection_plan
       \<lparr>spl_query = query, spl_kinds = srq_kinds request, spl_connector_types = srq_connector_types request,
        spl_health = srq_health request, spl_freshness = srq_freshness request,
        spl_labels = srq_labels request, spl_limit = 1, spl_after = None\<rparr> (query_cutoffs (cqs_context source))"

text \<open>The rows that match the request, in the order of their identifiers.\<close>

fun search_rows :: "Search \<Rightarrow> Resource list" where
  "search_rows (to_lowercase, source, request) =
     (case clean_optional_text (srq_query request) ''query'' of
        Inl _ \<Rightarrow> []
      | Inr query \<Rightarrow>
          filter (resource_matches to_lowercase (cqs_store source) (search_plan source request query))
            (bt_values (db_resources (cqs_store source))))"

fun search_read :: "Search \<Rightarrow> Resource \<Rightarrow> ErrorEnvelope + ResourceDto" where
  "search_read (to_lowercase, source, request) row =
     map_err (\<lambda>_. source_error)
       (map_ok (\<lambda>item. resource_dto (pr_resource item) (pr_freshness item))
         (read_resource_row (cqs_store source) (query_cutoffs (cqs_context source)) row))"

fun search_fetch :: "Search \<Rightarrow> string option \<Rightarrow> ErrorEnvelope + ResourceDto list \<times> string option" where
  "search_fetch (to_lowercase, source, request) cursor =
     map_ok (\<lambda>page. (rpd_items page, pi_next_cursor (rpd_page_info page)))
       (search_resources (committed_source to_lowercase source) (request\<lparr>srq_cursor := cursor\<rparr>))"

text \<open>
  A search that is in order: the tables are sorted by their keys, the limit and the text of the request are
  valid, there is a cutoff for every resource, and the identifiers of the matching rows fit into a
  cursor.
\<close>

fun search_ready :: "Search \<Rightarrow> bool" where
  "search_ready (to_lowercase, source, request) \<longleftrightarrow>
     table_ok res_id (db_resources (cqs_store source)) \<and> metadata_ok (cqs_store source) \<and>
     is_ok (bounded_limit (srq_limit request) DEFAULT_RESOURCE_LIMIT MAX_RESOURCE_LIMIT) \<and>
     is_ok (clean_optional_text (srq_query request) ''query'') \<and>
     is_ok (validate_cutoffs (cqs_store source) (query_cutoffs (cqs_context source))) \<and>
     \<not> (has_freshness_filter (map core_freshness (srq_freshness request)) \<and>
        query_cutoffs (cqs_context source) = []) \<and>
     list_all (\<lambda>r. cursor_ok (res_id r)) (search_rows (to_lowercase, source, request))"

lemma read_resource_row_id:
  assumes "read_resource_row db cutoffs row = Inr item"
  shows "res_id (pr_resource item) = res_id row"
  using assms
  by (auto simp: read_resource_row_def read_resource_def res_simps split: option.splits if_splits)

lemma search_fetch_page:
  assumes "search_ready s" and "decode_cursor c = Inr after"
  shows "search_fetch s c = page_of_rows (search_read s) (encode_cursor \<circ> res_id) (search_limit s)
    (filter (\<lambda>r. after_key after (res_id r)) (search_rows s))"
proof -
  obtain to_lowercase source request where s: "s = (to_lowercase, source, request)" by (cases s)
  define db where "db = cqs_store source"
  define cutoffs where "cutoffs = query_cutoffs (cqs_context source)"
  define limit where "limit = search_limit s"
  from assms(1) obtain query where
    ok: "metadata_ok db" "clean_optional_text (srq_query request) ''query'' = Inr query"
      "validate_cutoffs db cutoffs = Inr ()"
      "\<not> (has_freshness_filter (map core_freshness (srq_freshness request)) \<and> cutoffs = [])"
      "bounded_limit (srq_limit request) DEFAULT_RESOURCE_LIMIT MAX_RESOURCE_LIMIT = Inr limit"
    by (auto simp: s is_ok_iff db_def cutoffs_def limit_def option_or_def bounded_limit_iff)
  define plan where "plan = resource_projection_plan
      \<lparr>spl_query = query, spl_kinds = srq_kinds request, spl_connector_types = srq_connector_types request,
       spl_health = srq_health request, spl_freshness = srq_freshness request,
       spl_labels = srq_labels request, spl_limit = limit, spl_after = after\<rparr> cutoffs"
  have plan_fields: "rpp_limit plan = limit" "rpp_after plan = after" "rpp_cutoffs plan = cutoffs"
    "rpp_freshness plan = map core_freshness (srq_freshness request)"
    by (simp_all add: plan_def resource_projection_plan_def)
  have limit: "0 < limit" "limit \<le> 100" using ok(5) by (simp_all add: bounded_limit_iff limit_defs)
  then have valid: "validate_limit limit = Inr ()"
    by (simp add: validate_limit_def MAX_PROJECTION_PAGE_LIMIT_def)
  have matches: "resource_matches to_lowercase db plan =
      resource_matches to_lowercase db (search_plan source request query)"
    by (intro ext) (simp add: plan_def search_plan_def resource_matches_def resource_projection_plan_def cutoffs_def split: option.split)
  define rows where "rows = filter (\<lambda>r. after_key after (res_id r)) (search_rows s)"
  have rows: "filter (\<lambda>r. after_key after (res_id r) \<and> resource_matches to_lowercase db plan r)
      (bt_values (db_resources db)) = rows"
    by (simp add: rows_def s ok(2) matches[unfolded db_def] db_def conj_commute)
  have query: "query_resources to_lowercase db plan =
      map_ok (\<lambda>page. \<lparr>ps_metadata = the (db_projection db), ps_body = page\<rparr>)
        (map_ok (projection_page (\<lambda>item. res_id (pr_resource item)) limit)
          (res_map (read_resource_row db cutoffs) (take (limit + 1) rows)))"
    unfolding query_resources_def plan_fields valid res_bind_Inr with_projection_snapshot_ok[OF ok(1)] ok(3)
      read_resource_page_def rows if_not_P[OF ok(4)] by (rule refl)
  have source: "qs_search_resources (committed_source to_lowercase source)
      \<lparr>spl_query = query, spl_kinds = srq_kinds request, spl_connector_types = srq_connector_types request,
       spl_health = srq_health request, spl_freshness = srq_freshness request,
       spl_labels = srq_labels request, spl_limit = limit, spl_after = after\<rparr> =
      source_search_resources to_lowercase source
      \<lparr>spl_query = query, spl_kinds = srq_kinds request, spl_connector_types = srq_connector_types request,
       spl_health = srq_health request, spl_freshness = srq_freshness request,
       spl_labels = srq_labels request, spl_limit = limit, spl_after = after\<rparr>"
    by (simp add: committed_source_def)
  have answer: "search_resources (committed_source to_lowercase source) (request\<lparr>srq_cursor := c\<rparr>) =
      res_bind (map_err (\<lambda>_. source_error) (source_search_resources to_lowercase source
        \<lparr>spl_query = query, spl_kinds = srq_kinds request, spl_connector_types = srq_connector_types request,
         spl_health = srq_health request, spl_freshness = srq_freshness request,
         spl_labels = srq_labels request, spl_limit = limit, spl_after = after\<rparr>)) (\<lambda>snapshot.
      let page = ss_body snapshot in
      res_bind (validate_page_size (length (sp_items page)) limit) (\<lambda>_.
        Inr \<lparr>rpd_metadata = ss_metadata snapshot, rpd_items = sp_items page,
             rpd_page_info = page_cursor (sp_next_after page)\<rparr>))"
    by (simp add: search_resources_def ok(2,5) assms(2) source)
  let ?dto = "\<lambda>item. resource_dto (pr_resource item) (pr_freshness item)"
  have read: "search_read s = (\<lambda>row. map_err (\<lambda>_. source_error) (map_ok ?dto (read_resource_row db cutoffs row)))"
    by (intro ext) (simp add: s db_def cutoffs_def)
  show ?thesis
  proof (cases "res_map (read_resource_row db cutoffs) (take (limit + 1) rows)")
    case (Inl e)
    then have "search_fetch s c = Inl source_error"
      by (simp add: s answer source_search_resources_def flip: db_def cutoffs_def plan_def)
        (simp add: query[unfolded Inl map_ok_Inl])
    moreover have "page_of_rows (search_read s) (encode_cursor \<circ> res_id) limit rows = Inl source_error"
      using Inl by (simp add: page_of_rows_def read res_map_map_err res_map_map_ok)
    ultimately show ?thesis by (simp add: limit_def rows_def)
  next
    case (Inr items)
    have page: "projection_page (\<lambda>item. res_id (pr_resource item)) limit items =
        \<lparr>pp_items = take limit items,
         pp_next_after = (if limit < length rows then Some (res_id (rows ! (limit - 1))) else None)\<rparr>"
      by (rule projection_page_rows[OF limit(1) Inr]) (rule read_resource_row_id)
    have "search_fetch s c = Inr (map ?dto (take limit items),
        if limit < length rows then Some (encode_cursor (res_id (rows ! (limit - 1)))) else None)"
      by (simp add: s answer source_search_resources_def flip: db_def cutoffs_def plan_def)
        (simp add: query[unfolded Inr map_ok_Inr page] source_snapshot_def page_cursor_def PageInfo_new_def validate_page_size_def)
    moreover have "page_of_rows (search_read s) (encode_cursor \<circ> res_id) limit rows =
        Inr (map ?dto (take limit items),
          if limit < length rows then Some (encode_cursor (res_id (rows ! (limit - 1)))) else None)"
      using Inr by (simp add: page_of_rows_def read res_map_map_err res_map_map_ok take_map)
    ultimately show ?thesis by (simp add: limit_def rows_def)
  qed
qed

interpretation resource_pages: paged_query search_ready search_rows search_read "encode_cursor \<circ> res_id"
    search_limit search_fetch
proof
  fix s :: Search and i
  assume ready: "search_ready s"
  then show "0 < search_limit s"
    by (cases s) (auto simp: is_ok_iff bounded_limit_iff option_or_def)
  show "search_fetch s None = page_of_rows (search_read s) (encode_cursor \<circ> res_id) (search_limit s) (search_rows s)"
    using search_fetch_page[OF ready, of None None] by (simp add: decode_cursor_def after_key_def)
  assume i: "i < length (search_rows s)"
  have "cursor_ok (res_id (search_rows s ! i))"
    using ready i by (cases s) (auto simp: list_all_iff simp del: search_rows.simps)
  note page = search_fetch_page[OF ready decode_encode_cursor[OF this]]
  have "sorted_wrt (\<lambda>x y. res_id x < res_id y) (search_rows s)"
    using ready by (cases s) (auto intro: sorted_wrt_filter table_sorted split: sum.split)
  from filter_beyond[where before = "(<)" and key = res_id, OF this i]
  show "search_fetch s (Some ((encode_cursor \<circ> res_id) (search_rows s ! i))) =
      page_of_rows (search_read s) (encode_cursor \<circ> res_id) (search_limit s) (drop (Suc i) (search_rows s))"
    using page by (simp add: after_key_def)
qed

end
