(* ===== verification/Query_Changes.thy ===== *)
theory Query_Changes
  imports Query_Search
begin

text \<open>
  The recent changes of the query service over the committed source, newest first, keep the promise of a
  paged query as well: their cursor is the time and the identifier of a change.
\<close>

section \<open>Cursors of changes\<close>

lemma show_nat_padded: "0 \<le> i \<Longrightarrow> show_padded 0 i = show_int i"
  by (simp add: show_padded_def pad_left_def show_int_def)

lemma parse_change_cursor_inverse:
  assumes "0 \<le> chg_observed_at c" and "chg_observed_at c \<le> i64_max" and "chg_id c \<noteq> []"
  shows "parse_change_cursor (change_cursor c) = Inr (change_key c)"
proof -
  have "CHR '':'' \<notin> set (show_int (chg_observed_at c))"
    using digits_no[OF show_padded_digits[OF assms(1), of 0], of "CHR '':''"] assms(1)
    by (simp add: show_nat_padded is_ascii_digit_def byte_def)
  moreover have "parse_i64 (show_int (chg_observed_at c)) = Some (chg_observed_at c)"
    using parse_show_padded[OF assms(1,2), of 0] assms(1) by (simp add: show_nat_padded)
  ultimately show ?thesis
    using assms(3) by (simp add: parse_change_cursor_def change_cursor_def split_once_append change_key_def)
qed

lemma changes_sorted:
  assumes "table_ok chg_id (db_changes db)"
  shows "sorted_wrt (\<lambda>x y. change_key y < change_key x) (changes_newest_first db)"
proof -
  let ?s = "sort_key change_key (bt_values (db_changes db))"
  have "distinct (map chg_id (bt_values (db_changes db)))"
    using table_sorted[OF assms] by (simp add: strict_sorted_iff[unfolded sorted_wrt_map] flip: sorted_wrt_map)
  then have "distinct (map change_key (bt_values (db_changes db)))"
    by (auto simp: distinct_map inj_on_def change_key_def)
  then have "distinct (map change_key ?s)" by (simp add: distinct_map)
  then have "sorted_wrt (<) (map change_key ?s)" by (simp add: strict_sorted_iff)
  then show ?thesis by (simp add: changes_newest_first_def sorted_wrt_rev sorted_wrt_map)
qed

section \<open>The feed\<close>

type_synonym ChangeFeed = "CommittedQuerySource \<times> RecentChangesRequest"

fun feed_limit :: "ChangeFeed \<Rightarrow> nat" where
  "feed_limit (source, request) = option_or DEFAULT_CHANGE_LIMIT (crq_limit request)"

text \<open>What the request asks for, without the limit and the position.\<close>

definition feed_plan :: "RecentChangesRequest \<Rightarrow> ErrorEnvelope + RecentChangesProjectionPlan" where
  "feed_plan request =
     res_bind (clean_optional_text (crq_since request) ''since'') (\<lambda>since.
     res_bind (clean_optional_text (crq_resource_id request) ''resource_id'') (\<lambda>resource_id.
     map_err (\<lambda>_. source_error)
       (res_bind (case since of None \<Rightarrow> Inr None | Some v \<Rightarrow> map_ok Some (parse_timestamp v)) (\<lambda>since_millis.
        res_bind (case resource_id of None \<Rightarrow> Inr None | Some v \<Rightarrow> map_ok Some (resource_id_new v)) (\<lambda>resource_id.
          Inr \<lparr>rcp_since_millis = since_millis, rcp_resource_id = resource_id, rcp_kinds = crq_kinds request,
               rcp_limit = 1, rcp_after = None\<rparr>)))))"

fun feed_rows :: "ChangeFeed \<Rightarrow> Change list" where
  "feed_rows (source, request) =
     (case feed_plan request of
        Inl _ \<Rightarrow> []
      | Inr plan \<Rightarrow> filter (change_matches (cqs_store source) plan) (changes_newest_first (cqs_store source)))"

fun feed_read :: "ChangeFeed \<Rightarrow> Change \<Rightarrow> ErrorEnvelope + ChangeDto" where
  "feed_read (source, request) row = map_err (\<lambda>_. source_error) (map_ok change_dto (read_change row))"

fun feed_fetch :: "ChangeFeed \<Rightarrow> string option \<Rightarrow> ErrorEnvelope + ChangeDto list \<times> string option" where
  "feed_fetch (source, request) cursor =
     map_ok (\<lambda>page. (cpd_items page, pi_next_cursor (cpd_page_info page)))
       (service_get_recent_changes (committed_source (\<lambda>s. s) source) (request\<lparr>crq_cursor := cursor\<rparr>))"

definition change_row_ok :: "Change \<Rightarrow> bool" where
  "change_row_ok c \<longleftrightarrow>
     0 \<le> chg_observed_at c \<and> chg_observed_at c \<le> i64_max \<and> chg_id c \<noteq> [] \<and> cursor_ok (change_cursor c)"

fun feed_ready :: "ChangeFeed \<Rightarrow> bool" where
  "feed_ready (source, request) \<longleftrightarrow>
     table_ok chg_id (db_changes (cqs_store source)) \<and> metadata_ok (cqs_store source) \<and>
     is_ok (bounded_limit (crq_limit request) DEFAULT_CHANGE_LIMIT MAX_CHANGE_LIMIT) \<and>
     is_ok (feed_plan request) \<and> list_all change_row_ok (feed_rows (source, request))"

definition change_beyond :: "(int \<times> string) option \<Rightarrow> Change \<Rightarrow> bool" where
  "change_beyond after c = (case after of None \<Rightarrow> True | Some k \<Rightarrow> change_key c < k)"

lemma change_beyond_eq:
  "(case after of None \<Rightarrow> True
    | Some (at, change_id) \<Rightarrow> chg_observed_at c < at \<or> chg_observed_at c = at \<and> chg_id c < change_id) =
   change_beyond after c"
  by (auto simp: change_beyond_def change_key_def less_prod_def split: option.split)

lemma feed_fetch_page:
  assumes "feed_ready s" and "decode_cursor c = Inr position"
    and "(case position of None \<Rightarrow> Inr None | Some a \<Rightarrow> map_ok Some (parse_change_cursor a)) = Inr after"
  shows "feed_fetch s c = page_of_rows (feed_read s) (encode_cursor \<circ> change_cursor) (feed_limit s)
    (filter (change_beyond after) (feed_rows s))"
proof -
  obtain source request where s: "s = (source, request)" by (cases s)
  define db where "db = cqs_store source"
  define limit where "limit = feed_limit s"
  from assms(1) obtain plan where
    ok: "metadata_ok db" "feed_plan request = Inr plan"
      "bounded_limit (crq_limit request) DEFAULT_CHANGE_LIMIT MAX_CHANGE_LIMIT = Inr limit"
    by (auto simp: s is_ok_iff db_def limit_def option_or_def bounded_limit_iff)
  from ok(2) obtain since resource_id since_millis resource where
    texts: "clean_optional_text (crq_since request) ''since'' = Inr since"
      "clean_optional_text (crq_resource_id request) ''resource_id'' = Inr resource_id"
      "(case since of None \<Rightarrow> Inr None | Some v \<Rightarrow> map_ok Some (parse_timestamp v)) = Inr since_millis"
      "(case resource_id of None \<Rightarrow> Inr None | Some v \<Rightarrow> map_ok Some (resource_id_new v)) = Inr resource"
    and plan: "plan = \<lparr>rcp_since_millis = since_millis, rcp_resource_id = resource, rcp_kinds = crq_kinds request,
               rcp_limit = 1, rcp_after = None\<rparr>"
    by (auto simp: feed_plan_def res_simps)
  define at where "at = plan\<lparr>rcp_limit := limit, rcp_after := position\<rparr>"
  have limit: "0 < limit" "limit \<le> 100" using ok(3) by (simp_all add: bounded_limit_iff limit_defs)
  then have valid: "validate_limit limit = Inr ()"
    by (simp add: validate_limit_def MAX_PROJECTION_PAGE_LIMIT_def)
  have at_fields: "rcp_limit at = limit" "rcp_after at = position" by (simp_all add: at_def)
  have matches: "change_matches db at = change_matches db plan"
    by (intro ext) (simp add: change_matches_def at_def)
  define rows where "rows = filter (change_beyond after) (feed_rows s)"
  have rows: "filter (\<lambda>c. change_matches db at c \<and>
      (case after of None \<Rightarrow> True
       | Some (at, change_id) \<Rightarrow> chg_observed_at c < at \<or> chg_observed_at c = at \<and> chg_id c < change_id))
      (changes_newest_first db) = rows"
    unfolding change_beyond_eq matches by (simp add: rows_def s ok(2) db_def conj_commute)
  have query: "query_recent_changes db at =
      map_ok (\<lambda>page. \<lparr>ps_metadata = the (db_projection db), ps_body = page\<rparr>)
        (map_ok (projection_page change_cursor limit) (res_map read_change (take (limit + 1) rows)))"
    unfolding query_recent_changes_def at_fields valid res_bind_Inr with_projection_snapshot_ok[OF ok(1)]
      read_recent_changes_def assms(3) rows by (rule refl)
  have answer: "service_get_recent_changes (committed_source (\<lambda>s. s) source) (request\<lparr>crq_cursor := c\<rparr>) =
      res_bind (map_err (\<lambda>_. source_error) (res_bind (map_err SourceStore (query_recent_changes db at)) (\<lambda>projection.
        Inr (source_snapshot source (ps_metadata projection)
          \<lparr>sp_items = map change_dto (pp_items (ps_body projection)),
           sp_next_after = pp_next_after (ps_body projection)\<rparr>)))) (\<lambda>snapshot.
      let page = ss_body snapshot in
      res_bind (validate_page_size (length (sp_items page)) limit) (\<lambda>_.
        Inr \<lparr>cpd_metadata = ss_metadata snapshot, cpd_items = sp_items page,
             cpd_page_info = page_cursor (sp_next_after page)\<rparr>))"
    by (simp add: service_get_recent_changes_def ok(3) texts(1,2) assms(2) committed_source_def
        source_get_recent_changes_def texts(3,4) at_def plan db_def)
  have read: "feed_read s = (\<lambda>row. map_err (\<lambda>_. source_error) (map_ok change_dto (read_change row)))"
    by (intro ext) (simp add: s)
  show ?thesis
  proof (cases "res_map read_change (take (limit + 1) rows)")
    case (Inl e)
    have "feed_fetch s c = Inl source_error" by (simp add: s answer query[unfolded Inl map_ok_Inl])
    moreover have "page_of_rows (feed_read s) (encode_cursor \<circ> change_cursor) limit rows = Inl source_error"
      using Inl by (simp add: page_of_rows_def read res_map_map_err res_map_map_ok)
    ultimately show ?thesis by (simp add: limit_def rows_def)
  next
    case (Inr items)
    have page: "projection_page change_cursor limit items =
        \<lparr>pp_items = take limit items,
         pp_next_after = (if limit < length rows then Some (change_cursor (rows ! (limit - 1))) else None)\<rparr>"
      by (rule projection_page_rows[OF limit(1) Inr]) (simp add: read_change_def split: if_splits)
    have "feed_fetch s c = Inr (map change_dto (take limit items),
        if limit < length rows then Some (encode_cursor (change_cursor (rows ! (limit - 1)))) else None)"
      by (simp add: s answer query[unfolded Inr map_ok_Inr page] source_snapshot_def page_cursor_def
          PageInfo_new_def validate_page_size_def)
    moreover have "page_of_rows (feed_read s) (encode_cursor \<circ> change_cursor) limit rows =
        Inr (map change_dto (take limit items),
          if limit < length rows then Some (encode_cursor (change_cursor (rows ! (limit - 1)))) else None)"
      using Inr by (simp add: page_of_rows_def read res_map_map_err res_map_map_ok take_map)
    ultimately show ?thesis by (simp add: limit_def rows_def)
  qed
qed

interpretation change_pages: paged_query feed_ready feed_rows feed_read "encode_cursor \<circ> change_cursor"
    feed_limit feed_fetch
proof
  fix s :: ChangeFeed and i
  assume ready: "feed_ready s"
  then show "0 < feed_limit s"
    by (cases s) (auto simp: is_ok_iff bounded_limit_iff option_or_def)
  show "feed_fetch s None = page_of_rows (feed_read s) (encode_cursor \<circ> change_cursor) (feed_limit s) (feed_rows s)"
    using feed_fetch_page[OF ready, of None None None] by (simp add: decode_cursor_def change_beyond_def)
  assume i: "i < length (feed_rows s)"
  let ?c = "feed_rows s ! i"
  have row: "change_row_ok ?c"
    using ready i by (cases s) (auto simp: list_all_iff simp del: feed_rows.simps)
  then have "parse_change_cursor (change_cursor ?c) = Inr (change_key ?c)"
    by (intro parse_change_cursor_inverse) (simp_all add: change_row_ok_def)
  with row have page: "feed_fetch s (Some (encode_cursor (change_cursor ?c))) =
      page_of_rows (feed_read s) (encode_cursor \<circ> change_cursor) (feed_limit s)
        (filter (change_beyond (Some (change_key ?c))) (feed_rows s))"
    by (intro feed_fetch_page[OF ready decode_encode_cursor]) (simp_all add: change_row_ok_def)
  have "sorted_wrt (\<lambda>x y. change_key y < change_key x) (feed_rows s)"
    using ready by (cases s) (auto intro: sorted_wrt_filter changes_sorted split: sum.split)
  then have "filter (\<lambda>r. change_key r < change_key ?c) (feed_rows s) = drop (Suc i) (feed_rows s)"
    by (rule filter_beyond[where before = "\<lambda>a b. b < a" and key = change_key, OF _ i]) auto
  then show "feed_fetch s (Some ((encode_cursor \<circ> change_cursor) (feed_rows s ! i))) =
      page_of_rows (feed_read s) (encode_cursor \<circ> change_cursor) (feed_limit s) (drop (Suc i) (feed_rows s))"
    using page by (simp add: change_beyond_def[abs_def])
qed

end
