(* ===== verification/Query_Properties.thy ===== *)
theory Query_Properties
  imports Query_Changes Store_Purge
begin

text \<open>
  What the query service over the committed source guarantees to a client: paging, filters, freshness, the
  grouping of the timeline and the counts of the health summary.
\<close>

section \<open>Paging\<close>

text \<open>
  C27. A client that follows the cursors of a resource search, at most \<open>n\<close> pages of them, gets every matching
  resource exactly once, in the order of the identifiers, provided that \<open>n\<close> pages can hold them
  all. A search is ready when its request is valid and the identifiers of the matching rows fit
  into a cursor.
\<close>

theorem search_pages_complete:
  assumes "search_ready s" and "res_map (search_read s) (search_rows s) = Inr items"
    and "length (search_rows s) < n * search_limit s"
  shows "collect_pages n (search_fetch s) None = Inr items \<and>
    map rd_resource_id items = map res_id (search_rows s) \<and> distinct (map rd_resource_id items)"
proof -
  have "map rd_resource_id items = map res_id (search_rows s)"
  proof (rule nth_equalityI)
    show "length (map rd_resource_id items) = length (map res_id (search_rows s))"
      using res_map_length[OF assms(2)] by simp
    fix i assume "i < length (map rd_resource_id items)"
    then have i: "i < length (search_rows s)" "i < length items" using res_map_length[OF assms(2)] by simp_all
    from res_map_nth[OF assms(2) i(1)] have "rd_resource_id (items ! i) = res_id (search_rows s ! i)"
      by (cases s) (auto simp: res_simps resource_dto_def dest: read_resource_row_id simp del: search_rows.simps)
    then show "map rd_resource_id items ! i = map res_id (search_rows s) ! i" using i by simp
  qed
  moreover have "distinct (map res_id (search_rows s))"
  proof -
    have "sorted_wrt (\<lambda>x y. res_id x < res_id y) (search_rows s)"
      using assms(1) by (cases s) (auto intro: sorted_wrt_filter table_sorted split: sum.split)
    then show ?thesis by (simp add: strict_sorted_iff[unfolded sorted_wrt_map] flip: sorted_wrt_map)
  qed
  ultimately show ?thesis
    using resource_pages.collect_all[OF assms(1,2)] assms(3) res_map_length[OF assms(2)] by simp
qed

text \<open>Three resources, asked for two at a time.\<close>

definition sample_context :: QueryContextSnapshot where
  "sample_context = \<lparr>qcx_evaluated_at = 10, qcx_revision = 1,
     qcx_schedules = [(''c1'', \<lparr>qsc_interval_millis = 5, qsc_next_scheduled_at = None\<rparr>)]\<rparr>"

definition sample_change :: "string \<Rightarrow> int \<Rightarrow> Change" where
  "sample_change i at = \<lparr>chg_id = i, chg_subject = ResourceSubject ''r1'', chg_observed_at = at, chg_fields = [],
     chg_origin = SyncRunOrigin ''s1''\<rparr>"

definition query_store :: Database where
  "query_store = sample_store\<lparr>db_resources :=
     [(''r1'', sample_resource), (''r2'', sample_resource\<lparr>res_id := ''r2'', res_external_id := ''2''\<rparr>),
      (''r3'', sample_resource\<lparr>res_id := ''r3'', res_external_id := ''3''\<rparr>)],
     db_changes := [(''x'', sample_change ''x'' 3), (''y'', sample_change ''y'' 5), (''z'', sample_change ''z'' 3)]\<rparr>"

definition sample_committed :: CommittedQuerySource where
  "sample_committed = \<lparr>cqs_store = query_store, cqs_catalog = \<lparr>ccs_connectors = []\<rparr>, cqs_context = sample_context\<rparr>"

definition two_at_a_time :: Search where
  "two_at_a_time = (to_ascii_lowercase, sample_committed, sample_search\<lparr>srq_query := Some ''REPO'', srq_limit := Some 2\<rparr>)"

lemma table_ok_code: "table_ok key m \<longleftrightarrow> sorted_wrt (<) (map fst m) \<and> list_all (\<lambda>(k, v). key v = k) m"
  by (auto simp: table_ok_def bt_wf_def list_all_iff bt_mem_iff dest!: bt_get_mem)

theorem search_pages_complete_witness:
  "\<exists>items. collect_pages 2 (search_fetch two_at_a_time) None = Inr items \<and>
     map rd_resource_id items = [''r1'', ''r2'', ''r3'']"
proof -
  have ready: "search_ready two_at_a_time"
    unfolding two_at_a_time_def search_ready.simps table_ok_code by code_simp
  have "is_ok (res_map (search_read two_at_a_time) (search_rows two_at_a_time))" by code_simp
  then obtain items where items: "res_map (search_read two_at_a_time) (search_rows two_at_a_time) = Inr items"
    by (auto simp: is_ok_iff)
  have rows: "map res_id (search_rows two_at_a_time) = [''r1'', ''r2'', ''r3'']" by code_simp
  have "length (search_rows two_at_a_time) < 2 * search_limit two_at_a_time" by code_simp
  from search_pages_complete[OF ready items this] rows show ?thesis by auto
qed

text \<open>
  C28. A client that follows the cursors of the recent changes gets every matching change exactly once, the
  newest first.
\<close>

theorem change_pages_complete:
  assumes "feed_ready s" and "res_map (feed_read s) (feed_rows s) = Inr items"
    and "length (feed_rows s) < n * feed_limit s"
  shows "collect_pages n (feed_fetch s) None = Inr items \<and>
    map chd_change_id items = map chg_id (feed_rows s) \<and>
    sorted_wrt (\<lambda>x y. change_key y < change_key x) (feed_rows s)"
proof -
  have "map chd_change_id items = map chg_id (feed_rows s)"
  proof (rule nth_equalityI)
    show "length (map chd_change_id items) = length (map chg_id (feed_rows s))"
      using res_map_length[OF assms(2)] by simp
    fix i assume "i < length (map chd_change_id items)"
    then have i: "i < length (feed_rows s)" "i < length items" using res_map_length[OF assms(2)] by simp_all
    from res_map_nth[OF assms(2) i(1)] have "chd_change_id (items ! i) = chg_id (feed_rows s ! i)"
      by (cases s) (auto simp: res_simps change_dto_def read_change_def split: if_splits simp del: feed_rows.simps)
    then show "map chd_change_id items ! i = map chg_id (feed_rows s) ! i" using i by simp
  qed
  moreover have "sorted_wrt (\<lambda>x y. change_key y < change_key x) (feed_rows s)"
    using assms(1) by (cases s) (auto intro: sorted_wrt_filter changes_sorted split: sum.split)
  ultimately show ?thesis
    using change_pages.collect_all[OF assms(1,2)] assms(3) res_map_length[OF assms(2)] by simp
qed

definition feed_two :: ChangeFeed where
  "feed_two = (sample_committed, sample_changes\<lparr>crq_limit := Some 2, crq_kinds := [''gh.repo'']\<rparr>)"

theorem change_pages_complete_witness:
  "\<exists>items. collect_pages 2 (feed_fetch feed_two) None = Inr items \<and> map chd_change_id items = [''y'', ''z'', ''x'']"
proof -
  have ready: "feed_ready feed_two"
    unfolding feed_two_def feed_ready.simps table_ok_code by code_simp
  have "is_ok (res_map (feed_read feed_two) (feed_rows feed_two))" by code_simp
  then obtain items where items: "res_map (feed_read feed_two) (feed_rows feed_two) = Inr items"
    by (auto simp: is_ok_iff)
  have rows: "map chg_id (feed_rows feed_two) = [''y'', ''z'', ''x'']" by code_simp
  have "length (feed_rows feed_two) < 2 * feed_limit feed_two" by code_simp
  from change_pages_complete[OF ready items this] rows show ?thesis by auto
qed

end
