(* ===== verification/Query_Freshness.thy ===== *)
theory Query_Freshness
  imports Query_Source Store_Purge
begin

text \<open>
  Freshness and text filters: the store classifies rows by cutoffs that saturate, the source
  classifies them by exact ages; the store filters in SQL. The theorems say that they agree.
\<close>

section \<open>Freshness\<close>

lemma bt_get_of_list_map:
  assumes "bt_wf m"
  shows "bt_get (bt_of_list (map (\<lambda>(k, v). (k, f v)) m)) k = map_option f (bt_get m k)"
proof -
  have "bt_get (fold (\<lambda>x. bt_insert (fst x) (f (snd x))) m n) k =
      (case bt_get m k of None \<Rightarrow> bt_get n k | Some v \<Rightarrow> Some (f v))" for n
    using assms
  proof (induction m arbitrary: n)
    case Nil
    then show ?case by simp
  next
    case (Cons e m)
    then have "bt_get m (fst e) = None" by (cases e) (auto simp: bt_wf_Cons bt_get_None_iff)
    with Cons show ?case by (cases e) (auto simp: bt_wf_Cons bt_get_insert split: option.split)
  qed
  from this[of "[]"] show ?thesis
    by (auto simp: bt_of_list_def fold_map comp_def split_def split: option.split)
qed

definition cutoffs_of :: "Timestamp \<Rightarrow> QuerySchedule \<Rightarrow> FreshnessCutoffs" where
  "cutoffs_of evaluated schedule =
     (let interval = min (uint (qsc_interval_millis schedule)) i64_max;
          triple = (if interval * 3 \<le> i64_max then interval * 3 else i64_max)
      in \<lparr>fco_fresh_after_millis = i64_saturated (evaluated - interval),
          fco_expired_after_millis = i64_saturated (evaluated - triple)\<rparr>)"

lemma query_cutoffs_get:
  assumes "bt_wf (qcx_schedules context)"
  shows "bt_get (query_cutoffs context) c = map_option (cutoffs_of (qcx_evaluated_at context)) (context_schedule context c)"
proof -
  have interval: "(if uint w \<le> i64_max then uint w else i64_max) = min (uint w) i64_max" for w :: "64 word"
    by simp
  have triple: "(case i64_checked (min (uint w) i64_max * 3) of None \<Rightarrow> i64_max | Some v \<Rightarrow> v) =
      (if min (uint w) i64_max * 3 \<le> i64_max then min (uint w) i64_max * 3 else i64_max)" for w :: "64 word"
  proof -
    have "0 \<le> min (uint w) i64_max" by (simp add: i64_max_def)
    then have "i64_min \<le> min (uint w) i64_max * 3" unfolding i64_min_def by linarith
    then show ?thesis by (simp add: i64_checked_def)
  qed
  have "query_cutoffs context =
      bt_of_list (map (\<lambda>(c, schedule). (c, cutoffs_of (qcx_evaluated_at context) schedule)) (qcx_schedules context))"
    unfolding query_cutoffs_def cutoffs_of_def Let_def interval triple by simp
  then show ?thesis by (simp add: bt_get_of_list_map[OF assms] context_schedule_def)
qed

lemma classify_cutoffs_of:
  assumes "0 \<le> t" and "t \<le> i64_max" and "0 \<le> e" and "e \<le> i64_max"
  shows "classify_millis t (cutoffs_of e schedule) =
    (let interval = uint (qsc_interval_millis schedule); age = max 0 (e - t) in
     if age \<le> interval then Fresh else if age \<le> interval * 3 then Stale else Expired)"
proof -
  define w where "w = uint (qsc_interval_millis schedule)"
  have w: "0 \<le> w" by (simp add: w_def)
  have sat: "i64_saturated (e - x) = e - x" if "0 \<le> x" "x \<le> i64_max" for x
    using that assms(3,4) by (simp add: i64_saturated_def i64_min_def)
  have fresh: "e - min w i64_max \<le> t \<longleftrightarrow> max 0 (e - t) \<le> w"
    using assms w by (auto simp: min_def max_def)
  show ?thesis
  proof (cases "w * 3 \<le> i64_max")
    case True
    then have "min w i64_max = w" using w by simp
    then show ?thesis
      using True fresh w assms sat[of w] sat[of "w * 3"]
      by (auto simp: classify_millis_def cutoffs_of_def Let_def w_def[symmetric] max_def)
  next
    case False
    have top: "0 \<le> i64_max" by (simp add: i64_max_def)
    have triple: "(if min w i64_max * 3 \<le> i64_max then min w i64_max * 3 else i64_max) = i64_max"
      using False by (auto simp: min_def i64_max_def)
    have "classify_millis t (cutoffs_of e schedule) =
        (if e - min w i64_max \<le> t then Fresh else if e - i64_max \<le> t then Stale else Expired)"
      using sat[of "min w i64_max"] sat[of i64_max] w top
      by (simp only: classify_millis_def cutoffs_of_def Let_def w_def[symmetric] triple) simp
    moreover have "e - i64_max \<le> t" "max 0 (e - t) \<le> w * 3" using False assms by auto
    ultimately show ?thesis by (simp add: fresh Let_def w_def[symmetric])
  qed
qed

text \<open>
  C29. The two classifications agree on every resource, for every interval up to the largest the type can
  hold: the saturated cutoffs that the store compares with give the freshness that the exact arithmetic of
  the source gives.
\<close>

theorem freshness_agrees:
  assumes "bt_wf (qcx_schedules context)" and "context_schedule context (res_connection_id r) = Some schedule"
    and "qsc_interval_millis schedule \<noteq> 0" and "0 \<le> res_last_seen_at r" and "res_last_seen_at r \<le> i64_max"
    and "0 \<le> qcx_evaluated_at context" and "qcx_evaluated_at context \<le> i64_max"
  shows "\<exists>f. store_classify_freshness r (query_cutoffs context) = Inr f \<and>
    source_classify_freshness r context = Inr f"
  using assms(2,3) classify_cutoffs_of[OF assms(4-7), of schedule]
  by (simp add: store_classify_freshness_def source_classify_freshness_def query_cutoffs_get[OF assms(1)]
      Let_def uint_0_iff)

theorem freshness_agrees_witness:
  "\<exists>f. store_classify_freshness sample_resource [(''c1'', \<lparr>fco_fresh_after_millis = 5, fco_expired_after_millis = - 5\<rparr>)] = Inr f \<and>
     f = Stale"
proof -
  define ctx where "ctx =
    \<lparr>qcx_evaluated_at = 10, qcx_revision = 1,
     qcx_schedules = [(''c1'', \<lparr>qsc_interval_millis = 5, qsc_next_scheduled_at = None\<rparr>)]\<rparr>"
  have cutoffs: "query_cutoffs ctx = [(''c1'', \<lparr>fco_fresh_after_millis = 5, fco_expired_after_millis = - 5\<rparr>)]"
    unfolding ctx_def by code_simp
  have "\<exists>f. store_classify_freshness sample_resource (query_cutoffs ctx) = Inr f \<and>
      source_classify_freshness sample_resource ctx = Inr f"
    by (rule freshness_agrees[where schedule = "\<lparr>qsc_interval_millis = 5, qsc_next_scheduled_at = None\<rparr>"])
      (simp_all add: ctx_def bt_wf_def context_schedule_def sample_resource_def i64_max_def)
  moreover have "source_classify_freshness sample_resource ctx = Inr Stale"
    unfolding ctx_def by code_simp
  ultimately show ?thesis by (simp add: cutoffs)
qed

text \<open>
  The freshness filter of the search, a disjunction in SQL over the cutoffs, selects exactly the rows
  whose classification is among the requested values; no value and all three values select every row.
\<close>

theorem freshness_filter_selects:
  assumes "bt_wf cutoffs" and "bt_get cutoffs (res_connection_id r) = Some cutoff"
    and "fco_expired_after_millis cutoff \<le> fco_fresh_after_millis cutoff" and "requested \<noteq> []"
  shows "freshness_filter requested cutoffs r \<longleftrightarrow>
    (\<exists>f\<in>set requested. store_classify_freshness r cutoffs = Inr f)"
proof -
  define f where "f = classify_millis (res_last_seen_at r) cutoff"
  have classify: "store_classify_freshness r cutoffs = Inr f"
    using assms(2) by (simp add: store_classify_freshness_def f_def)
  have branch: "freshness_branch r cutoff g \<longleftrightarrow> f = g" for g
    using assms(3) by (cases g) (auto simp: freshness_branch_def f_def classify_millis_def)
  have only: "(c, cutoff') \<in> set cutoffs \<longleftrightarrow> bt_get cutoffs c = Some cutoff'" for c cutoff'
    by (rule bt_mem_iff[OF assms(1)])
  have set: "set (requested_values requested) = set requested"
  proof (rule set_eqI)
    show "g \<in> set (requested_values requested) \<longleftrightarrow> g \<in> set requested" for g
      by (cases g) (simp_all add: requested_values_def)
  qed
  have sql: "list_ex (\<lambda>(connection_id, cutoff). res_connection_id r = connection_id \<and>
      list_ex (freshness_branch r cutoff) (requested_values requested)) cutoffs \<longleftrightarrow> f \<in> set requested"
  proof
    show "f \<in> set requested" if "list_ex (\<lambda>(connection_id, cutoff). res_connection_id r = connection_id \<and>
        list_ex (freshness_branch r cutoff) (requested_values requested)) cutoffs"
      using that assms(2) set branch by (auto simp: list_ex_iff only)
    have "(res_connection_id r, cutoff) \<in> set cutoffs" using assms(2) by (simp add: only)
    moreover have "list_ex (freshness_branch r cutoff) (requested_values requested)" if "f \<in> set requested"
      using that set branch by (auto simp: list_ex_iff)
    ultimately show "list_ex (\<lambda>(connection_id, cutoff). res_connection_id r = connection_id \<and>
        list_ex (freshness_branch r cutoff) (requested_values requested)) cutoffs" if "f \<in> set requested"
      using that by (force simp: list_ex_iff)
  qed
  have "f \<in> set requested" if "\<not> has_freshness_filter requested"
  proof -
    from assms(4) obtain g where "g \<in> set requested" by (cases requested) auto
    then have "requested_values requested \<noteq> []" using set by auto
    with that have "length (requested_values requested) = 3" by (simp add: has_freshness_filter_def)
    then have "requested_values requested = [Fresh, Stale, Expired]"
      by (simp add: requested_values_def split: if_splits)
    with set have "set requested = {Fresh, Stale, Expired}" by simp
    then show ?thesis by (cases f) simp_all
  qed
  then show ?thesis using sql classify by (auto simp: freshness_filter_def)
qed

theorem freshness_filter_selects_witness:
  "freshness_filter [Expired, Stale] [(''c1'', \<lparr>fco_fresh_after_millis = 5, fco_expired_after_millis = 0\<rparr>)] sample_resource \<and>
   \<not> freshness_filter [Expired] [(''c1'', \<lparr>fco_fresh_after_millis = 5, fco_expired_after_millis = 0\<rparr>)] sample_resource"
proof -
  let ?cutoff = "\<lparr>fco_fresh_after_millis = 5, fco_expired_after_millis = 0\<rparr>"
  have "freshness_filter requested [(''c1'', ?cutoff)] sample_resource \<longleftrightarrow>
      (\<exists>f\<in>set requested. store_classify_freshness sample_resource [(''c1'', ?cutoff)] = Inr f)"
    if "requested \<noteq> []" for requested
    using that by (intro freshness_filter_selects[where cutoff = ?cutoff])
      (simp_all add: bt_wf_def sample_resource_def)
  then show ?thesis
    by (simp add: store_classify_freshness_def sample_resource_def classify_millis_def ok_or_def)
qed

section \<open>Text\<close>

lemma escape_like_Cons:
  "escape_like (c # q) =
   (if c = backslash \<or> c = CHR ''%'' \<or> c = CHR ''_'' then [backslash, c] else [c]) @ escape_like q"
  by (simp add: escape_like_def)

lemma like_tokens_escape: "like_tokens (escape_like q @ ''%'') = map LikeByte q @ [LikeAny]"
proof (induction q)
  case Nil
  then show ?case by (simp add: escape_like_def backslash_def)
next
  case (Cons c q)
  obtain d s where "escape_like q @ ''%'' = d # s" by (cases "escape_like q @ ''%''") auto
  with Cons show ?case by (auto simp: escape_like_Cons backslash_def)
qed

lemma like_pattern_tokens: "like_tokens (''%'' @ escape_like q @ ''%'') = LikeAny # map LikeByte q @ [LikeAny]"
proof -
  obtain d s where "escape_like q @ ''%'' = d # s" by (cases "escape_like q @ ''%''") auto
  with like_tokens_escape[of q] show ?thesis by (simp add: backslash_def)
qed

lemma like_match_any: "like_match (LikeAny # ts) s \<longleftrightarrow> (\<exists>u v. s = u @ v \<and> like_match ts v)"
proof (induction s)
  case Nil
  then show ?case by simp
next
  case (Cons c s)
  then show ?case by (auto simp: Cons_eq_append_conv)
qed

lemma like_match_bytes:
  "like_match (map LikeByte q @ [LikeAny]) s \<longleftrightarrow> starts_with (to_ascii_lowercase s) (to_ascii_lowercase q)"
proof (induction q arbitrary: s)
  case Nil
  then show ?case using like_match_any[of "[]" s] by (simp add: starts_with_def to_ascii_lowercase_def)
next
  case (Cons c q)
  then show ?case by (cases s) (auto simp: starts_with_def to_ascii_lowercase_def)
qed

lemma sql_like_contains:
  "sql_like s (like_pattern to_lowercase q) \<longleftrightarrow>
   contains_str (to_ascii_lowercase s) (to_ascii_lowercase (to_lowercase q))"
proof -
  have "sql_like s (like_pattern to_lowercase q) \<longleftrightarrow>
      (\<exists>u v. s = u @ v \<and> starts_with (to_ascii_lowercase v) (to_ascii_lowercase (to_lowercase q)))"
    by (simp only: sql_like_def like_pattern_def like_pattern_tokens like_match_any like_match_bytes)
  also have "\<dots> \<longleftrightarrow> (\<exists>u v. to_ascii_lowercase s = u @ v \<and> starts_with v (to_ascii_lowercase (to_lowercase q)))"
    by (auto simp: to_ascii_lowercase_def map_eq_append_conv)
  also have "\<dots> \<longleftrightarrow> contains_str (to_ascii_lowercase s) (to_ascii_lowercase (to_lowercase q))"
    unfolding contains_str_iff starts_with_def by (metis append_assoc append_eq_conv_conj append_take_drop_id)
  finally show ?thesis .
qed

lemma query_filter_columns:
  "query_filter to_lowercase (Some q) r \<longleftrightarrow>
   list_ex (\<lambda>column. contains_str (to_ascii_lowercase column) (to_ascii_lowercase (to_lowercase q)))
     [res_display_name r, res_name r, res_kind r, res_external_id r, res_id r]"
  by (simp add: query_filter_def sql_like_contains to_ascii_lowercase_idem)

text \<open>
  The text of a search matches a resource exactly when one of five columns contains it, without regard to
  the case of ASCII letters; a percent sign, an underscore or a backslash in the text stands for
  itself.
\<close>

theorem search_text_matches:
  "query_filter to_lowercase (Some q) r \<longleftrightarrow>
   (\<exists>column \<in> {res_display_name r, res_name r, res_kind r, res_external_id r, res_id r}.
      contains_str (to_ascii_lowercase column) (to_ascii_lowercase (to_lowercase q)))"
  by (simp add: query_filter_columns)

text \<open>
  \<open>to_lowercase\<close> folds all letters, \<open>LOWER\<close> of SQLite only the ASCII ones: a name with another capital
  letter is not found by that name. The bytes are those of the capital and the small E with an acute accent.
\<close>

lemma capital_name_not_found:
  assumes "to_lowercase [CHR 0xC3, CHR 0x89] = [CHR 0xC3, CHR 0xA9]"
    and "res_display_name r = [CHR 0xC3, CHR 0x89]" and "res_name r = res_display_name r"
    and "res_kind r = ''gh.repo''" and "res_external_id r = ''1''" and "res_id r = ''r1''"
  shows "\<not> query_filter to_lowercase (Some (res_display_name r)) r"
  unfolding query_filter_columns assms
  by (simp add: assms to_ascii_lowercase_def ascii_lower_def is_ascii_uppercase_def byte_def starts_with_def)

text \<open>Without a resource and a schedule there is no cutoff, and the filter is not a legal expression.\<close>

lemma empty_store_freshness_fails:
  assumes "rpp_cutoffs plan = []" and "has_freshness_filter (rpp_freshness plan)"
  shows "read_resource_page to_lowercase plan db = Inl (Sqlite ''near )'')"
  using assms by (simp add: read_resource_page_def)

end
