(* ===== verification/Query_Summaries.thy ===== *)
theory Query_Summaries
  imports Query_Pages Store_Purge
begin

text \<open>
  What the summaries of the source say of the rows: the groups of the timeline are the runs of items with the
  same origin and time, in the order of the store, and the counts of the health summary are the numbers of
  rows with each value.
\<close>

section \<open>Timeline\<close>

definition item_group_id :: "TimelineProjectionItem \<Rightarrow> string" where
  "item_group_id item = timeline_group_id (chg_origin (tpi_change item)) (chg_observed_at (tpi_change item))"

text \<open>The items of the groups in order, each with the identifier of its group.\<close>

definition labelled_items :: "TimelineGroupDto list \<Rightarrow> (string \<times> TimelineItemDto) list" where
  "labelled_items groups = concat (map (\<lambda>g. map (\<lambda>i. (tgd_group_id g, i)) (tgd_items g)) groups)"

definition groups_ok :: "TimelineGroupDto list \<Rightarrow> bool" where
  "groups_ok groups \<longleftrightarrow> list_all (\<lambda>g. tgd_items g \<noteq> []) groups \<and> distinct_adj (map tgd_group_id groups)"

lemma groups_snoc:
  "labelled_items (groups @ [g]) = labelled_items groups @ map (\<lambda>i. (tgd_group_id g, i)) (tgd_items g)"
  "groups_ok (groups @ [g]) \<longleftrightarrow>
     groups_ok groups \<and> tgd_items g \<noteq> [] \<and> (groups \<noteq> [] \<longrightarrow> tgd_group_id (last groups) \<noteq> tgd_group_id g)"
  by (auto simp: labelled_items_def groups_ok_def distinct_adj_append_iff last_map)

lemma push_timeline_item:
  assumes "groups_ok groups"
  shows "groups_ok (push_timeline_item item groups) \<and>
    labelled_items (push_timeline_item item groups) =
      labelled_items groups @ [(item_group_id item, timeline_item_dto item)]"
proof (cases groups rule: rev_cases)
  case Nil
  then show ?thesis
    by (simp add: push_timeline_item_def item_group_id_def groups_ok_def labelled_items_def Let_def)
next
  case (snoc gs g)
  with assms show ?thesis
    by (auto simp: push_timeline_item_def item_group_id_def groups_snoc Let_def simp del: append_assoc)
qed

lemma timeline_groups_fold:
  assumes "groups_ok groups"
  shows "groups_ok (fold push_timeline_item items groups) \<and>
    labelled_items (fold push_timeline_item items groups) =
      labelled_items groups @ map (\<lambda>item. (item_group_id item, timeline_item_dto item)) items"
  using assms
proof (induction items arbitrary: groups)
  case Nil
  then show ?case by simp
next
  case (Cons item items)
  from push_timeline_item[OF Cons.prems] Cons.IH show ?case by simp
qed

lemma labelled_items_length: "length (labelled_items groups) = sum_list (map (\<lambda>g. length (tgd_items g)) groups)"
  by (simp add: labelled_items_def length_concat comp_def)

lemma projection_page_length:
  "length items \<le> limit + 1 \<Longrightarrow> length (pp_items (projection_page cursor limit items)) \<le> limit"
  by (auto simp: projection_page_def Let_def)

lemma read_recent_changes_length:
  assumes "read_recent_changes plan db = Inr page"
  shows "length (pp_items page) \<le> rcp_limit plan"
  using assms by (auto simp: read_recent_changes_def res_simps dest!: res_map_length intro!: projection_page_length)

lemma query_timeline_length:
  assumes "query_timeline db limit after = Inr projection"
  shows "length (pp_items (ps_body projection)) \<le> limit"
  using assms
  by (auto simp: query_timeline_def with_projection_snapshot_def res_simps Let_def
      dest!: read_recent_changes_length)

text \<open>
  The groups of a timeline page: read one after the other they give the items of the store in order, each in
  the group of its origin and time; no group is empty, neighbours differ, and the page has at most the
  items of its limit. So the service never refuses the page for its counts.
\<close>

theorem timeline_groups:
  assumes "source_get_timeline source plan = Inr snapshot"
  shows "\<exists>projection. query_timeline (cqs_store source) (mpl_limit plan) (mpl_after plan) = Inr projection \<and>
    labelled_items (tsp_groups (ss_body snapshot)) =
      map (\<lambda>item. (item_group_id item, timeline_item_dto item)) (pp_items (ps_body projection)) \<and>
    groups_ok (tsp_groups (ss_body snapshot)) \<and>
    tsp_item_count (ss_body snapshot) = length (pp_items (ps_body projection)) \<and>
    tsp_item_count (ss_body snapshot) \<le> mpl_limit plan"
proof -
  obtain projection where projection:
      "query_timeline (cqs_store source) (mpl_limit plan) (mpl_after plan) = Inr projection"
    and snapshot: "tsp_groups (ss_body snapshot) = fold push_timeline_item (pp_items (ps_body projection)) []"
      "tsp_item_count (ss_body snapshot) =
        sum_list (map (\<lambda>g. length (tgd_items g)) (tsp_groups (ss_body snapshot)))"
    using assms by (auto simp: source_get_timeline_def source_snapshot_def Let_def res_simps)
  have empty: "groups_ok []" "labelled_items [] = []" by (simp_all add: groups_ok_def labelled_items_def)
  from timeline_groups_fold[OF empty(1), of "pp_items (ps_body projection)"]
  have groups: "groups_ok (tsp_groups (ss_body snapshot))"
    "labelled_items (tsp_groups (ss_body snapshot)) =
      map (\<lambda>item. (item_group_id item, timeline_item_dto item)) (pp_items (ps_body projection))"
    by (simp_all add: snapshot(1) empty(2))
  have "tsp_item_count (ss_body snapshot) = length (pp_items (ps_body projection))"
    using groups(2) by (simp add: snapshot(2) labelled_items_length[symmetric])
  with projection groups query_timeline_length[OF projection] show ?thesis by simp
qed

section \<open>Health\<close>

definition count_of :: "('a \<Rightarrow> 'b) \<Rightarrow> 'b \<Rightarrow> 'a list \<Rightarrow> nat" where
  "count_of f v rows = length (filter (\<lambda>r. f r = v) rows)"

lemma count_of_Cons: "count_of f v (r # rows) = (if f r = v then 1 else 0) + count_of f v rows"
  by (simp add: count_of_def)

lemma count_of_map: "count_of id v (map f rows) = count_of f v rows"
  by (simp add: count_of_def filter_map comp_def)

lemma res_map_all:
  assumes "\<And>x. x \<in> set xs \<Longrightarrow> f x = Inr (k x)"
  shows "res_map f xs = Inr (map k xs)"
  using assms by (induction xs) (auto simp: res_simps)

text \<open>The rows of a \<open>GROUP BY\<close>, with the texts read back.\<close>

lemma grouped_values:
  assumes "\<And>h. parse (render h) = Inr h"
    and "res_map (\<lambda>(t, n). map_ok (\<lambda>h. (h, n)) (parse t)) (grouped_counts (map (\<lambda>r. render (f r)) rows)) = Inr pairs"
  shows "set pairs = {(f r, count_of f (f r) rows) | r. r \<in> set rows}"
proof -
  define column where "column = map (\<lambda>r. render (f r)) rows"
  have inj: "render h = render h' \<longleftrightarrow> h = h'" for h h' by (metis assms(1) sum.inject(2))
  have counts: "length (filter (\<lambda>u. u = render h) column) = count_of f h rows" for h
    by (simp add: column_def filter_map comp_def count_of_def inj)
  define k where "k = (\<lambda>(t, n). ((case parse t of Inr h \<Rightarrow> h), n :: nat))"
  have "res_map (\<lambda>(t, n). map_ok (\<lambda>h. (h, n)) (parse t)) (grouped_counts column) = Inr (map k (grouped_counts column))"
    by (rule res_map_all) (auto simp: grouped_counts_def column_def k_def assms(1))
  with assms(2) have "pairs = map k (grouped_counts column)" by (simp add: column_def)
  then have "set pairs = (\<lambda>t. k (t, length (filter (\<lambda>u. u = t) column))) ` set column"
    by (simp add: grouped_counts_def image_image)
  moreover have "set column = (\<lambda>r. render (f r)) ` set rows" by (simp add: column_def)
  ultimately have "set pairs = (\<lambda>r. (f r, count_of f (f r) rows)) ` set rows"
    by (simp add: image_image counts k_def assms(1))
  then show ?thesis by blast
qed

lemma fold_setter:
  assumes "\<And>p c. get (upd p c) = (if fst p = h then snd p else get c)"
    and "\<And>n. (h, n) \<in> set pairs \<Longrightarrow> n = m"
  shows "get (fold upd pairs c) = (if h \<in> fst ` set pairs then m else get c)"
  using assms(2)
proof (induction pairs arbitrary: c)
  case Nil
  then show ?case by simp
next
  case (Cons p pairs)
  have "get (fold upd pairs (upd p c)) = (if h \<in> fst ` set pairs then m else get (upd p c))"
    using Cons by simp
  moreover have "fst p = h \<Longrightarrow> snd p = m" using Cons.prems by (cases p) auto
  ultimately show ?case using assms(1) by auto
qed

lemma fold_setter_count:
  assumes "\<And>p c. get (upd p c) = (if fst p = h then snd p else get c)"
    and "set pairs = {(f r, count_of f (f r) rows) | r. r \<in> set rows}" and "get c = 0"
  shows "get (fold upd pairs c) = count_of f h rows"
proof -
  have "get (fold upd pairs c) = (if h \<in> fst ` set pairs then count_of f h rows else get c)"
    by (rule fold_setter[OF assms(1)]) (auto simp: assms(2))
  moreover have "fst ` set pairs = f ` set rows" unfolding assms(2) by force
  moreover have "count_of f h rows = 0" if "h \<notin> f ` set rows"
    using that by (auto simp: count_of_def filter_empty_conv)
  ultimately show ?thesis using assms(3) by (cases "h \<in> f ` set rows") simp_all
qed

lemma resource_health_value_text: "resource_health_value (resource_health_text h) = Inr h"
  by (cases h) (simp_all add: resource_health_value_def)

lemma connector_health_value_text: "connector_health_value (connector_health_text h) = Inr h"
  by (cases h) (simp_all add: connector_health_value_def)

lemma set_resource_health_fields:
  "rhc_healthy (set_resource_health p c) = (if fst p = Healthy then snd p else rhc_healthy c)"
  "rhc_degraded (set_resource_health p c) = (if fst p = Degraded then snd p else rhc_degraded c)"
  "rhc_unhealthy (set_resource_health p c) = (if fst p = Unhealthy then snd p else rhc_unhealthy c)"
  "rhc_unknown (set_resource_health p c) = (if fst p = Unknown then snd p else rhc_unknown c)"
  by (cases p; cases "fst p"; auto)+

lemma set_connector_health_fields:
  "chc_healthy (set_connector_health p c) = (if fst p = ConnectorHealthy then snd p else chc_healthy c)"
  "chc_degraded (set_connector_health p c) = (if fst p = ConnectorDegraded then snd p else chc_degraded c)"
  "chc_auth_failed (set_connector_health p c) = (if fst p = AuthFailed then snd p else chc_auth_failed c)"
  "chc_rate_limited (set_connector_health p c) = (if fst p = ConnectorRateLimited then snd p else chc_rate_limited c)"
  "chc_unreachable (set_connector_health p c) = (if fst p = Unreachable then snd p else chc_unreachable c)"
  "chc_disabled (set_connector_health p c) = (if fst p = Disabled then snd p else chc_disabled c)"
  by (cases p; cases "fst p"; auto)+

lemma count_freshness_fold:
  assumes "res_fold (count_freshness cutoffs) rows [a, b, c] = Inr counts"
  shows "counts = [a + count_of (\<lambda>r. store_classify_freshness r cutoffs) (Inr Fresh) rows,
      b + count_of (\<lambda>r. store_classify_freshness r cutoffs) (Inr Stale) rows,
      c + count_of (\<lambda>r. store_classify_freshness r cutoffs) (Inr Expired) rows] \<and>
    sum_list counts = a + b + c + length rows"
  using assms
proof (induction rows arbitrary: a b c)
  case Nil
  then show ?case by (auto simp: count_of_def)
next
  case (Cons r rows)
  obtain cutoff where cutoff: "bt_get cutoffs (res_connection_id r) = Some cutoff"
    using Cons.prems by (cases "bt_get cutoffs (res_connection_id r)") (simp_all add: count_freshness_def)
  define v where "v = classify_millis (res_last_seen_at r) cutoff"
  have read: "store_classify_freshness r cutoffs = Inr v"
    by (simp add: store_classify_freshness_def cutoff v_def)
  have step: "count_freshness cutoffs r [a, b, c] =
      Inr (case v of Fresh \<Rightarrow> [Suc a, b, c] | Stale \<Rightarrow> [a, Suc b, c] | Expired \<Rightarrow> [a, b, Suc c])"
    by (cases v) (simp_all add: count_freshness_def freshness_index_def cutoff v_def[symmetric])
  show ?case
    using Cons.prems Cons.IH[of "Suc a" b c] Cons.IH[of a "Suc b" c] Cons.IH[of a b "Suc c"]
    by (cases v) (auto simp: step read count_of_Cons)
qed

text \<open>
  The health summary is exact: each count is the number of rows with its value (of the resources, and of
  the connections that are not deleted), and every resource is counted as fresh, stale or expired.
\<close>

theorem health_counts_exact:
  assumes "source_get_health_summary source = Inr snapshot"
  shows "\<exists>rows connections freshness.
    rows = bt_values (db_resources (cqs_store source)) \<and>
    connections = filter (\<lambda>c. conn_deleted_at c = None) (bt_values (db_connections (cqs_store source))) \<and>
    freshness = (\<lambda>r. store_classify_freshness r (query_cutoffs (cqs_context source))) \<and>
    hsb_resource_health (ss_body snapshot) =
      \<lparr>rhc_healthy = count_of res_health Healthy rows, rhc_degraded = count_of res_health Degraded rows,
       rhc_unhealthy = count_of res_health Unhealthy rows, rhc_unknown = count_of res_health Unknown rows\<rparr> \<and>
    hsb_freshness (ss_body snapshot) =
      \<lparr>frc_fresh = count_of freshness (Inr Fresh) rows, frc_stale = count_of freshness (Inr Stale) rows,
       frc_expired = count_of freshness (Inr Expired) rows\<rparr> \<and>
    hsb_connector_health (ss_body snapshot) =
      \<lparr>chc_healthy = count_of conn_health ConnectorHealthy connections,
       chc_degraded = count_of conn_health ConnectorDegraded connections,
       chc_auth_failed = count_of conn_health AuthFailed connections,
       chc_rate_limited = count_of conn_health ConnectorRateLimited connections,
       chc_unreachable = count_of conn_health Unreachable connections,
       chc_disabled = count_of conn_health Disabled connections\<rparr> \<and>
    count_of freshness (Inr Fresh) rows + count_of freshness (Inr Stale) rows +
      count_of freshness (Inr Expired) rows = length rows"
proof -
  define db where "db = cqs_store source"
  define cutoffs where "cutoffs = query_cutoffs (cqs_context source)"
  obtain projection where projection: "read_health_projection cutoffs db = Inr projection"
    and body: "ss_body snapshot = health_summary_dto projection"
    using assms
    by (auto simp: source_get_health_summary_def source_snapshot_def query_health_summary_def
        with_projection_snapshot_def res_simps Let_def db_def cutoffs_def)
  obtain resources connections counts where
    resources: "res_map (\<lambda>(t, n). map_ok (\<lambda>h. (h, n)) (resource_health_value t))
      (grouped_counts (map (\<lambda>r. resource_health_text (res_health r)) (bt_values (db_resources db)))) = Inr resources"
    and connections: "res_map (\<lambda>(t, n). map_ok (\<lambda>h. (h, n)) (connector_health_value t))
      (grouped_counts (map (\<lambda>c. connector_health_text (conn_health c))
        (filter (\<lambda>c. conn_deleted_at c = None) (bt_values (db_connections db))))) = Inr connections"
    and counts: "res_fold (count_freshness cutoffs) (bt_values (db_resources db)) [0, 0, 0] = Inr counts"
    and parts: "projection = \<lparr>hp_resource_health = resources,
      hp_freshness = [(Fresh, counts ! 0), (Stale, counts ! 1), (Expired, counts ! 2)],
      hp_connector_health = connections\<rparr>"
    using projection by (auto simp: read_health_projection_def res_simps)
  note r = grouped_values[OF resource_health_value_text resources]
  note c = grouped_values[OF connector_health_value_text connections]
  note f = count_freshness_fold[OF counts]
  have "hsb_resource_health (ss_body snapshot) = \<lparr>
      rhc_healthy = count_of res_health Healthy (bt_values (db_resources db)),
      rhc_degraded = count_of res_health Degraded (bt_values (db_resources db)),
      rhc_unhealthy = count_of res_health Unhealthy (bt_values (db_resources db)),
      rhc_unknown = count_of res_health Unknown (bt_values (db_resources db))\<rparr>"
    by (rule ResourceHealthCountsDto.equality)
      (simp_all add: body parts health_summary_dto_def fold_setter_count[OF set_resource_health_fields(1) r]
        fold_setter_count[OF set_resource_health_fields(2) r] fold_setter_count[OF set_resource_health_fields(3) r]
        fold_setter_count[OF set_resource_health_fields(4) r])
  moreover have "hsb_connector_health (ss_body snapshot) =
    (let rows = filter (\<lambda>c. conn_deleted_at c = None) (bt_values (db_connections db)) in \<lparr>
      chc_healthy = count_of conn_health ConnectorHealthy rows,
      chc_degraded = count_of conn_health ConnectorDegraded rows,
      chc_auth_failed = count_of conn_health AuthFailed rows,
      chc_rate_limited = count_of conn_health ConnectorRateLimited rows,
      chc_unreachable = count_of conn_health Unreachable rows,
      chc_disabled = count_of conn_health Disabled rows\<rparr>)"
    unfolding Let_def
    by (rule ConnectorHealthCountsDto.equality)
      (simp_all add: body parts health_summary_dto_def fold_setter_count[OF set_connector_health_fields(1) c]
        fold_setter_count[OF set_connector_health_fields(2) c] fold_setter_count[OF set_connector_health_fields(3) c]
        fold_setter_count[OF set_connector_health_fields(4) c] fold_setter_count[OF set_connector_health_fields(5) c]
        fold_setter_count[OF set_connector_health_fields(6) c])
  moreover have "hsb_freshness (ss_body snapshot) =
    (let count = (\<lambda>v. count_of (\<lambda>r. store_classify_freshness r cutoffs) (Inr v) (bt_values (db_resources db))) in
      \<lparr>frc_fresh = count Fresh, frc_stale = count Stale, frc_expired = count Expired\<rparr>)"
    using f by (simp add: body parts health_summary_dto_def Let_def)
  moreover have "count_of (\<lambda>r. store_classify_freshness r cutoffs) (Inr Fresh) (bt_values (db_resources db)) +
      count_of (\<lambda>r. store_classify_freshness r cutoffs) (Inr Stale) (bt_values (db_resources db)) +
      count_of (\<lambda>r. store_classify_freshness r cutoffs) (Inr Expired) (bt_values (db_resources db)) =
      length (bt_values (db_resources db))"
    using f by auto
  ultimately show ?thesis unfolding Let_def by (simp add: db_def cutoffs_def)
qed

text \<open>Two resources of a healthy connection and three changes, two of them at the same time in a run.\<close>

definition summary_change :: "string \<Rightarrow> int \<Rightarrow> Change" where
  "summary_change i at = \<lparr>chg_id = i, chg_subject = ResourceSubject ''r1'', chg_observed_at = at, chg_fields = [],
     chg_origin = SyncRunOrigin ''s1''\<rparr>"

definition summary_source :: CommittedQuerySource where
  "summary_source =
     \<lparr>cqs_store = sample_store\<lparr>db_resources :=
          [(''r1'', sample_resource),
           (''r2'', sample_resource\<lparr>res_id := ''r2'', res_external_id := ''2'', res_health := Unhealthy,
                     res_last_seen_at := 9\<rparr>)],
        db_changes := [(''x'', summary_change ''x'' 3), (''y'', summary_change ''y'' 5), (''z'', summary_change ''z'' 3)]\<rparr>,
      cqs_catalog = \<lparr>ccs_connectors = []\<rparr>,
      cqs_context = \<lparr>qcx_evaluated_at = 10, qcx_revision = 1,
        qcx_schedules = [(''c1'', \<lparr>qsc_interval_millis = 5, qsc_next_scheduled_at = None\<rparr>)]\<rparr>\<rparr>"

theorem timeline_groups_witness:
  "\<exists>snapshot. source_get_timeline summary_source \<lparr>mpl_limit = 5, mpl_after = None\<rparr> = Inr snapshot \<and>
     tsp_item_count (ss_body snapshot) = 3 \<and> groups_ok (tsp_groups (ss_body snapshot))"
proof -
  define items where "items = query_timeline (cqs_store summary_source) 5 None"
  have "(case items of Inr p \<Rightarrow> length (pp_items (ps_body p)) = 3 | Inl _ \<Rightarrow> False)"
    unfolding items_def by code_simp
  then obtain p where p: "items = Inr p" "length (pp_items (ps_body p)) = 3" by (cases items) simp_all
  then obtain snapshot where snapshot:
      "source_get_timeline summary_source \<lparr>mpl_limit = 5, mpl_after = None\<rparr> = Inr snapshot"
    by (simp add: source_get_timeline_def items_def Let_def)
  with timeline_groups[OF snapshot] p show ?thesis by (auto simp: items_def)
qed

theorem health_counts_exact_witness:
  "\<exists>snapshot. source_get_health_summary summary_source = Inr snapshot \<and>
     hsb_freshness (ss_body snapshot) = \<lparr>frc_fresh = 1, frc_stale = 1, frc_expired = 0\<rparr> \<and>
     frc_fresh (hsb_freshness (ss_body snapshot)) + frc_stale (hsb_freshness (ss_body snapshot)) +
       frc_expired (hsb_freshness (ss_body snapshot)) = length (bt_values (db_resources (cqs_store summary_source)))"
proof -
  define answer where "answer = source_get_health_summary summary_source"
  have "(case answer of
      Inr s \<Rightarrow> hsb_freshness (ss_body s) = \<lparr>frc_fresh = 1, frc_stale = 1, frc_expired = 0\<rparr> | Inl _ \<Rightarrow> False)"
    unfolding answer_def by code_simp
  then obtain snapshot where "answer = Inr snapshot"
    "hsb_freshness (ss_body snapshot) = \<lparr>frc_fresh = 1, frc_stale = 1, frc_expired = 0\<rparr>"
    by (cases answer) simp_all
  then show ?thesis using health_counts_exact[of summary_source snapshot] by (auto simp: answer_def)
qed

end
