(* ===== verification/Inference.thy ===== *)
theory Inference
  imports Writer_Queue
begin

text \<open>
  Crate \<open>next-infra-inference\<close>: a rule proposes candidate relations; the engine checks them against
  the store, gives each an identifier derived from its inputs, and commits one run whose relations
  replace those of the last run of the rule. The engine is generic over the trait
  \<open>InferenceStore\<close>; the random part of the run identifier is the argument \<open>uuid\<close>.
\<close>

section \<open>Data\<close>

definition MAX_INFERENCE_CANDIDATES :: nat where
  "MAX_INFERENCE_CANDIDATES = 1000"

record InferenceCandidate =
  cand_source :: ResourceId
  cand_target :: ResourceId
  cand_kind :: RelationKind
  cand_resource_inputs :: "ResourceVersionId list"
  cand_relation_inputs :: "RelationVersionId list"
  cand_confidence :: Confidence

datatype 'e InferenceError =
    InferenceStoreError 'e
  | InferenceInvalid DomainError
  | RuleNotRegistered
  | InputVersionMissing
  | CandidateLimit
  | ConflictingOutput

section \<open>Candidates\<close>

definition normalize_candidate :: "InferenceCandidate \<Rightarrow> DomainError + InferenceCandidate" where
  "normalize_candidate cand =
     (if cand_source cand = cand_target cand
      then Inl (invalid_value ''inference source and target must be different'')
      else
        let cand = cand\<lparr>cand_resource_inputs := remdups_adj (sort (cand_resource_inputs cand)),
                        cand_relation_inputs := remdups_adj (sort (cand_relation_inputs cand))\<rparr>
        in if cand_resource_inputs cand = [] \<and> cand_relation_inputs cand = []
           then Inl (invalid_value ''inference requires versioned inputs'') else Inr cand)"

definition inference_digest :: "codec \<Rightarrow> Value \<Rightarrow> DomainError + string" where
  "inference_digest c value =
     map_err (\<lambda>_. invalid_value ''inference value cannot be encoded'') (hex_digest c value)"

definition candidate_value :: "RuleVersion \<Rightarrow> InferenceCandidate \<Rightarrow> Value" where
  "candidate_value rule cand =
     json_object [(''rule_version'', JString rule), (''source_resource_id'', JString (cand_source cand)),
       (''target_resource_id'', JString (cand_target cand)), (''kind'', JString (cand_kind cand)),
       (''input_resource_version_ids'', json_strings (cand_resource_inputs cand)),
       (''input_relation_version_ids'', json_strings (cand_relation_inputs cand))]"

definition candidate_digest :: "codec \<Rightarrow> RuleVersion \<Rightarrow> InferenceCandidate \<Rightarrow> DomainError + string" where
  "candidate_digest c rule cand = inference_digest c (candidate_value rule cand)"

definition candidate_relation_id :: "codec \<Rightarrow> RuleVersion \<Rightarrow> InferenceCandidate \<Rightarrow> DomainError + RelationId" where
  "candidate_relation_id c rule cand =
     res_bind (candidate_digest c rule cand)
       (\<lambda>digest. string_value_new ''RelationId'' (''inferred-relation:'' @ digest))"

definition candidate_evidence_key :: "codec \<Rightarrow> RuleVersion \<Rightarrow> InferenceCandidate \<Rightarrow> DomainError + EvidenceKey" where
  "candidate_evidence_key c rule cand =
     res_bind (candidate_digest c rule cand)
       (\<lambda>digest. string_value_new ''EvidenceKey'' (''inference:'' @ digest))"

definition inferred_relation ::
    "codec \<Rightarrow> RuleVersion \<Rightarrow> InferenceCandidate \<Rightarrow> Timestamp \<Rightarrow> Relation option \<Rightarrow> DomainError + Relation" where
  "inferred_relation c rule cand at existing =
     res_bind (candidate_relation_id c rule cand) (\<lambda>relation_id.
     res_bind (candidate_evidence_key c rule cand) (\<lambda>evidence_key.
       Inr \<lparr>rel_id = relation_id, rel_source = cand_source cand, rel_target = cand_target cand,
            rel_kind = cand_kind cand, rel_evidence_key = evidence_key,
            rel_evidence = Inferred rule (cand_resource_inputs cand) (cand_relation_inputs cand)
              (cand_confidence cand),
            rel_first_seen_at = (case existing of None \<Rightarrow> at | Some r \<Rightarrow> rel_first_seen_at r),
            rel_last_seen_at = at, rel_lifecycle = Active\<rparr>))"

section \<open>Versions and changes\<close>

definition inferred_snapshot :: "Relation \<Rightarrow> Value" where
  "inferred_snapshot r =
     json_object [(''source_resource_id'', JString (rel_source r)),
       (''target_resource_id'', JString (rel_target r)), (''kind'', JString (rel_kind r)),
       (''evidence'', json_evidence (rel_evidence r)),
       (''lifecycle'', JString (lifecycle_text (rel_lifecycle r)))]"

definition inference_origin :: "RelationEvidence \<Rightarrow> DomainError + OriginRef" where
  "inference_origin evidence =
     (case evidence of
        Inferred rule res rel _ \<Rightarrow> Inr (InferenceOrigin rule res rel)
      | _ \<Rightarrow> Inl (invalid_value ''inference output has non-inferred evidence''))"

definition inferred_version :: "codec \<Rightarrow> Relation \<Rightarrow> Timestamp \<Rightarrow> DomainError + RelationVersion" where
  "inferred_version c r at =
     res_bind (inference_origin (rel_evidence r)) (\<lambda>origin.
     res_bind (string_value_new ''RelationVersionId''
       (''inference-relation-version:'' @ rel_id r @ '':'' @ show_int at)) (\<lambda>version_id.
     res_bind (inference_digest c (inferred_snapshot r)) (\<lambda>digest.
     res_bind (string_value_new ''Fingerprint'' (''sha256:'' @ digest)) (\<lambda>fp.
     res_bind (SchemaVersion_new 1) (\<lambda>schema.
       Inr \<lparr>relv_id = version_id, relv_relation_id = rel_id r, relv_observed_at = at,
            relv_snapshot = inferred_snapshot r, relv_fingerprint = fp,
            relv_schema_version = schema, relv_origin = origin\<rparr>)))))"

definition inferred_change :: "Relation option \<Rightarrow> Relation \<Rightarrow> Timestamp \<Rightarrow> DomainError + Change" where
  "inferred_change previous r at =
     res_bind (inference_origin (rel_evidence r)) (\<lambda>origin.
     res_bind (string_value_new ''ChangeId''
       (''inference-change:'' @ rel_id r @ '':'' @ show_int at)) (\<lambda>change_id.
     res_bind (string_value_new ''FieldPath'' ''relation.snapshot'') (\<lambda>path.
       Inr \<lparr>chg_id = change_id, chg_subject = RelationSubject (rel_id r), chg_observed_at = at,
            chg_fields = [\<lparr>fc_path = path, fc_before = map_option inferred_snapshot previous,
              fc_after = Some (inferred_snapshot r)\<rparr>],
            chg_origin = origin\<rparr>)))"

section \<open>The engine\<close>

definition check_input :: "('i \<Rightarrow> 'e + bool) \<Rightarrow> 'i \<Rightarrow> 'e InferenceError + unit" where
  "check_input exists i =
     res_bind (map_err InferenceStoreError (exists i)) (\<lambda>found. ensure found InputVersionMissing)"

definition validate_candidate ::
    "('s, 'e) InferenceStore \<Rightarrow> 's \<Rightarrow> InferenceCandidate \<Rightarrow> 'e InferenceError + unit" where
  "validate_candidate st s cand =
     res_bind (map_err InferenceStoreError (sr_get_resource st s (cand_source cand))) (\<lambda>source.
     res_bind (map_err InferenceStoreError (sr_get_resource st s (cand_target cand))) (\<lambda>target.
       if \<not> is_active source \<or> \<not> is_active target then Inl InputVersionMissing
       else res_bind (res_all (check_input (is_resource_version_exists st s)) (cand_resource_inputs cand)) (\<lambda>_.
         res_all (check_input (is_relation_version_exists st s)) (cand_relation_inputs cand))))"

record Produced =
  pr_relations :: "(RelationId, Relation) btree_map"
  pr_resource_inputs :: "ResourceVersionId btree_set"
  pr_relation_inputs :: "RelationVersionId btree_set"

definition produce ::
    "codec \<Rightarrow> ('s, 'e) InferenceStore \<Rightarrow> RuleVersion \<Rightarrow> Timestamp \<Rightarrow> (RelationId, Relation) btree_map \<Rightarrow>
     's \<Rightarrow> InferenceCandidate \<Rightarrow> Produced \<Rightarrow> 'e InferenceError + Produced" where
  "produce c st rule at existing s cand acc =
     res_bind (map_err InferenceInvalid (normalize_candidate cand)) (\<lambda>cand.
     res_bind (validate_candidate st s cand) (\<lambda>_.
       let acc = acc\<lparr>pr_resource_inputs := fold bs_insert (cand_resource_inputs cand) (pr_resource_inputs acc),
                     pr_relation_inputs := fold bs_insert (cand_relation_inputs cand) (pr_relation_inputs acc)\<rparr>
       in res_bind (map_err InferenceInvalid (candidate_relation_id c rule cand)) (\<lambda>relation_id.
          res_bind (map_err InferenceInvalid
            (inferred_relation c rule cand at (bt_get existing relation_id))) (\<lambda>r.
            case bt_get (pr_relations acc) (rel_id r) of
              Some previous \<Rightarrow> if previous \<noteq> r then Inl ConflictingOutput else Inr acc
            | None \<Rightarrow> Inr (acc\<lparr>pr_relations := bt_insert (rel_id r) r (pr_relations acc)\<rparr>)))))"

definition retire :: "Timestamp \<Rightarrow> Relation \<Rightarrow> Relation" where
  "retire at old = old\<lparr>rel_lifecycle := Tombstoned, rel_last_seen_at := at\<rparr>"

definition run_relations :: "Timestamp \<Rightarrow> Relation list \<Rightarrow> (RelationId, Relation) btree_map \<Rightarrow> Relation list" where
  "run_relations at existing produced =
     sort_key rel_id (bt_values produced @ map (retire at)
       (filter (\<lambda>old. bt_get produced (rel_id old) = None \<and> rel_lifecycle old \<noteq> Tombstoned) existing))"

definition run_inference ::
    "codec \<Rightarrow> ('s, 'e) InferenceStore \<Rightarrow> RuleVersion btree_set \<Rightarrow> string \<Rightarrow> RuleVersion \<Rightarrow>
     InferenceCandidate list \<Rightarrow> Timestamp \<Rightarrow> 's \<Rightarrow> 'e InferenceError + InferenceRun \<times> 's" where
  "run_inference c st registered uuid rule candidates at s =
     (if rule \<notin> set registered then Inl RuleNotRegistered
      else if length candidates > MAX_INFERENCE_CANDIDATES then Inl CandidateLimit
      else
        res_bind (map_err InferenceStoreError (is_inferred_relations_for_rule st s rule)) (\<lambda>existing.
          let existing_by_id = bt_of_list (map (\<lambda>r. (rel_id r, r)) existing) in
        res_bind (res_fold (produce c st rule at existing_by_id s) candidates
          \<lparr>pr_relations = [], pr_resource_inputs = [], pr_relation_inputs = []\<rparr>) (\<lambda>produced.
          let relations = run_relations at existing (pr_relations produced) in
        res_bind (map_err InferenceInvalid
          (string_value_new ''InferenceRunId'' (''inference-run:v1:'' @ uuid))) (\<lambda>run_id.
          let run = \<lparr>ir_id = run_id, ir_rule_version = rule, ir_started_at = at, ir_finished_at = Some at,
                ir_status = InferenceCompleted, ir_input_resource_version_ids = pr_resource_inputs produced,
                ir_input_relation_version_ids = pr_relation_inputs produced,
                ir_output_relation_ids = bt_keys (pr_relations produced)\<rparr>;
              news = filter (\<lambda>r. bt_get existing_by_id (rel_id r) \<noteq> Some r) relations in
        res_bind (map_err InferenceInvalid (res_map (\<lambda>r.
            res_bind (inferred_version c r at) (\<lambda>v.
            res_bind (inferred_change (bt_get existing_by_id (rel_id r)) r at) (\<lambda>ch. Inr (v, ch)))) news)) (\<lambda>records.
        res_bind (map_err InferenceStoreError (is_commit_inference st
            \<lparr>ic_run = run, ic_relations = relations, ic_relation_versions = map fst records,
             ic_changes = map snd records\<rparr> s)) (\<lambda>s. Inr (run, s)))))))"

section \<open>The engine on the store\<close>

definition inference_store :: "(Database, StoreError) InferenceStore" where
  "inference_store = StoreReader.extend store_reader
     \<lparr>is_resource_version_exists = resource_version_exists,
      is_relation_version_exists = relation_version_exists,
      is_inferred_relations_for_rule = inferred_relations_for_rule,
      is_commit_inference = commit_inference\<rparr>"

end
