(* ===== verification/Inference_Facts.thy ===== *)
theory Inference_Facts
  imports Inference Relation_Writes "HOL-Library.Multiset"
begin

text \<open>
  What the inference engine needs of its store, as the locale \<open>inference_ledger\<close>, and what a
  successful run then does to the relations.
\<close>

section \<open>The production of relations\<close>

lemma normalize_candidate_InrD:
  "normalize_candidate cand = Inr cand' \<Longrightarrow>
     cand_source cand' \<noteq> cand_target cand' \<and> cand_source cand' = cand_source cand \<and>
     cand_target cand' = cand_target cand \<and> cand_kind cand' = cand_kind cand \<and>
     cand_confidence cand' = cand_confidence cand \<and>
     set (cand_resource_inputs cand') = set (cand_resource_inputs cand) \<and>
     set (cand_relation_inputs cand') = set (cand_relation_inputs cand) \<and>
     (cand_resource_inputs cand' \<noteq> [] \<or> cand_relation_inputs cand' \<noteq> [])"
  by (auto simp: normalize_candidate_def Let_def split: if_splits)

lemma inferred_relation_InrD:
  "inferred_relation c rule cand at existing = Inr r \<Longrightarrow>
     candidate_relation_id c rule cand = Inr (rel_id r) \<and> rel_source r = cand_source cand \<and>
     rel_target r = cand_target cand \<and> rel_kind r = cand_kind cand \<and>
     rel_evidence r = Inferred rule (cand_resource_inputs cand) (cand_relation_inputs cand) (cand_confidence cand) \<and>
     rel_last_seen_at r = at \<and> rel_lifecycle r = Active"
  by (auto simp: inferred_relation_def res_simps)

definition proposes ::
    "codec \<Rightarrow> ('s, 'e) InferenceStore \<Rightarrow> RuleVersion \<Rightarrow> 's \<Rightarrow> InferenceCandidate \<Rightarrow> Relation \<Rightarrow> bool" where
  "proposes c st rule s cand r \<longleftrightarrow>
     (\<exists>cand' at existing. normalize_candidate cand = Inr cand' \<and> validate_candidate st s cand' = Inr () \<and>
        inferred_relation c rule cand' at existing = Inr r)"

lemma produce_InrE:
  fixes st :: "('s, 'e) InferenceStore"
  assumes "produce c st rule at existing s cand acc = Inr acc'"
  obtains cand' r where "normalize_candidate cand = Inr cand'" and "validate_candidate st s cand' = Inr ()"
    and "inferred_relation c rule cand' at (bt_get existing (rel_id r)) = Inr r"
    and "pr_resource_inputs acc' = fold bs_insert (cand_resource_inputs cand') (pr_resource_inputs acc)"
    and "pr_relation_inputs acc' = fold bs_insert (cand_relation_inputs cand') (pr_relation_inputs acc)"
    and "bt_get (pr_relations acc) (rel_id r) = Some r \<and> pr_relations acc' = pr_relations acc \<or>
      bt_get (pr_relations acc) (rel_id r) = None \<and>
      pr_relations acc' = bt_insert (rel_id r) r (pr_relations acc)"
proof -
  let ?acc = "\<lambda>cand'. acc\<lparr>pr_resource_inputs := fold bs_insert (cand_resource_inputs cand') (pr_resource_inputs acc),
    pr_relation_inputs := fold bs_insert (cand_relation_inputs cand') (pr_relation_inputs acc)\<rparr>"
  from assms obtain cand' u k r where h: "normalize_candidate cand = Inr cand'"
    "validate_candidate st s cand' = Inr u" "candidate_relation_id c rule cand' = Inr k"
    "inferred_relation c rule cand' at (bt_get existing k) = Inr r"
    and acc': "(case bt_get (pr_relations (?acc cand')) (rel_id r) of
        Some previous \<Rightarrow> if previous \<noteq> r then Inl ConflictingOutput else Inr (?acc cand')
      | None \<Rightarrow> Inr ((?acc cand')\<lparr>pr_relations := bt_insert (rel_id r) r (pr_relations (?acc cand'))\<rparr>)) =
      (Inr acc' :: 'e InferenceError + Produced)"
    unfolding produce_def Let_def
    by (elim res_bind_InrE, unfold map_err_eq_Inr) (rule that, assumption+)
  have "k = rel_id r" using inferred_relation_InrD[OF h(4)] h(3) by simp
  with h acc' that show thesis by (auto split: option.splits if_splits)
qed

definition produced_ok ::
    "codec \<Rightarrow> ('s, 'e) InferenceStore \<Rightarrow> RuleVersion \<Rightarrow> 's \<Rightarrow> InferenceCandidate set \<Rightarrow> Produced \<Rightarrow> bool" where
  "produced_ok c st rule s seen acc \<longleftrightarrow>
     bt_wf (pr_relations acc) \<and> bs_wf (pr_resource_inputs acc) \<and> bs_wf (pr_relation_inputs acc) \<and>
     set (pr_resource_inputs acc) = \<Union>(set ` cand_resource_inputs ` seen) \<and>
     set (pr_relation_inputs acc) = \<Union>(set ` cand_relation_inputs ` seen) \<and>
     (\<forall>k r. bt_get (pr_relations acc) k = Some r \<longrightarrow> rel_id r = k \<and> (\<exists>cand\<in>seen. proposes c st rule s cand r)) \<and>
     (\<forall>cand\<in>seen. \<exists>k r. bt_get (pr_relations acc) k = Some r \<and> proposes c st rule s cand r) \<and>
     (\<forall>k r. bt_get (pr_relations acc) k = Some r \<longrightarrow> evidence_type (rel_evidence r) = InferredType \<and>
        inferred_by rule (rel_evidence r) \<and> rel_lifecycle r = Active)"

lemma produce_ok:
  assumes "produced_ok c st rule s seen acc" and "produce c st rule at existing s cand acc = Inr acc'"
  shows "produced_ok c st rule s (insert cand seen) acc'"
proof -
  from assms(2) obtain cand' r where h: "normalize_candidate cand = Inr cand'"
    "validate_candidate st s cand' = Inr ()"
    "inferred_relation c rule cand' at (bt_get existing (rel_id r)) = Inr r"
    "pr_resource_inputs acc' = fold bs_insert (cand_resource_inputs cand') (pr_resource_inputs acc)"
    "pr_relation_inputs acc' = fold bs_insert (cand_relation_inputs cand') (pr_relation_inputs acc)"
    and table: "bt_get (pr_relations acc) (rel_id r) = Some r \<and> pr_relations acc' = pr_relations acc \<or>
      bt_get (pr_relations acc) (rel_id r) = None \<and>
      pr_relations acc' = bt_insert (rel_id r) r (pr_relations acc)"
    by (rule produce_InrE)
  have p: "proposes c st rule s cand r" unfolding proposes_def using h by blast
  have get: "bt_get (pr_relations acc') k = (if k = rel_id r then Some r else bt_get (pr_relations acc) k)" for k
    using table by (auto simp: bt_get_insert)
  note n = normalize_candidate_InrD[OF h(1)] and i = inferred_relation_InrD[OF h(3)]
  have old: "bt_wf (pr_relations acc)" "bs_wf (pr_resource_inputs acc)" "bs_wf (pr_relation_inputs acc)"
     "set (pr_resource_inputs acc) = \<Union>(set ` cand_resource_inputs ` seen)"
     "set (pr_relation_inputs acc) = \<Union>(set ` cand_relation_inputs ` seen)"
     and rows: "\<And>k r. bt_get (pr_relations acc) k = Some r \<Longrightarrow> rel_id r = k \<and> (\<exists>cand\<in>seen. proposes c st rule s cand r) \<and>
        evidence_type (rel_evidence r) = InferredType \<and> inferred_by rule (rel_evidence r) \<and> rel_lifecycle r = Active"
     and reached: "\<And>cand. cand \<in> seen \<Longrightarrow> \<exists>k r. bt_get (pr_relations acc) k = Some r \<and> proposes c st rule s cand r"
    using assms(1) unfolding produced_ok_def by blast+
  have "\<exists>k q. bt_get (pr_relations acc') k = Some q \<and> proposes c st rule s a q" if "a \<in> insert cand seen" for a
  proof (cases "a = cand")
    case True
    with p get[of "rel_id r"] show ?thesis by auto
  next
    case False
    with that have "a \<in> seen" by simp
    from reached[OF this] obtain k q where q: "bt_get (pr_relations acc) k = Some q" "proposes c st rule s a q"
      by blast
    have "bt_get (pr_relations acc') k = Some q" using q(1) table rows[OF q(1)] by (auto simp: bt_get_insert)
    with q(2) show ?thesis by blast
  qed
  moreover have "rel_id q = k \<and> (\<exists>cand\<in>insert cand seen. proposes c st rule s cand q) \<and>
      evidence_type (rel_evidence q) = InferredType \<and> inferred_by rule (rel_evidence q) \<and> rel_lifecycle q = Active"
    if "bt_get (pr_relations acc') k = Some q" for k q
    using that rows[of k q] p i unfolding get by (auto simp: inferred_by_def split: if_splits)
  moreover have "bt_wf (pr_relations acc')" using table old(1) by (auto simp: bt_wf_insert)
  ultimately show ?thesis
    unfolding produced_ok_def h(4,5) using old(2-5) n by (auto simp: bs_fold_insert)
qed

lemma produce_all_ok:
  assumes "res_fold (produce c st rule at existing s) cands acc = Inr acc'" and "produced_ok c st rule s seen acc"
  shows "produced_ok c st rule s (set cands \<union> seen) acc'"
  using assms
proof (induction cands arbitrary: acc seen)
  case Nil
  then show ?case by simp
next
  case (Cons cand cands)
  then obtain acc1 where acc1: "produce c st rule at existing s cand acc = Inr acc1"
    "res_fold (produce c st rule at existing s) cands acc1 = Inr acc'" by (auto simp: res_simps)
  have "produced_ok c st rule s (set cands \<union> insert cand seen) acc'"
    by (rule Cons.IH[OF acc1(2) produce_ok[OF Cons.prems(2) acc1(1)]])
  then show ?case by simp
qed

lemma produced_start: "produced_ok c st rule s {} \<lparr>pr_relations = [], pr_resource_inputs = [], pr_relation_inputs = []\<rparr>"
  by (simp add: produced_ok_def bs_wf_def)

section \<open>The relations of a run\<close>

lemma retire_simps [simp]:
  "rel_id (retire at old) = rel_id old" "rel_lifecycle (retire at old) = Tombstoned"
  "rel_evidence (retire at old) = rel_evidence old"
  by (simp_all add: retire_def)

lemma set_run_relations:
  assumes "bt_wf produced"
  shows "r \<in> set (run_relations at existing produced) \<longleftrightarrow>
    (\<exists>k. bt_get produced k = Some r) \<or>
    (\<exists>old\<in>set existing. bt_get produced (rel_id old) = None \<and> rel_lifecycle old \<noteq> Tombstoned \<and> r = retire at old)"
  using assms by (auto simp: run_relations_def bt_values_iff)

lemma distinct_run_relations:
  assumes "bt_wf produced" and "\<And>k r. bt_get produced k = Some r \<Longrightarrow> rel_id r = k"
    and "distinct (map rel_id existing)"
  shows "distinct (map rel_id (run_relations at existing produced))"
proof -
  let ?old = "filter (\<lambda>old. bt_get produced (rel_id old) = None \<and> rel_lifecycle old \<noteq> Tombstoned) existing"
  have "rel_id (snd e) = fst e" if "e \<in> set produced" for e
    using that assms(2)[of "fst e" "snd e"] bt_mem_iff[OF assms(1), of "fst e" "snd e"] by simp
  then have "map rel_id (bt_values produced) = map fst produced" by (simp add: bt_values_def)
  then have "distinct (map rel_id (bt_values produced))"
    using bt_wf_distinct[OF assms(1)] by simp
  moreover have "distinct (map rel_id ?old)" using assms(3) by (rule distinct_map_filter)
  moreover have "rel_id ` set (bt_values produced) \<inter> rel_id ` set ?old = {}"
    using assms(1,2) by (auto simp: bt_values_iff)
  ultimately have all: "distinct (map rel_id (bt_values produced @ map (retire at) ?old))"
    unfolding map_append distinct_append map_map comp_def retire_simps set_map image_image by blast
  have "mset (map rel_id (run_relations at existing produced)) =
      mset (map rel_id (bt_values produced @ map (retire at) ?old))"
    unfolding run_relations_def by (simp only: mset_map mset_sort)
  from mset_eq_imp_distinct_iff[OF this] all show ?thesis by blast
qed

lemma run_inference_InrE:
  fixes st :: "('s, 'e) InferenceStore"
  assumes "run_inference c st registered uuid rule candidates at s = Inr (run, s')"
  obtains existing produced commit where
    "rule \<in> set registered" "length candidates \<le> MAX_INFERENCE_CANDIDATES"
    "is_inferred_relations_for_rule st s rule = Inr existing"
    "res_fold (produce c st rule at (bt_of_list (map (\<lambda>r. (rel_id r, r)) existing)) s) candidates
      \<lparr>pr_relations = [], pr_resource_inputs = [], pr_relation_inputs = []\<rparr> =
      (Inr produced :: 'e InferenceError + Produced)"
    "ic_relations commit = run_relations at existing (pr_relations produced)" "ic_run commit = run"
    "is_commit_inference st commit s = Inr s'" "ir_rule_version run = rule"
    "ir_output_relation_ids run = bt_keys (pr_relations produced)"
    "ir_input_resource_version_ids run = pr_resource_inputs produced"
    "ir_input_relation_version_ids run = pr_relation_inputs produced"
proof -
  from assms have h: "rule \<in> set registered" "length candidates \<le> MAX_INFERENCE_CANDIDATES"
    by (auto simp: run_inference_def split: if_splits)
  from assms obtain existing where existing: "is_inferred_relations_for_rule st s rule = Inr existing"
    by (auto simp: run_inference_def res_bind_eq_Inr map_err_eq_Inr split: if_splits)
  from assms h existing obtain produced where produced:
    "res_fold (produce c st rule at (bt_of_list (map (\<lambda>r. (rel_id r, r)) existing)) s) candidates
      \<lparr>pr_relations = [], pr_resource_inputs = [], pr_relation_inputs = []\<rparr> =
      (Inr produced :: 'e InferenceError + Produced)"
    by (auto simp: run_inference_def res_bind_eq_Inr map_err_eq_Inr Let_def split: if_splits)
  from assms h existing produced show thesis
    by (auto simp: run_inference_def res_bind_eq_Inr map_err_eq_Inr Let_def split: if_splits intro!: that)
qed

section \<open>The contract\<close>

locale inference_ledger =
  fixes st :: "('s, 'e) InferenceStore"
    and relations :: "'s \<Rightarrow> RelationId \<Rightarrow> Relation option"
    and inv :: "'s \<Rightarrow> bool"
  assumes key_law: "inv s \<Longrightarrow> relations s k = Some row \<Longrightarrow> rel_id row = k"
    and existing_law: "inv s \<Longrightarrow> is_inferred_relations_for_rule st s rule = Inr rs \<Longrightarrow>
      distinct (map rel_id rs) \<and>
      (\<forall>r. r \<in> set rs \<longleftrightarrow> relations s (rel_id r) = Some r \<and> inferred_by rule (rel_evidence r))"
    and commit_law: "inv s \<Longrightarrow> is_commit_inference st commit s = Inr s' \<Longrightarrow>
      inv s' \<and> upserted (relations s) (ic_relations commit) = Some (relations s')"
begin

text \<open>The rows after a run, by the map of produced relations.\<close>

lemma rows_after:
  assumes "inv s" and "is_inferred_relations_for_rule st s rule = Inr existing" and "bt_wf produced"
    and rows: "\<And>k r. bt_get produced k = Some r \<Longrightarrow> rel_id r = k"
    and up: "upserted (relations s) (run_relations at existing produced) = Some n"
  shows "bt_get produced k = Some r \<Longrightarrow> \<exists>row. n k = Some row \<and> relation_key row = relation_key r \<and>
      rel_evidence row = rel_evidence r \<and> rel_lifecycle row = rel_lifecycle r \<and>
      rel_last_seen_at row = rel_last_seen_at r"
    and "n k = Some row \<Longrightarrow> inferred_by rule (rel_evidence row) \<Longrightarrow> bt_get produced k = None \<Longrightarrow>
      rel_lifecycle row = Tombstoned"
    and "relations s k = Some row \<Longrightarrow> \<not> inferred_by rule (rel_evidence row) \<Longrightarrow> bt_get produced k = None \<Longrightarrow>
      n k = Some row"
proof -
  let ?rs = "run_relations at existing produced"
  note ex = existing_law[OF assms(1,2)] and mem = set_run_relations[OF assms(3)]
  have dist: "distinct (map rel_id ?rs)" by (rule distinct_run_relations[OF assms(3) rows]) (use ex in auto)
  have retired: "\<exists>old\<in>set existing. r = retire at old" if "r \<in> set ?rs" "bt_get produced (rel_id r) = None" for r
    using that rows unfolding mem by auto
  show "\<exists>row. n k = Some row \<and> relation_key row = relation_key r \<and>
      rel_evidence row = rel_evidence r \<and> rel_lifecycle row = rel_lifecycle r \<and>
      rel_last_seen_at row = rel_last_seen_at r" if "bt_get produced k = Some r"
    using upserted_once[OF up dist, of r] rows[OF that] that unfolding mem by auto
  show "rel_lifecycle row = Tombstoned"
    if h: "n k = Some row" "inferred_by rule (rel_evidence row)" "bt_get produced k = None"
  proof (cases "k \<in> rel_id ` set ?rs")
    case True
    then obtain r where r: "r \<in> set ?rs" "rel_id r = k" by auto
    with retired h(3) obtain old where "r = retire at old" by blast
    with upserted_once[OF up dist r(1)] r(2) h(1) show ?thesis by auto
  next
    case False
    with upserted_other[OF up] h(1) have row: "relations s k = Some row" by simp
    with key_law[OF assms(1) row] ex h(2) have old: "row \<in> set existing" "rel_id row = k" by auto
    show ?thesis
    proof (rule ccontr)
      assume "rel_lifecycle row \<noteq> Tombstoned"
      with old h(3) have "retire at row \<in> set ?rs" unfolding mem by blast
      with False old(2) show False by (metis image_eqI retire_simps(1))
    qed
  qed
  show "n k = Some row"
    if h: "relations s k = Some row" "\<not> inferred_by rule (rel_evidence row)" "bt_get produced k = None"
  proof -
    have "k \<notin> rel_id ` set ?rs"
    proof
      assume "k \<in> rel_id ` set ?rs"
      then obtain r where r: "r \<in> set ?rs" "rel_id r = k" by auto
      with retired h(3) obtain old where "r = retire at old" "old \<in> set existing" by blast
      with ex r(2) h(1,2) show False by auto
    qed
    with upserted_other[OF up] h(1) show ?thesis by simp
  qed
qed

lemma run_result:
  assumes "run_inference c st registered uuid rule candidates at s = Inr (run, s')" and "inv s"
  obtains produced where "inv s'" and "ir_output_relation_ids run = bt_keys (pr_relations produced)"
    and "produced_ok c st rule s (set candidates) produced"
    and "\<And>k r. bt_get (pr_relations produced) k = Some r \<Longrightarrow> \<exists>row. relations s' k = Some row \<and>
      relation_key row = relation_key r \<and> rel_evidence row = rel_evidence r \<and> rel_lifecycle row = Active"
    and "\<And>k row. relations s' k = Some row \<Longrightarrow> inferred_by rule (rel_evidence row) \<Longrightarrow>
      bt_get (pr_relations produced) k = None \<Longrightarrow> rel_lifecycle row = Tombstoned"
    and "\<And>k row. relations s k = Some row \<Longrightarrow> \<not> inferred_by rule (rel_evidence row) \<Longrightarrow>
      bt_get (pr_relations produced) k = None \<Longrightarrow> relations s' k = Some row"
proof -
  from assms(1) obtain existing produced commit where run:
    "is_inferred_relations_for_rule st s rule = Inr existing"
    "res_fold (produce c st rule at (bt_of_list (map (\<lambda>r. (rel_id r, r)) existing)) s) candidates
      \<lparr>pr_relations = [], pr_resource_inputs = [], pr_relation_inputs = []\<rparr> =
      (Inr produced :: 'e InferenceError + Produced)"
    "ic_relations commit = run_relations at existing (pr_relations produced)"
    "is_commit_inference st commit s = Inr s'"
    "ir_output_relation_ids run = bt_keys (pr_relations produced)"
    by (rule run_inference_InrE)
  have ok: "produced_ok c st rule s (set candidates) produced"
    using produce_all_ok[OF run(2) produced_start] by simp
  then have wf: "bt_wf (pr_relations produced)"
    and key: "\<And>k r. bt_get (pr_relations produced) k = Some r \<Longrightarrow> rel_id r = k"
    and live: "\<And>k r. bt_get (pr_relations produced) k = Some r \<Longrightarrow> rel_lifecycle r = Active"
    unfolding produced_ok_def by blast+
  have law: "inv s'" "upserted (relations s) (run_relations at existing (pr_relations produced)) = Some (relations s')"
    using commit_law[OF assms(2) run(4)] run(3) by auto
  note after = rows_after[OF assms(2) run(1) wf key law(2)]
  show thesis
    by (rule that[OF law(1) run(5) ok]) (use after live in \<open>fastforce+\<close>)
qed

end

end
