(* ===== verification/Inference_Properties.thy ===== *)
theory Inference_Properties
  imports Inference_Facts Store_Steps
begin

text \<open>
  The inference engine on the SQLite store: the store honours the contract \<open>inference_ledger\<close>; what a
  run makes visible, what justifies it, its bounds, and that its outputs depend on the candidates only.
\<close>

section \<open>The store honours the contract\<close>

lemma inference_store_simps [simp]:
  "is_inferred_relations_for_rule inference_store = inferred_relations_for_rule"
  "is_commit_inference inference_store = commit_inference"
  "is_resource_version_exists inference_store = resource_version_exists"
  "is_relation_version_exists inference_store = relation_version_exists"
  "sr_get_resource inference_store = get_resource"
  by (simp_all add: inference_store_def StoreReader.extend_def store_reader_def)

lemma read_relation_same: "read_relation r = Inr r' \<Longrightarrow> r' = r"
  by (auto simp: read_relation_def split: if_splits)

lemma inferred_relations_eq:
  "inferred_relations_for_rule db rule = Inr rs \<Longrightarrow>
     rs = filter (\<lambda>r. inferred_by rule (rel_evidence r)) (bt_values (db_relations db))"
  by (auto simp: inferred_relations_for_rule_def intro: res_map_same read_relation_same)

lemma table_ok_distinct: "table_ok key m \<Longrightarrow> distinct (map key (bt_values m))"
proof -
  assume ok: "table_ok key m"
  have "key (snd e) = fst e" if "e \<in> set m" for e
    using that ok bt_mem_iff[OF table_ok_wf[OF ok], of "fst e" "snd e"] by (simp add: table_ok_def)
  then have "map key (bt_values m) = map fst m" by (simp add: bt_values_def)
  with bt_wf_distinct[OF table_ok_wf[OF ok]] show ?thesis by simp
qed

lemma insert_inference_output_frame:
  "insert_inference_output commit i u = Inr v \<Longrightarrow> db_relations v = db_relations u"
  by (auto simp: insert_inference_output_def Let_def split: option.splits if_splits)

lemma commit_inference_relations:
  assumes "commit_inference commit db = Inr db'"
  shows "upserted (bt_get (db_relations db)) (ic_relations commit) = Some (bt_get (db_relations db'))"
proof -
  from assms obtain db1 db2 db3 db4 db5 n1 n2 at where
    chain: "insert_inference_run (ic_run commit) db = Inr db1"
    "res_fold upsert_relation (ic_relations commit) db1 = Inr db2"
    "write_all insert_relation_version (ic_relation_versions commit) db2 = Inr (n1, db3)"
    "write_all insert_change (ic_changes commit) db3 = Inr (n2, db4)"
    "res_fold (insert_inference_output commit) (ir_output_relation_ids (ic_run commit)) db4 = Inr db5"
    "db' = set_projection_metadata at db5"
    by (auto simp: commit_inference_def res_simps)
  obtain y z where frames: "db3 = db2\<lparr>db_relation_versions := y\<rparr>" "db4 = db3\<lparr>db_changes := z\<rparr>"
    using insert_relation_versions_frame[OF chain(3)] insert_changes_frame[OF chain(4)] by metis
  have "db_relations db5 = db_relations db4"
    by (rule res_fold_frame[OF chain(5)]) (rule insert_inference_output_frame)
  moreover have "db_relations db1 = db_relations db"
    using chain(1) by (auto simp: insert_inference_run_def split: if_splits)
  ultimately show ?thesis
    using upsert_relations_upserted[OF chain(2)] frames chain(6) by simp
qed

interpretation inference_sqlite: inference_ledger inference_store "\<lambda>db. bt_get (db_relations db)" db_ok
proof unfold_locales
  fix db k row
  assume "db_ok db" "bt_get (db_relations db) k = Some row"
  then show "rel_id row = k" by (auto simp: db_ok_defs table_ok_def)
next
  fix db rule rs
  assume h: "db_ok db" "is_inferred_relations_for_rule inference_store db rule = Inr rs"
  then have ok: "table_ok rel_id (db_relations db)" by (auto simp: db_ok_defs)
  have rs: "rs = filter (\<lambda>r. inferred_by rule (rel_evidence r)) (bt_values (db_relations db))"
    using h(2) by (auto intro: inferred_relations_eq)
  show "distinct (map rel_id rs) \<and>
      (\<forall>r. r \<in> set rs \<longleftrightarrow> bt_get (db_relations db) (rel_id r) = Some r \<and> inferred_by rule (rel_evidence r))"
    unfolding rs using table_ok_distinct[OF ok] table_ok_values[OF ok] by (auto intro: distinct_map_filter)
next
  fix db commit db'
  assume h: "db_ok db" "is_commit_inference inference_store commit db = Inr db'"
  then show "db_ok db' \<and> upserted (bt_get (db_relations db)) (ic_relations commit) = Some (bt_get (db_relations db'))"
    using commit_inference_relations commit_inference_ok by simp
qed

section \<open>Properties\<close>

text \<open>
  C20. A run of a rule replaces what the rule showed: afterwards a relation inferred by the rule is not
  tombstoned exactly when it is an output of the run, the outputs are stored as active relations of the
  rule, every candidate has its output, and relations of other origin are untouched.
\<close>

theorem run_inference_replaces:
  assumes "db_ok db"
    and "run_inference c inference_store registered uuid rule candidates at db = Inr (run, db')"
  shows "db_ok db' \<and>
    (\<forall>k row. bt_get (db_relations db') k = Some row \<longrightarrow> inferred_by rule (rel_evidence row) \<longrightarrow>
      (rel_lifecycle row \<noteq> Tombstoned \<longleftrightarrow> k \<in> set (ir_output_relation_ids run))) \<and>
    (\<forall>k\<in>set (ir_output_relation_ids run). \<exists>row. bt_get (db_relations db') k = Some row \<and>
      rel_lifecycle row = Active \<and> inferred_by rule (rel_evidence row)) \<and>
    (\<forall>cand\<in>set candidates. \<exists>k\<in>set (ir_output_relation_ids run). \<exists>row.
      bt_get (db_relations db') k = Some row \<and> rel_source row = cand_source cand \<and>
      rel_target row = cand_target cand \<and> rel_kind row = cand_kind cand) \<and>
    (\<forall>k row. bt_get (db_relations db) k = Some row \<longrightarrow> \<not> inferred_by rule (rel_evidence row) \<longrightarrow>
      k \<notin> set (ir_output_relation_ids run) \<longrightarrow> bt_get (db_relations db') k = Some row)"
proof -
  obtain produced where r: "db_ok db'" "ir_output_relation_ids run = bt_keys (pr_relations produced)"
    "produced_ok c inference_store rule db (set candidates) produced"
    "\<And>k r. bt_get (pr_relations produced) k = Some r \<Longrightarrow> \<exists>row. bt_get (db_relations db') k = Some row \<and>
      relation_key row = relation_key r \<and> rel_evidence row = rel_evidence r \<and> rel_lifecycle row = Active"
    "\<And>k row. bt_get (db_relations db') k = Some row \<Longrightarrow> inferred_by rule (rel_evidence row) \<Longrightarrow>
      bt_get (pr_relations produced) k = None \<Longrightarrow> rel_lifecycle row = Tombstoned"
    "\<And>k row. bt_get (db_relations db) k = Some row \<Longrightarrow> \<not> inferred_by rule (rel_evidence row) \<Longrightarrow>
      bt_get (pr_relations produced) k = None \<Longrightarrow> bt_get (db_relations db') k = Some row"
    by (rule inference_sqlite.run_result[OF assms(2,1)], rule that; assumption)
  have out: "k \<in> set (ir_output_relation_ids run) \<longleftrightarrow> bt_get (pr_relations produced) k \<noteq> None" for k
    unfolding r(2) by (rule bt_keys_iff)
  have mine: "inferred_by rule (rel_evidence q)" if "bt_get (pr_relations produced) k = Some q" for k q
    using r(3) that unfolding produced_ok_def by blast
  have "\<exists>k\<in>set (ir_output_relation_ids run). \<exists>row. bt_get (db_relations db') k = Some row \<and>
      rel_source row = cand_source cand \<and> rel_target row = cand_target cand \<and> rel_kind row = cand_kind cand"
    if cand: "cand \<in> set candidates" for cand
  proof -
    from r(3) cand obtain k q where q: "bt_get (pr_relations produced) k = Some q"
      "proposes c inference_store rule db cand q" unfolding produced_ok_def by blast
    with r(4)[OF q(1)] out[of k] show ?thesis
      by (force simp: proposes_def relation_key_def dest!: normalize_candidate_InrD inferred_relation_InrD)
  qed
  moreover have "\<exists>row. bt_get (db_relations db') k = Some row \<and> rel_lifecycle row = Active \<and>
      inferred_by rule (rel_evidence row)" if "k \<in> set (ir_output_relation_ids run)" for k
    using that out r(4) mine by (metis option.exhaust)
  moreover from this have "rel_lifecycle row \<noteq> Tombstoned \<longleftrightarrow> k \<in> set (ir_output_relation_ids run)"
    if "bt_get (db_relations db') k = Some row" "inferred_by rule (rel_evidence row)" for k row
    using that r(5) out by (metis Lifecycle.distinct(1) option.inject)
  ultimately show ?thesis using r(1,6) out by blast
qed

text \<open>
  C21. Every output of a run is justified: it is the relation of one of the candidates, between two different
  resources that were active, and its evidence names the inputs and the confidence of the candidate;
  there is at least one input, and all of them are stored versions.
\<close>

theorem run_inference_justified:
  assumes "db_ok db"
    and "run_inference c inference_store registered uuid rule candidates at db = Inr (run, db')"
    and "k \<in> set (ir_output_relation_ids run)"
  shows "\<exists>row cand res rel. bt_get (db_relations db') k = Some row \<and> cand \<in> set candidates \<and>
    rel_source row = cand_source cand \<and> rel_target row = cand_target cand \<and> rel_kind row = cand_kind cand \<and>
    rel_source row \<noteq> rel_target row \<and> is_active (bt_get (db_resources db) (rel_source row)) \<and>
    is_active (bt_get (db_resources db) (rel_target row)) \<and>
    rel_evidence row = Inferred rule res rel (cand_confidence cand) \<and>
    set res = set (cand_resource_inputs cand) \<and> set rel = set (cand_relation_inputs cand) \<and>
    (res \<noteq> [] \<or> rel \<noteq> []) \<and> (\<forall>v\<in>set res. has_key (db_resource_versions db) v) \<and>
    (\<forall>v\<in>set rel. has_key (db_relation_versions db) v)"
proof -
  obtain produced where r: "ir_output_relation_ids run = bt_keys (pr_relations produced)"
    "produced_ok c inference_store rule db (set candidates) produced"
    "\<And>k r. bt_get (pr_relations produced) k = Some r \<Longrightarrow> \<exists>row. bt_get (db_relations db') k = Some row \<and>
      relation_key row = relation_key r \<and> rel_evidence row = rel_evidence r \<and> rel_lifecycle row = Active"
    by (rule inference_sqlite.run_result[OF assms(2,1)], rule that; assumption)
  from assms(3) r(1) obtain q where q: "bt_get (pr_relations produced) k = Some q" by (auto simp: bt_keys_iff)
  with r(2) obtain cand where cand: "cand \<in> set candidates" "proposes c inference_store rule db cand q"
    unfolding produced_ok_def by blast
  from r(3)[OF q] obtain row where row: "bt_get (db_relations db') k = Some row"
    "relation_key row = relation_key q" "rel_evidence row = rel_evidence q" by blast
  from cand(2) obtain cand' at' existing where p: "normalize_candidate cand = Inr cand'"
    "validate_candidate inference_store db cand' = Inr ()" "inferred_relation c rule cand' at' existing = Inr q"
    unfolding proposes_def by blast
  note n = normalize_candidate_InrD[OF p(1)] and i = inferred_relation_InrD[OF p(3)]
  have get: "get_resource db j = Inr x \<Longrightarrow> x = bt_get (db_resources db) j" for j x
    by (auto simp: get_resource_def read_resource_def split: if_splits intro!: query_optional_same)
  have v: "is_active (bt_get (db_resources db) (cand_source cand'))"
    "is_active (bt_get (db_resources db) (cand_target cand'))"
    "\<forall>v\<in>set (cand_resource_inputs cand'). has_key (db_resource_versions db) v"
    "\<forall>v\<in>set (cand_relation_inputs cand'). has_key (db_relation_versions db) v"
    using p(2) by (auto simp: validate_candidate_def res_simps res_all_eq_Inr check_input_def
        resource_version_exists_def relation_version_exists_def split: if_splits dest!: get)
  show ?thesis
    by (rule exI[of _ row], rule exI[of _ cand], rule exI[of _ "cand_resource_inputs cand'"],
        rule exI[of _ "cand_relation_inputs cand'"])
      (use row cand(1) n i v in \<open>auto simp: relation_key_def\<close>)
qed

text \<open>The identifier of the output of a candidate depends on the rule and the candidate only.\<close>

definition output_id :: "codec \<Rightarrow> RuleVersion \<Rightarrow> InferenceCandidate \<Rightarrow> RelationId" where
  "output_id c rule cand = projr (res_bind (normalize_candidate cand) (candidate_relation_id c rule))"

lemma proposes_id: "proposes c st rule s cand r \<Longrightarrow> rel_id r = output_id c rule cand"
  by (auto simp: proposes_def output_id_def dest!: inferred_relation_InrD)

lemma run_inference_outputs:
  fixes st :: "('s, 'e) InferenceStore"
  assumes "run_inference c st registered uuid rule candidates at s = Inr (run, s')"
  shows "length candidates \<le> MAX_INFERENCE_CANDIDATES \<and>
    bs_wf (ir_output_relation_ids run) \<and> set (ir_output_relation_ids run) = output_id c rule ` set candidates \<and>
    bs_wf (ir_input_resource_version_ids run) \<and> bs_wf (ir_input_relation_version_ids run) \<and>
    set (ir_input_resource_version_ids run) = \<Union>(set ` cand_resource_inputs ` set candidates) \<and>
    set (ir_input_relation_version_ids run) = \<Union>(set ` cand_relation_inputs ` set candidates)"
proof -
  from assms obtain existing produced where run: "length candidates \<le> MAX_INFERENCE_CANDIDATES"
    "res_fold (produce c st rule at (bt_of_list (map (\<lambda>r. (rel_id r, r)) existing)) s) candidates
      \<lparr>pr_relations = [], pr_resource_inputs = [], pr_relation_inputs = []\<rparr> =
      (Inr produced :: 'e InferenceError + Produced)"
    and outs: "ir_output_relation_ids run = bt_keys (pr_relations produced)"
    "ir_input_resource_version_ids run = pr_resource_inputs produced"
    "ir_input_relation_version_ids run = pr_relation_inputs produced"
    by (rule run_inference_InrE)
  have ok: "produced_ok c st rule s (set candidates) produced"
    using produce_all_ok[OF run(2) produced_start] by simp
  have "k \<in> set (ir_output_relation_ids run) \<longleftrightarrow> k \<in> output_id c rule ` set candidates" for k
  proof
    assume "k \<in> set (ir_output_relation_ids run)"
    then obtain r where r: "bt_get (pr_relations produced) k = Some r" unfolding outs by (auto simp: bt_keys_iff)
    with ok obtain cand where "rel_id r = k" "cand \<in> set candidates" "proposes c st rule s cand r"
      unfolding produced_ok_def by blast
    then show "k \<in> output_id c rule ` set candidates" using proposes_id[of c st rule s cand r] by auto
  next
    assume "k \<in> output_id c rule ` set candidates"
    then obtain cand where cand: "cand \<in> set candidates" "k = output_id c rule cand" by blast
    with ok obtain j r where r: "bt_get (pr_relations produced) j = Some r" "proposes c st rule s cand r"
      unfolding produced_ok_def by blast
    with ok have "rel_id r = j" unfolding produced_ok_def by blast
    with r proposes_id[OF r(2)] cand(2) show "k \<in> set (ir_output_relation_ids run)"
      unfolding outs by (simp add: bt_keys_iff)
  qed
  moreover have "bs_wf (ir_output_relation_ids run)"
    using ok unfolding outs produced_ok_def by (simp add: bs_wf_def bt_keys_def bt_wf_def)
  ultimately show ?thesis
    using run(1) conjunct1[OF ok[unfolded produced_ok_def, THEN conjunct2]]
      ok[unfolded produced_ok_def, THEN conjunct2, THEN conjunct2]
    by (auto simp only: outs(2,3))
qed

text \<open>
  Bounds of a run: more than a thousand candidates are refused for a registered rule, and a
  successful run never has more outputs than candidates; outputs and inputs are listed without repetition, and the
  inputs are exactly those of the candidates.
\<close>

theorem run_inference_bounded:
  fixes st :: "('s, 'e) InferenceStore"
  shows "(rule \<in> set registered \<and> length candidates > 1000 \<longrightarrow>
      run_inference c st registered uuid rule candidates at s = Inl CandidateLimit) \<and>
    (\<forall>run s'. run_inference c st registered uuid rule candidates at s = Inr (run, s') \<longrightarrow>
      length (ir_output_relation_ids run) \<le> length candidates \<and> length candidates \<le> 1000 \<and>
      distinct (ir_output_relation_ids run) \<and> distinct (ir_input_resource_version_ids run) \<and>
      distinct (ir_input_relation_version_ids run) \<and>
      set (ir_input_resource_version_ids run) = \<Union>(set ` cand_resource_inputs ` set candidates) \<and>
      set (ir_input_relation_version_ids run) = \<Union>(set ` cand_relation_inputs ` set candidates))"
proof (intro conjI allI impI)
  assume "rule \<in> set registered \<and> length candidates > 1000"
  then show "run_inference c st registered uuid rule candidates at s = Inl CandidateLimit"
    by (simp add: run_inference_def MAX_INFERENCE_CANDIDATES_def)
next
  fix run s'
  assume "run_inference c st registered uuid rule candidates at s = Inr (run, s')"
  note o = run_inference_outputs[OF this]
  have "length (ir_output_relation_ids run) = card (output_id c rule ` set candidates)"
    using o bs_wf_distinct distinct_card by metis
  also have "\<dots> \<le> length candidates"
    by (meson card_image_le card_length finite_set le_trans)
  finally show "length (ir_output_relation_ids run) \<le> length candidates" .
  show "length candidates \<le> 1000" "distinct (ir_output_relation_ids run)"
    "distinct (ir_input_resource_version_ids run)" "distinct (ir_input_relation_version_ids run)"
    "set (ir_input_resource_version_ids run) = \<Union>(set ` cand_resource_inputs ` set candidates)"
    "set (ir_input_relation_version_ids run) = \<Union>(set ` cand_relation_inputs ` set candidates)"
    using o by (simp_all add: MAX_INFERENCE_CANDIDATES_def bs_wf_distinct)
qed

text \<open>
  The outputs of a rule are determined by the set of its candidates: two successful runs over the same
  candidates, in any order and with repetitions, at any times and on any stores, list the same output
  relations and the same inputs.
\<close>

theorem run_inference_deterministic:
  fixes st :: "('s, 'e) InferenceStore" and st' :: "('t, 'f) InferenceStore"
  assumes "run_inference c st registered uuid rule candidates at s = Inr (run, s')"
    and "run_inference c st' registered' uuid' rule candidates' at' t = Inr (run', t')"
    and "set candidates' = set candidates"
  shows "ir_output_relation_ids run' = ir_output_relation_ids run \<and>
    ir_input_resource_version_ids run' = ir_input_resource_version_ids run \<and>
    ir_input_relation_version_ids run' = ir_input_relation_version_ids run"
  using run_inference_outputs[OF assms(1)] run_inference_outputs[OF assms(2)] assms(3)
  by (simp add: bs_ext)

section \<open>Examples\<close>

definition sample_candidate :: "Confidence \<Rightarrow> InferenceCandidate" where
  "sample_candidate confidence =
     \<lparr>cand_source = ''r1'', cand_target = ''r2'', cand_kind = ''app.uses'',
      cand_resource_inputs = [''v1''], cand_relation_inputs = [], cand_confidence = confidence\<rparr>"

definition inference_base :: Database where
  "inference_base = sample_store\<lparr>db_resources :=
     [(''r1'', sample_resource), (''r2'', sample_resource\<lparr>res_id := ''r2'', res_external_id := ''2''\<rparr>)]\<rparr>"

lemma inference_base_ok: "db_ok inference_base"
  by (auto simp: db_ok_defs inference_base_def sample_store_def empty_database_def table_ok_def refs_def
      key_refs_def unique_by_def has_key_def bt_wf_def sample_connection_def sample_run_def
      sample_resource_def sample_version_def resource_identity_def)

lemma sample_run_inference:
  "\<exists>run db'. run_inference brief_codec inference_store [''rule:1''] ''u'' ''rule:1'' [sample_candidate 10] 5
     inference_base = Inr (run, db') \<and> ir_output_relation_ids run = [''inferred-relation:64'']"
proof -
  let ?r = "run_inference brief_codec inference_store [''rule:1''] ''u'' ''rule:1'' [sample_candidate 10] 5 inference_base"
  have "map_ok (\<lambda>x. ir_output_relation_ids (fst x)) ?r = Inr [''inferred-relation:64'']" by code_simp
  then show ?thesis by (cases ?r) auto
qed

theorem run_inference_replaces_witness:
  "\<exists>run db' row. run_inference brief_codec inference_store [''rule:1''] ''u'' ''rule:1'' [sample_candidate 10] 5
     inference_base = Inr (run, db') \<and>
     bt_get (db_relations db') ''inferred-relation:64'' = Some row \<and> rel_lifecycle row = Active"
proof -
  obtain run db' where r: "run_inference brief_codec inference_store [''rule:1''] ''u'' ''rule:1''
      [sample_candidate 10] 5 inference_base = Inr (run, db')"
    "ir_output_relation_ids run = [''inferred-relation:64'']" using sample_run_inference by blast
  from run_inference_replaces[OF inference_base_ok r(1)] r show ?thesis by auto
qed

theorem run_inference_justified_witness:
  "\<exists>run db' row. run_inference brief_codec inference_store [''rule:1''] ''u'' ''rule:1'' [sample_candidate 10] 5
     inference_base = Inr (run, db') \<and>
     bt_get (db_relations db') ''inferred-relation:64'' = Some row \<and> rel_source row = ''r1''"
proof -
  obtain run db' where r: "run_inference brief_codec inference_store [''rule:1''] ''u'' ''rule:1''
      [sample_candidate 10] 5 inference_base = Inr (run, db')"
    "ir_output_relation_ids run = [''inferred-relation:64'']" using sample_run_inference by blast
  from run_inference_justified[OF inference_base_ok r(1), of "''inferred-relation:64''"] r
  show ?thesis by (auto simp: sample_candidate_def)
qed

theorem run_inference_bounded_witness:
  "run_inference brief_codec inference_store [''rule:1''] ''u'' ''rule:1''
     (replicate 1001 (sample_candidate 10)) 5 inference_base = Inl CandidateLimit"
  using run_inference_bounded[of "''rule:1''" "[''rule:1'']" "replicate 1001 (sample_candidate 10)" brief_codec
      inference_store "''u''" 5 inference_base] by simp

theorem run_inference_deterministic_witness:
  "\<exists>run run' db' db''. run_inference brief_codec inference_store [''rule:1''] ''u'' ''rule:1''
       [sample_candidate 10] 5 inference_base = Inr (run, db') \<and>
     run_inference brief_codec inference_store [''rule:1''] ''w'' ''rule:1''
       [sample_candidate 10, sample_candidate 10] 7 inference_base = Inr (run', db'') \<and>
     ir_output_relation_ids run' = ir_output_relation_ids run"
proof -
  obtain run db' where r: "run_inference brief_codec inference_store [''rule:1''] ''u'' ''rule:1''
      [sample_candidate 10] 5 inference_base = Inr (run, db')" using sample_run_inference by blast
  have "is_ok (run_inference brief_codec inference_store [''rule:1''] ''w'' ''rule:1''
       [sample_candidate 10, sample_candidate 10] 7 inference_base)" by code_simp
  then obtain run' db'' where r': "run_inference brief_codec inference_store [''rule:1''] ''w'' ''rule:1''
       [sample_candidate 10, sample_candidate 10] 7 inference_base = Inr (run', db'')"
    by (auto simp: is_ok_iff)
  from run_inference_deterministic[OF r r'] r r' show ?thesis by simp
qed

end
