(* ===== verification/Query_Reach.thy ===== *)
theory Query_Reach
  imports Query_Pages Inference_Properties
begin

text \<open>
  The topology answer as a bounded breadth-first search: its nodes are within the depth of the focus, its
  edges are stored relations between its nodes, and an answer that is not truncated has every resource
  within the depth and every relation of a resource closer than the depth.
\<close>

section \<open>Distance\<close>

definition has_end :: "Relation \<Rightarrow> ResourceId \<Rightarrow> bool" where
  "has_end r x \<longleftrightarrow> rel_source r = x \<or> rel_target r = x"

text \<open>The resources at most \<open>n\<close> relations away, in either direction.\<close>

fun within :: "Relation list \<Rightarrow> ResourceId \<Rightarrow> nat \<Rightarrow> ResourceId set" where
  "within rows focus 0 = {focus}"
| "within rows focus (Suc n) =
     within rows focus n \<union> {y. \<exists>r\<in>set rows. \<exists>x\<in>within rows focus n. has_end r x \<and> has_end r y}"

lemma within_mono: "m \<le> n \<Longrightarrow> within rows focus m \<subseteq> within rows focus n"
  by (induction n) (auto simp: le_Suc_eq)

lemma within_closed:
  assumes "\<And>r x. r \<in> set rows \<Longrightarrow> x \<in> within rows focus k \<Longrightarrow> has_end r x \<Longrightarrow>
      rel_source r \<in> within rows focus k \<and> rel_target r \<in> within rows focus k"
  shows "within rows focus (k + n) = within rows focus k"
proof (induction n)
  case 0
  then show ?case by simp
next
  case (Suc n)
  have "y \<in> within rows focus k" if "r \<in> set rows" "x \<in> within rows focus k" "has_end r x" "has_end r y" for r x y
    using assms[OF that(1-3)] that(4) by (auto simp: has_end_def)
  with Suc show ?case by auto
qed

section \<open>The state of the search\<close>

definition search_ok :: "Relation list \<Rightarrow> TopologyPlan \<Rightarrow> TopologySearch \<Rightarrow> bool" where
  "search_ok rows plan s \<longleftrightarrow>
     bs_wf (ts_visited s) \<and> bt_wf (ts_edges s) \<and>
     length (ts_visited s) \<le> tpl_max_nodes plan \<and> length (ts_edges s) \<le> tpl_max_edges plan \<and>
     set (ts_frontier_ids s) \<subseteq> set (ts_visited s) \<and>
     (\<forall>i p. bt_get (ts_edges s) i = Some p \<longrightarrow>
        rel_id (pl_relation p) = i \<and> pl_relation p \<in> set rows \<and>
        rel_source (pl_relation p) \<in> set (ts_visited s) \<and> rel_target (pl_relation p) \<in> set (ts_visited s)) \<and>
     (ts_frontier s \<noteq> [] \<longrightarrow> ts_truncated s \<and>
        (tpl_max_nodes plan \<le> length (ts_visited s) \<or> tpl_max_edges plan \<le> length (ts_edges s))) \<and>
     (\<forall>x\<in>fst ` set (ts_frontier s). x \<notin> set (ts_visited s))"

text \<open>What a step that looks at the relations \<open>rs\<close> may do to the state and to the next frontier.\<close>

definition search_grows ::
    "Relation list \<Rightarrow> TopologySearch \<Rightarrow> ResourceId list \<Rightarrow> TopologySearch \<Rightarrow> ResourceId list \<Rightarrow> bool" where
  "search_grows rs s next s' next' \<longleftrightarrow>
     ts_frontier_ids s' = ts_frontier_ids s \<and>
     (\<exists>new. set (ts_visited s') = set (ts_visited s) \<union> new \<and> set next' = set next \<union> new \<and>
        (\<forall>y\<in>new. y \<notin> set (ts_visited s) \<and>
           (\<exists>r\<in>set rs. \<exists>x\<in>set (ts_frontier_ids s). has_end r x \<and> has_end r y))) \<and>
     (ts_truncated s \<longrightarrow> ts_truncated s') \<and>
     (\<forall>i. has_key (ts_edges s) i \<longrightarrow> has_key (ts_edges s') i) \<and>
     (\<not> ts_truncated s' \<longrightarrow>
        (\<forall>r\<in>set rs. \<forall>x\<in>set (ts_frontier_ids s). has_end r x \<longrightarrow> has_key (ts_edges s') (rel_id r)))"

lemma length_bs_insert: "bs_wf s \<Longrightarrow> length (bs_insert k s) = (if k \<in> set s then length s else Suc (length s))"
  by (induction k s rule: bs_insert.induct) (auto simp: bs_wf_def)

lemma topology_relation_ok:
  assumes "search_ok rows plan s" and "pl_relation p \<in> set rows"
    and "topology_relation plan p (s, next) = (s', next')"
  shows "search_ok rows plan s' \<and> search_grows [pl_relation p] s next s' next'"
proof -
  let ?r = "pl_relation p"
  consider (known) "has_key (ts_edges s) (rel_id ?r)" "s' = s" "next' = next"
    | (apart) "relation_neighbor (ts_frontier_ids s) ?r = None" "s' = s" "next' = next"
    | (full) n d where "relation_neighbor (ts_frontier_ids s) ?r = Some (n, d)" "n \<notin> set (ts_visited s)"
        "tpl_max_nodes plan \<le> length (ts_visited s)" "next' = next"
        "s' = s\<lparr>ts_truncated := True, ts_frontier := bs_insert (n, frontier_direction_key d) (ts_frontier s)\<rparr>"
    | (crowded) n d where "relation_neighbor (ts_frontier_ids s) ?r = Some (n, d)"
        "tpl_max_edges plan \<le> length (ts_edges s)" "next' = next"
        "s' = s\<lparr>ts_truncated := True, ts_frontier := add_frontier_for_relation (ts_frontier s) ?r (ts_visited s)\<rparr>"
    | (edge) n d where "relation_neighbor (ts_frontier_ids s) ?r = Some (n, d)" "n \<in> set (ts_visited s)"
        "\<not> has_key (ts_edges s) (rel_id ?r)" "length (ts_edges s) < tpl_max_edges plan" "next' = next"
        "s' = s\<lparr>ts_edges := bt_insert (rel_id ?r) p (ts_edges s)\<rparr>"
    | (visit) n d where "relation_neighbor (ts_frontier_ids s) ?r = Some (n, d)" "n \<notin> set (ts_visited s)"
        "\<not> has_key (ts_edges s) (rel_id ?r)"
        "length (ts_visited s) < tpl_max_nodes plan" "length (ts_edges s) < tpl_max_edges plan"
        "next' = bs_insert n next"
        "s' = s\<lparr>ts_edges := bt_insert (rel_id ?r) p (ts_edges s), ts_visited := bs_insert n (ts_visited s)\<rparr>"
  proof (cases "has_key (ts_edges s) (rel_id ?r) \<or> relation_neighbor (ts_frontier_ids s) ?r = None")
    case True
    then have "s' = s" "next' = next" 
      using assms(3) by (cases "has_key (ts_edges s) (rel_id ?r)"; auto simp: topology_relation_def Let_def)+
    with True known apart show ?thesis by blast
  next
    case False
    then obtain n d where neighbor: "relation_neighbor (ts_frontier_ids s) ?r = Some (n, d)" by auto
    have r: "(s', next') = topology_relation plan p (s, next)" using assms(3) by simp
    note r = r[unfolded topology_relation_def Let_def neighbor, simplified False prod.case option.case if_False]
    show ?thesis
    proof (cases "n \<notin> set (ts_visited s) \<and> tpl_max_nodes plan \<le> length (ts_visited s)")
      case True
      with r neighbor False show ?thesis by (intro full[of n d]) simp_all
    next
      case node: False
      show ?thesis
      proof (cases "tpl_max_edges plan \<le> length (ts_edges s)")
        case True
        with r node neighbor False show ?thesis by (intro crowded[of n d]) (simp_all split: if_splits)
      next
        case spare: False
        show ?thesis
        proof (cases "n \<in> set (ts_visited s)")
          case True
          with r node spare neighbor False show ?thesis by (intro edge[of n d]) simp_all
        next
          case unseen: False
          with r node spare neighbor False show ?thesis by (intro visit[of n d]) simp_all
        qed
      qed
    qed
  qed
  then show ?thesis
  proof cases
    case known
    then show ?thesis using assms(1) by (auto simp: search_grows_def)
  next
    case apart
    then have "\<forall>x\<in>set (ts_frontier_ids s). \<not> has_end ?r x"
      by (auto simp: relation_neighbor_def has_end_def split: if_splits)
    then show ?thesis using assms(1) apart by (auto simp: search_grows_def)
  next
    case full
    then show ?thesis using assms(1) by (auto simp: search_grows_def search_ok_def)
  next
    case crowded
    then show ?thesis
      using assms(1) by (auto simp: search_grows_def search_ok_def add_frontier_for_relation_def split: if_splits)
  next
    case edge
    then have "rel_source ?r \<in> set (ts_visited s)" "rel_target ?r \<in> set (ts_visited s)"
      using assms(1) by (auto simp: search_ok_def relation_neighbor_def split: if_splits)
    then show ?thesis
      using assms edge
      by (auto simp: search_grows_def search_ok_def bt_get_insert bt_wf_insert length_bt_insert has_key_def)
  next
    case visit
    then have ends: "rel_source ?r \<in> insert n (set (ts_visited s))" "rel_target ?r \<in> insert n (set (ts_visited s))"
      "\<exists>x\<in>set (ts_frontier_ids s). has_end ?r x \<and> has_end ?r n"
      using assms(1) by (auto simp: search_ok_def relation_neighbor_def has_end_def split: if_splits)
    have "ts_frontier s = []" using assms(1) visit by (auto simp: search_ok_def)
    then have "search_ok rows plan s'"
      using assms visit ends(1,2)
      by (auto simp: search_ok_def bt_get_insert bt_wf_insert length_bt_insert has_key_def bs_wf_insert
          length_bs_insert)
    moreover have "search_grows [?r] s next s' next'"
      unfolding search_grows_def using visit ends(3)
      by (intro conjI exI[of _ "{n}"]) (auto simp: bt_get_insert has_key_def)
    ultimately show ?thesis by simp
  qed
qed

lemma search_grows_trans:
  assumes "search_grows rs s next s1 next1" and "search_grows rs' s1 next1 s' next'"
  shows "search_grows (rs @ rs') s next s' next'"
proof -
  obtain new where new: "set (ts_visited s1) = set (ts_visited s) \<union> new" "set next1 = set next \<union> new"
      "\<forall>y\<in>new. y \<notin> set (ts_visited s) \<and>
         (\<exists>r\<in>set rs. \<exists>x\<in>set (ts_frontier_ids s). has_end r x \<and> has_end r y)"
    using assms(1) by (auto simp: search_grows_def)
  obtain new' where new': "set (ts_visited s') = set (ts_visited s1) \<union> new'" "set next' = set next1 \<union> new'"
      "\<forall>y\<in>new'. y \<notin> set (ts_visited s1) \<and>
         (\<exists>r\<in>set rs'. \<exists>x\<in>set (ts_frontier_ids s1). has_end r x \<and> has_end r y)"
    using assms(2) by (auto simp: search_grows_def)
  have frontier: "ts_frontier_ids s1 = ts_frontier_ids s" "ts_frontier_ids s' = ts_frontier_ids s"
    using assms by (simp_all add: search_grows_def)
  have "\<exists>new. set (ts_visited s') = set (ts_visited s) \<union> new \<and> set next' = set next \<union> new \<and>
        (\<forall>y\<in>new. y \<notin> set (ts_visited s) \<and>
           (\<exists>r\<in>set (rs @ rs'). \<exists>x\<in>set (ts_frontier_ids s). has_end r x \<and> has_end r y))"
    using new new' frontier by (intro exI[of _ "new \<union> new'"]) fastforce
  then show ?thesis using assms frontier by (auto simp: search_grows_def)
qed

lemma topology_relations_ok:
  assumes "search_ok rows plan s" and "\<forall>p\<in>set ps. pl_relation p \<in> set rows"
    and "fold (topology_relation plan) ps (s, next) = (s', next')"
  shows "search_ok rows plan s' \<and> search_grows (map pl_relation ps) s next s' next'"
  using assms
proof (induction ps arbitrary: s "next")
  case Nil
  then show ?case by (auto simp: search_grows_def)
next
  case (Cons p ps)
  obtain s1 next1 where step: "topology_relation plan p (s, next) = (s1, next1)" by force
  from topology_relation_ok[OF Cons.prems(1) _ step] Cons.prems(2)
  have one: "search_ok rows plan s1" "search_grows [pl_relation p] s next s1 next1" by simp_all
  from Cons.IH[OF one(1)] Cons.prems(2,3) step
  have "search_ok rows plan s'" "search_grows (map pl_relation ps) s1 next1 s' next'" by simp_all
  with search_grows_trans[OF one(2)] show ?case by fastforce
qed

section \<open>A level\<close>

lemma read_projected_relation_row: "read_projected_relation db row = Inr p \<Longrightarrow> pl_relation p = row"
  by (auto simp: read_projected_relation_def read_relation_def res_simps Let_def split: if_splits)

lemma read_projected_relations_rows:
  "res_map (read_projected_relation db) rows = Inr items \<Longrightarrow> map pl_relation items = rows"
  by (induction rows arbitrary: items) (auto simp: res_simps read_projected_relation_row)

text \<open>The page of relations at the frontier: all of them, or the first ones and a cursor.\<close>

lemma relations_page:
  assumes "query_relations_for_resources db ids limit None = Inr projection" and "ids \<noteq> []" and "0 < limit"
  defines "rows \<equiv> filter (\<lambda>r. \<exists>x\<in>set ids. has_end r x) (bt_values (db_relations db))"
  shows "map pl_relation (pp_items (ps_body projection)) = take limit rows \<and>
    (pp_next_after (ps_body projection) = None \<longrightarrow> take limit rows = rows)"
proof -
  have rows: "filter (\<lambda>r. rel_source r \<in> set ids \<or> rel_target r \<in> set ids) (bt_values (db_relations db)) = rows"
    unfolding rows_def by (rule filter_cong) (auto simp: has_end_def)
  obtain items where items: "res_map (read_projected_relation db) (take (limit + 1) rows) = Inr items"
    and body: "ps_body projection = projection_page (\<lambda>item. rel_id (pl_relation item)) limit items"
    using assms(1,2)
    by (auto simp: query_relations_for_resources_def with_projection_snapshot_def
        read_relations_for_resources_def after_key_def rows res_simps split: if_splits)
  have read: "map pl_relation items = take (limit + 1) rows"
    using items by (rule read_projected_relations_rows)
  have page: "ps_body projection = \<lparr>pp_items = take limit items,
      pp_next_after = (if limit < length rows then Some (rel_id (rows ! (limit - 1))) else None)\<rparr>"
    unfolding body by (rule projection_page_rows[OF assms(3) items]) (simp add: read_projected_relation_row)
  have "map pl_relation (take limit items) = take limit rows" by (simp add: take_map[symmetric] read)
  then show ?thesis by (simp add: page)
qed

lemma topology_level_ok:
  fixes db :: Database
  defines "rows \<equiv> bt_values (db_relations db)"
  assumes "search_ok rows plan s" and "ts_frontier_ids s \<noteq> []" and "topology_level db plan metadata s = Inr s'"
  shows "search_ok rows plan s' \<and> set (ts_visited s) \<subseteq> set (ts_visited s') \<and>
    set (ts_frontier_ids s') = set (ts_visited s') - set (ts_visited s) \<and>
    (\<forall>y\<in>set (ts_frontier_ids s'). \<exists>r\<in>set rows. \<exists>x\<in>set (ts_visited s). has_end r x \<and> has_end r y) \<and>
    (ts_truncated s \<longrightarrow> ts_truncated s') \<and>
    (\<forall>i. has_key (ts_edges s) i \<longrightarrow> has_key (ts_edges s') i) \<and>
    (\<not> ts_truncated s' \<longrightarrow>
       (\<forall>r\<in>set rows. \<forall>x\<in>set (ts_frontier_ids s). has_end r x \<longrightarrow> has_key (ts_edges s') (rel_id r)))"
proof -
  define limit where "limit = tpl_max_edges plan - length (ts_edges s) + 1"
  obtain projection where projection: "query_relations_for_resources db (ts_frontier_ids s) limit None = Inr projection"
    using assms(4) by (auto simp: topology_level_def res_simps limit_def)
  define items where "items = pp_items (ps_body projection)"
  define t where "t = s\<lparr>ts_truncated := ts_truncated s \<or> pp_next_after (ps_body projection) \<noteq> None\<rparr>"
  obtain u "next" where u: "fold (topology_relation plan) items (t, []) = (u, next)" by force
  have s': "s' = u\<lparr>ts_frontier_ids := next\<rparr>"
    using assms(4)[unfolded topology_level_def limit_def[symmetric] projection]
    by (simp add: Let_def items_def[symmetric] t_def[symmetric] u del: not_None_eq split: if_splits)
  have page: "map pl_relation items = take limit (filter (\<lambda>r. \<exists>x\<in>set (ts_frontier_ids s). has_end r x) rows)"
    "pp_next_after (ps_body projection) = None \<Longrightarrow>
      map pl_relation items = filter (\<lambda>r. \<exists>x\<in>set (ts_frontier_ids s). has_end r x) rows"
    using relations_page[OF projection assms(3)] by (simp_all add: items_def rows_def limit_def)
  have stored: "set (map pl_relation items) \<subseteq> set rows" unfolding page(1) by (auto dest: in_set_takeD)
  have "search_ok rows plan t" using assms(2) by (simp add: search_ok_def t_def)
  from topology_relations_ok[OF this _ u] stored
  have u_ok: "search_ok rows plan u" "search_grows (map pl_relation items) t [] u next" by auto
  obtain new where new: "set (ts_visited u) = set (ts_visited s) \<union> new" "set next = new"
      "\<forall>y\<in>new. y \<notin> set (ts_visited s) \<and>
         (\<exists>r\<in>set (map pl_relation items). \<exists>x\<in>set (ts_frontier_ids s). has_end r x \<and> has_end r y)"
    using u_ok(2) by (auto simp: search_grows_def t_def)
  have "search_ok rows plan s'" using u_ok(1) new by (simp add: search_ok_def s')
  moreover have "set next = set (ts_visited u) - set (ts_visited s)" using new by auto
  moreover have "\<exists>r\<in>set rows. \<exists>x\<in>set (ts_visited s). has_end r x \<and> has_end r y" if "y \<in> set next" for y
    using that new(2,3) stored assms(2) by (fastforce simp: search_ok_def)
  moreover have "has_key (ts_edges u) (rel_id r)"
    if "\<not> ts_truncated u" "r \<in> set rows" "x \<in> set (ts_frontier_ids s)" "has_end r x" for r x
  proof -
    have "pp_next_after (ps_body projection) = None"
      using u_ok(2) that(1) by (auto simp: search_grows_def t_def)
    then have "r \<in> set (map pl_relation items)" using page(2) that by auto
    with u_ok(2) that show ?thesis by (auto simp: search_grows_def t_def)
  qed
  moreover have "ts_truncated s \<longrightarrow> ts_truncated u" "\<forall>i. has_key (ts_edges s) i \<longrightarrow> has_key (ts_edges u) i"
    using u_ok(2) by (auto simp: search_grows_def t_def)
  ultimately show ?thesis using new(1) by (auto simp: s')
qed

section \<open>The levels\<close>

text \<open>After \<open>k\<close> levels that were not cut short.\<close>

definition search_complete :: "Relation list \<Rightarrow> ResourceId \<Rightarrow> nat \<Rightarrow> TopologySearch \<Rightarrow> bool" where
  "search_complete rows focus k s \<longleftrightarrow>
     set (ts_visited s) = within rows focus k \<and>
     (\<forall>j<k. \<forall>x\<in>within rows focus j. \<forall>r\<in>set rows. has_end r x \<longrightarrow> has_key (ts_edges s) (rel_id r))"

lemma edge_ends:
  assumes "search_ok rows plan s" and "has_key (ts_edges s) (rel_id r)" and "r \<in> set rows"
    and "distinct (map rel_id rows)"
  shows "rel_source r \<in> set (ts_visited s) \<and> rel_target r \<in> set (ts_visited s)"
proof -
  obtain p where p: "bt_get (ts_edges s) (rel_id r) = Some p" using assms(2) by (auto simp: has_key_def)
  then have "rel_id (pl_relation p) = rel_id r" "pl_relation p \<in> set rows"
    using assms(1) by (auto simp: search_ok_def)
  then have "pl_relation p = r" using assms(3,4) by (auto simp: distinct_map dest: inj_onD)
  with assms(1) p show ?thesis by (auto simp: search_ok_def)
qed

definition frontier_covers :: "Relation list \<Rightarrow> TopologySearch \<Rightarrow> bool" where
  "frontier_covers rows s \<longleftrightarrow>
     (\<forall>x\<in>set (ts_visited s). x \<in> set (ts_frontier_ids s) \<or>
        (\<forall>r\<in>set rows. has_end r x \<longrightarrow> has_key (ts_edges s) (rel_id r)))"

lemma topology_levels_ok:
  fixes db :: Database
  defines "rows \<equiv> bt_values (db_relations db)"
  assumes "distinct (map rel_id rows)" and "search_ok rows plan s"
    and "set (ts_visited s) \<subseteq> within rows focus k"
    and "\<not> ts_truncated s \<Longrightarrow> search_complete rows focus k s \<and> frontier_covers rows s"
    and "topology_levels n db plan metadata s = Inr s'"
  shows "search_ok rows plan s' \<and> set (ts_visited s) \<subseteq> set (ts_visited s') \<and>
    set (ts_visited s') \<subseteq> within rows focus (k + n) \<and>
    (\<not> ts_truncated s' \<longrightarrow> search_complete rows focus (k + n) s')"
  using assms(3-6)
proof (induction n arbitrary: k s)
  case 0
  then show ?case by simp
next
  case (Suc n)
  consider (empty) "ts_frontier_ids s = []" "s' = s"
    | (full) "ts_frontier_ids s \<noteq> []" "s' = s\<lparr>ts_truncated := True\<rparr>"
    | (level) t where "ts_frontier_ids s \<noteq> []" "topology_level db plan metadata s = Inr t"
        "topology_levels n db plan metadata t = Inr s'"
    using Suc.prems(4) by (auto simp: res_simps split: if_splits)
  then show ?case
  proof cases
    case empty
    have "search_complete rows focus (k + Suc n) s" if "\<not> ts_truncated s"
    proof -
      have known: "has_key (ts_edges s) (rel_id r)" if "r \<in> set rows" "x \<in> set (ts_visited s)" "has_end r x" for r x
        using Suc.prems(3) \<open>\<not> ts_truncated s\<close> that empty(1) by (auto simp: frontier_covers_def)
      have all: "set (ts_visited s) = within rows focus k"
        using Suc.prems(3) that by (simp add: search_complete_def)
      have "within rows focus (k + m) = within rows focus k" for m
        using known edge_ends[OF Suc.prems(1) _ _ assms(2)] by (intro within_closed) (auto simp: all[symmetric])
      note closed = this
      have "within rows focus j \<subseteq> set (ts_visited s)" for j
        using within_mono[of j "k + j" rows focus] closed[of j] all by simp
      then show ?thesis unfolding search_complete_def using closed all known by blast
    qed
    then show ?thesis using empty Suc.prems(1,2) within_mono[of k "k + Suc n" rows focus] by auto
  next
    case full
    then show ?thesis
      using Suc.prems(1,2) within_mono[of k "k + Suc n" rows focus] by (auto simp: search_ok_def)
  next
    case (level t)
    note step = topology_level_ok[OF Suc.prems(1)[unfolded rows_def] level(1,2), folded rows_def]
    have sub: "set (ts_visited t) \<subseteq> within rows focus (Suc k)"
    proof
      fix y
      assume "y \<in> set (ts_visited t)"
      then consider "y \<in> set (ts_visited s)" | "y \<in> set (ts_frontier_ids t)" using step by blast
      then show "y \<in> within rows focus (Suc k)"
      proof cases
        case 1
        then show ?thesis using Suc.prems(2) by auto
      next
        case 2
        then obtain r x where "r \<in> set rows" "x \<in> set (ts_visited s)" "has_end r x" "has_end r y"
          using step by blast
        then show ?thesis using Suc.prems(2) by auto
      qed
    qed
    have complete: "search_complete rows focus (Suc k) t \<and> frontier_covers rows t" if whole: "\<not> ts_truncated t"
    proof -
      have old: "\<not> ts_truncated s" using step whole by blast
      have known: "has_key (ts_edges t) (rel_id r)" if "r \<in> set rows" "x \<in> set (ts_visited s)" "has_end r x" for r x
        using Suc.prems(3)[OF old] step whole that unfolding frontier_covers_def by blast
      have all: "set (ts_visited s) = within rows focus k"
        using Suc.prems(3)[OF old] by (simp add: search_complete_def)
      have "within rows focus (Suc k) \<subseteq> set (ts_visited t)"
      proof
        fix y
        assume "y \<in> within rows focus (Suc k)"
        then consider "y \<in> set (ts_visited s)"
          | r x where "r \<in> set rows" "x \<in> set (ts_visited s)" "has_end r x" "has_end r y"
          by (auto simp: all)
        then show "y \<in> set (ts_visited t)"
        proof cases
          case 1
          then show ?thesis using step by blast
        next
          case (2 r x)
          with edge_ends[OF _ known[OF 2(1-3)] 2(1) assms(2)] step show ?thesis
            by (auto simp: has_end_def)
        qed
      qed
      moreover have "has_key (ts_edges t) (rel_id r)"
        if "j < Suc k" "x \<in> within rows focus j" "r \<in> set rows" "has_end r x" for j x r
        using that within_mono[of j k rows focus] all known by auto
      moreover have "frontier_covers rows t" unfolding frontier_covers_def using step known by blast
      ultimately show ?thesis using sub unfolding search_complete_def by blast
    qed
    from Suc.IH[OF _ sub complete level(3)] step show ?thesis by auto
  qed
qed

section \<open>The answer\<close>

definition relation_of_dto :: "Relation \<Rightarrow> RelationDto \<Rightarrow> bool" where
  "relation_of_dto r e \<longleftrightarrow>
     ld_relation_id e = rel_id r \<and> ld_source_resource_id e = rel_source r \<and>
     ld_target_resource_id e = rel_target r \<and> ld_kind e = rel_kind r"

lemma projected_relation_dto_of: "projected_relation_dto p = Inr e \<Longrightarrow> relation_of_dto (pl_relation p) e"
  by (auto simp: projected_relation_dto_def relation_of_dto_def Let_def res_simps)

lemma resources_by_ids_rows:
  assumes "query_resources_by_ids db ids = Inr projection" and "ids \<noteq> []"
  shows "ps_body projection = filter (\<lambda>r. res_id r \<in> set ids) (bt_values (db_resources db))"
proof -
  have rows: "res_map read_resource rows = Inr rows' \<Longrightarrow> rows' = rows" for rows rows'
    by (induction rows arbitrary: rows') (auto simp: res_simps read_resource_def split: if_splits)
  show ?thesis
    using assms
    by (auto simp: query_resources_by_ids_def with_projection_snapshot_def read_resources_by_ids_def res_simps
        split: if_splits dest: rows)
qed

lemma node_ids: "res_map (resource_dto_from_context context) rows = Inr nodes \<Longrightarrow>
    map rd_resource_id nodes = map res_id rows"
  by (induction rows arbitrary: nodes)
    (auto simp: res_simps resource_dto_from_context_def resource_dto_def)

lemma edge_relations:
  assumes "res_map projected_relation_dto ps = Inr edges"
  shows "length edges = length ps \<and> (\<forall>e\<in>set edges. \<exists>p\<in>set ps. relation_of_dto (pl_relation p) e) \<and>
    (\<forall>p\<in>set ps. \<exists>e\<in>set edges. relation_of_dto (pl_relation p) e)"
  using assms
proof (induction ps arbitrary: edges)
  case Nil
  then show ?case by simp
next
  case (Cons p ps)
  then obtain e es where "projected_relation_dto p = Inr e" "res_map projected_relation_dto ps = Inr es" "edges = e # es"
    by (auto simp: res_simps)
  with Cons.IH projected_relation_dto_of[of p e] show ?case by auto
qed

lemma within_stored:
  assumes "foreign_keys_ok db" and "has_key (db_resources db) focus" and "bt_wf (db_relations db)"
  shows "x \<in> within (bt_values (db_relations db)) focus n \<Longrightarrow> has_key (db_resources db) x"
proof (induction n arbitrary: x)
  case 0
  with assms(2) show ?case by simp
next
  case (Suc n)
  then consider "x \<in> within (bt_values (db_relations db)) focus n"
    | r where "r \<in> set (bt_values (db_relations db))" "has_end r x" by auto
  then show ?case
  proof cases
    case 1
    then show ?thesis by (rule Suc.IH)
  next
    case (2 r)
    then obtain k where "bt_get (db_relations db) k = Some r" by (auto simp: bt_values_iff[OF assms(3)])
    with 2(2) assms(1) show ?thesis by (auto simp: foreign_keys_ok_def refs_def has_end_def)
  qed
qed

text \<open>What the loop and the two reads after it give.\<close>

lemma build_topology_answer:
  assumes "db_ok db" and "0 < tpl_max_nodes plan"
    and "build_topology db focus plan context = Inr (metadata, Some body)"
  defines "rows \<equiv> bt_values (db_relations db)" and "depth \<equiv> unat (tpl_depth plan)"
  shows "\<exists>s. search_ok rows plan s \<and> focus \<in> set (ts_visited s) \<and> set (ts_visited s) \<subseteq> within rows focus depth \<and>
    (\<not> ts_truncated s \<longrightarrow> search_complete rows focus depth s) \<and>
    set (map rd_resource_id (tb_nodes body)) = set (ts_visited s) \<and>
    length (tb_nodes body) = length (ts_visited s) \<and>
    length (tb_edges body) = length (ts_edges s) \<and>
    (\<forall>e\<in>set (tb_edges body). \<exists>i p. bt_get (ts_edges s) i = Some p \<and> relation_of_dto (pl_relation p) e) \<and>
    (\<forall>i p. bt_get (ts_edges s) i = Some p \<longrightarrow> (\<exists>e\<in>set (tb_edges body). relation_of_dto (pl_relation p) e)) \<and>
    tb_truncated body = ts_truncated s \<and>
    set (map tfd_resource_id (tb_frontier body)) = fst ` set (ts_frontier s)"
proof -
  have ok: "foreign_keys_ok db" "table_ok res_id (db_resources db)" "table_ok rel_id (db_relations db)"
    using assms(1) by (simp_all add: db_ok_defs)
  obtain focus_rows s where
    focus_rows: "query_resources_by_ids db [focus] = Inr focus_rows" "ps_body focus_rows \<noteq> []"
    and levels: "topology_levels depth db plan metadata (topology_start focus) = Inr s"
    and body: "topology_body db metadata context s = Inr body"
    using assms(3) by (auto simp: build_topology_def Let_def res_simps depth_def split: if_splits)
  have "distinct (map rel_id rows)" using table_ok_distinct[OF ok(3)] by (simp add: rows_def)
  moreover have "search_ok rows plan (topology_start focus)"
    using assms(2) by (simp add: search_ok_def topology_start_def bs_wf_def)
  moreover have "set (ts_visited (topology_start focus)) \<subseteq> within rows focus 0"
    "search_complete rows focus 0 (topology_start focus) \<and> frontier_covers rows (topology_start focus)"
    by (simp_all add: topology_start_def search_complete_def frontier_covers_def)
  ultimately have s: "search_ok rows plan s" "focus \<in> set (ts_visited s)"
    "set (ts_visited s) \<subseteq> within rows focus depth"
    "\<not> ts_truncated s \<Longrightarrow> search_complete rows focus depth s"
    using topology_levels_ok[of db plan "topology_start focus" focus 0 depth metadata s] levels
    by (auto simp: rows_def topology_start_def)
  from focus_rows have "has_key (db_resources db) focus"
    using ok(2) by (auto simp: resources_by_ids_rows[OF focus_rows(1)] filter_empty_conv has_key_def
        table_ok_def bt_values_iff)
  then have stored: "has_key (db_resources db) x" if "x \<in> set (ts_visited s)" for x
    using within_stored[OF ok(1)] s(3) that ok(3) by (auto simp: rows_def table_ok_def)
  obtain resources nodes edges where
    resources: "query_resources_by_ids db (ts_visited s) = Inr resources"
    and nodes: "res_map (resource_dto_from_context context) (ps_body resources) = Inr nodes"
    and edges: "res_map projected_relation_dto (bt_values (ts_edges s)) = Inr edges"
    and parts: "body = \<lparr>tb_nodes = nodes, tb_edges = edges,
      tb_frontier = map (\<lambda>(resource_id, direction).
        \<lparr>tfd_resource_id = resource_id, tfd_direction = frontier_direction direction\<rparr>) (ts_frontier s),
      tb_truncated = ts_truncated s\<rparr>"
    using body by (auto simp: topology_body_def res_simps split: if_splits)
  have ids: "map rd_resource_id nodes =
      map res_id (filter (\<lambda>r. res_id r \<in> set (ts_visited s)) (bt_values (db_resources db)))"
    using node_ids[OF nodes] resources_by_ids_rows[OF resources] s(2) by force
  have set_ids: "set (map rd_resource_id nodes) = set (ts_visited s)"
  proof -
    have "\<exists>r\<in>set (bt_values (db_resources db)). res_id r = x" if "x \<in> set (ts_visited s)" for x
    proof -
      from stored[OF that] obtain r where "bt_get (db_resources db) x = Some r" by (auto simp: has_key_def)
      with ok(2) show ?thesis unfolding table_ok_def by (metis bt_values_iff)
    qed
    then show ?thesis unfolding ids by force
  qed
  moreover have "distinct (map rd_resource_id nodes)"
    unfolding ids using table_ok_distinct[OF ok(2)] by (intro distinct_map_filter)
  moreover have "distinct (ts_visited s)" using s(1) by (auto simp: search_ok_def dest: bs_wf_distinct)
  ultimately have "length nodes = length (ts_visited s)" by (metis distinct_card length_map)
  moreover have mem: "p \<in> set (bt_values (ts_edges s)) \<longleftrightarrow> (\<exists>i. bt_get (ts_edges s) i = Some p)" for p
    using s(1) by (simp add: search_ok_def bt_values_iff)
  moreover have "\<forall>e\<in>set edges. \<exists>i p. bt_get (ts_edges s) i = Some p \<and> relation_of_dto (pl_relation p) e"
    "\<forall>i p. bt_get (ts_edges s) i = Some p \<longrightarrow> (\<exists>e\<in>set edges. relation_of_dto (pl_relation p) e)"
    using edge_relations[OF edges] mem by blast+
  moreover have "length edges = length (ts_edges s)" using edge_relations[OF edges] by (simp add: bt_values_def)
  moreover have "set (map tfd_resource_id (tb_frontier body)) = fst ` set (ts_frontier s)"
    by (simp add: parts image_image split_def)
  ultimately show ?thesis using s set_ids by (intro exI[of _ s]) (simp add: parts)
qed

lemma source_topology_built:
  assumes "source_get_topology source plan = Inr snapshot" and "ss_body snapshot = Some body"
  shows "0 < tpl_max_nodes plan \<and> 0 < unat (tpl_depth plan) \<and>
    (\<exists>metadata. build_topology (cqs_store source) (tpl_focus_resource_id plan) plan (cqs_context source) =
      Inr (metadata, Some body))"
  using assms
  by (auto simp: source_get_topology_def resource_id_new_def string_value_new_def source_snapshot_def res_simps
      unat_gt_0 split: if_splits)

text \<open>
  C25. The nodes and edges keep to the bounds of the plan; the nodes are at most the depth away from the focus;
  every edge is a stored relation whose ends are both nodes; a resource of the frontier is no node, and an
  answer with a frontier is marked as truncated.
\<close>

theorem topology_sound:
  assumes "db_ok (cqs_store source)" and "source_get_topology source plan = Inr snapshot"
    and "ss_body snapshot = Some body"
  shows "length (tb_nodes body) \<le> tpl_max_nodes plan \<and> length (tb_edges body) \<le> tpl_max_edges plan \<and>
    tpl_focus_resource_id plan \<in> rd_resource_id ` set (tb_nodes body) \<and>
    rd_resource_id ` set (tb_nodes body) \<subseteq>
      within (bt_values (db_relations (cqs_store source))) (tpl_focus_resource_id plan) (unat (tpl_depth plan)) \<and>
    (\<forall>e\<in>set (tb_edges body). \<exists>r\<in>set (bt_values (db_relations (cqs_store source))).
       relation_of_dto r e \<and> rel_source r \<in> rd_resource_id ` set (tb_nodes body) \<and>
       rel_target r \<in> rd_resource_id ` set (tb_nodes body)) \<and>
    (tb_frontier body \<noteq> [] \<longrightarrow> tb_truncated body) \<and>
    tfd_resource_id ` set (tb_frontier body) \<inter> rd_resource_id ` set (tb_nodes body) = {}"
proof -
  from source_topology_built[OF assms(2,3)] obtain metadata where built: "0 < tpl_max_nodes plan"
      "build_topology (cqs_store source) (tpl_focus_resource_id plan) plan (cqs_context source) =
        Inr (metadata, Some body)" by blast
  from build_topology_answer[OF assms(1) built] obtain s where s:
      "search_ok (bt_values (db_relations (cqs_store source))) plan s" "tpl_focus_resource_id plan \<in> set (ts_visited s)"
      "set (ts_visited s) \<subseteq> within (bt_values (db_relations (cqs_store source))) (tpl_focus_resource_id plan)
         (unat (tpl_depth plan))"
      "rd_resource_id ` set (tb_nodes body) = set (ts_visited s)"
      "length (tb_nodes body) = length (ts_visited s)" "length (tb_edges body) = length (ts_edges s)"
      "\<forall>e\<in>set (tb_edges body). \<exists>i p. bt_get (ts_edges s) i = Some p \<and> relation_of_dto (pl_relation p) e"
      "tb_truncated body = ts_truncated s" "tfd_resource_id ` set (tb_frontier body) = fst ` set (ts_frontier s)"
    by auto
  have "tb_frontier body = [] \<longleftrightarrow> ts_frontier s = []" using s(9) by auto
  moreover have "fst ` set (ts_frontier s) \<inter> set (ts_visited s) = {}"
    using s(1) unfolding search_ok_def by blast
  moreover have "\<exists>r\<in>set (bt_values (db_relations (cqs_store source))).
      relation_of_dto r e \<and> rel_source r \<in> set (ts_visited s) \<and> rel_target r \<in> set (ts_visited s)"
    if "e \<in> set (tb_edges body)" for e
    using s(7) that s(1) unfolding search_ok_def by meson
  ultimately show ?thesis using s(1-3) unfolding s(4-6,8,9) by (auto simp: search_ok_def)
qed

text \<open>
  C26. An answer that is not truncated is complete: its nodes are exactly the resources within the depth, and
  every stored relation with an end nearer than the depth is among its edges.
\<close>

theorem topology_complete:
  assumes "db_ok (cqs_store source)" and "source_get_topology source plan = Inr snapshot"
    and "ss_body snapshot = Some body" and "\<not> tb_truncated body"
  shows "rd_resource_id ` set (tb_nodes body) =
      within (bt_values (db_relations (cqs_store source))) (tpl_focus_resource_id plan) (unat (tpl_depth plan)) \<and>
    (\<forall>r\<in>set (bt_values (db_relations (cqs_store source))).
       (\<exists>x\<in>within (bt_values (db_relations (cqs_store source))) (tpl_focus_resource_id plan)
          (unat (tpl_depth plan) - 1). has_end r x) \<longrightarrow> (\<exists>e\<in>set (tb_edges body). relation_of_dto r e))"
proof -
  let ?rows = "bt_values (db_relations (cqs_store source))"
  from source_topology_built[OF assms(2,3)] obtain metadata where built: "0 < tpl_max_nodes plan"
      "0 < unat (tpl_depth plan)"
      "build_topology (cqs_store source) (tpl_focus_resource_id plan) plan (cqs_context source) =
        Inr (metadata, Some body)" by blast
  from build_topology_answer[OF assms(1) built(1,3)] assms(4) obtain s where s:
      "search_ok ?rows plan s"
      "search_complete ?rows (tpl_focus_resource_id plan) (unat (tpl_depth plan)) s"
      "rd_resource_id ` set (tb_nodes body) = set (ts_visited s)"
      "\<forall>i p. bt_get (ts_edges s) i = Some p \<longrightarrow> (\<exists>e\<in>set (tb_edges body). relation_of_dto (pl_relation p) e)"
    by auto
  have distinct: "distinct (map rel_id ?rows)"
    by (rule table_ok_distinct) (use assms(1) in \<open>simp add: db_ok_defs\<close>)
  have "\<exists>e\<in>set (tb_edges body). relation_of_dto r e"
    if r: "r \<in> set ?rows" "x \<in> within ?rows (tpl_focus_resource_id plan) (unat (tpl_depth plan) - 1)" "has_end r x"
    for r x
  proof -
    have "unat (tpl_depth plan) - 1 < unat (tpl_depth plan)" using built(2) by simp
    with s(2) r have "has_key (ts_edges s) (rel_id r)" unfolding search_complete_def by blast
    then obtain p where p: "bt_get (ts_edges s) (rel_id r) = Some p" by (auto simp: has_key_def)
    then have "rel_id (pl_relation p) = rel_id r" "pl_relation p \<in> set ?rows" using s(1) by (auto simp: search_ok_def)
    then have "pl_relation p = r" using distinct r(1) by (auto simp: distinct_map dest: inj_onD)
    with s(4) p show ?thesis by blast
  qed
  with s(2,3) show ?thesis unfolding search_complete_def by blast
qed

text \<open>A repository between two others; the second search may visit two nodes only.\<close>

definition reach_relation :: "string \<Rightarrow> ResourceId \<Rightarrow> ResourceId \<Rightarrow> Relation" where
  "reach_relation i source target =
     \<lparr>rel_id = i, rel_source = source, rel_target = target, rel_kind = ''gh.uses'', rel_evidence_key = ''k'',
      rel_evidence = Inferred ''rule:1'' [] [] 1, rel_first_seen_at = 1, rel_last_seen_at = 2,
      rel_lifecycle = Active\<rparr>"

definition reach_source :: CommittedQuerySource where
  "reach_source =
     \<lparr>cqs_store = sample_store\<lparr>db_resources :=
          [(''r1'', sample_resource), (''r2'', sample_resource\<lparr>res_id := ''r2'', res_external_id := ''2''\<rparr>),
           (''r3'', sample_resource\<lparr>res_id := ''r3'', res_external_id := ''3''\<rparr>)],
        db_relations := [(''a'', reach_relation ''a'' ''r1'' ''r2''), (''b'', reach_relation ''b'' ''r3'' ''r2'')]\<rparr>,
      cqs_catalog = \<lparr>ccs_connectors = []\<rparr>,
      cqs_context = \<lparr>qcx_evaluated_at = 10, qcx_revision = 1,
        qcx_schedules = [(''c1'', \<lparr>qsc_interval_millis = 5, qsc_next_scheduled_at = None\<rparr>)]\<rparr>\<rparr>"

lemma reach_source_ok: "db_ok (cqs_store reach_source)"
  by (auto simp: db_ok_defs reach_source_def reach_relation_def sample_store_def empty_database_def table_ok_def
      refs_def key_refs_def unique_by_def has_key_def bt_wf_def sample_connection_def sample_run_def
      sample_resource_def sample_version_def resource_identity_def relation_key_def)

definition reach_plan :: "8 word \<Rightarrow> nat \<Rightarrow> TopologyPlan" where
  "reach_plan depth nodes =
     \<lparr>tpl_focus_resource_id = ''r1'', tpl_depth = depth, tpl_max_nodes = nodes, tpl_max_edges = 5\<rparr>"

text \<open>The nodes and the edges of an answer by identifier, its frontier and its mark.\<close>

definition topology_brief ::
    "QuerySourceError + TopologyBody option SourceSnapshot \<Rightarrow> (string list \<times> string list \<times> string list \<times> bool) option" where
  "topology_brief answer =
     (case answer of
        Inl _ \<Rightarrow> None
      | Inr snapshot \<Rightarrow>
          map_option (\<lambda>body. (map rd_resource_id (tb_nodes body), map ld_relation_id (tb_edges body),
            map tfd_resource_id (tb_frontier body), tb_truncated body)) (ss_body snapshot))"

lemma topology_briefE:
  assumes "topology_brief answer = Some (nodes, edges, frontier, truncated)"
  obtains snapshot body where "answer = Inr snapshot" "ss_body snapshot = Some body"
    "map rd_resource_id (tb_nodes body) = nodes" "map ld_relation_id (tb_edges body) = edges"
    "map tfd_resource_id (tb_frontier body) = frontier" "tb_truncated body = truncated"
  using assms by (auto simp: topology_brief_def split: sum.splits)

theorem topology_sound_witness:
  "\<exists>snapshot body. source_get_topology reach_source (reach_plan 2 2) = Inr snapshot \<and> ss_body snapshot = Some body \<and>
     length (tb_nodes body) = 2 \<and> tb_truncated body \<and>
     tfd_resource_id ` set (tb_frontier body) \<inter> rd_resource_id ` set (tb_nodes body) = {}"
proof -
  have "topology_brief (source_get_topology reach_source (reach_plan 2 2)) =
      Some ([''r1'', ''r2''], [''a''], [''r3''], True)" by code_simp
  then obtain snapshot body where b: "source_get_topology reach_source (reach_plan 2 2) = Inr snapshot"
      "ss_body snapshot = Some body" "map rd_resource_id (tb_nodes body) = [''r1'', ''r2'']" "tb_truncated body = True"
    by (rule topology_briefE)
  have "length (tb_nodes body) = 2" using arg_cong[OF b(3), of length] by simp
  with topology_sound[OF reach_source_ok b(1,2)] b show ?thesis by blast
qed

theorem topology_complete_witness:
  "\<exists>snapshot body. source_get_topology reach_source (reach_plan 2 5) = Inr snapshot \<and> ss_body snapshot = Some body \<and>
     within (bt_values (db_relations (cqs_store reach_source))) ''r1'' 2 = {''r1'', ''r2'', ''r3''}"
proof -
  have "topology_brief (source_get_topology reach_source (reach_plan 2 5)) =
      Some ([''r1'', ''r2'', ''r3''], [''a'', ''b''], [], False)" by code_simp
  then obtain snapshot body where b: "source_get_topology reach_source (reach_plan 2 5) = Inr snapshot"
      "ss_body snapshot = Some body" "map rd_resource_id (tb_nodes body) = [''r1'', ''r2'', ''r3'']"
      "tb_truncated body = False"
    by (rule topology_briefE)
  have plan: "tpl_focus_resource_id (reach_plan 2 5) = ''r1''" "unat (tpl_depth (reach_plan 2 5)) = 2"
    by (simp_all add: reach_plan_def)
  have "rd_resource_id ` set (tb_nodes body) = {''r1'', ''r2'', ''r3''}" using arg_cong[OF b(3), of set] by simp
  with topology_complete[OF reach_source_ok b(1,2)] b plan show ?thesis by simp
qed

end
