(* ===== verification/Store_Actions.thy ===== *)
theory Store_Actions
  imports Store_Query Store_Purge
begin

text \<open>
  \<open>read_github_actions_summary\<close> of \<open>query_projection.rs\<close>: the workflow runs of the repositories of the
  GitHub connections, by a join over two kinds of relation, counted for each repository.
\<close>

definition github_connections :: "Database \<Rightarrow> (ConnectionId, string) btree_map" where
  "github_connections db =
     bt_of_list (map (\<lambda>c. (conn_id c, conn_display_name c))
       (sort_key conn_display_name
         (filter (\<lambda>c. conn_type c = ''github'' \<and> conn_deleted_at c = None) (bt_values (db_connections db)))))"

text \<open>One row for each way from a run over its workflow to a repository.\<close>

definition workflow_run_rows ::
    "Database \<Rightarrow> ConnectionId list \<Rightarrow> (ConnectionId \<times> ResourceId \<times> string \<times> Value) list" where
  "workflow_run_rows db connection_ids =
     sort_key (\<lambda>(connection_id, _, name, _). (connection_id, name))
       [(res_connection_id repo, res_id repo, res_display_name repo, res_attributes run).
         run \<leftarrow> bt_values (db_resources db), res_kind run = ''github.workflow_run'',
         executes \<leftarrow> bt_values (db_relations db), rel_target executes = res_id run \<and>
           rel_kind executes = ''github.executes'',
         workflow \<leftarrow> bt_values (db_resources db), res_id workflow = rel_source executes,
         contains \<leftarrow> bt_values (db_relations db), rel_target contains = res_id workflow \<and>
           rel_kind contains = ''github.contains'',
         repo \<leftarrow> bt_values (db_resources db), res_id repo = rel_source contains \<and>
           res_connection_id repo \<in> set connection_ids]"

record RepoCounts =
  rc_repository_name :: string
  rc_total :: nat
  rc_succeeded :: nat
  rc_failed :: nat
  rc_running :: nat

definition as_str :: "Value option \<Rightarrow> string option" where
  "as_str v = (case v of Some (JString s) \<Rightarrow> Some s | _ \<Rightarrow> None)"

definition count_run :: "Value \<Rightarrow> RepoCounts \<Rightarrow> RepoCounts" where
  "count_run attrs entry =
     (let entry = entry\<lparr>rc_total := rc_total entry + 1\<rparr>;
          status = (case as_str (value_get attrs ''status'') of None \<Rightarrow> ''completed'' | Some s \<Rightarrow> s);
          conclusion = as_str (value_get attrs ''conclusion'')
      in if status \<noteq> ''completed'' then entry\<lparr>rc_running := rc_running entry + 1\<rparr>
         else if conclusion = Some ''success'' then entry\<lparr>rc_succeeded := rc_succeeded entry + 1\<rparr>
         else if conclusion = Some ''failure'' then entry\<lparr>rc_failed := rc_failed entry + 1\<rparr>
         else entry)"

definition count_row ::
    "ConnectionId \<times> ResourceId \<times> string \<times> Value \<Rightarrow> (ConnectionId \<times> ResourceId, RepoCounts) btree_map \<Rightarrow>
     (ConnectionId \<times> ResourceId, RepoCounts) btree_map" where
  "count_row row repo_map =
     (case row of (connection_id, repo_id, repo_name, attrs) \<Rightarrow>
        bt_insert (connection_id, repo_id)
          (count_run attrs
            (case bt_get repo_map (connection_id, repo_id) of
               Some entry \<Rightarrow> entry
             | None \<Rightarrow> \<lparr>rc_repository_name = repo_name, rc_total = 0, rc_succeeded = 0, rc_failed = 0, rc_running = 0\<rparr>))
          repo_map)"

definition read_github_actions_summary :: "Database \<Rightarrow> StoreError + GitHubActionsSummaryRow list" where
  "read_github_actions_summary db =
     (let connections = github_connections db in
      if connections = [] then Inr []
      else
        Inr (sort_key (\<lambda>r. (ghr_connection_name r, ghr_repository_name r))
          (map (\<lambda>((connection_id, repo_id), counts).
              \<lparr>ghr_connection_id = connection_id,
               ghr_connection_name = (case bt_get connections connection_id of None \<Rightarrow> '''' | Some n \<Rightarrow> n),
               ghr_repository_id = repo_id, ghr_repository_name = rc_repository_name counts,
               ghr_action_count = rc_total counts, ghr_succeeded = rc_succeeded counts,
               ghr_failed = rc_failed counts, ghr_running = rc_running counts\<rparr>)
            (fold count_row (workflow_run_rows db (bt_keys connections)) []))))"

definition query_github_actions_summary ::
    "Database \<Rightarrow> StoreError + GitHubActionsSummaryRow list ProjectionSnapshot" where
  "query_github_actions_summary db = with_projection_snapshot db read_github_actions_summary"

section \<open>Counts\<close>

definition run_state :: "Value \<Rightarrow> string" where
  "run_state attrs = (case as_str (value_get attrs ''status'') of None \<Rightarrow> ''completed'' | Some s \<Rightarrow> s)"

definition run_ended :: "string \<Rightarrow> Value \<Rightarrow> bool" where
  "run_ended conclusion attrs \<longleftrightarrow>
     run_state attrs = ''completed'' \<and> as_str (value_get attrs ''conclusion'') = Some conclusion"

definition repo_runs ::
    "(ConnectionId \<times> ResourceId \<times> string \<times> Value) list \<Rightarrow> ConnectionId \<times> ResourceId \<Rightarrow> Value list" where
  "repo_runs rows k = map (\<lambda>(_, _, _, attrs). attrs) (filter (\<lambda>(c, r, _, _). (c, r) = k) rows)"

lemma repo_runs_append [simp]: "repo_runs (rows @ rows') k = repo_runs rows k @ repo_runs rows' k"
  by (simp add: repo_runs_def)

lemma repo_runs_one [simp]: "repo_runs [(c, r, n, attrs)] k = (if (c, r) = k then [attrs] else [])"
  by (simp add: repo_runs_def)

lemma count_run_counts:
  "rc_total (count_run attrs e) = rc_total e + 1"
  "rc_succeeded (count_run attrs e) = rc_succeeded e + (if run_ended ''success'' attrs then 1 else 0)"
  "rc_failed (count_run attrs e) = rc_failed e + (if run_ended ''failure'' attrs then 1 else 0)"
  "rc_running (count_run attrs e) = rc_running e + (if run_state attrs \<noteq> ''completed'' then 1 else 0)"
  unfolding count_run_def Let_def run_state_def[symmetric] run_ended_def by simp_all

definition counts_match :: "RepoCounts option \<Rightarrow> Value list \<Rightarrow> bool" where
  "counts_match entry runs \<longleftrightarrow>
     (case entry of
        None \<Rightarrow> runs = []
      | Some c \<Rightarrow> runs \<noteq> [] \<and> rc_total c = length runs \<and>
          rc_succeeded c = length (filter (run_ended ''success'') runs) \<and>
          rc_failed c = length (filter (run_ended ''failure'') runs) \<and>
          rc_running c = length (filter (\<lambda>attrs. run_state attrs \<noteq> ''completed'') runs))"

lemma counts_match_run:
  assumes "counts_match entry runs"
  shows "counts_match (Some (count_run attrs (case entry of Some e \<Rightarrow> e
    | None \<Rightarrow> \<lparr>rc_repository_name = n, rc_total = 0, rc_succeeded = 0, rc_failed = 0, rc_running = 0\<rparr>)))
    (runs @ [attrs])"
  using assms by (cases entry) (simp_all add: counts_match_def count_run_counts)

lemma get_count_row:
  "bt_get (count_row (c, r, n, attrs) m) k =
   (if k = (c, r) then Some (count_run attrs (case bt_get m (c, r) of Some e \<Rightarrow> e
      | None \<Rightarrow> \<lparr>rc_repository_name = n, rc_total = 0, rc_succeeded = 0, rc_failed = 0, rc_running = 0\<rparr>))
    else bt_get m k)"
  by (simp add: count_row_def bt_get_insert)

lemma fold_count_row: "counts_match (bt_get (fold count_row rows []) k) (repo_runs rows k)"
proof (induction rows rule: rev_induct)
  case Nil
  then show ?case by (simp add: repo_runs_def counts_match_def)
next
  case (snoc row rows)
  obtain c r n attrs where row: "row = (c, r, n, attrs)" by (cases row)
  show ?case
    using snoc counts_match_run[OF snoc, of attrs n] by (auto simp: row get_count_row)
qed

lemma filter_split_le:
  "(\<And>x. \<not> (P x \<and> Q x)) \<Longrightarrow> (\<And>x. \<not> (P x \<and> R x)) \<Longrightarrow> (\<And>x. \<not> (Q x \<and> R x)) \<Longrightarrow>
   length (filter P xs) + length (filter Q xs) + length (filter R xs) \<le> length xs"
  by (induction xs) auto

lemma count_rows_wf: "bt_wf m \<Longrightarrow> bt_wf (fold count_row rows m)"
  by (induction rows arbitrary: m) (auto simp: count_row_def bt_wf_insert)

definition summary_runs :: "Database \<Rightarrow> ConnectionId \<times> ResourceId \<Rightarrow> Value list" where
  "summary_runs db k = repo_runs (workflow_run_rows db (bt_keys (github_connections db))) k"

lemma no_connection_no_run: "github_connections db = [] \<Longrightarrow> summary_runs db k = []"
proof -
  have "set (workflow_run_rows db []) = {}" by (auto simp: workflow_run_rows_def)
  then have "workflow_run_rows db [] = []" by (simp only: set_empty)
  then show "github_connections db = [] \<Longrightarrow> summary_runs db k = []"
    by (simp add: summary_runs_def repo_runs_def bt_keys_def)
qed

lemma summary_total: "\<exists>summary. read_github_actions_summary db = Inr summary"
  by (cases "github_connections db = []") (simp_all add: read_github_actions_summary_def Let_def)

text \<open>
  The summary has a row for exactly the repositories with a run, and the counts of a row are those of its
  runs: all of them, the completed ones that succeeded or failed, and the ones that are not completed.
\<close>

theorem actions_summary_counts:
  assumes "read_github_actions_summary db = Inr summary"
  shows "(\<forall>row\<in>set summary. \<exists>runs. runs = summary_runs db (ghr_connection_id row, ghr_repository_id row) \<and>
      runs \<noteq> [] \<and> ghr_action_count row = length runs \<and>
      ghr_succeeded row = length (filter (run_ended ''success'') runs) \<and>
      ghr_failed row = length (filter (run_ended ''failure'') runs) \<and>
      ghr_running row = length (filter (\<lambda>attrs. run_state attrs \<noteq> ''completed'') runs) \<and>
      ghr_succeeded row + ghr_failed row + ghr_running row \<le> ghr_action_count row) \<and>
    (\<forall>c r. summary_runs db (c, r) \<noteq> [] \<longrightarrow>
      (\<exists>row\<in>set summary. ghr_connection_id row = c \<and> ghr_repository_id row = r))"
proof (cases "github_connections db = []")
  case True
  then show ?thesis using assms by (simp add: read_github_actions_summary_def Let_def no_connection_no_run)
next
  case False
  define counts where "counts = fold count_row (workflow_run_rows db (bt_keys (github_connections db))) []"
  have match: "counts_match (bt_get counts k) (summary_runs db k)" for k
    unfolding counts_def summary_runs_def by (rule fold_count_row)
  have get: "(k, c) \<in> set counts \<longleftrightarrow> bt_get counts k = Some c" for k c
    by (rule bt_mem_iff) (simp add: counts_def count_rows_wf)
  define row where "row = (\<lambda>((connection_id, repo_id), counts :: RepoCounts).
      \<lparr>ghr_connection_id = connection_id,
       ghr_connection_name = (case bt_get (github_connections db) connection_id of None \<Rightarrow> '''' | Some n \<Rightarrow> n),
       ghr_repository_id = repo_id, ghr_repository_name = rc_repository_name counts,
       ghr_action_count = rc_total counts, ghr_succeeded = rc_succeeded counts,
       ghr_failed = rc_failed counts, ghr_running = rc_running counts\<rparr>)"
  have "summary = sort_key (\<lambda>r. (ghr_connection_name r, ghr_repository_name r)) (map row counts)"
    using assms False
    by (auto simp: read_github_actions_summary_def Let_def counts_def[symmetric] row_def[symmetric])
  then have summary: "set summary = row ` set counts" by simp
  have exact: "counts_match (Some k) (summary_runs db (c, r))" if "((c, r), k) \<in> set counts" for c r k
    using match[of "(c, r)"] that by (simp add: get)
  have at_most: "length (filter (run_ended ''success'') runs) + length (filter (run_ended ''failure'') runs) +
      length (filter (\<lambda>attrs. run_state attrs \<noteq> ''completed'') runs) \<le> length runs" for runs
    by (rule filter_split_le) (simp_all add: run_ended_def)
  show ?thesis
  proof (intro conjI ballI allI impI)
    fix entry
    assume "entry \<in> set summary"
    then obtain c r k where k: "((c, r), k) \<in> set counts" "entry = row ((c, r), k)" unfolding summary by auto
    show "\<exists>runs. runs = summary_runs db (ghr_connection_id entry, ghr_repository_id entry) \<and>
      runs \<noteq> [] \<and> ghr_action_count entry = length runs \<and>
      ghr_succeeded entry = length (filter (run_ended ''success'') runs) \<and>
      ghr_failed entry = length (filter (run_ended ''failure'') runs) \<and>
      ghr_running entry = length (filter (\<lambda>attrs. run_state attrs \<noteq> ''completed'') runs) \<and>
      ghr_succeeded entry + ghr_failed entry + ghr_running entry \<le> ghr_action_count entry"
      using exact[OF k(1)] at_most[of "summary_runs db (c, r)"]
      by (simp add: k(2) row_def counts_match_def)
  next
    fix c r
    assume "summary_runs db (c, r) \<noteq> []"
    then obtain k where "bt_get counts (c, r) = Some k"
      using match[of "(c, r)"] by (cases "bt_get counts (c, r)") (auto simp: counts_match_def)
    then have "row ((c, r), k) \<in> set summary" unfolding summary by (simp add: get)
    then show "\<exists>row\<in>set summary. ghr_connection_id row = c \<and> ghr_repository_id row = r"
      by (rule bexI[rotated]) (simp add: row_def)
  qed
qed

text \<open>One repository with two runs of a workflow.\<close>

definition actions_relation :: "string \<Rightarrow> string \<Rightarrow> ResourceId \<Rightarrow> ResourceId \<Rightarrow> Relation" where
  "actions_relation i kind source target =
     \<lparr>rel_id = i, rel_source = source, rel_target = target, rel_kind = kind, rel_evidence_key = ''k'',
      rel_evidence = Inferred ''rule:1'' [] [] 1, rel_first_seen_at = 1, rel_last_seen_at = 2,
      rel_lifecycle = Active\<rparr>"

definition actions_resource :: "string \<Rightarrow> string \<Rightarrow> Value \<Rightarrow> Resource" where
  "actions_resource i kind attributes =
     sample_resource\<lparr>res_id := i, res_external_id := i, res_kind := kind, res_attributes := attributes\<rparr>"

definition actions_store :: Database where
  "actions_store = sample_store\<lparr>
     db_connections := [(''c1'', sample_connection\<lparr>conn_type := ''github''\<rparr>)],
     db_resources := map (\<lambda>r. (res_id r, r))
       [actions_resource ''p1'' ''github.repository'' JNull, actions_resource ''w1'' ''github.workflow'' JNull,
        actions_resource ''x1'' ''github.workflow_run'' (JObject [(''status'', JString ''queued'')]),
        actions_resource ''x2'' ''github.workflow_run''
          (JObject [(''conclusion'', JString ''success''), (''status'', JString ''completed'')])],
     db_relations := map (\<lambda>r. (rel_id r, r))
       [actions_relation ''a'' ''github.contains'' ''p1'' ''w1'', actions_relation ''b'' ''github.executes'' ''w1'' ''x1'',
        actions_relation ''c'' ''github.executes'' ''w1'' ''x2'']\<rparr>"

theorem actions_summary_counts_witness:
  "\<exists>summary. read_github_actions_summary actions_store = Inr summary \<and>
     (\<exists>row\<in>set summary. ghr_connection_id row = ''c1'' \<and> ghr_repository_id row = ''p1'')"
proof -
  obtain summary where s: "read_github_actions_summary actions_store = Inr summary"
    using summary_total by blast
  have "summary_runs actions_store (''c1'', ''p1'') \<noteq> []" by code_simp
  with actions_summary_counts[OF s] s show ?thesis by blast
qed

end
