(* ===== verification/Rpc_Framing.thy ===== *)
theory Rpc_Framing
  imports Rust_Int
begin

text \<open>
  \<open>protocol/error.rs\<close>, \<open>protocol/framing.rs\<close> and \<open>transport/framed.rs\<close> of crate \<open>next-infra-local-rpc\<close>: a frame
  is the length of a JSON text in four bytes, the most significant first, and the text. The texts that
  serde writes and reads are parameters: a value is written in pieces, and may fail to be written. A
  stream that is read is the list of what its reads meet.
\<close>

section \<open>Errors\<close>

datatype RpcErrorCode =
    HostUnavailable | ProtocolMismatch | CapabilityMismatch | RpcInvalidFrame | FrameTooLarge | InvalidRequestId
  | TooManyRequests | QueryFailed

definition rpc_code_text :: "RpcErrorCode \<Rightarrow> string" where
  "rpc_code_text code =
     (case code of
        HostUnavailable \<Rightarrow> ''host_unavailable''
      | ProtocolMismatch \<Rightarrow> ''protocol_mismatch''
      | CapabilityMismatch \<Rightarrow> ''capability_mismatch''
      | RpcInvalidFrame \<Rightarrow> ''invalid_frame''
      | FrameTooLarge \<Rightarrow> ''frame_too_large''
      | InvalidRequestId \<Rightarrow> ''invalid_request_id''
      | TooManyRequests \<Rightarrow> ''too_many_requests''
      | QueryFailed \<Rightarrow> ''query_failed'')"

record RpcError =
  rpe_code :: RpcErrorCode
  rpe_message :: string
  rpe_retryable :: bool

definition rpc_error_new :: "RpcErrorCode \<Rightarrow> string \<Rightarrow> bool \<Rightarrow> RpcError" where
  "rpc_error_new code message retryable = \<lparr>rpe_code = code, rpe_message = message, rpe_retryable = retryable\<rparr>"

definition rpc_host_unavailable :: "string \<Rightarrow> RpcError" where
  "rpc_host_unavailable message = rpc_error_new HostUnavailable message True"

definition rpc_protocol_mismatch :: "string \<Rightarrow> RpcError" where
  "rpc_protocol_mismatch message = rpc_error_new ProtocolMismatch message False"

definition rpc_capability_mismatch :: "string \<Rightarrow> RpcError" where
  "rpc_capability_mismatch message = rpc_error_new CapabilityMismatch message False"

definition rpc_invalid_frame :: "string \<Rightarrow> RpcError" where
  "rpc_invalid_frame message = rpc_error_new RpcInvalidFrame message False"

definition rpc_oversized_frame :: "string \<Rightarrow> RpcError" where
  "rpc_oversized_frame message = rpc_error_new FrameTooLarge message False"

definition rpc_invalid_request_id :: RpcError where
  "rpc_invalid_request_id =
     rpc_error_new InvalidRequestId ''request_id must be a non-empty UTF-8 string no longer than 128 bytes'' False"

definition rpc_too_many_requests :: RpcError where
  "rpc_too_many_requests =
     rpc_error_new TooManyRequests ''the session has reached its in-flight request limit'' True"

definition rpc_query_failed :: "string \<Rightarrow> bool \<Rightarrow> RpcError" where
  "rpc_query_failed message retryable = rpc_error_new QueryFailed message retryable"

section \<open>Frames in memory\<close>

definition FRAME_HEADER_BYTES :: nat where
  "FRAME_HEADER_BYTES = 4"

definition MAX_FRAME_BYTES :: nat where
  "MAX_FRAME_BYTES = 1048576"

datatype FrameErrorKind =
    MissingHeader nat
  | ZeroLength
  | Incomplete nat nat
  | TrailingBytes nat nat
  | InvalidJson string

datatype FrameError = OversizedFrame nat | InvalidFrame FrameErrorKind

definition frame_kind_text :: "FrameErrorKind \<Rightarrow> string" where
  "frame_kind_text kind =
     (case kind of
        MissingHeader actual \<Rightarrow>
          ''frame is missing its 4-byte length header (received '' @ show_nat actual @ '' bytes)''
      | ZeroLength \<Rightarrow> ''frame body length must be non-zero''
      | Incomplete expected actual \<Rightarrow>
          ''frame is incomplete: expected '' @ show_nat expected @ '' bytes, received '' @ show_nat actual
      | TrailingBytes expected actual \<Rightarrow>
          ''frame has trailing bytes: expected '' @ show_nat expected @ '' bytes, received '' @ show_nat actual
      | InvalidJson message \<Rightarrow> ''invalid UTF-8 or JSON body: '' @ message)"

definition frame_error_text :: "FrameError \<Rightarrow> string" where
  "frame_error_text e =
     (case e of
        OversizedFrame n \<Rightarrow> ''frame body length '' @ show_nat n @ '' exceeds the 1 MiB maximum''
      | InvalidFrame kind \<Rightarrow> frame_kind_text kind)"

definition frame_rpc_error :: "FrameError \<Rightarrow> RpcError" where
  "frame_rpc_error e =
     (case e of
        OversizedFrame n \<Rightarrow>
          rpc_oversized_frame (''frame body length '' @ show_nat n @ '' exceeds the 1 MiB maximum'')
      | InvalidFrame kind \<Rightarrow> rpc_invalid_frame (frame_kind_text kind))"

text \<open>\<open>u32::to_be_bytes\<close> and \<open>u32::from_be_bytes\<close>.\<close>

definition to_be_bytes :: "nat \<Rightarrow> string" where
  "to_be_bytes n = map char_of [n div 16777216, n div 65536, n div 256, n]"

definition from_be_bytes :: "string \<Rightarrow> nat" where
  "from_be_bytes s = foldl (\<lambda>n c. n * 256 + byte c) 0 s"

record LimitedWriter =
  lw_bytes :: string
  lw_limit :: nat
  lw_bytes_written :: nat
  lw_exceeded :: bool

definition limited_writer_new :: "nat \<Rightarrow> LimitedWriter" where
  "limited_writer_new limit = \<lparr>lw_bytes = [], lw_limit = limit, lw_bytes_written = 0, lw_exceeded = False\<rparr>"

text \<open>\<open>write\<close>: all the bytes, or none of them and an error.\<close>

definition limited_write :: "string \<Rightarrow> LimitedWriter \<Rightarrow> bool \<times> LimitedWriter" where
  "limited_write bytes w =
     (if lw_limit w - length (lw_bytes w) < length bytes
      then (False, w\<lparr>lw_exceeded := True, lw_bytes_written := length (lw_bytes w) + length bytes\<rparr>)
      else (True, w\<lparr>lw_bytes := lw_bytes w @ bytes, lw_bytes_written := length (lw_bytes w) + length bytes\<rparr>))"

text \<open>\<open>serde_json::to_writer\<close>: the pieces of the text, one after the other, until one is not taken.\<close>

record Serialized =
  sz_pieces :: "string list"
  sz_error :: "string option"

fun write_pieces :: "string list \<Rightarrow> LimitedWriter \<Rightarrow> bool \<times> LimitedWriter" where
  "write_pieces [] w = (True, w)"
| "write_pieces (piece # pieces) w =
     (case limited_write piece w of
        (True, w) \<Rightarrow> write_pieces pieces w
      | (False, w) \<Rightarrow> (False, w))"

definition encode_frame :: "('a \<Rightarrow> Serialized) \<Rightarrow> 'a \<Rightarrow> FrameError + string" where
  "encode_frame serialize value =
     (case write_pieces (sz_pieces (serialize value)) (limited_writer_new MAX_FRAME_BYTES) of
        (taken, w) \<Rightarrow>
          if \<not> taken \<or> sz_error (serialize value) \<noteq> None
          then
            if lw_exceeded w then Inl (OversizedFrame (lw_bytes_written w))
            else Inl (InvalidFrame (InvalidJson (case sz_error (serialize value) of None \<Rightarrow> [] | Some m \<Rightarrow> m)))
          else
            let body = lw_bytes w; n = length body in
            if body = [] then Inl (InvalidFrame ZeroLength)
            else if 2 ^ 32 \<le> n then Inl (OversizedFrame n)
            else Inr (to_be_bytes n @ body))"

definition decode_frame_bytes :: "string \<Rightarrow> FrameError + string" where
  "decode_frame_bytes frame =
     (if length frame < FRAME_HEADER_BYTES then Inl (InvalidFrame (MissingHeader (length frame)))
      else
        let n = from_be_bytes (take FRAME_HEADER_BYTES frame) in
        if n = 0 then Inl (InvalidFrame ZeroLength)
        else if MAX_FRAME_BYTES < n then Inl (OversizedFrame n)
        else
          let expected = FRAME_HEADER_BYTES + n in
          if length frame < expected then Inl (InvalidFrame (Incomplete expected (length frame)))
          else if expected < length frame then Inl (InvalidFrame (TrailingBytes expected (length frame)))
          else Inr (drop FRAME_HEADER_BYTES frame))"

definition decode_frame :: "(string \<Rightarrow> string + 'a) \<Rightarrow> string \<Rightarrow> FrameError + 'a" where
  "decode_frame parse frame =
     res_bind (decode_frame_bytes frame) (\<lambda>body. map_err (\<lambda>m. InvalidFrame (InvalidJson m)) (parse body))"

section \<open>Frames of a stream\<close>

text \<open>
  What a read meets: bytes, as many as arrive together (no bytes are the end of the stream), an
  interruption, or an error. A list that has run out is the end of the stream as well. Bytes that do not
  fit the buffer of the read stay for the next one.
\<close>

datatype ReadEvent = Arrive string | Interrupted | ReadFailed string

datatype FramedError =
    FramedIo string
  | FramedEof nat nat
  | FramedZeroLength
  | FramedOversized nat
  | FramedInvalidJson string

fun read_exact_count :: "nat \<Rightarrow> string \<Rightarrow> ReadEvent list \<Rightarrow> (FramedError + string) \<times> ReadEvent list" where
  "read_exact_count expected got [] =
     (if length got < expected then (Inl (FramedEof expected (length got)), []) else (Inr got, []))"
| "read_exact_count expected got (e # es) =
     (if length got < expected then
        (case e of
           Arrive bytes \<Rightarrow>
             if bytes = [] then (Inl (FramedEof expected (length got)), es)
             else if length bytes \<le> expected - length got then read_exact_count expected (got @ bytes) es
             else (Inr (got @ take (expected - length got) bytes), Arrive (drop (expected - length got) bytes) # es)
         | Interrupted \<Rightarrow> read_exact_count expected got es
         | ReadFailed m \<Rightarrow> (Inl (FramedIo m), es))
      else (Inr got, e # es))"

definition read_frame :: "ReadEvent list \<Rightarrow> (FramedError + string) \<times> ReadEvent list" where
  "read_frame es =
     (case read_exact_count FRAME_HEADER_BYTES [] es of
        (Inl e, es) \<Rightarrow> (Inl e, es)
      | (Inr header, es) \<Rightarrow>
          let n = from_be_bytes header in
          if n = 0 then (Inl FramedZeroLength, es)
          else if MAX_FRAME_BYTES < n then (Inl (FramedOversized n), es)
          else read_exact_count n [] es)"

definition read_json_frame :: "(string \<Rightarrow> string + 'a) \<Rightarrow> ReadEvent list \<Rightarrow> (FramedError + 'a) \<times> ReadEvent list" where
  "read_json_frame parse es =
     (case read_frame es of
        (Inl e, es) \<Rightarrow> (Inl e, es)
      | (Inr body, es) \<Rightarrow> (map_err FramedInvalidJson (parse body), es))"

text \<open>Writing: \<open>write_all\<close> of the stream is a parameter.\<close>

definition write_frame ::
    "('a \<Rightarrow> Serialized) \<Rightarrow> (string \<Rightarrow> 'w \<Rightarrow> (string + unit) \<times> 'w) \<Rightarrow> 'a \<Rightarrow> 'w \<Rightarrow> (FramedError + unit) \<times> 'w" where
  "write_frame serialize write_all value w =
     (case encode_frame serialize value of
        Inl (OversizedFrame n) \<Rightarrow> (Inl (FramedOversized n), w)
      | Inl e \<Rightarrow> (Inl (FramedInvalidJson (frame_error_text e)), w)
      | Inr frame \<Rightarrow>
          (case write_all frame w of (r, w) \<Rightarrow> (map_err FramedIo r, w)))"

section \<open>Facts on frames\<close>

lemma from_be_bytes_inverse: "n < 4294967296 \<Longrightarrow> from_be_bytes (to_be_bytes n) = n"
proof -
  assume n: "n < 4294967296"
  have "n div 16777216 < 256" using n by simp
  moreover have "n div 65536 = n div 16777216 * 256 + n div 65536 mod 256"
    using div_mult_mod_eq[of "n div 65536" 256] by (simp add: div_mult2_eq[symmetric])
  moreover have "n div 256 = n div 65536 * 256 + n div 256 mod 256"
    using div_mult_mod_eq[of "n div 256" 256] by (simp add: div_mult2_eq[symmetric])
  moreover have "n = n div 256 * 256 + n mod 256" by simp
  ultimately show ?thesis by (simp add: to_be_bytes_def from_be_bytes_def byte_def)
qed

lemma to_be_bytes_length [simp]: "length (to_be_bytes n) = 4"
  by (simp add: to_be_bytes_def)

lemma to_be_bytes_inverse:
  assumes "length s = 4"
  shows "to_be_bytes (from_be_bytes s) = s \<and> from_be_bytes s < 4294967296"
proof -
  obtain a b c d where s: "s = [a, b, c, d]"
    using assms by (auto simp: length_Suc_conv numeral_eq_Suc)
  have bound: "byte a < 256" "byte b < 256" "byte c < 256" "byte d < 256" by (rule byte_less)+
  have n: "from_be_bytes s = byte a * 16777216 + byte b * 65536 + byte c * 256 + byte d" by (simp add: s from_be_bytes_def)
  have char: "char_of m = x \<longleftrightarrow> m mod 256 = byte x" for m x
    using char_of_quasi_inj[of m "byte x"] byte_less[of x] by (simp add: byte_def del: char_of_quasi_inj)
  have small: "byte c * 256 + byte d < 65536" "byte b * 65536 + (byte c * 256 + byte d) < 16777216"
    using bound by linarith+
  have "from_be_bytes s div 16777216 = byte a"
    "from_be_bytes s div 65536 = byte a * 256 + byte b"
    "from_be_bytes s div 256 = byte a * 65536 + byte b * 256 + byte c"
    unfolding n using bound small by (auto intro!: div_nat_eqI)
  moreover have "from_be_bytes s mod 256 = byte d"
  proof -
    have "from_be_bytes s = byte d + (byte a * 65536 + byte b * 256 + byte c) * 256" by (simp add: n)
    then show ?thesis using bound(4) by (simp only: mod_mult_self1) simp
  qed
  moreover have "(byte a * 256 + byte b) mod 256 = byte b"
    "(byte a * 65536 + byte b * 256 + byte c) mod 256 = byte c"
  proof -
    show "(byte a * 256 + byte b) mod 256 = byte b" using bound(2) by simp
    have "byte a * 65536 + byte b * 256 + byte c = byte c + (byte a * 256 + byte b) * 256" by simp
    then show "(byte a * 65536 + byte b * 256 + byte c) mod 256 = byte c"
      using bound(3) by (simp only: mod_mult_self1) simp
  qed
  ultimately have "to_be_bytes (from_be_bytes s) = [a, b, c, d]"
    using bound(1) by (simp add: to_be_bytes_def char)
  moreover have "from_be_bytes s < 4294967296" unfolding n using bound by linarith
  ultimately show ?thesis by (simp only: s)
qed

section \<open>Encoding\<close>

lemma write_pieces_ok:
  assumes "length (lw_bytes w) + length (concat pieces) \<le> lw_limit w"
  shows "\<exists>w'. write_pieces pieces w = (True, w') \<and> lw_bytes w' = lw_bytes w @ concat pieces \<and>
    lw_exceeded w' = lw_exceeded w"
  using assms
proof (induction pieces arbitrary: w)
  case Nil
  then show ?case by simp
next
  case (Cons a pieces)
  define v where "v = w\<lparr>lw_bytes := lw_bytes w @ a, lw_bytes_written := length (lw_bytes w) + length a\<rparr>"
  have "limited_write a w = (True, v)" using Cons.prems by (simp add: limited_write_def v_def)
  moreover have "lw_bytes v = lw_bytes w @ a" "lw_exceeded v = lw_exceeded w" "lw_limit v = lw_limit w"
    by (simp_all add: v_def)
  ultimately show ?case using Cons.IH[of v] Cons.prems by auto
qed

lemma write_pieces_full:
  assumes "lw_limit w < length (lw_bytes w) + length (concat pieces)" and "length (lw_bytes w) \<le> lw_limit w"
  shows "\<exists>w'. write_pieces pieces w = (False, w') \<and> lw_exceeded w' \<and> lw_limit w < lw_bytes_written w'"
  using assms
proof (induction pieces arbitrary: w)
  case Nil
  then show ?case by simp
next
  case (Cons a pieces)
  define v where "v = w\<lparr>lw_bytes := lw_bytes w @ a, lw_bytes_written := length (lw_bytes w) + length a\<rparr>"
  show ?case
  proof (cases "lw_limit w - length (lw_bytes w) < length a")
    case True
    with Cons.prems show ?thesis by (simp add: limited_write_def)
  next
    case False
    then have "limited_write a w = (True, v)" by (simp add: limited_write_def v_def)
    moreover have "lw_bytes v = lw_bytes w @ a" "lw_limit v = lw_limit w" by (simp_all add: v_def)
    ultimately show ?thesis using Cons.IH[of v] Cons.prems False by auto
  qed
qed

text \<open>
  A value is encoded exactly when its text is written without an error, is not empty and has at most
  1048576 bytes; the frame does not depend on the pieces in which the text is written. A longer text is
  refused as oversized, whatever else would have failed after it.
\<close>

theorem encode_frame_outcome:
  "encode_frame serialize value =
    (let body = concat (sz_pieces (serialize value)) in
     if MAX_FRAME_BYTES < length body
     then Inl (OversizedFrame (lw_bytes_written (snd
       (write_pieces (sz_pieces (serialize value)) (limited_writer_new MAX_FRAME_BYTES)))))
     else case sz_error (serialize value) of
       Some m \<Rightarrow> Inl (InvalidFrame (InvalidJson m))
     | None \<Rightarrow> if body = [] then Inl (InvalidFrame ZeroLength) else Inr (to_be_bytes (length body) @ body))"
proof -
  define w where "w = limited_writer_new MAX_FRAME_BYTES"
  define pieces where "pieces = sz_pieces (serialize value)"
  have w: "lw_bytes w = []" "lw_limit w = MAX_FRAME_BYTES" "\<not> lw_exceeded w"
    by (simp_all add: w_def limited_writer_new_def)
  show ?thesis
  proof (cases "MAX_FRAME_BYTES < length (concat pieces)")
    case True
    with write_pieces_full[of w pieces] w obtain w' where "write_pieces pieces w = (False, w')" "lw_exceeded w'" by auto
    with True show ?thesis by (simp add: encode_frame_def w_def[symmetric] pieces_def[symmetric])
  next
    case False
    with write_pieces_ok[of w pieces] w obtain w' where
      "write_pieces pieces w = (True, w')" "lw_bytes w' = concat pieces" "\<not> lw_exceeded w'" by auto
    moreover have "length (concat pieces) < 2 ^ 32" using False by (simp add: MAX_FRAME_BYTES_def)
    ultimately show ?thesis
      using False
      by (simp add: encode_frame_def w_def[symmetric] pieces_def[symmetric] Let_def split: option.split)
  qed
qed

section \<open>Decoding\<close>

definition frame_of :: "string \<Rightarrow> string" where
  "frame_of body = to_be_bytes (length body) @ body"

definition body_ok :: "string \<Rightarrow> bool" where
  "body_ok body \<longleftrightarrow> body \<noteq> [] \<and> length body \<le> MAX_FRAME_BYTES"

lemma body_ok_length: "body_ok body \<Longrightarrow> from_be_bytes (to_be_bytes (length body)) = length body"
  by (rule from_be_bytes_inverse) (simp add: body_ok_def MAX_FRAME_BYTES_def)

text \<open>A frame decodes exactly when it is the frame of a body that is not empty and not too long.\<close>

theorem decode_frame_bytes_iff: "decode_frame_bytes frame = Inr body \<longleftrightarrow> frame = frame_of body \<and> body_ok body"
proof
  assume r: "decode_frame_bytes frame = Inr body"
  define n where "n = from_be_bytes (take 4 frame)"
  have f: "length frame = 4 + n" "0 < n" "n \<le> MAX_FRAME_BYTES" "body = drop 4 frame"
    using r by (auto simp: decode_frame_bytes_def FRAME_HEADER_BYTES_def Let_def n_def split: if_splits)
  have "length (take 4 frame) = 4" using f by simp
  then have "to_be_bytes n = take 4 frame" unfolding n_def by (simp only: to_be_bytes_inverse)
  moreover have "length body = n" using f by simp
  moreover have "take 4 frame @ body = frame" by (simp only: f(4) append_take_drop_id)
  ultimately have "frame_of body = frame" "body_ok body" using f(2,3) by (auto simp: frame_of_def body_ok_def)
  then show "frame = frame_of body \<and> body_ok body" by simp
next
  assume f: "frame = frame_of body \<and> body_ok body"
  then have "from_be_bytes (to_be_bytes (length body)) = length body" by (simp add: body_ok_length)
  with f show "decode_frame_bytes frame = Inr body"
    by (simp add: decode_frame_bytes_def FRAME_HEADER_BYTES_def frame_of_def body_ok_def Let_def)
qed

section \<open>Streams\<close>

text \<open>A stream without errors, and the bytes that it brings in all.\<close>

definition flowing :: "ReadEvent list \<Rightarrow> bool" where
  "flowing es \<longleftrightarrow> list_all (\<lambda>e. case e of Arrive bytes \<Rightarrow> bytes \<noteq> [] | Interrupted \<Rightarrow> True | ReadFailed _ \<Rightarrow> False) es"

definition arriving :: "ReadEvent list \<Rightarrow> string" where
  "arriving es = concat (map (\<lambda>e. case e of Arrive bytes \<Rightarrow> bytes | _ \<Rightarrow> []) es)"

lemma flowing_simps [simp]:
  "flowing []" "flowing (Arrive bytes # es) \<longleftrightarrow> bytes \<noteq> [] \<and> flowing es" "flowing (Interrupted # es) \<longleftrightarrow> flowing es"
  "\<not> flowing (ReadFailed m # es)"
  by (simp_all add: flowing_def)

lemma arriving_simps [simp]:
  "arriving [] = []" "arriving (Arrive bytes # es) = bytes @ arriving es" "arriving (Interrupted # es) = arriving es"
  by (simp_all add: arriving_def)

lemma read_exact_count_full:
  assumes "flowing es" and "expected \<le> length got + length (arriving es)" and "length got \<le> expected"
  shows "\<exists>es'. read_exact_count expected got es = (Inr (take expected (got @ arriving es)), es') \<and> flowing es' \<and>
    arriving es' = drop (expected - length got) (arriving es)"
  using assms
proof (induction expected got es rule: read_exact_count.induct)
  case (1 expected got)
  then show ?case by simp
next
  case (2 expected got e es)
  show ?case
  proof (cases "length got < expected")
    case False
    then have "length got = expected" using 2 by simp
    then show ?thesis using 2 by simp
  next
    case short: True
    show ?thesis
    proof (cases e)
      case (Arrive bytes)
      then have ne: "bytes \<noteq> []" "flowing es" using 2 by simp_all
      show ?thesis
      proof (cases "length bytes \<le> expected - length got")
        case True
        with 2 short Arrive ne show ?thesis by simp
      next
        case False
        with 2 short Arrive ne show ?thesis by simp
      qed
    qed (use 2 short in simp_all)
  qed
qed

lemma read_exact_count_short:
  assumes "flowing es" and "length got + length (arriving es) < expected"
  shows "read_exact_count expected got es = (Inl (FramedEof expected (length got + length (arriving es))), [])"
  using assms
proof (induction expected got es rule: read_exact_count.induct)
  case (1 expected got)
  then show ?case by simp
next
  case (2 expected got e es)
  then show ?case by (cases e) (auto simp: add.assoc)
qed

lemma read_frame_flowing:
  assumes "flowing es" and "body_ok body" and "arriving es = frame_of body @ rest"
  shows "\<exists>es'. read_frame es = (Inr body, es') \<and> flowing es' \<and> arriving es' = rest"
proof -
  from read_exact_count_full[of es 4 "[]"] assms obtain es1 where header:
      "read_exact_count 4 [] es = (Inr (to_be_bytes (length body)), es1)" "flowing es1" "arriving es1 = body @ rest"
    by (auto simp: frame_of_def)
  from read_exact_count_full[of es1 "length body" "[]"] header obtain es2 where
      "read_exact_count (length body) [] es1 = (Inr body, es2)" "flowing es2" "arriving es2 = rest"
    by auto
  with header assms(2) body_ok_length[OF assms(2)] show ?thesis
    by (auto simp: read_frame_def FRAME_HEADER_BYTES_def body_ok_def)
qed

text \<open>A reader that takes frame after frame until one fails.\<close>

fun read_frames :: "nat \<Rightarrow> ReadEvent list \<Rightarrow> string list \<times> FramedError option" where
  "read_frames 0 es = ([], None)"
| "read_frames (Suc n) es =
     (case read_frame es of
        (Inl e, _) \<Rightarrow> ([], Some e)
      | (Inr body, es) \<Rightarrow> (case read_frames n es of (bodies, e) \<Rightarrow> (body # bodies, e)))"


lemma body_ok_short: "body \<noteq> [] \<Longrightarrow> length body \<le> 8 \<Longrightarrow> body_ok body"
  by (simp add: body_ok_def MAX_FRAME_BYTES_def)

lemma frame_samples:
  "frame_of ''{}'' = [CHR 0x00, CHR 0x00, CHR 0x00, CHR 0x02, CHR ''{'', CHR ''}'']"
  "frame_of ''x'' = [CHR 0x00, CHR 0x00, CHR 0x00, CHR 0x01, CHR ''x'']"
proof -
  have n: "length ''{}'' = 2" "length ''x'' = 1" by simp_all
  have "char_of (2 :: nat) = CHR 0x02" "char_of (1 :: nat) = CHR 0x01" "char_of (0 :: nat) = CHR 0x00" by code_simp+
  then have "to_be_bytes 2 = [CHR 0x00, CHR 0x00, CHR 0x00, CHR 0x02]"
    "to_be_bytes 1 = [CHR 0x00, CHR 0x00, CHR 0x00, CHR 0x01]" by (simp_all add: to_be_bytes_def)
  then show "frame_of ''{}'' = [CHR 0x00, CHR 0x00, CHR 0x00, CHR 0x02, CHR ''{'', CHR ''}'']"
    "frame_of ''x'' = [CHR 0x00, CHR 0x00, CHR 0x00, CHR 0x01, CHR ''x'']"
    unfolding frame_of_def n by simp_all
qed


text \<open>A length beyond the maximum is refused with the header: no byte of the body is read.\<close>

lemma oversized_refused_at_header:
  assumes "MAX_FRAME_BYTES < n" and "n < 4294967296"
  shows "read_frame [Arrive (to_be_bytes n @ rest)] =
    (Inl (FramedOversized n), if rest = [] then [] else [Arrive rest])"
proof -
  have "to_be_bytes n \<noteq> []" using to_be_bytes_length[of n] by (metis list.size(3) zero_neq_numeral)
  then show ?thesis
    using assms by (auto simp: read_frame_def FRAME_HEADER_BYTES_def from_be_bytes_inverse MAX_FRAME_BYTES_def)
qed

end
