(* ===== verification/Rpc_Protocol.thy ===== *)
theory Rpc_Protocol
  imports Rpc_Framing Query_Service
begin

text \<open>
  \<open>protocol/handshake.rs\<close>, \<open>protocol/message.rs\<close>, \<open>protocol/mod.rs\<close> and \<open>session/handler.rs\<close> of crate
  \<open>next-infra-local-rpc\<close>: the negotiation of a version and of capabilities, the requests and responses
  with their checks, and the dispatch of a request to the query service.
\<close>

section \<open>Capabilities\<close>

definition PROTOCOL_MAJOR :: "16 word" where
  "PROTOCOL_MAJOR = 1"

definition PROTOCOL_MINOR :: "16 word" where
  "PROTOCOL_MINOR = 0"

definition MINIMUM_SUPPORTED_MINOR :: "16 word" where
  "MINIMUM_SUPPORTED_MINOR = 0"

datatype Capability =
    CapHealthSummary | CapRecentChanges | CapResource | CapSyncStatus | CapTopology | CapConnectorCoverage
  | CapSearchResources

definition all_capabilities :: "Capability list" where
  "all_capabilities =
     [CapHealthSummary, CapRecentChanges, CapResource, CapSyncStatus, CapTopology, CapConnectorCoverage,
      CapSearchResources]"

fun capability_text :: "Capability \<Rightarrow> string" where
  "capability_text CapHealthSummary = ''query.get_health_summary.v1''"
| "capability_text CapRecentChanges = ''query.get_recent_changes.v1''"
| "capability_text CapResource = ''query.get_resource.v1''"
| "capability_text CapSyncStatus = ''query.get_sync_status.v1''"
| "capability_text CapTopology = ''query.get_topology.v1''"
| "capability_text CapConnectorCoverage = ''query.list_connector_coverage.v1''"
| "capability_text CapSearchResources = ''query.search_resources.v1''"

definition capability_of_text :: "string \<Rightarrow> string + Capability" where
  "capability_of_text value =
     (if value = ''query.get_health_summary.v1'' then Inr CapHealthSummary
      else if value = ''query.get_recent_changes.v1'' then Inr CapRecentChanges
      else if value = ''query.get_resource.v1'' then Inr CapResource
      else if value = ''query.get_sync_status.v1'' then Inr CapSyncStatus
      else if value = ''query.get_topology.v1'' then Inr CapTopology
      else if value = ''query.list_connector_coverage.v1'' then Inr CapConnectorCoverage
      else if value = ''query.search_resources.v1'' then Inr CapSearchResources
      else Inl (''unknown Local RPC capability: '' @ value))"

text \<open>A capability set is sorted by the texts, without duplicates.\<close>

type_synonym CapabilitySet = "Capability list"

fun adjacent_equal :: "'a list \<Rightarrow> bool" where
  "adjacent_equal (x # y # xs) \<longleftrightarrow> x = y \<or> adjacent_equal (y # xs)"
| "adjacent_equal _ \<longleftrightarrow> False"

definition capability_set_new :: "Capability list \<Rightarrow> RpcError + CapabilitySet" where
  "capability_set_new capabilities =
     (let values = sort_key capability_text capabilities in
      if adjacent_equal values
      then Inl (rpc_capability_mismatch ''capability sets must not contain duplicate entries'')
      else Inr values)"

definition capability_set_from_iter :: "Capability list \<Rightarrow> CapabilitySet" where
  "capability_set_from_iter iter = remdups_adj (sort_key capability_text iter)"

definition all_query_capabilities :: CapabilitySet where
  "all_query_capabilities = (case capability_set_new all_capabilities of Inr values \<Rightarrow> values | Inl _ \<Rightarrow> [])"

text \<open>\<open>contains\<close> searches the sorted list by halving, which finds what the list has.\<close>

definition capability_set_contains :: "CapabilitySet \<Rightarrow> Capability \<Rightarrow> bool" where
  "capability_set_contains values capability \<longleftrightarrow> capability \<in> set values"

section \<open>Handshake\<close>

record ClientHello =
  ch_protocol_major :: "16 word"
  ch_protocol_minor :: "16 word"
  ch_minimum_supported_minor :: "16 word"
  ch_bridge_version :: string
  ch_release_id :: string
  ch_supported_capabilities :: CapabilitySet
  ch_required_capabilities :: CapabilitySet

definition client_hello_new ::
    "16 word \<Rightarrow> 16 word \<Rightarrow> string \<Rightarrow> string \<Rightarrow> CapabilitySet \<Rightarrow> CapabilitySet \<Rightarrow> ClientHello" where
  "client_hello_new minor minimum bridge_version release_id supported required =
     \<lparr>ch_protocol_major = PROTOCOL_MAJOR, ch_protocol_minor = minor, ch_minimum_supported_minor = minimum,
      ch_bridge_version = bridge_version, ch_release_id = release_id, ch_supported_capabilities = supported,
      ch_required_capabilities = required\<rparr>"

definition client_hello_initial :: "string \<Rightarrow> string \<Rightarrow> ClientHello" where
  "client_hello_initial bridge_version release_id =
     client_hello_new PROTOCOL_MINOR MINIMUM_SUPPORTED_MINOR bridge_version release_id [] all_query_capabilities"

record HostHello =
  hh_protocol_major :: "16 word"
  hh_protocol_minor :: "16 word"
  hh_minimum_supported_minor :: "16 word"
  hh_selected_protocol_minor :: "16 word"
  hh_host_version :: string
  hh_release_id :: string
  hh_supported_capabilities :: CapabilitySet
  hh_required_capabilities :: CapabilitySet

definition host_hello_new ::
    "16 word \<Rightarrow> 16 word \<Rightarrow> 16 word \<Rightarrow> string \<Rightarrow> string \<Rightarrow> CapabilitySet \<Rightarrow> CapabilitySet \<Rightarrow> HostHello" where
  "host_hello_new minor minimum selected host_version release_id supported required =
     \<lparr>hh_protocol_major = PROTOCOL_MAJOR, hh_protocol_minor = minor, hh_minimum_supported_minor = minimum,
      hh_selected_protocol_minor = selected, hh_host_version = host_version, hh_release_id = release_id,
      hh_supported_capabilities = supported, hh_required_capabilities = required\<rparr>"

definition host_hello_initial :: "string \<Rightarrow> string \<Rightarrow> HostHello" where
  "host_hello_initial host_version release_id =
     host_hello_new PROTOCOL_MINOR MINIMUM_SUPPORTED_MINOR PROTOCOL_MINOR host_version release_id
       all_query_capabilities []"

definition validate_range :: "16 word \<Rightarrow> 16 word \<Rightarrow> 16 word \<Rightarrow> RpcError + unit" where
  "validate_range major minor minimum =
     (if major \<noteq> PROTOCOL_MAJOR \<or> minor < minimum \<or> 1 < unat minor - unat minimum
      then Inl (rpc_protocol_mismatch (''unsupported protocol range '' @ show_nat (unat major) @ ''.'' @
        show_nat (unat minor) @ '' with minimum minor '' @ show_nat (unat minimum)))
      else Inr ())"

definition client_hello_validate :: "ClientHello \<Rightarrow> RpcError + unit" where
  "client_hello_validate c =
     validate_range (ch_protocol_major c) (ch_protocol_minor c) (ch_minimum_supported_minor c)"

definition host_hello_validate :: "HostHello \<Rightarrow> RpcError + unit" where
  "host_hello_validate h =
     validate_range (hh_protocol_major h) (hh_protocol_minor h) (hh_minimum_supported_minor h)"

record HandshakeResult =
  hr_selected_protocol_minor :: "16 word"
  hr_upgrade_recommended :: bool

definition negotiate :: "ClientHello \<Rightarrow> HostHello \<Rightarrow> RpcError + HandshakeResult" where
  "negotiate client host =
     (if ch_protocol_major client \<noteq> hh_protocol_major host
      then Inl (rpc_protocol_mismatch ''client and host protocol majors differ'')
      else
        res_bind (client_hello_validate client) (\<lambda>_.
        res_bind (host_hello_validate host) (\<lambda>_.
        let lower = max (ch_minimum_supported_minor client) (hh_minimum_supported_minor host);
            upper = min (ch_protocol_minor client) (hh_protocol_minor host) in
        if upper < lower
        then Inl (rpc_protocol_mismatch ''client and host minor version ranges do not overlap'')
        else if hh_selected_protocol_minor host \<noteq> upper
        then Inl (rpc_protocol_mismatch ''host selected a minor version other than the highest overlap'')
        else
          (case find (\<lambda>c. \<not> capability_set_contains (hh_supported_capabilities host) c)
                  (ch_required_capabilities client) of
             Some missing \<Rightarrow> Inl (rpc_capability_mismatch
               (''host does not support required capability '' @ capability_text missing))
           | None \<Rightarrow>
          (case find (\<lambda>c. \<not> capability_set_contains (ch_supported_capabilities client) c)
                  (hh_required_capabilities host) of
             Some missing \<Rightarrow> Inl (rpc_capability_mismatch
               (''client does not support host-required capability '' @ capability_text missing))
           | None \<Rightarrow>
               Inr \<lparr>hr_selected_protocol_minor = upper,
                    hr_upgrade_recommended = (ch_release_id client \<noteq> hh_release_id host)\<rparr>)))))"

datatype HandshakeResponse = Accepted HostHello bool | Rejected RpcError

definition handshake_response :: "ClientHello \<Rightarrow> HostHello \<Rightarrow> HandshakeResponse" where
  "handshake_response client host =
     (case negotiate client host of
        Inr result \<Rightarrow> Accepted host (hr_upgrade_recommended result)
      | Inl error \<Rightarrow> Rejected error)"

definition selected_host :: "HostHello \<Rightarrow> ClientHello \<Rightarrow> HostHello" where
  "selected_host template client =
     template\<lparr>hh_selected_protocol_minor := min (ch_protocol_minor client) (hh_protocol_minor template)\<rparr>"

section \<open>Messages\<close>

definition MAX_REQUEST_ID_BYTES :: nat where
  "MAX_REQUEST_ID_BYTES = 128"

definition MAX_IN_FLIGHT_REQUESTS :: nat where
  "MAX_IN_FLIGHT_REQUESTS = 8"

definition validate_request_id :: "string \<Rightarrow> RpcError + unit" where
  "validate_request_id request_id =
     (if request_id = [] \<or> MAX_REQUEST_ID_BYTES < length request_id \<or> has_control request_id
      then Inl rpc_invalid_request_id
      else Inr ())"

definition validate_in_flight :: "nat \<Rightarrow> RpcError + unit" where
  "validate_in_flight count = (if MAX_IN_FLIGHT_REQUESTS \<le> count then Inl rpc_too_many_requests else Inr ())"

datatype Caller =
    BridgeCaller string string "string option"
  | TestCaller string "string option"

definition caller_value_ok :: "string \<Rightarrow> bool" where
  "caller_value_ok value \<longleftrightarrow> trim value \<noteq> [] \<and> \<not> has_control value"

definition diagnostic_bad :: "string option \<Rightarrow> bool" where
  "diagnostic_bad diagnostic = (case diagnostic of None \<Rightarrow> False | Some value \<Rightarrow> has_control value)"

definition caller_validate :: "Caller \<Rightarrow> RpcError + unit" where
  "caller_validate caller =
     (case caller of
        BridgeCaller bridge_version release_id diagnostic \<Rightarrow>
          if \<not> caller_value_ok bridge_version \<or> \<not> caller_value_ok release_id \<or> diagnostic_bad diagnostic
          then Inl (rpc_invalid_frame ''caller identity is invalid'') else Inr ()
      | TestCaller name diagnostic \<Rightarrow>
          if \<not> caller_value_ok name \<or> diagnostic_bad diagnostic
          then Inl (rpc_invalid_frame ''caller identity is invalid'') else Inr ())"

text \<open>
  The queries of the wire have the fields of the requests of the service, to which \<open>From\<close> copies them.
\<close>

datatype RpcResourceInclude = RpcAttributes | RpcRelations | RpcRecentChanges | RpcConnectorCoverage

fun service_include :: "RpcResourceInclude \<Rightarrow> ResourceInclude" where
  "service_include RpcAttributes = IncludeAttributes"
| "service_include RpcRelations = IncludeRelations"
| "service_include RpcRecentChanges = IncludeRecentChanges"
| "service_include RpcConnectorCoverage = IncludeConnectorCoverage"

record SearchResourcesQuery =
  sqy_query :: "string option"
  sqy_kinds :: "string list"
  sqy_connector_types :: "string list"
  sqy_health :: "QueryResourceHealth list"
  sqy_freshness :: "QueryFreshness list"
  sqy_labels :: "(string, string) btree_map"
  sqy_limit :: "nat option"
  sqy_cursor :: "string option"

record GetResourceQuery =
  gqy_resource_id :: string
  gqy_include :: "RpcResourceInclude list"

record GetTopologyQuery =
  tqy_focus_resource_id :: string
  tqy_depth :: "8 word option"
  tqy_max_nodes :: "nat option"
  tqy_max_edges :: "nat option"

record RecentChangesQuery =
  cqy_since :: "string option"
  cqy_resource_id :: "string option"
  cqy_kinds :: "string list"
  cqy_limit :: "nat option"
  cqy_cursor :: "string option"

record SyncStatusQuery =
  yqy_connection_id :: string
  yqy_recent_run_limit :: "nat option"

definition search_request_from :: "SearchResourcesQuery \<Rightarrow> SearchResourcesRequest" where
  "search_request_from q =
     \<lparr>srq_query = sqy_query q, srq_kinds = sqy_kinds q, srq_connector_types = sqy_connector_types q,
      srq_health = sqy_health q, srq_freshness = sqy_freshness q, srq_labels = sqy_labels q,
      srq_limit = sqy_limit q, srq_cursor = sqy_cursor q\<rparr>"

definition resource_request_from :: "GetResourceQuery \<Rightarrow> GetResourceRequest" where
  "resource_request_from q =
     \<lparr>grq_resource_id = gqy_resource_id q, grq_include = map service_include (gqy_include q)\<rparr>"

definition topology_request_from :: "GetTopologyQuery \<Rightarrow> GetTopologyRequest" where
  "topology_request_from q =
     \<lparr>trq_focus_resource_id = tqy_focus_resource_id q, trq_depth = tqy_depth q, trq_max_nodes = tqy_max_nodes q,
      trq_max_edges = tqy_max_edges q\<rparr>"

definition changes_request_from :: "RecentChangesQuery \<Rightarrow> RecentChangesRequest" where
  "changes_request_from q =
     \<lparr>crq_since = cqy_since q, crq_resource_id = cqy_resource_id q, crq_kinds = cqy_kinds q,
      crq_limit = cqy_limit q, crq_cursor = cqy_cursor q\<rparr>"

definition sync_status_request_from :: "SyncStatusQuery \<Rightarrow> SyncStatusRequest" where
  "sync_status_request_from q =
     \<lparr>yrq_connection_id = yqy_connection_id q, yrq_recent_run_limit = yqy_recent_run_limit q\<rparr>"

datatype QueryRequest =
    SearchResourcesReq SearchResourcesQuery
  | GetResourceReq GetResourceQuery
  | GetTopologyReq GetTopologyQuery
  | GetHealthSummaryReq
  | GetRecentChangesReq RecentChangesQuery
  | GetSyncStatusReq SyncStatusQuery
  | ListConnectorCoverageReq

fun request_capability :: "QueryRequest \<Rightarrow> Capability" where
  "request_capability (SearchResourcesReq _) = CapSearchResources"
| "request_capability (GetResourceReq _) = CapResource"
| "request_capability (GetTopologyReq _) = CapTopology"
| "request_capability GetHealthSummaryReq = CapHealthSummary"
| "request_capability (GetRecentChangesReq _) = CapRecentChanges"
| "request_capability (GetSyncStatusReq _) = CapSyncStatus"
| "request_capability ListConnectorCoverageReq = CapConnectorCoverage"

datatype QueryResponse =
    SearchResourcesResp ResourcePageDto
  | GetResourceResp ResourceDetailDto
  | GetTopologyResp TopologyDto
  | GetHealthSummaryResp HealthSummaryDto
  | GetRecentChangesResp ChangePageDto
  | GetSyncStatusResp SyncStatusDto
  | ListConnectorCoverageResp ConnectorCoverageSnapshotDto

fun response_capability :: "QueryResponse \<Rightarrow> Capability" where
  "response_capability (SearchResourcesResp _) = CapSearchResources"
| "response_capability (GetResourceResp _) = CapResource"
| "response_capability (GetTopologyResp _) = CapTopology"
| "response_capability (GetHealthSummaryResp _) = CapHealthSummary"
| "response_capability (GetRecentChangesResp _) = CapRecentChanges"
| "response_capability (GetSyncStatusResp _) = CapSyncStatus"
| "response_capability (ListConnectorCoverageResp _) = CapConnectorCoverage"

record RequestEnvelope =
  req_request_id :: string
  req_caller :: Caller
  req_query :: QueryRequest

definition request_envelope_validate :: "RequestEnvelope \<Rightarrow> RpcError + unit" where
  "request_envelope_validate e =
     res_bind (validate_request_id (req_request_id e)) (\<lambda>_. caller_validate (req_caller e))"

definition request_envelope_new :: "string \<Rightarrow> Caller \<Rightarrow> QueryRequest \<Rightarrow> RpcError + RequestEnvelope" where
  "request_envelope_new request_id caller query =
     (let envelope = \<lparr>req_request_id = request_id, req_caller = caller, req_query = query\<rparr> in
      res_bind (request_envelope_validate envelope) (\<lambda>_. Inr envelope))"

datatype ResponseBody = QueryBody QueryResponse | ErrorBody RpcError

record ResponseEnvelope =
  resp_request_id :: string
  resp_body :: ResponseBody

definition response_envelope_validate :: "ResponseEnvelope \<Rightarrow> RpcError + unit" where
  "response_envelope_validate e = validate_request_id (resp_request_id e)"

definition response_envelope_success :: "string \<Rightarrow> QueryResponse \<Rightarrow> RpcError + ResponseEnvelope" where
  "response_envelope_success request_id response =
     (let envelope = \<lparr>resp_request_id = request_id, resp_body = QueryBody response\<rparr> in
      res_bind (response_envelope_validate envelope) (\<lambda>_. Inr envelope))"

definition response_envelope_error :: "string \<Rightarrow> RpcError \<Rightarrow> RpcError + ResponseEnvelope" where
  "response_envelope_error request_id error =
     (let envelope = \<lparr>resp_request_id = request_id, resp_body = ErrorBody error\<rparr> in
      res_bind (response_envelope_validate envelope) (\<lambda>_. Inr envelope))"

section \<open>Dispatch\<close>

text \<open>\<open>QueryServiceHandler::handle\<close>.\<close>

definition service_handle :: "'e QuerySource \<Rightarrow> QueryRequest \<Rightarrow> RpcError + QueryResponse" where
  "service_handle service query =
     map_err (\<lambda>error. rpc_query_failed (ee_message error) (ee_retryable error))
       (case query of
          SearchResourcesReq q \<Rightarrow> map_ok SearchResourcesResp (search_resources service (search_request_from q))
        | GetResourceReq q \<Rightarrow> map_ok GetResourceResp (service_get_resource service (resource_request_from q))
        | GetTopologyReq q \<Rightarrow> map_ok GetTopologyResp (service_get_topology service (topology_request_from q))
        | GetHealthSummaryReq \<Rightarrow> map_ok GetHealthSummaryResp (service_get_health_summary service)
        | GetRecentChangesReq q \<Rightarrow>
            map_ok GetRecentChangesResp (service_get_recent_changes service (changes_request_from q))
        | GetSyncStatusReq q \<Rightarrow> map_ok GetSyncStatusResp (service_get_sync_status service (sync_status_request_from q))
        | ListConnectorCoverageReq \<Rightarrow> map_ok ListConnectorCoverageResp (service_list_connector_coverage service))"

lemma service_handle_capability:
  "service_handle service query = Inr response \<Longrightarrow> response_capability response = request_capability query"
  by (auto simp: service_handle_def res_simps split: QueryRequest.splits)

section \<open>Facts on the handshake\<close>

lemma capability_text_inverse: "capability_of_text (capability_text c) = Inr c"
  by (cases c) (simp_all add: capability_of_text_def)

lemma capability_text_inj: "capability_text c = capability_text d \<longleftrightarrow> c = d"
  by (metis capability_text_inverse sum.inject(2))

lemma validate_range_iff:
  "validate_range major minor minimum = Inr u \<longleftrightarrow>
   major = PROTOCOL_MAJOR \<and> minimum \<le> minor \<and> unat minor \<le> unat minimum + 1"
  by (auto simp: validate_range_def not_less)

lemma guard_iff: "(if b then Inl e else r) = Inr x \<longleftrightarrow> \<not> b \<and> r = Inr x"
  by simp

lemma find_case_iff:
  "(case find P xs of Some y \<Rightarrow> Inl (f y) | None \<Rightarrow> r) = Inr x \<longleftrightarrow> (\<forall>y\<in>set xs. \<not> P y) \<and> r = Inr x"
  by (induction xs) auto

lemma negotiate_iff:
  "negotiate client host = Inr r \<longleftrightarrow>
   ch_protocol_major client = PROTOCOL_MAJOR \<and> hh_protocol_major host = PROTOCOL_MAJOR \<and>
   ch_minimum_supported_minor client \<le> ch_protocol_minor client \<and>
   unat (ch_protocol_minor client) \<le> unat (ch_minimum_supported_minor client) + 1 \<and>
   hh_minimum_supported_minor host \<le> hh_protocol_minor host \<and>
   unat (hh_protocol_minor host) \<le> unat (hh_minimum_supported_minor host) + 1 \<and>
   max (ch_minimum_supported_minor client) (hh_minimum_supported_minor host)
     \<le> min (ch_protocol_minor client) (hh_protocol_minor host) \<and>
   hh_selected_protocol_minor host = min (ch_protocol_minor client) (hh_protocol_minor host) \<and>
   set (ch_required_capabilities client) \<subseteq> set (hh_supported_capabilities host) \<and>
   set (hh_required_capabilities host) \<subseteq> set (ch_supported_capabilities client) \<and>
   r = \<lparr>hr_selected_protocol_minor = hh_selected_protocol_minor host,
        hr_upgrade_recommended = (ch_release_id client \<noteq> hh_release_id host)\<rparr>"
  unfolding negotiate_def Let_def client_hello_validate_def host_hello_validate_def capability_set_contains_def
    guard_iff find_case_iff res_bind_eq_Inr validate_range_iff not_less
  by (auto simp del: max.bounded_iff min.bounded_iff)

text \<open>
  A host accepts a client exactly when both speak a range of at most two minor versions of the one major version,
  the ranges overlap and each side offers what the other requires; the version it selects is then the
  highest that both support, and an upgrade is recommended exactly when the releases differ.
\<close>

theorem handshake_accepts_iff:
  "handshake_response client (selected_host template client) = Accepted host upgrade \<longleftrightarrow>
   host = selected_host template client \<and> upgrade = (ch_release_id client \<noteq> hh_release_id template) \<and>
   ch_protocol_major client = PROTOCOL_MAJOR \<and> hh_protocol_major template = PROTOCOL_MAJOR \<and>
   ch_minimum_supported_minor client \<le> ch_protocol_minor client \<and>
   unat (ch_protocol_minor client) \<le> unat (ch_minimum_supported_minor client) + 1 \<and>
   hh_minimum_supported_minor template \<le> hh_protocol_minor template \<and>
   unat (hh_protocol_minor template) \<le> unat (hh_minimum_supported_minor template) + 1 \<and>
   ch_minimum_supported_minor client \<le> hh_selected_protocol_minor host \<and>
   hh_minimum_supported_minor template \<le> hh_selected_protocol_minor host \<and>
   set (ch_required_capabilities client) \<subseteq> set (hh_supported_capabilities template) \<and>
   set (hh_required_capabilities template) \<subseteq> set (ch_supported_capabilities client)"
proof -
  have "handshake_response client h = Accepted host upgrade \<longleftrightarrow>
      host = h \<and> (\<exists>r. negotiate client h = Inr r \<and> upgrade = hr_upgrade_recommended r)" for h
    by (auto simp: handshake_response_def split: sum.splits)
  then show ?thesis by (auto simp: negotiate_iff selected_host_def)
qed

end
