(* ===== verification/Rpc_Session.thy ===== *)
theory Rpc_Session
  imports Rpc_Protocol "HOL-Library.Multiset"
begin

text \<open>
  \<open>session/session.rs\<close> of crate \<open>next-infra-local-rpc\<close>: the handshake of the server and of the client, and the
  session of the server, whose reader admits requests and whose workers answer them at the same time. The session is
  a state, and a turn of the reader or of a worker is an action on it; every order of actions is a possible run.
  Only the reader raises the number of requests in flight and a worker only lowers it, so reading and
  raising it is one action. A write of a frame takes the lock of the writer, so it is one action as well.
\<close>

section \<open>Handshake\<close>

datatype SessionError =
    SessTransport string | SessFrame FramedError | SessRejected RpcError | SessProtocol RpcError
  | WorkerPanicked | WriterPoisoned

definition handshake_frame_error :: "FramedError \<Rightarrow> RpcError" where
  "handshake_frame_error error =
     (case error of
        FramedOversized _ \<Rightarrow> rpc_oversized_frame ''handshake frame exceeds the 1 MiB maximum''
      | _ \<Rightarrow> rpc_invalid_frame ''a valid ClientHello frame is required before queries'')"

text \<open>
  The head of \<open>serve_stream\<close>: the response that is written to the client, and the capabilities of the session or the
  error that ends it.
\<close>

definition serve_handshake ::
    "(string \<Rightarrow> string + ClientHello) \<Rightarrow> HostHello \<Rightarrow> ReadEvent list \<Rightarrow>
     HandshakeResponse \<times> (SessionError + CapabilitySet) \<times> ReadEvent list" where
  "serve_handshake parse template es =
     (case read_json_frame parse es of
        (Inl error, es) \<Rightarrow> (Rejected (handshake_frame_error error), Inl (SessFrame error), es)
      | (Inr client, es) \<Rightarrow>
          let response = handshake_response client (selected_host template client) in
          (response,
           (case response of
              Accepted host _ \<Rightarrow> Inr (hh_supported_capabilities host)
            | Rejected error \<Rightarrow> Inl (SessRejected error)), es))"

record RpcClient =
  rcl_host :: HostHello
  rcl_upgrade_recommended :: bool

text \<open>\<open>handshake_with_timeout\<close>, once the response is read.\<close>

definition client_handshake :: "ClientHello \<Rightarrow> HandshakeResponse \<Rightarrow> SessionError + RpcClient" where
  "client_handshake client response =
     (case response of
        Accepted host upgrade_recommended \<Rightarrow>
          res_bind (map_err SessProtocol (negotiate client host)) (\<lambda>result.
            if hr_upgrade_recommended result \<noteq> upgrade_recommended
            then Inl (SessProtocol (rpc_protocol_mismatch
              ''Host upgrade recommendation does not match negotiated releases''))
            else Inr \<lparr>rcl_host = host, rcl_upgrade_recommended = upgrade_recommended\<rparr>)
      | Rejected error \<Rightarrow> Inl (SessRejected error))"

text \<open>\<open>query_with_timeout\<close>, once the response is read.\<close>

definition client_check_response :: "RequestEnvelope \<Rightarrow> ResponseEnvelope \<Rightarrow> SessionError + ResponseEnvelope" where
  "client_check_response request response =
     (if resp_request_id response \<noteq> req_request_id request
      then Inl (SessProtocol (rpc_invalid_frame ''response request_id does not match the request''))
      else Inr response)"

section \<open>State\<close>

text \<open>
  A worker handles its request, has written its response (or failed to), or is finished: its permit
  is dropped and its thread has ended.
\<close>

datatype WorkerStage = Handling | Written "SessionError + unit" | Finished "SessionError + unit"

type_synonym Worker = "RequestEnvelope \<times> WorkerStage"

datatype ReaderPhase = Reaping | Reading | Joining | Closed "SessionError + unit"

record Session =
  se_phase :: ReaderPhase
  se_input :: "ReadEvent list"
  se_in_flight :: nat
  se_workers :: "Worker list"
  se_detached :: "Worker list"
  se_output :: "ResponseEnvelope list"
  se_read :: "RequestEnvelope list"
  se_answered :: "RequestEnvelope list"

text \<open>
  What a session works with: the dispatch of a query, the capabilities of the session, the parser of the requests and
  the writer of the responses.
\<close>

record SessionContext =
  sx_handler :: "QueryRequest \<Rightarrow> RpcError + QueryResponse"
  sx_supported :: CapabilitySet
  sx_parse :: "string \<Rightarrow> string + RequestEnvelope"
  sx_serialize :: "ResponseEnvelope \<Rightarrow> Serialized"

definition session_start :: "ReadEvent list \<Rightarrow> Session" where
  "session_start es =
     \<lparr>se_phase = Reaping, se_input = es, se_in_flight = 0, se_workers = [], se_detached = [], se_output = [],
      se_read = [], se_answered = []\<rparr>"

definition worker_finished :: "Worker \<Rightarrow> bool" where
  "worker_finished w = (case snd w of Finished _ \<Rightarrow> True | _ \<Rightarrow> False)"

section \<open>Actions\<close>

text \<open>\<open>write_locked\<close>: \<open>io\<close> is the error of the stream, if there is one.\<close>

definition write_locked :: "SessionContext \<Rightarrow> ResponseEnvelope \<Rightarrow> string option \<Rightarrow> SessionError + unit" where
  "write_locked x response io =
     map_err SessFrame (fst (write_frame (sx_serialize x)
       (\<lambda>_ u. (case io of None \<Rightarrow> Inr () | Some m \<Rightarrow> Inl m, u)) response ()))"

definition swap_remove :: "nat \<Rightarrow> 'a list \<Rightarrow> 'a list" where
  "swap_remove i xs = (if i = length xs - 1 then butlast xs else (butlast xs)[i := last xs])"

lemma swap_remove_length: "i < length xs \<Longrightarrow> length (swap_remove i xs) = length xs - 1"
  by (simp add: swap_remove_def)

text \<open>\<open>reap_finished\<close>: the workers that are left, and the error of the first one that failed.\<close>

function reap_finished :: "nat \<Rightarrow> Worker list \<Rightarrow> (SessionError + unit) \<times> Worker list" where
  "reap_finished i ws =
     (if i < length ws then
        (case snd (ws ! i) of
           Finished (Inl error) \<Rightarrow> (Inl error, swap_remove i ws)
         | Finished (Inr _) \<Rightarrow> reap_finished i (swap_remove i ws)
         | _ \<Rightarrow> reap_finished (i + 1) ws)
      else (Inr (), ws))"
  by pat_completeness auto
termination
  by (relation "measure (\<lambda>(i, ws). length ws - i)") (auto simp: swap_remove_length)

declare reap_finished.simps [simp del]

text \<open>A return of the reader leaves its workers running on their own.\<close>

definition close_session :: "SessionError + unit \<Rightarrow> Session \<Rightarrow> Session" where
  "close_session result s =
     s\<lparr>se_phase := Closed result, se_workers := [], se_detached := se_detached s @ se_workers s\<rparr>"

definition reader_reaps :: "Session \<Rightarrow> Session" where
  "reader_reaps s =
     (case reap_finished 0 (se_workers s) of
        (Inl error, ws) \<Rightarrow> close_session (Inl error) (s\<lparr>se_workers := ws\<rparr>)
      | (Inr _, ws) \<Rightarrow> s\<lparr>se_phase := Reading, se_workers := ws\<rparr>)"

text \<open>The reader answers a request itself, with an error.\<close>

definition reader_answers :: "SessionContext \<Rightarrow> string option \<Rightarrow> RequestEnvelope \<Rightarrow> RpcError \<Rightarrow> Session \<Rightarrow> Session" where
  "reader_answers x io request error s =
     (case map_err SessProtocol (response_envelope_error (req_request_id request) error) of
        Inl e \<Rightarrow> close_session (Inl e) s
      | Inr response \<Rightarrow>
          (case write_locked x response io of
             Inl e \<Rightarrow> close_session (Inl e) s
           | Inr _ \<Rightarrow> s\<lparr>se_phase := Reaping, se_output := se_output s @ [response],
                        se_answered := se_answered s @ [request]\<rparr>))"

definition reader_reads :: "SessionContext \<Rightarrow> string option \<Rightarrow> Session \<Rightarrow> Session" where
  "reader_reads x io s =
     (case read_json_frame (sx_parse x) (se_input s) of
        (Inl error, es) \<Rightarrow>
          if error = FramedEof 4 0 then s\<lparr>se_phase := Joining, se_input := es\<rparr>
          else close_session (Inl (SessFrame error)) (s\<lparr>se_input := es\<rparr>)
      | (Inr request, es) \<Rightarrow>
          let s = s\<lparr>se_input := es, se_read := se_read s @ [request]\<rparr> in
          if \<not> capability_set_contains (sx_supported x) (request_capability (req_query request))
          then reader_answers x io request
            (rpc_capability_mismatch ''the negotiated Host does not support this query capability'') s
          else
            (case validate_in_flight (se_in_flight s) of
               Inl error \<Rightarrow> reader_answers x io request error s
             | Inr _ \<Rightarrow>
                 s\<lparr>se_phase := Reaping, se_in_flight := se_in_flight s + 1,
                   se_workers := se_workers s @ [(request, Handling)]\<rparr>))"

text \<open>One step of \<open>join_all\<close>: it waits for its first worker.\<close>

definition reader_joins :: "Session \<Rightarrow> Session option" where
  "reader_joins s =
     (case se_workers s of
        [] \<Rightarrow> Some (close_session (Inr ()) s)
      | w # ws \<Rightarrow>
          (case snd w of
             Finished (Inl error) \<Rightarrow> Some (close_session (Inl error) (s\<lparr>se_workers := ws\<rparr>))
           | Finished (Inr _) \<Rightarrow> Some (s\<lparr>se_workers := ws\<rparr>)
           | _ \<Rightarrow> None))"

text \<open>\<open>handle_request\<close>: the response to a request, from the answer of the handler.\<close>

definition handle_request :: "SessionContext \<Rightarrow> RequestEnvelope \<Rightarrow> SessionError + ResponseEnvelope" where
  "handle_request x request =
     map_err SessProtocol
       (case sx_handler x (req_query request) of
          Inr response \<Rightarrow> response_envelope_success (req_request_id request) response
        | Inl error \<Rightarrow> response_envelope_error (req_request_id request) error)"

text \<open>The response of a worker is written; then its permit is dropped.\<close>

definition worker_writes :: "SessionContext \<Rightarrow> string option \<Rightarrow> RequestEnvelope \<Rightarrow> (SessionError + unit) \<times> ResponseEnvelope list" where
  "worker_writes x io request =
     (case handle_request x request of
        Inl e \<Rightarrow> (Inl e, [])
      | Inr response \<Rightarrow>
          (case write_locked x response io of
             Inl e \<Rightarrow> (Inl e, [])
           | Inr _ \<Rightarrow> (Inr (), [response])))"

datatype SessionAction =
    ReaderTurn "string option"
  | WorkerAnswers nat "string option"
  | WorkerPanics nat
  | WorkerEnds nat

text \<open>The workers that the session holds and those that run on, by one number.\<close>

definition session_worker :: "Session \<Rightarrow> nat \<Rightarrow> Worker option" where
  "session_worker s i =
     (let ws = se_workers s @ se_detached s in if i < length ws then Some (ws ! i) else None)"

definition set_stage :: "nat \<Rightarrow> WorkerStage \<Rightarrow> Session \<Rightarrow> Session" where
  "set_stage i stage s =
     (if i < length (se_workers s)
      then s\<lparr>se_workers := (se_workers s)[i := (fst (se_workers s ! i), stage)]\<rparr>
      else let j = i - length (se_workers s) in
        s\<lparr>se_detached := (se_detached s)[j := (fst (se_detached s ! j), stage)]\<rparr>)"

fun session_act :: "SessionContext \<Rightarrow> SessionAction \<Rightarrow> Session \<Rightarrow> Session option" where
  "session_act x (ReaderTurn io) s =
     (case se_phase s of
        Reaping \<Rightarrow> Some (reader_reaps s)
      | Reading \<Rightarrow> Some (reader_reads x io s)
      | Joining \<Rightarrow> reader_joins s
      | Closed _ \<Rightarrow> None)"
| "session_act x (WorkerAnswers i io) s =
     (case session_worker s i of
        Some (request, Handling) \<Rightarrow>
          (case worker_writes x io request of
             (result, responses) \<Rightarrow>
               Some ((set_stage i (Written result) s)\<lparr>se_output := se_output s @ responses,
                 se_answered := se_answered s @ (if responses = [] then [] else [request])\<rparr>))
      | _ \<Rightarrow> None)"
| "session_act x (WorkerPanics i) s =
     (case session_worker s i of
        Some (request, Handling) \<Rightarrow> Some (set_stage i (Written (Inl WorkerPanicked)) s)
      | _ \<Rightarrow> None)"
| "session_act x (WorkerEnds i) s =
     (case session_worker s i of
        Some (request, Written result) \<Rightarrow>
          Some ((set_stage i (Finished result) s)\<lparr>se_in_flight := se_in_flight s - 1\<rparr>)
      | _ \<Rightarrow> None)"

fun session_run :: "SessionContext \<Rightarrow> SessionAction list \<Rightarrow> Session \<Rightarrow> Session option" where
  "session_run x [] s = Some s"
| "session_run x (a # as) s = Option.bind (session_act x a s) (session_run x as)"

section \<open>Handshake facts\<close>

text \<open>
  Both ends of a connection agree: the client accepts exactly when the host did, and then both hold the same host
  hello with a version in the range of each, and every capability that the client requires is one of the session.
\<close>

theorem handshake_agreement:
  assumes "read_json_frame parse es = (Inr client, es')"
    and "serve_handshake parse template es = (response, result, es')"
  shows "((\<exists>rpc. client_handshake client response = Inr rpc) \<longleftrightarrow> (\<exists>supported. result = Inr supported)) \<and>
    (\<forall>rpc supported. client_handshake client response = Inr rpc \<and> result = Inr supported \<longrightarrow>
      rcl_host rpc = selected_host template client \<and> supported = hh_supported_capabilities template \<and>
      set (ch_required_capabilities client) \<subseteq> set supported \<and>
      hh_selected_protocol_minor (rcl_host rpc) = min (ch_protocol_minor client) (hh_protocol_minor template) \<and>
      max (ch_minimum_supported_minor client) (hh_minimum_supported_minor template)
        \<le> hh_selected_protocol_minor (rcl_host rpc))"
proof (cases "negotiate client (selected_host template client)")
  case (Inl error)
  with assms show ?thesis
    by (auto simp: serve_handshake_def handshake_response_def client_handshake_def)
next
  case (Inr r)
  have "hh_selected_protocol_minor (selected_host template client) =
      min (ch_protocol_minor client) (hh_protocol_minor template)"
    "hh_minimum_supported_minor (selected_host template client) = hh_minimum_supported_minor template"
    "hh_protocol_minor (selected_host template client) = hh_protocol_minor template"
    "hh_supported_capabilities (selected_host template client) = hh_supported_capabilities template"
    by (simp_all add: selected_host_def)
  then have "set (ch_required_capabilities client) \<subseteq> set (hh_supported_capabilities template)"
    "max (ch_minimum_supported_minor client) (hh_minimum_supported_minor template)
      \<le> min (ch_protocol_minor client) (hh_protocol_minor template)"
    using Inr unfolding negotiate_iff by simp_all
  with assms Inr show ?thesis
    by (auto simp: serve_handshake_def handshake_response_def client_handshake_def selected_host_def)
qed

section \<open>The invariant of a session\<close>

definition holds_permit :: "Worker \<Rightarrow> bool" where
  "holds_permit w \<longleftrightarrow> \<not> worker_finished w"

definition worker_failed :: "Worker \<Rightarrow> bool" where
  "worker_failed w = (case snd w of Written (Inl _) \<Rightarrow> True | Finished (Inl _) \<Rightarrow> True | _ \<Rightarrow> False)"

definition all_workers :: "Session \<Rightarrow> Worker list" where
  "all_workers s = se_workers s @ se_detached s"

definition requests_of :: "(Worker \<Rightarrow> bool) \<Rightarrow> Worker multiset \<Rightarrow> RequestEnvelope multiset" where
  "requests_of P ws = image_mset fst (filter_mset P ws)"

lemma requests_of_simps [simp]:
  "requests_of P {#} = {#}" "requests_of P (add_mset w ws) = (if P w then {#fst w#} else {#}) + requests_of P ws"
  "requests_of P (ws + ws') = requests_of P ws + requests_of P ws'"
  by (simp_all add: requests_of_def)

text \<open>A response that is an answer to a request: of the handler, or one of the two errors of the reader.\<close>

definition supports :: "SessionContext \<Rightarrow> RequestEnvelope \<Rightarrow> bool" where
  "supports x request \<longleftrightarrow> capability_set_contains (sx_supported x) (request_capability (req_query request))"

definition answers :: "SessionContext \<Rightarrow> RequestEnvelope \<Rightarrow> ResponseEnvelope \<Rightarrow> bool" where
  "answers x request response \<longleftrightarrow>
     resp_request_id response = req_request_id request \<and>
     (if supports x request
      then resp_body response = ErrorBody rpc_too_many_requests \<or>
        resp_body response = (case sx_handler x (req_query request) of Inr r \<Rightarrow> QueryBody r | Inl e \<Rightarrow> ErrorBody e)
      else resp_body response = ErrorBody
        (rpc_capability_mismatch ''the negotiated Host does not support this query capability''))"

definition session_ok :: "SessionContext \<Rightarrow> Session \<Rightarrow> bool" where
  "session_ok x s \<longleftrightarrow>
     se_in_flight s = size (filter_mset holds_permit (mset (all_workers s))) \<and>
     se_in_flight s \<le> MAX_IN_FLIGHT_REQUESTS \<and>
     list_all2 (answers x) (se_answered s) (se_output s) \<and>
     (\<forall>w\<in>#mset (all_workers s). supports x (fst w)) \<and>
     mset (se_answered s) + requests_of (\<lambda>w. snd w = Handling) (mset (all_workers s)) \<subseteq># mset (se_read s) \<and>
     ((\<forall>e. se_phase s \<noteq> Closed (Inl e)) \<longrightarrow> se_detached s = [] \<and>
        mset (se_read s) = mset (se_answered s) + requests_of (\<lambda>w. snd w = Handling) (mset (all_workers s)) +
          requests_of worker_failed (mset (all_workers s))) \<and>
     (se_phase s = Closed (Inr ()) \<longrightarrow> se_workers s = [])"

lemma mset_le_drop: "add_mset r A \<subseteq># B \<Longrightarrow> A \<subseteq># B"
  by (metis mset_subset_eq_insertD subset_mset.less_imp_le)

lemma session_start_ok: "session_ok x (session_start es)"
  by (simp add: session_ok_def session_start_def all_workers_def)

text \<open>A worker whose stage changes.\<close>

lemma mset_list_update: "i < length xs \<Longrightarrow> xs ! i = w \<Longrightarrow> mset xs = add_mset w ws \<Longrightarrow> mset (xs[i := v]) = add_mset v ws"
  by (simp add: mset_update)

lemma all_workers_set_stage:
  assumes "session_worker s i = Some (request, stage)"
  shows "\<exists>ws. mset (all_workers s) = add_mset (request, stage) ws \<and>
    mset (all_workers (set_stage i stage' s)) = add_mset (request, stage') ws \<and>
    (se_workers s = [] \<longrightarrow> se_workers (set_stage i stage' s) = []) \<and>
    (se_detached s = [] \<longrightarrow> se_detached (set_stage i stage' s) = [])"
proof -
  let ?ws = "all_workers s"
  have i: "i < length ?ws" "?ws ! i = (request, stage)"
    using assms by (auto simp: session_worker_def all_workers_def Let_def split: if_splits)
  then obtain ws where ws: "mset ?ws = add_mset (request, stage) ws"
    by (metis mset_add nth_mem set_mset_mset)
  have "all_workers (set_stage i stage' s) = ?ws[i := (request, stage')]"
    using i by (auto simp: all_workers_def set_stage_def Let_def nth_append list_update_append)
  then have "mset (all_workers (set_stage i stage' s)) = add_mset (request, stage') ws"
    using mset_list_update[OF i ws] by simp
  then show ?thesis using ws by (auto simp: set_stage_def Let_def)
qed

lemma set_stage_frame [simp]:
  "se_phase (set_stage i stage s) = se_phase s" "se_in_flight (set_stage i stage s) = se_in_flight s"
  "se_output (set_stage i stage s) = se_output s" "se_read (set_stage i stage s) = se_read s"
  "se_answered (set_stage i stage s) = se_answered s"
  by (simp_all add: set_stage_def Let_def)

lemma worker_writes_answers:
  assumes "worker_writes x io request = (result, responses)" and "supports x request"
  shows "(result = Inr () \<and> (\<exists>response. responses = [response] \<and> answers x request response)) \<or>
    (\<exists>e. result = Inl e \<and> responses = [])"
proof (cases "handle_request x request")
  case (Inl e)
  with assms(1) show ?thesis by (auto simp: worker_writes_def)
next
  case (Inr response)
  then have "answers x request response"
    using assms(2)
    by (auto simp: handle_request_def answers_def response_envelope_success_def response_envelope_error_def
        Let_def res_simps split: sum.splits)
  show ?thesis
  proof (cases "write_locked x response io")
    case (Inl e)
    with Inr assms(1) have "(result, responses) = (Inl e, [])" by (simp add: worker_writes_def)
    then show ?thesis by simp
  next
    case (Inr u)
    with \<open>handle_request x request = Inr response\<close> assms(1) have "(result, responses) = (Inr (), [response])"
      by (simp add: worker_writes_def)
    with \<open>answers x request response\<close> show ?thesis by simp
  qed
qed

text \<open>Reaping removes workers that are finished; an error is that of a worker it removes.\<close>

lemma swap_remove_mset:
  assumes "i < length xs"
  shows "mset xs = add_mset (xs ! i) (mset (swap_remove i xs))"
proof (cases xs rule: rev_cases)
  case Nil
  with assms show ?thesis by simp
next
  case (snoc ys y)
  show ?thesis
  proof (cases "i = length ys")
    case True
    with snoc show ?thesis by (simp add: swap_remove_def)
  next
    case False
    then have "i < length ys" using assms snoc by simp
    then obtain zs where "mset ys = add_mset (ys ! i) zs" by (metis mset_add nth_mem set_mset_mset)
    with mset_list_update[of i ys "ys ! i" zs y] \<open>i < length ys\<close> False snoc show ?thesis
      by (simp add: swap_remove_def nth_append)
  qed
qed

lemma reap_finished_removes:
  assumes "reap_finished i ws = (r, ws')"
  shows "\<exists>removed. mset ws = mset ws' + removed \<and> (\<forall>w\<in>#removed. worker_finished w) \<and>
    (\<forall>u. r = Inr u \<longrightarrow> (\<forall>w\<in>#removed. \<not> worker_failed w))"
  using assms
proof (induction i ws rule: reap_finished.induct)
  case (1 i ws)
  show ?case
  proof (cases "i < length ws")
    case False
    with "1.prems" show ?thesis by (intro exI[of _ "{#}"]) (simp add: reap_finished.simps[of i ws])
  next
    case True
    show ?thesis
    proof (cases "snd (ws ! i)")
      case (Finished result)
      have ws: "mset ws = add_mset (ws ! i) (mset (swap_remove i ws))" using True by (rule swap_remove_mset)
      show ?thesis
      proof (cases result)
        case (Inl e)
        with True Finished "1.prems" have "r = Inl e" "ws' = swap_remove i ws"
          by (simp_all add: reap_finished.simps[of i ws])
        with ws Finished show ?thesis by (intro exI[of _ "{#ws ! i#}"]) (simp add: worker_finished_def)
      next
        case (Inr u)
        with True Finished "1.prems" have "reap_finished i (swap_remove i ws) = (r, ws')"
          by (simp add: reap_finished.simps[of i ws])
        from "1.IH"(3)[OF True Finished Inr this] obtain removed where
          "mset (swap_remove i ws) = mset ws' + removed" "\<forall>w\<in>#removed. worker_finished w"
          "\<forall>u. r = Inr u \<longrightarrow> (\<forall>w\<in>#removed. \<not> worker_failed w)" by blast
        with ws Finished Inr show ?thesis
          by (intro exI[of _ "add_mset (ws ! i) removed"]) (auto simp: worker_finished_def worker_failed_def)
      qed
    qed (use 1 True in \<open>simp_all add: reap_finished.simps[of i ws]\<close>)
  qed
qed

lemma requests_of_none: "(\<And>w. w \<in># ws \<Longrightarrow> \<not> P w) \<Longrightarrow> requests_of P ws = {#}"
  by (auto simp: requests_of_def filter_mset_eq_conv)

lemma finished_stage: "worker_finished w \<Longrightarrow> snd w \<noteq> Handling \<and> \<not> holds_permit w"
  by (auto simp: worker_finished_def holds_permit_def)

lemma all_workers_close [simp]:
  "mset (all_workers (close_session r s)) = mset (all_workers s)"
  "se_phase (close_session r s) = Closed r" "se_in_flight (close_session r s) = se_in_flight s"
  "se_output (close_session r s) = se_output s" "se_read (close_session r s) = se_read s"
  "se_answered (close_session r s) = se_answered s" "se_workers (close_session r s) = []"
  "set (all_workers (close_session r s)) = set (all_workers s)"
  "se_detached (close_session r s) = se_detached s @ se_workers s"
  by (auto simp: close_session_def all_workers_def)

lemma all_workers_frame [simp]:
  "all_workers (s\<lparr>se_read := a\<rparr>) = all_workers s" "all_workers (s\<lparr>se_phase := p\<rparr>) = all_workers s"
  "all_workers (s\<lparr>se_input := es\<rparr>) = all_workers s" "all_workers (s\<lparr>se_in_flight := n\<rparr>) = all_workers s"
  "all_workers (s\<lparr>se_output := os\<rparr>) = all_workers s" "all_workers (s\<lparr>se_answered := b\<rparr>) = all_workers s"
  "all_workers (s\<lparr>se_workers := ws\<rparr>) = ws @ se_detached s"
  by (simp_all add: all_workers_def)

lemma close_session_ok:
  assumes "session_ok x s"
  shows "session_ok x (close_session (Inl e) s)"
  using assms by (simp add: session_ok_def)

text \<open>Removing finished workers keeps the invariant, up to what the failed ones among them leave unanswered.\<close>

lemma remove_workers_ok:
  assumes "session_ok x s" and "mset (se_workers s) = mset ws + removed" and "\<forall>w\<in>#removed. worker_finished w"
    and "\<And>e. se_phase s \<noteq> Closed e"
  shows "session_ok x (close_session (Inl e) (s\<lparr>se_workers := ws\<rparr>))"
    and "(\<forall>w\<in>#removed. \<not> worker_failed w) \<Longrightarrow> \<forall>r. phase \<noteq> Closed r \<Longrightarrow>
      session_ok x (s\<lparr>se_phase := phase, se_workers := ws\<rparr>)"
proof -
  have all: "mset (all_workers s) = mset ws + mset (se_detached s) + removed"
    using assms(2) by (simp add: all_workers_def)
  have none: "filter_mset holds_permit removed = {#}" "requests_of (\<lambda>w. snd w = Handling) removed = {#}"
    using assms(3) finished_stage by (auto simp: filter_mset_eq_conv intro!: requests_of_none)
  have s: "se_in_flight s = size (filter_mset holds_permit (mset ws + mset (se_detached s)))"
    "\<forall>w\<in>#mset ws + mset (se_detached s). supports x (fst w)"
    "mset (se_answered s) + requests_of (\<lambda>w. snd w = Handling) (mset ws + mset (se_detached s)) \<subseteq># mset (se_read s)"
    using assms(1) none by (auto simp: session_ok_def all)
  show "session_ok x (close_session (Inl e) (s\<lparr>se_workers := ws\<rparr>))"
    using assms(1) s by (simp add: session_ok_def)
  assume fine: "\<forall>w\<in>#removed. \<not> worker_failed w" and phase: "\<forall>r. phase \<noteq> Closed r"
  then have "requests_of worker_failed removed = {#}" by (auto intro: requests_of_none)
  then have "se_detached s = []"
    "mset (se_read s) = mset (se_answered s) + requests_of (\<lambda>w. snd w = Handling) (mset ws + mset (se_detached s)) +
      requests_of worker_failed (mset ws + mset (se_detached s))"
    using assms(1,4) none by (auto simp: session_ok_def all)
  then show "session_ok x (s\<lparr>se_phase := phase, se_workers := ws\<rparr>)"
    using assms(1) s phase by (simp add: session_ok_def)
qed

lemma reader_reaps_ok:
  assumes "session_ok x s" and "se_phase s = Reaping"
  shows "session_ok x (reader_reaps s)"
proof -
  obtain r ws where reap: "reap_finished 0 (se_workers s) = (r, ws)"
    by (cases "reap_finished 0 (se_workers s)")
  from reap_finished_removes[OF reap] obtain removed where removed: "mset (se_workers s) = mset ws + removed"
      "\<forall>w\<in>#removed. worker_finished w" "\<forall>u. r = Inr u \<longrightarrow> (\<forall>w\<in>#removed. \<not> worker_failed w)"
    by blast
  have open_phase: "se_phase s \<noteq> Closed e" for e using assms(2) by simp
  show ?thesis
    using remove_workers_ok[OF assms(1) removed(1,2) open_phase] removed(3)
    by (cases r) (simp_all add: reader_reaps_def reap)
qed

lemma reader_joins_ok:
  assumes "session_ok x s" and "se_phase s = Joining" and "reader_joins s = Some s'"
  shows "session_ok x s'"
proof (cases "se_workers s")
  case Nil
  with assms show ?thesis by (auto simp: reader_joins_def session_ok_def)
next
  case (Cons w ws)
  then obtain r where w: "snd w = Finished r" using assms(3) by (auto simp: reader_joins_def split: WorkerStage.splits)
  have open_phase: "se_phase s \<noteq> Closed e" for e using assms(2) by simp
  have "mset (se_workers s) = mset ws + {#w#}" "\<forall>w\<in>#{#w#}. worker_finished w"
    using Cons w by (simp_all add: worker_finished_def)
  note removed = remove_workers_ok[OF assms(1) this open_phase]
  have keep: "s\<lparr>se_workers := ws\<rparr> = s\<lparr>se_phase := Joining, se_workers := ws\<rparr>" using assms(2) by simp
  show ?thesis
  proof (cases r)
    case (Inl e)
    with removed(1) w Cons assms(3) show ?thesis by (auto simp: reader_joins_def)
  next
    case (Inr u)
    with removed(2)[of Joining] w Cons assms(3) show ?thesis
      by (auto simp: reader_joins_def keep worker_failed_def)
  qed
qed

lemma reader_answers_ok:
  assumes "session_ok x s" and "se_phase s = Reading" and "reader_answers x io request error (s\<lparr>se_read := se_read s @ [request]\<rparr>) = s'"
    and "\<And>response. response_envelope_error (req_request_id request) error = Inr response \<Longrightarrow> answers x request response"
  shows "session_ok x s'"
proof -
  let ?s = "s\<lparr>se_read := se_read s @ [request]\<rparr>"
  have s: "session_ok x s" "all_workers ?s = all_workers s" using assms(1) by (simp_all add: all_workers_def)
  have closed: "session_ok x (close_session (Inl e) ?s)" for e
  proof -
    have "mset (se_answered s) + requests_of (\<lambda>w. snd w = Handling) (mset (all_workers s))
        \<subseteq># add_mset request (mset (se_read s))"
      using assms(1) by (auto simp: session_ok_def intro: subset_mset.order_trans)
    with assms(1) show ?thesis by (simp add: session_ok_def)
  qed
  show ?thesis
  proof (cases "response_envelope_error (req_request_id request) error")
    case (Inl e)
    with closed assms(3) show ?thesis by (auto simp: reader_answers_def)
  next
    case (Inr response)
    note answer = assms(4)[OF this]
    show ?thesis
    proof (cases "write_locked x response io")
      case (Inl e)
      with Inr closed assms(3) show ?thesis by (auto simp: reader_answers_def)
    next
      case w: (Inr u)
      have "list_all2 (answers x) (se_answered s @ [request]) (se_output s @ [response])"
        using assms(1) answer by (auto simp: session_ok_def intro: list_all2_appendI)
      with Inr w assms(1-3) show ?thesis by (auto simp: reader_answers_def session_ok_def)
    qed
  qed
qed

lemma reader_reads_ok:
  assumes "session_ok x s" and "se_phase s = Reading"
  shows "session_ok x (reader_reads x io s)"
proof -
  obtain r es where read: "read_json_frame (sx_parse x) (se_input s) = (r, es)" by force
  define t where "t = s\<lparr>se_input := es\<rparr>"
  have flight: "se_in_flight s = se_in_flight t" "se_workers s = se_workers t" by (simp_all add: t_def)
  have t: "session_ok x t" "se_phase t = Reading" using assms by (simp_all add: t_def session_ok_def)
  show ?thesis
  proof (cases r)
    case (Inl error)
    have "session_ok x (t\<lparr>se_phase := Joining\<rparr>)" using t by (simp add: session_ok_def)
    moreover have "t\<lparr>se_phase := Joining\<rparr> = s\<lparr>se_phase := Joining, se_input := es\<rparr>" by (simp add: t_def)
    ultimately show ?thesis
      using Inl read close_session_ok[OF t(1)] by (simp add: reader_reads_def t_def[symmetric])
  next
    case (Inr request)
    let ?u = "t\<lparr>se_read := se_read t @ [request]\<rparr>"
    have u: "s\<lparr>se_input := es, se_read := se_read s @ [request]\<rparr> = ?u" by (simp add: t_def)
    show ?thesis
    proof (cases "supports x request")
      case False
      then have "reader_reads x io s = reader_answers x io request
          (rpc_capability_mismatch ''the negotiated Host does not support this query capability'') ?u"
        by (simp add: reader_reads_def read Inr u Let_def supports_def)
      moreover have "answers x request response" if "response_envelope_error (req_request_id request)
          (rpc_capability_mismatch ''the negotiated Host does not support this query capability'') = Inr response" for response
        using that False by (auto simp: answers_def response_envelope_error_def Let_def res_simps)
      ultimately show ?thesis using reader_answers_ok[OF t] by simp
    next
      case known: True
      show ?thesis
      proof (cases "MAX_IN_FLIGHT_REQUESTS \<le> se_in_flight t")
        case True
        then have "reader_reads x io s = reader_answers x io request rpc_too_many_requests ?u"
          using known by (simp add: reader_reads_def read Inr u Let_def supports_def validate_in_flight_def flight)
        moreover have "answers x request response"
          if "response_envelope_error (req_request_id request) rpc_too_many_requests = Inr response" for response
          using that known by (auto simp: answers_def response_envelope_error_def Let_def res_simps)
        ultimately show ?thesis using reader_answers_ok[OF t] by simp
      next
        case False
        define v where "v = ?u\<lparr>se_phase := Reaping, se_in_flight := se_in_flight t + 1,
            se_workers := se_workers t @ [(request, Handling)]\<rparr>"
        have "reader_reads x io s = v"
          using known False
          by (simp add: reader_reads_def read Inr u Let_def supports_def validate_in_flight_def v_def flight)
        moreover have "mset (all_workers v) = add_mset (request, Handling) (mset (all_workers t))"
          by (simp add: v_def all_workers_def)
        moreover have "mset (se_answered v) = mset (se_answered t)" "mset (se_read v) = add_mset request (mset (se_read t))"
          "se_in_flight v = se_in_flight t + 1" "se_phase v = Reaping" "se_detached v = se_detached t"
          "se_answered v = se_answered t" "se_output v = se_output t"
          by (simp_all add: v_def)
        ultimately show ?thesis
          using t known False
          by (simp add: session_ok_def holds_permit_def worker_finished_def worker_failed_def flip: set_mset_mset)
      qed
    qed
  qed
qed

text \<open>Every action keeps the invariant.\<close>

lemma session_act_ok:
  assumes "session_ok x s" and "session_act x a s = Some s'"
  shows "session_ok x s'"
proof (cases a)
  case (ReaderTurn io)
  with assms reader_reaps_ok reader_reads_ok reader_joins_ok show ?thesis by (auto split: ReaderPhase.splits)
next
  case (WorkerAnswers i io)
  with assms(2) obtain request where worker: "session_worker s i = Some (request, Handling)"
    by (auto split: option.splits WorkerStage.splits)
  obtain result responses where w: "worker_writes x io request = (result, responses)" by force
  obtain ws where ws: "mset (all_workers s) = add_mset (request, Handling) ws"
      "mset (all_workers (set_stage i (Written result) s)) = add_mset (request, Written result) ws"
      "se_workers s = [] \<Longrightarrow> se_workers (set_stage i (Written result) s) = []"
      "se_detached s = [] \<Longrightarrow> se_detached (set_stage i (Written result) s) = []"
    using all_workers_set_stage[OF worker] by blast
  have "supports x request" using assms(1) ws(1) by (simp add: session_ok_def flip: set_mset_mset)
  from worker_writes_answers[OF w this] consider
      (ok) response where "result = Inr ()" "responses = [response]" "answers x request response"
    | (failed) e where "result = Inl e" "responses = []" by blast
  then show ?thesis
  proof cases
    case ok
    then have "list_all2 (answers x) (se_answered s @ [request]) (se_output s @ [response])"
      using assms(1) by (auto simp: session_ok_def intro: list_all2_appendI)
    with ok assms ws worker w WorkerAnswers show ?thesis
      by (auto simp: session_ok_def holds_permit_def worker_finished_def worker_failed_def simp flip: set_mset_mset)
  next
    case failed
    with assms ws worker w WorkerAnswers show ?thesis
      by (auto simp: session_ok_def holds_permit_def worker_finished_def worker_failed_def simp flip: set_mset_mset
          dest: mset_le_drop)
  qed
next
  case (WorkerPanics i)
  with assms(2) obtain request where worker: "session_worker s i = Some (request, Handling)"
    by (auto split: option.splits WorkerStage.splits)
  obtain ws where ws: "mset (all_workers s) = add_mset (request, Handling) ws"
      "mset (all_workers (set_stage i (Written (Inl WorkerPanicked)) s)) =
        add_mset (request, Written (Inl WorkerPanicked)) ws"
      "se_workers s = [] \<Longrightarrow> se_workers (set_stage i (Written (Inl WorkerPanicked)) s) = []"
      "se_detached s = [] \<Longrightarrow> se_detached (set_stage i (Written (Inl WorkerPanicked)) s) = []"
    using all_workers_set_stage[OF worker] by blast
  with assms worker WorkerPanics show ?thesis
    by (auto simp: session_ok_def holds_permit_def worker_finished_def worker_failed_def simp flip: set_mset_mset
        dest: mset_le_drop)
next
  case (WorkerEnds i)
  with assms(2) obtain request result where worker: "session_worker s i = Some (request, Written result)"
    by (auto split: option.splits WorkerStage.splits)
  obtain ws where ws: "mset (all_workers s) = add_mset (request, Written result) ws"
      "mset (all_workers (set_stage i (Finished result) s)) = add_mset (request, Finished result) ws"
      "se_workers s = [] \<Longrightarrow> se_workers (set_stage i (Finished result) s) = []"
      "se_detached s = [] \<Longrightarrow> se_detached (set_stage i (Finished result) s) = []"
    using all_workers_set_stage[OF worker] by blast
  with assms worker WorkerEnds show ?thesis
    by (cases result)
      (auto simp: session_ok_def holds_permit_def worker_finished_def worker_failed_def simp flip: set_mset_mset)
qed

lemma session_run_ok:
  "session_ok x s \<Longrightarrow> session_run x as s = Some s' \<Longrightarrow> session_ok x s'"
proof (induction as arbitrary: s)
  case Nil
  then show ?case by simp
next
  case (Cons a as)
  then obtain t where "session_act x a s = Some t" "session_run x as t = Some s'"
    by (auto split: bind_splits)
  with Cons session_act_ok show ?case by blast
qed

section \<open>What every run keeps\<close>

text \<open>
  C5. In every run of a session, whatever the order of its actions: at most eight requests hold a permit, and the
  count in flight is exact; each response that was written is an answer to a request that was read, no
  request gets two of them, and the handler is asked only for capabilities of the session; a session that
  ends well has answered every request once.
\<close>

theorem session_answers_once:
  assumes "session_run x as (session_start es) = Some s"
  shows "se_in_flight s = length (filter holds_permit (all_workers s)) \<and> se_in_flight s \<le> 8 \<and>
    list_all2 (answers x) (se_answered s) (se_output s) \<and> mset (se_answered s) \<subseteq># mset (se_read s) \<and>
    list_all (\<lambda>w. supports x (fst w)) (all_workers s) \<and>
    (se_phase s = Closed (Inr ()) \<longrightarrow> mset (se_answered s) = mset (se_read s))"
proof -
  have ok: "session_ok x s" by (rule session_run_ok[OF session_start_ok assms])
  then have "mset (se_answered s) \<subseteq># mset (se_read s)"
    unfolding session_ok_def by (meson mset_subset_eq_add_left subset_mset.order_trans)
  moreover have "mset (se_answered s) = mset (se_read s)" if "se_phase s = Closed (Inr ())"
    using ok that by (simp add: session_ok_def all_workers_def)
  moreover have "se_in_flight s = length (filter holds_permit (all_workers s))"
    using ok unfolding session_ok_def by (metis mset_filter size_mset)
  ultimately show ?thesis using ok by (simp add: session_ok_def MAX_IN_FLIGHT_REQUESTS_def list_all_iff)
qed

text \<open>A session of two requests; the texts of the requests are their identifiers.\<close>

definition sample_rpc_request :: "string \<Rightarrow> QueryRequest \<Rightarrow> RequestEnvelope" where
  "sample_rpc_request i query = \<lparr>req_request_id = i, req_caller = TestCaller ''t'' None, req_query = query\<rparr>"

definition sample_session :: "string list \<Rightarrow> SessionContext" where
  "sample_session pieces =
     \<lparr>sx_handler = (\<lambda>_. Inl (rpc_query_failed ''m'' False)), sx_supported = [CapHealthSummary],
      sx_parse = (\<lambda>i. Inr (sample_rpc_request i (if i = ''b'' then ListConnectorCoverageReq else GetHealthSummaryReq))),
      sx_serialize = (\<lambda>_. \<lparr>sz_pieces = pieces, sz_error = None\<rparr>)\<rparr>"

definition sample_stream :: "ReadEvent list" where
  "sample_stream =
     [Arrive [CHR 0x00, CHR 0x00, CHR 0x00, CHR 0x01, CHR ''a'', CHR 0x00, CHR 0x00, CHR 0x00, CHR 0x01, CHR ''b'']]"

lemma read_sample:
  "read_frame (Arrive (CHR 0x00 # CHR 0x00 # CHR 0x00 # CHR 0x01 # c # cs) # es) =
   (Inr [c], if cs = [] then es else Arrive cs # es)"
  "read_frame [] = (Inl (FramedEof 4 0), [])"
proof -
  have read: "read_exact_count (Suc 0) [c] es = (Inr [c], es)" by (cases es) simp_all
  show "read_frame (Arrive (CHR 0x00 # CHR 0x00 # CHR 0x00 # CHR 0x01 # c # cs) # es) =
      (Inr [c], if cs = [] then es else Arrive cs # es)"
    by (auto simp: read_frame_def FRAME_HEADER_BYTES_def from_be_bytes_def byte_def MAX_FRAME_BYTES_def Let_def read)
  show "read_frame [] = (Inl (FramedEof 4 0), [])" by (simp add: read_frame_def FRAME_HEADER_BYTES_def)
qed

lemma write_sample:
  "write_locked (sample_session [''{}'']) response None = Inr ()"
  by (simp add: write_locked_def write_frame_def encode_frame_outcome sample_session_def MAX_FRAME_BYTES_def Let_def)

lemma session_act_sample:
  "sx_parse (sample_session pieces) i =
    Inr (sample_rpc_request i (if i = ''b'' then ListConnectorCoverageReq else GetHealthSummaryReq))"
  "sx_supported (sample_session pieces) = [CapHealthSummary]"
  "sx_handler (sample_session pieces) q = Inl (rpc_query_failed ''m'' False)"
  by (simp_all add: sample_session_def)

lemma sample_ids: "validate_request_id ''a'' = Inr ()" "validate_request_id ''b'' = Inr ()"
  by code_simp+

lemma reap_sample:
  "reap_finished i [] = (Inr (), [])" "reap_finished 0 [(r, Handling)] = (Inr (), [(r, Handling)])"
  "reap_finished 0 [(r, Written w)] = (Inr (), [(r, Written w)])"
  by (simp_all add: reap_finished.simps)

theorem session_answers_once_witness:
  "\<exists>s. session_run (sample_session [''{}''])
       [ReaderTurn None, ReaderTurn None, ReaderTurn None, ReaderTurn None, WorkerAnswers 0 None, ReaderTurn None,
        ReaderTurn None, WorkerEnds 0, ReaderTurn None, ReaderTurn None] (session_start sample_stream) = Some s \<and>
     map resp_request_id (se_output s) = [''b'', ''a''] \<and> se_phase s = Closed (Inr ()) \<and>
     mset (se_answered s) = mset (se_read s)"
proof -
  let ?x = "sample_session [''{}'']"
  let ?as = "[ReaderTurn None, ReaderTurn None, ReaderTurn None, ReaderTurn None, WorkerAnswers 0 None, ReaderTurn None,
    ReaderTurn None, WorkerEnds 0, ReaderTurn None, ReaderTurn None]"
  define run where "run = session_run ?x ?as (session_start sample_stream)"
  have "case run of None \<Rightarrow> False | Some s \<Rightarrow>
      map resp_request_id (se_output s) = [''b'', ''a''] \<and> se_phase s = Closed (Inr ())"
    unfolding run_def
    by (simp add: session_start_def sample_stream_def reader_reaps_def reap_sample reader_reads_def
        read_json_frame_def read_sample session_act_sample sample_rpc_request_def Let_def capability_set_contains_def
        validate_in_flight_def MAX_IN_FLIGHT_REQUESTS_def reader_answers_def response_envelope_error_def
        response_envelope_validate_def sample_ids write_sample
        session_worker_def worker_writes_def handle_request_def set_stage_def reader_joins_def close_session_def)
  then obtain s where run: "run = Some s" and s: "map resp_request_id (se_output s) = [''b'', ''a'']"
      "se_phase s = Closed (Inr ())" by (cases run) simp_all
  from session_answers_once[OF run[unfolded run_def]] s(2)
  have "mset (se_answered s) = mset (se_read s)" by (elim conjE) (rule mp)
  with run s show ?thesis unfolding run_def by (intro exI[of _ s] conjI)
qed

text \<open>
  An answer that does not fit a frame is not replaced by an error response: nothing is written for its request, and
  the reader, at its next turn, ends the session with the error of the worker.
\<close>

lemma oversized_answer_ends_session:
  assumes "handle_request x request = Inr response"
    and "MAX_FRAME_BYTES < length (concat (sz_pieces (sx_serialize x response)))"
  shows "\<exists>n. worker_writes x io request = (Inl (SessFrame (FramedOversized n)), []) \<and>
    se_phase (reader_reaps (s\<lparr>se_workers := [(request, Finished (Inl (SessFrame (FramedOversized n))))]\<rparr>)) =
      Closed (Inl (SessFrame (FramedOversized n)))"
proof -
  obtain n where "encode_frame (sx_serialize x) response = Inl (OversizedFrame n)"
    using assms(2) by (simp add: encode_frame_outcome Let_def)
  then have "worker_writes x io request = (Inl (SessFrame (FramedOversized n)), [])"
    using assms(1) by (simp add: worker_writes_def write_locked_def write_frame_def)
  then show ?thesis by (auto simp: reader_reaps_def reap_finished.simps)
qed

end
