(* ===== verification/Mcp_Bridge.thy ===== *)
theory Mcp_Bridge
  imports Rpc_Session
begin

text \<open>
  Crate \<open>next-infra-mcp\<close>: the inputs of the tools, the client of the local RPC and the dispatch of a tool call.
  The session of the client with the host is a parameter that turns a request into a response or
  an error, and changes its state; so are the JSON texts. The library that speaks MCP on standard input and output is not
  modelled.
\<close>

section \<open>Errors\<close>

record McpBridgeError =
  mbe_code :: string
  mbe_message :: string
  mbe_retryable :: bool

definition mcp_error :: "string \<Rightarrow> string \<Rightarrow> bool \<Rightarrow> McpBridgeError" where
  "mcp_error code message retryable = \<lparr>mbe_code = code, mbe_message = message, mbe_retryable = retryable\<rparr>"

definition safe_message :: "McpBridgeError \<Rightarrow> string" where
  "safe_message e = mbe_code e @ '': '' @ mbe_message e"

section \<open>Inputs\<close>

text \<open>The vectors of the input become ordered sets; the enumerations have the values of the wire.\<close>

datatype ResourceHealthInput = HealthyInput | DegradedInput | UnhealthyInput | UnknownInput

datatype FreshnessInput = FreshInput | StaleInput | ExpiredInput

datatype ResourceIncludeInput = AttributesInput | RelationsInput | RecentChangesInclude | ConnectorCoverageInput

record SearchResourcesInput =
  si_query :: "string option"
  si_kinds :: "string list"
  si_connector_types :: "string list"
  si_health :: "ResourceHealthInput list"
  si_freshness :: "FreshnessInput list"
  si_labels :: "(string, string) btree_map"
  si_limit :: "nat option"
  si_cursor :: "string option"

record GetResourceInput =
  gi_resource_id :: string
  gi_include :: "ResourceIncludeInput list"

record GetTopologyInput =
  ti_focus_resource_id :: string
  ti_depth :: "8 word option"
  ti_max_nodes :: "nat option"
  ti_max_edges :: "nat option"

record RecentChangesInput =
  ci_since :: "string option"
  ci_resource_id :: "string option"
  ci_kinds :: "string list"
  ci_limit :: "nat option"
  ci_cursor :: "string option"

record SyncStatusInput =
  yi_connection_id :: string
  yi_recent_run_limit :: "nat option"

fun health_from_input :: "ResourceHealthInput \<Rightarrow> QueryResourceHealth" where
  "health_from_input HealthyInput = DtoHealthy"
| "health_from_input DegradedInput = DtoDegraded"
| "health_from_input UnhealthyInput = DtoUnhealthy"
| "health_from_input UnknownInput = DtoUnknown"

fun freshness_from_input :: "FreshnessInput \<Rightarrow> QueryFreshness" where
  "freshness_from_input FreshInput = DtoFresh"
| "freshness_from_input StaleInput = DtoStale"
| "freshness_from_input ExpiredInput = DtoExpired"

fun include_from_input :: "ResourceIncludeInput \<Rightarrow> RpcResourceInclude" where
  "include_from_input AttributesInput = RpcAttributes"
| "include_from_input RelationsInput = RpcRelations"
| "include_from_input RecentChangesInclude = RpcRecentChanges"
| "include_from_input ConnectorCoverageInput = RpcConnectorCoverage"

text \<open>\<open>collect\<close> into a \<open>BTreeSet\<close> of an enumeration: its values, in their order, that occur.\<close>

definition collect_enum :: "'a list \<Rightarrow> 'a list \<Rightarrow> 'a list" where
  "collect_enum order xs = filter (\<lambda>v. v \<in> set xs) order"

definition search_query_from :: "SearchResourcesInput \<Rightarrow> SearchResourcesQuery" where
  "search_query_from input =
     \<lparr>sqy_query = si_query input, sqy_kinds = bs_of_list (si_kinds input),
      sqy_connector_types = bs_of_list (si_connector_types input),
      sqy_health = collect_enum [DtoHealthy, DtoDegraded, DtoUnhealthy, DtoUnknown]
        (map health_from_input (si_health input)),
      sqy_freshness = collect_enum [DtoFresh, DtoStale, DtoExpired] (map freshness_from_input (si_freshness input)),
      sqy_labels = si_labels input, sqy_limit = si_limit input, sqy_cursor = si_cursor input\<rparr>"

definition resource_query_from :: "GetResourceInput \<Rightarrow> GetResourceQuery" where
  "resource_query_from input =
     \<lparr>gqy_resource_id = gi_resource_id input,
      gqy_include = collect_enum [RpcAttributes, RpcRelations, RpcRecentChanges, RpcConnectorCoverage]
        (map include_from_input (gi_include input))\<rparr>"

definition topology_query_from :: "GetTopologyInput \<Rightarrow> GetTopologyQuery" where
  "topology_query_from input =
     \<lparr>tqy_focus_resource_id = ti_focus_resource_id input, tqy_depth = ti_depth input,
      tqy_max_nodes = ti_max_nodes input, tqy_max_edges = ti_max_edges input\<rparr>"

definition changes_query_from :: "RecentChangesInput \<Rightarrow> RecentChangesQuery" where
  "changes_query_from input =
     \<lparr>cqy_since = ci_since input, cqy_resource_id = ci_resource_id input, cqy_kinds = bs_of_list (ci_kinds input),
      cqy_limit = ci_limit input, cqy_cursor = ci_cursor input\<rparr>"

definition sync_status_query_from :: "SyncStatusInput \<Rightarrow> SyncStatusQuery" where
  "sync_status_query_from input =
     \<lparr>yqy_connection_id = yi_connection_id input, yqy_recent_run_limit = yi_recent_run_limit input\<rparr>"

section \<open>The client\<close>

text \<open>
  \<open>'s\<close> is the state of the connection, and \<open>call\<close> is \<open>RpcClient::query\<close>. The counter of the requests is a \<open>u64\<close>
  that wraps.
\<close>

record 's LocalRpcMcpClient =
  lc_session :: 's
  lc_caller :: Caller
  lc_next_request_id :: "64 word"

definition mcp_client_new :: "'s \<Rightarrow> string \<Rightarrow> string \<Rightarrow> 's LocalRpcMcpClient" where
  "mcp_client_new session bridge_version release_id =
     \<lparr>lc_session = session, lc_caller = BridgeCaller bridge_version release_id None, lc_next_request_id = 1\<rparr>"

text \<open>\<open>connect_run_dir_with_timeout\<close>: \<open>paths\<close> and \<open>connect\<close> are the checks of the directory and the connection.\<close>

definition connect_run_dir ::
    "(string + 'p) \<Rightarrow> ('p \<Rightarrow> ClientHello \<Rightarrow> SessionError + 's) \<Rightarrow> string \<Rightarrow> string \<Rightarrow>
     McpBridgeError + 's LocalRpcMcpClient" where
  "connect_run_dir existing connect bridge_version release_id =
     res_bind (map_err (\<lambda>_. mcp_error ''host_unavailable''
         ''Next Infra is not running or its local endpoint is unavailable.'' True) existing) (\<lambda>paths.
     res_bind (map_err (\<lambda>_. mcp_error ''host_unavailable''
         ''Next Infra did not accept the local read-only session.'' True)
         (connect paths (client_hello_initial bridge_version release_id))) (\<lambda>session.
       Inr (mcp_client_new session bridge_version release_id)))"

definition mcp_client_query ::
    "(RequestEnvelope \<Rightarrow> 's \<Rightarrow> (SessionError + ResponseEnvelope) \<times> 's) \<Rightarrow> QueryRequest \<Rightarrow> 's LocalRpcMcpClient \<Rightarrow>
     (McpBridgeError + QueryResponse) \<times> 's LocalRpcMcpClient" where
  "mcp_client_query call query client =
     (let sequence = lc_next_request_id client;
          client = client\<lparr>lc_next_request_id := sequence + 1\<rparr> in
      case request_envelope_new (''mcp-'' @ show_nat (unat sequence)) (lc_caller client) query of
        Inl _ \<Rightarrow> (Inl (mcp_error ''bridge_contract_error''
          ''The local bridge could not construct a valid query request.'' False), client)
      | Inr request \<Rightarrow>
          (case call request (lc_session client) of
             (response, session) \<Rightarrow>
               let client = client\<lparr>lc_session := session\<rparr> in
               (case response of
                  Inl _ \<Rightarrow> (Inl (mcp_error ''host_unavailable''
                    ''The local Host did not complete the query. Reopen Next Infra and try again.'' True), client)
                | Inr response \<Rightarrow>
                    (case resp_body response of
                       QueryBody answer \<Rightarrow>
                         if response_capability answer = request_capability query then (Inr answer, client)
                         else (Inl (mcp_error ''bridge_contract_error''
                           ''The local Host returned a response for a different query capability.'' False), client)
                     | ErrorBody error \<Rightarrow>
                         (Inl (mcp_error (rpc_code_text (rpe_code error)) (rpe_message error) (rpe_retryable error)),
                          client)))))"

section \<open>The tools\<close>

record McpToolOutput =
  mto_observed_at :: string
  mto_data :: Value

fun response_observed_at :: "QueryResponse \<Rightarrow> string" where
  "response_observed_at (SearchResourcesResp dto) = sm_generated_at (rpd_metadata dto)"
| "response_observed_at (GetResourceResp dto) = sm_generated_at (rdd_metadata dto)"
| "response_observed_at (GetTopologyResp dto) = sm_generated_at (td_metadata dto)"
| "response_observed_at (GetHealthSummaryResp dto) = sm_generated_at (hsd_metadata dto)"
| "response_observed_at (GetRecentChangesResp dto) = sm_generated_at (cpd_metadata dto)"
| "response_observed_at (GetSyncStatusResp dto) = sm_generated_at (ssd_metadata dto)"
| "response_observed_at (ListConnectorCoverageResp dto) = sm_generated_at (ccs_metadata dto)"

definition from_query_response :: "(QueryResponse \<Rightarrow> string + Value) \<Rightarrow> QueryResponse \<Rightarrow> McpBridgeError + McpToolOutput" where
  "from_query_response to_value response =
     res_bind (map_err (\<lambda>_. mcp_error ''bridge_contract_error''
         ''The local query result could not be projected to MCP output.'' False) (to_value response)) (\<lambda>data.
       Inr \<lparr>mto_observed_at = response_observed_at response, mto_data = data\<rparr>)"

text \<open>
  \<open>execute\<close>: \<open>query\<close> is the client; it panics when it has no result, and the task that ran it is then lost.
\<close>

definition mcp_execute ::
    "(QueryResponse \<Rightarrow> string + Value) \<Rightarrow> (QueryRequest \<Rightarrow> 'c \<Rightarrow> (McpBridgeError + QueryResponse) option \<times> 'c) \<Rightarrow>
     QueryRequest \<Rightarrow> 'c \<Rightarrow> (string + McpToolOutput) \<times> 'c" where
  "mcp_execute to_value client_query query client =
     (case client_query query client of
        (None, client) \<Rightarrow> (Inl ''bridge_internal_error: The local query worker stopped unexpectedly.'', client)
      | (Some result, client) \<Rightarrow>
          (map_err safe_message (res_bind result (from_query_response to_value)), client))"

datatype McpToolCall =
    CallSearchResources SearchResourcesInput
  | CallGetResource GetResourceInput
  | CallGetTopology GetTopologyInput
  | CallGetHealthSummary
  | CallGetRecentChanges RecentChangesInput
  | CallGetSyncStatus SyncStatusInput
  | CallListConnectorCoverage

text \<open>The seven tools, by what they execute.\<close>

fun tool_query :: "McpToolCall \<Rightarrow> QueryRequest" where
  "tool_query (CallSearchResources input) = SearchResourcesReq (search_query_from input)"
| "tool_query (CallGetResource input) = GetResourceReq (resource_query_from input)"
| "tool_query (CallGetTopology input) = GetTopologyReq (topology_query_from input)"
| "tool_query CallGetHealthSummary = GetHealthSummaryReq"
| "tool_query (CallGetRecentChanges input) = GetRecentChangesReq (changes_query_from input)"
| "tool_query (CallGetSyncStatus input) = GetSyncStatusReq (sync_status_query_from input)"
| "tool_query CallListConnectorCoverage = ListConnectorCoverageReq"

definition TOOL_NAMES :: "string list" where
  "TOOL_NAMES =
     [''search_resources'', ''get_resource'', ''get_topology'', ''get_health_summary'', ''get_recent_changes'',
      ''get_sync_status'', ''list_connector_coverage'']"

definition CAPABILITIES_RESOURCE_URI :: string where
  "CAPABILITIES_RESOURCE_URI = ''next-infra://capabilities/v1''"

definition HEALTH_RESOURCE_URI :: string where
  "HEALTH_RESOURCE_URI = ''next-infra://health-summary/v1''"

definition capabilities_json :: Value where
  "capabilities_json = json_object
     [(''protocol_major'', JNumber (PosInt (ucast PROTOCOL_MAJOR))), (''protocol_minor'', JNumber (PosInt (ucast PROTOCOL_MINOR))),
      (''tools'', JArray (map JString TOOL_NAMES)), (''read_only'', JBool True), (''write_capabilities'', JArray []),
      (''security_boundary'', JString ''local committed snapshot only'')]"

text \<open>\<open>read_resource_json\<close>: \<open>to_string\<close> and \<open>output_string\<close> write the two kinds of text.\<close>

definition read_resource_json ::
    "(Value \<Rightarrow> string + string) \<Rightarrow> (McpToolOutput \<Rightarrow> string + string) \<Rightarrow> (QueryRequest \<Rightarrow> 'c \<Rightarrow> (string + McpToolOutput) \<times> 'c) \<Rightarrow>
     string \<Rightarrow> 'c \<Rightarrow> (McpBridgeError + string) \<times> 'c" where
  "read_resource_json to_string output_string execute uri client =
     (if uri = CAPABILITIES_RESOURCE_URI then
        (map_err (\<lambda>_. mcp_error ''bridge_contract_error'' ''The capabilities resource could not be serialized.'' False)
           (to_string capabilities_json), client)
      else if uri = HEALTH_RESOURCE_URI then
        (case execute GetHealthSummaryReq client of
           (Inl message, client) \<Rightarrow> (Inl (mcp_error ''query_failed'' message True), client)
         | (Inr output, client) \<Rightarrow>
             (map_err (\<lambda>_. mcp_error ''bridge_contract_error'' ''The health resource could not be serialized.'' False)
                (output_string output), client))
      else (Inl (mcp_error ''resource_not_found'' ''The requested Next Infra resource does not exist.'' False), client))"

datatype McpProtocolError = ResourceNotFound string | InternalError string

definition mcp_read_resource ::
    "(Value \<Rightarrow> string + string) \<Rightarrow> (McpToolOutput \<Rightarrow> string + string) \<Rightarrow> (QueryRequest \<Rightarrow> 'c \<Rightarrow> (string + McpToolOutput) \<times> 'c) \<Rightarrow>
     string \<Rightarrow> 'c \<Rightarrow> (McpProtocolError + string) \<times> 'c" where
  "mcp_read_resource to_string output_string execute uri client =
     (case read_resource_json to_string output_string execute uri client of
        (result, client) \<Rightarrow>
          (map_err (\<lambda>e. if mbe_code e = ''resource_not_found'' then ResourceNotFound (mbe_message e)
                       else InternalError (safe_message e)) result, client))"

section \<open>Identifiers of requests\<close>

lemma no_control_digits: "\<not> has_control (show_nat n)"
proof -
  have "\<not> has_control s" if "list_all is_ascii_digit s" for s
    using that
  proof (induction s)
    case (Cons c s)
    then have "48 \<le> byte c" "byte c \<le> 57" by (simp_all add: is_ascii_digit_def)
    with Cons show ?case by auto
  qed simp
  moreover have "list_all is_ascii_digit (show_nat n)" using show_nat_digits by (auto simp: list_all_iff)
  ultimately show ?thesis by blast
qed

lemma show_nat_short: "n < 10 ^ Suc k \<Longrightarrow> length (show_nat n) \<le> Suc k"
proof (induction k arbitrary: n)
  case 0
  then show ?case by (subst show_nat.simps) simp
next
  case (Suc k)
  show ?case
  proof (cases "n < 10")
    case True
    then show ?thesis by (subst show_nat.simps) simp
  next
    case False
    from Suc.prems have "n div 10 < 10 ^ Suc k" by simp
    from Suc.IH[OF this] False show ?thesis by (subst show_nat.simps) simp
  qed
qed

lemma request_id_ok:
  "validate_request_id (CHR ''m'' # CHR ''c'' # CHR ''p'' # CHR ''-'' # show_nat (unat (n :: 64 word))) = Inr ()"
proof -
  have "unat n < 10 ^ Suc 19" by (rule order_less_le_trans[OF unsigned_less]) simp
  then have "length (show_nat (unat n)) \<le> Suc 19" by (rule show_nat_short)
  then show ?thesis using no_control_digits[of "unat n"]
    by (simp add: validate_request_id_def byte_def MAX_REQUEST_ID_BYTES_def)
qed



definition sample_host :: "RequestEnvelope \<Rightarrow> unit \<Rightarrow> (SessionError + ResponseEnvelope) \<times> unit" where
  "sample_host request s =
     (Inr \<lparr>resp_request_id = req_request_id request, resp_body =
        (case service_handle sample_source (req_query request) of Inr r \<Rightarrow> QueryBody r | Inl e \<Rightarrow> ErrorBody e)\<rparr>, s)"


end
