(* ===== verification/File_System.thy ===== *)
theory File_System
  imports Rust_Int
begin

text \<open>
  Paths and the file system as the programs use them: \<open>std::path\<close> (components, \<open>join\<close>, \<open>parent\<close>) and the calls
  of \<open>std::fs\<close> that read and change local state. A name is resolved one component at a time, symbolic links
  included; every call can fail where the system lets it fail.
\<close>

unbundle bit_operations_syntax

section \<open>Paths\<close>

datatype Component = RootDir | CurDir | ParentDir | NormalName string

text \<open>A path is its components: two paths are equal when their components are.\<close>

type_synonym Path = "Component list"

fun name_components :: "string list \<Rightarrow> Path" where
  "name_components [] = []"
| "name_components (n # ns) =
     (if n = [] \<or> n = ''.'' then name_components ns
      else (if n = ''..'' then ParentDir else NormalName n) # name_components ns)"

definition path_new :: "string \<Rightarrow> Path" where
  "path_new s =
     (case s of
        [] \<Rightarrow> []
      | c # _ \<Rightarrow>
          let names = split_byte CHR 0x2F s in
          if c = CHR 0x2F then RootDir # name_components names
          else if hd names = ''.'' then CurDir # name_components names
          else name_components names)"

definition is_absolute :: "Path \<Rightarrow> bool" where
  "is_absolute p \<longleftrightarrow> (case p of RootDir # _ \<Rightarrow> True | _ \<Rightarrow> False)"

definition path_join :: "Path \<Rightarrow> Path \<Rightarrow> Path" where
  "path_join p q =
     (if is_absolute q then q
      else if p = [] then q
      else p @ (case q of CurDir # r \<Rightarrow> r | _ \<Rightarrow> q))"

definition path_parent :: "Path \<Rightarrow> Path option" where
  "path_parent p = (if p = [] \<or> last p = RootDir then None else Some (butlast p))"

definition path_name :: "Path \<Rightarrow> string option" where
  "path_name p = (if p = [] then None else case last p of NormalName n \<Rightarrow> Some n | _ \<Rightarrow> None)"

section \<open>Nodes\<close>

datatype NodeKind = DirNode | FileNode string | LinkNode Path

record Node =
  nd_kind :: NodeKind
  nd_uid :: "32 word"
  nd_mode :: "32 word"
  nd_dev :: "64 word"
  nd_ino :: "64 word"

definition is_symlink :: "Node \<Rightarrow> bool" where
  "is_symlink n \<longleftrightarrow> (case nd_kind n of LinkNode _ \<Rightarrow> True | _ \<Rightarrow> False)"

definition is_dir :: "Node \<Rightarrow> bool" where
  "is_dir n \<longleftrightarrow> nd_kind n = DirNode"

definition is_file :: "Node \<Rightarrow> bool" where
  "is_file n \<longleftrightarrow> (case nd_kind n of FileNode _ \<Rightarrow> True | _ \<Rightarrow> False)"

text \<open>The only errors the programs tell apart.\<close>

datatype IoError = IoNotFound | IoOther

datatype FsCall =
    OpenCall | ReadCall | WriteCall | SyncCall | RenameCall | RemoveCall | MkdirCall | ChmodCall

text \<open>
  Nodes are found under their real location, a list of names from the root. \<open>fs_denied\<close> are the locations the
  process may not search or open, \<open>fs_fault\<close> the calls that fail for another reason (a full disk, a read-only mount),
  \<open>fs_partial\<close> the bytes a failing write leaves.
\<close>

record FileSystem =
  fs_nodes :: "string list \<Rightarrow> Node option"
  fs_cwd :: "string list"
  fs_max_links :: nat
  fs_denied :: "string list \<Rightarrow> bool"
  fs_fault :: "FsCall \<Rightarrow> bool"
  fs_partial :: nat
  fs_euid :: "32 word"
  fs_umask :: "32 word"
  fs_dev :: "64 word"
  fs_next_ino :: "64 word"

definition node_dir :: "FileSystem \<Rightarrow> string list \<Rightarrow> bool" where
  "node_dir fs c \<longleftrightarrow> (case fs_nodes fs c of Some n \<Rightarrow> is_dir n | None \<Rightarrow> False)"

definition searchable :: "FileSystem \<Rightarrow> string list \<Rightarrow> bool" where
  "searchable fs c \<longleftrightarrow> node_dir fs c \<and> \<not> fs_denied fs c"

section \<open>Name resolution\<close>

text \<open>
  \<open>walk fs follow n c p\<close> resolves \<open>p\<close> from the directory \<open>c\<close>, following at most \<open>n\<close> symbolic links, the last component
  only if \<open>follow\<close> says so; it returns how many links are left and the location.
\<close>

function walk :: "FileSystem \<Rightarrow> bool \<Rightarrow> nat \<Rightarrow> string list \<Rightarrow> Path \<Rightarrow> IoError + nat \<times> string list" where
  "walk fs follow n c [] = Inr (n, c)"
| "walk fs follow n c (RootDir # p) = (if searchable fs c then walk fs follow n [] p else Inl IoOther)"
| "walk fs follow n c (CurDir # p) = (if searchable fs c then walk fs follow n c p else Inl IoOther)"
| "walk fs follow n c (ParentDir # p) = (if searchable fs c then walk fs follow n (butlast c) p else Inl IoOther)"
| "walk fs follow n c (NormalName x # p) =
     (if searchable fs c then
        (case fs_nodes fs (c @ [x]) of
           None \<Rightarrow> Inl IoNotFound
         | Some node \<Rightarrow>
             (case nd_kind node of
                LinkNode target \<Rightarrow>
                  if p = [] \<and> \<not> follow then Inr (n, c @ [x])
                  else (case n of 0 \<Rightarrow> Inl IoOther | Suc m \<Rightarrow> walk fs follow m c (target @ p))
              | _ \<Rightarrow> walk fs follow n (c @ [x]) p))
      else Inl IoOther)"
  by pat_completeness auto

termination
  by (relation "measures [\<lambda>(fs, follow, n, c, p). n, \<lambda>(fs, follow, n, c, p). length p]") auto

definition base :: "FileSystem \<Rightarrow> Path \<Rightarrow> string list" where
  "base fs p = (if is_absolute p then [] else fs_cwd fs)"

definition resolve :: "FileSystem \<Rightarrow> bool \<Rightarrow> Path \<Rightarrow> IoError + string list" where
  "resolve fs follow p =
     (if p = [] then Inl IoNotFound else map_ok snd (walk fs follow (fs_max_links fs) (base fs p) p))"

text \<open>\<open>fs::symlink_metadata\<close>, \<open>fs::canonicalize\<close>, \<open>fs::read_link\<close> and \<open>fs::read\<close>.\<close>

definition found_at :: "FileSystem \<Rightarrow> string list \<Rightarrow> IoError + Node" where
  "found_at fs c = ok_or IoNotFound (fs_nodes fs c)"

definition lstat :: "FileSystem \<Rightarrow> Path \<Rightarrow> IoError + Node" where
  "lstat fs p = res_bind (resolve fs False p) (found_at fs)"

definition canonicalize :: "FileSystem \<Rightarrow> Path \<Rightarrow> IoError + string list" where
  "canonicalize fs p = res_bind (resolve fs True p) (\<lambda>c. res_bind (found_at fs c) (\<lambda>_. Inr c))"

definition read_link :: "FileSystem \<Rightarrow> Path \<Rightarrow> IoError + Path" where
  "read_link fs p =
     res_bind (lstat fs p) (\<lambda>n. case nd_kind n of LinkNode target \<Rightarrow> Inr target | _ \<Rightarrow> Inl IoOther)"

definition fs_read :: "FileSystem \<Rightarrow> Path \<Rightarrow> IoError + string" where
  "fs_read fs p =
     res_bind (resolve fs True p) (\<lambda>c. res_bind (found_at fs c) (\<lambda>n.
       case nd_kind n of
         FileNode content \<Rightarrow> if fs_denied fs c \<or> fs_fault fs ReadCall then Inl IoOther else Inr content
       | _ \<Rightarrow> Inl IoOther))"

section \<open>Changes\<close>

definition set_node :: "string list \<Rightarrow> Node option \<Rightarrow> FileSystem \<Rightarrow> FileSystem" where
  "set_node c n fs = fs\<lparr>fs_nodes := (fs_nodes fs)(c := n)\<rparr>"

definition new_node :: "FileSystem \<Rightarrow> NodeKind \<Rightarrow> 32 word \<Rightarrow> Node" where
  "new_node fs kind mode =
     \<lparr>nd_kind = kind, nd_uid = fs_euid fs, nd_mode = mode AND NOT (fs_umask fs), nd_dev = fs_dev fs,
      nd_ino = fs_next_ino fs\<rparr>"

text \<open>Where an entry is or would be: the directory of the path, resolved, and the name.\<close>

definition entry :: "FileSystem \<Rightarrow> Path \<Rightarrow> IoError + string list" where
  "entry fs p =
     (case path_name p of
        None \<Rightarrow> Inl IoOther
      | Some x \<Rightarrow>
          res_bind (map_ok snd (walk fs True (fs_max_links fs) (base fs p) (butlast p))) (\<lambda>d.
            if searchable fs d then Inr (d @ [x]) else Inl IoOther))"

text \<open>\<open>OpenOptions::new().write(true).create_new(true).mode(mode).open(p)\<close>: the location of the new file.\<close>

definition create_new :: "FileSystem \<Rightarrow> Path \<Rightarrow> 32 word \<Rightarrow> (IoError + string list) \<times> FileSystem" where
  "create_new fs p mode =
     (case entry fs p of
        Inl e \<Rightarrow> (Inl e, fs)
      | Inr c \<Rightarrow>
          if fs_nodes fs c \<noteq> None \<or> fs_fault fs OpenCall then (Inl IoOther, fs)
          else (Inr c, (set_node c (Some (new_node fs (FileNode []) mode)) fs)\<lparr>fs_next_ino := fs_next_ino fs + 1\<rparr>))"

text \<open>\<open>File::write_all\<close> on the file opened at a location, then \<open>File::sync_all\<close>.\<close>

definition write_file :: "FileSystem \<Rightarrow> string list \<Rightarrow> string \<Rightarrow> (IoError + unit) \<times> FileSystem" where
  "write_file fs c bytes =
     (case fs_nodes fs c of
        None \<Rightarrow> (Inl IoOther, fs)
      | Some n \<Rightarrow>
          if fs_fault fs WriteCall
          then (Inl IoOther, set_node c (Some (n\<lparr>nd_kind := FileNode (take (fs_partial fs) bytes)\<rparr>)) fs)
          else (Inr (), set_node c (Some (n\<lparr>nd_kind := FileNode bytes\<rparr>)) fs))"

definition sync_file :: "FileSystem \<Rightarrow> IoError + unit" where
  "sync_file fs = (if fs_fault fs SyncCall then Inl IoOther else Inr ())"

text \<open>\<open>fs::rename\<close>, which the programs use on files only (the model refuses directories), and \<open>fs::remove_file\<close>.\<close>

definition rename_file :: "FileSystem \<Rightarrow> Path \<Rightarrow> Path \<Rightarrow> (IoError + unit) \<times> FileSystem" where
  "rename_file fs p q =
     (case (entry fs p, entry fs q) of
        (Inr c, Inr d) \<Rightarrow>
          (case fs_nodes fs c of
             None \<Rightarrow> (Inl IoNotFound, fs)
           | Some n \<Rightarrow>
               if fs_fault fs RenameCall \<or> is_dir n \<or> node_dir fs d then (Inl IoOther, fs)
               else (Inr (), set_node d (Some n) (set_node c None fs)))
      | (Inl e, _) \<Rightarrow> (Inl e, fs)
      | (_, Inl e) \<Rightarrow> (Inl e, fs))"

definition remove_file :: "FileSystem \<Rightarrow> Path \<Rightarrow> (IoError + unit) \<times> FileSystem" where
  "remove_file fs p =
     (case entry fs p of
        Inl e \<Rightarrow> (Inl e, fs)
      | Inr c \<Rightarrow>
          (case fs_nodes fs c of
             None \<Rightarrow> (Inl IoNotFound, fs)
           | Some n \<Rightarrow>
               if fs_fault fs RemoveCall \<or> is_dir n then (Inl IoOther, fs) else (Inr (), set_node c None fs)))"

text \<open>\<open>File::open(p)\<close> then \<open>sync_all\<close>, of a directory.\<close>

definition open_and_sync :: "FileSystem \<Rightarrow> Path \<Rightarrow> IoError + unit" where
  "open_and_sync fs p =
     res_bind (resolve fs True p) (\<lambda>c. res_bind (found_at fs c) (\<lambda>_.
       if fs_denied fs c \<or> fs_fault fs OpenCall then Inl IoOther else sync_file fs))"

text \<open>\<open>fs::set_permissions\<close> and \<open>fs::create_dir_all\<close>.\<close>

definition chmod :: "FileSystem \<Rightarrow> Path \<Rightarrow> 32 word \<Rightarrow> (IoError + unit) \<times> FileSystem" where
  "chmod fs p mode =
     (case resolve fs True p of
        Inl e \<Rightarrow> (Inl e, fs)
      | Inr c \<Rightarrow>
          (case fs_nodes fs c of
             None \<Rightarrow> (Inl IoNotFound, fs)
           | Some n \<Rightarrow>
               if fs_fault fs ChmodCall \<or> nd_uid n \<noteq> fs_euid fs then (Inl IoOther, fs)
               else (Inr (), set_node c (Some (n\<lparr>nd_mode := mode\<rparr>)) fs)))"

definition mkdir :: "FileSystem \<Rightarrow> Path \<Rightarrow> (IoError + unit) \<times> FileSystem" where
  "mkdir fs p =
     (case entry fs p of
        Inl e \<Rightarrow> (Inl e, fs)
      | Inr c \<Rightarrow>
          if fs_nodes fs c \<noteq> None \<or> fs_fault fs MkdirCall then (Inl IoOther, fs)
          else (Inr (), (set_node c (Some (new_node fs DirNode 511)) fs)\<lparr>fs_next_ino := fs_next_ino fs + 1\<rparr>))"

definition path_is_dir :: "FileSystem \<Rightarrow> Path \<Rightarrow> bool" where
  "path_is_dir fs p = (case resolve fs True p of Inr c \<Rightarrow> node_dir fs c | Inl _ \<Rightarrow> False)"

definition mkdir_or_dir :: "FileSystem \<Rightarrow> Path \<Rightarrow> (IoError + unit) \<times> FileSystem" where
  "mkdir_or_dir fs p =
     (case mkdir fs p of
        (Inr u, fs) \<Rightarrow> (Inr u, fs)
      | (Inl e, fs) \<Rightarrow> if path_is_dir fs p then (Inr (), fs) else (Inl e, fs))"

function create_dir_all :: "FileSystem \<Rightarrow> Path \<Rightarrow> (IoError + unit) \<times> FileSystem" where
  "create_dir_all fs p =
     (if p = [] then (Inr (), fs)
      else
        (case mkdir fs p of
           (Inl IoNotFound, fs) \<Rightarrow>
             (case path_parent p of
                None \<Rightarrow> (Inl IoOther, fs)
              | Some parent \<Rightarrow>
                  (case create_dir_all fs parent of
                     (Inl e, fs) \<Rightarrow> (Inl e, fs)
                   | (Inr _, fs) \<Rightarrow> mkdir_or_dir fs p))
         | _ \<Rightarrow> mkdir_or_dir fs p))"
  by pat_completeness auto

termination
  by (relation "measure (\<lambda>(fs, p). length p)") (auto simp: path_parent_def split: if_splits)

declare create_dir_all.simps [simp del]

section \<open>Facts about name resolution\<close>

definition file_at :: "FileSystem \<Rightarrow> string list \<Rightarrow> bool" where
  "file_at fs c \<longleftrightarrow> (case fs_nodes fs c of Some n \<Rightarrow> is_file n | None \<Rightarrow> False)"

lemma file_not_dir: "file_at fs c \<Longrightarrow> \<not> node_dir fs c"
  by (auto simp: file_at_def node_dir_def is_file_def is_dir_def split: option.splits NodeKind.splits)

lemma kind_simps:
  "nd_kind n = LinkNode t \<Longrightarrow> is_symlink n" "nd_kind n = DirNode \<Longrightarrow> \<not> is_symlink n"
  "nd_kind n = FileNode s \<Longrightarrow> \<not> is_symlink n" "nd_kind n = DirNode \<Longrightarrow> is_dir n" "nd_kind n = FileNode s \<Longrightarrow> is_file n"
  "nd_kind n = LinkNode t \<Longrightarrow> \<not> is_file n" "nd_kind n = DirNode \<Longrightarrow> \<not> is_file n" "nd_kind n = LinkNode t \<Longrightarrow> \<not> is_dir n"
  "nd_kind n = FileNode s \<Longrightarrow> \<not> is_dir n"
  by (simp_all add: is_symlink_def is_dir_def is_file_def)

text \<open>A path in two parts is resolved part by part; only the end of the second part may stay a link.\<close>

lemma walk_append:
  "q \<noteq> [] \<Longrightarrow> walk fs follow n c (p @ q) =
     (case walk fs True n c p of Inl e \<Rightarrow> Inl e | Inr (m, d) \<Rightarrow> walk fs follow m d q)"
proof (induction fs True n c p rule: walk.induct)
  case (5 fs n c x p)
  then show ?case by (auto split: option.splits NodeKind.splits nat.splits)
qed simp_all

text \<open>Following the end makes no difference when it is no link.\<close>

lemma walk_no_link:
  assumes "walk fs False n c p = Inr (m, d)" and "fs_nodes fs d = Some node" and "\<not> is_symlink node"
  shows "walk fs True n c p = Inr (m, d)"
  using assms
proof (induction fs False n c p rule: walk.induct)
  case (5 fs n c x p)
  then show ?case by (auto simp: kind_simps split: if_splits option.splits NodeKind.splits nat.splits)
qed (auto split: if_splits)

lemma searchable_change:
  "fs_nodes fs' c = fs_nodes fs c \<Longrightarrow> fs_denied fs' = fs_denied fs \<Longrightarrow> searchable fs' c = searchable fs c"
  by (simp add: searchable_def node_dir_def)

text \<open>New entries and entries of files are never passed on the way to a directory.\<close>

definition ways_kept :: "FileSystem \<Rightarrow> FileSystem \<Rightarrow> bool" where
  "ways_kept fs fs' \<longleftrightarrow> (\<forall>c. fs_nodes fs' c = fs_nodes fs c \<or> file_at fs c \<or> fs_nodes fs c = None) \<and>
     fs_denied fs' = fs_denied fs"

lemma ways_kept_searchable: "ways_kept fs fs' \<Longrightarrow> searchable fs c \<Longrightarrow> searchable fs' c"
  unfolding ways_kept_def searchable_def
  by (metis file_not_dir node_dir_def option.case(1))

lemma ways_kept_node:
  "ways_kept fs fs' \<Longrightarrow> fs_nodes fs c = Some node \<Longrightarrow> \<not> is_file node \<Longrightarrow> fs_nodes fs' c = Some node"
  unfolding ways_kept_def file_at_def by (metis option.case(2) option.discI)

lemma walk_kept:
  assumes "ways_kept fs fs'" and "walk fs True n c p = Inr (m, d)" and "node_dir fs d"
  shows "walk fs' True n c p = Inr (m, d)"
  using assms
proof (induction fs True n c p rule: walk.induct)
  case (5 fs n c x p)
  from 5 obtain node where node: "searchable fs c" "fs_nodes fs (c @ [x]) = Some node"
    by (auto split: if_splits option.splits)
  note same = ways_kept_searchable[OF 5(4) node(1)]
  show ?case
  proof (cases "nd_kind node")
    case (FileNode s)
    then have "\<not> searchable fs (c @ [x])" "\<not> node_dir fs (c @ [x])"
      using node by (simp_all add: searchable_def node_dir_def kind_simps)
    with 5(5,6) node FileNode show ?thesis by (cases p; cases "hd p") auto
  next
    case DirNode
    with 5 node same ways_kept_node[OF 5(4) node(2)] show ?thesis by (auto simp: kind_simps)
  next
    case (LinkNode t)
    with 5 node same ways_kept_node[OF 5(4) node(2)] show ?thesis by (auto simp: kind_simps split: nat.splits)
  qed
qed (auto simp: ways_kept_searchable split: if_splits)

text \<open>
  When a file replaces something on the way, the way leads to the same directory, to a file, or fails, but not for
  want of an entry.
\<close>

definition filed :: "FileSystem \<Rightarrow> FileSystem \<Rightarrow> bool" where
  "filed fs fs' \<longleftrightarrow> (\<forall>c. fs_nodes fs' c = fs_nodes fs c \<or> file_at fs c \<or> fs_nodes fs c = None \<or> file_at fs' c) \<and>
     fs_denied fs' = fs_denied fs"

lemma filed_node:
  "filed fs fs' \<Longrightarrow> fs_nodes fs c = Some node \<Longrightarrow> \<not> is_file node \<Longrightarrow> \<not> file_at fs' c \<Longrightarrow>
   fs_nodes fs' c = Some node"
  unfolding filed_def file_at_def by (metis option.case(2) option.discI)

lemma walk_filed:
  assumes "filed fs fs'" and "walk fs True n c p = Inr (m, d)" and "node_dir fs d"
  shows "walk fs' True n c p = Inr (m, d) \<or> walk fs' True n c p = Inl IoOther \<or>
    (\<exists>k e. walk fs' True n c p = Inr (k, e) \<and> file_at fs' e)"
  using assms
proof (induction fs True n c p rule: walk.induct)
  case (5 fs n c x p)
  from 5 obtain node where node: "searchable fs c" "fs_nodes fs (c @ [x]) = Some node"
    by (auto split: if_splits option.splits)
  have stuck: "walk fs' True n e p = Inl IoOther \<or> walk fs' True n e p = Inr (n, e)"
    if "file_at fs' e" for e
    using file_not_dir[OF that] by (cases p; cases "hd p") (auto simp: searchable_def)
  show ?case
  proof (cases "searchable fs' c \<and> \<not> file_at fs' (c @ [x])")
    case False
    show ?thesis
    proof (cases "searchable fs' c")
      case True
      with False have at: "file_at fs' (c @ [x])" by simp
      then have "walk fs' True n c (NormalName x # p) = walk fs' True n (c @ [x]) p"
        using True by (auto simp: file_at_def is_file_def split: option.splits NodeKind.splits)
      with stuck[OF at] at show ?thesis by auto
    qed simp
  next
    case True
    show ?thesis
    proof (cases "nd_kind node")
      case (FileNode s)
      then have "\<not> searchable fs (c @ [x])" "\<not> node_dir fs (c @ [x])"
        using node by (simp_all add: searchable_def node_dir_def kind_simps)
      with 5(5,6) node FileNode show ?thesis by (cases p; cases "hd p") auto
    next
      case DirNode
      then have "fs_nodes fs' (c @ [x]) = Some node"
        using filed_node[OF 5(4) node(2)] True by (simp add: kind_simps)
      with 5 node True DirNode show ?thesis by auto
    next
      case (LinkNode t)
      then have "fs_nodes fs' (c @ [x]) = Some node"
        using filed_node[OF 5(4) node(2)] True by (simp add: kind_simps)
      with 5 node True LinkNode show ?thesis by (auto split: nat.splits)
    qed
  qed
qed (auto split: if_splits)

end
