(* ===== verification/Host_Integration.thy ===== *)
theory Host_Integration
  imports File_System Rpc_Protocol
begin

text \<open>
  Crate \<open>next-infra-host-integration\<close>: the layout of the installed files, the marker that the user has quit, the
  integration record with its contract, and the authorization of a launch by the bridge. \<open>parse_record\<close> is
  \<open>serde_json::from_slice\<close> for the record, \<open>pid\<close> the process.
\<close>

definition DIRECTORY_MODE :: "32 word" where
  "DIRECTORY_MODE = 448"

definition RECORD_MODE :: "32 word" where
  "RECORD_MODE = 384"

record IntegrationPaths =
  ip_root :: Path
  ip_state_dir :: Path
  ip_user_quit :: Path
  ip_integration_dir :: Path
  ip_mcp_dir :: Path
  ip_releases_dir :: Path
  ip_current_link :: Path
  ip_record :: Path
  ip_run_dir :: Path
  ip_launch_lock :: Path
  ip_stable_app :: Path
  ip_stable_bridge :: Path

definition paths_from_home :: "Path \<Rightarrow> IntegrationPaths" where
  "paths_from_home home =
     (let root = path_join (path_join (path_join home (path_new ''Library'')) (path_new ''Application Support''))
            (path_new ''Next Infra'');
          integration_dir = path_join root (path_new ''integration'');
          mcp_dir = path_join integration_dir (path_new ''mcp'');
          current_link = path_join mcp_dir (path_new ''current'') in
      \<lparr>ip_root = root,
       ip_state_dir = path_join root (path_new ''state''),
       ip_user_quit = path_join (path_join root (path_new ''state'')) (path_new ''user-quit-v1.json''),
       ip_integration_dir = integration_dir,
       ip_mcp_dir = mcp_dir,
       ip_releases_dir = path_join mcp_dir (path_new ''releases''),
       ip_current_link = current_link,
       ip_record = path_join mcp_dir (path_new ''integration-v1.json''),
       ip_run_dir = path_join root (path_new ''run''),
       ip_launch_lock = path_join (path_join root (path_new ''run'')) (path_new ''mcp-launch-v1.lock''),
       ip_stable_app = path_join (path_join home (path_new ''Applications'')) (path_new ''Next Infra.app''),
       ip_stable_bridge = path_join current_link (path_new ''next-infra-mcp'')\<rparr>)"

datatype UserQuitInspection = QuitClear | QuitSuppressed

datatype IntegrationError = IntMissing string | IntInvalid string | IntIo

fun integration_error_text :: "IntegrationError \<Rightarrow> string" where
  "integration_error_text (IntMissing label) = ''missing '' @ label"
| "integration_error_text (IntInvalid label) = ''invalid '' @ label"
| "integration_error_text IntIo = ''local integration state is unavailable''"

record IntegrationRecord =
  ir_schema_version :: "32 word"
  ir_release_id :: string
  ir_stable_app_path :: Path
  ir_stable_bridge_path :: Path
  ir_bundle_id :: string
  ir_team_id :: "string option"
  ir_app_designated_requirement :: string
  ir_bridge_designated_requirement :: string
  ir_protocol_major :: "16 word"
  ir_protocol_minor :: "16 word"
  ir_minimum_supported_minor :: "16 word"
  ir_host_supported_capabilities :: "string list"
  ir_host_required_capabilities :: "string list"
  ir_bridge_supported_capabilities :: "string list"
  ir_bridge_required_capabilities :: "string list"
  ir_allow_mcp_auto_launch :: bool
  ir_installed_at :: string
  ir_updated_at :: string

record UserQuitMarker =
  um_schema_version :: "32 word"
  um_user_quit :: bool

section \<open>Checks of nodes\<close>

definition map_missing :: "IoError \<Rightarrow> string \<Rightarrow> IntegrationError" where
  "map_missing error label = (if error = IoNotFound then IntMissing label else IntIo)"

definition validate_directory :: "FileSystem \<Rightarrow> Path \<Rightarrow> IntegrationError + unit" where
  "validate_directory fs path =
     res_bind (map_err (\<lambda>e. map_missing e ''integration directory'') (lstat fs path)) (\<lambda>metadata.
       if is_symlink metadata \<or> \<not> is_dir metadata \<or> nd_uid metadata \<noteq> fs_euid fs \<or>
          nd_mode metadata AND 4095 \<noteq> DIRECTORY_MODE
       then Inl (IntInvalid ''integration directory'') else Inr ())"

definition validate_regular_file :: "FileSystem \<Rightarrow> Node \<Rightarrow> 32 word \<Rightarrow> IntegrationError + unit" where
  "validate_regular_file fs metadata mode =
     (if is_symlink metadata \<or> \<not> is_file metadata \<or> nd_uid metadata \<noteq> fs_euid fs \<or> nd_mode metadata AND 4095 \<noteq> mode
      then Inl (IntInvalid ''integration file'') else Inr ())"

definition validate_executable :: "FileSystem \<Rightarrow> Node \<Rightarrow> IntegrationError + unit" where
  "validate_executable fs metadata =
     (let mode = nd_mode metadata AND 4095 in
      if is_symlink metadata \<or> \<not> is_file metadata \<or> nd_uid metadata \<noteq> fs_euid fs \<or> mode AND 18 \<noteq> 0 \<or>
         mode AND 64 = 0
      then Inl (IntInvalid ''Bridge executable'') else Inr ())"

definition sync_directory :: "FileSystem \<Rightarrow> Path \<Rightarrow> IntegrationError + unit" where
  "sync_directory fs path = map_err (\<lambda>_. IntIo) (open_and_sync fs path)"

section \<open>The marker that the user has quit\<close>

definition inspect_user_quit :: "(string \<Rightarrow> UserQuitMarker option) \<Rightarrow> FileSystem \<Rightarrow> IntegrationPaths \<Rightarrow> UserQuitInspection" where
  "inspect_user_quit parse_marker fs paths =
     (case lstat fs (ip_user_quit paths) of
        Inl error \<Rightarrow> if error = IoNotFound then QuitClear else QuitSuppressed
      | Inr metadata \<Rightarrow>
          if \<not> is_ok (validate_directory fs (ip_state_dir paths)) \<or> \<not> is_ok (validate_regular_file fs metadata RECORD_MODE)
          then QuitSuppressed
          else
            (case (case fs_read fs (ip_user_quit paths) of Inl _ \<Rightarrow> None | Inr bytes \<Rightarrow> parse_marker bytes) of
               Some marker \<Rightarrow>
                 if um_schema_version marker = 1 \<and> um_user_quit marker then QuitSuppressed else QuitSuppressed
             | None \<Rightarrow> QuitSuppressed))"

definition ensure_owner_directory :: "FileSystem \<Rightarrow> Path \<Rightarrow> (IntegrationError + unit) \<times> FileSystem" where
  "ensure_owner_directory fs path =
     (case lstat fs path of
        Inr metadata \<Rightarrow>
          if is_symlink metadata \<or> \<not> is_dir metadata \<or> nd_uid metadata \<noteq> fs_euid fs
          then (Inl (IntInvalid ''integration directory''), fs)
          else if nd_mode metadata AND 4095 \<noteq> DIRECTORY_MODE
          then
            (case chmod fs path DIRECTORY_MODE of
               (Inl _, fs) \<Rightarrow> (Inl IntIo, fs)
             | (Inr _, fs) \<Rightarrow> (validate_directory fs path, fs))
          else (validate_directory fs path, fs)
      | Inl error \<Rightarrow>
          if error = IoNotFound
          then
            (case create_dir_all fs path of
               (Inl _, fs) \<Rightarrow> (Inl IntIo, fs)
             | (Inr _, fs) \<Rightarrow>
                 (case chmod fs path DIRECTORY_MODE of
                    (Inl _, fs) \<Rightarrow> (Inl IntIo, fs)
                  | (Inr _, fs) \<Rightarrow> (validate_directory fs path, fs)))
          else (Inl IntIo, fs))"

definition ensure_state_directory :: "FileSystem \<Rightarrow> IntegrationPaths \<Rightarrow> (IntegrationError + unit) \<times> FileSystem" where
  "ensure_state_directory fs paths =
     (case ensure_owner_directory fs (ip_root paths) of
        (Inl e, fs) \<Rightarrow> (Inl e, fs)
      | (Inr _, fs) \<Rightarrow> ensure_owner_directory fs (ip_state_dir paths))"

definition marker_bytes :: string where
  "marker_bytes = ''{\"schema_version\":1,\"user_quit\":true}''"

text \<open>The body of \<open>persist_user_quit\<close> after the temporary file is open at \<open>c\<close>.\<close>

definition persist_open :: "FileSystem \<Rightarrow> IntegrationPaths \<Rightarrow> Path \<Rightarrow> string list \<Rightarrow> (IntegrationError + unit) \<times> FileSystem" where
  "persist_open fs paths temporary c =
     (case write_file fs c marker_bytes of
        (Inl _, fs) \<Rightarrow> (Inl IntIo, fs)
      | (Inr _, fs) \<Rightarrow>
          (case sync_file fs of
             Inl _ \<Rightarrow> (Inl IntIo, fs)
           | Inr _ \<Rightarrow>
               (case rename_file fs temporary (ip_user_quit paths) of
                  (Inl _, fs) \<Rightarrow> (Inl IntIo, fs)
                | (Inr _, fs) \<Rightarrow> (sync_directory fs (ip_state_dir paths), fs))))"

definition persist_user_quit :: "nat \<Rightarrow> FileSystem \<Rightarrow> IntegrationPaths \<Rightarrow> (IntegrationError + unit) \<times> FileSystem" where
  "persist_user_quit pid fs paths =
     (case ensure_state_directory fs paths of
        (Inl e, fs) \<Rightarrow> (Inl e, fs)
      | (Inr _, fs) \<Rightarrow>
          let temporary = path_join (ip_state_dir paths) (path_new (''user-quit-v1.json.tmp-'' @ show_nat pid)) in
          (case create_new fs temporary RECORD_MODE of
             (Inl _, fs) \<Rightarrow> (Inl IntIo, fs)
           | (Inr c, fs) \<Rightarrow>
               (case persist_open fs paths temporary c of
                  (Inl e, fs) \<Rightarrow> (Inl e, snd (remove_file fs temporary))
                | (Inr u, fs) \<Rightarrow> (Inr u, fs))))"

definition clear_user_quit :: "FileSystem \<Rightarrow> IntegrationPaths \<Rightarrow> (IntegrationError + unit) \<times> FileSystem" where
  "clear_user_quit fs paths =
     (case ensure_state_directory fs paths of
        (Inl e, fs) \<Rightarrow> (Inl e, fs)
      | (Inr _, fs) \<Rightarrow>
          (case lstat fs (ip_user_quit paths) of
             Inl error \<Rightarrow> if error = IoNotFound then (Inr (), fs) else (Inl IntIo, fs)
           | Inr metadata \<Rightarrow>
               (case validate_regular_file fs metadata RECORD_MODE of
                  Inl e \<Rightarrow> (Inl e, fs)
                | Inr _ \<Rightarrow>
                    (case remove_file fs (ip_user_quit paths) of
                       (Inl _, fs) \<Rightarrow> (Inl IntIo, fs)
                     | (Inr _, fs) \<Rightarrow>
                         if is_ok (lstat fs (ip_user_quit paths))
                         then (Inl (IntInvalid ''user quit marker replacement''), fs)
                         else (sync_directory fs (ip_state_dir paths), fs)))))"

section \<open>The integration record\<close>

definition is_single_component :: "string \<Rightarrow> bool" where
  "is_single_component value \<longleftrightarrow>
     value \<noteq> [] \<and> length (path_new value) = 1 \<and>
     (case path_new value of NormalName _ # _ \<Rightarrow> True | _ \<Rightarrow> False)"

definition has_non_normal_component :: "Path \<Rightarrow> bool" where
  "has_non_normal_component path \<longleftrightarrow> list_ex (\<lambda>c. case c of NormalName _ \<Rightarrow> False | _ \<Rightarrow> True) path"

definition validate_capabilities :: "string list \<Rightarrow> string list \<Rightarrow> IntegrationError + unit" where
  "validate_capabilities actual expected = (if actual \<noteq> expected then Inl (IntInvalid ''capability set'') else Inr ())"

definition validate_record_contract :: "IntegrationPaths \<Rightarrow> IntegrationRecord \<Rightarrow> IntegrationError + unit" where
  "validate_record_contract paths r =
     (if ir_schema_version r \<noteq> 1 \<or> ir_protocol_major r \<noteq> PROTOCOL_MAJOR \<or> ir_protocol_minor r \<noteq> PROTOCOL_MINOR \<or>
         ir_minimum_supported_minor r \<noteq> MINIMUM_SUPPORTED_MINOR \<or> ir_stable_app_path r \<noteq> ip_stable_app paths \<or>
         ir_stable_bridge_path r \<noteq> ip_stable_bridge paths \<or> \<not> is_single_component (ir_release_id r) \<or>
         trim (ir_bundle_id r) = [] \<or> trim (ir_app_designated_requirement r) = [] \<or>
         trim (ir_bridge_designated_requirement r) = [] \<or> trim (ir_installed_at r) = [] \<or> trim (ir_updated_at r) = []
      then Inl (IntInvalid ''integration contract'')
      else
        let expected = map capability_text all_capabilities in
        res_bind (validate_capabilities (ir_host_supported_capabilities r) expected) (\<lambda>_.
        res_bind (validate_capabilities (ir_bridge_required_capabilities r) expected) (\<lambda>_.
        res_bind (validate_capabilities (ir_host_required_capabilities r) []) (\<lambda>_.
        res_bind (validate_capabilities (ir_bridge_supported_capabilities r) []) (\<lambda>_.
          if ir_allow_mcp_auto_launch r \<and> (case ir_team_id r of None \<Rightarrow> True | Some team \<Rightarrow> team = [])
          then Inl (IntInvalid ''auto-launch signing identity'') else Inr ())))))"

definition validate_current_release :: "FileSystem \<Rightarrow> IntegrationPaths \<Rightarrow> IntegrationRecord \<Rightarrow> IntegrationError + unit" where
  "validate_current_release fs paths r =
     res_bind (map_err (\<lambda>e. map_missing e ''current release link'') (lstat fs (ip_current_link paths))) (\<lambda>metadata.
       if \<not> is_symlink metadata \<or> nd_uid metadata \<noteq> fs_euid fs
       then Inl (IntInvalid ''current release link'')
       else
         res_bind (map_err (\<lambda>_. IntIo) (read_link fs (ip_current_link paths))) (\<lambda>target.
           let expected = path_join (path_new ''releases'') (path_new (ir_release_id r)) in
           if target \<noteq> expected \<or> is_absolute target \<or> has_non_normal_component target
           then Inl (IntInvalid ''current release target'')
           else
             res_bind (validate_directory fs (path_join (ip_releases_dir paths) (path_new (ir_release_id r)))) (\<lambda>_.
             res_bind (map_err (\<lambda>e. map_missing e ''stable Bridge'') (lstat fs (ip_stable_bridge paths)))
               (validate_executable fs))))"

definition validate_app_path :: "FileSystem \<Rightarrow> IntegrationPaths \<Rightarrow> IntegrationError + unit" where
  "validate_app_path fs paths =
     res_bind (ok_or (IntInvalid ''Applications directory'') (path_parent (ip_stable_app paths))) (\<lambda>parent.
       res_all (\<lambda>(path, label).
         res_bind (map_err (\<lambda>e. map_missing e label) (lstat fs path)) (\<lambda>metadata.
           if is_symlink metadata \<or> \<not> is_dir metadata \<or> nd_uid metadata \<noteq> fs_euid fs
           then Inl (IntInvalid label) else Inr ()))
         [(parent, ''Applications directory''), (ip_stable_app paths, ''stable App'')])"

definition validate_common ::
    "(string \<Rightarrow> IntegrationRecord option) \<Rightarrow> FileSystem \<Rightarrow> IntegrationPaths \<Rightarrow> IntegrationError + IntegrationRecord" where
  "validate_common parse_record fs paths =
     res_bind (res_all (validate_directory fs)
       [ip_root paths, ip_integration_dir paths, ip_mcp_dir paths, ip_releases_dir paths, ip_state_dir paths,
        ip_run_dir paths]) (\<lambda>_.
     res_bind (map_err (\<lambda>e. map_missing e ''integration record'') (lstat fs (ip_record paths))) (\<lambda>metadata.
     res_bind (validate_regular_file fs metadata RECORD_MODE) (\<lambda>_.
     res_bind (map_err (\<lambda>_. IntIo) (fs_read fs (ip_record paths))) (\<lambda>bytes.
     res_bind (ok_or (IntInvalid ''integration record'') (parse_record bytes)) (\<lambda>r.
     res_bind (validate_record_contract paths r) (\<lambda>_.
     res_bind (validate_current_release fs paths r) (\<lambda>_.
     res_bind (validate_app_path fs paths) (\<lambda>_. Inr r))))))))"

definition validate_integration_record_for_bridge ::
    "(string \<Rightarrow> IntegrationRecord option) \<Rightarrow> FileSystem \<Rightarrow> IntegrationPaths \<Rightarrow> Path \<Rightarrow>
     IntegrationError + IntegrationRecord" where
  "validate_integration_record_for_bridge parse_record fs paths current_executable =
     res_bind (validate_common parse_record fs paths) (\<lambda>r.
     res_bind (map_err (\<lambda>_. IntIo) (canonicalize fs (ip_stable_bridge paths))) (\<lambda>resolved_bridge.
     res_bind (map_err (\<lambda>_. IntIo) (canonicalize fs current_executable)) (\<lambda>resolved_current.
       if resolved_bridge \<noteq> resolved_current then Inl (IntInvalid ''running Bridge release'') else Inr r)))"

definition validate_integration_record_for_host ::
    "(string \<Rightarrow> IntegrationRecord option) \<Rightarrow> FileSystem \<Rightarrow> IntegrationPaths \<Rightarrow> Path \<Rightarrow>
     IntegrationError + IntegrationRecord" where
  "validate_integration_record_for_host parse_record fs paths current_app_bundle =
     res_bind (validate_common parse_record fs paths) (\<lambda>r.
     res_bind (map_err (\<lambda>_. IntIo) (canonicalize fs (ip_stable_app paths))) (\<lambda>stable_app.
     res_bind (map_err (\<lambda>_. IntIo) (canonicalize fs current_app_bundle)) (\<lambda>current_app.
       if stable_app \<noteq> current_app then Inl (IntInvalid ''running Desktop App'') else Inr r)))"

text \<open>
  \<open>authorize_mcp_host_launch\<close> looks at the marker, at the record and at the marker again: \<open>fs1\<close>, \<open>fs2\<close> and \<open>fs3\<close> are
  the file system as each look finds it.
\<close>

definition authorize_mcp_host_launch ::
    "(string \<Rightarrow> UserQuitMarker option) \<Rightarrow> (string \<Rightarrow> IntegrationRecord option) \<Rightarrow> FileSystem \<Rightarrow> FileSystem \<Rightarrow> FileSystem \<Rightarrow>
     IntegrationPaths \<Rightarrow> Path \<Rightarrow> IntegrationError + IntegrationRecord" where
  "authorize_mcp_host_launch parse_marker parse_record fs1 fs2 fs3 paths current_app_bundle =
     (if inspect_user_quit parse_marker fs1 paths \<noteq> QuitClear then Inl (IntInvalid ''user quit marker'')
      else
        res_bind (validate_integration_record_for_host parse_record fs2 paths current_app_bundle) (\<lambda>r.
          if \<not> ir_allow_mcp_auto_launch r \<or> inspect_user_quit parse_marker fs3 paths \<noteq> QuitClear
          then Inl (IntInvalid ''MCP auto-launch authorization'') else Inr r))"

end
