(* ===== verification/Mcp_Availability.thy ===== *)
theory Mcp_Availability
  imports Host_Integration Mcp_Bridge
begin

text \<open>
  \<open>availability/state.rs\<close> of the MCP bridge: the bridge connects to the host, or starts it when that is allowed and waits
  for it. What it works on (the connector, the signature verifier, the launcher, the clock and the file system)
  is a record of operations over a state \<open>'s\<close> of the world, which every one of them may change. A \<open>Duration\<close> is
  a number of nanoseconds. The loop may not end, so its result is an option.
\<close>

section \<open>Artifacts\<close>

record ArtifactIdentity =
  ai_device :: "64 word"
  ai_inode :: "64 word"
  ai_owner :: "32 word"
  ai_mode :: "32 word"

record SignatureAuthorization =
  sa_bundle_id :: string
  sa_team_id :: string
  sa_designated_requirement :: string

record VerifiedArtifacts =
  va_stable_app_path :: Path
  va_current_executable :: Path
  va_stable_app_identity :: ArtifactIdentity
  va_current_executable_identity :: ArtifactIdentity
  va_signature_authorization :: "SignatureAuthorization option"

datatype ArtifactKind = ArtifactDirectory | ArtifactRegularFile

text \<open>\<open>AvailabilityActionError\<close> is the unit type.\<close>

definition artifact_identity :: "FileSystem \<Rightarrow> Path \<Rightarrow> ArtifactKind \<Rightarrow> unit + ArtifactIdentity" where
  "artifact_identity fs path expected =
     res_bind (map_err (\<lambda>_. ()) (lstat fs path)) (\<lambda>metadata.
       let mode = nd_mode metadata AND 4095 in
       if is_symlink metadata \<or> nd_uid metadata \<noteq> fs_euid fs \<or>
          (case expected of
             ArtifactDirectory \<Rightarrow> \<not> is_dir metadata
           | ArtifactRegularFile \<Rightarrow> \<not> is_file metadata \<or> mode AND 18 \<noteq> 0 \<or> mode AND 64 = 0)
       then Inl ()
       else Inr \<lparr>ai_device = nd_dev metadata, ai_inode = nd_ino metadata, ai_owner = nd_uid metadata, ai_mode = mode\<rparr>)"

definition artifacts_capture :: "FileSystem \<Rightarrow> IntegrationPaths \<Rightarrow> Path \<Rightarrow> unit + VerifiedArtifacts" where
  "artifacts_capture fs paths current_executable =
     res_bind (artifact_identity fs (ip_stable_app paths) ArtifactDirectory) (\<lambda>stable_app_identity.
     res_bind (artifact_identity fs current_executable ArtifactRegularFile) (\<lambda>current_executable_identity.
       Inr \<lparr>va_stable_app_path = ip_stable_app paths, va_current_executable = current_executable,
            va_stable_app_identity = stable_app_identity, va_current_executable_identity = current_executable_identity,
            va_signature_authorization = None\<rparr>))"

definition artifacts_revalidate :: "FileSystem \<Rightarrow> VerifiedArtifacts \<Rightarrow> unit + unit" where
  "artifacts_revalidate fs v =
     res_bind (artifact_identity fs (va_stable_app_path v) ArtifactDirectory) (\<lambda>stable_app.
       if stable_app \<noteq> va_stable_app_identity v then Inl ()
       else
         res_bind (artifact_identity fs (va_current_executable v) ArtifactRegularFile) (\<lambda>executable.
           if executable \<noteq> va_current_executable_identity v then Inl () else Inr ()))"

definition authorize_app_signature :: "VerifiedArtifacts \<Rightarrow> string \<Rightarrow> string \<Rightarrow> string \<Rightarrow> VerifiedArtifacts" where
  "authorize_app_signature v bundle_id team_id designated_requirement =
     v\<lparr>va_signature_authorization := Some
       \<lparr>sa_bundle_id = bundle_id, sa_team_id = team_id, sa_designated_requirement = designated_requirement\<rparr>\<rparr>"

definition app_signature_authorization :: "VerifiedArtifacts \<Rightarrow> unit + (string \<times> string \<times> string)" where
  "app_signature_authorization v =
     res_bind (ok_or () (va_signature_authorization v)) (\<lambda>a.
       Inr (sa_bundle_id a, sa_team_id a, sa_designated_requirement a))"

section \<open>Waiting for the host\<close>

definition seconds :: "nat \<Rightarrow> nat" where
  "seconds n = n * 1000000000"

definition millis :: "nat \<Rightarrow> nat" where
  "millis n = n * 1000000"

definition DURATION_MAX :: nat where
  "DURATION_MAX = 18446744073709551616 * 1000000000 - 1"

definition MAX_AVAILABILITY_TIMEOUT :: nat where
  "MAX_AVAILABILITY_TIMEOUT = seconds 10"

definition INITIAL_CONNECT_TIMEOUT :: nat where
  "INITIAL_CONNECT_TIMEOUT = millis 500"

record AvailabilityPolicy =
  ap_timeout :: nat
  ap_initial_delay :: nat
  ap_maximum_delay :: nat

definition policy_default :: AvailabilityPolicy where
  "policy_default = \<lparr>ap_timeout = seconds 10, ap_initial_delay = millis 50, ap_maximum_delay = millis 500\<rparr>"

text \<open>
  The traits \<open>HostConnector\<close>, \<open>SignatureVerifier\<close>, \<open>HostLauncher\<close> and \<open>MonotonicClock\<close>, the looks at the marker and the
  record, and the revalidation. \<open>he_coordinate\<close> says whether the launch guard was acquired; \<open>he_release\<close> drops it.
\<close>

record ('s, 'c, 'v) HostEnv =
  he_connect :: "nat \<Rightarrow> 's \<Rightarrow> (McpBridgeError + 'c) \<times> 's"
  he_inspect :: "'s \<Rightarrow> UserQuitInspection \<times> 's"
  he_record :: "'s \<Rightarrow> (IntegrationError + IntegrationRecord) \<times> 's"
  he_coordinate :: "'s \<Rightarrow> (unit + bool) \<times> 's"
  he_verify :: "IntegrationRecord \<Rightarrow> 's \<Rightarrow> (unit + 'v) \<times> 's"
  he_revalidate :: "'v \<Rightarrow> 's \<Rightarrow> (unit + unit) \<times> 's"
  he_launch :: "'v \<Rightarrow> 's \<Rightarrow> (unit + unit) \<times> 's"
  he_release :: "'s \<Rightarrow> 's"
  he_now :: "'s \<Rightarrow> nat \<times> 's"
  he_sleep :: "nat \<Rightarrow> 's \<Rightarrow> 's"

definition host_unavailable :: McpBridgeError where
  "host_unavailable = mcp_error ''host_unavailable''
     ''Next Infra is unavailable. Start it interactively or review MCP integration settings.'' True"

text \<open>The loop of \<open>ensure_host\<close>.\<close>

partial_function (option) await_host ::
    "('s, 'c, 'v) HostEnv \<Rightarrow> nat \<Rightarrow> nat \<Rightarrow> nat \<Rightarrow> 's \<Rightarrow> ((McpBridgeError + 'c) \<times> 's) option" where
  "await_host env deadline maximum delay s =
     (case he_inspect env s of (inspection, s) \<Rightarrow>
      if inspection \<noteq> QuitClear then Some (Inl host_unavailable, s)
      else case he_now env s of (now, s) \<Rightarrow>
      if deadline \<le> now then Some (Inl host_unavailable, s)
      else case he_now env s of (now, s) \<Rightarrow>
      case he_connect env (deadline - now) s of (connected, s) \<Rightarrow>
      case connected of
        Inr client \<Rightarrow>
          (case he_inspect env s of (inspection, s) \<Rightarrow>
           if inspection \<noteq> QuitClear then Some (Inl host_unavailable, s)
           else case he_now env s of (now, s) \<Rightarrow>
           if deadline \<le> now then Some (Inl host_unavailable, s) else Some (Inr client, s))
      | Inl _ \<Rightarrow>
          (case he_now env s of (now, s) \<Rightarrow>
           if deadline \<le> now then Some (Inl host_unavailable, s)
           else await_host env deadline maximum (min (min (delay * 2) DURATION_MAX) maximum)
             (he_sleep env (min delay (deadline - now)) s)))"

text \<open>From the deadline on: the guard, if there is one, is held.\<close>

definition await_deadline ::
    "('s, 'c, 'v) HostEnv \<Rightarrow> AvailabilityPolicy \<Rightarrow> nat \<Rightarrow> 's \<Rightarrow> ((McpBridgeError + 'c) \<times> 's) option" where
  "await_deadline env policy timeout s =
     (case he_now env s of (now, s) \<Rightarrow>
      if DURATION_MAX < now + timeout then Some (Inl host_unavailable, s)
      else await_host env (now + timeout) (ap_maximum_delay policy)
        (min (ap_initial_delay policy) (ap_maximum_delay policy)) s)"

text \<open>The launch, under the guard.\<close>

definition launch_host :: "('s, 'c, 'v) HostEnv \<Rightarrow> IntegrationRecord \<Rightarrow> 's \<Rightarrow> (McpBridgeError + unit) \<times> 's" where
  "launch_host env r s =
     (case he_verify env r s of
        (Inl _, s) \<Rightarrow> (Inl host_unavailable, s)
      | (Inr verified, s) \<Rightarrow>
          (case he_inspect env s of (inspection, s) \<Rightarrow>
           if inspection \<noteq> QuitClear then (Inl host_unavailable, s)
           else
             (case he_revalidate env verified s of
                (Inl _, s) \<Rightarrow> (Inl host_unavailable, s)
              | (Inr _, s) \<Rightarrow>
                  (case he_launch env verified s of
                     (Inl _, s) \<Rightarrow> (Inl host_unavailable, s)
                   | (Inr _, s) \<Rightarrow> (Inr (), s)))))"

definition ensure_host ::
    "('s, 'c, 'v) HostEnv \<Rightarrow> AvailabilityPolicy \<Rightarrow> 's \<Rightarrow> ((McpBridgeError + 'c) \<times> 's) option" where
  "ensure_host env policy s =
     (let timeout = min (ap_timeout policy) MAX_AVAILABILITY_TIMEOUT in
      if timeout = 0 \<or> ap_initial_delay policy = 0 \<or> ap_maximum_delay policy = 0
      then Some (Inl host_unavailable, s)
      else case he_connect env (min timeout INITIAL_CONNECT_TIMEOUT) s of
        (Inr client, s) \<Rightarrow> Some (Inr client, s)
      | (Inl _, s) \<Rightarrow>
          (case he_inspect env s of (inspection, s) \<Rightarrow>
           if inspection \<noteq> QuitClear then Some (Inl host_unavailable, s)
           else case he_record env s of
             (Inl _, s) \<Rightarrow> Some (Inl host_unavailable, s)
           | (Inr r, s) \<Rightarrow>
               if \<not> ir_allow_mcp_auto_launch r then Some (Inl host_unavailable, s)
               else case he_coordinate env s of
                 (Inl _, s) \<Rightarrow> Some (Inl host_unavailable, s)
               | (Inr False, s) \<Rightarrow> await_deadline env policy timeout s
               | (Inr True, s) \<Rightarrow>
                   (case launch_host env r s of
                      (Inl e, s) \<Rightarrow> Some (Inl e, he_release env s)
                    | (Inr _, s) \<Rightarrow>
                        map_option (\<lambda>(result, s). (result, he_release env s)) (await_deadline env policy timeout s))))"

end
