(* ===== verification/Host_Facts.thy ===== *)
theory Host_Facts
  imports Host_Integration
begin

text \<open>
  What the marker of a quit and the integration record guarantee: the marker is there after it is persisted and gone
  after it is cleared, and a bridge or a host that is accepted is the installed one.
\<close>

lemma path_new_names [simp]:
  "path_new ''Library'' = [NormalName ''Library'']"
  "path_new ''Application Support'' = [NormalName ''Application Support'']"
  "path_new ''Next Infra'' = [NormalName ''Next Infra'']"
  "path_new ''integration'' = [NormalName ''integration'']"
  "path_new ''mcp'' = [NormalName ''mcp'']"
  "path_new ''current'' = [NormalName ''current'']"
  "path_new ''state'' = [NormalName ''state'']"
  "path_new ''user-quit-v1.json'' = [NormalName ''user-quit-v1.json'']"
  "path_new ''releases'' = [NormalName ''releases'']"
  "path_new ''integration-v1.json'' = [NormalName ''integration-v1.json'']"
  "path_new ''run'' = [NormalName ''run'']"
  "path_new ''mcp-launch-v1.lock'' = [NormalName ''mcp-launch-v1.lock'']"
  "path_new ''Applications'' = [NormalName ''Applications'']"
  "path_new ''Next Infra.app'' = [NormalName ''Next Infra.app'']"
  "path_new ''next-infra-mcp'' = [NormalName ''next-infra-mcp'']"
  by code_simp+

lemma join_name [simp]: "path_join p [NormalName x] = p @ [NormalName x]"
  by (simp add: path_join_def is_absolute_def)

lemma paths_simps:
  "ip_mcp_dir (paths_from_home home) =
     home @ map NormalName [''Library'', ''Application Support'', ''Next Infra'', ''integration'', ''mcp'']"
  "ip_state_dir (paths_from_home home) =
     home @ map NormalName [''Library'', ''Application Support'', ''Next Infra'', ''state'']"
  "ip_user_quit (paths_from_home home) = ip_state_dir (paths_from_home home) @ [NormalName ''user-quit-v1.json'']"
  "ip_current_link (paths_from_home home) = ip_mcp_dir (paths_from_home home) @ [NormalName ''current'']"
  "ip_releases_dir (paths_from_home home) = ip_mcp_dir (paths_from_home home) @ [NormalName ''releases'']"
  "ip_stable_bridge (paths_from_home home) = ip_current_link (paths_from_home home) @ [NormalName ''next-infra-mcp'']"
  by (simp_all add: paths_from_home_def Let_def)

lemma base_append: "p \<noteq> [] \<Longrightarrow> base fs (p @ q) = base fs p"
  by (cases p; cases "hd p") (auto simp: base_def is_absolute_def)

section \<open>Entries and what is found at them\<close>

text \<open>The location of a directory on the way to an entry, with the links that are left.\<close>

definition dir_at :: "FileSystem \<Rightarrow> Path \<Rightarrow> IoError + nat \<times> string list" where
  "dir_at fs p = walk fs True (fs_max_links fs) (base fs p) p"

lemma entry_iff:
  assumes "p \<noteq> []"
  shows "entry fs (p @ [NormalName x]) = Inr c \<longleftrightarrow> (\<exists>m d. dir_at fs p = Inr (m, d) \<and> searchable fs d \<and> c = d @ [x])"
  using assms by (auto simp: entry_def dir_at_def path_name_def base_append res_simps split: if_splits)


lemma lstat_entry:
  assumes "p \<noteq> []"
  shows "lstat fs (p @ [NormalName x]) =
     (case dir_at fs p of
        Inl e \<Rightarrow> Inl e
      | Inr (m, d) \<Rightarrow> if searchable fs d then ok_or IoNotFound (fs_nodes fs (d @ [x])) else Inl IoOther)"
proof (cases "dir_at fs p")
  case (Inl e)
  with assms show ?thesis by (simp add: lstat_def resolve_def dir_at_def walk_append base_append)
next
  case (Inr a)
  obtain m d where "a = (m, d)" by (cases a)
  with assms Inr show ?thesis
    by (auto simp: lstat_def resolve_def dir_at_def walk_append base_append found_at_def
        split: option.splits NodeKind.splits)
qed

lemma canonicalize_entry:
  assumes "p \<noteq> []" and "dir_at fs p = Inr (m, d)" and "searchable fs d" and "fs_nodes fs (d @ [x]) = Some n"
    and "\<not> is_symlink n"
  shows "canonicalize fs (p @ [NormalName x]) = Inr (d @ [x])"
    and "dir_at fs (p @ [NormalName x]) = Inr (m, d @ [x])"
  using assms
  by (auto simp: canonicalize_def resolve_def dir_at_def walk_append base_append found_at_def kind_simps
      split: NodeKind.splits)

lemma validate_directory_iff:
  "validate_directory fs p = Inr u \<longleftrightarrow>
     (\<exists>n. lstat fs p = Inr n \<and> is_dir n \<and> nd_uid n = fs_euid fs \<and> nd_mode n AND 4095 = DIRECTORY_MODE)"
  by (auto simp: validate_directory_def res_simps is_dir_def is_symlink_def)

text \<open>A validated directory is where its path leads.\<close>

lemma lstat_dir_at:
  assumes "lstat fs p = Inr n" and "\<not> is_symlink n"
  shows "\<exists>m d. dir_at fs p = Inr (m, d) \<and> fs_nodes fs d = Some n"
proof -
  from assms(1) obtain m d where "walk fs False (fs_max_links fs) (base fs p) p = Inr (m, d)" "fs_nodes fs d = Some n"
    by (auto simp: lstat_def resolve_def found_at_def res_simps split: if_splits)
  with walk_no_link[OF this assms(2)] show ?thesis by (auto simp: dir_at_def)
qed

section \<open>The marker\<close>

text \<open>Nothing but the absence of the marker clears it: whatever else is found there means that the user has quit.\<close>

lemma inspect_clear_iff:
  "inspect_user_quit parse fs paths = QuitClear \<longleftrightarrow> lstat fs (ip_user_quit paths) = Inl IoNotFound"
  by (auto simp: inspect_user_quit_def split: sum.splits if_splits option.splits)

lemma ensure_owner_directory_ok:
  assumes "ensure_owner_directory fs p = (Inr (), fs')"
  shows "validate_directory fs' p = Inr ()"
  using assms by (auto simp: ensure_owner_directory_def split: sum.splits if_splits prod.splits)

lemma ensure_state_directory_ok:
  assumes "ensure_state_directory fs paths = (Inr (), fs')"
  shows "validate_directory fs' (ip_state_dir paths) = Inr ()"
  using assms ensure_owner_directory_ok by (auto simp: ensure_state_directory_def split: sum.splits prod.splits)

lemma create_new_ok:
  assumes "create_new fs p mode = (Inr c, fs')"
  shows "entry fs p = Inr c" and "fs_nodes fs c = None" and "ways_kept fs fs'" and "file_at fs' c"
  using assms
  by (auto simp: create_new_def ways_kept_def set_node_def file_at_def new_node_def is_file_def split: sum.splits if_splits)

lemma write_file_effect:
  assumes "write_file fs c bytes = (r, fs')" and "file_at fs c"
  shows "ways_kept fs fs'" and "file_at fs' c"
  using assms
  by (auto simp: write_file_def ways_kept_def set_node_def file_at_def is_file_def split: option.splits if_splits)


lemma path_new_plain:
  "CHR 0x2F \<notin> set s \<Longrightarrow> s \<noteq> [] \<Longrightarrow> s \<noteq> ''.'' \<Longrightarrow> s \<noteq> ''..'' \<Longrightarrow> path_new s = [NormalName s]"
  by (cases s) (auto simp: path_new_def split_byte_id Let_def)

lemma temporary_path:
  "path_new (''user-quit-v1.json.tmp-'' @ show_nat pid) = [NormalName (''user-quit-v1.json.tmp-'' @ show_nat pid)]"
proof (rule path_new_plain)
  have "CHR 0x2F \<notin> set (show_nat pid)"
    using show_nat_digits[of "CHR 0x2F" pid] by (auto simp: is_ascii_digit_def byte_def)
  then show "CHR 0x2F \<notin> set (''user-quit-v1.json.tmp-'' @ show_nat pid)" by auto
qed simp_all

lemma base_same: "fs_cwd fs' = fs_cwd fs \<Longrightarrow> base fs' p = base fs p"
  by (simp add: base_def)

lemma dir_at_kept:
  assumes "ways_kept fs fs'" and "fs_max_links fs' = fs_max_links fs" and "fs_cwd fs' = fs_cwd fs"
    and "dir_at fs p = Inr (m, d)" and "node_dir fs d"
  shows "dir_at fs' p = Inr (m, d)"
  using walk_kept[OF assms(1) assms(4)[unfolded dir_at_def] assms(5)] assms(2) by (simp add: dir_at_def base_same[OF assms(3)])

lemma set_node_simps [simp]:
  "fs_nodes (set_node c n fs) = (fs_nodes fs)(c := n)" "fs_denied (set_node c n fs) = fs_denied fs"
  "fs_max_links (set_node c n fs) = fs_max_links fs" "fs_cwd (set_node c n fs) = fs_cwd fs"
  "fs_euid (set_node c n fs) = fs_euid fs" "fs_fault (set_node c n fs) = fs_fault fs"
  by (simp_all add: set_node_def)

lemma create_write_frame:
  "create_new fs p mode = (r, fs') \<Longrightarrow> fs_max_links fs' = fs_max_links fs \<and> fs_cwd fs' = fs_cwd fs"
  "write_file fs c bytes = (w, fs') \<Longrightarrow> fs_max_links fs' = fs_max_links fs \<and> fs_cwd fs' = fs_cwd fs"
  by (auto simp: create_new_def write_file_def split: sum.splits if_splits option.splits)

text \<open>A file that is renamed to an entry is found there, or the way to the entry is obstructed; it is never missing.\<close>

lemma renamed_not_missing:
  assumes "rename_file fs p (q @ [NormalName x]) = (Inr (), fs')" and "q \<noteq> []"
    and "entry fs p = Inr c" and "file_at fs c"
  shows "lstat fs' (q @ [NormalName x]) \<noteq> Inl IoNotFound"
proof -
  obtain m d n where d: "dir_at fs q = Inr (m, d)" "searchable fs d" and n: "fs_nodes fs c = Some n"
    and fs': "fs' = set_node (d @ [x]) (Some n) (set_node c None fs)"
    using assms by (auto simp: rename_file_def entry_iff split: sum.splits option.splits if_splits)
  have "is_file n" using assms(4) n by (simp add: file_at_def)
  then have "filed fs fs'" using n assms(4) by (auto simp: filed_def fs' file_at_def)
  moreover have "node_dir fs d" using d(2) by (simp add: searchable_def)
  ultimately have "dir_at fs' q = Inr (m, d) \<or> dir_at fs' q = Inl IoOther \<or>
      (\<exists>k e. dir_at fs' q = Inr (k, e) \<and> file_at fs' e)"
    using walk_filed[OF _ d(1)[unfolded dir_at_def]] base_same[of fs' fs q] by (simp add: dir_at_def fs')
  then show ?thesis
    using assms(2) file_not_dir by (auto simp: lstat_entry searchable_def fs' split: if_splits)
qed

lemma persist_open_ok:
  assumes "persist_open fs paths (p @ [NormalName y]) c = (Inr (), fs')" and "p \<noteq> []"
    and "ip_user_quit paths = q @ [NormalName x]" and "q \<noteq> []"
    and "entry fs (p @ [NormalName y]) = Inr c" and "file_at fs c"
  shows "lstat fs' (ip_user_quit paths) \<noteq> Inl IoNotFound"
proof -
  obtain g where g: "write_file fs c marker_bytes = (Inr (), g)"
      "rename_file g (p @ [NormalName y]) (ip_user_quit paths) = (Inr (), fs')"
    using assms(1) by (auto simp: persist_open_def split: sum.splits prod.splits)
  note g' = write_file_effect[OF g(1) assms(6)] create_write_frame(2)[OF g(1)]
  obtain m d where d: "dir_at fs p = Inr (m, d)" "searchable fs d" "c = d @ [y]"
    using assms(2,5) by (auto simp: entry_iff)
  then have "node_dir fs d" by (simp add: searchable_def)
  then have "entry g (p @ [NormalName y]) = Inr c"
    using dir_at_kept[OF g'(1) _ _ d(1)] g'(3) ways_kept_searchable[OF g'(1) d(2)] d(3) assms(2) by (simp add: entry_iff)
  with renamed_not_missing g g'(2) assms(3,4) show ?thesis by simp
qed

lemma persist_sets_marker:
  assumes "persist_user_quit pid fs (paths_from_home home) = (Inr (), fs')"
  shows "inspect_user_quit parse fs' (paths_from_home home) = QuitSuppressed"
proof -
  let ?paths = "paths_from_home home" and ?t = "''user-quit-v1.json.tmp-'' @ show_nat pid"
  let ?s = "ip_state_dir (paths_from_home home)"
  have ne: "?s \<noteq> []" by (simp add: paths_simps)
  have tmp: "path_join ?s (path_new ?t) = ?s @ [NormalName ?t]"
    unfolding temporary_path by (rule join_name)
  obtain g c h where g: "ensure_state_directory fs ?paths = (Inr (), g)"
      "create_new g (?s @ [NormalName ?t]) RECORD_MODE = (Inr c, h)"
      "persist_open h ?paths (?s @ [NormalName ?t]) c = (Inr (), fs')"
    using assms unfolding persist_user_quit_def tmp Let_def by (auto split: sum.splits prod.splits)
  note h = create_new_ok[OF g(2)] create_write_frame(1)[OF g(2)]
  obtain m d where d: "dir_at g ?s = Inr (m, d)" "searchable g d" "c = d @ [?t]"
    using h(1) ne by (auto simp: entry_iff)
  then have "node_dir g d" by (simp add: searchable_def)
  then have "entry h (?s @ [NormalName ?t]) = Inr c"
    using dir_at_kept[OF h(3) _ _ d(1)] h(5) ways_kept_searchable[OF h(3) d(2)] d(3) ne by (simp add: entry_iff)
  from persist_open_ok[OF g(3) ne paths_simps(3) ne this h(4)] show ?thesis
    using inspect_clear_iff by (cases "inspect_user_quit parse fs' ?paths") auto
qed

lemma remove_file_kept:
  assumes "remove_file fs (q @ [NormalName x]) = (Inr (), fs')" and "q \<noteq> []"
    and "lstat fs (q @ [NormalName x]) = Inr n" and "is_file n"
  shows "lstat fs' (q @ [NormalName x]) = Inl IoNotFound"
proof -
  obtain m d where d: "dir_at fs q = Inr (m, d)" "searchable fs d" and fs': "fs' = set_node (d @ [x]) None fs"
    using assms(1,2) by (auto simp: remove_file_def entry_iff split: sum.splits option.splits if_splits)
  then have n: "fs_nodes fs (d @ [x]) = Some n" using assms(2,3) by (simp add: lstat_entry res_simps)
  then have kept: "ways_kept fs fs'" using assms(4) by (auto simp: ways_kept_def fs' file_at_def)
  have "node_dir fs d" using d(2) by (simp add: searchable_def)
  from dir_at_kept[OF kept _ _ d(1) this] ways_kept_searchable[OF kept d(2)] show ?thesis
    using assms(2) by (simp add: lstat_entry fs')
qed

lemma clear_removes_marker:
  assumes "clear_user_quit fs (paths_from_home home) = (Inr (), fs')"
  shows "inspect_user_quit parse fs' (paths_from_home home) = QuitClear"
proof -
  let ?paths = "paths_from_home home"
  obtain g where g: "ensure_state_directory fs ?paths = (Inr (), g)"
    using assms by (auto simp: clear_user_quit_def split: sum.splits prod.splits)
  show ?thesis
  proof (cases "lstat g (ip_user_quit ?paths)")
    case (Inl e)
    with assms g show ?thesis by (auto simp: clear_user_quit_def inspect_clear_iff split: if_splits)
  next
    case (Inr n)
    with assms g have "is_file n" "remove_file g (ip_user_quit ?paths) = (Inr (), fs')"
      by (auto simp: clear_user_quit_def validate_regular_file_def split: sum.splits prod.splits if_splits)
    with Inr have "lstat fs' (ip_user_quit ?paths) = Inl IoNotFound"
      unfolding paths_simps(3) by (intro remove_file_kept[where n = n]) (simp_all add: paths_simps)
    then show ?thesis by (simp add: inspect_clear_iff)
  qed
qed

text \<open>
  The marker of a quit: when it was persisted, every later look finds that the user has quit, and when it was cleared,
  a look finds it clear; in a file system of any shape, links on the way to the state directory included.
\<close>

theorem quit_marker_settled:
  "(fst (persist_user_quit pid fs (paths_from_home home)) = Inr () \<longrightarrow>
      inspect_user_quit parse (snd (persist_user_quit pid fs (paths_from_home home))) (paths_from_home home) =
        QuitSuppressed) \<and>
   (fst (clear_user_quit fs (paths_from_home home)) = Inr () \<longrightarrow>
      inspect_user_quit parse (snd (clear_user_quit fs (paths_from_home home))) (paths_from_home home) = QuitClear)"
  by (intro conjI impI persist_sets_marker clear_removes_marker)
    (simp_all add: prod_eq_iff)

definition sample_fs :: FileSystem where
  "sample_fs =
     \<lparr>fs_nodes = (\<lambda>_. None)(
        [] := Some \<lparr>nd_kind = DirNode, nd_uid = 501, nd_mode = 493, nd_dev = 1, nd_ino = 1\<rparr>,
        [''u''] := Some \<lparr>nd_kind = DirNode, nd_uid = 501, nd_mode = 493, nd_dev = 1, nd_ino = 2\<rparr>),
      fs_cwd = [], fs_max_links = 32, fs_denied = (\<lambda>_. False), fs_fault = (\<lambda>_. False), fs_partial = 0, fs_euid = 501,
      fs_umask = 18, fs_dev = 1, fs_next_ino = 3\<rparr>"

definition sample_home :: Path where
  "sample_home = [RootDir, NormalName ''u'']"

theorem quit_marker_settled_witness:
  "(let (r, fs) = persist_user_quit 7 sample_fs (paths_from_home sample_home);
        (q, fs') = clear_user_quit fs (paths_from_home sample_home) in
    r = Inr () \<and> q = Inr () \<and>
    inspect_user_quit parse fs (paths_from_home sample_home) = QuitSuppressed \<and>
    inspect_user_quit parse fs' (paths_from_home sample_home) = QuitClear)"
proof -
  have "(let (r, fs) = persist_user_quit 7 sample_fs (paths_from_home sample_home);
      (q, fs') = clear_user_quit fs (paths_from_home sample_home) in r = Inr () \<and> q = Inr ())"
    by code_simp
  then show ?thesis
    using quit_marker_settled[of 7 sample_fs sample_home parse]
      quit_marker_settled[of 7 "snd (persist_user_quit 7 sample_fs (paths_from_home sample_home))" sample_home parse]
    by (auto simp: Let_def split: prod.splits)
qed

section \<open>The installed release\<close>

lemma single_component: "is_single_component value \<Longrightarrow> \<exists>n. path_new value = [NormalName n]"
  by (auto simp: is_single_component_def length_Suc_conv split: Component.splits list.splits)

definition owned_directory :: "FileSystem \<Rightarrow> string list \<Rightarrow> bool" where
  "owned_directory fs c \<longleftrightarrow>
     (\<exists>n. fs_nodes fs c = Some n \<and> is_dir n \<and> nd_uid n = fs_euid fs \<and> nd_mode n AND 4095 = DIRECTORY_MODE)"

definition owned_executable :: "FileSystem \<Rightarrow> string list \<Rightarrow> bool" where
  "owned_executable fs c \<longleftrightarrow>
     (\<exists>n. fs_nodes fs c = Some n \<and> is_file n \<and> nd_uid n = fs_euid fs \<and> (nd_mode n AND 4095) AND 18 = 0 \<and>
          (nd_mode n AND 4095) AND 64 \<noteq> 0)"

lemma validate_directory_at:
  assumes "validate_directory fs p = Inr ()"
  shows "\<exists>m d. dir_at fs p = Inr (m, d) \<and> owned_directory fs d"
proof -
  obtain n where n: "lstat fs p = Inr n" "is_dir n" "nd_uid n = fs_euid fs" "nd_mode n AND 4095 = DIRECTORY_MODE"
    using assms by (auto simp: validate_directory_iff)
  then have "\<not> is_symlink n" by (auto simp: is_dir_def is_symlink_def)
  from lstat_dir_at[OF n(1) this] n show ?thesis by (auto simp: owned_directory_def)
qed

lemma validate_common_facts:
  assumes "validate_common parse fs paths = Inr r"
  shows "validate_record_contract paths r = Inr ()" and "validate_directory fs (ip_mcp_dir paths) = Inr ()"
    and "validate_directory fs (ip_releases_dir paths) = Inr ()" and "validate_current_release fs paths r = Inr ()"
    and "\<exists>bytes. fs_read fs (ip_record paths) = Inr bytes \<and> parse bytes = Some r"
  using assms by (auto simp: validate_common_def res_simps)

lemma current_release_facts:
  assumes "validate_current_release fs paths r = Inr ()" and "path_new (ir_release_id r) = [NormalName name]"
  shows "\<exists>l. lstat fs (ip_current_link paths) = Inr l \<and>
      nd_kind l = LinkNode [NormalName ''releases'', NormalName name]"
    and "validate_directory fs (ip_releases_dir paths @ [NormalName name]) = Inr ()"
    and "\<exists>n. lstat fs (ip_stable_bridge paths) = Inr n \<and> validate_executable fs n = Inr ()"
proof -
  obtain l where "lstat fs (ip_current_link paths) = Inr l" "is_symlink l"
    using assms(1) by (auto simp: validate_current_release_def res_simps split: if_splits)
  with assms show "\<exists>l. lstat fs (ip_current_link paths) = Inr l \<and>
      nd_kind l = LinkNode [NormalName ''releases'', NormalName name]"
    and "validate_directory fs (ip_releases_dir paths @ [NormalName name]) = Inr ()"
    and "\<exists>n. lstat fs (ip_stable_bridge paths) = Inr n \<and> validate_executable fs n = Inr ()"
    by (auto simp: validate_current_release_def read_link_def res_simps is_symlink_def Let_def
        split: if_splits NodeKind.splits)
qed

lemma contract_release:
  "validate_record_contract paths r = Inr () \<Longrightarrow> is_single_component (ir_release_id r)"
  by (auto simp: validate_record_contract_def split: if_splits)

lemma node_dir_owned: "owned_directory fs c \<Longrightarrow> node_dir fs c"
  by (auto simp: owned_directory_def node_dir_def)

text \<open>Where the link to the current release leads.\<close>

lemma bridge_location:
  assumes "validate_common parse fs (paths_from_home home) = Inr r"
  shows "\<exists>m d name. dir_at fs (ip_mcp_dir (paths_from_home home)) = Inr (m, d) \<and>
     path_new (ir_release_id r) = [NormalName name] \<and>
     canonicalize fs (ip_stable_bridge (paths_from_home home)) = Inr (d @ [''releases'', name, ''next-infra-mcp'']) \<and>
     owned_directory fs d \<and> owned_directory fs (d @ [''releases'']) \<and> owned_directory fs (d @ [''releases'', name]) \<and>
     owned_executable fs (d @ [''releases'', name, ''next-infra-mcp''])"
proof -
  let ?paths = "paths_from_home home" and ?mcp = "ip_mcp_dir (paths_from_home home)"
  have ne: "?mcp \<noteq> []" by (simp add: paths_simps)
  note facts = validate_common_facts[OF assms]
  obtain name where name: "path_new (ir_release_id r) = [NormalName name]"
    using single_component[OF contract_release[OF facts(1)]] by blast
  note release = current_release_facts[OF facts(4) name]
  obtain m d where d: "dir_at fs ?mcp = Inr (m, d)" "owned_directory fs d"
    using validate_directory_at[OF facts(2)] by blast
  obtain l where l: "lstat fs (?mcp @ [NormalName ''current'']) = Inr l"
      "nd_kind l = LinkNode [NormalName ''releases'', NormalName name]"
    using release(1) by (auto simp: paths_simps(4))
  have s: "searchable fs d" and link: "fs_nodes fs (d @ [''current'']) = Some l"
    using l(1) d(1) ne by (auto simp: lstat_entry res_simps split: if_splits)
  obtain n where n: "lstat fs (?mcp @ [NormalName ''releases'']) = Inr n" "is_dir n" "\<not> is_symlink n"
    using facts(3) by (auto simp: paths_simps(5) validate_directory_iff is_dir_def is_symlink_def)
  then have rel: "fs_nodes fs (d @ [''releases'']) = Some n"
    using d(1) ne s by (simp add: lstat_entry res_simps)
  note rel' = canonicalize_entry(2)[OF ne d(1) s rel n(3)]
  obtain k where k: "lstat fs ((?mcp @ [NormalName ''releases'']) @ [NormalName name]) = Inr k" "is_dir k" "\<not> is_symlink k"
    using release(2) by (auto simp: paths_simps(5) validate_directory_iff is_dir_def is_symlink_def)
  then have s': "searchable fs (d @ [''releases''])" and rid: "fs_nodes fs (d @ [''releases'', name]) = Some k"
    using rel' by (subst (asm) lstat_entry, auto simp: res_simps split: if_splits)+
  have dir: "owned_directory fs (d @ [''releases''])" "owned_directory fs (d @ [''releases'', name])"
    using facts(3) release(2) rel rid n k by (auto simp: validate_directory_iff owned_directory_def paths_simps(5))
  obtain b where b: "lstat fs (ip_current_link ?paths @ [NormalName ''next-infra-mcp'']) = Inr b"
      "validate_executable fs b = Inr ()"
    using release(3) by (auto simp: paths_simps(6))
  have ne': "ip_current_link ?paths \<noteq> []" by (simp add: paths_simps(4))
  from b(1) obtain m' d' where at: "dir_at fs (ip_current_link ?paths) = Inr (m', d')"
    unfolding lstat_entry[OF ne'] by (auto split: sum.splits prod.splits)
  then have "d' = d @ [''releases'', name]"
    using d(1) s link l(2) s' rel rid n k ne
    by (auto simp: paths_simps(4) dir_at_def walk_append base_append is_dir_def split: nat.splits)
  note at = at[unfolded this]
  have bridge: "searchable fs (d @ [''releases'', name])"
      "fs_nodes fs (d @ [''releases'', name, ''next-infra-mcp'']) = Some b"
    using b(1) at unfolding lstat_entry[OF ne'] by (auto simp: res_simps split: if_splits)
  have exec: "owned_executable fs (d @ [''releases'', name, ''next-infra-mcp''])" and "\<not> is_symlink b"
    using b(2) bridge(2) by (auto simp: validate_executable_def owned_executable_def Let_def split: if_splits)
  then have "canonicalize fs (ip_stable_bridge ?paths) = Inr (d @ [''releases'', name, ''next-infra-mcp''])"
    using canonicalize_entry(1)[OF ne' at bridge(1), of "''next-infra-mcp''" b] bridge(2)
    by (simp add: paths_simps(6))
  with d name dir exec show ?thesis by blast
qed

lemma authorized_facts:
  assumes "authorize_mcp_host_launch parse_marker parse fs1 fs fs3 paths app = Inr r"
  shows "canonicalize fs app = canonicalize fs (ip_stable_app paths)" and "ir_allow_mcp_auto_launch r"
    and "\<exists>team. ir_team_id r = Some team \<and> team \<noteq> []"
    and "lstat fs1 (ip_user_quit paths) = Inl IoNotFound" and "lstat fs3 (ip_user_quit paths) = Inl IoNotFound"
proof -
  have ok: "inspect_user_quit parse_marker fs1 paths = QuitClear" "inspect_user_quit parse_marker fs3 paths = QuitClear"
      "ir_allow_mcp_auto_launch r" "validate_integration_record_for_host parse fs paths app = Inr r"
    using assms by (auto simp: authorize_mcp_host_launch_def res_simps split: if_splits)
  then have "validate_common parse fs paths = Inr r"
    by (auto simp: validate_integration_record_for_host_def res_simps split: if_splits)
  from validate_common_facts(1)[OF this] ok(3) show "\<exists>team. ir_team_id r = Some team \<and> team \<noteq> []"
    by (auto simp: validate_record_contract_def res_simps Let_def split: if_splits option.splits)
  from ok show "canonicalize fs app = canonicalize fs (ip_stable_app paths)"
    by (auto simp: validate_integration_record_for_host_def res_simps split: if_splits)
  from ok show "ir_allow_mcp_auto_launch r" "lstat fs1 (ip_user_quit paths) = Inl IoNotFound"
    "lstat fs3 (ip_user_quit paths) = Inl IoNotFound"
    by (simp_all add: inspect_clear_iff)
qed

text \<open>
  C10. A bridge that is accepted is the executable of the recorded release: the canonical path of the running executable
  lies in the directory of the release, whose directories and executable are owned and closed to writes of others,
  and the record keeps the contract. A launch that is authorized is one of the installed app, with the auto-launch
  allowed and signed by a team, and no marker of a quit at either look.
\<close>

theorem accepted_is_installed:
  "(validate_integration_record_for_bridge parse fs (paths_from_home home) exe = Inr r \<longrightarrow>
      (\<exists>m d name. dir_at fs (ip_mcp_dir (paths_from_home home)) = Inr (m, d) \<and>
         path_new (ir_release_id r) = [NormalName name] \<and>
         canonicalize fs exe = Inr (d @ [''releases'', name, ''next-infra-mcp'']) \<and>
         owned_directory fs d \<and> owned_directory fs (d @ [''releases'']) \<and>
         owned_directory fs (d @ [''releases'', name]) \<and>
         owned_executable fs (d @ [''releases'', name, ''next-infra-mcp''])) \<and>
      validate_record_contract (paths_from_home home) r = Inr ()) \<and>
   (authorize_mcp_host_launch parse_marker parse fs1 fs fs3 (paths_from_home home) app = Inr r \<longrightarrow>
      canonicalize fs app = canonicalize fs (ip_stable_app (paths_from_home home)) \<and>
      ir_allow_mcp_auto_launch r \<and> (\<exists>team. ir_team_id r = Some team \<and> team \<noteq> []) \<and>
      lstat fs1 (ip_user_quit (paths_from_home home)) = Inl IoNotFound \<and>
      lstat fs3 (ip_user_quit (paths_from_home home)) = Inl IoNotFound)"
proof (intro conjI impI)
  assume "validate_integration_record_for_bridge parse fs (paths_from_home home) exe = Inr r"
  then have common: "validate_common parse fs (paths_from_home home) = Inr r"
    and "canonicalize fs exe = canonicalize fs (ip_stable_bridge (paths_from_home home))"
    by (auto simp: validate_integration_record_for_bridge_def res_simps split: if_splits)
  with bridge_location[OF common] validate_common_facts(1)[OF common] show "\<exists>m d name.
      dir_at fs (ip_mcp_dir (paths_from_home home)) = Inr (m, d) \<and> path_new (ir_release_id r) = [NormalName name] \<and>
      canonicalize fs exe = Inr (d @ [''releases'', name, ''next-infra-mcp'']) \<and>
      owned_directory fs d \<and> owned_directory fs (d @ [''releases'']) \<and> owned_directory fs (d @ [''releases'', name]) \<and>
      owned_executable fs (d @ [''releases'', name, ''next-infra-mcp''])"
    and "validate_record_contract (paths_from_home home) r = Inr ()"
    by auto
next
  assume "authorize_mcp_host_launch parse_marker parse fs1 fs fs3 (paths_from_home home) app = Inr r"
  from authorized_facts[OF this]
  show "canonicalize fs app = canonicalize fs (ip_stable_app (paths_from_home home))"
    "ir_allow_mcp_auto_launch r" "\<exists>team. ir_team_id r = Some team \<and> team \<noteq> []"
    "lstat fs1 (ip_user_quit (paths_from_home home)) = Inl IoNotFound"
    "lstat fs3 (ip_user_quit (paths_from_home home)) = Inl IoNotFound" by blast+
qed

fun add_nodes :: "(string list \<times> NodeKind \<times> 32 word) list \<Rightarrow> FileSystem \<Rightarrow> FileSystem" where
  "add_nodes [] fs = fs"
| "add_nodes ((c, kind, mode) # ns) fs =
     add_nodes ns (set_node c (Some \<lparr>nd_kind = kind, nd_uid = 501, nd_mode = mode, nd_dev = 1, nd_ino = 9\<rparr>) fs)"

definition sample_root :: "string list" where
  "sample_root = [''u'', ''Library'', ''Application Support'', ''Next Infra'']"

definition sample_installed :: FileSystem where
  "sample_installed = add_nodes
     [([''u'', ''Library''], DirNode, 448), ([''u'', ''Library'', ''Application Support''], DirNode, 448),
      (sample_root, DirNode, 448), (sample_root @ [''state''], DirNode, 448), (sample_root @ [''run''], DirNode, 448),
      (sample_root @ [''integration''], DirNode, 448), (sample_root @ [''integration'', ''mcp''], DirNode, 448),
      (sample_root @ [''integration'', ''mcp'', ''releases''], DirNode, 448),
      (sample_root @ [''integration'', ''mcp'', ''releases'', ''r1''], DirNode, 448),
      (sample_root @ [''integration'', ''mcp'', ''releases'', ''r1'', ''next-infra-mcp''], FileNode ''x'', 493),
      (sample_root @ [''integration'', ''mcp'', ''current''], LinkNode [NormalName ''releases'', NormalName ''r1''], 511),
      (sample_root @ [''integration'', ''mcp'', ''integration-v1.json''], FileNode ''{}'', 384),
      ([''u'', ''Applications''], DirNode, 493), ([''u'', ''Applications'', ''Next Infra.app''], DirNode, 493)] sample_fs"

definition sample_record :: IntegrationRecord where
  "sample_record =
     \<lparr>ir_schema_version = 1, ir_release_id = ''r1'',
      ir_stable_app_path = ip_stable_app (paths_from_home sample_home),
      ir_stable_bridge_path = ip_stable_bridge (paths_from_home sample_home), ir_bundle_id = ''b'',
      ir_team_id = Some ''t'', ir_app_designated_requirement = ''a'', ir_bridge_designated_requirement = ''b'',
      ir_protocol_major = 1, ir_protocol_minor = 0, ir_minimum_supported_minor = 0,
      ir_host_supported_capabilities = map capability_text all_capabilities, ir_host_required_capabilities = [],
      ir_bridge_supported_capabilities = [], ir_bridge_required_capabilities = map capability_text all_capabilities,
      ir_allow_mcp_auto_launch = True, ir_installed_at = ''i'', ir_updated_at = ''u''\<rparr>"

theorem accepted_is_installed_witness:
  "canonicalize sample_installed (ip_stable_bridge (paths_from_home sample_home)) =
     Inr (sample_root @ [''integration'', ''mcp'', ''releases'', ''r1'', ''next-infra-mcp'']) \<and>
   owned_executable sample_installed (sample_root @ [''integration'', ''mcp'', ''releases'', ''r1'', ''next-infra-mcp''])"
proof -
  let ?p = "paths_from_home sample_home"
  have bridge: "validate_integration_record_for_bridge (\<lambda>_. Some sample_record) sample_installed ?p (ip_stable_bridge ?p) =
      Inr sample_record"
    by code_simp
  have "dir_at sample_installed (ip_mcp_dir ?p) = Inr (32, sample_root @ [''integration'', ''mcp''])"
    and "path_new (ir_release_id sample_record) = [NormalName ''r1'']"
    by code_simp+
  with accepted_is_installed[of "\<lambda>_. Some sample_record" sample_installed sample_home "ip_stable_bridge ?p" sample_record]
    bridge show ?thesis by auto
qed

end
