(* ===== verification/Availability_Facts.thy ===== *)
theory Availability_Facts
  imports Mcp_Availability Host_Facts
begin

text \<open>
  What the bridge does to a host that does not answer. The calls it makes are recorded by an environment that logs
  them; the code is the same. The laws of the clock give that it always returns.
\<close>

section \<open>Recording the calls\<close>

datatype EnvCall =
    EvConnect nat bool
  | EvInspect UserQuitInspection
  | EvRecord "IntegrationError + IntegrationRecord"
  | EvCoordinate "unit + bool"
  | EvVerify bool
  | EvRevalidate "unit + unit"
  | EvLaunch "unit + unit"
  | EvRelease
  | EvNow nat
  | EvSleep nat

definition recorded :: "('r \<Rightarrow> EnvCall) \<Rightarrow> ('s \<Rightarrow> 'r \<times> 's) \<Rightarrow> 's \<times> EnvCall list \<Rightarrow> 'r \<times> 's \<times> EnvCall list" where
  "recorded event f sl = (case f (fst sl) of (r, s) \<Rightarrow> (r, s, snd sl @ [event r]))"

definition logged :: "('s, 'c, 'v) HostEnv \<Rightarrow> ('s \<times> EnvCall list, 'c, 'v) HostEnv" where
  "logged env =
     \<lparr>he_connect = (\<lambda>t. recorded (\<lambda>r. EvConnect t (is_ok r)) (he_connect env t)),
      he_inspect = recorded EvInspect (he_inspect env),
      he_record = recorded EvRecord (he_record env),
      he_coordinate = recorded EvCoordinate (he_coordinate env),
      he_verify = (\<lambda>r. recorded (\<lambda>v. EvVerify (is_ok v)) (he_verify env r)),
      he_revalidate = (\<lambda>v. recorded EvRevalidate (he_revalidate env v)),
      he_launch = (\<lambda>v. recorded EvLaunch (he_launch env v)),
      he_release = (\<lambda>sl. (he_release env (fst sl), snd sl @ [EvRelease])),
      he_now = recorded EvNow (he_now env),
      he_sleep = (\<lambda>d sl. (he_sleep env d (fst sl), snd sl @ [EvSleep d]))\<rparr>"

lemma logged_simps:
  "he_connect (logged env) t (s, l) = (case he_connect env t s of (r, s) \<Rightarrow> (r, s, l @ [EvConnect t (is_ok r)]))"
  "he_inspect (logged env) (s, l) = (case he_inspect env s of (r, s) \<Rightarrow> (r, s, l @ [EvInspect r]))"
  "he_record (logged env) (s, l) = (case he_record env s of (r, s) \<Rightarrow> (r, s, l @ [EvRecord r]))"
  "he_coordinate (logged env) (s, l) = (case he_coordinate env s of (r, s) \<Rightarrow> (r, s, l @ [EvCoordinate r]))"
  "he_verify (logged env) i (s, l) = (case he_verify env i s of (r, s) \<Rightarrow> (r, s, l @ [EvVerify (is_ok r)]))"
  "he_revalidate (logged env) v (s, l) = (case he_revalidate env v s of (r, s) \<Rightarrow> (r, s, l @ [EvRevalidate r]))"
  "he_launch (logged env) v (s, l) = (case he_launch env v s of (r, s) \<Rightarrow> (r, s, l @ [EvLaunch r]))"
  "he_release (logged env) (s, l) = (he_release env s, l @ [EvRelease])"
  "he_now (logged env) (s, l) = (case he_now env s of (r, s) \<Rightarrow> (r, s, l @ [EvNow r]))"
  "he_sleep (logged env) d (s, l) = (he_sleep env d s, l @ [EvSleep d])"
  by (simp_all add: logged_def recorded_def)

definition launches :: "EnvCall \<Rightarrow> bool" where
  "launches e \<longleftrightarrow> (case e of EvLaunch _ \<Rightarrow> True | _ \<Rightarrow> False)"

lemma launches_simps [simp]:
  "\<not> launches (EvConnect t b)" "\<not> launches (EvInspect q)" "\<not> launches (EvRecord r)" "\<not> launches (EvCoordinate c)"
  "\<not> launches (EvVerify b)" "\<not> launches (EvRevalidate u)" "launches (EvLaunch u)" "\<not> launches EvRelease"
  "\<not> launches (EvNow n)" "\<not> launches (EvSleep n)"
  by (simp_all add: launches_def)

section \<open>The wait launches nothing\<close>

text \<open>What the wait adds to the log, for an error and for a client.\<close>

definition waited :: "EnvCall list \<Rightarrow> McpBridgeError + 'c \<Rightarrow> bool" where
  "waited rest r \<longleftrightarrow> list_all (\<lambda>e. \<not> launches e) rest \<and>
     (case r of
        Inl e \<Rightarrow> e = host_unavailable
      | Inr _ \<Rightarrow> \<exists>pre t now. rest = pre @ [EvConnect t True, EvInspect QuitClear, EvNow now])"

lemma waited_Cons: "waited rest r \<Longrightarrow> list_all (\<lambda>e. \<not> launches e) es \<Longrightarrow> waited (es @ rest) r"
  unfolding waited_def by (auto split: sum.splits)

lemma await_host_log:
  assumes "await_host (logged env) deadline maximum delay (s, l) = Some (r, s', l')"
  shows "\<exists>rest. l' = l @ rest \<and> waited rest r"
  using assms
proof (induction "logged env" deadline maximum delay "(s, l)" "(r, s', l')" arbitrary: s l r s' l'
    rule: await_host.raw_induct[rotated, consumes 1, case_names step])
  case (step loop deadline maximum delay)
  obtain q s1 where inspect: "he_inspect env s = (q, s1)" by force
  show ?case
  proof (cases "q = QuitClear")
    case False
    with step(2) inspect have "r = Inl host_unavailable" "l' = l @ [EvInspect q]"
      by (auto simp: logged_simps)
    then show ?thesis by (auto simp: waited_def)
  next
    case True
    obtain t1 s2 where now1: "he_now env s1 = (t1, s2)" by force
    obtain t2 s3 where now2: "he_now env s2 = (t2, s3)" by force
    obtain c s4 where connect: "he_connect env (deadline - t2) s3 = (c, s4)" by force
    obtain q' s5 where inspect': "he_inspect env s4 = (q', s5)" by force
    obtain t3 s6 where now3: "he_now env s5 = (t3, s6)" by force
    obtain t4 s7 where now4: "he_now env s4 = (t4, s7)" by force
    note calls = inspect now1 now2 connect inspect' now3 now4
    consider (late) "deadline \<le> t1" | (client) client where "t1 < deadline" "c = Inr client"
      | (fail) e where "t1 < deadline" "c = Inl e"
      by (cases c; cases "deadline \<le> t1") (auto simp: not_le)
    then show ?thesis
    proof cases
      case late
      with step(2) calls True have "r = Inl host_unavailable" "l' = l @ [EvInspect QuitClear, EvNow t1]"
        by (auto simp: logged_simps)
      then show ?thesis by (auto simp: waited_def)
    next
      case client
      have "\<exists>rest. l' = l @ [EvInspect QuitClear, EvNow t1, EvNow t2, EvConnect (deadline - t2) True, EvInspect q'] @ rest \<and>
          (if q' = QuitClear \<and> t3 < deadline then r = Inr client \<and> rest = [EvNow t3]
           else r = Inl host_unavailable \<and> list_all (\<lambda>e. \<not> launches e) rest)"
        using step(2) calls True client by (auto simp: logged_simps is_ok_def split: if_splits)
      then show ?thesis by (auto simp: waited_def split: if_splits)
    next
      case fail
      show ?thesis
      proof (cases "deadline \<le> t4")
        case late: True
        with step(2) calls True fail have "r = Inl host_unavailable"
          "l' = l @ [EvInspect QuitClear, EvNow t1, EvNow t2, EvConnect (deadline - t2) False, EvNow t4]"
          by (auto simp: logged_simps is_ok_def)
        then show ?thesis by (auto simp: waited_def)
      next
        case False
        let ?es = "[EvInspect QuitClear, EvNow t1, EvNow t2, EvConnect (deadline - t2) False, EvNow t4,
          EvSleep (min delay (deadline - t4))]"
        from step(2) calls True fail False
        have "loop (logged env) deadline maximum (min (min (delay * 2) DURATION_MAX) maximum)
            (he_sleep env (min delay (deadline - t4)) s7, l @ ?es) = Some (r, s', l')"
          by (simp add: logged_simps is_ok_def)
        from step(1)[OF this] obtain rest where "l' = l @ ?es @ rest" "waited rest r" by auto
        with waited_Cons[of rest r ?es] show ?thesis by auto
      qed
    qed
  qed
qed

lemma await_deadline_log:
  assumes "await_deadline (logged env) policy timeout (s, l) = Some (r, s', l')"
  shows "\<exists>rest. l' = l @ rest \<and> waited rest r"
proof -
  obtain t s1 where now: "he_now env s = (t, s1)" by force
  show ?thesis
  proof (cases "DURATION_MAX < t + timeout")
    case True
    with assms now show ?thesis by (auto simp: await_deadline_def logged_simps waited_def)
  next
    case False
    with assms now have "await_host (logged env) (t + timeout) (ap_maximum_delay policy)
        (min (ap_initial_delay policy) (ap_maximum_delay policy)) (s1, l @ [EvNow t]) = Some (r, s', l')"
      by (simp add: await_deadline_def logged_simps)
    from await_host_log[OF this] obtain rest where "l' = l @ [EvNow t] @ rest" "waited rest r" by auto
    with waited_Cons[of rest r "[EvNow t]"] show ?thesis by auto
  qed
qed

text \<open>The calls of a launch: in this order, each only after the ones before it succeeded.\<close>

definition launch_calls :: "EnvCall list" where
  "launch_calls = [EvVerify True, EvInspect QuitClear, EvRevalidate (Inr ())]"

lemma launch_host_log:
  assumes "launch_host (logged env) i (s, l) = (r, s', l')"
  shows "(\<exists>es. l' = l @ es \<and> list_all (\<lambda>e. \<not> launches e) es \<and> r = Inl host_unavailable) \<or>
    (\<exists>u. l' = l @ launch_calls @ [EvLaunch u] \<and> (r = Inr () \<longleftrightarrow> u = Inr ()) \<and> (\<forall>e. r = Inl e \<longrightarrow> e = host_unavailable))"
  using assms
  by (auto simp: launch_host_def logged_simps launch_calls_def is_ok_def split: prod.splits sum.splits if_splits)

text \<open>
  C34. The bridge launches the host at most once, and only after it could not connect, found no marker of a quit, read a
  record that allows the auto-launch, holds the launch guard, has verified the signatures, found no marker again and
  has revalidated what it verified. It returns a client only if the connection is followed by a look that finds no
  marker (or if the first connection succeeded), and no other error than that the host is unavailable.
\<close>

theorem launch_at_most_once:
  assumes "ensure_host (logged env) policy (s, []) = Some (r, s', l)"
  shows "(list_all (\<lambda>e. \<not> launches e) l \<or>
     (\<exists>t i u rest. l = [EvConnect t False, EvInspect QuitClear, EvRecord (Inr i), EvCoordinate (Inr True)] @
          launch_calls @ [EvLaunch u] @ rest \<and>
        t \<le> INITIAL_CONNECT_TIMEOUT \<and> ir_allow_mcp_auto_launch i \<and> list_all (\<lambda>e. \<not> launches e) rest)) \<and>
    (case r of
       Inl e \<Rightarrow> e = host_unavailable
     | Inr _ \<Rightarrow> (\<exists>t. l = [EvConnect t True]) \<or>
         (\<exists>pre t now. l = pre @ [EvConnect t True, EvInspect QuitClear, EvNow now]) \<or>
         (\<exists>pre t now. l = pre @ [EvConnect t True, EvInspect QuitClear, EvNow now, EvRelease]))"
proof -
  let ?timeout = "min (ap_timeout policy) MAX_AVAILABILITY_TIMEOUT"
  let ?t = "min ?timeout INITIAL_CONNECT_TIMEOUT"
  obtain c s1 where connect: "he_connect env ?t s = (c, s1)" by force
  obtain q s2 where inspect: "he_inspect env s1 = (q, s2)" by force
  obtain i s3 where rec: "he_record env s2 = (i, s3)" by force
  obtain g s4 where guard: "he_coordinate env s3 = (g, s4)" by force
  note calls = connect inspect rec guard
  let ?es = "\<lambda>it. [EvConnect ?t False, EvInspect QuitClear, EvRecord (Inr it)]"
  consider (none) "list_all (\<lambda>e. \<not> launches e) l" "r = Inl host_unavailable"
    | (first) client where "l = [EvConnect ?t True]" "r = Inr client"
    | (waits) it where "ir_allow_mcp_auto_launch it"
        "await_deadline (logged env) policy ?timeout (s4, ?es it @ [EvCoordinate (Inr False)]) = Some (r, s', l)"
    | (starts) it where "ir_allow_mcp_auto_launch it"
        "(case launch_host (logged env) it (s4, ?es it @ [EvCoordinate (Inr True)]) of
           (Inl e, s) \<Rightarrow> Some (Inl e, he_release (logged env) s)
         | (Inr _, s) \<Rightarrow> map_option (\<lambda>(result, s). (result, he_release (logged env) s))
             (await_deadline (logged env) policy ?timeout s)) = Some (r, s', l)"
    using assms calls
    by (cases c; cases i; cases g)
      (auto simp: ensure_host_def Let_def logged_simps is_ok_def split: if_splits bool.splits)
  then show ?thesis
  proof cases
    case none
    then show ?thesis by simp
  next
    case first
    then show ?thesis by auto
  next
    case waits
    from await_deadline_log[OF waits(2)] show ?thesis
      by (cases r) (auto simp: waited_def)
  next
    case starts
    obtain u s5 l5 where launch:
        "launch_host (logged env) it (s4, ?es it @ [EvCoordinate (Inr True)]) = (u, s5, l5)"
      by (metis prod_cases3)
    show ?thesis
    proof (cases u)
      case (Inl e)
      with starts launch have "r = Inl e" "l = l5 @ [EvRelease]" by (auto simp: logged_simps)
      with launch_host_log[OF launch] Inl starts(1) show ?thesis
        by (auto simp: launch_calls_def)
    next
      case (Inr v)
      from launch_host_log[OF launch] Inr
      have l5: "l5 = ?es it @ [EvCoordinate (Inr True)] @ launch_calls @ [EvLaunch (Inr ())]" by auto
      from starts(2) launch Inr obtain s6 l6 where
        "await_deadline (logged env) policy ?timeout (s5, l5) = Some (r, s6, l6)" and l: "l = l6 @ [EvRelease]"
        by (auto simp: logged_simps)
      from await_deadline_log[OF this(1)] obtain rest where rest: "l6 = l5 @ rest" "waited rest r" by blast
      have "l = [EvConnect ?t False, EvInspect QuitClear, EvRecord (Inr it), EvCoordinate (Inr True)] @
          launch_calls @ [EvLaunch (Inr ())] @ (rest @ [EvRelease])"
        by (simp add: l rest(1) l5)
      moreover have "?t \<le> INITIAL_CONNECT_TIMEOUT" "list_all (\<lambda>e. \<not> launches e) (rest @ [EvRelease])"
        using rest(2) by (simp_all add: waited_def)
      moreover have "case r of Inl e \<Rightarrow> e = host_unavailable
        | Inr _ \<Rightarrow> \<exists>pre t now. l = pre @ [EvConnect t True, EvInspect QuitClear, EvNow now, EvRelease]"
        using rest by (auto simp: waited_def l split: sum.splits)
      ultimately show ?thesis using starts(1) by (auto split: sum.splits)
    qed
  qed
qed

text \<open>A host that answers once it was launched.\<close>

definition sample_env :: "(bool \<times> nat, unit, unit) HostEnv" where
  "sample_env =
     \<lparr>he_connect = (\<lambda>t (up, n). (if up then Inr () else Inl host_unavailable, up, n + 1)),
      he_inspect = (\<lambda>s. (QuitClear, s)),
      he_record = (\<lambda>s. (Inr sample_record, s)),
      he_coordinate = (\<lambda>s. (Inr True, s)),
      he_verify = (\<lambda>_ s. (Inr (), s)),
      he_revalidate = (\<lambda>_ s. (Inr (), s)),
      he_launch = (\<lambda>_ (up, n). (Inr (), True, n)),
      he_release = (\<lambda>s. s),
      he_now = (\<lambda>(up, n). (n, up, n)),
      he_sleep = (\<lambda>d (up, n). (up, n + d))\<rparr>"

lemma sample_env_simps:
  "he_connect sample_env t (up, n) = (if up then Inr () else Inl host_unavailable, up, n + 1)"
  "he_inspect sample_env s = (QuitClear, s)" "he_record sample_env s = (Inr sample_record, s)"
  "he_coordinate sample_env s = (Inr True, s)" "he_verify sample_env i s = (Inr (), s)"
  "he_revalidate sample_env v s = (Inr (), s)" "he_launch sample_env v (up, n) = (Inr (), True, n)"
  "he_release sample_env s = s" "he_now sample_env (up, n) = (n, up, n)" "he_sleep sample_env d (up, n) = (up, n + d)"
  by (simp_all add: sample_env_def)

theorem launch_at_most_once_witness:
  "\<exists>s l. ensure_host (logged sample_env) policy_default ((False, 0), []) = Some (Inr (), s, l) \<and>
     (\<exists>t i u rest. l = [EvConnect t False, EvInspect QuitClear, EvRecord (Inr i), EvCoordinate (Inr True)] @
          launch_calls @ [EvLaunch u] @ rest \<and>
        t \<le> INITIAL_CONNECT_TIMEOUT \<and> ir_allow_mcp_auto_launch i \<and> list_all (\<lambda>e. \<not> launches e) rest)"
proof -
  define run where "run = ensure_host (logged sample_env) policy_default ((False, 0), [])"
  have "case run of None \<Rightarrow> False | Some (r, s, l) \<Rightarrow> r = Inr () \<and> \<not> list_all (\<lambda>e. \<not> launches e) l"
    unfolding run_def
    by (simp add: ensure_host_def Let_def policy_default_def MAX_AVAILABILITY_TIMEOUT_def INITIAL_CONNECT_TIMEOUT_def
        seconds_def millis_def logged_simps sample_env_simps launch_host_def await_deadline_def DURATION_MAX_def
        await_host.simps sample_record_def)
  then obtain s l where run: "run = Some (Inr (), s, l)" "\<not> list_all (\<lambda>e. \<not> launches e) l"
    by (cases run) auto
  from launch_at_most_once[OF run(1)[unfolded run_def]] run show ?thesis unfolding run_def by auto
qed

section \<open>The bridge always returns\<close>

text \<open>
  What a monotonic clock promises: it does not go back, whatever the bridge does, and a sleep lasts at least as long as
  it was asked to. \<open>time\<close> is the time of a state of the world.
\<close>

definition clock_laws :: "('s, 'c, 'v) HostEnv \<Rightarrow> ('s \<Rightarrow> nat) \<Rightarrow> bool" where
  "clock_laws env time \<longleftrightarrow>
     (\<forall>s t s'. he_now env s = (t, s') \<longrightarrow> time s \<le> t \<and> t \<le> time s') \<and>
     (\<forall>s d. time s + d \<le> time (he_sleep env d s)) \<and>
     (\<forall>s d r s'. he_connect env d s = (r, s') \<longrightarrow> time s \<le> time s') \<and>
     (\<forall>s q s'. he_inspect env s = (q, s') \<longrightarrow> time s \<le> time s')"

lemma await_host_returns:
  assumes "clock_laws env time" and "0 < delay" and "0 < maximum"
  shows "\<exists>r s'. await_host env deadline maximum delay s = Some (r, s')"
  using assms(2)
proof (induction "deadline - time s" arbitrary: delay s rule: less_induct)
  case less
  obtain q s1 where inspect: "he_inspect env s = (q, s1)" by force
  obtain t1 s2 where now1: "he_now env s1 = (t1, s2)" by force
  obtain t2 s3 where now2: "he_now env s2 = (t2, s3)" by force
  obtain c s4 where connect: "he_connect env (deadline - t2) s3 = (c, s4)" by force
  obtain q' s5 where inspect': "he_inspect env s4 = (q', s5)" by force
  obtain t3 s6 where now3: "he_now env s5 = (t3, s6)" by force
  obtain t4 s7 where now4: "he_now env s4 = (t4, s7)" by force
  note calls = inspect now1 now2 connect inspect' now3 now4
  let ?s' = "he_sleep env (min delay (deadline - t4)) s7"
  have "time s \<le> time s1" "time s1 \<le> time s2" "time s2 \<le> time s3" "time s3 \<le> time s4" "time s4 \<le> t4" "t4 \<le> time s7"
    "time s7 + min delay (deadline - t4) \<le> time ?s'"
    using assms(1) calls unfolding clock_laws_def by (meson order_trans)+
  then have "deadline - time ?s' < deadline - time s" if "t4 < deadline"
    using that less(2) by (auto simp: min_def split: if_splits)
  moreover have "0 < min (min (delay * 2) DURATION_MAX) maximum"
    using less(2) assms(3) by (simp add: DURATION_MAX_def)
  ultimately have "\<exists>r s'. await_host env deadline maximum (min (min (delay * 2) DURATION_MAX) maximum) ?s' = Some (r, s')"
    if "t4 < deadline"
    using less(1) that by blast
  then show ?case
    by (subst await_host.simps) (cases c; auto simp: calls not_le)
qed



section \<open>The calls of a launch\<close>

text \<open>When the log has a launch, these calls were made, with these results, each in the state that the one before left.\<close>

lemma launch_trace:
  assumes "ensure_host (logged env) policy (s, []) = Some (r, s', l)" and "EvLaunch u \<in> set l"
  obtains t e s1 s2 i s3 s4 v s5 s6 s7 s8
  where "he_connect env t s = (Inl e, s1)" and "he_inspect env s1 = (QuitClear, s2)"
    and "he_record env s2 = (Inr i, s3)" and "ir_allow_mcp_auto_launch i" and "he_coordinate env s3 = (Inr True, s4)"
    and "he_verify env i s4 = (Inr v, s5)" and "he_inspect env s5 = (QuitClear, s6)"
    and "he_revalidate env v s6 = (Inr (), s7)" and "he_launch env v s7 = (u, s8)"
proof -
  let ?timeout = "min (ap_timeout policy) MAX_AVAILABILITY_TIMEOUT"
  let ?t = "min ?timeout INITIAL_CONNECT_TIMEOUT"
  obtain c s1 where connect: "he_connect env ?t s = (c, s1)" by force
  obtain q s2 where inspect: "he_inspect env s1 = (q, s2)" by force
  obtain i s3 where rec: "he_record env s2 = (i, s3)" by force
  obtain g s4 where guard: "he_coordinate env s3 = (g, s4)" by force
  note calls = connect inspect rec guard
  have waits: "EvLaunch u \<in> set l0"
    if "await_deadline (logged env) policy ?timeout (s0, l0) = Some (r0, s0', l1)" "EvLaunch u \<in> set l1" for r0 s0 s0' l0 l1
  proof -
    obtain rest where "l1 = l0 @ rest" "waited rest r0" using await_deadline_log[OF \<open>await_deadline _ _ _ _ = _\<close>] by blast
    moreover from this(2) have "EvLaunch u \<notin> set rest" by (auto simp: waited_def list_all_iff)
    ultimately show ?thesis using \<open>EvLaunch u \<in> set l1\<close> by simp
  qed
  have quit: "q = QuitClear" and fail: "\<exists>e. c = Inl e"
    using assms calls by (cases c; auto simp: ensure_host_def Let_def logged_simps split: if_splits)+
  then obtain it where it: "i = Inr it" "ir_allow_mcp_auto_launch it"
    using assms calls by (cases i; auto simp: ensure_host_def Let_def logged_simps split: if_splits)
  have held: "g = Inr True"
  proof (cases "g = Inr False")
    case True
    with assms calls quit fail it have "await_deadline (logged env) policy ?timeout (s4, [EvConnect ?t False,
        EvInspect QuitClear, EvRecord (Inr it), EvCoordinate (Inr False)]) = Some (r, s', l)"
      by (auto simp: ensure_host_def Let_def logged_simps is_ok_def split: if_splits)
    from waits[OF this assms(2)] show ?thesis by simp
  next
    case False
    with assms calls quit fail it show ?thesis
      by (cases g) (auto simp: ensure_host_def Let_def logged_simps split: if_splits bool.splits)
  qed
  obtain x s5 l5 where launch: "launch_host (logged env) it (s4, [EvConnect ?t False, EvInspect QuitClear,
      EvRecord (Inr it), EvCoordinate (Inr True)]) = (x, s5, l5)"
    by (metis prod_cases3)
  have "EvLaunch u \<in> set l5"
    using assms calls quit fail it held launch
    by (auto simp: ensure_host_def Let_def logged_simps is_ok_def split: if_splits sum.splits dest: waits)
  with launch obtain v sv si sr where
    "he_verify env it s4 = (Inr v, sv)" "he_inspect env sv = (QuitClear, si)" "he_revalidate env v si = (Inr (), sr)"
    "fst (he_launch env v sr) = u"
    by (auto simp: launch_host_def logged_simps split: prod.splits sum.splits if_splits)
  with that calls quit fail it held show ?thesis by (metis prod.collapse)
qed

end
