(* ===== verification/Mac_Launcher.thy ===== *)
theory Mac_Launcher
  imports Availability_Facts
begin

text \<open>
  \<open>availability/system.rs\<close> of the MCP bridge: the connector over the local RPC, the launcher with its latch, the verifier
  of code signatures, and with them the environment that the bridge runs in. The commands \<open>codesign\<close> and
  \<open>open\<close>, the socket lock and the clock are operations of the system, over a world \<open>'w\<close>; the file system is a view of
  the world.
\<close>

section \<open>Text of commands\<close>

text \<open>\<open>String::from_utf8\<close>: the length of the character that starts a list of bytes, 0 if there is none.\<close>

definition continues :: "char \<Rightarrow> bool" where
  "continues c \<longleftrightarrow> 128 \<le> byte c \<and> byte c < 192"

definition utf8_head :: "string \<Rightarrow> nat" where
  "utf8_head s =
     (case s of
        [] \<Rightarrow> 0
      | c # r \<Rightarrow>
          if byte c < 128 then 1
          else if 194 \<le> byte c \<and> byte c \<le> 223 then
            (case r of d # _ \<Rightarrow> if continues d then 2 else 0 | _ \<Rightarrow> 0)
          else if 224 \<le> byte c \<and> byte c \<le> 239 then
            (case r of
               d # e # _ \<Rightarrow>
                 if continues d \<and> continues e \<and> (byte c = 224 \<longrightarrow> 160 \<le> byte d) \<and> (byte c = 237 \<longrightarrow> byte d < 160)
                 then 3 else 0
             | _ \<Rightarrow> 0)
          else if 240 \<le> byte c \<and> byte c \<le> 244 then
            (case r of
               d # e # f # _ \<Rightarrow>
                 if continues d \<and> continues e \<and> continues f \<and> (byte c = 240 \<longrightarrow> 144 \<le> byte d) \<and>
                    (byte c = 244 \<longrightarrow> byte d < 144)
                 then 4 else 0
             | _ \<Rightarrow> 0)
          else 0)"

function utf8_valid :: "string \<Rightarrow> bool" where
  "utf8_valid s =
     (if s = [] then True else if utf8_head s = 0 then False else utf8_valid (drop (utf8_head s) s))"
  by pat_completeness auto
termination
  by (relation "measure length") auto

declare utf8_valid.simps [simp del]

text \<open>\<open>str::lines\<close> and \<open>str::strip_prefix\<close>.\<close>

definition strip_cr :: "string \<Rightarrow> string" where
  "strip_cr s = (case strip_suffix_byte CHR 0x0D s of Some r \<Rightarrow> r | None \<Rightarrow> s)"

definition str_lines :: "string \<Rightarrow> string list" where
  "str_lines s =
     (let parts = split_byte CHR 0x0A s in
      map strip_cr (butlast parts) @ (if last parts = [] then [] else [last parts]))"

definition strip_prefix :: "string \<Rightarrow> string \<Rightarrow> string option" where
  "strip_prefix prefix s = (if starts_with s prefix then Some (drop (length prefix) s) else None)"

record CommandOutput =
  co_success :: bool
  co_stdout :: string
  co_stderr :: string

definition output_text :: "CommandOutput \<Rightarrow> unit + string" where
  "output_text output =
     (if \<not> co_success output then Inl ()
      else
        let bytes = co_stdout output @ [CHR 0x0A] @ co_stderr output in
        if utf8_valid bytes then Inr bytes else Inl ())"

definition unique_prefixed_line :: "string \<Rightarrow> string \<Rightarrow> unit + string" where
  "unique_prefixed_line text prefix =
     (case List.map_filter (\<lambda>line. strip_prefix prefix (trim line)) (str_lines text) of
        [] \<Rightarrow> Inl ()
      | value # others \<Rightarrow> if value = [] \<or> others \<noteq> [] then Inl () else Inr value)"

definition unique_field :: "string \<Rightarrow> string \<Rightarrow> unit + string" where
  "unique_field text name = unique_prefixed_line text (name @ ''='')"

section \<open>Signatures\<close>

text \<open>\<open>codesign\<close> runs the command with arguments and an artifact; \<open>None\<close> if it cannot be run.\<close>

type_synonym Codesign = "string list \<Rightarrow> Path \<Rightarrow> CommandOutput option"

definition codesign_output :: "Codesign \<Rightarrow> string list \<Rightarrow> Path \<Rightarrow> unit + string" where
  "codesign_output codesign arguments artifact = res_bind (ok_or () (codesign arguments artifact)) output_text"

definition verify_artifact :: "Codesign \<Rightarrow> Path \<Rightarrow> string \<Rightarrow> string option \<Rightarrow> string \<Rightarrow> unit + unit" where
  "verify_artifact codesign artifact requirement expected_identifier expected_team =
     (if trim requirement = [] \<or> trim expected_team = [] then Inl ()
      else
        res_bind (ok_or () (codesign [''--verify'', ''--strict'', ''--verbose=4'', ''-R='' @ requirement] artifact)) (\<lambda>verify.
        if \<not> co_success verify then Inl ()
        else
          res_bind (codesign_output codesign [''-d'', ''--verbose=4''] artifact) (\<lambda>details.
          res_bind (unique_field details ''TeamIdentifier'') (\<lambda>team.
          if team \<noteq> expected_team then Inl ()
          else
            res_bind
              (case expected_identifier of
                 None \<Rightarrow> Inr ()
               | Some identifier \<Rightarrow>
                   res_bind (unique_field details ''Identifier'') (\<lambda>actual.
                     if actual \<noteq> identifier then Inl () else Inr ())) (\<lambda>_.
            res_bind (codesign_output codesign [''-d'', ''-r-''] artifact) (\<lambda>requirements.
            res_bind (unique_prefixed_line requirements ''designated => '') (\<lambda>designated.
              if designated = requirement then Inr () else Inl ())))))))"

text \<open>The verifier looks at the artifacts before and after: \<open>fs1\<close> and \<open>fs2\<close> are what the two looks find.\<close>

definition mac_verify ::
    "Codesign \<Rightarrow> FileSystem \<Rightarrow> FileSystem \<Rightarrow> IntegrationPaths \<Rightarrow> IntegrationRecord \<Rightarrow> Path \<Rightarrow> unit + VerifiedArtifacts" where
  "mac_verify codesign fs1 fs2 paths r current_executable =
     res_bind (ok_or () (ir_team_id r)) (\<lambda>team.
     res_bind (artifacts_capture fs1 paths current_executable) (\<lambda>before.
     res_bind (verify_artifact codesign (ip_stable_app paths) (ir_app_designated_requirement r) (Some (ir_bundle_id r)) team) (\<lambda>_.
     res_bind (verify_artifact codesign current_executable (ir_bridge_designated_requirement r) None team) (\<lambda>_.
     res_bind (artifacts_capture fs2 paths current_executable) (\<lambda>after.
       if before = after
       then Inr (authorize_app_signature after (ir_bundle_id r) team (ir_app_designated_requirement r))
       else Inl ())))))"

section \<open>The launcher\<close>

datatype CommandArg = ArgText string | ArgPath Path

definition open_command :: "Path \<Rightarrow> string \<times> CommandArg list" where
  "open_command stable_app =
     (''/usr/bin/open'',
      [ArgText ''-g'', ArgPath stable_app, ArgText ''--args'', ArgText ''--background'', ArgText ''--launch-source=mcp''])"

text \<open>The latch of \<open>claim_launch\<close>: the launcher attempts one launch.\<close>

definition claim_launch :: "bool \<Rightarrow> (unit + unit) \<times> bool" where
  "claim_launch attempted = (if attempted then (Inl (), True) else (Inr (), True))"

text \<open>What \<open>launch\<close> checks, with the file system at its two looks, before it starts the command.\<close>

definition launch_checks :: "Codesign \<Rightarrow> FileSystem \<Rightarrow> FileSystem \<Rightarrow> VerifiedArtifacts \<Rightarrow> unit + unit" where
  "launch_checks codesign fs1 fs2 artifacts =
     res_bind (artifacts_revalidate fs1 artifacts) (\<lambda>_.
     res_bind (app_signature_authorization artifacts) (\<lambda>(bundle_id, team_id, requirement).
     res_bind (verify_artifact codesign (va_stable_app_path artifacts) requirement (Some bundle_id) team_id) (\<lambda>_.
       artifacts_revalidate fs2 artifacts)))"

section \<open>The environment of the bridge\<close>

datatype LockOutcome = LockAcquired | LockAlreadyRunning | LockFailed

record ('w, 'c) System =
  sy_fs :: "'w \<Rightarrow> FileSystem"
  sy_tick :: "'w \<Rightarrow> 'w"
  sy_codesign :: "'w \<Rightarrow> Codesign"
  sy_connect :: "nat \<Rightarrow> 'w \<Rightarrow> (McpBridgeError + 'c) \<times> 'w"
  sy_lock :: "Path \<Rightarrow> 'w \<Rightarrow> LockOutcome \<times> 'w"
  sy_unlock :: "Path \<Rightarrow> 'w \<Rightarrow> 'w"
  sy_spawn :: "string \<times> CommandArg list \<Rightarrow> 'w \<Rightarrow> bool option \<times> 'w"
  sy_elapsed :: "'w \<Rightarrow> nat \<times> 'w"
  sy_sleep :: "nat \<Rightarrow> 'w \<Rightarrow> 'w"

text \<open>\<open>MacOpenLauncher::launch\<close>: the command's exit status decides.\<close>

definition mac_launch :: "('w, 'c) System \<Rightarrow> VerifiedArtifacts \<Rightarrow> 'w \<times> bool \<Rightarrow> (unit + unit) \<times> 'w \<times> bool" where
  "mac_launch sys artifacts = (\<lambda>(w, attempted).
     case claim_launch attempted of
       (Inl _, attempted) \<Rightarrow> (Inl (), w, attempted)
     | (Inr _, attempted) \<Rightarrow>
         let w' = sy_tick sys w in
         (case launch_checks (sy_codesign sys w') (sy_fs sys w) (sy_fs sys w') artifacts of
            Inl _ \<Rightarrow> (Inl (), w', attempted)
          | Inr _ \<Rightarrow>
              (case sy_spawn sys (open_command (va_stable_app_path artifacts)) w' of
                 (status, w) \<Rightarrow> (if status = Some True then Inr () else Inl (), w, attempted))))"

definition mac_env ::
    "('w, 'c) System \<Rightarrow> (string \<Rightarrow> UserQuitMarker option) \<Rightarrow> (string \<Rightarrow> IntegrationRecord option) \<Rightarrow> IntegrationPaths \<Rightarrow>
     Path \<Rightarrow> ('w \<times> bool, 'c, VerifiedArtifacts) HostEnv" where
  "mac_env sys parse_marker parse_record paths exe =
     \<lparr>he_connect = (\<lambda>t (w, a). case sy_connect sys t w of (r, w) \<Rightarrow> (r, w, a)),
      he_inspect = (\<lambda>(w, a). (inspect_user_quit parse_marker (sy_fs sys w) paths, sy_tick sys w, a)),
      he_record = (\<lambda>(w, a). (validate_integration_record_for_bridge parse_record (sy_fs sys w) paths exe, sy_tick sys w, a)),
      he_coordinate = (\<lambda>(w, a).
        case sy_lock sys (ip_launch_lock paths) w of
          (LockAcquired, w) \<Rightarrow> (Inr True, w, a)
        | (LockAlreadyRunning, w) \<Rightarrow> (Inr False, w, a)
        | (LockFailed, w) \<Rightarrow> (Inl (), w, a)),
      he_verify = (\<lambda>r (w, a).
        let w' = sy_tick sys w in
        (mac_verify (sy_codesign sys w') (sy_fs sys w) (sy_fs sys w') paths r exe, w', a)),
      he_revalidate = (\<lambda>v (w, a). (artifacts_revalidate (sy_fs sys w) v, sy_tick sys w, a)),
      he_launch = mac_launch sys,
      he_release = (\<lambda>(w, a). (sy_unlock sys (ip_launch_lock paths) w, a)),
      he_now = (\<lambda>(w, a). case sy_elapsed sys w of (t, w) \<Rightarrow> (t, w, a)),
      he_sleep = (\<lambda>d (w, a). (sy_sleep sys d w, a))\<rparr>"

section \<open>What a launch rests on\<close>

text \<open>The signature of an artifact, as the outputs of the commands state it.\<close>

definition signed :: "Codesign \<Rightarrow> Path \<Rightarrow> string \<Rightarrow> string option \<Rightarrow> string \<Rightarrow> bool" where
  "signed codesign artifact requirement identifier team \<longleftrightarrow>
     trim requirement \<noteq> [] \<and> trim team \<noteq> [] \<and>
     (\<exists>verify. codesign [''--verify'', ''--strict'', ''--verbose=4'', ''-R='' @ requirement] artifact = Some verify \<and>
        co_success verify) \<and>
     (\<exists>details. codesign_output codesign [''-d'', ''--verbose=4''] artifact = Inr details \<and>
        unique_field details ''TeamIdentifier'' = Inr team \<and>
        (\<forall>i. identifier = Some i \<longrightarrow> unique_field details ''Identifier'' = Inr i)) \<and>
     (\<exists>requirements. codesign_output codesign [''-d'', ''-r-''] artifact = Inr requirements \<and>
        unique_prefixed_line requirements ''designated => '' = Inr requirement)"

lemma verify_artifact_iff:
  "verify_artifact codesign artifact requirement ident team = Inr u \<longleftrightarrow>
   signed codesign artifact requirement ident team"
  by (cases ident) (auto simp: verify_artifact_def signed_def res_simps split: if_splits)

lemma unique_prefixed_line_iff:
  "unique_prefixed_line text prefix = Inr value \<longleftrightarrow>
   value \<noteq> [] \<and> List.map_filter (\<lambda>line. strip_prefix prefix (trim line)) (str_lines text) = [value]"
  by (auto simp: unique_prefixed_line_def split: list.splits)

lemma mac_verify_facts:
  assumes "mac_verify codesign fs1 fs2 paths i exe = Inr v"
  shows "\<exists>team. ir_team_id i = Some team \<and>
      signed codesign (ip_stable_app paths) (ir_app_designated_requirement i) (Some (ir_bundle_id i)) team \<and>
      signed codesign exe (ir_bridge_designated_requirement i) None team \<and>
      app_signature_authorization v = Inr (ir_bundle_id i, team, ir_app_designated_requirement i)"
    and "va_stable_app_path v = ip_stable_app paths" and "va_current_executable v = exe"
    and "artifact_identity fs1 (ip_stable_app paths) ArtifactDirectory = Inr (va_stable_app_identity v)"
    and "artifact_identity fs1 exe ArtifactRegularFile = Inr (va_current_executable_identity v)"
  using assms
  by (auto simp: mac_verify_def res_simps verify_artifact_iff artifacts_capture_def authorize_app_signature_def
      app_signature_authorization_def split: if_splits)

lemma artifacts_revalidate_iff:
  "artifacts_revalidate fs v = Inr u \<longleftrightarrow>
     artifact_identity fs (va_stable_app_path v) ArtifactDirectory = Inr (va_stable_app_identity v) \<and>
     artifact_identity fs (va_current_executable v) ArtifactRegularFile = Inr (va_current_executable_identity v)"
  by (auto simp: artifacts_revalidate_def res_simps split: if_splits)

text \<open>The latch: a second launch is refused, whatever became of the first.\<close>

lemma mac_launch_latch:
  "snd (snd (mac_launch sys v (w, attempted)))"
  "mac_launch sys v (w, True) = (Inl (), w, True)"
  by (auto simp: mac_launch_def claim_launch_def Let_def split: sum.splits prod.splits)

lemma mac_launch_facts:
  assumes "mac_launch sys v (w, attempted) = (Inr (), w', attempted')"
  shows "\<not> attempted" and "launch_checks (sy_codesign sys (sy_tick sys w)) (sy_fs sys w) (sy_fs sys (sy_tick sys w)) v = Inr ()"
    and "\<exists>w''. sy_spawn sys (open_command (va_stable_app_path v)) (sy_tick sys w) = (Some True, w'')"
  using assms by (auto simp: mac_launch_def claim_launch_def Let_def split: sum.splits prod.splits if_splits)


section \<open>An installed host that is started\<close>

definition sample_codesign :: Codesign where
  "sample_codesign arguments artifact = Some \<lparr>co_success = True,
     co_stdout =
       (if arguments = [''-d'', ''-r-''] then
          (if artifact = ip_stable_app (paths_from_home sample_home) then ''designated => a'' else ''designated => b'')
        else ''Identifier=b'' @ [CHR 0x0A] @ ''TeamIdentifier=t''),
     co_stderr = []\<rparr>"

definition sample_system :: "(bool \<times> nat, unit) System" where
  "sample_system =
     \<lparr>sy_fs = (\<lambda>_. sample_installed), sy_tick = (\<lambda>w. w), sy_codesign = (\<lambda>_. sample_codesign),
      sy_connect = (\<lambda>t (up, n). (if up then Inr () else Inl host_unavailable, up, n + 1)),
      sy_lock = (\<lambda>_ w. (LockAcquired, w)), sy_unlock = (\<lambda>_ w. w),
      sy_spawn = (\<lambda>_ (up, n). (Some True, True, n)), sy_elapsed = (\<lambda>(up, n). (n, up, n)),
      sy_sleep = (\<lambda>d (up, n). (up, n + d))\<rparr>"

definition sample_exe :: Path where
  "sample_exe = ip_stable_bridge (paths_from_home sample_home)"

definition sample_artifacts :: VerifiedArtifacts where
  "sample_artifacts =
     \<lparr>va_stable_app_path = ip_stable_app (paths_from_home sample_home), va_current_executable = sample_exe,
      va_stable_app_identity = \<lparr>ai_device = 1, ai_inode = 9, ai_owner = 501, ai_mode = 493\<rparr>,
      va_current_executable_identity = \<lparr>ai_device = 1, ai_inode = 9, ai_owner = 501, ai_mode = 493\<rparr>,
      va_signature_authorization = Some \<lparr>sa_bundle_id = ''b'', sa_team_id = ''t'', sa_designated_requirement = ''a''\<rparr>\<rparr>"

lemma sample_checks:
  "inspect_user_quit (\<lambda>_. None) sample_installed (paths_from_home sample_home) = QuitClear"
  "validate_integration_record_for_bridge (\<lambda>_. Some sample_record) sample_installed (paths_from_home sample_home)
     sample_exe = Inr sample_record"
  "mac_verify sample_codesign sample_installed sample_installed (paths_from_home sample_home) sample_record sample_exe =
     Inr sample_artifacts"
  by code_simp+

lemma sample_rechecks:
  "artifacts_revalidate sample_installed sample_artifacts = Inr ()"
  "launch_checks sample_codesign sample_installed sample_installed sample_artifacts = Inr ()"
proof -
  note facts = mac_verify_facts[OF sample_checks(3)]
  show again: "artifacts_revalidate sample_installed sample_artifacts = Inr ()"
    using facts(4,5) by (simp add: artifacts_revalidate_iff facts(2,3))
  from facts(1) show "launch_checks sample_codesign sample_installed sample_installed sample_artifacts = Inr ()"
    by (auto simp: launch_checks_def res_simps again facts(2) verify_artifact_iff)
qed

lemma sample_mac_env:
  "he_connect (mac_env sample_system (\<lambda>_. None) (\<lambda>_. Some sample_record) (paths_from_home sample_home) sample_exe)
     t ((up, n), a) = (if up then Inr () else Inl host_unavailable, (up, n + 1), a)"
  "he_inspect (mac_env sample_system (\<lambda>_. None) (\<lambda>_. Some sample_record) (paths_from_home sample_home) sample_exe)
     (w, a) = (QuitClear, w, a)"
  "he_record (mac_env sample_system (\<lambda>_. None) (\<lambda>_. Some sample_record) (paths_from_home sample_home) sample_exe)
     (w, a) = (Inr sample_record, w, a)"
  "he_coordinate (mac_env sample_system (\<lambda>_. None) (\<lambda>_. Some sample_record) (paths_from_home sample_home) sample_exe)
     (w, a) = (Inr True, w, a)"
  "he_verify (mac_env sample_system (\<lambda>_. None) (\<lambda>_. Some sample_record) (paths_from_home sample_home) sample_exe)
     sample_record (w, a) = (Inr sample_artifacts, w, a)"
  "he_revalidate (mac_env sample_system (\<lambda>_. None) (\<lambda>_. Some sample_record) (paths_from_home sample_home) sample_exe)
     sample_artifacts (w, a) = (Inr (), w, a)"
  "he_launch (mac_env sample_system (\<lambda>_. None) (\<lambda>_. Some sample_record) (paths_from_home sample_home) sample_exe)
     sample_artifacts ((up, n), False) = (Inr (), (True, n), True)"
  "he_release (mac_env sample_system (\<lambda>_. None) (\<lambda>_. Some sample_record) (paths_from_home sample_home) sample_exe)
     (w, a) = (w, a)"
  "he_now (mac_env sample_system (\<lambda>_. None) (\<lambda>_. Some sample_record) (paths_from_home sample_home) sample_exe)
     ((up, n), a) = (n, (up, n), a)"
  by (simp_all add: mac_env_def sample_system_def sample_checks sample_rechecks mac_launch_def claim_launch_def Let_def)


end
