(* ===== verification/Host_Lifecycle.thy ===== *)
theory Host_Lifecycle
  imports Mac_Launcher
begin

text \<open>
  The life cycle of the desktop host: \<open>host/lifecycle.rs\<close>, the state machine with the effects that each event asks
  for, and \<open>host/authorization.rs\<close> with the start of \<open>lib.rs\<close>, which decide from the arguments and the installed
  files whether a process may run as the host.
\<close>

section \<open>The state machine\<close>

datatype ShutdownPhase = MarkerPending | Draining | Checkpointing | StoppingRuntime

datatype HostState =
    NotRunning
  | StartingInteractive
  | StartingBackground
  | WindowVisible
  | WindowHidden
  | BackgroundOnly
  | GracefulExit ShutdownPhase
  | UserQuitLatched

datatype LaunchSource = UserInteractive | LoginAutostart | McpAuthorized

datatype SecondInstanceIntent = IntentInteractive | LoginAutostartTuple | McpBackgroundTuple | IntentUnknown

datatype HostEvent =
    Launch LaunchSource
  | RuntimeReady
  | SecondInstance SecondInstanceIntent
  | WindowCloseRequested
  | TrayRestore
  | DockReopen
  | ExplicitQuit
  | UserQuitMarkerDurable
  | UserQuitMarkerFailed
  | DrainCompleted
  | CheckpointCompleted
  | RuntimeStopped
  | RuntimeCrash
  | WebViewReload

datatype HostEffect =
    StartRuntimeInteractive
  | StartRuntimeBackground
  | CreateTray
  | CreateWindow
  | SetRegularActivation
  | PreventWindowClose
  | HideWindow
  | ShowWindow
  | UnminimizeWindow
  | FocusWindow
  | RequeryAfterRestore
  | RequeryAfterReload
  | ActivateExistingInstance
  | PersistUserQuit
  | ClearUserQuit
  | RejectMcpLaunch
  | DrainRuntime
  | CheckpointWal
  | StopRuntime
  | ExitProcess
  | CancelQuit
  | RecordCrash
  | IgnoreBackgroundSecondInstance
  | IgnoredEvent

record Transition =
  tr_from :: HostState
  tr_to :: HostState
  tr_effects :: "HostEffect list"

record HostLifecycle =
  hl_state :: HostState
  hl_user_quit_latched :: bool
  hl_pre_quit_state :: "HostState option"

definition HostLifecycle_new :: "bool \<Rightarrow> HostLifecycle" where
  "HostLifecycle_new user_quit_latched =
     \<lparr>hl_state = (if user_quit_latched then UserQuitLatched else NotRunning),
      hl_user_quit_latched = user_quit_latched, hl_pre_quit_state = None\<rparr>"

definition runtime_running :: "HostLifecycle \<Rightarrow> bool" where
  "runtime_running h \<longleftrightarrow>
     (case hl_state h of
        StartingInteractive \<Rightarrow> True
      | StartingBackground \<Rightarrow> True
      | WindowVisible \<Rightarrow> True
      | WindowHidden \<Rightarrow> True
      | BackgroundOnly \<Rightarrow> True
      | GracefulExit _ \<Rightarrow> True
      | _ \<Rightarrow> False)"

definition clear_marker_if_latched :: "HostLifecycle \<Rightarrow> HostLifecycle \<times> HostEffect list" where
  "clear_marker_if_latched h =
     (if hl_user_quit_latched h then (h\<lparr>hl_user_quit_latched := False\<rparr>, [ClearUserQuit]) else (h, []))"

definition host_launch :: "LaunchSource \<Rightarrow> HostLifecycle \<Rightarrow> HostLifecycle \<times> HostEffect list" where
  "host_launch source h =
     (case source of
        UserInteractive \<Rightarrow>
          (case clear_marker_if_latched (h\<lparr>hl_state := StartingInteractive\<rparr>) of
             (h, effects) \<Rightarrow> (h, effects @ [StartRuntimeInteractive]))
      | LoginAutostart \<Rightarrow>
          (case clear_marker_if_latched (h\<lparr>hl_state := StartingBackground\<rparr>) of
             (h, effects) \<Rightarrow> (h, effects @ [StartRuntimeBackground]))
      | McpAuthorized \<Rightarrow>
          if hl_user_quit_latched h then (h\<lparr>hl_state := UserQuitLatched\<rparr>, [RejectMcpLaunch])
          else (h\<lparr>hl_state := StartingBackground\<rparr>, [StartRuntimeBackground]))"

definition restore_window :: "HostLifecycle \<Rightarrow> HostLifecycle \<times> HostEffect list" where
  "restore_window h =
     (h\<lparr>hl_state := WindowVisible\<rparr>,
      [SetRegularActivation] @
      (case hl_state h of
         BackgroundOnly \<Rightarrow> [CreateWindow]
       | WindowVisible \<Rightarrow> []
       | _ \<Rightarrow> [ShowWindow, UnminimizeWindow]) @
      [FocusWindow, RequeryAfterRestore])"

definition second_instance :: "SecondInstanceIntent \<Rightarrow> HostLifecycle \<Rightarrow> HostLifecycle \<times> HostEffect list" where
  "second_instance intent h =
     (if intent = LoginAutostartTuple \<or> intent = McpBackgroundTuple then (h, [IgnoreBackgroundSecondInstance])
      else case restore_window h of (h, effects) \<Rightarrow> (h, effects @ [ActivateExistingInstance]))"

definition explicit_quit :: "HostLifecycle \<Rightarrow> HostLifecycle \<times> HostEffect list" where
  "explicit_quit h =
     (h\<lparr>hl_pre_quit_state := Some (hl_state h), hl_state := GracefulExit MarkerPending\<rparr>, [PersistUserQuit])"

text \<open>The \<open>match\<close> of \<open>dispatch\<close>, by state and event, its arms in the order of the code.\<close>

definition host_step :: "HostEvent \<Rightarrow> HostLifecycle \<Rightarrow> HostLifecycle \<times> HostEffect list" where
  "host_step event h =
     (case hl_state h of
        UserQuitLatched \<Rightarrow>
          (case event of
             Launch source \<Rightarrow> if source = McpAuthorized then (h, [RejectMcpLaunch]) else host_launch source h
           | _ \<Rightarrow> (h, [IgnoredEvent]))
      | NotRunning \<Rightarrow> (case event of Launch source \<Rightarrow> host_launch source h | _ \<Rightarrow> (h, [IgnoredEvent]))
      | StartingInteractive \<Rightarrow>
          (case event of
             RuntimeReady \<Rightarrow>
               (h\<lparr>hl_state := WindowVisible\<rparr>, [CreateTray, CreateWindow, SetRegularActivation, FocusWindow])
           | RuntimeCrash \<Rightarrow> (h\<lparr>hl_state := NotRunning\<rparr>, [RecordCrash])
           | _ \<Rightarrow> (h, [IgnoredEvent]))
      | StartingBackground \<Rightarrow>
          (case event of
             RuntimeReady \<Rightarrow> (h\<lparr>hl_state := BackgroundOnly\<rparr>, [CreateTray])
           | RuntimeCrash \<Rightarrow> (h\<lparr>hl_state := NotRunning\<rparr>, [RecordCrash])
           | _ \<Rightarrow> (h, [IgnoredEvent]))
      | WindowVisible \<Rightarrow>
          (case event of
             SecondInstance intent \<Rightarrow> second_instance intent h
           | WindowCloseRequested \<Rightarrow> (h\<lparr>hl_state := WindowHidden\<rparr>, [PreventWindowClose, HideWindow])
           | TrayRestore \<Rightarrow> (h, [SetRegularActivation, FocusWindow, RequeryAfterRestore])
           | DockReopen \<Rightarrow> (h, [SetRegularActivation, FocusWindow, RequeryAfterRestore])
           | ExplicitQuit \<Rightarrow> explicit_quit h
           | RuntimeCrash \<Rightarrow> (h\<lparr>hl_state := NotRunning\<rparr>, [RecordCrash])
           | WebViewReload \<Rightarrow> (h, [RequeryAfterReload])
           | _ \<Rightarrow> (h, [IgnoredEvent]))
      | WindowHidden \<Rightarrow>
          (case event of
             SecondInstance intent \<Rightarrow> second_instance intent h
           | TrayRestore \<Rightarrow> restore_window h
           | DockReopen \<Rightarrow> restore_window h
           | ExplicitQuit \<Rightarrow> explicit_quit h
           | RuntimeCrash \<Rightarrow> (h\<lparr>hl_state := NotRunning\<rparr>, [RecordCrash])
           | WebViewReload \<Rightarrow> (h, [RequeryAfterReload])
           | _ \<Rightarrow> (h, [IgnoredEvent]))
      | BackgroundOnly \<Rightarrow>
          (case event of
             SecondInstance intent \<Rightarrow> second_instance intent h
           | TrayRestore \<Rightarrow> restore_window h
           | DockReopen \<Rightarrow> restore_window h
           | ExplicitQuit \<Rightarrow> explicit_quit h
           | RuntimeCrash \<Rightarrow> (h\<lparr>hl_state := NotRunning\<rparr>, [RecordCrash])
           | WebViewReload \<Rightarrow> (h, [RequeryAfterReload])
           | _ \<Rightarrow> (h, [IgnoredEvent]))
      | GracefulExit phase \<Rightarrow>
          (case event of
             UserQuitMarkerDurable \<Rightarrow>
               if phase = MarkerPending
               then (h\<lparr>hl_user_quit_latched := True, hl_pre_quit_state := None, hl_state := GracefulExit Draining\<rparr>,
                     [DrainRuntime])
               else (h, [IgnoredEvent])
           | UserQuitMarkerFailed \<Rightarrow>
               if phase = MarkerPending
               then (h\<lparr>hl_state := (case hl_pre_quit_state h of Some s \<Rightarrow> s | None \<Rightarrow> WindowVisible),
                       hl_pre_quit_state := None\<rparr>, [CancelQuit])
               else (h, [IgnoredEvent])
           | DrainCompleted \<Rightarrow>
               if phase = Draining then (h\<lparr>hl_state := GracefulExit Checkpointing\<rparr>, [CheckpointWal])
               else (h, [IgnoredEvent])
           | CheckpointCompleted \<Rightarrow>
               if phase = Checkpointing then (h\<lparr>hl_state := GracefulExit StoppingRuntime\<rparr>, [StopRuntime])
               else (h, [IgnoredEvent])
           | RuntimeStopped \<Rightarrow>
               if phase = StoppingRuntime then (h\<lparr>hl_state := UserQuitLatched\<rparr>, [ExitProcess])
               else (h, [IgnoredEvent])
           | RuntimeCrash \<Rightarrow>
               (h\<lparr>hl_state := (if phase = MarkerPending then NotRunning else UserQuitLatched)\<rparr>, [RecordCrash])
           | _ \<Rightarrow> (h, [IgnoredEvent])))"

definition dispatch :: "HostEvent \<Rightarrow> HostLifecycle \<Rightarrow> Transition \<times> HostLifecycle" where
  "dispatch event h =
     (case host_step event h of
        (h', effects) \<Rightarrow> (\<lparr>tr_from = hl_state h, tr_to = hl_state h', tr_effects = effects\<rparr>, h'))"

section \<open>Runs\<close>

text \<open>The effects of a sequence of events, in order, and the host after it.\<close>

fun host_run :: "HostEvent list \<Rightarrow> HostLifecycle \<Rightarrow> HostEffect list \<times> HostLifecycle" where
  "host_run [] h = ([], h)"
| "host_run (event # events) h =
     (case dispatch event h of
        (t, h) \<Rightarrow> (case host_run events h of (effects, h) \<Rightarrow> (tr_effects t @ effects, h)))"

lemmas host_step_simps = host_step_def host_launch_def clear_marker_if_latched_def restore_window_def
  second_instance_def explicit_quit_def

definition window_state :: "HostState \<Rightarrow> bool" where
  "window_state s \<longleftrightarrow> s = WindowVisible \<or> s = WindowHidden \<or> s = BackgroundOnly"

text \<open>The latch is set when the marker is durable and until the next launch by the user; a quit can be taken back.\<close>

definition lifecycle_ok :: "HostLifecycle \<Rightarrow> bool" where
  "lifecycle_ok h \<longleftrightarrow>
     (hl_user_quit_latched h \<longleftrightarrow>
        hl_state h = UserQuitLatched \<or> (\<exists>phase. hl_state h = GracefulExit phase \<and> phase \<noteq> MarkerPending)) \<and>
     (hl_state h = GracefulExit MarkerPending \<longrightarrow> (\<exists>s. hl_pre_quit_state h = Some s \<and> window_state s))"

lemma lifecycle_ok_new: "lifecycle_ok (HostLifecycle_new latched)"
  by (simp add: lifecycle_ok_def HostLifecycle_new_def)

lemma host_step_ok:
  assumes "lifecycle_ok h"
  shows "lifecycle_ok (fst (host_step event h))"
  using assms
  by (cases "hl_state h"; cases event)
    (auto simp: host_step_simps lifecycle_ok_def window_state_def split: LaunchSource.split)

lemma host_run_append:
  "host_run (xs @ ys) h =
     (case host_run xs h of (e1, h) \<Rightarrow> (case host_run ys h of (e2, h) \<Rightarrow> (e1 @ e2, h)))"
  by (induction xs h rule: host_run.induct) (auto split: prod.split)

lemma host_run_snoc:
  "host_run (xs @ [x]) h =
     (fst (host_run xs h) @ snd (host_step x (snd (host_run xs h))), fst (host_step x (snd (host_run xs h))))"
  by (auto simp: host_run_append dispatch_def split: prod.split)

lemma host_run_ok: "lifecycle_ok h \<Longrightarrow> lifecycle_ok (snd (host_run events h))"
  by (induction events rule: rev_induct) (simp_all add: host_run_snoc host_step_ok)

definition starts :: "HostEffect list \<Rightarrow> nat" where
  "starts effects = length (filter (\<lambda>e. e = StartRuntimeInteractive \<or> e = StartRuntimeBackground) effects)"

definition ends :: "HostEffect list \<Rightarrow> nat" where
  "ends effects = length (filter (\<lambda>e. e = ExitProcess \<or> e = RecordCrash) effects)"

lemma host_step_balance:
  assumes "lifecycle_ok h"
  shows "starts (snd (host_step event h)) + of_bool (runtime_running h) =
    ends (snd (host_step event h)) + of_bool (runtime_running (fst (host_step event h)))"
proof (cases "hl_state h")
  case (GracefulExit phase)
  show ?thesis
  proof (cases "phase = MarkerPending \<and> event = UserQuitMarkerFailed")
    case True
    with assms GracefulExit obtain s where "hl_pre_quit_state h = Some s" "window_state s" by (auto simp: lifecycle_ok_def)
    with True GracefulExit show ?thesis
      by (auto simp: host_step_def starts_def ends_def runtime_running_def window_state_def)
  next
    case False
    with GracefulExit show ?thesis
      by (cases event; cases phase) (simp_all add: host_step_def starts_def ends_def runtime_running_def)
  qed
next
  case UserQuitLatched
  with assms show ?thesis
    by (cases event; simp add: host_step_simps starts_def ends_def runtime_running_def split: LaunchSource.split)
next
  case NotRunning
  with assms show ?thesis
    by (cases event; simp add: host_step_simps starts_def ends_def runtime_running_def lifecycle_ok_def
      split: LaunchSource.split)
qed (cases event; simp add: host_step_simps starts_def ends_def runtime_running_def)+

text \<open>
  C33. The life of a host, from a start with or without the marker and over any events: the latch is set exactly
  while a durable quit is under way or over, a pending quit remembers the window to go back to, and the runtime is
  started once per life: as many starts as exits and crashes, and one more while it runs.
\<close>

theorem host_lifecycle_invariant:
  "(let (effects, h) = host_run events (HostLifecycle_new latched) in
     (hl_user_quit_latched h \<longleftrightarrow>
        hl_state h \<in> {UserQuitLatched, GracefulExit Draining, GracefulExit Checkpointing, GracefulExit StoppingRuntime}) \<and>
     (hl_state h \<noteq> GracefulExit MarkerPending \<or>
        hl_pre_quit_state h \<in> {Some WindowVisible, Some WindowHidden, Some BackgroundOnly}) \<and>
     starts effects = ends effects + of_bool (runtime_running h))"
proof (induction events rule: rev_induct)
  case Nil
  then show ?case by (simp add: HostLifecycle_new_def starts_def ends_def runtime_running_def)
next
  case (snoc event events)
  obtain e h where run: "host_run events (HostLifecycle_new latched) = (e, h)" by fastforce
  obtain h' f where s: "host_step event h = (h', f)" by fastforce
  have ok: "lifecycle_ok h" "lifecycle_ok h'"
    using host_run_ok[OF lifecycle_ok_new, of events latched] host_step_ok[of h event] run s by simp_all
  have latch: "hl_user_quit_latched h' \<longleftrightarrow>
      hl_state h' \<in> {UserQuitLatched, GracefulExit Draining, GracefulExit Checkpointing, GracefulExit StoppingRuntime}"
    using ok(2) ShutdownPhase.exhaust unfolding lifecycle_ok_def by auto
  have pre: "hl_state h' \<noteq> GracefulExit MarkerPending \<or>
      hl_pre_quit_state h' \<in> {Some WindowVisible, Some WindowHidden, Some BackgroundOnly}"
    using ok(2) by (auto simp: lifecycle_ok_def window_state_def)
  have "starts (e @ f) = ends (e @ f) + of_bool (runtime_running h')"
    using snoc host_step_balance[OF ok(1), of event] by (simp add: run s starts_def ends_def)
  with latch pre show ?case by (simp add: host_run_snoc run s)
qed

theorem host_lifecycle_invariant_witness:
  "hl_pre_quit_state (snd (host_run [Launch McpAuthorized, RuntimeReady, ExplicitQuit] (HostLifecycle_new False))) =
     Some BackgroundOnly \<and>
   starts (fst (host_run [Launch McpAuthorized, RuntimeReady, ExplicitQuit] (HostLifecycle_new False))) = 1"
proof -
  let ?events = "[Launch McpAuthorized, RuntimeReady, ExplicitQuit]"
  have run: "host_run ?events (HostLifecycle_new False) =
      ([StartRuntimeBackground, CreateTray, PersistUserQuit],
       \<lparr>hl_state = GracefulExit MarkerPending, hl_user_quit_latched = False, hl_pre_quit_state = Some BackgroundOnly\<rparr>)"
    by code_simp
  from host_lifecycle_invariant[of ?events False] show ?thesis
    unfolding run by (simp add: starts_def ends_def runtime_running_def)
qed

section \<open>Quitting\<close>

text \<open>The effects that a quit is made of.\<close>

definition shutdown_effect :: "HostEffect \<Rightarrow> bool" where
  "shutdown_effect e \<longleftrightarrow>
     e \<in> {StartRuntimeInteractive, StartRuntimeBackground, PersistUserQuit, CancelQuit, DrainRuntime, CheckpointWal,
       StopRuntime, ExitProcess, RecordCrash}"

text \<open>What a host has done of the quit it is in, the last effect first.\<close>

fun quit_progress :: "HostState \<Rightarrow> HostEffect list" where
  "quit_progress (GracefulExit MarkerPending) = [PersistUserQuit]"
| "quit_progress (GracefulExit Draining) = [DrainRuntime, PersistUserQuit]"
| "quit_progress (GracefulExit Checkpointing) = [CheckpointWal, DrainRuntime, PersistUserQuit]"
| "quit_progress (GracefulExit StoppingRuntime) = [StopRuntime, CheckpointWal, DrainRuntime, PersistUserQuit]"
| "quit_progress _ = []"

fun exits_after_quit :: "HostEffect list \<Rightarrow> bool" where
  "exits_after_quit [] = True"
| "exits_after_quit (e # es) \<longleftrightarrow>
     (e \<noteq> ExitProcess \<or> take 4 es = quit_progress (GracefulExit StoppingRuntime)) \<and> exits_after_quit es"

lemma exits_after_quit_split:
  "exits_after_quit (a @ ExitProcess # b) \<Longrightarrow> take 4 b = quit_progress (GracefulExit StoppingRuntime)"
  by (induction a) auto

text \<open>A step adds to the quit under way, or it leaves it; only a stopped runtime lets the process exit.\<close>

lemma window_quit_progress: "window_state s \<Longrightarrow> quit_progress s = []"
  by (auto simp: window_state_def)

lemma host_step_shutdown:
  assumes "lifecycle_ok h"
  shows "ExitProcess \<notin> set (snd (host_step event h)) \<and> quit_progress (hl_state (fst (host_step event h))) =
      rev (filter shutdown_effect (snd (host_step event h))) @ quit_progress (hl_state h)
    \<or> quit_progress (hl_state (fst (host_step event h))) = [] \<and>
       (ExitProcess \<notin> set (snd (host_step event h)) \<or>
        snd (host_step event h) = [ExitProcess] \<and> hl_state h = GracefulExit StoppingRuntime)"
proof (cases "hl_state h")
  case (GracefulExit phase)
  show ?thesis
  proof (cases "phase = MarkerPending \<and> event = UserQuitMarkerFailed")
    case True
    with assms GracefulExit obtain s where "hl_pre_quit_state h = Some s" "quit_progress s = []"
      by (auto simp: lifecycle_ok_def window_quit_progress)
    with True GracefulExit show ?thesis by (simp add: host_step_def)
  next
    case False
    with GracefulExit show ?thesis by (cases event; cases phase) (simp_all add: host_step_def shutdown_effect_def)
  qed
qed (cases event; simp add: host_step_simps shutdown_effect_def split: LaunchSource.split)+

lemma exits_after_quit_append:
  "ExitProcess \<notin> set a \<Longrightarrow> exits_after_quit (a @ b) = exits_after_quit b"
  by (induction a) auto

lemma host_step_quit:
  assumes "host_step event h = (h', effects)" and "lifecycle_ok h"
    and "take (length (quit_progress (hl_state h))) past = quit_progress (hl_state h)" and "exits_after_quit past"
  shows "take (length (quit_progress (hl_state h'))) (rev (filter shutdown_effect effects) @ past) =
      quit_progress (hl_state h') \<and>
    exits_after_quit (rev (filter shutdown_effect effects) @ past)"
  using host_step_shutdown[OF assms(2), of event] unfolding assms(1) fst_conv snd_conv
proof (elim disjE conjE)
  assume "effects = [ExitProcess]" "hl_state h = GracefulExit StoppingRuntime" "quit_progress (hl_state h') = []"
  with assms(3,4) show ?thesis by (simp add: shutdown_effect_def numeral_eq_Suc)
qed (use assms(3,4) in \<open>simp_all add: exits_after_quit_append\<close>)

lemma host_run_quit:
  assumes "host_run events (HostLifecycle_new latched) = (effects, h)"
  shows "take (length (quit_progress (hl_state h))) (rev (filter shutdown_effect effects)) = quit_progress (hl_state h) \<and>
    exits_after_quit (rev (filter shutdown_effect effects))"
  using assms
proof (induction events arbitrary: effects h rule: rev_induct)
  case Nil
  then show ?case by (auto simp: HostLifecycle_new_def)
next
  case (snoc event events)
  obtain e g where run: "host_run events (HostLifecycle_new latched) = (e, g)" by fastforce
  obtain h' f where s: "host_step event g = (h', f)" by fastforce
  have "lifecycle_ok g" using host_run_ok[OF lifecycle_ok_new, of events latched] run by simp
  with snoc.IH[OF run] s have "take (length (quit_progress (hl_state h')))
        (rev (filter shutdown_effect f) @ rev (filter shutdown_effect e)) = quit_progress (hl_state h') \<and>
      exits_after_quit (rev (filter shutdown_effect f) @ rev (filter shutdown_effect e))"
    using host_step_quit by blast
  with snoc.prems show ?case by (auto simp: host_run_snoc run s)
qed



section \<open>The arguments of a process\<close>

datatype LaunchAuthorizationError = LaunchAuthorizationError

definition BACKGROUND :: string where
  "BACKGROUND = ''--background''"

definition MCP_SOURCE :: string where
  "MCP_SOURCE = ''--launch-source=mcp''"

definition LOGIN_SOURCE :: string where
  "LOGIN_SOURCE = ''--launch-source=login''"

text \<open>
  Arguments are the bytes of an \<open>OsString\<close>; \<open>to_string_lossy\<close> keeps the ASCII characters of a prefix and makes no new
  ones, so the prefix is looked for in the bytes.
\<close>

definition parse_launch_source :: "string list \<Rightarrow> LaunchAuthorizationError + LaunchSource" where
  "parse_launch_source arguments =
     (if arguments = [] then Inr UserInteractive
      else if arguments = [BACKGROUND, MCP_SOURCE] then Inr McpAuthorized
      else if arguments = [BACKGROUND, LOGIN_SOURCE] then Inr LoginAutostart
      else if list_ex (\<lambda>argument. argument = BACKGROUND \<or> starts_with argument ''--launch-source='') arguments
      then Inl LaunchAuthorizationError
      else Inr UserInteractive)"

definition parse_process_arguments :: "string list \<Rightarrow> LaunchAuthorizationError + LaunchSource" where
  "parse_process_arguments arguments = parse_launch_source (drop 1 arguments)"

text \<open>\<open>Path::extension\<close> of a file name: what follows its last dot, if the dot is not its first character.\<close>

definition name_extension :: "string \<Rightarrow> string option" where
  "name_extension name =
     (if CHR 0x2E \<notin> set name then None
      else
        let after = rev (takeWhile (\<lambda>c. c \<noteq> CHR 0x2E) (rev name)) in
        if length after + 1 = length name then None else Some after)"

definition path_extension :: "Path \<Rightarrow> string option" where
  "path_extension p = Option.bind (path_name p) name_extension"

function app_bundle_from_executable :: "Path \<Rightarrow> Path option" where
  "app_bundle_from_executable p =
     (if path_extension p = Some ''app'' then Some p
      else case path_parent p of None \<Rightarrow> None | Some q \<Rightarrow> app_bundle_from_executable q)"
  by pat_completeness auto
termination
  by (relation "measure length") (auto simp: path_parent_def split: if_splits)

declare app_bundle_from_executable.simps [simp del]

section \<open>The start of the host\<close>

text \<open>
  \<open>authorize_launch\<close>: a launch by the user or at login lifts the quit, a launch for MCP must find it lifted. \<open>fs1\<close>,
  \<open>fs2\<close> and \<open>fs3\<close> are the file system as the looks of \<open>authorize_mcp_host_launch\<close> find it.
\<close>

definition authorize_launch ::
    "(string \<Rightarrow> UserQuitMarker option) \<Rightarrow> (string \<Rightarrow> IntegrationRecord option) \<Rightarrow> LaunchSource \<Rightarrow> FileSystem \<Rightarrow> FileSystem \<Rightarrow>
     FileSystem \<Rightarrow> IntegrationPaths \<Rightarrow> Path \<Rightarrow> (LaunchAuthorizationError + unit) \<times> FileSystem" where
  "authorize_launch parse_marker parse_record source fs1 fs2 fs3 paths current_app_bundle =
     (if source = McpAuthorized
      then
        (map_err (\<lambda>_. LaunchAuthorizationError)
           (res_bind (authorize_mcp_host_launch parse_marker parse_record fs1 fs2 fs3 paths current_app_bundle)
              (\<lambda>_. Inr ())), fs3)
      else
        case clear_user_quit fs1 paths of
          (r, fs) \<Rightarrow> (map_err (\<lambda>_. LaunchAuthorizationError) r, fs))"

text \<open>The part of \<open>run\<close> before the application is built: the source and the app bundle that it runs with.\<close>

definition host_start ::
    "(string \<Rightarrow> UserQuitMarker option) \<Rightarrow> (string \<Rightarrow> IntegrationRecord option) \<Rightarrow> string list \<Rightarrow> Path option \<Rightarrow>
     Path option \<Rightarrow> FileSystem \<Rightarrow> FileSystem \<Rightarrow> FileSystem \<Rightarrow> (string + LaunchSource \<times> Path) \<times> FileSystem" where
  "host_start parse_marker parse_record args home current_exe fs1 fs2 fs3 =
     (case parse_process_arguments args of
        Inl _ \<Rightarrow> (Inl ''desktop_launch_rejected: Invalid launch arguments.'', fs1)
      | Inr source \<Rightarrow>
          (case home of
             None \<Rightarrow> (Inl ''desktop_launch_rejected: HOME is unavailable.'', fs1)
           | Some home \<Rightarrow>
               (let paths = paths_from_home home in
                case current_exe of
                  None \<Rightarrow> (Inl ''desktop_launch_rejected: Executable path is unavailable.'', fs1)
                | Some current_executable \<Rightarrow>
                    (case (case app_bundle_from_executable current_executable of
                             Some app \<Rightarrow> Some app
                           | None \<Rightarrow> if source \<noteq> McpAuthorized then Some (ip_stable_app paths) else None) of
                       None \<Rightarrow> (Inl ''desktop_launch_rejected: App bundle is unavailable.'', fs1)
                     | Some current_app \<Rightarrow>
                         (case authorize_launch parse_marker parse_record source fs1 fs2 fs3 paths current_app of
                            (Inl _, fs) \<Rightarrow> (Inl ''desktop_launch_rejected: Launch is not authorized.'', fs)
                          | (Inr _, fs) \<Rightarrow> (Inr (source, current_app), fs))))))"

lemma starts_with_self: "starts_with (p @ s) p"
  by (simp add: starts_with_def)

text \<open>
  Only the two fixed pairs of arguments start a background host, the other uses of their words are refused, and
  everything else is a start by the user; the command of the bridge passes the pair of MCP, whatever the app is.
\<close>

theorem launch_sources:
  "parse_process_arguments (program # args) =
     (if args = [''--background'', ''--launch-source=mcp''] then Inr McpAuthorized
      else if args = [''--background'', ''--launch-source=login''] then Inr LoginAutostart
      else if ''--background'' \<in> set args \<or> (\<exists>a rest. a = ''--launch-source='' @ rest \<and> a \<in> set args)
      then Inl LaunchAuthorizationError else Inr UserInteractive) \<and>
   parse_process_arguments
     (program # [t. ArgText t \<leftarrow> drop 1 (dropWhile (\<lambda>a. a \<noteq> ArgText ''--args'') (snd (open_command app)))]) =
     Inr McpAuthorized"
proof -
  have "starts_with a p \<longleftrightarrow> (\<exists>rest. a = p @ rest)" for a p :: string
    by (metis append_take_drop_id starts_with_def starts_with_self)
  then have "list_ex (\<lambda>a. a = BACKGROUND \<or> starts_with a ''--launch-source='') args \<longleftrightarrow>
      ''--background'' \<in> set args \<or> (\<exists>a rest. a = ''--launch-source='' @ rest \<and> a \<in> set args)"
    by (auto simp: list_ex_iff BACKGROUND_def)
  then have "parse_launch_source args =
     (if args = [''--background'', ''--launch-source=mcp''] then Inr McpAuthorized
      else if args = [''--background'', ''--launch-source=login''] then Inr LoginAutostart
      else if ''--background'' \<in> set args \<or> (\<exists>a rest. a = ''--launch-source='' @ rest \<and> a \<in> set args)
      then Inl LaunchAuthorizationError else Inr UserInteractive)"
    by (cases "args = []") (simp_all add: parse_launch_source_def MCP_SOURCE_def LOGIN_SOURCE_def BACKGROUND_def)
  moreover have "parse_launch_source [''--background'', ''--launch-source=mcp''] = Inr McpAuthorized" by code_simp
  ultimately show ?thesis by (simp add: parse_process_arguments_def open_command_def)
qed

lemma app_bundle_facts:
  "app_bundle_from_executable p = Some app \<Longrightarrow> path_extension app = Some ''app'' \<and> (\<exists>rest. p = app @ rest)"
proof (induction p rule: app_bundle_from_executable.induct)
  case (1 p)
  show ?case
  proof (cases "path_extension p = Some ''app''")
    case True
    with "1.prems" show ?thesis by (subst (asm) app_bundle_from_executable.simps) auto
  next
    case False
    with "1.prems" obtain q where q: "path_parent p = Some q" "app_bundle_from_executable q = Some app"
      by (subst (asm) app_bundle_from_executable.simps) (auto split: option.splits)
    from q(1) have "p = q @ [last p]" by (auto simp: path_parent_def split: if_splits)
    with "1.IH"[OF False q] show ?thesis by (metis append.assoc)
  qed
qed

text \<open>
  C32. A process that starts as the host was let in. For MCP: it was started with the pair of MCP, from inside of an app
  bundle that is the installed app, and neither look found a marker of a quit, with a record between them that was
  installed for this app, allows the launch and names a team. Otherwise: the marker is gone when it starts.
\<close>

theorem host_start_sound:
  assumes "host_start parse_marker parse args (Some home) exe fs1 fs2 fs3 = (Inr (source, app), fs')"
  shows "if source = McpAuthorized
    then drop 1 args = [''--background'', ''--launch-source=mcp''] \<and>
      (\<exists>rest. exe = Some (app @ rest)) \<and> path_extension app = Some ''app'' \<and>
      canonicalize fs2 app = canonicalize fs2 (ip_stable_app (paths_from_home home)) \<and>
      lstat fs1 (ip_user_quit (paths_from_home home)) = Inl IoNotFound \<and>
      lstat fs3 (ip_user_quit (paths_from_home home)) = Inl IoNotFound \<and>
      (\<exists>r team. validate_integration_record_for_host parse fs2 (paths_from_home home) app = Inr r \<and>
         ir_allow_mcp_auto_launch r \<and> ir_team_id r = Some team \<and> team \<noteq> [])
    else inspect_user_quit parse_marker fs' (paths_from_home home) = QuitClear"
proof -
  obtain exe_path where start: "parse_process_arguments args = Inr source" "exe = Some exe_path"
      "app_bundle_from_executable exe_path = Some app \<or>
       app_bundle_from_executable exe_path = None \<and> source \<noteq> McpAuthorized"
      "authorize_launch parse_marker parse source fs1 fs2 fs3 (paths_from_home home) app = (Inr (), fs')"
    using assms by (auto simp: host_start_def Let_def split: sum.splits option.splits prod.splits if_splits)
  show ?thesis
  proof (cases "source = McpAuthorized")
    case False
    with start(4) have "clear_user_quit fs1 (paths_from_home home) = (Inr (), fs')"
      by (auto simp: authorize_launch_def map_err_def split: prod.splits sum.splits)
    from clear_removes_marker[OF this] False show ?thesis by simp
  next
    case True
    with start(4) obtain r where r: "authorize_mcp_host_launch parse_marker parse fs1 fs2 fs3 (paths_from_home home) app = Inr r"
      by (auto simp: authorize_launch_def res_simps)
    then have "validate_integration_record_for_host parse fs2 (paths_from_home home) app = Inr r"
      by (auto simp: authorize_mcp_host_launch_def res_simps split: if_splits)
    moreover have "drop 1 args = [''--background'', ''--launch-source=mcp'']"
      using start(1) True by (auto simp: parse_process_arguments_def parse_launch_source_def BACKGROUND_def MCP_SOURCE_def
        split: if_splits)
    moreover have "app_bundle_from_executable exe_path = Some app" using start(3) True by simp
    ultimately show ?thesis
      using app_bundle_facts authorized_facts[OF r] True start(2) by auto
  qed
qed

theorem host_start_sound_witness:
  "(\<exists>app. fst (host_start (\<lambda>_. None) (\<lambda>_. Some sample_record) [''app'', ''--background'', ''--launch-source=mcp'']
       (Some sample_home) (Some (path_new ''/u/Applications/Next Infra.app/Contents/MacOS/next-infra''))
       sample_installed sample_installed sample_installed) = Inr (McpAuthorized, app) \<and>
     canonicalize sample_installed app = canonicalize sample_installed (ip_stable_app (paths_from_home sample_home))) \<and>
   inspect_user_quit (\<lambda>_. None)
     (snd (host_start (\<lambda>_. None) (\<lambda>_. None) [''app''] (Some sample_home) (Some (path_new ''/u/next-infra''))
        sample_installed sample_installed sample_installed)) (paths_from_home sample_home) = QuitClear"
proof -
  let ?app = "path_new ''/u/Applications/Next Infra.app''"
  have mcp: "fst (host_start (\<lambda>_. None) (\<lambda>_. Some sample_record) [''app'', ''--background'', ''--launch-source=mcp'']
      (Some sample_home) (Some (path_new ''/u/Applications/Next Infra.app/Contents/MacOS/next-infra''))
      sample_installed sample_installed sample_installed) = Inr (McpAuthorized, ?app)"
    by code_simp
  have user: "fst (host_start (\<lambda>_. None) (\<lambda>_. None) [''app''] (Some sample_home) (Some (path_new ''/u/next-infra''))
      sample_installed sample_installed sample_installed) = Inr (UserInteractive, ip_stable_app (paths_from_home sample_home))"
    by code_simp
  show ?thesis
    using host_start_sound[OF prod_eqI[of "host_start _ _ _ _ _ _ _ _" "(_, _)", simplified, OF mcp refl]]
      host_start_sound[OF prod_eqI[of "host_start _ _ _ _ _ _ _ _" "(_, _)", simplified, OF user refl]] mcp
    by auto
qed

end
