(* ===== verification/Desktop_Driver.thy ===== *)
theory Desktop_Driver
  imports Host_Lifecycle Runtime_Properties
begin

text \<open>
  The desktop host around the runtime: \<open>scheduled_sync.rs\<close>, the driver that ticks the scheduler and hands the due
  connections to their syncs, and of \<open>composition/mod.rs\<close> the flags that let one sync of a connector type run at a
  time, the manual sync, the purge, sleep and wake, and the ways the host stops. A sync itself is a task that holds its
  flag until it ends.
\<close>

section \<open>State\<close>

datatype EnqueueError = SyncInProgress | SyncUnavailable

text \<open>Who holds the flag of a connector type: a sync task, a connection that is being set up, or a purge.\<close>

datatype Holder = SyncTask Connection SyncTrigger SyncRunId | Connecting | PurgeGuard ConnectionId

text \<open>
  \<open>AppState\<close>: the store is the one of the runtime's backend, \<open>dk_running\<close> the \<open>AtomicBool\<close> of each connector type, and
  \<open>dk_holders\<close> the tasks and guards that are alive, with the type whose flag they will release.
\<close>

record Desktop =
  dk_runtime :: "Database WriterQueue Runtime"
  dk_pending_syncs :: "ScheduledSync list"
  dk_running :: "ConnectorType \<Rightarrow> bool"
  dk_holders :: "(ConnectorType \<times> Holder) list"
  dk_local_rpc :: bool
  dk_scheduler_driver :: bool
  dk_explicit_quit :: bool
  dk_system_shutdown :: bool
  dk_fs :: FileSystem

definition dk_store :: "Desktop \<Rightarrow> Database" where
  "dk_store d = wq_store (rt_backend (dk_runtime d))"

definition with_store :: "Database \<Rightarrow> Desktop \<Rightarrow> Desktop" where
  "with_store db d =
     d\<lparr>dk_runtime := (dk_runtime d)\<lparr>rt_backend := (rt_backend (dk_runtime d))\<lparr>wq_store := db\<rparr>\<rparr>\<rparr>"

definition with_scheduler :: "Scheduler \<Rightarrow> Desktop \<Rightarrow> Desktop" where
  "with_scheduler sch d = d\<lparr>dk_runtime := (dk_runtime d)\<lparr>rt_scheduler := sch\<rparr>\<rparr>"

section \<open>Connector types\<close>

definition has_live_sync_path :: "ConnectorType \<Rightarrow> bool" where
  "has_live_sync_path t \<longleftrightarrow>
     t \<in> {''github'', ''dokploy'', ''cloudflare'', ''supabase-managed'', ''aliyun'', ''tencent''}"

text \<open>\<open>recommended_sync_interval_secs\<close> of the descriptors.\<close>

definition recommended_sync_interval_secs :: "ConnectorType \<Rightarrow> 64 word option" where
  "recommended_sync_interval_secs t =
     (if t \<in> {''github'', ''dokploy'', ''cloudflare'', ''supabase-managed'', ''aliyun'', ''tencent''} then Some 900
      else if t = ''ssh'' then Some 300
      else None)"

definition DEFAULT_QUERY_SYNC_INTERVAL_MILLIS :: "64 word" where
  "DEFAULT_QUERY_SYNC_INTERVAL_MILLIS = 15 * 60 * 1000"

definition query_sync_interval_millis :: "ConnectorType \<Rightarrow> 64 word" where
  "query_sync_interval_millis t =
     (case recommended_sync_interval_secs t of
        Some secs \<Rightarrow> (if 2 ^ 64 \<le> uint secs * 1000 then - 1 else secs * 1000)
      | None \<Rightarrow> DEFAULT_QUERY_SYNC_INTERVAL_MILLIS)"

definition flagged :: "ConnectorType \<Rightarrow> bool" where
  "flagged t \<longleftrightarrow> has_live_sync_path t \<or> t = ''ssh''"

section \<open>Flags\<close>

definition set_running :: "ConnectorType \<Rightarrow> bool \<Rightarrow> Desktop \<Rightarrow> Desktop" where
  "set_running t b d = d\<lparr>dk_running := (dk_running d)(t := b)\<rparr>"

definition hold :: "ConnectorType \<Rightarrow> Holder \<Rightarrow> Desktop \<Rightarrow> Desktop" where
  "hold t holder d = d\<lparr>dk_holders := dk_holders d @ [(t, holder)]\<rparr>"

definition let_go :: "ConnectorType \<Rightarrow> Holder \<Rightarrow> Desktop \<Rightarrow> Desktop" where
  "let_go t holder d = d\<lparr>dk_holders := remove1 (t, holder) (dk_holders d)\<rparr>"

text \<open>\<open>begin_*_sync\<close>, and \<open>SyncRunGuard::acquire\<close>: the swap of the flag.\<close>

definition begin_sync :: "ConnectorType \<Rightarrow> Desktop \<Rightarrow> (EnqueueError + unit) \<times> Desktop" where
  "begin_sync t d = (if dk_running d t then Inl SyncInProgress else Inr (), set_running t True d)"

text \<open>\<open>spawn_*_sync\<close>: the task runs until it ends or panics.\<close>

definition spawn_sync :: "ConnectorType \<Rightarrow> Connection \<Rightarrow> SyncTrigger \<Rightarrow> SyncRunId \<Rightarrow> Desktop \<Rightarrow> Desktop" where
  "spawn_sync t connection trigger sync_run_id d = hold t (SyncTask connection trigger sync_run_id) d"

definition task_ends :: "ConnectorType \<Rightarrow> Holder \<Rightarrow> Desktop \<Rightarrow> Desktop" where
  "task_ends t holder d = set_running t False (let_go t holder d)"

text \<open>
  A panic unwinds the task: the tasks of GitHub and SSH own a \<open>SyncRunGuard\<close>, whose drop releases the flag; the others
  release it in the statement after the sync, which a panic does not reach.
\<close>

definition task_panics :: "ConnectorType \<Rightarrow> Holder \<Rightarrow> Desktop \<Rightarrow> Desktop" where
  "task_panics t holder d =
     (if t = ''github'' \<or> t = ''ssh'' then set_running t False (let_go t holder d) else let_go t holder d)"

section \<open>The scheduled driver\<close>

definition driver_resolve :: "Desktop \<Rightarrow> ConnectionId \<Rightarrow> Connection option" where
  "driver_resolve d i = (case get_connection (dk_store d) i of Inr (Some c) \<Rightarrow> Some c | _ \<Rightarrow> None)"

text \<open>The \<open>enqueue\<close> closure of \<open>AppState::open\<close>; \<open>uuid\<close> is the fresh UUID of the run.\<close>

definition driver_enqueue :: "string \<Rightarrow> Connection \<Rightarrow> SyncTrigger \<Rightarrow> Desktop \<Rightarrow> (EnqueueError + unit) \<times> Desktop" where
  "driver_enqueue uuid connection trigger d =
     (let t = conn_type connection in
      if t \<in> {''github'', ''dokploy'', ''cloudflare'', ''supabase-managed'', ''aliyun'', ''tencent''}
      then
        case begin_sync t d of
          (Inl e, d) \<Rightarrow> (Inl e, d)
        | (Inr _, d) \<Rightarrow>
            (case string_value_new ''SyncRunId'' (t @ ''-scheduled-'' @ uuid) of
               Inl _ \<Rightarrow> (Inl SyncUnavailable, set_running t False d)
             | Inr sync_run_id \<Rightarrow> (Inr (), spawn_sync t connection trigger sync_run_id d))
      else (Inl SyncUnavailable, d))"

text \<open>
  \<open>tick\<close>, over the \<open>resolve\<close> and \<open>enqueue\<close> that the driver was made with: the pending plans and the due ones, then each
  of them in order. \<open>None\<close> is a panic of the scheduler.
\<close>

definition tick_plans :: "Timestamp \<Rightarrow> Desktop \<Rightarrow> (ScheduledSync list \<times> Desktop) option" where
  "tick_plans at d =
     map_option (\<lambda>(due, runtime).
        (dk_pending_syncs d @ (case due of Inl (e :: StoreError RuntimeError) \<Rightarrow> [] | Inr plans \<Rightarrow> plans),
         d\<lparr>dk_runtime := runtime, dk_pending_syncs := []\<rparr>))
       (runtime_plan_due at (dk_runtime d))"

definition dispatch_plan ::
    "('s \<Rightarrow> ConnectionId \<Rightarrow> Connection option) \<Rightarrow> (ConnectionId \<Rightarrow> Connection \<Rightarrow> SyncTrigger \<Rightarrow> 's \<Rightarrow> ('e + unit) \<times> 's) \<Rightarrow>
     ScheduledSync \<Rightarrow> 's \<Rightarrow> 's" where
  "dispatch_plan resolver enqueuer plan s =
     (case resolver s (ss_connection_id plan) of
        None \<Rightarrow> s
      | Some connection \<Rightarrow>
          if \<not> conn_enabled connection \<or> \<not> has_live_sync_path (conn_type connection) then s
          else snd (enqueuer (ss_connection_id plan) connection Schedule s))"

definition driver_tick :: "(ConnectionId \<Rightarrow> string) \<Rightarrow> Timestamp \<Rightarrow> Desktop \<Rightarrow> Desktop option" where
  "driver_tick uuid at d =
     map_option (\<lambda>(plans, d). fold (dispatch_plan driver_resolve (\<lambda>i. driver_enqueue (uuid i))) plans d)
       (tick_plans at d)"

text \<open>\<open>register_connection\<close>, and the registration of the live connections when the state is opened.\<close>

definition next_due_after :: "Timestamp \<Rightarrow> 64 word \<Rightarrow> DomainError + Timestamp" where
  "next_due_after at interval = from_unix_millis (i64_saturating_add at (sint interval))"

definition register_connection :: "Connection \<Rightarrow> Timestamp \<Rightarrow> Scheduler \<Rightarrow> (SchedulerError + Scheduler) option" where
  "register_connection connection at sch =
     (let interval = query_sync_interval_millis (conn_type connection) in
      case next_due_after at interval of
        Inl _ \<Rightarrow> None
      | Inr next_due \<Rightarrow> Some (scheduler_register (conn_id connection) interval next_due sch))"

fun register_all :: "Timestamp \<Rightarrow> Connection list \<Rightarrow> Scheduler \<Rightarrow> Scheduler" where
  "register_all evaluated_at [] sch = sch"
| "register_all evaluated_at (connection # rest) sch =
     register_all evaluated_at rest
       (if conn_enabled connection \<and> has_live_sync_path (conn_type connection)
        then
          let interval = query_sync_interval_millis (conn_type connection);
              next_due = (case next_due_after evaluated_at interval of Inr t \<Rightarrow> t | Inl _ \<Rightarrow> evaluated_at) in
          case scheduler_register (conn_id connection) interval next_due sch of Inr sch' \<Rightarrow> sch' | Inl _ \<Rightarrow> sch
        else sch)"

section \<open>Commands\<close>

definition safe_error :: "string \<Rightarrow> string \<Rightarrow> ErrorEnvelope" where
  "safe_error code message =
     \<lparr>ee_schema_version = QUERY_DTO_SCHEMA_VERSION, ee_code = code, ee_message = message, ee_retryable = False\<rparr>"

definition sync_in_progress_error :: "string \<Rightarrow> ErrorEnvelope" where
  "sync_in_progress_error message =
     \<lparr>ee_schema_version = QUERY_DTO_SCHEMA_VERSION, ee_code = ''sync_in_progress'', ee_message = message,
      ee_retryable = True\<rparr>"

definition connection_id_of :: "string \<Rightarrow> ErrorEnvelope + ConnectionId" where
  "connection_id_of connection_id =
     map_err (\<lambda>_. safe_error ''invalid_connection'' ''Connection identifier is invalid.'')
       (string_value_new ''ConnectionId'' connection_id)"

definition manual_github_sync :: "string \<Rightarrow> string \<Rightarrow> Desktop \<Rightarrow> (ErrorEnvelope + string) \<times> Desktop" where
  "manual_github_sync uuid connection_id d =
     (let unavailable = safe_error ''connection_unavailable'' ''GitHub connection is unavailable.'' in
      case connection_id_of connection_id of
        Inl e \<Rightarrow> (Inl e, d)
      | Inr i \<Rightarrow>
          (case get_connection (dk_store d) i of
             Inl _ \<Rightarrow> (Inl unavailable, d)
           | Inr found \<Rightarrow>
               (case found of
                  None \<Rightarrow> (Inl unavailable, d)
                | Some connection \<Rightarrow>
                    if \<not> conn_enabled connection \<or> conn_type connection \<noteq> ''github'' then (Inl unavailable, d)
                    else
                      (case begin_sync ''github'' d of
                         (Inl _, d) \<Rightarrow> (Inl (sync_in_progress_error ''A GitHub synchronization is already running.''), d)
                       | (Inr _, d) \<Rightarrow>
                           (case string_value_new ''SyncRunId'' (''github-sync-'' @ uuid) of
                              Inl _ \<Rightarrow> (Inl (safe_error ''sync_unavailable'' ''GitHub synchronization could not start.''), d)
                            | Inr run \<Rightarrow> (Inr run, spawn_sync ''github'' connection User run d))))))"

text \<open>
  A new connection takes the flag of its type first. What its provider and the store answer decides whether it is
  set up: \<open>outcome\<close> is the stored connection with the UUID of its first sync, or \<open>None\<close> when a step failed, which
  releases the flag. A failed registration is only logged.
\<close>

definition connect_begin :: "ConnectorType \<Rightarrow> Desktop \<Rightarrow> (EnqueueError + unit) \<times> Desktop" where
  "connect_begin t d =
     (case begin_sync t d of (Inl e, d) \<Rightarrow> (Inl e, d) | (Inr u, d) \<Rightarrow> (Inr u, hold t Connecting d))"

definition connect_end :: "ConnectorType \<Rightarrow> (Connection \<times> SyncRunId) option \<Rightarrow> Timestamp \<Rightarrow> Desktop \<Rightarrow> Desktop" where
  "connect_end t outcome at d =
     (let d = let_go t Connecting d in
      case outcome of
        None \<Rightarrow> set_running t False d
      | Some (connection, run) \<Rightarrow>
          (let d = (if has_live_sync_path t
                    then with_scheduler (register_all at [connection] (rt_scheduler (dk_runtime d))) d else d) in
           spawn_sync t connection User run d))"

text \<open>\<open>existing_connection\<close> and \<open>acquire_sync_guard\<close>.\<close>

definition existing_connection :: "string \<Rightarrow> Desktop \<Rightarrow> ErrorEnvelope + Connection" where
  "existing_connection connection_id d =
     (let unavailable = safe_error ''connection_unavailable'' ''Connection is unavailable.'' in
      res_bind (connection_id_of connection_id) (\<lambda>i.
      res_bind (map_err (\<lambda>_. unavailable) (get_connection (dk_store d) i)) (\<lambda>found.
        case found of
          None \<Rightarrow> Inl unavailable
        | Some connection \<Rightarrow> if conn_deleted_at connection \<noteq> None then Inl unavailable else Inr connection)))"

definition acquire_sync_guard :: "Connection \<Rightarrow> Desktop \<Rightarrow> (ErrorEnvelope + unit) \<times> Desktop" where
  "acquire_sync_guard connection d =
     (let t = conn_type connection in
      if flagged t
      then
        case begin_sync t d of
          (Inl _, d) \<Rightarrow> (Inl (sync_in_progress_error ''A synchronization is already running for this connection.''), d)
        | (Inr u, d) \<Rightarrow> (Inr u, hold t (PurgeGuard (conn_id connection)) d)
      else (Inr (), hold t (PurgeGuard (conn_id connection)) d))"

text \<open>
  \<open>purge_connection\<close> up to the guard, and with the guard: its drop releases the flag, or a flag of its own when the
  type has none. \<open>now\<close> is the clock of the store. The refresh of the query context is left out.
\<close>

definition purge_begin :: "string \<Rightarrow> Desktop \<Rightarrow> (ErrorEnvelope + Connection) \<times> Desktop" where
  "purge_begin connection_id d =
     (case existing_connection connection_id d of
        Inl e \<Rightarrow> (Inl e, d)
      | Inr connection \<Rightarrow>
          (case acquire_sync_guard connection d of
             (Inl e, d) \<Rightarrow> (Inl e, d)
           | (Inr _, d) \<Rightarrow> (Inr connection, d)))"

definition guard_drop :: "Connection \<Rightarrow> Desktop \<Rightarrow> Desktop" where
  "guard_drop connection d =
     (let t = conn_type connection; d = let_go t (PurgeGuard (conn_id connection)) d in
      if flagged t then set_running t False d else d)"

definition purge_end :: "int \<Rightarrow> Connection \<Rightarrow> Desktop \<Rightarrow> (ErrorEnvelope + ConnectionPurgeSummary) \<times> Desktop" where
  "purge_end now connection d =
     (case purge_connection now (conn_id connection) (dk_store d) of
        Inl _ \<Rightarrow> (Inl (safe_error ''connection_purge_unavailable'' ''The local connection snapshot could not be removed.''),
                  guard_drop connection d)
      | Inr (summary, db) \<Rightarrow>
          (let d = with_store db d;
               d = with_scheduler (snd (scheduler_remove (conn_id connection) (rt_scheduler (dk_runtime d)))) d in
           (Inr summary, guard_drop connection d)))"

definition handle_sleep :: "Desktop \<Rightarrow> Desktop" where
  "handle_sleep d =
     d\<lparr>dk_runtime := snd (runtime_sleep (dk_runtime d) :: (StoreError RuntimeError + unit) \<times> _)\<rparr>"

definition handle_wake :: "Timestamp \<Rightarrow> Desktop \<Rightarrow> Desktop option" where
  "handle_wake at d =
     map_option (\<lambda>(plans, runtime).
        case plans of
          Inl (e :: StoreError RuntimeError) \<Rightarrow> d\<lparr>dk_runtime := runtime\<rparr>
        | Inr plans \<Rightarrow> d\<lparr>dk_runtime := runtime, dk_pending_syncs := dk_pending_syncs d @ plans\<rparr>)
       (runtime_wake at (dk_runtime d))"

text \<open>
  The stops: of the local RPC, the driver thread (which is joined) and the runtime. \<open>now\<close> and \<open>checkpoint_wal\<close> are the
  clock and the checkpoint of the store, \<open>pid\<close> the process that writes the marker.
\<close>

definition stop_parts :: "int \<Rightarrow> (Database \<Rightarrow> StoreError + unit) \<Rightarrow> Desktop \<Rightarrow> (StoreError RuntimeError + ShutdownReport) \<times> Desktop" where
  "stop_parts now checkpoint_wal d =
     (let d = d\<lparr>dk_local_rpc := False\<rparr>; d = d\<lparr>dk_scheduler_driver := False\<rparr> in
      case runtime_stop (sqlite_backend now checkpoint_wal) (dk_runtime d) of
        (r, runtime) \<Rightarrow> (r, d\<lparr>dk_runtime := runtime\<rparr>))"

definition persist_user_quit_and_stop ::
    "nat \<Rightarrow> int \<Rightarrow> (Database \<Rightarrow> StoreError + unit) \<Rightarrow> IntegrationPaths \<Rightarrow> Desktop \<Rightarrow> (string + unit) \<times> Desktop" where
  "persist_user_quit_and_stop pid now checkpoint_wal paths d =
     (if dk_explicit_quit d then (Inr (), d)
      else
        let d = d\<lparr>dk_explicit_quit := True\<rparr> in
        case persist_user_quit pid (dk_fs d) paths of
          (Inl _, fs) \<Rightarrow> (Inl ''user quit marker unavailable'', d\<lparr>dk_fs := fs, dk_explicit_quit := False\<rparr>)
        | (Inr _, fs) \<Rightarrow>
            (case stop_parts now checkpoint_wal (d\<lparr>dk_fs := fs\<rparr>) of
               (r, d) \<Rightarrow> (map_err (\<lambda>_. ''desktop runtime unavailable'') (map_ok (\<lambda>_. ()) r), d)))"

definition handle_power_off :: "int \<Rightarrow> (Database \<Rightarrow> StoreError + unit) \<Rightarrow> Desktop \<Rightarrow> Desktop" where
  "handle_power_off now checkpoint_wal d = snd (stop_parts now checkpoint_wal (d\<lparr>dk_system_shutdown := True\<rparr>))"

section \<open>Single flight\<close>

text \<open>
  The host at work, as the interleaved steps of its threads: the driver takes the plans of a tick and hands them out one
  by one (the first component holds those that are left), commands begin and end, tasks end or panic, and the store
  changes under them.
\<close>

inductive desktop_step :: "ScheduledSync list \<times> Desktop \<Rightarrow> ScheduledSync list \<times> Desktop \<Rightarrow> bool" where
  plan: "tick_plans at d = Some (plans, d') \<Longrightarrow> desktop_step ([], d) (plans, d')"
| dispatch: "desktop_step (p # plans, d) (plans, dispatch_plan driver_resolve (\<lambda>i. driver_enqueue (uuid i)) p d)"
| manual: "desktop_step (plans, d) (plans, snd (manual_github_sync uuid' i d))"
| connect: "flagged t \<Longrightarrow> desktop_step (plans, d) (plans, snd (connect_begin t d))"
| connected: "flagged t \<Longrightarrow> (t, Connecting) \<in> set (dk_holders d) \<Longrightarrow> desktop_step (plans, d) (plans, connect_end t outcome at d)"
| ended: "flagged t \<Longrightarrow> (t, SyncTask c g r) \<in> set (dk_holders d) \<Longrightarrow>
    desktop_step (plans, d) (plans, task_ends t (SyncTask c g r) d)"
| panicked: "flagged t \<Longrightarrow> (t, SyncTask c g r) \<in> set (dk_holders d) \<Longrightarrow>
    desktop_step (plans, d) (plans, task_panics t (SyncTask c g r) d)"
| purge: "desktop_step (plans, d) (plans, snd (purge_begin i d))"
| purged: "(conn_type c, PurgeGuard (conn_id c)) \<in> set (dk_holders d) \<Longrightarrow>
    desktop_step (plans, d) (plans, snd (purge_end now c d))"
| sleep: "desktop_step (plans, d) (plans, handle_sleep d)"
| wake: "handle_wake at d = Some d' \<Longrightarrow> desktop_step (plans, d) (plans, d')"
| stored: "desktop_step (plans, d) (plans, with_store db d)"

definition holders_of :: "ConnectorType \<Rightarrow> Desktop \<Rightarrow> nat" where
  "holders_of t d = length (filter (\<lambda>(u, _). u = t) (dk_holders d))"

definition single_flight :: "Desktop \<Rightarrow> bool" where
  "single_flight d \<longleftrightarrow> (\<forall>t. flagged t \<longrightarrow> holders_of t d \<le> of_bool (dk_running d t))"

lemma single_flightD:
  assumes "single_flight d" and "flagged t"
  shows "holders_of t d \<le> Suc 0" and "\<not> dk_running d t \<Longrightarrow> holders_of t d = 0"
proof -
  have "holders_of t d \<le> of_bool (dk_running d t)" using assms by (simp add: single_flight_def)
  then show "holders_of t d \<le> Suc 0" and "\<not> dk_running d t \<Longrightarrow> holders_of t d = 0"
    by (cases "dk_running d t"; simp)+
qed

lemma holders_of_simps [simp]:
  "holders_of t (set_running u b d) = holders_of t d"
  "holders_of t (hold u h d) = holders_of t d + of_bool (u = t)"
  "holders_of t (spawn_sync u c g r d) = holders_of t d + of_bool (u = t)"
  "holders_of t (with_store db d) = holders_of t d"
  "holders_of t (with_scheduler sch d) = holders_of t d"
  by (simp_all add: holders_of_def set_running_def hold_def spawn_sync_def with_store_def with_scheduler_def)

lemma running_simps [simp]:
  "dk_running (set_running u b d) = (dk_running d)(u := b)"
  "dk_running (hold u h d) = dk_running d"
  "dk_running (spawn_sync u c g r d) = dk_running d"
  "dk_running (let_go u h d) = dk_running d"
  "dk_running (with_store db d) = dk_running d"
  "dk_running (with_scheduler sch d) = dk_running d"
  by (simp_all add: set_running_def hold_def spawn_sync_def let_go_def with_store_def with_scheduler_def)

lemma holders_of_let_go:
  assumes "(u, h) \<in> set (dk_holders d)"
  shows "holders_of t (let_go u h d) = holders_of t d - of_bool (u = t)"
    and "u = t \<Longrightarrow> 0 < holders_of t d"
proof -
  obtain a b where "dk_holders d = a @ (u, h) # b" "remove1 (u, h) (dk_holders d) = a @ b"
    using assms by (metis remove1_split)
  then show "holders_of t (let_go u h d) = holders_of t d - of_bool (u = t)" and "u = t \<Longrightarrow> 0 < holders_of t d"
    by (simp_all add: holders_of_def let_go_def)
qed

lemma single_flight_begin:
  assumes "single_flight d" and "begin_sync t d = (r, d')"
  shows "single_flight d'" and "r = Inr u \<Longrightarrow> flagged t \<Longrightarrow> single_flight (hold t h d') \<and> single_flight (spawn_sync t c g run d')"
    and "r = Inr u \<Longrightarrow> single_flight (set_running t False d')"
proof -
  from assms have d': "d' = set_running t True d" "r = Inr u \<Longrightarrow> \<not> dk_running d t" for u
    by (auto simp: begin_sync_def split: if_splits)
  show "single_flight d'" using assms(1) single_flightD(1)[OF assms(1), of t] d'(1) by (auto simp: single_flight_def)
  have "\<not> dk_running d t \<Longrightarrow> flagged t \<Longrightarrow> holders_of t d = 0" using single_flightD(2)[OF assms(1)] .
  with assms(1) d' show "r = Inr u \<Longrightarrow> flagged t \<Longrightarrow> single_flight (hold t h d') \<and> single_flight (spawn_sync t c g run d')"
    and "r = Inr u \<Longrightarrow> single_flight (set_running t False d')"
    by (auto simp: single_flight_def)
qed

lemma live_flagged: "has_live_sync_path t \<Longrightarrow> flagged t"
  by (simp add: flagged_def)

lemma driver_enqueue_eq:
  "driver_enqueue uuid c g d =
     (if has_live_sync_path (conn_type c)
      then
        case begin_sync (conn_type c) d of
          (Inl e, d) \<Rightarrow> (Inl e, d)
        | (Inr _, d) \<Rightarrow>
            (case string_value_new ''SyncRunId'' (conn_type c @ ''-scheduled-'' @ uuid) of
               Inl _ \<Rightarrow> (Inl SyncUnavailable, set_running (conn_type c) False d)
             | Inr run \<Rightarrow> (Inr (), spawn_sync (conn_type c) c g run d))
      else (Inl SyncUnavailable, d))"
  unfolding driver_enqueue_def has_live_sync_path_def Let_def ..

lemma single_flight_enqueue:
  assumes "single_flight d"
  shows "single_flight (snd (driver_enqueue uuid c g d))"
  using single_flight_begin[OF assms, of "conn_type c"] assms live_flagged[of "conn_type c"]
  by (auto simp: driver_enqueue_eq split: prod.split sum.split)

lemma single_flight_same:
  "single_flight d \<Longrightarrow> dk_running d' = dk_running d \<Longrightarrow> dk_holders d' = dk_holders d \<Longrightarrow> single_flight d'"
  by (simp add: single_flight_def holders_of_def)

lemma single_flight_let_go:
  assumes "single_flight d" and "(t, h) \<in> set (dk_holders d)"
  shows "single_flight (let_go t h d)" and "single_flight (set_running t False (let_go t h d))"
    and "flagged t \<Longrightarrow> single_flight (spawn_sync t c g r (let_go t h d))"
proof -
  have one: "holders_of t d \<le> 1" if "flagged t" using single_flightD(1)[OF assms(1) that] by simp
  show "single_flight (let_go t h d)"
    using assms(1) by (auto simp: single_flight_def holders_of_let_go[OF assms(2)] intro: le_trans[OF diff_le_self])
  then show "single_flight (set_running t False (let_go t h d))"
    using one by (auto simp: single_flight_def holders_of_let_go[OF assms(2)])
  show "flagged t \<Longrightarrow> single_flight (spawn_sync t c g r (let_go t h d))"
    using assms(1) holders_of_let_go[OF assms(2)] by (auto simp: single_flight_def)
qed

lemma single_flight_dispatch:
  "single_flight d \<Longrightarrow> single_flight (dispatch_plan driver_resolve (\<lambda>i. driver_enqueue (uuid i)) p d)"
  by (auto simp: dispatch_plan_def single_flight_enqueue split: option.split)

lemma purge_begin_cases: "snd (purge_begin i d) = d \<or> (\<exists>c. snd (purge_begin i d) = snd (acquire_sync_guard c d))"
proof (cases "existing_connection i d")
  case (Inr c)
  then have "snd (purge_begin i d) = snd (acquire_sync_guard c d)"
    by (auto simp: purge_begin_def split: sum.split prod.split)
  then show ?thesis by blast
qed (simp add: purge_begin_def)

lemma single_flight_purge_end:
  assumes "single_flight d" and "(conn_type c, PurgeGuard (conn_id c)) \<in> set (dk_holders d)"
  shows "single_flight (snd (purge_end now c d))"
proof -
  have drop: "single_flight (guard_drop c e)" if "single_flight e" "dk_holders e = dk_holders d" for e
    using single_flight_let_go[OF that(1), of "conn_type c" "PurgeGuard (conn_id c)"] assms(2) that(2)
    by (simp add: guard_drop_def Let_def)
  have same: "dk_holders (with_scheduler sch (with_store db d)) = dk_holders d"
    "single_flight (with_scheduler sch (with_store db d))" for sch db
    using assms(1) by (auto simp: with_scheduler_def with_store_def intro: single_flight_same)
  show ?thesis
    using drop[OF assms(1)] drop[OF same(2) same(1)] by (auto simp: purge_end_def Let_def split: sum.split)
qed

lemma handle_wake_same:
  assumes "handle_wake at d = Some d'"
  shows "dk_running d' = dk_running d" and "dk_holders d' = dk_holders d"
proof -
  obtain plans runtime where "runtime_wake at (dk_runtime d) = Some (plans :: StoreError RuntimeError + _, runtime)"
    using assms by (auto simp: handle_wake_def)
  with assms show "dk_running d' = dk_running d" and "dk_holders d' = dk_holders d"
    by (cases plans; auto simp: handle_wake_def)+
qed

lemma single_flight_step:
  assumes "desktop_step s s'" and "single_flight (snd s)"
  shows "single_flight (snd s')"
  using assms
proof (cases rule: desktop_step.cases)
  case (plan d at plans d')
  with assms(2) show ?thesis by (auto simp: tick_plans_def intro: single_flight_same)
next
  case (dispatch p plans d uuid)
  with assms(2) single_flight_dispatch show ?thesis by simp
next
  case (manual plans d uuid' i)
  have "flagged ''github''" by (simp add: flagged_def has_live_sync_path_def)
  with manual assms(2) single_flight_begin[of d "''github''"] show ?thesis
    by (auto simp: manual_github_sync_def Let_def split: sum.split option.split prod.split)
next
  case (connect t plans d)
  with assms(2) single_flight_begin[of d t] show ?thesis by (auto simp: connect_begin_def split: sum.split prod.split)
next
  case (connected t d plans outcome at)
  let ?d = "let_go t Connecting d"
  have "single_flight (with_scheduler sch e)" if "single_flight e" for sch e
    using that by (rule single_flight_same) (simp_all add: with_scheduler_def)
  moreover have "spawn_sync t c g r (with_scheduler sch ?d) = with_scheduler sch (spawn_sync t c g r ?d)" for c g r sch
    by (simp add: spawn_sync_def hold_def with_scheduler_def)
  ultimately show ?thesis
    using connected assms(2) single_flight_let_go[of d t Connecting]
    by (auto simp: connect_end_def Let_def split: option.split)
next
  case (ended t c g r d plans)
  with assms(2) single_flight_let_go show ?thesis by (simp add: task_ends_def)
next
  case (panicked t c g r d plans)
  with assms(2) single_flight_let_go show ?thesis by (simp add: task_panics_def)
next
  case (purge plans d i)
  have "single_flight (snd (acquire_sync_guard c d))" for c
  proof (cases "flagged (conn_type c)")
    case True
    with purge assms(2) single_flight_begin[of d "conn_type c"] show ?thesis
      by (auto simp: acquire_sync_guard_def Let_def split: prod.split sum.split)
  next
    case False
    with purge assms(2) show ?thesis by (auto simp: acquire_sync_guard_def Let_def single_flight_def)
  qed
  with purge_begin_cases[of i d] purge assms(2) show ?thesis by auto
next
  case (purged c d plans now)
  with assms(2) single_flight_purge_end show ?thesis by simp
next
  case (sleep plans d)
  with assms(2) show ?thesis by (auto simp: handle_sleep_def intro: single_flight_same)
next
  case (wake at d d' plans)
  with assms(2) handle_wake_same show ?thesis by (auto intro: single_flight_same)
next
  case (stored plans d db)
  with assms(2) show ?thesis by (auto simp: with_store_def intro: single_flight_same)
qed

definition Desktop_new :: "Database WriterQueue Runtime \<Rightarrow> FileSystem \<Rightarrow> Desktop" where
  "Desktop_new runtime fs =
     \<lparr>dk_runtime = runtime, dk_pending_syncs = [], dk_running = (\<lambda>_. False), dk_holders = [], dk_local_rpc = True,
      dk_scheduler_driver = True, dk_explicit_quit = False, dk_system_shutdown = False, dk_fs = fs\<rparr>"

lemma single_flight_reachable:
  assumes "desktop_step\<^sup>*\<^sup>* ([], Desktop_new runtime fs) s"
  shows "single_flight (snd s)"
  using assms
  by (induction rule: rtranclp_induct)
    (simp add: single_flight_def Desktop_new_def holders_of_def, rule single_flight_step)

lemma distinct_holders:
  "(\<And>t. P t \<Longrightarrow> length (filter (\<lambda>(u, _). u = t) xs) \<le> 1) \<Longrightarrow> distinct (map fst (filter (\<lambda>(u, _). P u) xs))"
proof (induction xs)
  case Nil
  then show ?case by simp
next
  case (Cons x xs)
  obtain t h where x: "x = (t, h)" by (cases x)
  have "length (filter (\<lambda>(u, _). u = v) xs) \<le> 1" if "P v" for v
    using Cons.prems[OF that] by (simp split: if_splits)
  then have "distinct (map fst (filter (\<lambda>(u, _). P u) xs))" by (rule Cons.IH)
  moreover have "t \<notin> fst ` set xs" if "P t"
    using Cons.prems[OF that] by (auto simp: x filter_empty_conv)
  ultimately show ?case by (auto simp: x image_iff)
qed


text \<open>A panic of a task without a guard leaves its flag up for good.\<close>

definition stuck :: "ConnectorType \<Rightarrow> Desktop \<Rightarrow> bool" where
  "stuck t d \<longleftrightarrow> flagged t \<and> dk_running d t \<and> (\<forall>h. (t, h) \<notin> set (dk_holders d))"

lemma stuck_simps [simp]:
  "u \<noteq> t \<Longrightarrow> stuck t (set_running u b d) = stuck t d"
  "u \<noteq> t \<Longrightarrow> stuck t (hold u h d) = stuck t d"
  "u \<noteq> t \<Longrightarrow> stuck t (spawn_sync u c g r d) = stuck t d"
  "stuck t (with_store db d) = stuck t d"
  "stuck t (with_scheduler sch d) = stuck t d"
  by (auto simp: stuck_def set_running_def hold_def spawn_sync_def with_store_def with_scheduler_def)

lemma stuck_let_go: "stuck t d \<Longrightarrow> stuck t (let_go u h d)"
  by (auto simp: stuck_def let_go_def dest: notin_set_remove1)

lemma stuck_same: "stuck t d \<Longrightarrow> dk_running d' = dk_running d \<Longrightarrow> dk_holders d' = dk_holders d \<Longrightarrow> stuck t d'"
  by (simp add: stuck_def)

lemma stuck_begin:
  assumes "stuck t d" and "begin_sync u d = (r, d')"
  shows "stuck t d'" and "r = Inr x \<Longrightarrow> u \<noteq> t"
  using assms by (auto simp: begin_sync_def stuck_def set_running_def split: if_splits)

lemma stuck_acquire: "stuck t d \<Longrightarrow> stuck t (snd (acquire_sync_guard c d))"
proof (cases "flagged (conn_type c)")
  case True
  assume "stuck t d"
  with True stuck_begin[of t d "conn_type c"] show ?thesis
    by (auto simp: acquire_sync_guard_def Let_def split: prod.split sum.split)
next
  case False
  assume "stuck t d"
  then have "conn_type c \<noteq> t" using False by (auto simp: stuck_def)
  with False \<open>stuck t d\<close> show ?thesis by (simp add: acquire_sync_guard_def Let_def)
qed

lemma stuck_enqueue: "stuck t d \<Longrightarrow> stuck t (snd (driver_enqueue uuid c g d))"
  using stuck_begin[of t d "conn_type c"] by (auto simp: driver_enqueue_eq split: prod.split sum.split)

lemma stuck_purge_end:
  assumes "stuck t d" and "(conn_type c, PurgeGuard (conn_id c)) \<in> set (dk_holders d)"
  shows "stuck t (snd (purge_end now c d))"
proof -
  from assms have other: "conn_type c \<noteq> t" by (auto simp: stuck_def)
  then have "stuck t (guard_drop c e)" if "stuck t e" for e
    using stuck_let_go[OF that] by (simp add: guard_drop_def Let_def)
  with assms(1) show ?thesis by (auto simp: purge_end_def Let_def split: sum.split)
qed

lemma stuck_step:
  assumes "desktop_step s s'" and "stuck t (snd s)"
  shows "stuck t (snd s')"
  using assms
proof (cases rule: desktop_step.cases)
  case (plan d at plans d')
  with assms(2) show ?thesis by (auto simp: tick_plans_def intro: stuck_same)
next
  case (dispatch p plans d uuid)
  with assms(2) stuck_enqueue show ?thesis by (auto simp: dispatch_plan_def split: option.split)
next
  case (manual plans d uuid' i)
  with assms(2) stuck_begin[of t d "''github''"] show ?thesis
    by (auto simp: manual_github_sync_def Let_def split: sum.split option.split prod.split)
next
  case (connect u plans d)
  with assms(2) stuck_begin[of t d u] show ?thesis by (auto simp: connect_begin_def split: sum.split prod.split)
next
  case (connected u d plans outcome at)
  then have "u \<noteq> t" using assms(2) by (auto simp: stuck_def)
  with connected assms(2) stuck_let_go[of t d u Connecting] show ?thesis
    by (auto simp: connect_end_def Let_def split: option.split)
next
  case (ended u c g r d plans)
  then have "u \<noteq> t" using assms(2) by (auto simp: stuck_def)
  with ended assms(2) stuck_let_go show ?thesis by (simp add: task_ends_def)
next
  case (panicked u c g r d plans)
  then have "u \<noteq> t" using assms(2) by (auto simp: stuck_def)
  with panicked assms(2) stuck_let_go show ?thesis by (simp add: task_panics_def)
next
  case (purge plans d i)
  with purge_begin_cases[of i d] stuck_acquire assms(2) show ?thesis by auto
next
  case (purged c d plans now)
  with assms(2) stuck_purge_end show ?thesis by simp
next
  case (sleep plans d)
  with assms(2) show ?thesis by (auto simp: handle_sleep_def intro: stuck_same)
next
  case (wake at d d' plans)
  with assms(2) handle_wake_same show ?thesis by (auto intro: stuck_same)
next
  case (stored plans d db)
  with assms(2) show ?thesis by (auto simp: with_store_def intro: stuck_same)
qed

lemma stuck_steps: "desktop_step\<^sup>*\<^sup>* s s' \<Longrightarrow> stuck t (snd s) \<Longrightarrow> stuck t (snd s')"
  by (induction rule: rtranclp_induct) (simp_all add: stuck_step)

text \<open>
  C40. When a sync of Dokploy, Cloudflare, managed Supabase, Alibaba Cloud or Tencent Cloud panics, its flag stays up for as long
  as the host runs: no connection of the type is synced, added or purged again, whatever happens.
\<close>

theorem panicked_sync_blocks_type:
  assumes "desktop_step\<^sup>*\<^sup>* ([], Desktop_new runtime fs) (plans, d)" and "(t, SyncTask c g r) \<in> set (dk_holders d)"
    and "t \<in> {''dokploy'', ''cloudflare'', ''supabase-managed'', ''aliyun'', ''tencent''}"
    and "desktop_step\<^sup>*\<^sup>* (plans, task_panics t (SyncTask c g r) d) (plans', d')"
  shows "dk_running d' t \<and> t \<notin> fst ` set (dk_holders d')"
proof -
  have t: "flagged t" "t \<noteq> ''github''" "t \<noteq> ''ssh''" using assms(3) by (auto simp: flagged_def has_live_sync_path_def)
  have "holders_of t d \<le> of_bool (dk_running d t)"
    using single_flight_reachable[OF assms(1)] t(1) by (simp add: single_flight_def)
  moreover have "0 < holders_of t d" and left: "holders_of t (let_go t (SyncTask c g r) d) = holders_of t d - 1"
    using holders_of_let_go[OF assms(2), of t] by simp_all
  ultimately have "dk_running d t" "holders_of t (let_go t (SyncTask c g r) d) = 0"
    by (cases "dk_running d t"; simp)+
  then have "stuck t (task_panics t (SyncTask c g r) d)"
    using t by (auto simp: stuck_def task_panics_def holders_of_def filter_empty_conv)
  with stuck_steps[OF assms(4)] have "stuck t d'" by simp
  then show ?thesis by (force simp: stuck_def)
qed

section \<open>Two connections of one type\<close>

text \<open>
  The best case of a running host: every sync that a tick starts is over before the next tick. The connections that are
  synced at the ticks \<open>ts\<close>, in order.
\<close>

definition all_end :: "Desktop \<Rightarrow> Desktop" where
  "all_end d = fold (\<lambda>(t, h). task_ends t h) (dk_holders d) d"

fun synced_of :: "(ConnectorType \<times> Holder) list \<Rightarrow> ConnectionId list" where
  "synced_of ((_, SyncTask c _ _) # hs) = conn_id c # synced_of hs"
| "synced_of (_ # hs) = synced_of hs"
| "synced_of [] = []"

fun scheduled_syncs :: "(ConnectionId \<Rightarrow> string) \<Rightarrow> Timestamp list \<Rightarrow> Desktop \<Rightarrow> ConnectionId list option" where
  "scheduled_syncs uuid [] d = Some []"
| "scheduled_syncs uuid (t # ts) d =
     (case driver_tick uuid t d of
        None \<Rightarrow> None
      | Some d' \<Rightarrow>
          map_option (\<lambda>rest. synced_of (drop (length (dk_holders d)) (dk_holders d')) @ rest)
            (scheduled_syncs uuid ts (all_end d')))"

abbreviation dispatch_all :: "(ConnectionId \<Rightarrow> string) \<Rightarrow> ScheduledSync list \<Rightarrow> Desktop \<Rightarrow> Desktop" where
  "dispatch_all uuid plans d \<equiv> fold (dispatch_plan driver_resolve (\<lambda>i. driver_enqueue (uuid i))) plans d"

lemma driver_enqueue_frame:
  "dk_runtime (snd (driver_enqueue uuid c g d)) = dk_runtime d"
  "dk_pending_syncs (snd (driver_enqueue uuid c g d)) = dk_pending_syncs d"
  by (auto simp: driver_enqueue_eq begin_sync_def spawn_sync_def hold_def set_running_def split: sum.split)

lemma dispatch_frame [simp]:
  "dk_runtime (dispatch_plan driver_resolve (\<lambda>i. driver_enqueue (uuid i)) p d) = dk_runtime d"
  "dk_pending_syncs (dispatch_plan driver_resolve (\<lambda>i. driver_enqueue (uuid i)) p d) = dk_pending_syncs d"
  by (auto simp: dispatch_plan_def driver_enqueue_frame split: option.split)

lemma dispatch_all_frame [simp]:
  "dk_runtime (dispatch_all uuid plans d) = dk_runtime d"
  "dk_pending_syncs (dispatch_all uuid plans d) = dk_pending_syncs d"
  by (induction plans arbitrary: d) simp_all

lemma all_end_frame [simp]: "dk_runtime (all_end d) = dk_runtime d" "dk_pending_syncs (all_end d) = dk_pending_syncs d"
proof -
  have "dk_runtime (fold (\<lambda>(t, h). task_ends t h) hs e) = dk_runtime e \<and>
      dk_pending_syncs (fold (\<lambda>(t, h). task_ends t h) hs e) = dk_pending_syncs e" for hs e
    by (induction hs arbitrary: e) (auto simp: task_ends_def set_running_def let_go_def)
  then show "dk_runtime (all_end d) = dk_runtime d" "dk_pending_syncs (all_end d) = dk_pending_syncs d"
    by (simp_all add: all_end_def)
qed

lemma driver_enqueue_started:
  "\<exists>new. dk_holders (snd (driver_enqueue uuid c g d)) = dk_holders d @ new \<and>
     set (synced_of new) \<subseteq> {conn_id c} \<and> (dk_running d (conn_type c) \<longrightarrow> new = [])"
  by (auto simp: driver_enqueue_eq begin_sync_def spawn_sync_def hold_def set_running_def split: sum.split)

lemma driver_enqueue_running:
  "dk_running d t \<Longrightarrow> dk_running (snd (driver_enqueue uuid c g d)) t"
  by (auto simp: driver_enqueue_eq begin_sync_def split: sum.split)

lemma resolve_id:
  assumes "table_ok conn_id (db_connections (dk_store d))" and "driver_resolve d i = Some c"
  shows "conn_id c = i"
  using assms by (auto simp: driver_resolve_def get_connection_def query_optional_def table_ok_def read_connection_def
    map_ok_def split: sum.splits option.splits if_splits)

text \<open>What one plan can start, and what a list of plans can.\<close>

lemma dispatch_started:
  assumes "table_ok conn_id (db_connections (dk_store d))"
  shows "\<exists>new. dk_holders (dispatch_plan driver_resolve (\<lambda>i. driver_enqueue (uuid i)) p d) = dk_holders d @ new \<and>
    set (synced_of new) \<subseteq> {ss_connection_id p} \<and>
    (\<forall>c. driver_resolve d (ss_connection_id p) = Some c \<and> dk_running d (conn_type c) \<longrightarrow> new = [])"
proof (cases "driver_resolve d (ss_connection_id p)")
  case (Some c)
  with driver_enqueue_started[of "uuid (ss_connection_id p)" c Schedule d] resolve_id[OF assms Some] show ?thesis
    by (auto simp: dispatch_plan_def)
qed (simp add: dispatch_plan_def)

lemma dispatch_running:
  "dk_running d t \<Longrightarrow> dk_running (dispatch_plan driver_resolve (\<lambda>i. driver_enqueue (uuid i)) p d) t"
  by (auto simp: dispatch_plan_def driver_enqueue_running split: option.split)

lemma dispatch_all_running: "dk_running d t \<Longrightarrow> dk_running (dispatch_all uuid plans d) t"
  by (induction plans arbitrary: d) (simp_all add: dispatch_running)

lemma synced_of_append [simp]: "synced_of (a @ b) = synced_of a @ synced_of b"
  by (induction a rule: synced_of.induct) auto

lemma dispatch_all_started:
  assumes "table_ok conn_id (db_connections (dk_store d))"
  shows "\<exists>new. dk_holders (dispatch_all uuid plans d) = dk_holders d @ new \<and>
    set (synced_of new) \<subseteq> ss_connection_id ` set plans"
  using assms
proof (induction plans arbitrary: d)
  case Nil
  then show ?case by simp
next
  case (Cons p plans)
  let ?d = "dispatch_plan driver_resolve (\<lambda>i. driver_enqueue (uuid i)) p d"
  obtain new where n: "dk_holders ?d = dk_holders d @ new" "set (synced_of new) \<subseteq> {ss_connection_id p}"
    using dispatch_started[OF Cons.prems] by blast
  have "table_ok conn_id (db_connections (dk_store ?d))" using Cons.prems by (simp add: dk_store_def)
  from Cons.IH[OF this] obtain more where "dk_holders (dispatch_all uuid plans ?d) = dk_holders ?d @ more"
    "set (synced_of more) \<subseteq> ss_connection_id ` set plans" by blast
  with n show ?case by (intro exI[of _ "new @ more"]) auto
qed

text \<open>The plan of a live connection leaves the flag of its type up.\<close>

lemma dispatch_raises:
  assumes "driver_resolve d (ss_connection_id p) = Some c" and "conn_enabled c" and "has_live_sync_path (conn_type c)"
    and "string_value_new ''SyncRunId'' (conn_type c @ ''-scheduled-'' @ uuid (ss_connection_id p)) = Inr r"
  shows "dk_running (dispatch_plan driver_resolve (\<lambda>i. driver_enqueue (uuid i)) p d) (conn_type c)"
  using assms by (simp add: dispatch_plan_def driver_enqueue_eq begin_sync_def)

lemma second_starves:
  assumes table: "table_ok conn_id (db_connections (dk_store d))"
    and first: "driver_resolve d i = Some c" "conn_enabled c" "has_live_sync_path (conn_type c)"
      "string_value_new ''SyncRunId'' (conn_type c @ ''-scheduled-'' @ uuid i) = Inr r"
    and second: "driver_resolve d j = Some c'" "conn_type c' = conn_type c"
    and plans: "sorted_wrt (<) (map ss_connection_id plans)" "i < j"
      "j \<in> ss_connection_id ` set plans \<Longrightarrow> i \<in> ss_connection_id ` set plans"
  shows "\<exists>new. dk_holders (dispatch_all uuid plans d) = dk_holders d @ new \<and> j \<notin> set (synced_of new)"
proof (cases "j \<in> ss_connection_id ` set plans")
  case False
  with dispatch_all_started[OF table, of uuid plans] show ?thesis by blast
next
  case True
  then obtain q where q: "q \<in> set plans" "ss_connection_id q = j" by auto
  then obtain a b where ab: "plans = a @ q # b" by (meson split_list)
  have ids: "\<forall>p\<in>set a. ss_connection_id p < j" "\<forall>p\<in>set b. j < ss_connection_id p"
    using plans(1) q(2) by (auto simp: ab sorted_wrt_append)
  from plans(3)[OF True] obtain p where p: "p \<in> set plans" "ss_connection_id p = i" by auto
  with ids q(2) plans(2) have "p \<in> set a" by (force simp: ab)
  then obtain x y where xy: "a = x @ p # y" by (meson split_list)
  have same: "driver_resolve (dispatch_all uuid ps d) = driver_resolve d" for ps
    by (simp add: driver_resolve_def dk_store_def fun_eq_iff)
  have "dk_running (dispatch_plan driver_resolve (\<lambda>i. driver_enqueue (uuid i)) p (dispatch_all uuid x d)) (conn_type c)"
    using dispatch_raises[of "dispatch_all uuid x d" p c uuid r] first p(2) by (simp add: same)
  then have up: "dk_running (dispatch_all uuid a d) (conn_type c)"
    using dispatch_all_running by (simp add: xy)
  let ?e = "dispatch_all uuid a d" and ?q = "dispatch_plan driver_resolve (\<lambda>i. driver_enqueue (uuid i)) q"
  have tables: "table_ok conn_id (db_connections (dk_store ?e))" "table_ok conn_id (db_connections (dk_store (?q ?e)))"
    using table by (simp_all add: dk_store_def)
  obtain n1 where n1: "dk_holders ?e = dk_holders d @ n1" "set (synced_of n1) \<subseteq> ss_connection_id ` set a"
    using dispatch_all_started[OF table, of uuid a] by blast
  have n2: "dk_holders (?q ?e) = dk_holders ?e"
    using dispatch_started[OF tables(1), of uuid q] up second q(2) by (auto simp: same)
  obtain n3 where n3: "dk_holders (dispatch_all uuid b (?q ?e)) = dk_holders (?q ?e) @ n3"
    "set (synced_of n3) \<subseteq> ss_connection_id ` set b"
    using dispatch_all_started[OF tables(2), of uuid b] by blast
  have "j \<notin> set (synced_of (n1 @ n3))" using n1(2) n3(2) ids by auto
  with n1 n2 n3 show ?thesis by (intro exI[of _ "n1 @ n3"]) (simp add: ab)
qed

lemma tick_plans_running:
  assumes "rt_state (dk_runtime d) = Running m" and "0 \<le> t" and "t \<le> i64_max" and "dk_pending_syncs d = []"
  shows "tick_plans t d = Some
    (map (\<lambda>(_, e). plan_for t False e) (filter (\<lambda>(_, e). se_next_due_at e \<le> t) (sch_entries (rt_scheduler (dk_runtime d)))),
     with_scheduler (rt_scheduler (dk_runtime d)\<lparr>sch_entries :=
       map (\<lambda>(i, e). (i, planned t e)) (sch_entries (rt_scheduler (dk_runtime d)))\<rparr>) d)"
  using assms(4) by (simp add: tick_plans_def runtime_plan_due_def ensure_admission_def is_running_def assms(1)
    scheduler_plan_due_def scheduler_plan_eq[OF assms(2,3)] with_scheduler_def)

lemma starves:
  assumes "rt_state (dk_runtime d) = Running m" and "dk_pending_syncs d = []"
    and "scheduler_ok (rt_scheduler (dk_runtime d))" and "table_ok conn_id (db_connections (dk_store d))" and "i < j"
    and "scheduler_entry (rt_scheduler (dk_runtime d)) i = Some e"
    and "scheduler_entry (rt_scheduler (dk_runtime d)) j = Some e'"
    and "se_next_due_at e = se_next_due_at e'" and "se_interval_millis e = se_interval_millis e'"
    and "driver_resolve d i = Some c" and "conn_enabled c" and "has_live_sync_path (conn_type c)"
    and "driver_resolve d j = Some c'" and "conn_type c' = conn_type c"
    and "string_value_new ''SyncRunId'' (conn_type c @ ''-scheduled-'' @ uuid i) = Inr r"
    and "\<forall>t\<in>set ts. 0 \<le> t \<and> t \<le> i64_max"
  shows "\<exists>synced. scheduled_syncs uuid ts d = Some synced \<and> j \<notin> set synced"
  using assms
proof (induction ts arbitrary: d e e')
  case Nil
  then show ?case by simp
next
  case (Cons t ts)
  let ?sch = "rt_scheduler (dk_runtime d)"
  let ?entries = "sch_entries ?sch"
  let ?plans = "map (\<lambda>(_, e). plan_for t False e) (filter (\<lambda>(_, e). se_next_due_at e \<le> t) ?entries)"
  let ?sch' = "?sch\<lparr>sch_entries := map (\<lambda>(i, e). (i, planned t e)) ?entries\<rparr>"
  let ?d = "with_scheduler ?sch' d"
  have t: "0 \<le> t" "t \<le> i64_max" and ts: "\<forall>t\<in>set ts. 0 \<le> t \<and> t \<le> i64_max" using Cons.prems(16) by simp_all
  have wf: "bt_wf ?entries" using Cons.prems(3) by (simp add: scheduler_ok_def)
  have ids: "se_connection_id e = k" if "(k, e) \<in> set ?entries" for k e
    using that Cons.prems(3) bt_mem_iff[OF wf] by (simp add: scheduler_ok_def)
  have mem: "(i, e) \<in> set ?entries" "(j, e') \<in> set ?entries"
    using Cons.prems(6,7) by (simp_all add: scheduler_entry_def bt_mem_iff[OF wf])
  have plan_ids: "map ss_connection_id ?plans = map fst (filter (\<lambda>(_, e). se_next_due_at e \<le> t) ?entries)"
    using ids by (auto simp: plan_for_def)
  then have sorted: "sorted_wrt (<) (map ss_connection_id ?plans)"
    using bt_wf_filter[OF wf] unfolding plan_ids by (simp add: bt_wf_def)
  have both: "i \<in> ss_connection_id ` set ?plans" if "j \<in> ss_connection_id ` set ?plans"
  proof -
    from that have "j \<in> set (map fst (filter (\<lambda>(_, e). se_next_due_at e \<le> t) ?entries))"
      unfolding plan_ids[symmetric] by (simp only: set_map)
    then obtain x where "(j, x) \<in> set ?entries" "se_next_due_at x \<le> t" by auto
    with mem(2) have "se_next_due_at e' \<le> t" using bt_mem_iff[OF wf] by (metis option.inject)
    with mem(1) Cons.prems(8) have "i \<in> set (map fst (filter (\<lambda>(_, e). se_next_due_at e \<le> t) ?entries))" by force
    then show ?thesis unfolding plan_ids[symmetric] by (simp only: set_map)
  qed
  have resolve: "driver_resolve ?d = driver_resolve d" and db: "dk_store ?d = dk_store d"
    by (simp_all add: driver_resolve_def dk_store_def with_scheduler_def fun_eq_iff)
  obtain new where new: "dk_holders (dispatch_all uuid ?plans ?d) = dk_holders ?d @ new" "j \<notin> set (synced_of new)"
    using second_starves[of ?d i c uuid r j c' ?plans] Cons.prems sorted both unfolding resolve db by blast
  have tick: "driver_tick uuid t d = Some (dispatch_all uuid ?plans ?d)"
    using tick_plans_running[OF Cons.prems(1) t Cons.prems(2)] by (simp add: driver_tick_def)
  let ?d' = "all_end (dispatch_all uuid ?plans ?d)"
  have rt: "dk_runtime ?d' = (dk_runtime d)\<lparr>rt_scheduler := ?sch'\<rparr>" "dk_pending_syncs ?d' = []"
    using Cons.prems(2) by (simp_all add: with_scheduler_def)
  have store: "dk_store ?d' = dk_store d" and resolve': "driver_resolve ?d' = driver_resolve d"
    by (simp_all add: driver_resolve_def dk_store_def with_scheduler_def fun_eq_iff)
  have ok: "scheduler_ok ?sch'" by (rule scheduler_plan_ok[OF scheduler_plan_eq[OF t, of False] Cons.prems(3) t])
  have entries: "scheduler_entry ?sch' i = Some (planned t e)" "scheduler_entry ?sch' j = Some (planned t e')"
    using Cons.prems(6,7) by (simp_all add: scheduler_entry_def bt_get_map)
  have same: "se_next_due_at (planned t e) = se_next_due_at (planned t e')"
    "se_interval_millis (planned t e) = se_interval_millis (planned t e')"
    using Cons.prems(8,9) by (simp_all add: planned_def)
  have "\<exists>synced. scheduled_syncs uuid ts ?d' = Some synced \<and> j \<notin> set synced"
    by (rule Cons.IH[of ?d' "planned t e" "planned t e'"])
      (use Cons.prems(1,4,5,10-15) ts ok entries same in \<open>simp_all only: rt store resolve', simp_all\<close>)
  then obtain rest where "scheduled_syncs uuid ts ?d' = Some rest" "j \<notin> set rest" by blast
  with new tick show ?case by (simp add: with_scheduler_def)
qed

text \<open>What the registration at the start gives a connection: one interval after the start, whichever connection it is.\<close>

definition first_entry :: "Timestamp \<Rightarrow> Connection \<Rightarrow> ScheduleEntry" where
  "first_entry at c =
     \<lparr>se_connection_id = conn_id c, se_interval_millis = query_sync_interval_millis (conn_type c),
      se_next_due_at = (case next_due_after at (query_sync_interval_millis (conn_type c)) of Inr t \<Rightarrow> t | Inl _ \<Rightarrow> at)\<rparr>"

lemma live_interval: "has_live_sync_path t \<Longrightarrow> query_sync_interval_millis t = 900000"
  by (simp add: has_live_sync_path_def query_sync_interval_millis_def recommended_sync_interval_secs_def)

lemma next_due_bounds: "next_due_after at interval = Inr t \<Longrightarrow> 0 \<le> t \<and> t \<le> i64_max"
  by (auto simp: next_due_after_def from_unix_millis_def i64_saturating_add_def i64_max_def split: if_splits)

lemma register_all_step:
  "register_all at (c # cs) sch = register_all at cs
     (if conn_enabled c \<and> has_live_sync_path (conn_type c)
      then sch\<lparr>sch_entries := bt_insert (conn_id c) (first_entry at c) (sch_entries sch)\<rparr> else sch)"
  by (simp add: scheduler_register_def first_entry_def live_interval Let_def split: sum.split)

lemma register_step_ok:
  assumes "scheduler_ok sch" and "0 \<le> at" and "at \<le> i64_max"
  shows "scheduler_ok (if conn_enabled c \<and> has_live_sync_path (conn_type c)
    then sch\<lparr>sch_entries := bt_insert (conn_id c) (first_entry at c) (sch_entries sch)\<rparr> else sch)"
proof -
  have "0 \<le> se_next_due_at (first_entry at c) \<and> se_next_due_at (first_entry at c) \<le> i64_max"
    using next_due_bounds assms(2,3) by (auto simp: first_entry_def split: sum.split)
  with assms(1) show ?thesis
    by (auto simp: scheduler_ok_def bt_wf_insert bt_get_insert first_entry_def live_interval)
qed

lemma register_all_ok:
  "scheduler_ok sch \<Longrightarrow> 0 \<le> at \<Longrightarrow> at \<le> i64_max \<Longrightarrow> scheduler_ok (register_all at cs sch)"
proof (induction cs arbitrary: sch)
  case (Cons c cs)
  from Cons.IH[OF register_step_ok[OF Cons.prems] Cons.prems(2,3)] show ?case unfolding register_all_step .
qed simp

lemma register_all_other:
  "scheduler_ok sch \<Longrightarrow> 0 \<le> at \<Longrightarrow> at \<le> i64_max \<Longrightarrow> i \<notin> conn_id ` set cs \<Longrightarrow>
     scheduler_entry (register_all at cs sch) i = scheduler_entry sch i"
proof (induction cs arbitrary: sch)
  case (Cons c cs)
  have "i \<notin> conn_id ` set cs" "i \<noteq> conn_id c" using Cons.prems(4) by auto
  with Cons.IH[OF register_step_ok[OF Cons.prems(1-3)] Cons.prems(2,3), of c] Cons.prems(1) show ?case
    unfolding register_all_step by (simp add: scheduler_entry_def scheduler_ok_def bt_get_insert)
qed simp

lemma register_all_entry:
  assumes "scheduler_ok sch" and "0 \<le> at" and "at \<le> i64_max" and "distinct (map conn_id cs)" and "c \<in> set cs"
    and "conn_enabled c" and "has_live_sync_path (conn_type c)"
  shows "scheduler_entry (register_all at cs sch) (conn_id c) = Some (first_entry at c)"
  using assms(1,4,5)
proof (induction cs arbitrary: sch)
  case Nil
  then show ?case by simp
next
  case (Cons x cs)
  let ?sch = "if conn_enabled x \<and> has_live_sync_path (conn_type x)
    then sch\<lparr>sch_entries := bt_insert (conn_id x) (first_entry at x) (sch_entries sch)\<rparr> else sch"
  have ok: "scheduler_ok ?sch" by (rule register_step_ok[OF Cons.prems(1) assms(2,3)])
  show ?case
  proof (cases "x = c")
    case True
    then have "conn_id c \<notin> conn_id ` set cs" using Cons.prems(2) by simp
    from register_all_other[OF ok assms(2,3) this] True assms(6,7) Cons.prems(1) show ?thesis
      by (simp add: register_all_step scheduler_entry_def scheduler_ok_def bt_get_insert del: register_all.simps(2))
  next
    case False
    with Cons.prems Cons.IH[OF ok] show ?thesis by (simp add: register_all_step del: register_all.simps(2))
  qed
qed


section \<open>Samples\<close>

definition second_sample :: Connection where
  "second_sample = Store_Purge.sample_connection\<lparr>conn_id := ''c2''\<rparr>"

definition sample_database :: Database where
  "sample_database = (empty_database 0)\<lparr>db_connections :=
     [(''c1'', Store_Purge.sample_connection), (''c2'', second_sample)]\<rparr>"

definition sample_desktop :: Desktop where
  "sample_desktop = Desktop_new
     \<lparr>rt_backend = WriterQueue_new sample_database,
      rt_scheduler = register_all 5 [Store_Purge.sample_connection, second_sample] \<lparr>sch_entries = []\<rparr>,
      rt_state = Running Interactive, rt_interrupted_runs = 0\<rparr> sample_fs"

lemmas sample_desktop_defs = sample_desktop_def sample_database_def second_sample_def Store_Purge.sample_connection_def
  Desktop_new_def WriterQueue_new_def empty_database_def dk_store_def


definition dokploy_sample :: Connection where
  "dokploy_sample = Store_Purge.sample_connection\<lparr>conn_id := ''d1'', conn_type := ''dokploy''\<rparr>"

text \<open>A first sync of GitHub on demand, and a new Dokploy connection with its first sync.\<close>

definition busy_desktop :: Desktop where
  "busy_desktop =
     connect_end ''dokploy'' (Some (dokploy_sample, ''dokploy-sync-u'')) 7
       (snd (connect_begin ''dokploy'' (snd (manual_github_sync ''u'' ''c1'' sample_desktop))))"

lemma busy_holders:
  "dk_holders busy_desktop =
     [(''github'', SyncTask Store_Purge.sample_connection User ''github-sync-u''),
      (''dokploy'', SyncTask dokploy_sample User ''dokploy-sync-u'')]"
  by code_simp

lemma busy_reachable:
  "desktop_step\<^sup>*\<^sup>* ([], Desktop_new (dk_runtime sample_desktop) sample_fs) ([], busy_desktop)"
proof -
  have new: "Desktop_new (dk_runtime sample_desktop) sample_fs = sample_desktop"
    by (simp add: sample_desktop_def Desktop_new_def)
  let ?d = "snd (manual_github_sync ''u'' ''c1'' sample_desktop)"
  let ?e = "snd (connect_begin ''dokploy'' ?d)"
  have flag: "flagged ''dokploy''" by code_simp
  have "desktop_step ([], sample_desktop) ([], ?d)" by (rule desktop_step.manual)
  moreover have "desktop_step ([], ?d) ([], ?e)" using flag by (rule desktop_step.connect)
  moreover have "(''dokploy'', Connecting) \<in> set (dk_holders ?e)" by code_simp
  with flag have "desktop_step ([], ?e) ([], busy_desktop)"
    unfolding busy_desktop_def by (rule desktop_step.connected)
  ultimately show ?thesis unfolding new by (meson converse_rtranclp_into_rtranclp rtranclp.rtrancl_refl)
qed


theorem panicked_sync_blocks_type_witness:
  "let d = task_panics ''dokploy'' (SyncTask dokploy_sample User ''dokploy-sync-u'') busy_desktop in
     dk_running (snd (driver_enqueue ''u'' dokploy_sample Schedule d)) ''dokploy'' \<and> dk_running d ''dokploy'' \<and>
     \<not> dk_running (task_panics ''github'' (SyncTask Store_Purge.sample_connection User ''github-sync-u'') busy_desktop) ''github''"
proof -
  have "(''dokploy'', SyncTask dokploy_sample User ''dokploy-sync-u'') \<in> set (dk_holders busy_desktop)"
    by (simp add: busy_holders)
  from panicked_sync_blocks_type[OF busy_reachable this _ rtranclp.rtrancl_refl]
  have "dk_running (task_panics ''dokploy'' (SyncTask dokploy_sample User ''dokploy-sync-u'') busy_desktop) ''dokploy''"
    by simp
  then show ?thesis by (simp add: Let_def driver_enqueue_running task_panics_def)
qed

section \<open>Stopping\<close>

lemma flush_drained: "flush w q = (Inr results, q') \<Longrightarrow> wq_pending q' = []"
proof -
  have "flush_loop w pending store rs = (Inr results, q') \<Longrightarrow> wq_pending q' = []" for pending store rs
    by (induction w pending store rs rule: flush_loop.induct) (auto split: sum.splits prod.splits)
  then show "flush w q = (Inr results, q') \<Longrightarrow> wq_pending q' = []" by (simp add: flush_def)
qed



end
