(* ===== verification/Desktop_Sync.thy ===== *)
theory Desktop_Sync
  imports Desktop_Driver Store_History
begin

text \<open>
  The syncs of \<open>composition/mod.rs\<close>, one per connector type: each records the attempt, takes the credential, starts a run
  of the sync engine, asks its connector, normalizes what it observed with the schemas of its type, and commits the run
  or records its failure, and the health of the connection with it. The connectors, the clock and what other tasks do to
  the store while the connector is at work are parameters.
\<close>

section \<open>Schemas\<close>

text \<open>
  \<open>*_schema\<close> and \<open>*_relation\<close>; their constructors are \<open>expect\<close>ed to succeed, which \<open>host_schemas_valid\<close> below shows of
  every kind that they are given.
\<close>

definition prov_schema :: "string \<Rightarrow> string list \<Rightarrow> AttributeSchema" where
  "prov_schema kind names =
     \<lparr>as_kind = kind, as_schema_version = 1, as_allowed_attributes = bs_of_list names\<rparr>"

definition prov_relation :: "string \<Rightarrow> string \<Rightarrow> string \<Rightarrow> RelationSchema" where
  "prov_relation kind source target = \<lparr>rs_kind = kind, rs_source_kind = source, rs_target_kind = target\<rparr>"

definition github_normalizer :: "DomainError + Normalizer" where
  "github_normalizer = Normalizer_new
     [prov_schema ''github.repository''
        [''repository_id'', ''visibility'', ''default_branch'', ''archived'', ''disabled'', ''created_at'', ''updated_at''],
      prov_schema ''github.workflow'' [''workflow_id'', ''path'', ''state'', ''created_at'', ''updated_at''],
      prov_schema ''github.workflow_run''
        [''run_id'', ''workflow_id'', ''run_number'', ''status'', ''conclusion'', ''created_at'']]
     [prov_relation ''github.contains'' ''github.repository'' ''github.workflow'',
      prov_relation ''github.executes'' ''github.workflow'' ''github.workflow_run'']"

definition ssh_normalizer :: "DomainError + Normalizer" where
  "ssh_normalizer = Normalizer_new
     [prov_schema ''ssh.host'' [''platform'', ''architecture'', ''uptime_bucket'', ''host_identity''],
      prov_schema ''ssh.filesystem'' [''entries'', ''total'', ''host_identity''],
      prov_schema ''ssh.process-summary'' [''total'', ''states'', ''host_identity''],
      prov_schema ''ssh.launchd-service''
        [''service_label'', ''loaded'', ''pid_present'', ''last_exit_status'', ''host_identity''],
      prov_schema ''ssh.systemd-service'' [''unit'', ''load_state'', ''active_state'', ''sub_state'', ''host_identity'']]
     [prov_relation ''ssh.contains'' ''ssh.host'' ''ssh.filesystem'',
      prov_relation ''ssh.contains'' ''ssh.host'' ''ssh.process-summary'',
      prov_relation ''ssh.contains'' ''ssh.host'' ''ssh.launchd-service'',
      prov_relation ''ssh.contains'' ''ssh.host'' ''ssh.systemd-service'']"

definition cloudflare_normalizer :: "DomainError + Normalizer" where
  "cloudflare_normalizer = Normalizer_new
     [prov_schema ''cloudflare.account'' [],
      prov_schema ''cloudflare.zone'' [''account_id'', ''status''],
      prov_schema ''cloudflare.dns_record'' [''zone_id'', ''type'', ''content'', ''proxied''],
      prov_schema ''cloudflare.tunnel'' [''account_id'', ''status''],
      prov_schema ''cloudflare.worker'' [''account_id'', ''modified_on'']]
     [prov_relation ''cloudflare.contains'' ''cloudflare.account'' ''cloudflare.zone'',
      prov_relation ''cloudflare.contains'' ''cloudflare.account'' ''cloudflare.tunnel'',
      prov_relation ''cloudflare.contains'' ''cloudflare.account'' ''cloudflare.worker'',
      prov_relation ''cloudflare.contains'' ''cloudflare.zone'' ''cloudflare.dns_record'']"

definition supabase_managed_normalizer :: "DomainError + Normalizer" where
  "supabase_managed_normalizer = Normalizer_new
     [prov_schema ''supabase.managed.organization'' [],
      prov_schema ''supabase.managed.project'' [''organization_id'', ''region'', ''status'']]
     [prov_relation ''supabase.contains'' ''supabase.managed.organization'' ''supabase.managed.project'']"

definition cloud_fields :: "string list" where
  "cloud_fields = [''region'', ''status'', ''parent_id'']"

definition aliyun_normalizer :: "DomainError + Normalizer" where
  "aliyun_normalizer = Normalizer_new
     [prov_schema ''aliyun.ecs.instance'' cloud_fields, prov_schema ''aliyun.vpc.vpc'' cloud_fields,
      prov_schema ''aliyun.vpc.vswitch'' cloud_fields, prov_schema ''aliyun.vpc.security_group'' cloud_fields,
      prov_schema ''aliyun.slb.load_balancer'' cloud_fields, prov_schema ''aliyun.dns.record'' cloud_fields,
      prov_schema ''aliyun.ecs.public_ip'' cloud_fields]
     [prov_relation ''aliyun.contains'' ''aliyun.vpc.vpc'' ''aliyun.vpc.vswitch'',
      prov_relation ''aliyun.contains'' ''aliyun.vpc.vpc'' ''aliyun.vpc.security_group'',
      prov_relation ''aliyun.assigned'' ''aliyun.ecs.instance'' ''aliyun.ecs.public_ip'']"

definition tencent_normalizer :: "DomainError + Normalizer" where
  "tencent_normalizer = Normalizer_new
     [prov_schema ''tencent.cvm.instance'' cloud_fields, prov_schema ''tencent.vpc.vpc'' cloud_fields,
      prov_schema ''tencent.vpc.subnet'' cloud_fields, prov_schema ''tencent.vpc.security_group'' cloud_fields,
      prov_schema ''tencent.clb.load_balancer'' cloud_fields, prov_schema ''tencent.dns.record'' cloud_fields,
      prov_schema ''tencent.cvm.public_ip'' cloud_fields]
     [prov_relation ''tencent.contains'' ''tencent.vpc.vpc'' ''tencent.vpc.subnet'',
      prov_relation ''tencent.contains'' ''tencent.vpc.vpc'' ''tencent.vpc.security_group'',
      prov_relation ''tencent.assigned'' ''tencent.cvm.instance'' ''tencent.cvm.public_ip'']"

definition dokploy_normalizer :: "DomainError + Normalizer" where
  "dokploy_normalizer = Normalizer_new
     [prov_schema ''dokploy.project'' [''description''],
      prov_schema ''dokploy.application'' [''project_id'', ''server_id'', ''environment_id''],
      prov_schema ''dokploy.deployment'' [''application_id'', ''status'', ''created_at'', ''title''],
      prov_schema ''dokploy.server'' [''address'', ''description'', ''status''],
      prov_schema ''dokploy.domain'' [''application_id'', ''https'', ''path'']]
     [prov_relation ''dokploy.contains'' ''dokploy.project'' ''dokploy.application'',
      prov_relation ''dokploy.runs_on'' ''dokploy.application'' ''dokploy.server'',
      prov_relation ''dokploy.deploys'' ''dokploy.application'' ''dokploy.deployment'',
      prov_relation ''dokploy.exposes'' ''dokploy.application'' ''dokploy.domain'']"

definition normalizer_valid :: "DomainError + Normalizer \<Rightarrow> bool" where
  "normalizer_valid r =
     (case r of
        Inl _ \<Rightarrow> False
      | Inr nz \<Rightarrow>
          list_all (\<lambda>(_, s). is_ok (ResourceKind_new (as_kind s))) (nz_attribute_schemas nz) \<and>
          list_all (\<lambda>r. is_ok (RelationKind_new (rs_kind r)) \<and>
            bt_get (nz_attribute_schemas nz) (rs_source_kind r, 1) \<noteq> None \<and>
            bt_get (nz_attribute_schemas nz) (rs_target_kind r, 1) \<noteq> None) (nz_relation_schemas nz))"

lemma github_valid: "normalizer_valid github_normalizer"
  by code_simp

lemma ssh_valid: "normalizer_valid ssh_normalizer"
  by code_simp

lemma dokploy_valid: "normalizer_valid dokploy_normalizer"
  by code_simp

lemma cloudflare_valid: "normalizer_valid cloudflare_normalizer"
  by code_simp

lemma supabase_managed_valid: "normalizer_valid supabase_managed_normalizer"
  by code_simp

lemma aliyun_valid: "normalizer_valid aliyun_normalizer"
  by code_simp

lemma tencent_valid: "normalizer_valid tencent_normalizer"
  by code_simp

text \<open>
  No sync panics for its schemas: each normalizer is built, the kinds of its schemas and relations are kinds that their
  constructors accept, and every relation joins kinds that have a schema.
\<close>

theorem host_schemas_valid:
  "\<forall>nz \<in> {github_normalizer, ssh_normalizer, dokploy_normalizer, cloudflare_normalizer, supabase_managed_normalizer,
     aliyun_normalizer, tencent_normalizer}. normalizer_valid nz"
  using github_valid ssh_valid dokploy_valid cloudflare_valid supabase_managed_valid aliyun_valid tencent_valid by simp

section \<open>Health and errors\<close>

definition connector_health :: "ErrorCode \<Rightarrow> ConnectorHealth" where
  "connector_health code =
     (case code of
        AuthenticationFailed \<Rightarrow> AuthFailed
      | CredentialUnavailable \<Rightarrow> AuthFailed
      | RateLimited \<Rightarrow> ConnectorRateLimited
      | NetworkUnreachable \<Rightarrow> Unreachable
      | ProviderUnavailable \<Rightarrow> Unreachable
      | _ \<Rightarrow> ConnectorDegraded)"

definition ssh_connector_health :: "ErrorCode \<Rightarrow> ConnectorHealth" where
  "ssh_connector_health code = (case code of HostKeyMismatch \<Rightarrow> ConnectorDegraded | _ \<Rightarrow> Unreachable)"

definition retryable_error :: "string \<Rightarrow> string \<Rightarrow> ErrorEnvelope" where
  "retryable_error code message = (safe_error code message)\<lparr>ee_retryable := True\<rparr>"

definition github_sync_error :: "ErrorCode \<Rightarrow> ErrorEnvelope" where
  "github_sync_error code =
     (case connector_health code of
        AuthFailed \<Rightarrow> safe_error ''github_auth_failed'' ''GitHub token was not accepted.''
      | ConnectorRateLimited \<Rightarrow> retryable_error ''github_rate_limited'' ''GitHub is rate limited. Try again later.''
      | Unreachable \<Rightarrow> retryable_error ''github_unreachable'' ''GitHub could not be reached. Try again later.''
      | _ \<Rightarrow> safe_error ''github_sync_failed'' ''GitHub synchronization failed.'')"

definition ssh_sync_error :: "ErrorCode \<Rightarrow> ErrorEnvelope" where
  "ssh_sync_error code =
     safe_error
       (case code of
          HostKeyMismatch \<Rightarrow> ''host_key_mismatch''
        | NetworkUnreachable \<Rightarrow> ''network_unreachable''
        | AuthenticationFailed \<Rightarrow> ''authentication_failed''
        | ProviderUnavailable \<Rightarrow> ''provider_unavailable''
        | InvalidResponse \<Rightarrow> ''invalid_response''
        | Internal \<Rightarrow> ''internal''
        | _ \<Rightarrow> ''ssh_sync_failed'')
       ''SSH synchronization failed.''"

section \<open>A run\<close>

text \<open>
  What the syncs differ in once their request is made: the label of their messages, whether an internal failure is noted
  on the connection (GitHub and SSH), the health and the error for a failure of the provider, and the schemas.
\<close>

record SyncKind =
  sk_type :: ConnectorType
  sk_label :: string
  sk_marks :: bool
  sk_health :: "ErrorCode \<Rightarrow> ConnectorHealth"
  sk_error :: "ErrorCode \<Rightarrow> ErrorEnvelope"
  sk_normalizer :: "DomainError + Normalizer"

text \<open>The parameters of a sync: the codec of fingerprints, the clock of the store, and the store after other tasks.\<close>

record SyncWorld =
  wd_codec :: codec
  wd_clock :: int
  wd_meanwhile :: "Database \<Rightarrow> Database"
  wd_started_at :: "Timestamp option"
  wd_finished_at :: "Timestamp option"

type_synonym Provider = "SyncRequest \<Rightarrow> string option \<Rightarrow> ConnectorFailure + SyncOutcome"

text \<open>\<open>store.write\<close> of a connection: an error leaves the store as it is.\<close>

definition save_connection :: "SyncWorld \<Rightarrow> Connection \<Rightarrow> Database \<Rightarrow> Database" where
  "save_connection w connection db =
     (case upsert_connection (wd_clock w) connection db of Inl _ \<Rightarrow> db | Inr db' \<Rightarrow> db')"

definition mark_internal :: "SyncWorld \<Rightarrow> SyncKind \<Rightarrow> Connection \<Rightarrow> Database \<Rightarrow> Database" where
  "mark_internal w sk connection db =
     (if sk_marks sk then save_connection w (connection\<lparr>conn_health := sk_health sk Internal\<rparr>) db else db)"

definition status_not_saved :: "SyncKind \<Rightarrow> ErrorEnvelope" where
  "status_not_saved sk = safe_error ''connection_unavailable'' (sk_label sk @ '' connection status could not be saved.'')"

definition sync_unavailable :: "SyncKind \<Rightarrow> string \<Rightarrow> ErrorEnvelope" where
  "sync_unavailable sk message = safe_error ''sync_unavailable'' (sk_label sk @ message)"

text \<open>From the \<open>match\<close> on the outcome of the connector to the end of the function.\<close>

definition sync_finish ::
    "SyncWorld \<Rightarrow> SyncKind \<Rightarrow> SyncRequest \<Rightarrow> Connection \<Rightarrow> SyncRunHandle \<Rightarrow> Timestamp \<Rightarrow> ConnectorFailure + SyncOutcome \<Rightarrow>
     Database SyncEngine \<Rightarrow> (ErrorEnvelope + unit) \<times> Database" where
  "sync_finish w sk request connection handle finished_at outcome q =
     (let writer = store_writer (wd_clock w) in
      case outcome of
        Inr outcome \<Rightarrow>
          (let is_partial = (case outcome of PartialOutcome _ _ \<Rightarrow> True | Complete _ \<Rightarrow> False);
               health = (if is_partial then ConnectorDegraded else ConnectorHealthy);
               connection = (if is_partial then connection
                             else connection\<lparr>conn_last_success_at := Some finished_at\<rparr>) in
           case res_bind (sk_normalizer sk) (\<lambda>nz. normalize (wd_codec w) nz request (outcome_batch outcome)) of
             Inl _ \<Rightarrow>
               (let q = snd (engine_fail writer handle
                   \<lparr>err_code = Internal, err_message = sk_label sk @ '' data normalization failed.'',
                    err_retryable = False\<rparr> finished_at q) in
                (Inl (sync_unavailable sk '' data could not be saved.''), mark_internal w sk connection (wq_store q)))
           | Inr normalized \<Rightarrow>
               (case engine_commit store_reader writer handle normalized finished_at q of
                  (Inl _, q) \<Rightarrow>
                    (Inl (sync_unavailable sk '' data could not be saved.''), mark_internal w sk connection (wq_store q))
                | (Inr _, q) \<Rightarrow>
                    (case upsert_connection (wd_clock w) (connection\<lparr>conn_health := health\<rparr>) (wq_store q) of
                       Inl _ \<Rightarrow> (Inl (status_not_saved sk), wq_store q)
                     | Inr db \<Rightarrow> (Inr (), db))))
      | Inl failure \<Rightarrow>
          (case engine_fail writer handle
              \<lparr>err_code = cf_code failure, err_message = sk_label sk @ '' synchronization failed.'',
               err_retryable = cf_retryable failure\<rparr> finished_at q of
             (Inl _, q) \<Rightarrow> (Inl (sync_unavailable sk '' synchronization could not finish.''), wq_store q)
           | (Inr _, q) \<Rightarrow>
               (case upsert_connection (wd_clock w)
                   (connection\<lparr>conn_health := sk_health sk (cf_code failure)\<rparr>) (wq_store q) of
                  Inl _ \<Rightarrow> (Inl (status_not_saved sk), wq_store q)
                | Inr db \<Rightarrow> (Inl (sk_error sk (cf_code failure)), db))))"

text \<open>From \<open>engine.start\<close> to that \<open>match\<close>. While the connector is at work the store is not the sync's own.\<close>

definition sync_run ::
    "SyncWorld \<Rightarrow> SyncKind \<Rightarrow> Provider \<Rightarrow> string option \<Rightarrow> SyncRequest \<Rightarrow> Connection \<Rightarrow> SyncTrigger \<Rightarrow> Timestamp \<Rightarrow>
     Database \<Rightarrow> (ErrorEnvelope + unit) \<times> Database" where
  "sync_run w sk provider secret request connection trigger started_at db =
     (case engine_start store_reader (store_writer (wd_clock w)) connection
          \<lparr>st_sync_run_id = req_sync_run_id request, st_mode = Full, st_trigger = trigger, st_scope = req_scope request,
           st_started_at = started_at, st_targeted_resources = []\<rparr> (WriterQueue_new db) of
        Inl (_ :: StoreError SyncEngineError) \<Rightarrow>
          (Inl (sync_unavailable sk '' synchronization could not start.''), mark_internal w sk connection db)
      | Inr (handle, q) \<Rightarrow>
          (let outcome = provider request secret;
               q = q\<lparr>wq_store := wd_meanwhile w (wq_store q)\<rparr> in
           case wd_finished_at w of
             None \<Rightarrow> (Inl (sync_unavailable sk '' synchronization could not finish.''), wq_store q)
           | Some finished_at \<Rightarrow> sync_finish w sk request connection handle finished_at outcome q))"

text \<open>
  What every sync begins with: the attempt is recorded, then \<open>continue\<close> gets the connection and the start. The request
  has the scope that the type gives it.
\<close>

definition sync_attempt ::
    "SyncWorld \<Rightarrow> SyncKind \<Rightarrow> Connection \<Rightarrow> Database \<Rightarrow>
     (Connection \<Rightarrow> Timestamp \<Rightarrow> Database \<Rightarrow> (ErrorEnvelope + unit) \<times> Database) \<Rightarrow> (ErrorEnvelope + unit) \<times> Database" where
  "sync_attempt w sk connection db continue =
     (let not_started = sync_unavailable sk '' synchronization could not start.'' in
      case wd_started_at w of
        None \<Rightarrow> (Inl not_started, db)
      | Some started_at \<Rightarrow>
          (let connection = connection\<lparr>conn_last_attempt_at := Some started_at\<rparr> in
           case upsert_connection (wd_clock w) connection db of
             Inl _ \<Rightarrow> (Inl not_started, db)
           | Inr db \<Rightarrow> continue connection started_at db))"

definition sync_request :: "SyncKind \<Rightarrow> Connection \<Rightarrow> string \<Rightarrow> SyncRunId \<Rightarrow> ErrorEnvelope + SyncRequest" where
  "sync_request sk connection scope sync_run_id =
     map_err (\<lambda>_. sync_unavailable sk '' synchronization could not start.'')
       (map_ok (\<lambda>scope.
          \<lparr>req_sync_run_id = sync_run_id,
           req_connection = \<lparr>ci_connection_id = conn_id connection, ci_connector_type = sk_type sk,
             ci_config = conn_config connection, ci_config_schema_version = 1\<rparr>,
           req_mode = Full, req_scope = scope, req_cursor = None, req_targeted_resources = []\<rparr>)
          (string_value_new ''Scope'' scope))"

definition config_text :: "Connection \<Rightarrow> string \<Rightarrow> string option" where
  "config_text connection field =
     (case value_get (conn_config connection) field of Some (JString s) \<Rightarrow> Some s | _ \<Rightarrow> None)"

section \<open>The syncs\<close>

definition github_kind :: SyncKind where
  "github_kind = \<lparr>sk_type = ''github'', sk_label = ''GitHub'', sk_marks = True, sk_health = connector_health,
     sk_error = github_sync_error, sk_normalizer = github_normalizer\<rparr>"

definition ssh_kind :: SyncKind where
  "ssh_kind = \<lparr>sk_type = ''ssh'', sk_label = ''SSH'', sk_marks = True, sk_health = ssh_connector_health,
     sk_error = ssh_sync_error, sk_normalizer = ssh_normalizer\<rparr>"

text \<open>The other types report every failure of the provider as unreachable, with one error of their own.\<close>

definition plain_kind :: "ConnectorType \<Rightarrow> string \<Rightarrow> string \<Rightarrow> DomainError + Normalizer \<Rightarrow> SyncKind" where
  "plain_kind t label error_code normalizer = \<lparr>sk_type = t, sk_label = label, sk_marks = False, sk_health = (\<lambda>_. Unreachable),
     sk_error = (\<lambda>_. safe_error error_code (label @ '' synchronization failed.'')), sk_normalizer = normalizer\<rparr>"

definition dokploy_kind :: SyncKind where
  "dokploy_kind = plain_kind ''dokploy'' ''Dokploy'' ''dokploy_sync_failed'' dokploy_normalizer"

definition cloudflare_kind :: SyncKind where
  "cloudflare_kind = plain_kind ''cloudflare'' ''Cloudflare'' ''cloudflare_sync_failed'' cloudflare_normalizer"

definition supabase_managed_kind :: SyncKind where
  "supabase_managed_kind =
     plain_kind ''supabase-managed'' ''Supabase managed'' ''supabase_managed_sync_failed'' supabase_managed_normalizer"

definition aliyun_kind :: SyncKind where
  "aliyun_kind = plain_kind ''aliyun'' ''Aliyun'' ''aliyun_sync_failed'' aliyun_normalizer"

definition tencent_kind :: SyncKind where
  "tencent_kind = plain_kind ''tencent'' ''Tencent'' ''tencent_sync_failed'' tencent_normalizer"

definition read_legacy_github_secret :: "FileSystem \<Rightarrow> Path \<Rightarrow> ConnectionId \<Rightarrow> string option" where
  "read_legacy_github_secret fs legacy_secret_dir connection_id =
     (case fs_read fs (path_join legacy_secret_dir (path_new (connection_id @ ''.token''))) of
        Inl _ \<Rightarrow> None
      | Inr bytes \<Rightarrow> if bytes = [] then None else Some bytes)"

text \<open>A read of the secrets does not fail in the model of the store, so the branch for its error is left out.\<close>

definition sync_github ::
    "SyncWorld \<Rightarrow> FileSystem \<Rightarrow> Path \<Rightarrow> Provider \<Rightarrow> Connection \<Rightarrow> SyncTrigger \<Rightarrow> SyncRunId \<Rightarrow> Database \<Rightarrow>
     (ErrorEnvelope + unit) \<times> Database" where
  "sync_github w fs legacy_secret_dir provider connection trigger sync_run_id db =
     sync_attempt w github_kind connection db (\<lambda>connection started_at db.
       case sync_request github_kind connection (''github:'' @ conn_id connection) sync_run_id of
         Inl e \<Rightarrow> (Inl e, db)
       | Inr request \<Rightarrow>
           (case connection_secret db (conn_id connection) of
              Some secret \<Rightarrow> sync_run w github_kind provider (Some secret) request connection trigger started_at db
            | None \<Rightarrow>
                (case read_legacy_github_secret fs legacy_secret_dir (conn_id connection) of
                   Some secret \<Rightarrow>
                     (let db = (case upsert_connection_secret (conn_id connection) secret db of Inl _ \<Rightarrow> db | Inr db' \<Rightarrow> db') in
                      sync_run w github_kind provider (Some secret) request connection trigger started_at db)
                 | None \<Rightarrow>
                     (case upsert_connection (wd_clock w) (connection\<lparr>conn_health := AuthFailed\<rparr>) db of
                        Inl _ \<Rightarrow> (Inl (status_not_saved github_kind), db)
                      | Inr db \<Rightarrow>
                          (Inl (safe_error ''credential_unavailable'' ''GitHub token is unavailable from local storage.''), db)))))"

definition sync_ssh ::
    "SyncWorld \<Rightarrow> Provider \<Rightarrow> Connection \<Rightarrow> SyncTrigger \<Rightarrow> SyncRunId \<Rightarrow> Database \<Rightarrow> (ErrorEnvelope + unit) \<times> Database" where
  "sync_ssh w provider connection trigger sync_run_id db =
     sync_attempt w ssh_kind connection db (\<lambda>connection started_at db.
       case sync_request ssh_kind connection (''ssh:'' @ conn_id connection) sync_run_id of
         Inl e \<Rightarrow> (Inl e, db)
       | Inr request \<Rightarrow> sync_run w ssh_kind provider None request connection trigger started_at db)"

text \<open>The stored credential of a connection; \<open>continue\<close> gets it.\<close>

definition with_credential ::
    "SyncKind \<Rightarrow> string \<Rightarrow> Connection \<Rightarrow> Database \<Rightarrow> (string \<Rightarrow> (ErrorEnvelope + unit) \<times> Database) \<Rightarrow>
     (ErrorEnvelope + unit) \<times> Database" where
  "with_credential sk message connection db continue =
     (case connection_secret db (conn_id connection) of
        None \<Rightarrow> (Inl (safe_error ''credential_unavailable'' (sk_label sk @ message)), db)
      | Some secret \<Rightarrow> continue secret)"

text \<open>
  The connector that a sync makes for itself is a parameter, and so is that its transport cannot be made; for Dokploy it
  depends on the base URL of the connection, and the error keeps the message.
\<close>

definition sync_dokploy ::
    "SyncWorld \<Rightarrow> (string \<Rightarrow> string + Provider) \<Rightarrow> Connection \<Rightarrow> SyncTrigger \<Rightarrow> SyncRunId \<Rightarrow> Database \<Rightarrow>
     (ErrorEnvelope + unit) \<times> Database" where
  "sync_dokploy w connector_new connection trigger sync_run_id db =
     sync_attempt w dokploy_kind connection db (\<lambda>connection started_at db.
       case config_text connection ''base_url'' of
         None \<Rightarrow> (Inl (safe_error ''sync_unavailable'' ''Dokploy base_url is missing from connection config.''), db)
       | Some base_url \<Rightarrow>
           (case sync_request dokploy_kind connection (''dokploy:'' @ conn_id connection) sync_run_id of
              Inl e \<Rightarrow> (Inl e, db)
            | Inr request \<Rightarrow>
                with_credential dokploy_kind '' credential is unavailable from local storage.'' connection db (\<lambda>secret.
                  case connector_new base_url of
                    Inl message \<Rightarrow> (Inl (retryable_error ''dokploy_unreachable'' message), db)
                  | Inr provider \<Rightarrow>
                      sync_run w dokploy_kind provider (Some secret) request connection trigger started_at db)))"

definition sync_cloudflare ::
    "SyncWorld \<Rightarrow> Provider \<Rightarrow> Connection \<Rightarrow> SyncTrigger \<Rightarrow> SyncRunId \<Rightarrow> Database \<Rightarrow> (ErrorEnvelope + unit) \<times> Database" where
  "sync_cloudflare w provider connection trigger sync_run_id db =
     sync_attempt w cloudflare_kind connection db (\<lambda>connection started_at db.
       case sync_request cloudflare_kind connection (''cloudflare:'' @ conn_id connection) sync_run_id of
         Inl e \<Rightarrow> (Inl e, db)
       | Inr request \<Rightarrow>
           with_credential cloudflare_kind '' credential is unavailable from local storage.'' connection db (\<lambda>secret.
             sync_run w cloudflare_kind provider (Some secret) request connection trigger started_at db))"

definition sync_supabase_managed ::
    "SyncWorld \<Rightarrow> Provider option \<Rightarrow> Connection \<Rightarrow> SyncTrigger \<Rightarrow> SyncRunId \<Rightarrow> Database \<Rightarrow> (ErrorEnvelope + unit) \<times> Database" where
  "sync_supabase_managed w transport connection trigger sync_run_id db =
     sync_attempt w supabase_managed_kind connection db (\<lambda>connection started_at db.
       case sync_request supabase_managed_kind connection (''supabase-managed:'' @ conn_id connection) sync_run_id of
         Inl e \<Rightarrow> (Inl e, db)
       | Inr request \<Rightarrow>
           with_credential supabase_managed_kind '' credential is unavailable.'' connection db (\<lambda>secret.
             case transport of
               None \<Rightarrow> (Inl (retryable_error ''supabase_managed_unreachable'' ''Supabase managed transport is unavailable.''), db)
             | Some provider \<Rightarrow>
                 sync_run w supabase_managed_kind provider (Some secret) request connection trigger started_at db))"

definition sync_aliyun ::
    "SyncWorld \<Rightarrow> Provider option \<Rightarrow> Connection \<Rightarrow> SyncTrigger \<Rightarrow> SyncRunId \<Rightarrow> Database \<Rightarrow> (ErrorEnvelope + unit) \<times> Database" where
  "sync_aliyun w transport connection trigger sync_run_id db =
     sync_attempt w aliyun_kind connection db (\<lambda>connection started_at db.
       let region = (case config_text connection ''region'' of None \<Rightarrow> ''unknown'' | Some r \<Rightarrow> r) in
       case sync_request aliyun_kind connection (''aliyun:'' @ region) sync_run_id of
         Inl e \<Rightarrow> (Inl e, db)
       | Inr request \<Rightarrow>
           with_credential aliyun_kind '' credential is unavailable.'' connection db (\<lambda>secret.
             case transport of
               None \<Rightarrow> (Inl (retryable_error ''aliyun_unreachable'' ''Aliyun transport is unavailable.''), db)
             | Some provider \<Rightarrow> sync_run w aliyun_kind provider (Some secret) request connection trigger started_at db))"

definition sync_tencent ::
    "SyncWorld \<Rightarrow> Provider option \<Rightarrow> Connection \<Rightarrow> SyncTrigger \<Rightarrow> SyncRunId \<Rightarrow> Database \<Rightarrow> (ErrorEnvelope + unit) \<times> Database" where
  "sync_tencent w transport connection trigger sync_run_id db =
     sync_attempt w tencent_kind connection db (\<lambda>connection started_at db.
       let region = (case config_text connection ''region'' of None \<Rightarrow> ''unknown'' | Some r \<Rightarrow> r) in
       case sync_request tencent_kind connection (''tencent:'' @ region) sync_run_id of
         Inl e \<Rightarrow> (Inl e, db)
       | Inr request \<Rightarrow>
           with_credential tencent_kind '' credential is unavailable.'' connection db (\<lambda>secret.
             case transport of
               None \<Rightarrow> (Inl (retryable_error ''tencent_unreachable'' ''Tencent transport is unavailable.''), db)
             | Some provider \<Rightarrow> sync_run w tencent_kind provider (Some secret) request connection trigger started_at db))"

section \<open>What a run leaves behind\<close>

lemma submit_single:
  assumes "submit (store_writer now) c q = (r, q')" and "wq_pending q = []"
  shows "(case r of
      Inr result \<Rightarrow> commit_sync now c (wq_store q) = Inr (result, wq_store q')
    | Inl e \<Rightarrow> commit_sync now c (wq_store q) = Inl e \<and> wq_store q' = wq_store q)"
  using assms by (auto simp: submit_def flush_def enqueue_def store_writer_def split: sum.splits prod.splits)

lemma build_commit_run:
  assumes "build_commit rd s handle batch at = (Inr commit :: 'e SyncEngineError + SyncCommit)"
  shows "run_id (sc_run commit) = run_id (h_run handle)" and "run_finished_at (sc_run commit) = Some at"
    and "run_status (sc_run commit) = (if is_partial_coverage (vb_coverage batch) then RunPartial else RunSucceeded)"
  using assms by (auto simp: build_commit_def finished_run_def Let_def res_simps)

lemma engine_start_facts:
  assumes "engine_start rd w connection start q = Inr (handle, q')"
  shows "run_id (h_run handle) = st_sync_run_id start" and "wq_pending q' = wq_pending q"
  using assms by (auto simp: engine_start_def store_call_def Let_def res_simps split: sum.splits)

lemma engine_commit_row:
  assumes "engine_commit store_reader (store_writer now) handle batch at q = (Inr result, q')" and "wq_pending q = []"
  shows "\<exists>row. bt_get (db_sync_runs (wq_store q')) (run_id (h_run handle)) = Some row \<and> run_finished_at row = Some at \<and>
    run_status row = (if is_partial_coverage (vb_coverage batch) then RunPartial else RunSucceeded)"
proof -
  obtain commit where b: "build_commit store_reader (wq_store q) handle batch at =
      (Inr commit :: StoreError SyncEngineError + SyncCommit)" and s: "submit (store_writer now) commit q = (Inr result, q')"
    using assms(1) by (auto simp: engine_commit_def store_call_def res_simps split: sum.splits prod.splits)
  from submit_single[OF s assms(2)] have "commit_sync now commit (wq_store q) = Inr (result, wq_store q')" by simp
  then obtain row where "db_sync_runs (wq_store q') =
      bt_insert (run_id (sc_run commit)) (completed row (sc_run commit)) (db_sync_runs (wq_store q))"
    by (rule commit_sync_tables)
  with build_commit_run[OF b] show ?thesis by (simp add: bt_get_insert completed_def)
qed

lemma engine_fail_row:
  assumes "engine_fail (store_writer now) handle error at q = (Inr result, q')" and "wq_pending q = []"
  shows "\<exists>row. bt_get (db_sync_runs (wq_store q')) (run_id (h_run handle)) = Some row \<and> run_finished_at row = Some at \<and>
    run_status row = RunFailed \<and> run_errors row = [error]"
proof -
  have "submit (store_writer now) (failure_commit (h_run handle) error at) q = (Inr result, q')"
    using assms(1) by (auto simp: engine_fail_def store_call_def split: if_splits sum.splits prod.splits)
  from submit_single[OF this assms(2)]
  have "commit_sync now (failure_commit (h_run handle) error at) (wq_store q) = Inr (result, wq_store q')" by simp
  then obtain row where "db_sync_runs (wq_store q') = bt_insert (run_id (sc_run (failure_commit (h_run handle) error at)))
      (completed row (sc_run (failure_commit (h_run handle) error at))) (db_sync_runs (wq_store q))"
    by (rule commit_sync_tables)
  then show ?thesis by (simp add: bt_get_insert completed_def failure_commit_def)
qed

lemma upsert_connection_rows:
  assumes "upsert_connection now c db = Inr db'"
  shows "bt_get (db_connections db') (conn_id c) = Some c" and "db_sync_runs db' = db_sync_runs db"
  using assms by (auto simp: upsert_connection_def bump_projection_metadata_def bt_get_insert split: option.splits)

lemma mark_internal_row:
  "sk_marks sk \<Longrightarrow> bt_get (db_connections (mark_internal w sk c db)) (conn_id c) = Some (c\<lparr>conn_health := sk_health sk Internal\<rparr>)
     \<or> db_projection (mark_internal w sk c db) = None"
  by (auto simp: mark_internal_def save_connection_def upsert_connection_def bump_projection_metadata_def bt_get_insert
    split: option.splits sum.splits)

lemma sync_finish_ok:
  assumes "sync_finish w sk request connection handle at outcome q = (Inr (), db')" and "wq_pending q = []"
  shows "\<exists>x nz batch row. outcome = Inr x \<and> sk_normalizer sk = Inr nz \<and>
      normalize (wd_codec w) nz request (outcome_batch x) = Inr batch \<and>
      bt_get (db_sync_runs db') (run_id (h_run handle)) = Some row \<and> run_finished_at row = Some at \<and>
      run_status row = (if is_partial_coverage (vb_coverage batch) then RunPartial else RunSucceeded) \<and>
      bt_get (db_connections db') (conn_id connection) =
        Some (case x of
          Complete _ \<Rightarrow> connection\<lparr>conn_last_success_at := Some at, conn_health := ConnectorHealthy\<rparr>
        | PartialOutcome _ _ \<Rightarrow> connection\<lparr>conn_health := ConnectorDegraded\<rparr>)"
proof -
  obtain x where x: "outcome = Inr x"
    using assms(1) by (cases outcome) (auto simp: sync_finish_def Let_def split: prod.splits sum.splits)
  let ?c = "case x of Complete _ \<Rightarrow> connection\<lparr>conn_last_success_at := Some at\<rparr> | PartialOutcome _ _ \<Rightarrow> connection"
  let ?h = "case x of Complete _ \<Rightarrow> ConnectorHealthy | PartialOutcome _ _ \<Rightarrow> ConnectorDegraded"
  obtain nz batch result q' where n: "sk_normalizer sk = Inr nz"
      "normalize (wd_codec w) nz request (outcome_batch x) = Inr batch"
    and c: "engine_commit store_reader (store_writer (wd_clock w)) handle batch at q = (Inr result, q')"
    and u: "upsert_connection (wd_clock w) (?c\<lparr>conn_health := ?h\<rparr>) (wq_store q') = Inr db'"
    using assms(1) x by (cases x) (auto simp: sync_finish_def Let_def res_simps split: prod.splits sum.splits)
  have "conn_id (?c\<lparr>conn_health := ?h\<rparr>) = conn_id connection" by (cases x) simp_all
  with upsert_connection_rows[OF u] engine_commit_row[OF c assms(2)] x n show ?thesis by (cases x) auto
qed

lemma sync_finish_failure:
  assumes "sync_finish w sk request connection handle at (Inl failure) q = (r, db')" and "wq_pending q = []"
  shows "(\<exists>row. r = Inl (sk_error sk (cf_code failure)) \<and>
      bt_get (db_sync_runs db') (run_id (h_run handle)) = Some row \<and> run_finished_at row = Some at \<and>
      run_status row = RunFailed \<and> map err_code (run_errors row) = [cf_code failure] \<and>
      bt_get (db_connections db') (conn_id connection) = Some (connection\<lparr>conn_health := sk_health sk (cf_code failure)\<rparr>)) \<or>
    r = Inl (sync_unavailable sk '' synchronization could not finish.'') \<or> r = Inl (status_not_saved sk)"
proof -
  let ?e = "\<lparr>err_code = cf_code failure, err_message = sk_label sk @ '' synchronization failed.'',
    err_retryable = cf_retryable failure\<rparr>"
  let ?c = "connection\<lparr>conn_health := sk_health sk (cf_code failure)\<rparr>"
  obtain x q' where f: "engine_fail (store_writer (wd_clock w)) handle ?e at q = (x, q')" by fastforce
  note run = assms(1)[unfolded sync_finish_def Let_def sum.case f prod.case]
  show ?thesis
  proof (cases x)
    case (Inl e)
    with run show ?thesis by auto
  next
    case (Inr result)
    show ?thesis
    proof (cases "upsert_connection (wd_clock w) ?c (wq_store q')")
      case (Inr db2)
      with engine_fail_row[OF f[unfolded \<open>x = Inr result\<close>] assms(2)] upsert_connection_rows[OF Inr] run \<open>x = Inr result\<close>
      show ?thesis by auto
    qed (use run Inr in auto)
  qed
qed

lemma sync_finish_refused:
  assumes "sync_finish w sk request connection handle at (Inr (Complete batch)) q = (r, db')" and "sk_marks sk"
    and "res_bind (sk_normalizer sk) (\<lambda>nz. normalize (wd_codec w) nz request batch) = Inl e"
  shows "r = Inl (sync_unavailable sk '' data could not be saved.'') \<and>
      (bt_get (db_connections db') (conn_id connection) =
         Some (connection\<lparr>conn_last_success_at := Some at, conn_health := sk_health sk Internal\<rparr>) \<or>
       db_projection db' = None)"
proof -
  obtain db2 where "r = Inl (sync_unavailable sk '' data could not be saved.'')"
    and "db' = mark_internal w sk (connection\<lparr>conn_last_success_at := Some at\<rparr>) db2"
    using assms(1,3) by (auto simp: sync_finish_def Let_def)
  with mark_internal_row[OF assms(2), of w "connection\<lparr>conn_last_success_at := Some at\<rparr>" db2] show ?thesis by simp
qed

lemma sync_run_started:
  assumes "sync_run w sk provider secret request connection trigger started_at db = (r, db')"
    and "wd_finished_at w = Some at"
  obtains "r = Inl (sync_unavailable sk '' synchronization could not start.'')"
  | handle q where "run_id (h_run handle) = req_sync_run_id request" and "wq_pending q = []"
      and "sync_finish w sk request connection handle at (provider request secret) q = (r, db')"
proof (cases "engine_start store_reader (store_writer (wd_clock w)) connection
    \<lparr>st_sync_run_id = req_sync_run_id request, st_mode = Full, st_trigger = trigger, st_scope = req_scope request,
     st_started_at = started_at, st_targeted_resources = []\<rparr> (WriterQueue_new db) ::
    StoreError SyncEngineError + SyncRunHandle \<times> Database SyncEngine")
  case (Inl e)
  with assms(1) that(1) show ?thesis by (simp add: sync_run_def)
next
  case (Inr s)
  obtain handle q where s: "s = (handle, q)" by fastforce
  from assms(1) Inr s assms(2)
  have "sync_finish w sk request connection handle at (provider request secret)
      (q\<lparr>wq_store := wd_meanwhile w (wq_store q)\<rparr>) = (r, db')"
    by (simp add: sync_run_def)
  with engine_start_facts[OF Inr[unfolded s]] that(2)[of handle "q\<lparr>wq_store := wd_meanwhile w (wq_store q)\<rparr>"] show ?thesis
    by (simp add: WriterQueue_new_def)
qed


section \<open>Samples\<close>

definition sample_world :: SyncWorld where
  "sample_world = \<lparr>wd_codec = flat_codec, wd_clock = 9, wd_meanwhile = id, wd_started_at = Some 20, wd_finished_at = Some 30\<rparr>"

definition quiet_batch :: ObservationBatch where
  "quiet_batch = sample_batch\<lparr>ob_resources := [], ob_relations := [], ob_coverage := AuthoritativeFull ''github:c1'',
     ob_warnings := []\<rparr>"

text \<open>A batch in which the connector found a secret: no normalizer accepts it.\<close>

definition tainted_batch :: ObservationBatch where
  "tainted_batch = quiet_batch\<lparr>ob_redaction_report := (ob_redaction_report quiet_batch)\<lparr>rr_secret_sentinels_detected := 1\<rparr>\<rparr>"

definition github_secrets :: Database where
  "github_secrets = sample_database\<lparr>db_secrets := [(''c1'', ''token'')]\<rparr>"

definition github_sync_of :: "ConnectorFailure + SyncOutcome \<Rightarrow> (ErrorEnvelope + unit) \<times> Database" where
  "github_sync_of outcome = sync_github sample_world sample_fs [] (\<lambda>_ _. outcome) Store_Purge.sample_connection User ''s9'' github_secrets"

definition outcome_row :: "(ErrorEnvelope + unit) \<times> Database \<Rightarrow> bool \<times> SyncRunStatus option \<times> (ConnectorHealth \<times> Timestamp option) option" where
  "outcome_row rd = (is_ok (fst rd), map_option run_status (bt_get (db_sync_runs (snd rd)) ''s9''),
     map_option (\<lambda>c. (conn_health c, conn_last_success_at c)) (bt_get (db_connections (snd rd)) ''c1''))"

text \<open>The equations that evaluate a run over these samples.\<close>

lemmas run_defs = sync_run_def sync_finish_def engine_start_def engine_commit_def engine_fail_def failure_commit_def
  store_call_def store_reader_def store_writer_def sync_cursor_def initial_coverage_def start_sync_run_def
  insert_sync_run_def bump_projection_metadata_def has_key_def submit_def flush_def enqueue_def commit_sync_def
  validate_commit_def complete_sync_run_def write_connector_state_def upsert_connection_def build_commit_def
  finished_run_def missing_pass_def missing_evidence_state_def list_resources_for_scope_def normalize_def
  batch_validate_for_def accepts_coverage_def validate_handle_def validate_coverage_def empty_draft_def Let_def

lemmas sample_run_defs = sample_world_def sample_request_def quiet_batch_def sample_batch_def WriterQueue_new_def
  sample_database_def second_sample_def Store_Purge.sample_connection_def empty_database_def bt_values_def is_ok_def

text \<open>
  A GitHub sync whose observations were refused: its run is failed, the caller gets an error, and yet the connection says
  that it succeeded just now.
\<close>

lemma refused_sync_looks_successful:
  "outcome_row (github_sync_of (Inr (Complete tainted_batch))) = (False, Some RunFailed, Some (ConnectorDegraded, Some 30))"
proof -
  obtain nz where nz: "github_normalizer = Inr nz"
    using github_valid by (auto simp: normalizer_valid_def split: sum.splits)
  have scope: "string_value_new ''Scope'' ''github:c1'' = Inr ''github:c1''" by code_simp
  show ?thesis
    by (simp add: nz scope outcome_row_def github_sync_of_def sync_github_def sync_attempt_def sync_request_def github_secrets_def
      connection_secret_def github_kind_def tainted_batch_def mark_internal_def save_connection_def connector_health_def
      run_defs sample_run_defs)
qed

text \<open>A run over schemas that are made already.\<close>

definition bare_kind :: SyncKind where
  "bare_kind = github_kind\<lparr>sk_normalizer := Inr \<lparr>nz_attribute_schemas = [], nz_relation_schemas = []\<rparr>\<rparr>"

definition bare_request :: SyncRequest where
  "bare_request = sample_request\<lparr>req_sync_run_id := ''s9'', req_scope := ''github:c1''\<rparr>"

definition bare_run :: "ConnectorFailure + SyncOutcome \<Rightarrow> (ErrorEnvelope + unit) \<times> Database" where
  "bare_run outcome = sync_run sample_world bare_kind (\<lambda>_ _. outcome) None bare_request Store_Purge.sample_connection User 20 sample_database"


end
