(* ===== verification/Spec2Isabelle.thy ===== *)
theory Spec2Isabelle
  imports Core_Secret Normalizer_Properties Store_Migrations Sync_Commit Sync_Ids Sync_Missing
    Binding_Properties Runtime_Properties Query_Properties Query_Freshness Query_Summaries Query_Reach
    Store_Actions Mcp_Bridge Desktop_Sync
begin

text \<open>
  Next Infra keeps a local picture of remote infrastructure. Connectors observe resources and relations of a
  provider; the normalizer turns an observation batch into a validated one without secrets; the sync engine compares
  it with the store and commits a run, its versions and changes, and the evidence of what is missing; bindings and
  inference add relations of their own; a query service reads the committed rows. The desktop host owns the store and
  the scheduler and answers queries over a local socket; the MCP bridge offers them to a client of the Model Context
  Protocol and starts the host when that is allowed. This development models these parts from the Rust sources under
  src/crates and src/apps and proves what makes them correct.

  \<^bold>\<open>Conventions.\<close> A struct is a record, an enum a datatype, each field or constructor with a prefix where two types share
  a name. \<open>Result\<close> is a sum with the error on the left, the question mark is \<open>res_bind\<close>; an operation that can fail half
  way returns its result together with the state. A string is the list of its UTF-8 bytes (\<open>Rust_Str\<close>), an \<open>i64\<close> an integer
  with its range written out (\<open>Rust_Int\<close>), other machine integers are words, or naturals where the code cannot reach
  their bounds. \<open>BTreeMap\<close> and \<open>BTreeSet\<close> are sorted association lists (\<open>Ordered_Map\<close>). What is generic over a trait
  takes the record of the operations of the trait, and the laws it needs of them are a locale that is interpreted on
  the implementation of the program.

  \<^bold>\<open>The theories and the code.\<close>
  \<^item> \<open>Prelude\<close>, \<open>Rust_Str\<close>, \<open>Rust_Int\<close>, \<open>Json\<close>, \<open>Ordered_Map\<close>, \<open>File_System\<close>: the standard library and \<open>serde_json\<close> values, as far
    as the sources use them.
  \<^item> \<open>Core_Ids\<close>, \<open>Core_Model\<close>, \<open>Core_Secret\<close>: next-infra-core. Identifiers and their validation, the domain types, the
    commit types, the naming of secrets.
  \<^item> \<open>Connector_Api\<close>: next-infra-connector-api. Requests, batches, outcomes and descriptors with their checks.
  \<^item> \<open>Normalizer\<close> with \<open>Attribute_Projection\<close>, \<open>Observation_Merge\<close>, \<open>Normalizer_Facts\<close>, \<open>Normalizer_Properties\<close>:
    next-infra-normalizer. A validated batch carries no secret that the scan knows, represents every observation once
    with the latest time, and does not depend on the order; fingerprints identify contents.
  \<^item> \<open>Store\<close>, \<open>Store_Purge\<close>, \<open>Store_Ports\<close> with \<open>Store_Facts\<close>, \<open>Store_Commit\<close>, \<open>Store_History\<close>, \<open>Store_Steps\<close>: projection.rs and
    lib.rs of next-infra-store. A database is the record of its tables; every operation keeps keys and references
    (\<open>store_reachable_intact\<close>), only appends to the history, and a purge removes exactly one connection.
    \<open>Store_Migrations\<close>: migrations/mod.rs, the schemas and how they converge.
  \<^item> \<open>Writer_Queue\<close>, \<open>Sync_Engine\<close> with \<open>Sync_Facts\<close>, \<open>Sync_Commit\<close>, \<open>Sync_Evidence\<close>, \<open>Sync_Missing\<close>, \<open>Sync_Ids\<close>: next-infra-sync. What
    the engine commits passes the checks of the store, its counts are exact, and a resource is tombstoned after two
    full runs in a row that missed it.
  \<^item> \<open>Binding_Service\<close>, \<open>Binding_Ledger\<close>, \<open>Binding_Facts\<close>, \<open>Binding_Properties\<close>: next-infra-binding. Bindings are exclusive and
    mirrored by relations in every reachable state. \<open>Inference\<close>, \<open>Inference_Facts\<close>, \<open>Inference_Properties\<close>,
    \<open>Relation_Writes\<close>: next-infra-inference. A run replaces what its rule inferred, and what it leaves is justified.
  \<^item> \<open>Scheduler\<close>, \<open>Runtime\<close>, \<open>Runtime_Properties\<close>: lib.rs of next-infra-runtime. The rate of planning, the life cycle, and
    that stopping drains the writer queue.
  \<^item> \<open>Store_Query\<close>, \<open>Store_Actions\<close>: query_projection.rs of next-infra-store. \<open>Query_Dto\<close>, \<open>Query_Service\<close>: next-infra-query.
    \<open>Query_Context\<close>, \<open>Query_Mapping\<close>, \<open>Query_Time\<close>, \<open>Query_Source\<close>, \<open>Query_Topology\<close>: query_source.rs of
    next-infra-runtime and next-infra-connector-catalog. \<open>Query_Pages\<close>, \<open>Query_Search\<close>, \<open>Query_Changes\<close>,
    \<open>Query_Properties\<close>: following cursors gives every row once. \<open>Query_Reach\<close>: a topology answer is the bounded
    neighbourhood of its focus. \<open>Query_Freshness\<close>, \<open>Query_Summaries\<close>: the filters, groups and counts are exact.
  \<^item> \<open>Rpc_Framing\<close>, \<open>Rpc_Protocol\<close>, \<open>Rpc_Session\<close>: next-infra-local-rpc. Frames survive a stream that is cut anywhere; both
    ends of a handshake agree; a session answers every request that it read at most once, with at most eight in
    flight, for every order of its threads.
  \<^item> \<open>Mcp_Bridge\<close>: next-infra-mcp. The bridge hands on exactly what the query service answers.
  \<^item> \<open>Host_Integration\<close>, \<open>Host_Facts\<close>: next-infra-host-integration. The installed files, the marker of a quit and the
    integration record; what is accepted is what is installed, and an app that is started is the one on record.
  \<^item> \<open>Mcp_Availability\<close>, \<open>Availability_Facts\<close>, \<open>Mac_Launcher\<close>: availability/state.rs and system.rs of apps/mcp-bridge. The
    bridge makes the host available: it launches an app at most once, only a verified one and never after a quit of
    the user, and it returns within its timeout.
  \<^item> \<open>Host_Lifecycle\<close>: host/lifecycle.rs, host/authorization.rs and the start of lib.rs of apps/desktop. Every event of
    the process by the state that meets it; a process exits only after its quit is durable, drained and stopped.
  \<^item> \<open>Desktop_Driver\<close>, \<open>Desktop_Sync\<close>: scheduled_sync.rs and composition/mod.rs of apps/desktop. The driver, the
    commands and the sync tasks share one flag per connector type; what a sync leaves in the store.

  \<^bold>\<open>Parameters.\<close> SHA-256, the JSON texts that serde writes and reads (\<open>codec\<close>, parsers, \<open>subject_text\<close>), the lower case of
  Unicode, fresh random identifiers, clocks, what the reads of a stream meet, and remote providers are arguments of
  the definitions. Where a theorem needs a law of them, the law is a hypothesis and the witness instantiates it.

  \<^bold>\<open>Bounds and recursion.\<close> Loops over data are structural recursion. The topology search recurses on the levels that are
  left, at most the depth of the plan; \<open>collect_pages\<close> follows as many cursors as its argument says, and the theorems
  say how many are enough; reaping workers decreases the workers not yet looked at. Resolving a name decreases the links that
  are left and then the path. \<open>await_host\<close> polls until its deadline and is a partial function; that it returns is proved
  from the laws of the clock. Numbers are printed by division.

  \<^bold>\<open>Idealisations.\<close> An SQL statement is a filter over sorted tables, and \<open>LIKE\<close> sees no NUL byte; a transaction is one step.
  Equal JSON of an origin means an equal origin. Products of clock parts wrap, as in the release profile. A mutex is
  never poisoned, and an action of a session is atomic. A search in a sorted list finds what the list has.

  \<^bold>\<open>Not modelled.\<close> Sockets, their paths, locks, deadlines and peers; the threads and commands of Tauri, the settings, the key
  chain and the adapter of the desktop host; the set-up of a connection with its provider; the wiring of the bridge's
  main function; opening the database file and the WAL checkpoint. They are effects outside of the program, or glue
  around the parts above. The connectors' HTTP and SSH clients and their mappers (one provider each) are not modelled:
  the syncs take the outcome of a connector as an argument, whatever it is. The fixture connector is a test double.
\<close>

end
